(* ===== verification/Prelude.thy ===== *)
theory Prelude
  imports Main "HOL-Library.AList"
begin

text \<open>
  What the components share: JavaScript's truthiness tests and \<open>??\<close> on optional
  fields, objects used as dictionaries, the reachable states of a handler-by-handler state
  machine and the locale that proves an invariant of it once.

  An absent field and an \<open>undefined\<close> one are both \<^term>\<open>None\<close>. Times are
  milliseconds since the epoch, as in \<open>Date.now()\<close>. Strings are lists of
  characters, each standing for one UTF-16 code unit of the source's strings.
\<close>

section \<open>Collections of facts\<close>

named_theorems js_simps \<open>unfolding of the JavaScript operators\<close>
named_theorems phase_simps \<open>evaluation of the phase predicates\<close>

section \<open>Optional values\<close>

type_synonym millis = int

text \<open>\<open>a ?? b\<close>: the right operand only where the left one is absent.\<close>

definition nullish :: "'a option \<Rightarrow> 'a \<Rightarrow> 'a" where
  [js_simps]: "nullish a b = (case a of None \<Rightarrow> b | Some x \<Rightarrow> x)"

text \<open>Truthiness: an absent or empty string, and an absent or zero number, are falsy.\<close>

definition truthy_str :: "string option \<Rightarrow> bool" where
  [js_simps]: "truthy_str s = (case s of None \<Rightarrow> False | Some x \<Rightarrow> x \<noteq> [])"

definition truthy_num :: "int option \<Rightarrow> bool" where
  [js_simps]: "truthy_num n = (case n of None \<Rightarrow> False | Some x \<Rightarrow> x \<noteq> 0)"

lemma truthy_str_Some [simp]: "truthy_str (Some s) \<longleftrightarrow> s \<noteq> []"
  by (simp add: truthy_str_def)

lemma truthy_str_None [simp]: "\<not> truthy_str None"
  by (simp add: truthy_str_def)

lemma truthy_strD: "truthy_str s \<Longrightarrow> \<exists>x. s = Some x \<and> x \<noteq> []"
  by (auto simp: truthy_str_def split: option.splits)

lemma nullish_Some [simp]: "nullish (Some x) b = x"
  by (simp add: nullish_def)

lemma nullish_None [simp]: "nullish None b = b"
  by (simp add: nullish_def)

section \<open>Objects used as dictionaries\<close>

text \<open>
  An object keyed by ids is an association list with distinct keys: \<open>{...o, [k]: v}\<close>
  is \<^const>\<open>AList.update\<close>, \<open>delete o[k]\<close> is \<^const>\<open>AList.delete\<close>,
  \<open>o[k]\<close> is \<^const>\<open>map_of\<close>.
\<close>

definition distinct_keys :: "('k \<times> 'v) list \<Rightarrow> bool" where
  "distinct_keys kvs = distinct (map fst kvs)"

lemma distinct_keys_Nil [simp]: "distinct_keys []"
  by (simp add: distinct_keys_def)

lemma distinct_keys_update [simp, intro]:
  "distinct_keys kvs \<Longrightarrow> distinct_keys (AList.update k v kvs)"
  by (simp add: distinct_keys_def distinct_update)

lemma distinct_keys_delete [simp, intro]:
  "distinct_keys kvs \<Longrightarrow> distinct_keys (AList.delete k kvs)"
  by (simp add: distinct_keys_def distinct_delete)

lemma distinct_keys_filter [simp, intro]:
  "distinct_keys kvs \<Longrightarrow> distinct_keys (filter P kvs)"
  unfolding distinct_keys_def
  by (induction kvs) auto

lemma set_update_subset: "set (AList.update k v kvs) \<subseteq> insert (k, v) (set kvs)"
  by (induction kvs) auto

lemma set_delete_subset: "set (AList.delete k kvs) \<subseteq> set kvs"
  by (induction kvs) auto

section \<open>Listings by page\<close>

text \<open>What follows the last key of a page of a sorted listing, and what does not.\<close>

lemma take_drop_after:
  assumes "sorted (map fst kvs)" and "distinct (map fst kvs)" and "take n kvs \<noteq> []"
  shows "filter (\<lambda>(k, h). fst (last (take n kvs)) < k) kvs = drop n kvs"
    and "filter (\<lambda>(k, h). \<not> fst (last (take n kvs)) < k) kvs = take n kvs"
proof -
  let ?xs = "take n kvs" and ?ys = "drop n kvs"
  have s: "sorted (map fst ?xs @ map fst ?ys)" "distinct (map fst ?xs @ map fst ?ys)"
    using assms(1,2) by (simp_all flip: map_append)
  have "last ?xs \<in> set ?xs" using assms(3) by simp
  then have l: "fst (last ?xs) \<in> set (map fst ?xs)" by simp
  have a: "\<not> fst (last ?xs) < k" if "(k, h) \<in> set ?xs" for k h
  proof -
    obtain ys where e: "?xs = ys @ [last ?xs]" using assms(3) by (metis append_butlast_last_id)
    have "sorted (map fst ys @ [fst (last ?xs)])"
      using s(1) e by (metis map_append list.map sorted_append)
    moreover have "k \<in> set (map fst ys @ [fst (last ?xs)])"
    proof -
      have "k \<in> fst ` set ?xs" using that by force
      then have "k \<in> fst ` set (ys @ [last ?xs])" by (simp only: e [symmetric])
      then show ?thesis by simp
    qed
    ultimately show ?thesis by (auto simp: sorted_append not_less)
  qed
  have b: "fst (last ?xs) < k" if "(k, h) \<in> set ?ys" for k h
  proof -
    have k: "k \<in> set (map fst ?ys)" using that by force
    have "fst (last ?xs) \<le> k" using s(1) l k unfolding sorted_append by blast
    moreover have "fst (last ?xs) \<noteq> k" using s(2) l k by auto
    ultimately show ?thesis by simp
  qed
  have "filter (\<lambda>(k, h). fst (last ?xs) < k) ?xs = []" "filter (\<lambda>(k, h). fst (last ?xs) < k) ?ys = ?ys"
    using a b by (auto simp: filter_empty_conv filter_id_conv)
  then have "filter (\<lambda>(k, h). fst (last ?xs) < k) (?xs @ ?ys) = ?ys"
    by (simp only: filter_append append_Nil append_Nil2)
  then show "filter (\<lambda>(k, h). fst (last ?xs) < k) kvs = ?ys" by (simp only: append_take_drop_id)
  have "filter (\<lambda>(k, h). \<not> fst (last ?xs) < k) ?ys = []" "filter (\<lambda>(k, h). \<not> fst (last ?xs) < k) ?xs = ?xs"
    using a b by (auto simp: filter_empty_conv filter_id_conv)
  then have "filter (\<lambda>(k, h). \<not> fst (last ?xs) < k) (?xs @ ?ys) = ?xs"
    by (simp only: filter_append append_Nil append_Nil2)
  then show "filter (\<lambda>(k, h). \<not> fst (last ?xs) < k) kvs = ?xs" by (simp only: append_take_drop_id)
qed

section \<open>Reachable states and invariants\<close>

text \<open>
  A component is a set of initial states and a step relation labelled with the event that
  drives it; one step is one handler, run up to its next remote call.
\<close>

inductive reach :: "('s \<Rightarrow> bool) \<Rightarrow> ('s \<Rightarrow> 'e \<Rightarrow> 's \<Rightarrow> bool) \<Rightarrow> 's \<Rightarrow> bool"
  for init :: "'s \<Rightarrow> bool" and step :: "'s \<Rightarrow> 'e \<Rightarrow> 's \<Rightarrow> bool" where
  reach_start: "init s \<Longrightarrow> reach init step s"
| reach_next: "reach init step s \<Longrightarrow> step s e t \<Longrightarrow> reach init step t"

text \<open>An execution: the events in order, from a given state.\<close>

inductive run :: "('s \<Rightarrow> 'e \<Rightarrow> 's \<Rightarrow> bool) \<Rightarrow> 's \<Rightarrow> 'e list \<Rightarrow> 's \<Rightarrow> bool"
  for step :: "'s \<Rightarrow> 'e \<Rightarrow> 's \<Rightarrow> bool" where
  run_done: "run step s [] s"
| run_more: "step s e t \<Longrightarrow> run step t es u \<Longrightarrow> run step s (e # es) u"

inductive_cases run_NilE: "run step s [] u"
inductive_cases run_ConsE: "run step s (e # es) u"

lemma reach_run: "run step s es t \<Longrightarrow> reach init step s \<Longrightarrow> reach init step t"
  by (induction rule: run.induct) (blast intro: reach_next)+

locale inductive_invariant =
  fixes init :: "'s \<Rightarrow> bool"
    and step :: "'s \<Rightarrow> 'e \<Rightarrow> 's \<Rightarrow> bool"
    and inv :: "'s \<Rightarrow> bool"
  assumes holds_initially: "init s \<Longrightarrow> inv s"
    and kept_by_step: "inv s \<Longrightarrow> step s e t \<Longrightarrow> inv t"
begin

lemma holds_in_reach: "reach init step s \<Longrightarrow> inv s"
  by (induction rule: reach.induct) (blast intro: holds_initially kept_by_step)+

lemma kept_by_run: "run step s es t \<Longrightarrow> inv s \<Longrightarrow> inv t"
  by (induction rule: run.induct) (blast intro: kept_by_step)+

lemma step_from_reach:
  assumes "reach init step s" and "step s e t"
  shows "inv s \<and> inv t"
  using assms by (blast intro: holds_in_reach kept_by_step)

end

text \<open>
  A quantity that no step lowers (a revision, a count of deliveries) stays up along every
  execution that keeps the invariant.
\<close>

locale monotone_measure = inductive_invariant +
  fixes rank :: "'a \<Rightarrow> nat"
  assumes rank_step: "inv s \<Longrightarrow> step s e t \<Longrightarrow> rank s \<le> rank t"
begin

lemma rank_run: "run step s es t \<Longrightarrow> inv s \<Longrightarrow> rank s \<le> rank t"
proof (induction rule: run.induct)
  case (run_more s e t es u)
  from run_more.hyps(1) run_more.prems have "inv t" by (rule kept_by_step [rotated])
  with run_more.IH have "rank t \<le> rank u" by blast
  moreover have "rank s \<le> rank t"
    using run_more.prems run_more.hyps(1) by (rule rank_step)
  ultimately show ?case by simp
qed simp

end

end
