(* ===== verification/Runtime_Types.thy ===== *)
theory Runtime_Types
  imports Prelude
begin

text \<open>
  The vocabulary of \<open>src/instances.ts\<close>, \<open>protocol/types.ts\<close> and the phase type of
  \<open>src/sessions.ts\<close>: the lifecycles of a container and of a registry row, the status a
  host reports, and the provider strings that name a sandbox host.
\<close>

datatype runtime_lifecycle =
    RSleeping | RWaking | RBusy | RIdle | RQuiescing | RCheckpointing | RStopping | RError

datatype instance_lifecycle =
    Ready | RowDeleting | DeleteFailed | Cleaning | Cleaned | CleanFailed

datatype container_status =
    CRunning | CStopping | CStopped | CHealthy | CStoppedWithCode | CUnknown

datatype session_phase = Queued | Starting | Working | Failed | Lost

section \<open>Providers\<close>

text \<open>
  A provider is the string the row stores: \<open>cloudflare\<close>, the older bare \<open>docker\<close>, or
  \<open>docker:\<close> followed by the id of a configured host.
\<close>

type_synonym session_provider = string

definition DOCKER_PROVIDER_PREFIX :: string where
  "DOCKER_PROVIDER_PREFIX = ''docker:''"

definition starts_with :: "string \<Rightarrow> string \<Rightarrow> bool" where
  "starts_with s p = (take (length p) s = p)"

definition isDockerProvider :: "session_provider \<Rightarrow> bool" where
  "isDockerProvider p = (p = ''docker'' \<or> starts_with p DOCKER_PROVIDER_PREFIX)"

definition dockerHostId :: "session_provider \<Rightarrow> string option" where
  "dockerHostId p =
     (if starts_with p DOCKER_PROVIDER_PREFIX
      then Some (drop (length DOCKER_PROVIDER_PREFIX) p) else None)"

definition dockerProvider :: "string \<Rightarrow> session_provider" where
  "dockerProvider hostId = DOCKER_PROVIDER_PREFIX @ hostId"

lemma starts_with_append [simp]: "starts_with (p @ s) p"
  by (simp add: starts_with_def)

lemma starts_with_iff: "starts_with s p \<longleftrightarrow> (\<exists>r. s = p @ r)"
  by (metis append_eq_conv_conj append_take_drop_id starts_with_def)

end
