(* ===== verification/Lifecycle_State.thy ===== *)
theory Lifecycle_State
  imports Runtime_Types
begin

text \<open>
  The stored state of the lifecycle coordinator (\<open>src/lifecycle.ts\<close>) and the functions of
  it that touch nothing else: the phase predicates, the idle window, leases, the alarm time,
  the transition an execution snapshot causes, and the public status. The handlers that
  drive it are in Lifecycle_Coordinator.
\<close>

section \<open>Constants\<close>

definition LIFECYCLE_IDLE_TIMEOUT_MS :: millis where
  "LIFECYCLE_IDLE_TIMEOUT_MS = 10 * 60 * 1000"
definition LIFECYCLE_BUSY_PROBE_INTERVAL_MS :: millis where
  "LIFECYCLE_BUSY_PROBE_INTERVAL_MS = 10 * 1000"
definition LIFECYCLE_IDLE_PROBE_INTERVAL_MS :: millis where
  "LIFECYCLE_IDLE_PROBE_INTERVAL_MS = 60 * 1000"
definition LIFECYCLE_IDLE_CONFIRM_INTERVAL_MS :: millis where
  "LIFECYCLE_IDLE_CONFIRM_INTERVAL_MS = 3 * 1000"
definition LIFECYCLE_DEFAULT_WORK_LEASE_MS :: millis where
  "LIFECYCLE_DEFAULT_WORK_LEASE_MS = 90 * 1000"
definition LIFECYCLE_SCHEMA_VERSION :: nat where
  "LIFECYCLE_SCHEMA_VERSION = 1"
definition REQUIRED_IDLE_CONFIRMATIONS :: nat where
  "REQUIRED_IDLE_CONFIRMATIONS = 2"
definition MIN_WORK_LEASE_MS :: millis where
  "MIN_WORK_LEASE_MS = 5 * 1000"
definition MAX_WORK_LEASE_MS :: millis where
  "MAX_WORK_LEASE_MS = 5 * 60 * 1000"
definition OPERATION_RECOVERY_INTERVAL_MS :: millis where
  "OPERATION_RECOVERY_INTERVAL_MS = 30 * 1000"
definition MAX_PROBE_BACKOFF_MS :: millis where
  "MAX_PROBE_BACKOFF_MS = 60 * 1000"

text \<open>\<open>src/lifecycle-policy.ts\<close>: how long a container may stay unreachable.\<close>

definition MAX_PROBE_FAILURE_WINDOW_MS :: millis where
  "MAX_PROBE_FAILURE_WINDOW_MS = 60 * 60 * 1000"

section \<open>The stored state\<close>

datatype lifecycle_phase =
    Sleeping | Waking | RunningUnknown | RunningBusy | RunningIdle
  | Quiescing | ErrorRunning | ErrorWaking | Deleting

datatype operation_type = OpWake | OpIdleStop | OpForceStop

record lifecycle_operation =
  op_id :: string
  op_type :: operation_type
  op_startedAt :: millis

record work_lease =
  wl_id :: string
  wl_runtimeEpoch :: string
  wl_startedAt :: millis
  wl_expiresAt :: millis

datatype error_operation = ErrWake | ErrProbe | ErrIdleStop | ErrForceStop

record lifecycle_error =
  le_at :: millis
  le_operation :: error_operation
  le_message :: string

datatype stop_reason = StopIdle | StopManual | StopUnexpected

record stored_lifecycle =
  ls_schemaVersion :: nat
  ls_instanceId :: string
  ls_phase :: lifecycle_phase
  ls_revision :: nat
  ls_runtimeEpoch :: "string option"
  ls_idleTimeoutMs :: "millis option"
  ls_idleCandidateSince :: "millis option"
  ls_idleConfirmations :: nat
  ls_idleSince :: "millis option"
  ls_idleDeadlineAt :: "millis option"
  ls_nextProbeAt :: "millis option"
  ls_lastSemanticWorkAt :: "millis option"
  ls_lastActivityProbeAt :: "millis option"
  ls_activeSessionCount :: nat
  ls_retrySessionCount :: nat
  ls_activityLocations :: "string list"
  ls_consecutiveProbeFailures :: nat
  ls_probeFailingSince :: "millis option"
  ls_workLeases :: "(string \<times> work_lease) list"
  ls_operation :: "lifecycle_operation option"
  ls_wakeAfterStop :: bool
  ls_lastStoppedAt :: "millis option"
  ls_lastStopReason :: "stop_reason option"
  ls_lastError :: "lifecycle_error option"
  ls_updatedAt :: millis

text \<open>
  An execution snapshot as the Sandbox reports it. \<open>observedAt\<close> is the value
  \<open>Date.parse\<close> gives for the string: \<^term>\<open>None\<close> where it is not a date.
\<close>

datatype execution_state = ExRunning | ExNotRunning | ExUnknown

record execution_snapshot =
  ex_state :: execution_state
  ex_observedAt :: "millis option"
  ex_active :: bool
  ex_activeSessionCount :: nat
  ex_retrySessionCount :: nat
  ex_locations :: "string list"
  ex_error :: "string option"

section \<open>Phase predicates, leases, backoff\<close>

fun isAdmissionPhase :: "lifecycle_phase \<Rightarrow> bool" where
  "isAdmissionPhase RunningUnknown = True"
| "isAdmissionPhase RunningBusy = True"
| "isAdmissionPhase RunningIdle = True"
| "isAdmissionPhase ErrorRunning = True"
| "isAdmissionPhase _ = False"

definition isProbePhase :: "lifecycle_phase \<Rightarrow> bool" where
  [phase_simps]: "isProbePhase p = isAdmissionPhase p"

definition needsAlarm :: "stored_lifecycle \<Rightarrow> bool" where
  "needsAlarm s = (ls_phase s \<noteq> Sleeping \<and> ls_phase s \<noteq> Deleting)"

definition isActiveLease :: "work_lease \<Rightarrow> string option \<Rightarrow> millis \<Rightarrow> bool" where
  "isActiveLease l epoch now = (Some (wl_runtimeEpoch l) = epoch \<and> wl_expiresAt l > now)"

definition activeLeaseCount :: "stored_lifecycle \<Rightarrow> millis \<Rightarrow> nat" where
  "activeLeaseCount s now =
     length (filter (\<lambda>(k, l). isActiveLease l (ls_runtimeEpoch s) now) (ls_workLeases s))"

text \<open>The requested lease time; \<^term>\<open>None\<close> is a value that is not finite.\<close>

definition normalizeLeaseTtl :: "millis option \<Rightarrow> millis" where
  "normalizeLeaseTtl v =
     (case v of None \<Rightarrow> LIFECYCLE_DEFAULT_WORK_LEASE_MS
      | Some ttl \<Rightarrow> min MAX_WORK_LEASE_MS (max MIN_WORK_LEASE_MS ttl))"

text \<open>
  \<open>2 ** Math.min(3, failures - 1)\<close> is one half where \<open>failures\<close> is 0, which no
  caller passes.
\<close>

definition retryBackoff :: "nat \<Rightarrow> millis" where
  "retryBackoff failures =
     min MAX_PROBE_BACKOFF_MS
       (if failures = 0 then LIFECYCLE_BUSY_PROBE_INTERVAL_MS div 2
        else LIFECYCLE_BUSY_PROBE_INTERVAL_MS * 2 ^ min 3 (failures - 1))"

definition lifecycleError :: "millis \<Rightarrow> error_operation \<Rightarrow> string \<Rightarrow> lifecycle_error" where
  "lifecycleError now operation msg =
     \<lparr>le_at = now, le_operation = operation, le_message = msg\<rparr>"

definition parseObservedAt :: "millis option \<Rightarrow> millis \<Rightarrow> millis" where
  "parseObservedAt v fallback = (case v of None \<Rightarrow> fallback | Some p \<Rightarrow> min p fallback)"

fun publicLifecycle :: "lifecycle_phase \<Rightarrow> runtime_lifecycle" where
  "publicLifecycle Sleeping = RSleeping"
| "publicLifecycle Waking = RWaking"
| "publicLifecycle ErrorWaking = RError"
| "publicLifecycle RunningBusy = RBusy"
| "publicLifecycle RunningIdle = RIdle"
| "publicLifecycle RunningUnknown = RBusy"
| "publicLifecycle ErrorRunning = RError"
| "publicLifecycle Quiescing = RQuiescing"
| "publicLifecycle Deleting = RStopping"

text \<open>\<open>src/lifecycle-policy.ts\<close>.\<close>

definition probeFailureWindowExpired :: "stored_lifecycle \<Rightarrow> millis \<Rightarrow> millis \<Rightarrow> bool" where
  "probeFailureWindowExpired s now windowMs =
     (ls_phase s = ErrorRunning \<and>
      (case ls_probeFailingSince s of None \<Rightarrow> False | Some since \<Rightarrow> now - since \<ge> windowMs))"

section \<open>The alarm\<close>

definition alarmCandidates :: "stored_lifecycle \<Rightarrow> millis \<Rightarrow> millis list" where
  "alarmCandidates s now =
     (case ls_nextProbeAt s of None \<Rightarrow> [] | Some t \<Rightarrow> [t]) @
     (if ls_phase s = RunningIdle
      then (case ls_idleDeadlineAt s of None \<Rightarrow> [] | Some t \<Rightarrow> [t]) else []) @
     map (\<lambda>(k, l). wl_expiresAt l)
       (filter (\<lambda>(k, l). isActiveLease l (ls_runtimeEpoch s) now) (ls_workLeases s))"

definition nextAlarmAt :: "stored_lifecycle \<Rightarrow> millis \<Rightarrow> millis option" where
  "nextAlarmAt s now =
     (if \<not> needsAlarm s then None
      else case alarmCandidates s now of
             [] \<Rightarrow> Some (now + OPERATION_RECOVERY_INTERVAL_MS)
           | t # ts \<Rightarrow> Some (max now (fold min ts t)))"

section \<open>Transitions of the stored state\<close>

definition clearIdleWindow :: "stored_lifecycle \<Rightarrow> stored_lifecycle" where
  "clearIdleWindow s = s\<lparr>ls_idleCandidateSince := None, ls_idleConfirmations := 0,
     ls_idleSince := None, ls_idleDeadlineAt := None\<rparr>"

definition toSleepingState ::
  "stored_lifecycle \<Rightarrow> millis \<Rightarrow> stop_reason \<Rightarrow> lifecycle_error option \<Rightarrow> stored_lifecycle" where
  "toSleepingState s now reason err = (clearIdleWindow s)
     \<lparr>ls_phase := Sleeping, ls_revision := ls_revision s + 1, ls_runtimeEpoch := None,
      ls_nextProbeAt := None, ls_activeSessionCount := 0, ls_retrySessionCount := 0,
      ls_activityLocations := [], ls_consecutiveProbeFailures := 0,
      ls_probeFailingSince := None, ls_workLeases := [], ls_operation := None,
      ls_wakeAfterStop := False, ls_lastStoppedAt := Some now,
      ls_lastStopReason := Some reason, ls_lastError := err, ls_updatedAt := now\<rparr>"

definition applyUnknownActivity :: "string \<Rightarrow> millis \<Rightarrow> stored_lifecycle \<Rightarrow> stored_lifecycle" where
  "applyUnknownActivity msg now s =
     (let failures = ls_consecutiveProbeFailures s + 1;
          invalidatesIdle = (ls_idleCandidateSince s \<noteq> None \<or> ls_idleDeadlineAt s \<noteq> None \<or>
                             ls_phase s \<noteq> ErrorRunning)
      in (clearIdleWindow s)
         \<lparr>ls_phase := ErrorRunning,
          ls_revision := (if invalidatesIdle then ls_revision s + 1 else ls_revision s),
          ls_consecutiveProbeFailures := failures,
          ls_probeFailingSince := Some (nullish (ls_probeFailingSince s) now),
          ls_nextProbeAt := Some (now + retryBackoff failures),
          ls_lastError := Some (lifecycleError now ErrProbe msg), ls_updatedAt := now\<rparr>)"

text \<open>The fields every running snapshot writes (\<open>common\<close> in the source).\<close>

definition applyCommon ::
  "execution_snapshot \<Rightarrow> millis \<Rightarrow> millis \<Rightarrow> stored_lifecycle \<Rightarrow> stored_lifecycle" where
  "applyCommon snapshot observedAt now s = s
     \<lparr>ls_lastActivityProbeAt := Some observedAt,
      ls_activeSessionCount := ex_activeSessionCount snapshot,
      ls_retrySessionCount := ex_retrySessionCount snapshot,
      ls_activityLocations := ex_locations snapshot,
      ls_consecutiveProbeFailures := 0, ls_probeFailingSince := None,
      ls_lastError := None, ls_operation := None, ls_updatedAt := now\<rparr>"

definition STOPPED_OUTSIDE :: string where
  "STOPPED_OUTSIDE = ''Container stopped outside the semantic lifecycle policy''"

text \<open>The observation is older than the last work the coordinator admitted.\<close>

definition observedBeforeWork :: "millis \<Rightarrow> stored_lifecycle \<Rightarrow> bool" where
  "observedBeforeWork observedAt s =
     (case ls_lastSemanticWorkAt s of None \<Rightarrow> False | Some w \<Rightarrow> observedAt < w)"

definition applyExecutionSnapshot ::
  "execution_snapshot \<Rightarrow> millis \<Rightarrow> stored_lifecycle \<Rightarrow> stored_lifecycle" where
  "applyExecutionSnapshot snapshot now s =
     (let observedAt = parseObservedAt (ex_observedAt snapshot) now in
      if ex_state snapshot = ExNotRunning then
        toSleepingState s now StopUnexpected (Some (lifecycleError now ErrProbe STOPPED_OUTSIDE))
      else if ex_state snapshot = ExUnknown then
        applyUnknownActivity (nullish (ex_error snapshot) ''OpenCode activity is unknown'') now s
      else if ex_active snapshot \<or> activeLeaseCount s now > 0 then
        (let invalidatesIdle = (ls_idleCandidateSince s \<noteq> None \<or> ls_idleDeadlineAt s \<noteq> None \<or>
                                ls_phase s \<noteq> RunningBusy)
         in (applyCommon snapshot observedAt now (clearIdleWindow s))
            \<lparr>ls_phase := RunningBusy,
             ls_revision := (if invalidatesIdle then ls_revision s + 1 else ls_revision s),
             ls_nextProbeAt := Some (now + LIFECYCLE_BUSY_PROBE_INTERVAL_MS)\<rparr>)
      else if observedBeforeWork observedAt s then
        (applyCommon snapshot observedAt now (clearIdleWindow s))
          \<lparr>ls_phase := RunningUnknown,
           ls_nextProbeAt := Some (now + LIFECYCLE_IDLE_CONFIRM_INTERVAL_MS)\<rparr>
      else if ls_phase s = RunningIdle \<and> ls_idleSince s \<noteq> None \<and> ls_idleDeadlineAt s \<noteq> None then
        (applyCommon snapshot observedAt now s)
          \<lparr>ls_nextProbeAt := Some (now + LIFECYCLE_IDLE_PROBE_INTERVAL_MS)\<rparr>
      else
        (let idleCandidateSince = nullish (ls_idleCandidateSince s) observedAt;
             idleConfirmations = (if truthy_num (ls_idleCandidateSince s)
                                  then ls_idleConfirmations s + 1 else 1)
         in if idleConfirmations \<ge> REQUIRED_IDLE_CONFIRMATIONS then
              (applyCommon snapshot observedAt now s)
                \<lparr>ls_phase := RunningIdle,
                 ls_idleCandidateSince := Some idleCandidateSince,
                 ls_idleConfirmations := idleConfirmations,
                 ls_idleSince := Some idleCandidateSince,
                 ls_idleDeadlineAt := Some (idleCandidateSince +
                   nullish (ls_idleTimeoutMs s) LIFECYCLE_IDLE_TIMEOUT_MS),
                 ls_nextProbeAt := Some (now + LIFECYCLE_IDLE_PROBE_INTERVAL_MS)\<rparr>
            else
              (applyCommon snapshot observedAt now s)
                \<lparr>ls_phase := RunningUnknown,
                 ls_idleCandidateSince := Some idleCandidateSince,
                 ls_idleConfirmations := idleConfirmations,
                 ls_idleSince := None, ls_idleDeadlineAt := None,
                 ls_nextProbeAt := Some (now + LIFECYCLE_IDLE_CONFIRM_INTERVAL_MS)\<rparr>))"

text \<open>
  \<open>removeExpiredLeases\<close>: \<^term>\<open>None\<close> is the source's \<open>false\<close> (nothing was
  removed), \<^term>\<open>Some s'\<close> its \<open>true\<close> with the new state.
\<close>

definition removeExpiredLeases :: "millis \<Rightarrow> stored_lifecycle \<Rightarrow> stored_lifecycle option" where
  "removeExpiredLeases now s =
     (let workLeases = filter (\<lambda>(k, l). isActiveLease l (ls_runtimeEpoch s) now) (ls_workLeases s)
      in if length workLeases = length (ls_workLeases s) then None
         else Some ((clearIdleWindow s)
           \<lparr>ls_phase := (if isAdmissionPhase (ls_phase s) then RunningUnknown else ls_phase s),
            ls_revision := ls_revision s + 1, ls_lastSemanticWorkAt := Some now,
            ls_nextProbeAt := Some now, ls_workLeases := workLeases, ls_updatedAt := now\<rparr>))"

section \<open>The public status\<close>

datatype status_phase = Uninitialized | InPhase lifecycle_phase

record lifecycle_status =
  st_lifecycle :: runtime_lifecycle
  st_phase :: status_phase
  st_admissionOpen :: bool
  st_revision :: nat
  st_runtimeEpoch :: "string option"
  st_idleSince :: "millis option"
  st_idleDeadlineAt :: "millis option"
  st_activeSessionCount :: "nat option"
  st_retrySessionCount :: "nat option"
  st_activeWorkLeaseCount :: nat
  st_lastActivityProbeAt :: "millis option"
  st_lastStoppedAt :: "millis option"
  st_lastStopReason :: "stop_reason option"
  st_lifecycleError :: "string option"

definition toStatus :: "millis \<Rightarrow> stored_lifecycle option \<Rightarrow> lifecycle_status" where
  "toStatus now st =
     (case st of
        None \<Rightarrow> \<lparr>st_lifecycle = RSleeping, st_phase = Uninitialized, st_admissionOpen = False,
          st_revision = 0, st_runtimeEpoch = None, st_idleSince = None, st_idleDeadlineAt = None,
          st_activeSessionCount = None, st_retrySessionCount = None,
          st_activeWorkLeaseCount = 0, st_lastActivityProbeAt = None, st_lastStoppedAt = None,
          st_lastStopReason = None, st_lifecycleError = None\<rparr>
      | Some s \<Rightarrow>
          \<lparr>st_lifecycle = publicLifecycle (ls_phase s), st_phase = InPhase (ls_phase s),
           st_admissionOpen = isAdmissionPhase (ls_phase s), st_revision = ls_revision s,
           st_runtimeEpoch =
             (if truthy_str (ls_runtimeEpoch s) then ls_runtimeEpoch s else None),
           st_idleSince = ls_idleSince s, st_idleDeadlineAt = ls_idleDeadlineAt s,
           st_activeSessionCount =
             (if isAdmissionPhase (ls_phase s) then Some (ls_activeSessionCount s) else None),
           st_retrySessionCount =
             (if isAdmissionPhase (ls_phase s) then Some (ls_retrySessionCount s) else None),
           st_activeWorkLeaseCount = activeLeaseCount s now,
           st_lastActivityProbeAt = ls_lastActivityProbeAt s,
           st_lastStoppedAt = ls_lastStoppedAt s,
           st_lastStopReason = ls_lastStopReason s,
           st_lifecycleError = map_option le_message (ls_lastError s)\<rparr>)"

end
