(* ===== verification/Lifecycle_Coordinator.thy ===== *)
theory Lifecycle_Coordinator
  imports Lifecycle_State
begin

text \<open>
  The \<open>LifecycleCoordinator\<close> Durable Object (\<open>src/lifecycle.ts\<close>): its memory, its storage,
  and every handler of the class.

  A handler runs without interruption up to a call to the Sandbox object; another event may
  be delivered before that call answers. Each handler that makes such a call is therefore
  split in two definitions: \<open>...Start\<close> up to the call, which leaves a record of what the
  handler still knows in \<open>lc_wake\<close>, \<open>lc_probe\<close> or \<open>lc_stop\<close> (the source's
  \<open>wakeInProgress\<close>, \<open>probeInProgress\<close>, \<open>stopInProgress\<close>), and \<open>...Finish\<close>,
  which takes the answer. A storage write does not let other events in; the best-effort
  write of the session row does not change the object and is taken as one step with the
  write before it. What the environment decides is in \<open>lc_env\<close>: the clock, two fresh
  ids, and whether the row could be written.
\<close>

section \<open>The object\<close>

record lc_env =
  env_now :: millis
  env_epoch :: string
  env_id :: string
  env_rowOk :: bool

record wake_call =
  wc_operation :: lifecycle_operation
  wc_runtimeEpoch :: string

record probe_call =
  pc_revision :: nat
  pc_runtimeEpoch :: string

datatype stop_call =
    StopRpc lifecycle_operation "string option" nat
  | StopAwaitsWake lifecycle_operation

text \<open>What the running alarm handler, if there is one, is waiting for.\<close>

datatype alarm_handler = AlarmIdle | AlarmAwaitsWake | AlarmAwaitsProbe | AlarmAwaitsStop

record coordinator =
  lc_state :: "stored_lifecycle option"
  lc_disk :: "stored_lifecycle option"
  lc_alarm :: "millis option"
  lc_lastSynced :: "runtime_lifecycle option"
  lc_mirror :: "runtime_lifecycle option"
  lc_wake :: "wake_call option"
  lc_probe :: "probe_call option"
  lc_stop :: "stop_call option"
  lc_handler :: alarm_handler

datatype lc_error =
    NotInitialized
  | IdentityMismatch
  | DeletingNotInitializable
  | DeletingNotWakeable
  | DeletingNotStoppable
  | UnsupportedSchema nat
  | SandboxFailure string

fun errorMessage :: "lc_error \<Rightarrow> string" where
  "errorMessage NotInitialized = ''Lifecycle is not initialized''"
| "errorMessage IdentityMismatch = ''Lifecycle identity does not match the Hub record''"
| "errorMessage DeletingNotInitializable = ''A deleting lifecycle cannot be initialized''"
| "errorMessage DeletingNotWakeable = ''A deleting instance cannot be woken''"
| "errorMessage DeletingNotStoppable = ''A deleting instance cannot be stopped''"
| "errorMessage (UnsupportedSchema n) = ''Unsupported lifecycle schema''"
| "errorMessage (SandboxFailure m) = m"

definition requireState :: "coordinator \<Rightarrow> lc_error + stored_lifecycle" where
  "requireState c = (case lc_state c of None \<Rightarrow> Inl NotInitialized | Some s \<Rightarrow> Inr s)"

section \<open>Persistence\<close>

definition maybeSyncRuntimeCache ::
  "lc_env \<Rightarrow> stored_lifecycle \<Rightarrow> coordinator \<Rightarrow> coordinator" where
  "maybeSyncRuntimeCache env s c =
     (let lifecycle = publicLifecycle (ls_phase s) in
      if lc_lastSynced c = Some lifecycle then c
      else if env_rowOk env
        then c\<lparr>lc_lastSynced := Some lifecycle, lc_mirror := Some lifecycle\<rparr>
        else c\<lparr>lc_lastSynced := None\<rparr>)"

definition persistAndSchedule :: "lc_env \<Rightarrow> coordinator \<Rightarrow> coordinator" where
  "persistAndSchedule env c =
     (case lc_state c of
        None \<Rightarrow> c\<lparr>lc_alarm := None\<rparr>
      | Some s \<Rightarrow> maybeSyncRuntimeCache env s
          (c\<lparr>lc_disk := Some s, lc_alarm := nextAlarmAt s (env_now env)\<rparr>))"

text \<open>The pair of statements almost every handler ends with: assign the state, persist it.\<close>

definition commit :: "lc_env \<Rightarrow> stored_lifecycle \<Rightarrow> coordinator \<Rightarrow> coordinator" where
  "commit env s c = persistAndSchedule env (c\<lparr>lc_state := Some s\<rparr>)"

text \<open>
  The constructor, run when the object is loaded again: memory is gone, the state is what
  storage holds, and the alarm is put back where the state needs one.
\<close>

definition newCoordinator :: "lc_env \<Rightarrow> coordinator \<Rightarrow> lc_error + coordinator" where
  "newCoordinator env c =
     (let c' = c\<lparr>lc_state := lc_disk c, lc_lastSynced := None, lc_wake := None,
                lc_probe := None, lc_stop := None, lc_handler := AlarmIdle\<rparr>
      in case lc_disk c of
           None \<Rightarrow> Inr (c'\<lparr>lc_alarm := None\<rparr>)
         | Some s \<Rightarrow>
             (if ls_schemaVersion s \<noteq> LIFECYCLE_SCHEMA_VERSION
              then Inl (UnsupportedSchema (ls_schemaVersion s))
              else if needsAlarm s then
                Inr (case lc_alarm c of None \<Rightarrow> c'\<lparr>lc_alarm := Some (env_now env)\<rparr> | Some _ \<Rightarrow> c')
              else Inr (c'\<lparr>lc_alarm := None\<rparr>)))"

section \<open>Creation and deletion\<close>

record initialize_input =
  ii_instanceId :: string
  ii_idleTimeoutMs :: "millis option"

definition initialState :: "initialize_input \<Rightarrow> millis \<Rightarrow> stored_lifecycle" where
  "initialState inp now =
     \<lparr>ls_schemaVersion = LIFECYCLE_SCHEMA_VERSION, ls_instanceId = ii_instanceId inp,
      ls_phase = Sleeping, ls_revision = 0, ls_runtimeEpoch = None,
      ls_idleTimeoutMs = ii_idleTimeoutMs inp, ls_idleCandidateSince = None,
      ls_idleConfirmations = 0, ls_idleSince = None, ls_idleDeadlineAt = None,
      ls_nextProbeAt = None, ls_lastSemanticWorkAt = None, ls_lastActivityProbeAt = None,
      ls_activeSessionCount = 0, ls_retrySessionCount = 0, ls_activityLocations = [],
      ls_consecutiveProbeFailures = 0, ls_probeFailingSince = None, ls_workLeases = [],
      ls_operation = None, ls_wakeAfterStop = False, ls_lastStoppedAt = None,
      ls_lastStopReason = None, ls_lastError = None, ls_updatedAt = now\<rparr>"

definition initializeInstance ::
  "lc_env \<Rightarrow> initialize_input \<Rightarrow> coordinator \<Rightarrow> (lc_error + lifecycle_status) \<times> coordinator" where
  "initializeInstance env inp c =
     (case lc_state c of
        Some s \<Rightarrow>
          (if ls_instanceId s \<noteq> ii_instanceId inp then (Inl IdentityMismatch, c)
           else if ls_phase s = Deleting then (Inl DeletingNotInitializable, c)
           else (Inr (toStatus (env_now env) (Some s)), c))
      | None \<Rightarrow>
          (let c' = commit env (initialState inp (env_now env)) c
           in (Inr (toStatus (env_now env) (lc_state c')), c')))"

definition beginDelete :: "lc_env \<Rightarrow> coordinator \<Rightarrow> coordinator" where
  "beginDelete env c =
     (case lc_state c of
        None \<Rightarrow> c
      | Some s \<Rightarrow> commit env ((clearIdleWindow s)
          \<lparr>ls_phase := Deleting, ls_revision := ls_revision s + 1, ls_runtimeEpoch := None,
           ls_nextProbeAt := None, ls_workLeases := [], ls_operation := None,
           ls_wakeAfterStop := False, ls_updatedAt := env_now env\<rparr>) c)"

definition markDeleted :: "coordinator \<Rightarrow> coordinator" where
  "markDeleted c = c\<lparr>lc_state := None, lc_alarm := None, lc_disk := None\<rparr>"

section \<open>Admission and work leases\<close>

datatype refusal = RefUninitialized | RefEpochMismatch | RefNotRunning | RefQuiescing | RefDeleting

datatype admission_result =
    Admitted string nat
  | Refused refusal status_phase

definition admissionFor :: "string \<Rightarrow> coordinator \<Rightarrow> admission_result" where
  "admissionFor epoch c =
     (case lc_state c of
        None \<Rightarrow> Refused RefUninitialized Uninitialized
      | Some s \<Rightarrow>
          (if ls_phase s = Deleting then Refused RefDeleting (InPhase (ls_phase s))
           else if ls_phase s = Quiescing then Refused RefQuiescing (InPhase (ls_phase s))
           else if \<not> isAdmissionPhase (ls_phase s) \<or> \<not> truthy_str (ls_runtimeEpoch s)
             then Refused RefNotRunning (InPhase (ls_phase s))
           else if ls_runtimeEpoch s \<noteq> Some epoch
             then Refused RefEpochMismatch (InPhase (ls_phase s))
           else Admitted epoch (ls_revision s)))"

datatype begin_work_result =
    WorkAdmitted string millis nat
  | WorkRefused refusal status_phase

definition beginWork ::
  "lc_env \<Rightarrow> string \<Rightarrow> millis option \<Rightarrow> coordinator \<Rightarrow> begin_work_result \<times> coordinator" where
  "beginWork env epoch requestedTtlMs c =
     (case admissionFor epoch c of
        Refused r p \<Rightarrow> (WorkRefused r p, c)
      | Admitted _ _ \<Rightarrow>
          (case lc_state c of
             None \<Rightarrow> (WorkRefused RefUninitialized Uninitialized, c)
           | Some s \<Rightarrow>
               (let now = env_now env;
                    lease = \<lparr>wl_id = env_id env, wl_runtimeEpoch = epoch, wl_startedAt = now,
                             wl_expiresAt = now + normalizeLeaseTtl requestedTtlMs\<rparr>;
                    s' = (clearIdleWindow s)
                      \<lparr>ls_phase := RunningBusy, ls_revision := ls_revision s + 1,
                       ls_lastSemanticWorkAt := Some now,
                       ls_nextProbeAt := Some (min
                         (nullish (ls_nextProbeAt s) (now + LIFECYCLE_BUSY_PROBE_INTERVAL_MS))
                         (now + LIFECYCLE_BUSY_PROBE_INTERVAL_MS)),
                       ls_workLeases := AList.update (wl_id lease) lease (ls_workLeases s),
                       ls_updatedAt := now\<rparr>
                in (WorkAdmitted (wl_id lease) (wl_expiresAt lease) (ls_revision s'),
                    commit env s' c))))"

definition renewWork ::
  "lc_env \<Rightarrow> string \<Rightarrow> string \<Rightarrow> millis option \<Rightarrow> coordinator \<Rightarrow> bool \<times> coordinator" where
  "renewWork env epoch leaseId requestedTtlMs c =
     (case lc_state c of
        None \<Rightarrow> (False, c)
      | Some s \<Rightarrow>
          (case map_of (ls_workLeases s) leaseId of
             None \<Rightarrow> (False, c)
           | Some lease \<Rightarrow>
               (if wl_runtimeEpoch lease \<noteq> epoch \<or> ls_runtimeEpoch s \<noteq> Some epoch \<or>
                   \<not> isAdmissionPhase (ls_phase s)
                then (False, c)
                else (True, commit env (s
                  \<lparr>ls_workLeases := AList.update leaseId
                     (lease\<lparr>wl_expiresAt := env_now env + normalizeLeaseTtl requestedTtlMs\<rparr>)
                     (ls_workLeases s),
                   ls_updatedAt := env_now env\<rparr>) c))))"

definition endWork :: "lc_env \<Rightarrow> string \<Rightarrow> string \<Rightarrow> coordinator \<Rightarrow> coordinator" where
  "endWork env epoch leaseId c =
     (case lc_state c of
        None \<Rightarrow> c
      | Some s \<Rightarrow>
          (case map_of (ls_workLeases s) leaseId of
             None \<Rightarrow> c
           | Some lease \<Rightarrow>
               (if wl_runtimeEpoch lease \<noteq> epoch \<or> ls_runtimeEpoch s \<noteq> Some epoch then c
                else let workLeases = AList.delete leaseId (ls_workLeases s) in
                  commit env ((clearIdleWindow s)
                    \<lparr>ls_phase := (if length workLeases > 0 then RunningBusy else RunningUnknown),
                     ls_revision := ls_revision s + 1,
                     ls_lastSemanticWorkAt := Some (env_now env),
                     ls_nextProbeAt := Some (env_now env),
                     ls_workLeases := workLeases, ls_updatedAt := env_now env\<rparr>) c)))"

definition observeExecution ::
  "lc_env \<Rightarrow> string \<Rightarrow> execution_snapshot \<Rightarrow> coordinator \<Rightarrow> (lc_error + lifecycle_status) \<times> coordinator"
  where
  "observeExecution env epoch snapshot c =
     (case requireState c of
        Inl e \<Rightarrow> (Inl e, c)
      | Inr s \<Rightarrow>
          (let now = env_now env; observedAt = parseObservedAt (ex_observedAt snapshot) now in
           if ls_runtimeEpoch s \<noteq> Some epoch \<or> \<not> isAdmissionPhase (ls_phase s)
             then (Inr (toStatus now (Some s)), c)
           else if ex_state snapshot = ExRunning \<and> \<not> ex_active snapshot \<and>
                   observedBeforeWork observedAt s
             then (Inr (toStatus now (Some s)), c)
           else (let c' = commit env (applyExecutionSnapshot snapshot now s) c
                 in (Inr (toStatus now (lc_state c')), c'))))"

section \<open>Waking\<close>

record wake_result =
  wr_ready :: bool
  wr_pending :: bool
  wr_runtimeEpoch :: "string option"
  wr_status :: lifecycle_status

datatype wake_progress = WakeDone wake_result | WakeInFlight

definition wakeResult :: "lc_env \<Rightarrow> bool \<Rightarrow> bool \<Rightarrow> string option \<Rightarrow> coordinator \<Rightarrow> wake_result" where
  "wakeResult env ready pending epoch c =
     \<lparr>wr_ready = ready, wr_pending = pending, wr_runtimeEpoch = epoch,
      wr_status = toStatus (env_now env) (lc_state c)\<rparr>"

definition performWakeStart ::
  "lc_env \<Rightarrow> bool \<Rightarrow> coordinator \<Rightarrow> (lc_error + wake_progress) \<times> coordinator" where
  "performWakeStart env explicitIntent c =
     (case requireState c of
        Inl e \<Rightarrow> (Inl e, c)
      | Inr s \<Rightarrow>
          (if ls_phase s = Deleting then (Inl DeletingNotWakeable, c)
           else if isAdmissionPhase (ls_phase s) \<and> truthy_str (ls_runtimeEpoch s)
             then (Inr (WakeDone (wakeResult env True False (ls_runtimeEpoch s) c)), c)
           else if ls_phase s \<noteq> Waking \<and> ls_phase s \<noteq> ErrorWaking \<and>
                   ls_phase s \<noteq> Sleeping \<and> ls_phase s \<noteq> ErrorRunning
             then (Inr (WakeDone (wakeResult env False True None c)), c)
           else
             (let now = env_now env;
                  continueExisting = (\<not> explicitIntent \<and>
                    (ls_phase s = Waking \<or> ls_phase s = ErrorWaking) \<and>
                    truthy_str (ls_runtimeEpoch s) \<and>
                    map_option op_type (ls_operation s) = Some OpWake);
                  runtimeEpoch = (if continueExisting then the (ls_runtimeEpoch s) else env_epoch env);
                  operation = (if continueExisting then the (ls_operation s)
                    else \<lparr>op_id = env_id env, op_type = OpWake, op_startedAt = now\<rparr>);
                  s' = (clearIdleWindow s)
                    \<lparr>ls_phase := Waking,
                     ls_revision := (if continueExisting then ls_revision s else ls_revision s + 1),
                     ls_runtimeEpoch := Some runtimeEpoch,
                     ls_nextProbeAt := Some (now + OPERATION_RECOVERY_INTERVAL_MS),
                     ls_activeSessionCount := 0, ls_retrySessionCount := 0,
                     ls_activityLocations := [], ls_workLeases := [],
                     ls_operation := Some operation, ls_wakeAfterStop := False,
                     ls_lastError := None, ls_updatedAt := now\<rparr>
              in (Inr WakeInFlight, (commit env s' c)
                    \<lparr>lc_wake := Some \<lparr>wc_operation = operation, wc_runtimeEpoch = runtimeEpoch\<rparr>\<rparr>))))"

text \<open>One wake at a time: a second caller waits for the one in flight.\<close>

definition continueWake ::
  "lc_env \<Rightarrow> bool \<Rightarrow> coordinator \<Rightarrow> (lc_error + wake_progress) \<times> coordinator" where
  "continueWake env explicitIntent c =
     (if lc_wake c \<noteq> None then (Inr WakeInFlight, c) else performWakeStart env explicitIntent c)"

definition wake :: "lc_env \<Rightarrow> coordinator \<Rightarrow> (lc_error + wake_progress) \<times> coordinator" where
  "wake env c =
     (case requireState c of
        Inl e \<Rightarrow> (Inl e, c)
      | Inr s \<Rightarrow>
          (if ls_phase s = Deleting then (Inl DeletingNotWakeable, c)
           else if isAdmissionPhase (ls_phase s) \<and> truthy_str (ls_runtimeEpoch s)
             then (Inr (WakeDone (wakeResult env True False (ls_runtimeEpoch s) c)), c)
           else if ls_phase s = Quiescing then
             (let c' = commit env (s\<lparr>ls_wakeAfterStop := True, ls_updatedAt := env_now env\<rparr>) c
              in (Inr (WakeDone (wakeResult env False True None c')), c'))
           else continueWake env True c))"

definition currentWake :: "wake_call \<Rightarrow> stored_lifecycle \<Rightarrow> bool" where
  "currentWake w s =
     (ls_phase s = Waking \<and>
      map_option op_id (ls_operation s) = Some (op_id (wc_operation w)) \<and>
      ls_runtimeEpoch s = Some (wc_runtimeEpoch w))"

text \<open>The \<open>catch\<close> block of \<open>performWake\<close>; it always throws.\<close>

definition wakeCatch :: "lc_env \<Rightarrow> wake_call \<Rightarrow> string \<Rightarrow> coordinator \<Rightarrow> lc_error \<times> coordinator" where
  "wakeCatch env w msg c =
     (case requireState c of
        Inl e \<Rightarrow> (e, c)
      | Inr s \<Rightarrow>
          (SandboxFailure msg,
           if currentWake w s then
             (let failures = ls_consecutiveProbeFailures s + 1 in
              commit env (s\<lparr>ls_phase := ErrorWaking, ls_consecutiveProbeFailures := failures,
                ls_nextProbeAt := Some (env_now env + retryBackoff failures),
                ls_lastError := Some (lifecycleError (env_now env) ErrWake msg),
                ls_updatedAt := env_now env\<rparr>) c)
           else c))"

type_synonym snapshot_reply = "string + execution_snapshot"

definition performWakeFinish ::
  "lc_env \<Rightarrow> wake_call \<Rightarrow> snapshot_reply \<Rightarrow> coordinator \<Rightarrow> (lc_error + wake_result) \<times> coordinator" where
  "performWakeFinish env w reply c =
     (case reply of
        Inl msg \<Rightarrow> (case wakeCatch env w msg c of (e, c') \<Rightarrow> (Inl e, c'))
      | Inr snapshot \<Rightarrow>
          (case requireState c of
             Inl e \<Rightarrow> (Inl e, c)
           | Inr s \<Rightarrow>
               (if \<not> currentWake w s
                then (Inr (wakeResult env False (ls_phase s \<noteq> Deleting) None c), c)
                else if ex_state snapshot = ExNotRunning then
                  (case wakeCatch env w (nullish (ex_error snapshot)
                          ''Sandbox did not become running after wake'') c of
                     (e, c') \<Rightarrow> (Inl e, c'))
                else
                  (let now = env_now env;
                       s' = s\<lparr>ls_phase := RunningUnknown, ls_operation := None,
                              ls_nextProbeAt := Some now, ls_consecutiveProbeFailures := 0,
                              ls_probeFailingSince := None, ls_updatedAt := now\<rparr>;
                       c' = commit env (applyExecutionSnapshot snapshot now s') c
                   in (Inr (wakeResult env True False (Some (wc_runtimeEpoch w)) c'), c')))))"

end
