(* ===== verification/Lifecycle_Steps.thy ===== *)
theory Lifecycle_Steps
  imports Lifecycle_Coordinator
begin

text \<open>
  The second half of the coordinator of \<open>src/lifecycle.ts\<close>: stopping, probing, the alarm,
  the answers of the Sandbox object, and the step relation over all of its handlers.
\<close>

section \<open>Stopping\<close>

datatype stop_reply =
    StopStopped
  | StopNotRunning
  | StopBusy "execution_snapshot option"
  | StopTerminationPending
  | StopFailedRunning string
  | StopThrew string

definition stopErrorOperation :: "lifecycle_operation \<Rightarrow> error_operation" where
  "stopErrorOperation oper = (if op_type oper = OpForceStop then ErrForceStop else ErrIdleStop)"

definition currentStop :: "lifecycle_operation \<Rightarrow> stored_lifecycle \<Rightarrow> bool" where
  "currentStop oper s =
     (ls_phase s = Quiescing \<and> map_option op_id (ls_operation s) = Some (op_id oper))"

text \<open>
  The \<open>catch\<close> block of \<open>performStop\<close>: the operation and its id are kept, so the next
  alarm resumes exactly this stop. The first component is the error thrown again, if any.
\<close>

definition stopCatch ::
  "lc_env \<Rightarrow> lifecycle_operation \<Rightarrow> string \<Rightarrow> coordinator \<Rightarrow> lc_error option \<times> coordinator" where
  "stopCatch env oper msg c =
     (case requireState c of
        Inl e \<Rightarrow> (Some e, c)
      | Inr s \<Rightarrow>
          (if \<not> currentStop oper s then (None, c)
           else let failures = ls_consecutiveProbeFailures s + 1 in
             (Some (SandboxFailure msg),
              commit env ((clearIdleWindow s)
                \<lparr>ls_phase := Quiescing, ls_nextProbeAt := Some (env_now env + retryBackoff failures),
                 ls_consecutiveProbeFailures := failures,
                 ls_lastError := Some (lifecycleError (env_now env) (stopErrorOperation oper) msg),
                 ls_updatedAt := env_now env\<rparr>) c)))"

definition performStopStart :: "lc_env \<Rightarrow> coordinator \<Rightarrow> lc_error option \<times> coordinator" where
  "performStopStart env c =
     (case requireState c of
        Inl e \<Rightarrow> (Some e, c)
      | Inr s \<Rightarrow>
          (case ls_operation s of
             None \<Rightarrow> (None, c)
           | Some oper \<Rightarrow>
               (if ls_phase s \<noteq> Quiescing then (None, c)
                else if op_type oper \<noteq> OpForceStop \<and> \<not> truthy_str (ls_runtimeEpoch s)
                  then stopCatch env oper ''Idle stop has no runtime epoch'' c
                else (None, c\<lparr>lc_stop :=
                        Some (StopRpc oper (ls_runtimeEpoch s) (ls_revision s))\<rparr>))))"

definition continueStop :: "lc_env \<Rightarrow> coordinator \<Rightarrow> lc_error option \<times> coordinator" where
  "continueStop env c = (if lc_stop c \<noteq> None then (None, c) else performStopStart env c)"

text \<open>After a stop: sleep, and wake again at once if somebody asked for that meanwhile.\<close>

definition sleepThenMaybeWake ::
  "lc_env \<Rightarrow> lifecycle_operation \<Rightarrow> stop_reason \<Rightarrow> stored_lifecycle \<Rightarrow> coordinator
     \<Rightarrow> lc_error option \<times> coordinator" where
  "sleepThenMaybeWake env oper reason s c =
     (let c1 = commit env (toSleepingState s (env_now env) reason None) c in
      if \<not> ls_wakeAfterStop s then (None, c1)
      else (case continueWake env True c1 of
              (Inl e, c2) \<Rightarrow> stopCatch env oper (errorMessage e) c2
            | (Inr (WakeDone _), c2) \<Rightarrow> (None, c2)
            | (Inr WakeInFlight, c2) \<Rightarrow> (None, c2\<lparr>lc_stop := Some (StopAwaitsWake oper)\<rparr>)))"

definition terminationPending ::
  "lc_env \<Rightarrow> error_operation \<Rightarrow> stored_lifecycle \<Rightarrow> stored_lifecycle" where
  "terminationPending env errOp s = s
     \<lparr>ls_phase := Quiescing,
      ls_nextProbeAt := Some (env_now env + OPERATION_RECOVERY_INTERVAL_MS),
      ls_lastError := Some (lifecycleError (env_now env) errOp
                        ''Container termination is still pending''),
      ls_updatedAt := env_now env\<rparr>"

definition failedRunning ::
  "lc_env \<Rightarrow> error_operation \<Rightarrow> string \<Rightarrow> stored_lifecycle \<Rightarrow> stored_lifecycle" where
  "failedRunning env errOp msg s = (clearIdleWindow s)
     \<lparr>ls_phase := ErrorRunning, ls_revision := ls_revision s + 1, ls_operation := None,
      ls_wakeAfterStop := False, ls_nextProbeAt := Some (env_now env + retryBackoff 1),
      ls_consecutiveProbeFailures := 1,
      ls_lastError := Some (lifecycleError (env_now env) errOp msg),
      ls_updatedAt := env_now env\<rparr>"

definition stillBusy ::
  "lc_env \<Rightarrow> execution_snapshot option \<Rightarrow> stored_lifecycle \<Rightarrow> stored_lifecycle" where
  "stillBusy env snapshot s =
     (let s' = (clearIdleWindow s)
        \<lparr>ls_phase := RunningUnknown, ls_revision := ls_revision s + 1, ls_operation := None,
         ls_wakeAfterStop := False, ls_nextProbeAt := Some (env_now env),
         ls_updatedAt := env_now env\<rparr>
      in case snapshot of None \<Rightarrow> s' | Some x \<Rightarrow> applyExecutionSnapshot x (env_now env) s')"

definition performStopFinish ::
  "lc_env \<Rightarrow> lifecycle_operation \<Rightarrow> stop_reply \<Rightarrow> coordinator \<Rightarrow> lc_error option \<times> coordinator" where
  "performStopFinish env oper reply c =
     (case reply of
        StopThrew msg \<Rightarrow> stopCatch env oper msg c
      | _ \<Rightarrow>
        (case requireState c of
           Inl e \<Rightarrow> (Some e, c)
         | Inr s \<Rightarrow>
           (if \<not> currentStop oper s then (None, c)
            else (case reply of
                StopTerminationPending \<Rightarrow>
                  (None, commit env (terminationPending env (stopErrorOperation oper) s) c)
              | StopFailedRunning msg \<Rightarrow>
                  (None, commit env (failedRunning env (stopErrorOperation oper) msg s) c)
              | StopBusy snapshot \<Rightarrow>
                  (if op_type oper = OpForceStop
                   then sleepThenMaybeWake env oper StopManual s c
                   else (None, commit env (stillBusy env snapshot s) c))
              | _ \<Rightarrow> sleepThenMaybeWake env oper
                       (if op_type oper = OpForceStop then StopManual else StopIdle) s c))))"

definition forceStop :: "lc_env \<Rightarrow> coordinator \<Rightarrow> lc_error option \<times> coordinator" where
  "forceStop env c =
     (case requireState c of
        Inl e \<Rightarrow> (Some e, c)
      | Inr s \<Rightarrow>
          (if ls_phase s = Sleeping then (None, c)
           else if ls_phase s = Deleting then (Some DeletingNotStoppable, c)
           else if ls_phase s = Quiescing then (None, c)
           else continueStop env (commit env ((clearIdleWindow s)
             \<lparr>ls_phase := Quiescing, ls_revision := ls_revision s + 1,
              ls_nextProbeAt := Some (env_now env + OPERATION_RECOVERY_INTERVAL_MS),
              ls_workLeases := [],
              ls_operation := Some \<lparr>op_id = env_id env, op_type = OpForceStop,
                                    op_startedAt = env_now env\<rparr>,
              ls_wakeAfterStop := False, ls_updatedAt := env_now env\<rparr>) c)))"

section \<open>Probing\<close>

definition performProbeStart :: "lc_env \<Rightarrow> coordinator \<Rightarrow> coordinator" where
  "performProbeStart env c =
     (case lc_state c of
        None \<Rightarrow> c
      | Some s0 \<Rightarrow>
          (if \<not> isProbePhase (ls_phase s0) \<or> \<not> truthy_str (ls_runtimeEpoch s0) then c
           else
             (let c1 = (case removeExpiredLeases (env_now env) s0 of
                          None \<Rightarrow> c | Some s1 \<Rightarrow> commit env s1 c)
              in case lc_state c1 of
                   None \<Rightarrow> c1
                 | Some s \<Rightarrow>
                     (if \<not> isProbePhase (ls_phase s) \<or> \<not> truthy_str (ls_runtimeEpoch s) then c1
                      else c1\<lparr>lc_probe := Some \<lparr>pc_revision = ls_revision s,
                                               pc_runtimeEpoch = the (ls_runtimeEpoch s)\<rparr>\<rparr>))))"

definition runProbe :: "lc_env \<Rightarrow> coordinator \<Rightarrow> coordinator" where
  "runProbe env c = (if lc_probe c \<noteq> None then c else performProbeStart env c)"

definition currentProbe :: "probe_call \<Rightarrow> stored_lifecycle \<Rightarrow> bool" where
  "currentProbe p s =
     (ls_revision s = pc_revision p \<and> ls_runtimeEpoch s = Some (pc_runtimeEpoch p) \<and>
      isProbePhase (ls_phase s))"

definition performProbeFinish ::
  "lc_env \<Rightarrow> probe_call \<Rightarrow> snapshot_reply \<Rightarrow> coordinator \<Rightarrow> lc_error option \<times> coordinator" where
  "performProbeFinish env p reply c =
     (case requireState c of
        Inl e \<Rightarrow> (Some e, c)
      | Inr s \<Rightarrow>
          (case reply of
             Inr snapshot \<Rightarrow>
               (if \<not> currentProbe p s then (None, persistAndSchedule env c)
                else (None, commit env (applyExecutionSnapshot snapshot (env_now env) s) c))
           | Inl msg \<Rightarrow>
               (if \<not> currentProbe p s then (None, c)
                else (None, commit env (applyUnknownActivity msg (env_now env) s) c))))"

definition reconcileNow :: "lc_env \<Rightarrow> coordinator \<Rightarrow> coordinator" where
  "reconcileNow env c =
     (case lc_state c of
        None \<Rightarrow> c
      | Some s \<Rightarrow> if isProbePhase (ls_phase s) then runProbe env c else c)"

section \<open>The alarm\<close>

text \<open>
  \<open>alarmThrew\<close> is the handler's \<open>catch\<close>: persist and schedule again, then finish.
\<close>

definition alarmThrew :: "lc_env \<Rightarrow> coordinator \<Rightarrow> coordinator" where
  "alarmThrew env c = (persistAndSchedule env c)\<lparr>lc_handler := AlarmIdle\<rparr>"

definition alarmAwaitStop :: "lc_env \<Rightarrow> coordinator \<Rightarrow> coordinator" where
  "alarmAwaitStop env c =
     (case continueStop env c of
        (Some e, c1) \<Rightarrow> alarmThrew env c1
      | (None, c1) \<Rightarrow> c1\<lparr>lc_handler := (if lc_stop c1 = None then AlarmIdle else AlarmAwaitsStop)\<rparr>)"

definition beginIdleStop :: "lc_env \<Rightarrow> coordinator \<Rightarrow> coordinator" where
  "beginIdleStop env c =
     (case lc_state c of
        None \<Rightarrow> alarmThrew env c
      | Some s \<Rightarrow>
          (if ls_phase s \<noteq> RunningIdle \<or> \<not> truthy_str (ls_runtimeEpoch s) \<or>
              activeLeaseCount s (env_now env) > 0
           then (persistAndSchedule env c)\<lparr>lc_handler := AlarmIdle\<rparr>
           else alarmAwaitStop env (commit env (s
             \<lparr>ls_phase := Quiescing,
              ls_nextProbeAt := Some (env_now env + OPERATION_RECOVERY_INTERVAL_MS),
              ls_operation := Some \<lparr>op_id = env_id env, op_type = OpIdleStop,
                                    op_startedAt = env_now env\<rparr>,
              ls_wakeAfterStop := False, ls_updatedAt := env_now env\<rparr>) c)))"

definition beginUnreachableStop :: "lc_env \<Rightarrow> coordinator \<Rightarrow> coordinator" where
  "beginUnreachableStop env c =
     (case lc_state c of
        None \<Rightarrow> alarmThrew env c
      | Some s \<Rightarrow> alarmAwaitStop env (commit env ((clearIdleWindow s)
          \<lparr>ls_phase := Quiescing, ls_revision := ls_revision s + 1,
           ls_nextProbeAt := Some (env_now env + OPERATION_RECOVERY_INTERVAL_MS),
           ls_workLeases := [],
           ls_operation := Some \<lparr>op_id = env_id env, op_type = OpForceStop,
                                 op_startedAt = env_now env\<rparr>,
           ls_wakeAfterStop := False, ls_updatedAt := env_now env\<rparr>) c))"

text \<open>What the handler does once its probe is over.\<close>

definition afterProbe :: "lc_env \<Rightarrow> coordinator \<Rightarrow> coordinator" where
  "afterProbe env c =
     (case lc_state c of
        None \<Rightarrow> c\<lparr>lc_handler := AlarmIdle\<rparr>
      | Some s \<Rightarrow>
          (if probeFailureWindowExpired s (env_now env) MAX_PROBE_FAILURE_WINDOW_MS
           then beginUnreachableStop env c else c\<lparr>lc_handler := AlarmIdle\<rparr>))"

definition alarm :: "lc_env \<Rightarrow> coordinator \<Rightarrow> coordinator" where
  "alarm env c0 =
     (let c = c0\<lparr>lc_alarm := None\<rparr>; now = env_now env in
      case lc_state c of
        None \<Rightarrow> c
      | Some s \<Rightarrow>
          (if ls_phase s = Sleeping \<or> ls_phase s = Deleting then c
           else if ls_phase s = Waking \<or> ls_phase s = ErrorWaking then
             (case continueWake env False c of
                (Inl e, c1) \<Rightarrow> alarmThrew env c1
              | (Inr (WakeDone r), c1) \<Rightarrow> c1
              | (Inr WakeInFlight, c1) \<Rightarrow> c1\<lparr>lc_handler := AlarmAwaitsWake\<rparr>)
           else if ls_phase s = Quiescing then alarmAwaitStop env c
           else
             (let c1 = (case removeExpiredLeases now s of
                          None \<Rightarrow> c | Some s1 \<Rightarrow> commit env s1 c)
              in case lc_state c1 of
                   None \<Rightarrow> persistAndSchedule env c1
                 | Some cur \<Rightarrow>
                     (if \<not> isProbePhase (ls_phase cur) then persistAndSchedule env c1
                      else if ls_phase cur = RunningIdle \<and>
                              (case ls_idleDeadlineAt cur of None \<Rightarrow> False | Some d \<Rightarrow> now \<ge> d) \<and>
                              activeLeaseCount cur now = 0
                        then beginIdleStop env c1
                      else if (case ls_nextProbeAt cur of None \<Rightarrow> True | Some t \<Rightarrow> now \<ge> t) then
                        (let c2 = runProbe env c1 in
                         if lc_probe c2 \<noteq> None then c2\<lparr>lc_handler := AlarmAwaitsProbe\<rparr>
                         else afterProbe env c2)
                      else persistAndSchedule env c1))))"

section \<open>Answers of the Sandbox\<close>

text \<open>
  A handler that waited for the call goes on when it answers: a stop that had started a wake
  ends (through its \<open>catch\<close> if the wake threw), and then the alarm handler that waited.
\<close>

definition settleStop :: "lc_env \<Rightarrow> lc_error option \<Rightarrow> coordinator \<Rightarrow> coordinator" where
  "settleStop env err c =
     (if lc_handler c \<noteq> AlarmAwaitsStop then c
      else case err of None \<Rightarrow> c\<lparr>lc_handler := AlarmIdle\<rparr> | Some _ \<Rightarrow> alarmThrew env c)"

definition settleWake :: "lc_env \<Rightarrow> lc_error option \<Rightarrow> coordinator \<Rightarrow> coordinator" where
  "settleWake env err c =
     (let c1 = (case lc_stop c of
                  Some (StopAwaitsWake oper) \<Rightarrow>
                    (case err of
                       None \<Rightarrow> settleStop env None (c\<lparr>lc_stop := None\<rparr>)
                     | Some e \<Rightarrow>
                         (case stopCatch env oper (errorMessage e) (c\<lparr>lc_stop := None\<rparr>) of
                            (e', c') \<Rightarrow> settleStop env e' c'))
                | _ \<Rightarrow> c)
      in if lc_handler c1 \<noteq> AlarmAwaitsWake then c1
         else case err of None \<Rightarrow> c1\<lparr>lc_handler := AlarmIdle\<rparr> | Some _ \<Rightarrow> alarmThrew env c1)"

definition onWakeReply :: "lc_env \<Rightarrow> snapshot_reply \<Rightarrow> coordinator \<Rightarrow> coordinator" where
  "onWakeReply env reply c =
     (case lc_wake c of
        None \<Rightarrow> c
      | Some w \<Rightarrow>
          (case performWakeFinish env w reply (c\<lparr>lc_wake := None\<rparr>) of
             (Inl e, c') \<Rightarrow> settleWake env (Some e) c'
           | (Inr _, c') \<Rightarrow> settleWake env None c'))"

definition onProbeReply :: "lc_env \<Rightarrow> snapshot_reply \<Rightarrow> coordinator \<Rightarrow> coordinator" where
  "onProbeReply env reply c =
     (case lc_probe c of
        None \<Rightarrow> c
      | Some p \<Rightarrow>
          (case performProbeFinish env p reply (c\<lparr>lc_probe := None\<rparr>) of
             (err, c') \<Rightarrow>
               (if lc_handler c' \<noteq> AlarmAwaitsProbe then c'
                else case err of None \<Rightarrow> afterProbe env c' | Some _ \<Rightarrow> alarmThrew env c')))"

definition onStopReply :: "lc_env \<Rightarrow> stop_reply \<Rightarrow> coordinator \<Rightarrow> coordinator" where
  "onStopReply env reply c =
     (case lc_stop c of
        Some (StopRpc oper epoch rv) \<Rightarrow>
          (case performStopFinish env oper reply (c\<lparr>lc_stop := None\<rparr>) of
             (err, c') \<Rightarrow> if lc_stop c' = None then settleStop env err c' else c')
      | _ \<Rightarrow> c)"

section \<open>The step relation\<close>

datatype lc_event =
    EvInitialize initialize_input
  | EvWake
  | EvBeginWork string "millis option"
  | EvRenewWork string string "millis option"
  | EvEndWork string string
  | EvObserve string execution_snapshot
  | EvReconcile
  | EvForceStop
  | EvBeginDelete
  | EvMarkDeleted
  | EvAlarm
  | EvWakeReply snapshot_reply
  | EvProbeReply snapshot_reply
  | EvStopReply stop_reply
  | EvReload

definition env_ok :: "lc_env \<Rightarrow> bool" where
  "env_ok env = (env_epoch env \<noteq> [])"

inductive lc_step :: "coordinator \<Rightarrow> lc_env \<times> lc_event \<Rightarrow> coordinator \<Rightarrow> bool" where
  st_initialize: "env_ok env \<Longrightarrow>
    lc_step c (env, EvInitialize inp) (snd (initializeInstance env inp c))"
| st_wake: "env_ok env \<Longrightarrow> lc_step c (env, EvWake) (snd (wake env c))"
| st_beginWork: "env_ok env \<Longrightarrow>
    lc_step c (env, EvBeginWork e ttl) (snd (beginWork env e ttl c))"
| st_renewWork: "env_ok env \<Longrightarrow>
    lc_step c (env, EvRenewWork e l ttl) (snd (renewWork env e l ttl c))"
| st_endWork: "env_ok env \<Longrightarrow> lc_step c (env, EvEndWork e l) (endWork env e l c)"
| st_observe: "env_ok env \<Longrightarrow>
    lc_step c (env, EvObserve e x) (snd (observeExecution env e x c))"
| st_reconcile: "env_ok env \<Longrightarrow> lc_step c (env, EvReconcile) (reconcileNow env c)"
| st_forceStop: "env_ok env \<Longrightarrow> lc_step c (env, EvForceStop) (snd (forceStop env c))"
| st_beginDelete: "env_ok env \<Longrightarrow> lc_step c (env, EvBeginDelete) (beginDelete env c)"
| st_markDeleted: "env_ok env \<Longrightarrow> lc_step c (env, EvMarkDeleted) (markDeleted c)"
| st_alarm: "env_ok env \<Longrightarrow> lc_handler c = AlarmIdle \<Longrightarrow> lc_alarm c = Some t \<Longrightarrow>
    t \<le> env_now env \<Longrightarrow> lc_step c (env, EvAlarm) (alarm env c)"
| st_wakeReply: "env_ok env \<Longrightarrow> lc_wake c \<noteq> None \<Longrightarrow>
    lc_step c (env, EvWakeReply r) (onWakeReply env r c)"
| st_probeReply: "env_ok env \<Longrightarrow> lc_probe c \<noteq> None \<Longrightarrow>
    lc_step c (env, EvProbeReply r) (onProbeReply env r c)"
| st_stopReply: "env_ok env \<Longrightarrow> lc_stop c = Some (StopRpc oper e rv) \<Longrightarrow>
    lc_step c (env, EvStopReply sr) (onStopReply env sr c)"
| st_reload: "env_ok env \<Longrightarrow> newCoordinator env c = Inr c' \<Longrightarrow>
    lc_step c (env, EvReload) c'"

text \<open>A coordinator that has never been used: nothing in memory or in storage.\<close>

definition lc_init :: "coordinator \<Rightarrow> bool" where
  "lc_init c = (c = \<lparr>lc_state = None, lc_disk = None, lc_alarm = None, lc_lastSynced = None,
     lc_mirror = None, lc_wake = None, lc_probe = None, lc_stop = None, lc_handler = AlarmIdle\<rparr>)"

end
