(* ===== verification/Lifecycle_Invariant.thy ===== *)
theory Lifecycle_Invariant
  imports Lifecycle_Steps
begin

text \<open>
  The invariant of the coordinator: which fields go with which phase, the idle window, the
  leases, and the agreement of memory, storage and the mirrored row; and that each
  transition of the stored state keeps it.
\<close>

section \<open>Well-formed stored states\<close>

definition leases_ok :: "stored_lifecycle \<Rightarrow> bool" where
  "leases_ok s =
     (distinct_keys (ls_workLeases s) \<and>
      (\<forall>(k, l) \<in> set (ls_workLeases s). wl_id l = k \<and> Some (wl_runtimeEpoch l) = ls_runtimeEpoch s) \<and>
      (\<not> isAdmissionPhase (ls_phase s) \<longrightarrow> ls_workLeases s = []))"

definition idle_window_ok :: "stored_lifecycle \<Rightarrow> bool" where
  "idle_window_ok s =
     ((ls_phase s = RunningIdle \<longrightarrow>
        (\<exists>t. ls_idleCandidateSince s = Some t \<and> ls_idleSince s = Some t \<and>
             ls_idleDeadlineAt s = Some (t + nullish (ls_idleTimeoutMs s) LIFECYCLE_IDLE_TIMEOUT_MS) \<and>
             ls_idleConfirmations s \<ge> REQUIRED_IDLE_CONFIRMATIONS)) \<and>
      (ls_phase s \<noteq> RunningIdle \<longrightarrow> ls_phase s \<noteq> Quiescing \<longrightarrow>
        ls_idleDeadlineAt s = None \<and> ls_idleSince s = None) \<and>
      (\<forall>t w. ls_idleCandidateSince s = Some t \<longrightarrow> ls_lastSemanticWorkAt s = Some w \<longrightarrow> w \<le> t))"

fun phase_ok :: "lifecycle_phase \<Rightarrow> string option \<Rightarrow> operation_type option \<Rightarrow> bool" where
  "phase_ok Waking e oper = (truthy_str e \<and> oper = Some OpWake)"
| "phase_ok ErrorWaking e oper = (truthy_str e \<and> oper = Some OpWake)"
| "phase_ok Quiescing e oper = (truthy_str e \<and> (oper = Some OpIdleStop \<or> oper = Some OpForceStop))"
| "phase_ok Sleeping e oper = (e = None \<and> oper = None)"
| "phase_ok Deleting e oper = (e = None \<and> oper = None)"
| "phase_ok _ e oper = (truthy_str e \<and> oper = None)"

definition state_ok :: "stored_lifecycle \<Rightarrow> bool" where
  "state_ok s =
     (ls_schemaVersion s = LIFECYCLE_SCHEMA_VERSION \<and>
      phase_ok (ls_phase s) (ls_runtimeEpoch s) (map_option op_type (ls_operation s)) \<and>
      leases_ok s \<and> idle_window_ok s \<and>
      (ls_wakeAfterStop s \<longrightarrow> ls_phase s = Quiescing))"

text \<open>Memory and storage agree, and the row holds what was last sent to it.\<close>

definition coord_ok :: "coordinator \<Rightarrow> bool" where
  "coord_ok c =
     ((case lc_state c of None \<Rightarrow> True | Some s \<Rightarrow> state_ok s) \<and>
      lc_disk c = lc_state c \<and>
      (\<forall>l. lc_lastSynced c = Some l \<longrightarrow> lc_mirror c = Some l))"

lemmas state_ok_defs = state_ok_def leases_ok_def idle_window_ok_def

lemma admission_phase_ok: "isAdmissionPhase p \<Longrightarrow> phase_ok p e oper \<longleftrightarrow> truthy_str e \<and> oper = None"
  by (cases p) auto

lemma state_okD_admission:
  assumes "state_ok s" and "isAdmissionPhase (ls_phase s)"
  shows "truthy_str (ls_runtimeEpoch s)" and "ls_operation s = None" and "\<not> ls_wakeAfterStop s"
  using assms by (auto simp: state_ok_def admission_phase_ok)

lemma state_okD_leases:
  "state_ok s \<Longrightarrow> \<not> isAdmissionPhase (ls_phase s) \<Longrightarrow> ls_workLeases s = []"
  by (simp add: state_ok_def leases_ok_def)

lemma state_okD_quiescing:
  assumes "state_ok s" and "ls_phase s = Quiescing"
  obtains oper where "ls_operation s = Some oper" and "op_type oper \<noteq> OpWake"
    and "truthy_str (ls_runtimeEpoch s)"
  using assms by (auto simp: state_ok_def)

lemma state_okD_window:
  assumes "state_ok s" and "ls_idleCandidateSince s = Some t" and "ls_lastSemanticWorkAt s = Some w"
  shows "w \<le> t"
  using assms by (auto simp: state_ok_def idle_window_ok_def)

lemma state_okD_idle:
  assumes "state_ok s" and "ls_phase s = RunningIdle"
  obtains t where "ls_idleCandidateSince s = Some t" and "ls_idleSince s = Some t"
    and "ls_idleDeadlineAt s = Some (t + nullish (ls_idleTimeoutMs s) LIFECYCLE_IDLE_TIMEOUT_MS)"
  using assms by (auto simp: state_ok_def idle_window_ok_def)

section \<open>The transitions keep well-formed states\<close>

lemma state_ok_initial: "state_ok (initialState inp now)"
  by (simp add: initialState_def state_ok_defs)

lemma state_ok_sleeping: "state_ok s \<Longrightarrow> state_ok (toSleepingState s now r e)"
  by (simp add: toSleepingState_def clearIdleWindow_def state_ok_defs)

lemma state_ok_unknown:
  "state_ok s \<Longrightarrow> isAdmissionPhase (ls_phase s) \<Longrightarrow> state_ok (applyUnknownActivity m now s)"
  by (auto simp: applyUnknownActivity_def clearIdleWindow_def state_ok_defs Let_def
      admission_phase_ok)

lemma state_ok_common:
  assumes "state_ok s" and "isAdmissionPhase (ls_phase s)"
  shows "state_ok (applyCommon x obs now s)"
    and "ls_phase (applyCommon x obs now s) = ls_phase s"
  using assms by (simp_all add: applyCommon_def state_ok_defs admission_phase_ok)

lemma state_ok_clear:
  assumes "state_ok s" and "ls_phase s \<noteq> RunningIdle"
  shows "state_ok (clearIdleWindow s)"
  using assms by (simp add: clearIdleWindow_def state_ok_defs)

text \<open>The four outcomes of a running snapshot, as updates of a well-formed state.\<close>

lemma state_ok_busy:
  assumes "state_ok s" and "isAdmissionPhase (ls_phase s)" and "p = RunningBusy \<or> p = RunningUnknown"
  shows "state_ok ((applyCommon x obs now (clearIdleWindow s))
           \<lparr>ls_phase := p, ls_revision := r, ls_nextProbeAt := t\<rparr>)"
    and "state_ok ((applyCommon x obs now (clearIdleWindow s))
           \<lparr>ls_phase := p, ls_nextProbeAt := t\<rparr>)"
  using assms
  by (auto simp: applyCommon_def clearIdleWindow_def state_ok_defs admission_phase_ok)

lemma state_ok_next_probe:
  "state_ok (s\<lparr>ls_nextProbeAt := t\<rparr>) = state_ok s"
  by (simp add: state_ok_defs)

lemma state_ok_confirmed:
  assumes "state_ok s" and "isAdmissionPhase (ls_phase s)"
    and "\<And>w. ls_lastSemanticWorkAt s = Some w \<Longrightarrow> w \<le> c" and "REQUIRED_IDLE_CONFIRMATIONS \<le> n"
  shows "state_ok ((applyCommon x obs now s)
           \<lparr>ls_phase := RunningIdle, ls_idleCandidateSince := Some c, ls_idleConfirmations := n,
            ls_idleSince := Some c,
            ls_idleDeadlineAt := Some (c + nullish (ls_idleTimeoutMs s) LIFECYCLE_IDLE_TIMEOUT_MS),
            ls_nextProbeAt := t\<rparr>)"
  using assms by (auto simp: applyCommon_def state_ok_defs admission_phase_ok)

lemma state_ok_candidate:
  assumes "state_ok s" and "isAdmissionPhase (ls_phase s)"
    and "\<And>w. ls_lastSemanticWorkAt s = Some w \<Longrightarrow> w \<le> c"
  shows "state_ok ((applyCommon x obs now s)
           \<lparr>ls_phase := RunningUnknown, ls_idleCandidateSince := Some c, ls_idleConfirmations := n,
            ls_idleSince := None, ls_idleDeadlineAt := None, ls_nextProbeAt := t\<rparr>)"
  using assms by (auto simp: applyCommon_def state_ok_defs admission_phase_ok)

lemma candidate_after_work:
  assumes "state_ok s"
    and "\<not> observedBeforeWork obs s"
    and "ls_lastSemanticWorkAt s = Some w"
  shows "w \<le> nullish (ls_idleCandidateSince s) obs"
  using assms state_okD_window[OF assms(1) _ assms(3)]
  by (cases "ls_idleCandidateSince s") (auto simp: observedBeforeWork_def)

lemma state_ok_snapshot:
  assumes ok: "state_ok s" and adm: "isAdmissionPhase (ls_phase s)"
  shows "state_ok (applyExecutionSnapshot x now s)"
proof (cases "ex_state x")
  case ExRunning
  note d = applyExecutionSnapshot_def Let_def ExRunning
  let ?obs = "parseObservedAt (ex_observedAt x) now"
  let ?stale = "observedBeforeWork ?obs s"
  let ?busy = "ex_active x \<or> activeLeaseCount s now > 0"
  let ?stay = "ls_phase s = RunningIdle \<and> ls_idleSince s \<noteq> None \<and> ls_idleDeadlineAt s \<noteq> None"
  consider (busy) ?busy | (stale) "\<not> ?busy" ?stale | (stay) "\<not> ?busy" "\<not> ?stale" ?stay
    | (confirm) "\<not> ?busy" "\<not> ?stale" "\<not> ?stay" by argo
  then show ?thesis
  proof cases
    case confirm
    note after = candidate_after_work[OF ok confirm(2)]
    from confirm show ?thesis
      by (simp only: d if_False simp_thms execution_state.distinct split: if_split)
        (simp add: state_ok_confirmed[OF ok adm after] state_ok_candidate[OF ok adm after])
  next
    case busy
    then show ?thesis
      by (simp only: d if_True simp_thms execution_state.distinct if_False)
        (simp add: state_ok_busy(1)[OF ok adm])
  next
    case stale
    then show ?thesis
      by (simp only: d if_True simp_thms execution_state.distinct if_False)
        (simp add: state_ok_busy(2)[OF ok adm])
  next
    case stay
    then show ?thesis
      by (simp only: d if_True simp_thms execution_state.distinct if_False)
        (simp add: state_ok_next_probe state_ok_common(1)[OF ok adm])
  qed
qed (simp_all add: applyExecutionSnapshot_def Let_def ok adm state_ok_sleeping state_ok_unknown)

lemma state_ok_expired:
  assumes ok: "state_ok s" and adm: "isAdmissionPhase (ls_phase s)"
    and s': "removeExpiredLeases now s = Some s'"
  shows "state_ok s'" and "ls_phase s' = RunningUnknown"
proof -
  let ?ls = "filter (\<lambda>(k, l). isActiveLease l (ls_runtimeEpoch s) now) (ls_workLeases s)"
  have e: "s' = (clearIdleWindow s)
      \<lparr>ls_phase := RunningUnknown, ls_revision := ls_revision s + 1, ls_lastSemanticWorkAt := Some now,
       ls_nextProbeAt := Some now, ls_workLeases := ?ls, ls_updatedAt := now\<rparr>"
    using s' adm by (simp add: removeExpiredLeases_def Let_def split: if_splits)
  have a: "truthy_str (ls_runtimeEpoch s)" "ls_operation s = None" "\<not> ls_wakeAfterStop s"
    using state_okD_admission [OF ok adm] by simp_all
  show "state_ok s'" using ok a
    unfolding e state_ok_defs clearIdleWindow_def by simp
  show "ls_phase s' = RunningUnknown" by (simp add: e)
qed

lemma state_ok_updatedAt [simp]: "state_ok (s\<lparr>ls_updatedAt := u\<rparr>) = state_ok s"
  by (simp add: state_ok_def leases_ok_def idle_window_ok_def)

text \<open>A lease of the current epoch may be stored under its own id in a running phase.\<close>

lemma leases_okD: "leases_ok s \<Longrightarrow> x \<in> set (ls_workLeases s) \<Longrightarrow>
    wl_id (snd x) = fst x \<and> Some (wl_runtimeEpoch (snd x)) = ls_runtimeEpoch s"
  by (auto simp: leases_ok_def)

lemma state_ok_with_leases:
  assumes "state_ok s" and "isAdmissionPhase (ls_phase s)" and "distinct_keys ls"
    and "\<And>x. x \<in> set ls \<Longrightarrow>
      wl_id (snd x) = fst x \<and> Some (wl_runtimeEpoch (snd x)) = ls_runtimeEpoch s"
  shows "state_ok (s\<lparr>ls_workLeases := ls\<rparr>)"
  using assms by (simp add: state_ok_def leases_ok_def idle_window_ok_def case_prod_beta')

lemma state_okD_lease:
  assumes "state_ok s"
  shows "distinct_keys (ls_workLeases s)" and "leases_ok s"
  using assms by (simp_all add: state_ok_def leases_ok_def)

lemma state_ok_leased:
  assumes "state_ok s" and "isAdmissionPhase (ls_phase s)"
    and l: "ls_runtimeEpoch s = Some (wl_runtimeEpoch l)" "wl_id l = k"
  shows "state_ok (s\<lparr>ls_workLeases := AList.update k l (ls_workLeases s)\<rparr>)"
proof (rule state_ok_with_leases[OF assms(1,2)])
  fix x assume "x \<in> set (AList.update k l (ls_workLeases s))"
  then consider "x = (k, l)" | "x \<in> set (ls_workLeases s)"
    using set_update_subset[of k l "ls_workLeases s"] by auto
  then show "wl_id (snd x) = fst x \<and> Some (wl_runtimeEpoch (snd x)) = ls_runtimeEpoch s"
    using l leases_okD[OF state_okD_lease(2)[OF assms(1)]] by cases auto
qed (use state_okD_lease[OF assms(1)] in simp)

lemma state_ok_unleased:
  assumes "state_ok s" and "isAdmissionPhase (ls_phase s)"
  shows "state_ok (s\<lparr>ls_workLeases := AList.delete l (ls_workLeases s)\<rparr>)"
  by (rule state_ok_with_leases[OF assms])
    (use state_okD_lease[OF assms(1)] set_delete_subset[of l "ls_workLeases s"]
      in \<open>auto dest: leases_okD\<close>)

lemma state_ok_working:
  assumes "state_ok s" and "isAdmissionPhase (ls_phase s)"
    and "p = RunningBusy \<or> p = RunningUnknown"
  shows "state_ok ((clearIdleWindow s)\<lparr>ls_phase := p, ls_revision := r,
           ls_lastSemanticWorkAt := w, ls_nextProbeAt := t\<rparr>)"
  using assms by (auto simp: clearIdleWindow_def state_ok_defs admission_phase_ok)

lemma clearIdleWindow_frame [simp]:
  "ls_phase (clearIdleWindow s) = ls_phase s"
  "ls_workLeases (clearIdleWindow s) = ls_workLeases s"
  "ls_runtimeEpoch (clearIdleWindow s) = ls_runtimeEpoch s"
  "ls_operation (clearIdleWindow s) = ls_operation s"
  "ls_revision (clearIdleWindow s) = ls_revision s"
  "ls_lastSemanticWorkAt (clearIdleWindow s) = ls_lastSemanticWorkAt s"
  "ls_idleTimeoutMs (clearIdleWindow s) = ls_idleTimeoutMs s"
  "ls_probeFailingSince (clearIdleWindow s) = ls_probeFailingSince s"
  by (simp_all add: clearIdleWindow_def)

section \<open>The object\<close>

lemma maybeSync_frame [simp]:
  "lc_state (maybeSyncRuntimeCache env s c) = lc_state c"
  "lc_disk (maybeSyncRuntimeCache env s c) = lc_disk c"
  "lc_alarm (maybeSyncRuntimeCache env s c) = lc_alarm c"
  "lc_wake (maybeSyncRuntimeCache env s c) = lc_wake c"
  "lc_probe (maybeSyncRuntimeCache env s c) = lc_probe c"
  "lc_stop (maybeSyncRuntimeCache env s c) = lc_stop c"
  "lc_handler (maybeSyncRuntimeCache env s c) = lc_handler c"
  by (simp_all add: maybeSyncRuntimeCache_def Let_def)

lemma persist_frame [simp]:
  "lc_state (persistAndSchedule env c) = lc_state c"
  "lc_wake (persistAndSchedule env c) = lc_wake c"
  "lc_probe (persistAndSchedule env c) = lc_probe c"
  "lc_stop (persistAndSchedule env c) = lc_stop c"
  "lc_handler (persistAndSchedule env c) = lc_handler c"
  by (simp_all add: persistAndSchedule_def split: option.splits)

lemma commit_frame [simp]:
  "lc_state (commit env s c) = Some s"
  "lc_disk (commit env s c) = Some s"
  "lc_alarm (commit env s c) = nextAlarmAt s (env_now env)"
  "lc_wake (commit env s c) = lc_wake c"
  "lc_probe (commit env s c) = lc_probe c"
  "lc_stop (commit env s c) = lc_stop c"
  "lc_handler (commit env s c) = lc_handler c"
  by (simp_all add: commit_def persistAndSchedule_def)

lemma coord_ok_frame [simp]:
  "coord_ok (c\<lparr>lc_alarm := a\<rparr>) = coord_ok c"
  "coord_ok (c\<lparr>lc_wake := w\<rparr>) = coord_ok c"
  "coord_ok (c\<lparr>lc_probe := p\<rparr>) = coord_ok c"
  "coord_ok (c\<lparr>lc_stop := st\<rparr>) = coord_ok c"
  "coord_ok (c\<lparr>lc_handler := h\<rparr>) = coord_ok c"
  by (simp_all add: coord_ok_def)

lemma coord_ok_state: "coord_ok c \<Longrightarrow> lc_state c = Some s \<Longrightarrow> state_ok s"
  by (simp add: coord_ok_def)

lemma coord_ok_commit [intro]: "state_ok s \<Longrightarrow> coord_ok c \<Longrightarrow> coord_ok (commit env s c)"
  by (auto simp: commit_def persistAndSchedule_def maybeSyncRuntimeCache_def coord_ok_def Let_def)

lemma coord_ok_persist [intro]: "coord_ok c \<Longrightarrow> coord_ok (persistAndSchedule env c)"
  by (auto simp: persistAndSchedule_def maybeSyncRuntimeCache_def coord_ok_def Let_def
      split: option.splits)

lemma coord_ok_threw [intro]: "coord_ok c \<Longrightarrow> coord_ok (alarmThrew env c)"
  by (simp add: alarmThrew_def coord_ok_persist)

section \<open>Inversion of the guards\<close>

lemma admittedD:
  assumes "admissionFor e c = Admitted e' r"
  obtains s where "lc_state c = Some s" and "isAdmissionPhase (ls_phase s)"
    and "ls_runtimeEpoch s = Some e" and "e \<noteq> []" and "e' = e" and "r = ls_revision s"
proof (cases "lc_state c")
  case (Some s)
  with assms have "isAdmissionPhase (ls_phase s)" and "truthy_str (ls_runtimeEpoch s)"
    and "ls_runtimeEpoch s = Some e" and "e' = e" and "r = ls_revision s"
    by (simp_all add: admissionFor_def split: if_splits)
  with Some show ?thesis by (intro that) simp_all
qed (use assms in \<open>simp add: admissionFor_def\<close>)

lemma renewWorkD:
  assumes "fst (renewWork env e l ttl c)"
  obtains s x where "lc_state c = Some s" and "map_of (ls_workLeases s) l = Some x"
    and "isAdmissionPhase (ls_phase s)" and "ls_runtimeEpoch s = Some e" and "wl_runtimeEpoch x = e"
proof (cases "lc_state c")
  case (Some s)
  show ?thesis
  proof (cases "map_of (ls_workLeases s) l")
    case (Some x)
    with \<open>lc_state c = Some s\<close> assms show ?thesis
      by (intro that[of s x]) (simp_all add: renewWork_def split: if_splits)
  qed (use assms Some in \<open>simp add: renewWork_def\<close>)
qed (use assms in \<open>simp add: renewWork_def\<close>)

lemma renewWork_refused: "renewWork env e l ttl c = (False, c) \<or> fst (renewWork env e l ttl c)"
  by (simp add: renewWork_def split: option.split)

lemma lease_admits:
  assumes "coord_ok c" and "lc_state c = Some s" and "map_of (ls_workLeases s) l = Some x"
  shows "isAdmissionPhase (ls_phase s)"
  using assms by (metis coord_ok_state map_of.simps(1) option.distinct(1) state_okD_leases)

end
