(* ===== verification/Lifecycle_Spec.thy ===== *)
theory Lifecycle_Spec
  imports Lifecycle_Invariant
begin

text \<open>
  The specification of the coordinator: the transitions a stored lifecycle may make, each
  with the condition under which it is allowed. It knows nothing of promises, storage or
  alarms. A label says who causes a transition: the coordinator itself, the answer to a
  wake, or the answer to a stop. Lifecycle_Refinement shows that every handler performs
  only such transitions.
\<close>

datatype cause = Local | WakeAnswer | StopAnswer

inductive transition :: "lc_env \<Rightarrow> cause \<Rightarrow> stored_lifecycle \<Rightarrow> stored_lifecycle \<Rightarrow> bool"
  for env :: lc_env where
  t_beginWork: "isAdmissionPhase (ls_phase s) \<Longrightarrow> ls_runtimeEpoch s = Some (wl_runtimeEpoch l) \<Longrightarrow>
    wl_id l = k \<Longrightarrow> env_now env + MIN_WORK_LEASE_MS \<le> wl_expiresAt l \<Longrightarrow>
    wl_expiresAt l \<le> env_now env + MAX_WORK_LEASE_MS \<Longrightarrow>
    transition env Local s ((clearIdleWindow s)\<lparr>ls_phase := RunningBusy,
      ls_revision := ls_revision s + 1, ls_lastSemanticWorkAt := Some (env_now env),
      ls_nextProbeAt := Some p, ls_workLeases := AList.update k l (ls_workLeases s),
      ls_updatedAt := env_now env\<rparr>)"
| t_renewWork: "isAdmissionPhase (ls_phase s) \<Longrightarrow> map_of (ls_workLeases s) k = Some l \<Longrightarrow>
    transition env Local s (s\<lparr>ls_workLeases := AList.update k (l\<lparr>wl_expiresAt := t\<rparr>) (ls_workLeases s),
      ls_updatedAt := env_now env\<rparr>)"
| t_endWork: "map_of (ls_workLeases s) k = Some l \<Longrightarrow> p = RunningBusy \<or> p = RunningUnknown \<Longrightarrow>
    transition env Local s ((clearIdleWindow s)\<lparr>ls_phase := p, ls_revision := ls_revision s + 1,
      ls_lastSemanticWorkAt := Some (env_now env), ls_nextProbeAt := Some (env_now env),
      ls_workLeases := AList.delete k (ls_workLeases s), ls_updatedAt := env_now env\<rparr>)"
| t_snapshot: "isAdmissionPhase (ls_phase s) \<Longrightarrow>
    transition env Local s (applyExecutionSnapshot x (env_now env) s)"
| t_unknown: "isAdmissionPhase (ls_phase s) \<Longrightarrow>
    transition env Local s (applyUnknownActivity m (env_now env) s)"
| t_expire: "isAdmissionPhase (ls_phase s) \<Longrightarrow> removeExpiredLeases (env_now env) s = Some s' \<Longrightarrow>
    transition env Local s s'"
| t_wakeRequested: "ls_phase s = Quiescing \<Longrightarrow>
    transition env Local s (s\<lparr>ls_wakeAfterStop := True, ls_updatedAt := env_now env\<rparr>)"
| t_wakeStart: "ls_phase s = Waking \<or> ls_phase s = ErrorWaking \<or> ls_phase s = Sleeping \<Longrightarrow>
    e \<noteq> [] \<Longrightarrow> op_type oper = OpWake \<Longrightarrow>
    r = ls_revision s + 1 \<or> r = ls_revision s \<and> ls_runtimeEpoch s = Some e \<Longrightarrow>
    transition env Local s ((clearIdleWindow s)\<lparr>ls_phase := Waking, ls_revision := r,
      ls_runtimeEpoch := Some e,
      ls_nextProbeAt := Some (env_now env + OPERATION_RECOVERY_INTERVAL_MS),
      ls_activeSessionCount := 0, ls_retrySessionCount := 0, ls_activityLocations := [],
      ls_workLeases := [], ls_operation := Some oper, ls_wakeAfterStop := False,
      ls_lastError := None, ls_updatedAt := env_now env\<rparr>)"
| t_wakeReady: "ls_phase s = Waking \<Longrightarrow> ex_state x \<noteq> ExNotRunning \<Longrightarrow>
    transition env WakeAnswer s (applyExecutionSnapshot x (env_now env)
      (s\<lparr>ls_phase := RunningUnknown, ls_operation := None, ls_nextProbeAt := Some (env_now env),
       ls_consecutiveProbeFailures := 0, ls_probeFailingSince := None,
       ls_updatedAt := env_now env\<rparr>))"
| t_wakeFailed: "ls_phase s = Waking \<Longrightarrow>
    transition env WakeAnswer s (s\<lparr>ls_phase := ErrorWaking, ls_consecutiveProbeFailures := n,
      ls_nextProbeAt := Some (env_now env + retryBackoff n), ls_lastError := err,
      ls_updatedAt := env_now env\<rparr>)"
| t_idleStop: "ls_phase s = RunningIdle \<Longrightarrow> ls_idleDeadlineAt s = Some d \<Longrightarrow> d \<le> env_now env \<Longrightarrow>
    activeLeaseCount s (env_now env) = 0 \<Longrightarrow> ls_workLeases s = [] \<Longrightarrow> op_type oper = OpIdleStop \<Longrightarrow>
    transition env Local s (s\<lparr>ls_phase := Quiescing,
      ls_nextProbeAt := Some (env_now env + OPERATION_RECOVERY_INTERVAL_MS),
      ls_operation := Some oper, ls_wakeAfterStop := False, ls_updatedAt := env_now env\<rparr>)"
| t_forceStop: "isAdmissionPhase (ls_phase s) \<or> ls_phase s = Waking \<or> ls_phase s = ErrorWaking \<Longrightarrow>
    op_type oper = OpForceStop \<Longrightarrow>
    transition env Local s ((clearIdleWindow s)\<lparr>ls_phase := Quiescing,
      ls_revision := ls_revision s + 1,
      ls_nextProbeAt := Some (env_now env + OPERATION_RECOVERY_INTERVAL_MS),
      ls_workLeases := [], ls_operation := Some oper, ls_wakeAfterStop := False,
      ls_updatedAt := env_now env\<rparr>)"
| t_terminationPending: "ls_phase s = Quiescing \<Longrightarrow>
    transition env StopAnswer s (terminationPending env err s)"
| t_failedRunning: "ls_phase s = Quiescing \<Longrightarrow>
    transition env StopAnswer s (failedRunning env err m s)"
| t_stillBusy: "ls_phase s = Quiescing \<Longrightarrow>
    transition env StopAnswer s (stillBusy env x s)"
| t_sleep: "ls_phase s = Quiescing \<Longrightarrow>
    transition env StopAnswer s (toSleepingState s (env_now env) reason None)"
| t_stopThrew: "ls_phase s = Quiescing \<Longrightarrow>
    transition env Local s ((clearIdleWindow s)\<lparr>ls_phase := Quiescing,
      ls_nextProbeAt := Some (env_now env + retryBackoff n), ls_consecutiveProbeFailures := n,
      ls_lastError := err, ls_updatedAt := env_now env\<rparr>)"
| t_delete: "transition env Local s ((clearIdleWindow s)\<lparr>ls_phase := Deleting,
      ls_revision := ls_revision s + 1, ls_runtimeEpoch := None, ls_nextProbeAt := None,
      ls_workLeases := [], ls_operation := None, ls_wakeAfterStop := False,
      ls_updatedAt := env_now env\<rparr>)"

section \<open>The specification keeps the invariant\<close>

lemma map_of_lease_admits:
  "state_ok s \<Longrightarrow> map_of (ls_workLeases s) k = Some l \<Longrightarrow> isAdmissionPhase (ls_phase s)"
  using state_okD_leases by fastforce

lemma state_ok_renewed:
  assumes "state_ok s" and "isAdmissionPhase (ls_phase s)" and "map_of (ls_workLeases s) k = Some l"
  shows "state_ok (s\<lparr>ls_workLeases := AList.update k (l\<lparr>wl_expiresAt := t\<rparr>) (ls_workLeases s)\<rparr>)"
  using leases_okD[OF state_okD_lease(2)[OF assms(1)] map_of_SomeD[OF assms(3)]]
  by (intro state_ok_leased[OF assms(1,2)]) simp_all

lemma quiescing_ok:
  assumes "state_ok s" and "ls_phase s = Quiescing"
  shows "truthy_str (ls_runtimeEpoch s)" and "ls_workLeases s = []"
  using assms by (auto simp: state_ok_defs)

lemma state_ok_failedRunning:
  "state_ok s \<Longrightarrow> ls_phase s = Quiescing \<Longrightarrow> state_ok (failedRunning env err m s)"
  by (simp add: failedRunning_def clearIdleWindow_def state_ok_defs)

lemma state_ok_stillBusy:
  assumes "state_ok s" and "ls_phase s = Quiescing"
  shows "state_ok (stillBusy env x s)"
proof -
  have "state_ok ((clearIdleWindow s)\<lparr>ls_phase := RunningUnknown, ls_revision := r,
      ls_operation := None, ls_wakeAfterStop := False, ls_nextProbeAt := t\<rparr>)" for r t
    using assms by (simp add: clearIdleWindow_def state_ok_defs)
  then show ?thesis
    by (simp add: stillBusy_def Let_def state_ok_snapshot split: option.split)
qed

lemma state_ok_wakeReady:
  assumes "state_ok s" and "ls_phase s = Waking"
  shows "state_ok (applyExecutionSnapshot x now (s\<lparr>ls_phase := RunningUnknown,
    ls_operation := None, ls_nextProbeAt := t, ls_consecutiveProbeFailures := n,
    ls_probeFailingSince := f, ls_updatedAt := u\<rparr>))"
  by (rule state_ok_snapshot) (use assms in \<open>simp_all add: state_ok_defs\<close>)

theorem transition_state_ok:
  assumes "transition env k s s'" and "state_ok s"
  shows "state_ok s'"
  using assms
proof (induction rule: transition.induct)
  case (t_beginWork s l k p)
  then show ?case
    using state_ok_leased[OF state_ok_working[OF t_beginWork.prems t_beginWork.hyps(1)],
        where l = l and k = k] by simp
next
  case (t_endWork s k l p)
  then show ?case
    using state_ok_unleased[OF state_ok_working[OF t_endWork.prems map_of_lease_admits],
        where l = k] by auto
next
  case (t_expire s s')
  then show ?case using state_ok_expired by blast
next
  case (t_idleStop s d oper)
  then show ?case by (auto simp: state_ok_defs)
next
  case (t_forceStop s oper)
  then show ?case by (auto simp: state_ok_defs clearIdleWindow_def admission_phase_ok)
next
  case (t_stopThrew s n err)
  then show ?case by (auto simp: state_ok_defs clearIdleWindow_def)
next
  case (t_wakeStart s e oper r)
  then show ?case by (auto simp: state_ok_defs clearIdleWindow_def)
next
  case (t_wakeFailed s n err)
  then show ?case by (auto simp: state_ok_defs)
next
  case (t_wakeRequested s)
  then show ?case by (auto simp: state_ok_defs)
next
  case (t_terminationPending s err)
  then show ?case by (auto simp: terminationPending_def state_ok_defs)
next
  case (t_delete s)
  then show ?case by (auto simp: state_ok_defs clearIdleWindow_def)
qed (simp_all add: state_ok_renewed state_ok_snapshot state_ok_unknown state_ok_wakeReady
      state_ok_failedRunning state_ok_stillBusy state_ok_sleeping)

section \<open>Consequences of the specification\<close>

lemma snapshot_phase:
  assumes "isAdmissionPhase (ls_phase s)"
  shows "isAdmissionPhase (ls_phase (applyExecutionSnapshot x now s)) \<or>
         ls_phase (applyExecutionSnapshot x now s) = Sleeping"
  using assms
  by (cases "ex_state x") (simp_all add: applyExecutionSnapshot_def Let_def toSleepingState_def
      applyUnknownActivity_def applyCommon_def)

text \<open>
  A snapshot either puts the state to sleep or leaves the runtime generation alone; it never
  starts a stop and never lowers the revision.
\<close>

lemma snapshot_epoch:
  "ls_phase (applyExecutionSnapshot x now s) \<noteq> Sleeping \<Longrightarrow>
     ls_runtimeEpoch (applyExecutionSnapshot x now s) = ls_runtimeEpoch s"
  by (cases "ex_state x")
    (simp_all add: applyExecutionSnapshot_def Let_def toSleepingState_def
      applyUnknownActivity_def applyCommon_def)

lemma snapshot_revision:
  "ls_revision s \<le> ls_revision (applyExecutionSnapshot x now s)"
  "ls_runtimeEpoch (applyExecutionSnapshot x now s) \<noteq> ls_runtimeEpoch s \<longrightarrow>
     ls_revision s < ls_revision (applyExecutionSnapshot x now s)"
  by (cases "ex_state x", simp_all add: applyExecutionSnapshot_def Let_def toSleepingState_def
      applyUnknownActivity_def applyCommon_def)+

text \<open>The revision never goes back, and it moves whenever the runtime generation changes.\<close>

lemma transition_revision:
  assumes "transition env k s s'"
  shows "ls_revision s \<le> ls_revision s'"
    and "ls_runtimeEpoch s' \<noteq> ls_runtimeEpoch s \<Longrightarrow> ls_revision s < ls_revision s'"
proof -
  have "ls_revision s \<le> ls_revision s' \<and>
      (ls_runtimeEpoch s' \<noteq> ls_runtimeEpoch s \<longrightarrow> ls_revision s < ls_revision s')"
    using assms
  proof (induction rule: transition.induct)
    case (t_stillBusy s x)
    let ?s0 = "(clearIdleWindow s)\<lparr>ls_phase := RunningUnknown, ls_revision := ls_revision s + 1,
         ls_operation := None, ls_wakeAfterStop := False, ls_nextProbeAt := Some (env_now env),
         ls_updatedAt := env_now env\<rparr>"
    show ?case
    proof (cases x)
      case None
      then show ?thesis by (simp add: stillBusy_def Let_def)
    next
      case (Some y)
      then show ?thesis using snapshot_revision[where s = ?s0 and x = y and now = "env_now env"]
        by (simp add: stillBusy_def Let_def)
    qed
  next
    case (t_expire s s')
    then show ?case
      by (auto simp: removeExpiredLeases_def Let_def clearIdleWindow_def split: if_splits)
  next
    case (t_wakeReady s x)
    let ?s0 = "s\<lparr>ls_phase := RunningUnknown, ls_operation := None,
       ls_nextProbeAt := Some (env_now env), ls_consecutiveProbeFailures := 0,
       ls_probeFailingSince := None, ls_updatedAt := env_now env\<rparr>"
    show ?case using snapshot_revision[where s = ?s0 and x = x and now = "env_now env"] by simp
  qed (simp_all add: snapshot_revision applyUnknownActivity_def Let_def terminationPending_def
        failedRunning_def toSleepingState_def clearIdleWindow_def, auto?)
  then show "ls_revision s \<le> ls_revision s'"
    and "ls_runtimeEpoch s' \<noteq> ls_runtimeEpoch s \<Longrightarrow> ls_revision s < ls_revision s'" by auto
qed

text \<open>Who a stored state admits.\<close>

definition admits :: "string \<Rightarrow> stored_lifecycle \<Rightarrow> bool" where
  "admits e s = (isAdmissionPhase (ls_phase s) \<and> ls_runtimeEpoch s = Some e)"

lemma snapshot_admits:
  assumes "admits e (applyExecutionSnapshot x now s)"
  shows "ls_runtimeEpoch s = Some e"
proof -
  from assms have "ls_phase (applyExecutionSnapshot x now s) \<noteq> Sleeping"
    by (auto simp: admits_def)
  with assms show ?thesis using snapshot_epoch[of x now s] by (simp add: admits_def)
qed

lemma admits_phase: "admits e s \<Longrightarrow> isAdmissionPhase (ls_phase s)"
  by (simp add: admits_def)

lemma transition_admits:
  assumes "transition env k s s'" and "admits e s'" and "state_ok s"
  shows "ls_runtimeEpoch s = Some e" and "k = Local \<Longrightarrow> admits e s"
    and "ls_phase s = Waking \<or> ls_phase s = Quiescing \<or> isAdmissionPhase (ls_phase s)"
proof -
  have "ls_runtimeEpoch s = Some e \<and> (k = Local \<longrightarrow> admits e s) \<and>
      (ls_phase s = Waking \<or> ls_phase s = Quiescing \<or> isAdmissionPhase (ls_phase s))"
    using assms
  proof (induction rule: transition.induct)
    case (t_endWork s k l p)
    then show ?case by (auto simp: admits_def dest: map_of_lease_admits)
  next
    case (t_expire s s')
    then show ?case
      by (auto simp: admits_def removeExpiredLeases_def Let_def split: if_splits)
  next
    case (t_snapshot s x)
    with snapshot_admits show ?case by (fastforce simp: admits_def[of e s])
  next
    case (t_wakeReady s x)
    with snapshot_admits show ?case by fastforce
  next
    case (t_stillBusy s x)
    then show ?case
      by (cases x) (auto simp: stillBusy_def Let_def dest: snapshot_admits, simp add: admits_def)
  qed (auto simp: admits_def applyUnknownActivity_def Let_def terminationPending_def
        failedRunning_def toSleepingState_def)
  then show "ls_runtimeEpoch s = Some e" and "k = Local \<Longrightarrow> admits e s"
    and "ls_phase s = Waking \<or> ls_phase s = Quiescing \<or> isAdmissionPhase (ls_phase s)" by auto
qed

text \<open>What an idle stop needs, in terms of the time since the last admitted work.\<close>

definition idleStopping :: "stored_lifecycle \<Rightarrow> bool" where
  "idleStopping s = (ls_phase s = Quiescing \<and> map_option op_type (ls_operation s) = Some OpIdleStop)"

definition idleTimeout :: "stored_lifecycle \<Rightarrow> millis" where
  "idleTimeout s = nullish (ls_idleTimeoutMs s) LIFECYCLE_IDLE_TIMEOUT_MS"

definition mayIdleStop :: "lc_env \<Rightarrow> stored_lifecycle \<Rightarrow> bool" where
  "mayIdleStop env s =
     (ls_phase s = RunningIdle \<and> activeLeaseCount s (env_now env) = 0 \<and>
      (\<forall>w. ls_lastSemanticWorkAt s = Some w \<longrightarrow> w + idleTimeout s \<le> env_now env))"

lemma snapshot_not_quiescing:
  "ls_phase s \<noteq> Quiescing \<Longrightarrow> ls_phase (applyExecutionSnapshot x now s) \<noteq> Quiescing"
  by (cases "ex_state x") (simp_all add: applyExecutionSnapshot_def Let_def toSleepingState_def
      applyUnknownActivity_def applyCommon_def)

lemma idleStop_due:
  assumes "state_ok s" and "ls_phase s = RunningIdle" and "ls_idleDeadlineAt s = Some d"
    and "d \<le> now" and "ls_lastSemanticWorkAt s = Some w"
  shows "w + idleTimeout s \<le> now"
proof -
  from assms(1,2) obtain t where "ls_idleCandidateSince s = Some t"
      and "ls_idleDeadlineAt s = Some (t + idleTimeout s)"
    unfolding idleTimeout_def by (rule state_okD_idle)
  with state_okD_window[OF assms(1) _ assms(5)] assms(3,4) show ?thesis by fastforce
qed

lemma stillBusy_not_quiescing: "ls_phase (stillBusy env x s) \<noteq> Quiescing"
  by (cases x) (simp_all add: stillBusy_def Let_def snapshot_not_quiescing)

lemma transition_idleStop:
  assumes "transition env k s s'" and "idleStopping s'" and "\<not> idleStopping s" and "state_ok s"
  shows "mayIdleStop env s"
  using assms
proof (induction rule: transition.induct)
  case (t_idleStop s d oper)
  then show ?case using idleStop_due[of s d "env_now env"] by (auto simp: mayIdleStop_def)
next
  case (t_expire s s')
  then show ?case
    by (auto simp: idleStopping_def removeExpiredLeases_def Let_def split: if_splits)
next
  case (t_snapshot s x)
  then have "ls_phase s \<noteq> Quiescing" by auto
  with t_snapshot show ?case using snapshot_not_quiescing[of s x "env_now env"]
    by (simp add: idleStopping_def)
next
  case (t_wakeReady s x)
  then show ?case using snapshot_not_quiescing[of "s\<lparr>ls_phase := RunningUnknown,
      ls_operation := None, ls_nextProbeAt := Some (env_now env), ls_consecutiveProbeFailures := 0,
      ls_probeFailingSince := None, ls_updatedAt := env_now env\<rparr>" x "env_now env"]
    by (simp add: idleStopping_def)
next
  case (t_stillBusy s x)
  then show ?case using stillBusy_not_quiescing[of env x s] by (simp add: idleStopping_def)
qed (auto simp: idleStopping_def applyUnknownActivity_def Let_def terminationPending_def
      failedRunning_def toSleepingState_def)

end
