(* ===== verification/Lifecycle_Refinement.thy ===== *)
theory Lifecycle_Refinement
  imports Lifecycle_Spec
begin

text \<open>
  Every handler of the coordinator refines the specification: what it does to the object is
  a sequence of permitted transitions, each persisted before the handler goes on, of plain
  persists, and of bookkeeping that leaves the state alone.
\<close>

section \<open>Steps of the object\<close>

inductive ostep :: "lc_env \<Rightarrow> cause set \<Rightarrow> coordinator \<Rightarrow> coordinator \<Rightarrow> bool"
  for env :: lc_env and K :: "cause set" where
  o_commit: "lc_state c = Some s \<Longrightarrow> transition env k s s' \<Longrightarrow> k \<in> K \<Longrightarrow>
    ostep env K c (commit env s' c)"
| o_persist: "ostep env K c (persistAndSchedule env c)"
| o_book: "lc_state c' = lc_state c \<Longrightarrow> lc_disk c' = lc_disk c \<Longrightarrow> lc_alarm c' = lc_alarm c \<Longrightarrow>
    lc_lastSynced c' = lc_lastSynced c \<Longrightarrow> lc_mirror c' = lc_mirror c \<Longrightarrow> ostep env K c c'"

abbreviation osteps :: "lc_env \<Rightarrow> cause set \<Rightarrow> coordinator \<Rightarrow> coordinator \<Rightarrow> bool" where
  "osteps env K \<equiv> (ostep env K)\<^sup>*\<^sup>*"

lemma osteps_trans: "osteps env K a b \<Longrightarrow> osteps env K b c \<Longrightarrow> osteps env K a c"
  by (rule rtranclp_trans)

lemma osteps_commit:
  "lc_state c = Some s \<Longrightarrow> transition env k s s' \<Longrightarrow> k \<in> K \<Longrightarrow> osteps env K c (commit env s' c)"
  by (rule r_into_rtranclp) (rule o_commit)

lemma osteps_persist: "osteps env K c (persistAndSchedule env c)"
  by (rule r_into_rtranclp) (rule o_persist)

lemma osteps_book:
  assumes "osteps env K c d"
  shows "osteps env K c (d\<lparr>lc_wake := w\<rparr>)"
    "osteps env K c (d\<lparr>lc_probe := p\<rparr>)" "osteps env K c (d\<lparr>lc_stop := st\<rparr>)"
    "osteps env K c (d\<lparr>lc_handler := h\<rparr>)"
  by (rule rtranclp.rtrancl_into_rtrancl[OF assms], rule o_book, simp_all)+

lemma osteps_from_book:
  "osteps env K (c\<lparr>lc_wake := w\<rparr>) d \<Longrightarrow> osteps env K c d"
  "osteps env K (c\<lparr>lc_probe := p\<rparr>) d \<Longrightarrow> osteps env K c d"
  "osteps env K (c\<lparr>lc_stop := st\<rparr>) d \<Longrightarrow> osteps env K c d"
  "osteps env K (c\<lparr>lc_handler := h\<rparr>) d \<Longrightarrow> osteps env K c d"
  by (rule osteps_trans, rule osteps_book, rule rtranclp.rtrancl_refl, assumption)+

lemma ostep_mono: "ostep env K c d \<Longrightarrow> K \<subseteq> K' \<Longrightarrow> ostep env K' c d"
  by (induction rule: ostep.induct) (blast intro: ostep.intros)+

lemma osteps_mono: "osteps env K c d \<Longrightarrow> K \<subseteq> K' \<Longrightarrow> osteps env K' c d"
  by (induction rule: rtranclp_induct) (blast intro: ostep_mono rtranclp.rtrancl_into_rtrancl)+

lemma ostep_coord_ok: "ostep env K c d \<Longrightarrow> coord_ok c \<Longrightarrow> coord_ok d"
proof (induction rule: ostep.induct)
  case (o_commit c s k s')
  then show ?case by (blast intro: coord_ok_commit transition_state_ok coord_ok_state)
next
  case (o_persist c)
  then show ?case by blast
next
  case (o_book c' c)
  then show ?case by (simp add: coord_ok_def)
qed

lemma osteps_coord_ok: "osteps env K c d \<Longrightarrow> coord_ok c \<Longrightarrow> coord_ok d"
  by (induction rule: rtranclp_induct) (blast intro: ostep_coord_ok)+

section \<open>The handlers\<close>

lemma osteps_beginDelete: "osteps env {Local} c (beginDelete env c)"
proof (cases "lc_state c")
  case (Some s)
  show ?thesis
    unfolding beginDelete_def Some option.case by (rule osteps_commit[OF Some t_delete]) simp
qed (simp add: beginDelete_def)

lemma normalizeLeaseTtl_bounds:
  "MIN_WORK_LEASE_MS \<le> normalizeLeaseTtl v" "normalizeLeaseTtl v \<le> MAX_WORK_LEASE_MS"
  by (simp_all add: normalizeLeaseTtl_def MIN_WORK_LEASE_MS_def MAX_WORK_LEASE_MS_def
      LIFECYCLE_DEFAULT_WORK_LEASE_MS_def split: option.split)

lemma osteps_beginWork: "osteps env {Local} c (snd (beginWork env e ttl c))"
proof (cases "admissionFor e c")
  case (Admitted e' r)
  then obtain s where s: "lc_state c = Some s" "isAdmissionPhase (ls_phase s)"
      "ls_runtimeEpoch s = Some e" by (rule admittedD)
  show ?thesis
    unfolding beginWork_def Admitted s(1) admission_result.case option.case Let_def snd_conv
    by (rule osteps_commit[OF s(1) t_beginWork])
      (use s normalizeLeaseTtl_bounds in \<open>simp_all\<close>)
qed (simp add: beginWork_def)

lemma osteps_renewWork: "osteps env {Local} c (snd (renewWork env e l ttl c))"
proof (cases "fst (renewWork env e l ttl c)")
  case True
  then obtain s x where s: "lc_state c = Some s" "map_of (ls_workLeases s) l = Some x"
      "isAdmissionPhase (ls_phase s)" "ls_runtimeEpoch s = Some e" "wl_runtimeEpoch x = e"
    by (rule renewWorkD)
  then show ?thesis by (auto simp: renewWork_def intro!: osteps_commit t_renewWork)
next
  case False
  then have "renewWork env e l ttl c = (False, c)" using renewWork_refused by blast
  then show ?thesis by simp
qed

lemma osteps_endWork: "osteps env {Local} c (endWork env e l c)"
proof (cases "endWork env e l c = c")
  case False
  then obtain s x where s: "lc_state c = Some s" "map_of (ls_workLeases s) l = Some x"
      "ls_runtimeEpoch s = Some e" "wl_runtimeEpoch x = e"
    by (auto simp: endWork_def split: option.splits if_splits)
  then have g: "(wl_runtimeEpoch x \<noteq> e \<or> ls_runtimeEpoch s \<noteq> Some e) = False" by simp
  show ?thesis
    unfolding endWork_def s(1,2) option.case Let_def g if_False
    by (rule osteps_commit[OF s(1) t_endWork[OF s(2)]]) simp_all
qed simp

lemma osteps_observe: "osteps env {Local} c (snd (observeExecution env e x c))"
proof (cases "lc_state c")
  case (Some s)
  then show ?thesis
    by (auto simp: observeExecution_def requireState_def Let_def intro!: osteps_commit t_snapshot)
qed (simp add: observeExecution_def requireState_def)

text \<open>A wake may only be started from a phase the specification allows.\<close>

lemma osteps_performWakeStart:
  assumes "env_ok env" and "coord_ok c"
  shows "osteps env {Local} c (snd (performWakeStart env b c))"
proof (cases "lc_state c")
  case (Some s)
  note ok = coord_ok_state[OF assms(2) Some]
  show ?thesis
  proof (cases "ls_phase s = Waking \<or> ls_phase s = ErrorWaking \<or> ls_phase s = Sleeping")
    case True
    then have g: "(ls_phase s = Deleting) = False"
      "(isAdmissionPhase (ls_phase s) \<and> truthy_str (ls_runtimeEpoch s)) = False"
      "(ls_phase s \<noteq> Waking \<and> ls_phase s \<noteq> ErrorWaking \<and> ls_phase s \<noteq> Sleeping \<and>
        ls_phase s \<noteq> ErrorRunning) = False" by auto
    show ?thesis
      unfolding performWakeStart_def requireState_def Some option.case sum.case Let_def g if_False
        snd_conv
      by (rule osteps_book(1)[OF osteps_commit[OF Some t_wakeStart[OF True]]])
        (use assms(1) in \<open>auto simp: env_ok_def dest: truthy_strD\<close>)
  next
    case False
    then have "isAdmissionPhase (ls_phase s) \<and> truthy_str (ls_runtimeEpoch s) \<or>
        ls_phase s = Deleting \<or> ls_phase s = Quiescing"
      using ok by (cases "ls_phase s") (auto simp: state_ok_def)
    then show ?thesis using Some by (auto simp: performWakeStart_def requireState_def)
  qed
qed (simp add: performWakeStart_def requireState_def)

lemma osteps_continueWake:
  "env_ok env \<Longrightarrow> coord_ok c \<Longrightarrow> osteps env {Local} c (snd (continueWake env b c))"
  by (simp add: continueWake_def osteps_performWakeStart)

lemma osteps_wake:
  assumes "env_ok env" and "coord_ok c"
  shows "osteps env {Local} c (snd (wake env c))"
proof (cases "lc_state c")
  case (Some s)
  show ?thesis
  proof (cases "ls_phase s = Quiescing")
    case True
    then show ?thesis using osteps_commit[OF Some t_wakeRequested[OF True]]
      by (simp add: wake_def requireState_def Some Let_def)
  next
    case False
    then show ?thesis using osteps_continueWake[OF assms]
      by (simp add: wake_def requireState_def Some)
  qed
qed (simp add: wake_def requireState_def)

text \<open>Stopping.\<close>

lemma osteps_stopCatch: "osteps env {Local} c (snd (stopCatch env oper m c))"
proof (cases "lc_state c")
  case (Some s)
  show ?thesis
  proof (cases "currentStop oper s")
    case True
    then have "ls_phase s = Quiescing" by (simp add: currentStop_def)
    from osteps_commit[OF Some t_stopThrew[OF this]] True Some show ?thesis
      by (simp add: stopCatch_def requireState_def Let_def)
  qed (simp add: stopCatch_def requireState_def Some)
qed (simp add: stopCatch_def requireState_def)

lemma osteps_refl: "osteps env K c c"
  by (rule rtranclp.rtrancl_refl)

lemma osteps_performStopStart: "osteps env {Local} c (snd (performStopStart env c))"
proof -
  have "osteps env {Local} c (c\<lparr>lc_stop := x\<rparr>)" for x
    by (rule osteps_book(3)[OF osteps_refl])
  then show ?thesis
    by (simp add: performStopStart_def requireState_def osteps_stopCatch split: option.split)
qed

lemma osteps_continueStop: "osteps env {Local} c (snd (continueStop env c))"
  by (simp add: continueStop_def osteps_performStopStart)

lemma osteps_forceStop:
  assumes "coord_ok c"
  shows "osteps env {Local} c (snd (forceStop env c))"
proof (cases "lc_state c")
  case (Some s)
  show ?thesis
  proof (cases "ls_phase s = Sleeping \<or> ls_phase s = Deleting \<or> ls_phase s = Quiescing")
    case False
    then have p: "isAdmissionPhase (ls_phase s) \<or> ls_phase s = Waking \<or> ls_phase s = ErrorWaking"
      by (cases "ls_phase s") auto
    have g: "(ls_phase s = Sleeping) = False" "(ls_phase s = Deleting) = False"
      "(ls_phase s = Quiescing) = False" using False by simp_all
    show ?thesis
      unfolding forceStop_def requireState_def Some option.case sum.case g if_False
      by (rule osteps_trans[OF osteps_commit[OF Some t_forceStop[OF p]] osteps_continueStop])
        simp_all
  qed (auto simp: forceStop_def requireState_def Some)
qed (simp add: forceStop_def requireState_def)

abbreviation "stopCauses \<equiv> {Local, StopAnswer}"

lemma osteps_local: "osteps env {Local} c d \<Longrightarrow> Local \<in> K \<Longrightarrow> osteps env K c d"
  by (rule osteps_mono) auto

lemma osteps_sleepThenMaybeWake:
  assumes "env_ok env" and "coord_ok c" and s: "lc_state c = Some s" and "ls_phase s = Quiescing"
  shows "osteps env stopCauses c (snd (sleepThenMaybeWake env oper reason s c))"
proof -
  let ?c1 = "commit env (toSleepingState s (env_now env) reason None) c"
  have 1: "osteps env stopCauses c ?c1"
    by (rule osteps_commit[OF s t_sleep[OF assms(4)]]) simp
  from 1 assms(2) have "coord_ok ?c1" by (rule osteps_coord_ok)
  from osteps_continueWake[OF assms(1) this]
  have 2: "osteps env stopCauses ?c1 (snd (continueWake env True ?c1))"
    by (rule osteps_local) simp
  have 3: "osteps env stopCauses d (snd (stopCatch env oper m d))" for d m
    by (rule osteps_local[OF osteps_stopCatch]) simp
  obtain a d where d: "continueWake env True ?c1 = (a, d)" by fastforce
  from osteps_trans[OF 1 2] have 4: "osteps env stopCauses c d" by (simp add: d)
  from 1 4 osteps_trans[OF 4 3] osteps_book(3)[OF 4] show ?thesis
    by (simp add: sleepThenMaybeWake_def Let_def d split: sum.split wake_progress.split)
qed

lemma osteps_performStopFinish:
  assumes "env_ok env" and "coord_ok c"
  shows "osteps env stopCauses c (snd (performStopFinish env oper reply c))"
proof (cases "lc_state c")
  case None
  have "osteps env stopCauses c (snd (stopCatch env oper m c))" for m
    by (rule osteps_local[OF osteps_stopCatch]) simp
  with None show ?thesis
    by (simp add: performStopFinish_def requireState_def split: stop_reply.split)
next
  case (Some s)
  have catch: "osteps env stopCauses c (snd (stopCatch env oper m c))" for m
    by (rule osteps_local[OF osteps_stopCatch]) simp
  show ?thesis
  proof (cases "currentStop oper s")
    case True
    then have q: "ls_phase s = Quiescing" by (simp add: currentStop_def)
    have sleep: "osteps env stopCauses c (snd (sleepThenMaybeWake env oper r s c))" for r
      by (rule osteps_sleepThenMaybeWake[OF assms Some q])
    have pend: "osteps env stopCauses c (commit env (terminationPending env o' s) c)" for o'
      by (rule osteps_commit[OF Some t_terminationPending[OF q]]) simp
    have failed: "osteps env stopCauses c (commit env (failedRunning env o' m s) c)" for o' m
      by (rule osteps_commit[OF Some t_failedRunning[OF q]]) simp
    have busy: "osteps env stopCauses c (commit env (stillBusy env x s) c)"
      for x by (rule osteps_commit[OF Some t_stillBusy[OF q]]) simp
    show ?thesis
      using True by (cases reply)
        (simp_all add: performStopFinish_def requireState_def Some catch sleep pend failed busy)
  next
    case False
    then show ?thesis
      by (cases reply) (simp_all add: performStopFinish_def requireState_def Some catch)
  qed
qed

text \<open>Probing.\<close>

lemma osteps_expire:
  assumes "lc_state c = Some s" and "isAdmissionPhase (ls_phase s)"
  shows "osteps env {Local} c
    (case removeExpiredLeases (env_now env) s of None \<Rightarrow> c | Some s1 \<Rightarrow> commit env s1 c)"
  by (auto split: option.split intro: osteps_commit[OF assms(1) t_expire[OF assms(2)]])

lemma osteps_performProbeStart: "osteps env {Local} c (performProbeStart env c)"
proof (cases "lc_state c")
  case (Some s)
  show ?thesis
  proof (cases "isAdmissionPhase (ls_phase s)")
    case True
    let ?c1 = "case removeExpiredLeases (env_now env) s of None \<Rightarrow> c | Some s1 \<Rightarrow> commit env s1 c"
    from osteps_expire[OF Some True] have 1: "osteps env {Local} c ?c1" .
    from 1 osteps_book(2)[OF 1] show ?thesis
      unfolding performProbeStart_def Some option.case Let_def
      by (simp split: option.split)
  qed (simp add: performProbeStart_def Some isProbePhase_def)
qed (simp add: performProbeStart_def)

lemma osteps_runProbe: "osteps env {Local} c (runProbe env c)"
  by (simp add: runProbe_def osteps_performProbeStart)

lemma osteps_reconcileNow: "osteps env {Local} c (reconcileNow env c)"
  by (simp add: reconcileNow_def osteps_runProbe split: option.split)

lemma osteps_performProbeFinish:
  "osteps env {Local} c (snd (performProbeFinish env p reply c))"
proof (cases "lc_state c")
  case (Some s)
  have run: "isAdmissionPhase (ls_phase s)" if "currentProbe p s"
    using that by (simp add: currentProbe_def isProbePhase_def)
  have x: "osteps env {Local} c (commit env (applyExecutionSnapshot x (env_now env) s) c)"
    if "currentProbe p s" for x
    by (rule osteps_commit[OF Some t_snapshot[OF run[OF that]]]) simp
  have u: "osteps env {Local} c (commit env (applyUnknownActivity m (env_now env) s) c)"
    if "currentProbe p s" for m
    by (rule osteps_commit[OF Some t_unknown[OF run[OF that]]]) simp
  show ?thesis
    by (cases reply) (simp_all add: performProbeFinish_def requireState_def Some x u osteps_persist)
qed (simp add: performProbeFinish_def requireState_def)

section \<open>The alarm\<close>

lemma osteps_alarmThrew: "osteps env {Local} c (alarmThrew env c)"
  by (simp add: alarmThrew_def osteps_book(4)[OF osteps_persist])

lemma osteps_alarmAwaitStop: "osteps env {Local} c (alarmAwaitStop env c)"
proof -
  obtain e d where d: "continueStop env c = (e, d)" by fastforce
  with osteps_continueStop[of env c] have 1: "osteps env {Local} c d" by simp
  from osteps_trans[OF 1 osteps_alarmThrew] osteps_book(4)[OF 1] show ?thesis
    by (simp add: alarmAwaitStop_def d split: option.split)
qed

lemma osteps_beginUnreachableStop:
  assumes "lc_state c = Some s" and "isAdmissionPhase (ls_phase s)"
  shows "osteps env {Local} c (beginUnreachableStop env c)"
  unfolding beginUnreachableStop_def assms(1) option.case
  by (rule osteps_trans[OF osteps_commit[OF assms(1) t_forceStop] osteps_alarmAwaitStop])
    (simp_all add: assms(2))

lemma osteps_afterProbe: "osteps env {Local} c (afterProbe env c)"
proof (cases "lc_state c")
  case (Some s)
  have "osteps env {Local} c (beginUnreachableStop env c)"
    if "probeFailureWindowExpired s (env_now env) MAX_PROBE_FAILURE_WINDOW_MS"
    by (rule osteps_beginUnreachableStop[OF Some])
      (use that in \<open>simp add: probeFailureWindowExpired_def\<close>)
  then show ?thesis by (simp add: afterProbe_def Some osteps_book(4)[OF osteps_refl])
qed (simp add: afterProbe_def osteps_book(4)[OF osteps_refl])

text \<open>The alarm has dropped expired leases first, so an idle stop finds none at all.\<close>

lemma no_leases:
  assumes "removeExpiredLeases now s = None" and "activeLeaseCount s now = 0"
  shows "ls_workLeases s = []"
  using assms by (auto simp: removeExpiredLeases_def activeLeaseCount_def Let_def split: if_splits)

lemma osteps_beginIdleStop:
  assumes s: "lc_state c = Some s" and "ls_phase s = RunningIdle"
    and "ls_idleDeadlineAt s = Some d" and "d \<le> env_now env"
    and "activeLeaseCount s (env_now env) = 0" and "ls_workLeases s = []"
  shows "osteps env {Local} c (beginIdleStop env c)"
proof (cases "truthy_str (ls_runtimeEpoch s)")
  case True
  then have g: "(ls_phase s \<noteq> RunningIdle \<or> \<not> truthy_str (ls_runtimeEpoch s) \<or>
      activeLeaseCount s (env_now env) > 0) = False" using assms by simp
  show ?thesis
    unfolding beginIdleStop_def s option.case g if_False
    by (rule osteps_trans[OF osteps_commit[OF s t_idleStop[OF assms(2-6)]] osteps_alarmAwaitStop])
      simp_all
qed (simp add: beginIdleStop_def s osteps_book(4)[OF osteps_persist])

lemma osteps_alarmProbe:
  assumes "osteps env {Local} b c"
  shows "osteps env {Local} b
    (let c2 = runProbe env c in
     if lc_probe c2 \<noteq> None then c2\<lparr>lc_handler := AlarmAwaitsProbe\<rparr> else afterProbe env c2)"
proof -
  from osteps_trans[OF assms osteps_runProbe]
  have 1: "osteps env {Local} b (runProbe env c)" .
  from osteps_book(4)[OF 1] osteps_trans[OF 1 osteps_afterProbe] show ?thesis
    by (simp add: Let_def)
qed

lemma osteps_alarmWake:
  assumes "env_ok env" and "coord_ok c"
  shows "osteps env {Local} c
    (case continueWake env False c of
       (Inl e, c1) \<Rightarrow> alarmThrew env c1
     | (Inr (WakeDone r), c1) \<Rightarrow> c1
     | (Inr WakeInFlight, c1) \<Rightarrow> c1\<lparr>lc_handler := AlarmAwaitsWake\<rparr>)"
proof -
  obtain a d where d: "continueWake env False c = (a, d)" by fastforce
  with osteps_continueWake[OF assms, of False] have 1: "osteps env {Local} c d" by simp
  from 1 osteps_trans[OF 1 osteps_alarmThrew] osteps_book(4)[OF 1] show ?thesis
    by (simp add: d split: sum.split wake_progress.split)
qed

text \<open>The branch of the alarm for a running phase, as a definition of its own for the proof.\<close>

lemma osteps_alarmRunning:
  assumes s: "lc_state c = Some s" and run: "isAdmissionPhase (ls_phase s)"
  shows "osteps env {Local} c
    (let c1 = (case removeExpiredLeases (env_now env) s of None \<Rightarrow> c | Some s1 \<Rightarrow> commit env s1 c)
     in case lc_state c1 of
          None \<Rightarrow> persistAndSchedule env c1
        | Some cur \<Rightarrow>
            (if \<not> isProbePhase (ls_phase cur) then persistAndSchedule env c1
             else if ls_phase cur = RunningIdle \<and>
                     (case ls_idleDeadlineAt cur of None \<Rightarrow> False | Some d \<Rightarrow> env_now env \<ge> d) \<and>
                     activeLeaseCount cur (env_now env) = 0
               then beginIdleStop env c1
             else if (case ls_nextProbeAt cur of None \<Rightarrow> True | Some t \<Rightarrow> env_now env \<ge> t) then
               (let c2 = runProbe env c1 in
                if lc_probe c2 \<noteq> None then c2\<lparr>lc_handler := AlarmAwaitsProbe\<rparr>
                else afterProbe env c2)
             else persistAndSchedule env c1))"
proof (cases "removeExpiredLeases (env_now env) s")
  case None
  show ?thesis
  proof (cases "ls_phase s = RunningIdle \<and>
      (case ls_idleDeadlineAt s of None \<Rightarrow> False | Some d \<Rightarrow> env_now env \<ge> d) \<and>
      activeLeaseCount s (env_now env) = 0")
    case True
    then obtain d where "ls_idleDeadlineAt s = Some d" and "d \<le> env_now env"
      by (auto split: option.splits)
    with True None s run osteps_beginIdleStop[OF s] no_leases[OF None]
    show ?thesis by (simp add: isProbePhase_def)
  next
    case False
    then show ?thesis
      using osteps_alarmProbe[OF osteps_refl, of env c] osteps_persist[of env "{Local}" c]
      unfolding None Let_def option.case(1) s option.case(2) if_not_P[OF False]
      by (simp split: if_split)
  qed
next
  case (Some s1)
  have 1: "osteps env {Local} c (commit env s1 c)"
    by (rule osteps_commit[OF s t_expire[OF run Some]]) simp
  have p: "ls_phase s1 = RunningUnknown"
    using Some run by (auto simp: removeExpiredLeases_def Let_def split: if_splits)
  from osteps_alarmProbe[OF 1] osteps_trans[OF 1 osteps_persist]
  show ?thesis unfolding Some option.case Let_def commit_frame p by (simp split: if_split)
qed

lemma osteps_alarm:
  assumes "env_ok env" and ok: "coord_ok c0"
  shows "osteps env {Local} (c0\<lparr>lc_alarm := None\<rparr>) (alarm env c0)"
proof (cases "lc_state c0")
  case None
  then show ?thesis by (simp add: alarm_def osteps_refl)
next
  case (Some s)
  let ?c = "c0\<lparr>lc_alarm := None\<rparr>"
  have s: "lc_state ?c = Some s" and ok': "coord_ok ?c" using Some ok by simp_all
  consider "ls_phase s = Sleeping \<or> ls_phase s = Deleting"
    | (waking) "ls_phase s = Waking \<or> ls_phase s = ErrorWaking"
    | (quiescing) "ls_phase s = Quiescing"
    | (running) "isAdmissionPhase (ls_phase s)"
    by (cases "ls_phase s") auto
  then show ?thesis
  proof cases
    case waking
    with osteps_alarmWake[OF assms(1) ok'] s show ?thesis by (auto simp: alarm_def Let_def)
  next
    case quiescing
    with osteps_alarmAwaitStop[of env ?c] s show ?thesis by (simp add: alarm_def Let_def)
  next
    case running
    then have g: "(ls_phase s = Sleeping \<or> ls_phase s = Deleting) = False"
      "(ls_phase s = Waking \<or> ls_phase s = ErrorWaking) = False"
      "(ls_phase s = Quiescing) = False" by auto
    from osteps_alarmRunning[OF s running, of env] show ?thesis
      unfolding alarm_def Let_def s option.case g if_False .
  qed (simp add: alarm_def s Let_def Some osteps_refl)
qed

section \<open>Answers\<close>

lemma osteps_settleStop: "osteps env {Local} c (settleStop env err c)"
  by (simp add: settleStop_def osteps_refl osteps_book(4)[OF osteps_refl] osteps_alarmThrew
      split: option.split)

lemma osteps_settleWakeStop:
  "osteps env {Local} c
     (case lc_stop c of
        Some (StopAwaitsWake oper) \<Rightarrow>
          (case err of
             None \<Rightarrow> settleStop env None (c\<lparr>lc_stop := None\<rparr>)
           | Some e \<Rightarrow>
               (case stopCatch env oper (errorMessage e) (c\<lparr>lc_stop := None\<rparr>) of
                  (e', c') \<Rightarrow> settleStop env e' c'))
      | _ \<Rightarrow> c)"
proof -
  let ?c = "c\<lparr>lc_stop := None\<rparr>"
  have 1: "osteps env {Local} c ?c" by (rule osteps_book(3)[OF osteps_refl])
  have 2: "osteps env {Local} c (settleStop env e' c')"
    if "stopCatch env oper m ?c = (e', c')" for e' c' oper m
    using osteps_trans[OF osteps_trans[OF 1 osteps_stopCatch] osteps_settleStop] that
    by (metis snd_conv)
  from osteps_trans[OF 1 osteps_settleStop] 2 show ?thesis
    by (simp split: option.split stop_call.split prod.split)
qed

lemma osteps_settleWake: "osteps env {Local} c (settleWake env err c)"
proof -
  note 1 = osteps_settleWakeStop[of env c err]
  from 1 osteps_book(4)[OF 1] osteps_trans[OF 1 osteps_alarmThrew] show ?thesis
    unfolding settleWake_def Let_def by (cases err) (simp_all split: if_split)
qed

abbreviation "wakeCauses \<equiv> {Local, WakeAnswer}"

lemma osteps_wakeCatch: "osteps env wakeCauses c (snd (wakeCatch env w m c))"
proof (cases "lc_state c")
  case (Some s)
  show ?thesis
  proof (cases "currentWake w s")
    case True
    then have "ls_phase s = Waking" by (simp add: currentWake_def)
    from osteps_commit[OF Some t_wakeFailed[OF this]] True show ?thesis
      by (simp add: wakeCatch_def requireState_def Some Let_def)
  qed (simp add: wakeCatch_def requireState_def Some)
qed (simp add: wakeCatch_def requireState_def)

lemma osteps_performWakeFinish:
  "osteps env wakeCauses c (snd (performWakeFinish env w reply c))"
proof (cases "lc_state c")
  case None
  then show ?thesis using osteps_wakeCatch[of env c w]
    by (simp add: performWakeFinish_def requireState_def case_prod_beta split: sum.split)
next
  case (Some s)
  have catch: "osteps env wakeCauses c (snd (wakeCatch env w m c))" for m
    by (rule osteps_wakeCatch)
  show ?thesis
  proof (cases "currentWake w s")
    case True
    then have "ls_phase s = Waking" by (simp add: currentWake_def)
    note ready = osteps_commit[OF Some t_wakeReady[OF this]]
    show ?thesis using True catch ready
      by (cases reply)
        (simp_all add: performWakeFinish_def requireState_def Some case_prod_beta Let_def)
  next
    case False
    then show ?thesis using catch
      by (cases reply)
        (simp_all add: performWakeFinish_def requireState_def Some case_prod_beta)
  qed
qed

lemma osteps_onWakeReply: "osteps env wakeCauses c (onWakeReply env reply c)"
proof (cases "lc_wake c")
  case (Some w)
  obtain r c' where r: "performWakeFinish env w reply (c\<lparr>lc_wake := None\<rparr>) = (r, c')" by fastforce
  with osteps_performWakeFinish[of env "c\<lparr>lc_wake := None\<rparr>" w reply]
  have 1: "osteps env wakeCauses c c'" using osteps_from_book(1)[where w = None] by simp
  have "osteps env wakeCauses c' (settleWake env e c')" for e
    by (rule osteps_local[OF osteps_settleWake]) simp
  from osteps_trans[OF 1 this] show ?thesis
    by (simp add: onWakeReply_def Some r split: sum.split)
qed (simp add: onWakeReply_def)

lemma osteps_onProbeReply: "osteps env {Local} c (onProbeReply env reply c)"
proof (cases "lc_probe c")
  case (Some p)
  obtain r c' where r: "performProbeFinish env p reply (c\<lparr>lc_probe := None\<rparr>) = (r, c')" by fastforce
  with osteps_performProbeFinish[of env "c\<lparr>lc_probe := None\<rparr>" p reply]
  have 1: "osteps env {Local} c c'" using osteps_from_book(2)[where p = None] by simp
  from 1 osteps_trans[OF 1 osteps_afterProbe] osteps_trans[OF 1 osteps_alarmThrew]
  show ?thesis by (simp add: onProbeReply_def Some r split: option.split)
qed (simp add: onProbeReply_def)

lemma osteps_onStopReply:
  assumes "env_ok env" and "coord_ok c"
  shows "osteps env stopCauses c (onStopReply env reply c)"
proof (cases "\<exists>oper e r. lc_stop c = Some (StopRpc oper e r)")
  case True
  then obtain oper e v where s: "lc_stop c = Some (StopRpc oper e v)" by blast
  obtain r c' where r: "performStopFinish env oper reply (c\<lparr>lc_stop := None\<rparr>) = (r, c')" by fastforce
  have "coord_ok (c\<lparr>lc_stop := None\<rparr>)" using assms(2) by simp
  from osteps_performStopFinish[OF assms(1) this, of oper reply] r
  have 1: "osteps env stopCauses c c'" using osteps_from_book(3)[where st = None] by simp
  have "osteps env stopCauses c' (settleStop env m c')" for m
    by (rule osteps_local[OF osteps_settleStop]) simp
  from 1 osteps_trans[OF 1 this] show ?thesis by (simp add: onStopReply_def s r)
qed (auto simp: onStopReply_def osteps_refl split: option.split stop_call.split)

section \<open>The whole step relation\<close>

fun causes :: "lc_event \<Rightarrow> cause set" where
  "causes (EvWakeReply r) = {Local, WakeAnswer}"
| "causes (EvStopReply r) = {Local, StopAnswer}"
| "causes _ = {Local}"

text \<open>The state a handler starts from: the runtime has taken the alarm before it runs it.\<close>

definition handlerStart :: "lc_event \<Rightarrow> coordinator \<Rightarrow> coordinator" where
  "handlerStart ev c = (if ev = EvAlarm then c\<lparr>lc_alarm := None\<rparr> else c)"

definition is_handler :: "lc_event \<Rightarrow> bool" where
  "is_handler ev = (ev \<noteq> EvMarkDeleted \<and> ev \<noteq> EvReload \<and> (\<forall>inp. ev \<noteq> EvInitialize inp))"

lemma lc_step_refines:
  assumes "lc_step c (env, ev) c'" and "coord_ok c" and "is_handler ev"
  shows "osteps env (causes ev) (handlerStart ev c) c'"
  using assms
  by (cases rule: lc_step.cases)
    (simp_all add: handlerStart_def is_handler_def osteps_wake osteps_beginWork osteps_renewWork
      osteps_endWork osteps_observe osteps_reconcileNow osteps_forceStop osteps_beginDelete
      osteps_alarm osteps_onWakeReply osteps_onProbeReply osteps_onStopReply)

lemma coord_ok_initialize: "coord_ok c \<Longrightarrow> coord_ok (snd (initializeInstance env inp c))"
  by (auto simp: initializeInstance_def Let_def state_ok_initial split: option.split)

lemma coord_ok_reload: "coord_ok c \<Longrightarrow> newCoordinator env c = Inr c' \<Longrightarrow> coord_ok c'"
  by (auto simp: newCoordinator_def coord_ok_def Let_def split: option.splits if_splits)

lemma coord_ok_markDeleted: "coord_ok c \<Longrightarrow> coord_ok (markDeleted c)"
  by (simp add: markDeleted_def coord_ok_def)

lemma coord_ok_step:
  assumes "coord_ok c" and "lc_step c l c'"
  shows "coord_ok c'"
proof -
  obtain env ev where l: "l = (env, ev)" by fastforce
  show ?thesis
  proof (cases "is_handler ev")
    case True
    have "coord_ok (handlerStart ev c)" using assms(1) by (simp add: handlerStart_def)
    with osteps_coord_ok[OF lc_step_refines[OF assms(2)[unfolded l] assms(1) True]]
    show ?thesis by blast
  next
    case False
    from assms(2)[unfolded l] False assms(1) show ?thesis
      by (cases rule: lc_step.cases)
        (simp_all add: is_handler_def coord_ok_initialize coord_ok_markDeleted coord_ok_reload)
  qed
qed

interpretation lc: inductive_invariant lc_init lc_step coord_ok
proof unfold_locales
  show "coord_ok c" if "lc_init c" for c using that by (simp add: lc_init_def coord_ok_def)
qed (rule coord_ok_step)

section \<open>What follows for a handler\<close>

text \<open>Memory, storage and alarm after a handler: untouched, or all three written together.\<close>

definition alarm_set :: "lc_env \<Rightarrow> coordinator \<Rightarrow> bool" where
  "alarm_set env c =
     (lc_alarm c = (case lc_state c of None \<Rightarrow> None | Some s \<Rightarrow> nextAlarmAt s (env_now env)))"

lemma osteps_alarm_set:
  assumes "osteps env K a b"
  shows "(lc_state b = lc_state a \<and> lc_alarm b = lc_alarm a) \<or> alarm_set env b"
  using assms
proof (induction rule: rtranclp_induct)
  case (step y z)
  from step.hyps(2) step.IH show ?case
    by (induction rule: ostep.induct)
      (auto simp: alarm_set_def persistAndSchedule_def split: option.splits)
qed simp

text \<open>
  A property of two stored states that every permitted transition has, and that composes,
  holds between the states before and after a handler.
\<close>

lemma osteps_rel:
  assumes "osteps env K a b" and "coord_ok a" and "lc_state a = Some s"
    and refl: "\<And>s. R s s" and trans: "\<And>x y z. R x y \<Longrightarrow> R y z \<Longrightarrow> R x z"
    and step: "\<And>k x y. k \<in> K \<Longrightarrow> transition env k x y \<Longrightarrow> state_ok x \<Longrightarrow> R x y"
  shows "\<exists>s'. lc_state b = Some s' \<and> R s s'"
proof -
  have "coord_ok b \<and> (\<exists>s'. lc_state b = Some s' \<and> R s s')"
    using assms(1)
  proof (induction rule: rtranclp_induct)
    case base
    show ?case using assms(2,3) refl by blast
  next
    case (step b c)
    then obtain s' where s': "lc_state b = Some s'" "R s s'" and ok: "coord_ok b" by blast
    have "\<exists>s''. lc_state c = Some s'' \<and> R s' s''"
      using step.hyps(2)
    proof cases
      case (o_commit x k y)
      with s' ok show ?thesis using assms(6)[of k x y] coord_ok_state by auto
    qed (use s' refl in auto)
    with s' trans ostep_coord_ok[OF step.hyps(2) ok] show ?case by blast
  qed
  then show ?thesis by blast
qed

end
