(* ===== verification/Lifecycle_Properties.thy ===== *)
theory Lifecycle_Properties
  imports Lifecycle_Refinement
begin

text \<open>
  What the lifecycle coordinator promises: its reachable states are well formed, every
  handler refines the specification, admission, idle stops, replays and the alarm.
\<close>

section \<open>A concrete execution\<close>

text \<open>
  An instance that is created, woken and reported running at 1000 ms, used by the
  examples below. Each handler is evaluated on the state the one before left.
\<close>

definition exEnv :: "millis \<Rightarrow> lc_env" where
  "exEnv now = \<lparr>env_now = now, env_epoch = ''e1'', env_id = ''op1'', env_rowOk = True\<rparr>"

definition exIdle :: execution_snapshot where
  "exIdle = \<lparr>ex_state = ExRunning, ex_observedAt = Some 1000, ex_active = False,
     ex_activeSessionCount = 0, ex_retrySessionCount = 0, ex_locations = [], ex_error = None\<rparr>"

definition exEmpty :: coordinator where
  "exEmpty = \<lparr>lc_state = None, lc_disk = None, lc_alarm = None, lc_lastSynced = None,
     lc_mirror = None, lc_wake = None, lc_probe = None, lc_stop = None, lc_handler = AlarmIdle\<rparr>"

definition exCreated :: coordinator where
  "exCreated = snd (initializeInstance (exEnv 0)
     \<lparr>ii_instanceId = ''i1'', ii_idleTimeoutMs = None\<rparr> exEmpty)"

definition exWaking :: coordinator where
  "exWaking = snd (wake (exEnv 0) exCreated)"

definition exRunning :: coordinator where
  "exRunning = onWakeReply (exEnv 1000) (Inr exIdle) exWaking"

lemmas ex_defs = exEnv_def exIdle_def exEmpty_def

lemma exEnv_ok [simp]: "env_ok (exEnv t)"
  by (simp add: env_ok_def exEnv_def)

lemma exEmpty_init: "lc_init exEmpty"
  by (simp add: lc_init_def exEmpty_def)

lemma reach_exCreated: "reach lc_init lc_step exCreated"
  unfolding exCreated_def
  by (rule reach_next, rule reach_start, rule exEmpty_init, rule st_initialize) simp

lemma reach_exWaking: "reach lc_init lc_step exWaking"
  unfolding exWaking_def by (rule reach_next[OF reach_exCreated st_wake]) simp

lemma exCreated_eval: "lc_state exCreated = Some (initialState
    \<lparr>ii_instanceId = ''i1'', ii_idleTimeoutMs = None\<rparr> 0)" "lc_wake exCreated = None"
  "lc_stop exCreated = None" "lc_handler exCreated = AlarmIdle"
  by (simp_all add: exCreated_def initializeInstance_def exEmpty_def exEnv_def Let_def)

definition exOp :: lifecycle_operation where
  "exOp = \<lparr>op_id = ''op1'', op_type = OpWake, op_startedAt = 0\<rparr>"

lemma exWaking_eval:
  "\<exists>s. lc_state exWaking = Some s \<and> ls_phase s = Waking \<and> ls_runtimeEpoch s = Some ''e1'' \<and>
     ls_operation s = Some exOp \<and> ls_revision s = 1 \<and> ls_lastSemanticWorkAt s = None \<and>
     ls_workLeases s = [] \<and> ls_idleCandidateSince s = None \<and> ls_idleConfirmations s = 0 \<and>
     ls_idleSince s = None"
  "lc_wake exWaking = Some \<lparr>wc_operation = exOp, wc_runtimeEpoch = ''e1''\<rparr>"
  "lc_stop exWaking = None" "lc_handler exWaking = AlarmIdle"
  by (simp_all add: exWaking_def wake_def requireState_def exCreated_eval initialState_def
      continueWake_def performWakeStart_def Let_def exEnv_def exOp_def clearIdleWindow_def)

lemma reach_exRunning: "reach lc_init lc_step exRunning"
  unfolding exRunning_def
  by (rule reach_next[OF reach_exWaking st_wakeReply]) (simp_all add: exWaking_eval)

lemma exRunning_eval:
  "\<exists>s. lc_state exRunning = Some s \<and> ls_phase s = RunningUnknown \<and> ls_runtimeEpoch s = Some ''e1''"
proof -
  from exWaking_eval(1) obtain s where s: "lc_state exWaking = Some s" "ls_phase s = Waking"
    "ls_runtimeEpoch s = Some ''e1''" "ls_operation s = Some exOp" "ls_workLeases s = []"
    "ls_idleCandidateSince s = None" "ls_lastSemanticWorkAt s = None" "ls_idleSince s = None"
    by blast
  then show ?thesis
    by (simp add: exRunning_def onWakeReply_def exWaking_eval performWakeFinish_def
        requireState_def currentWake_def Let_def exIdle_def applyExecutionSnapshot_def
        activeLeaseCount_def observedBeforeWork_def REQUIRED_IDLE_CONFIRMATIONS_def
        settleWake_def applyCommon_def truthy_num_def)
qed

text \<open>
  Two probes find it idle; ten minutes after the first of them the alarm stops it.
\<close>

definition exProbing :: coordinator where
  "exProbing = alarm (exEnv 4000) exRunning"

definition exIdling :: coordinator where
  "exIdling = onProbeReply (exEnv 4000) (Inr exIdle) exProbing"

definition exStopping :: coordinator where
  "exStopping = alarm (exEnv 601000) exIdling"

lemma reach_exProbing: "reach lc_init lc_step exProbing"
proof -
  have "lc_step exRunning (exEnv 4000, EvAlarm) (alarm (exEnv 4000) exRunning)"
    by (rule st_alarm[where t = 4000], simp, code_simp, code_simp, code_simp)
  then show ?thesis unfolding exProbing_def by (rule reach_next[OF reach_exRunning])
qed

lemma reach_exIdling: "reach lc_init lc_step exIdling"
proof -
  have "lc_step exProbing (exEnv 4000, EvProbeReply (Inr exIdle)) exIdling"
    unfolding exIdling_def by (rule st_probeReply, simp, code_simp)
  then show ?thesis by (rule reach_next[OF reach_exProbing])
qed

lemma step_exStopping: "lc_step exIdling (exEnv 601000, EvAlarm) exStopping"
  unfolding exStopping_def by (rule st_alarm[where t = 64000], simp, code_simp, code_simp, code_simp)

section \<open>The invariant and the refinement\<close>

text \<open>
  C2. In every state the coordinator can reach, by any interleaving of its handlers, of the
  answers of the Sandbox and of reloads: memory and storage hold the same state; a running,
  waking or quiescing phase has a runtime epoch and exactly the operation of its kind, a
  sleeping or deleting one has neither; leases exist only in running phases and all belong
  to the current epoch; an idle deadline exists only in \<open>RunningIdle\<close> (or a stop begun from
  it); a wake is only remembered while a stop is in progress.
\<close>

theorem lifecycle_reachable_ok:
  assumes "reach lc_init lc_step c"
  shows "lc_disk c = lc_state c \<and>
    (\<forall>s. lc_state c = Some s \<longrightarrow>
      phase_ok (ls_phase s) (ls_runtimeEpoch s) (map_option op_type (ls_operation s)) \<and>
      leases_ok s \<and> idle_window_ok s \<and> (ls_wakeAfterStop s \<longrightarrow> ls_phase s = Quiescing))"
  using lc.holds_in_reach[OF assms] by (auto simp: coord_ok_def state_ok_def)

lemma lifecycle_reachable_ok_witness:
  "\<exists>s. lc_state exRunning = Some s \<and> lc_disk exRunning = lc_state exRunning \<and>
     phase_ok (ls_phase s) (ls_runtimeEpoch s) (map_option op_type (ls_operation s))"
  using lifecycle_reachable_ok[OF reach_exRunning] exRunning_eval by blast

text \<open>
  C1. Refinement: from a reachable state every handler of the coordinator, whatever the
  Sandbox answers, is a sequence of transitions the specification permits, each of them
  persisted at once. Transitions caused by a wake or a stop answer occur only in the handler
  of that answer.
\<close>

theorem lifecycle_refines_spec:
  assumes "reach lc_init lc_step c" and "lc_step c (env, ev) c'" and "is_handler ev"
  shows "osteps env (causes ev) (handlerStart ev c) c'"
  using assms by (blast intro: lc_step_refines lc.holds_in_reach)

lemma lifecycle_refines_spec_witness:
  "osteps (exEnv 1000) {Local, WakeAnswer} exWaking exRunning"
  using lifecycle_refines_spec[OF reach_exWaking, of "exEnv 1000" "EvWakeReply (Inr exIdle)"
      exRunning, OF _ ]
  by (simp add: st_wakeReply exWaking_eval exRunning_def is_handler_def handlerStart_def)

section \<open>Admission\<close>

lemma handlerStart_frame [simp]:
  "lc_state (handlerStart ev c) = lc_state c" "lc_mirror (handlerStart ev c) = lc_mirror c"
  "lc_lastSynced (handlerStart ev c) = lc_lastSynced c"
  "coord_ok (handlerStart ev c) = coord_ok c"
  by (simp_all add: handlerStart_def)

definition coord_admits :: "string \<Rightarrow> coordinator \<Rightarrow> bool" where
  "coord_admits e c = (\<exists>s. lc_state c = Some s \<and> admits e s)"

lemma initialize_state_Some:
  "lc_state c = Some s \<Longrightarrow> lc_state (snd (initializeInstance env inp c)) = Some s"
  by (simp add: initializeInstance_def)

lemma ostep_local_state: "ostep env K a b \<Longrightarrow> lc_state a = None \<Longrightarrow> lc_state b = None"
  by (induction rule: ostep.induct) simp_all

lemma osteps_state_None: "osteps env K a b \<Longrightarrow> lc_state a = None \<Longrightarrow> lc_state b = None"
  by (induction rule: rtranclp_induct) (blast intro: ostep_local_state)+

lemma osteps_local_admits:
  assumes "osteps env {Local} a b" and "coord_ok a" and "coord_admits e b"
  shows "coord_admits e a"
proof (cases "lc_state a")
  case None
  then show ?thesis using osteps_state_None[OF assms(1)] assms(3) by (simp add: coord_admits_def)
next
  case (Some s)
  have "\<exists>s'. lc_state b = Some s' \<and> (admits e s' \<longrightarrow> admits e s)"
    by (rule osteps_rel[OF assms(1,2) Some]) (auto dest: transition_admits(2))
  with Some assms(3) show ?thesis by (auto simp: coord_admits_def)
qed

text \<open>The wake whose answer may open admission for an epoch, and the stop.\<close>

definition answersWake :: "string \<Rightarrow> coordinator \<Rightarrow> bool" where
  "answersWake e c = (\<exists>w s. lc_wake c = Some w \<and> lc_state c = Some s \<and> currentWake w s \<and>
     wc_runtimeEpoch w = e)"

definition answersStop :: "string \<Rightarrow> coordinator \<Rightarrow> bool" where
  "answersStop e c = (\<exists>oper ep r s. lc_stop c = Some (StopRpc oper ep r) \<and> lc_state c = Some s \<and>
     currentStop oper s \<and> ls_runtimeEpoch s = Some e)"

lemma wakeCatch_admits:
  "coord_admits e (snd (wakeCatch env w m c)) \<Longrightarrow> coord_admits e c"
  by (auto simp: wakeCatch_def requireState_def coord_admits_def admits_def Let_def
      split: option.splits if_splits)

lemma performWakeFinish_admits:
  assumes "coord_admits e (snd (performWakeFinish env w reply c))"
  shows "coord_admits e c \<or> (\<exists>s. lc_state c = Some s \<and> currentWake w s \<and> wc_runtimeEpoch w = e)"
proof (cases reply)
  case (Inl m)
  then show ?thesis using assms wakeCatch_admits
    by (simp add: performWakeFinish_def case_prod_beta)
next
  case (Inr x)
  show ?thesis
  proof (cases "lc_state c")
    case (Some s)
    show ?thesis
    proof (cases "currentWake w s \<and> ex_state x \<noteq> ExNotRunning")
      case True
      with assms Inr Some have "ls_runtimeEpoch s = Some e"
        by (auto simp: performWakeFinish_def requireState_def Let_def coord_admits_def
            dest!: snapshot_admits)
      with True Some show ?thesis by (auto simp: currentWake_def)
    next
      case False
      then have "coord_admits e c" using assms Inr Some wakeCatch_admits
        by (cases "currentWake w s") (simp_all add: performWakeFinish_def requireState_def case_prod_beta)
      then show ?thesis ..
    qed
  qed (use assms Inr in \<open>simp add: performWakeFinish_def requireState_def\<close>)
qed

lemma onWakeReply_admits:
  assumes "coord_ok c" and "coord_admits e (onWakeReply env reply c)"
  shows "coord_admits e c \<or> answersWake e c"
proof (cases "lc_wake c")
  case (Some w)
  let ?c = "c\<lparr>lc_wake := None\<rparr>"
  obtain r d where d: "performWakeFinish env w reply ?c = (r, d)" by fastforce
  have "osteps env wakeCauses ?c d" using osteps_performWakeFinish[of env ?c w reply] d by simp
  then have "coord_ok d" by (rule osteps_coord_ok) (simp add: assms(1))
  moreover obtain err where "onWakeReply env reply c = settleWake env err d"
    using Some d by (cases r) (simp_all add: onWakeReply_def)
  ultimately have "coord_admits e d"
    using osteps_local_admits[OF osteps_settleWake] assms(2) by metis
  with performWakeFinish_admits[of e env w reply ?c] d Some show ?thesis
    by (auto simp: coord_admits_def answersWake_def)
qed (use assms in \<open>simp add: onWakeReply_def\<close>)

lemma stopCatch_admits:
  "coord_admits e (snd (stopCatch env oper m c)) \<Longrightarrow> coord_admits e c"
  by (auto simp: stopCatch_def requireState_def coord_admits_def admits_def Let_def
      split: option.splits if_splits)

lemma sleepThenMaybeWake_admits:
  assumes "env_ok env" and "coord_ok c" and "state_ok s"
  shows "\<not> coord_admits e (snd (sleepThenMaybeWake env oper reason s c))"
proof
  let ?c1 = "commit env (toSleepingState s (env_now env) reason None) c"
  assume a: "coord_admits e (snd (sleepThenMaybeWake env oper reason s c))"
  have ok1: "coord_ok ?c1" using assms by (auto intro: state_ok_sleeping)
  obtain r d where d: "continueWake env True ?c1 = (r, d)" by fastforce
  with osteps_continueWake[OF assms(1) ok1, of True] have 1: "osteps env {Local} ?c1 d" by simp
  have 2: "osteps env {Local} ?c1 (snd (sleepThenMaybeWake env oper reason s c))"
    using 1 osteps_trans[OF 1 osteps_stopCatch] osteps_book(3)[OF 1] osteps_refl
    by (simp add: sleepThenMaybeWake_def Let_def d split: sum.split wake_progress.split)
  from osteps_local_admits[OF 2 ok1 a] show False
    by (simp add: coord_admits_def admits_def toSleepingState_def)
qed

lemma performStopFinish_admits:
  assumes "env_ok env" and ok: "coord_ok c"
    and a: "coord_admits e (snd (performStopFinish env oper reply c))"
  shows "coord_admits e c \<or>
    (\<exists>s. lc_state c = Some s \<and> currentStop oper s \<and> ls_runtimeEpoch s = Some e)"
proof (cases "lc_state c")
  case None
  then show ?thesis using a stopCatch_admits
    by (cases reply) (auto simp: performStopFinish_def requireState_def)
next
  case (Some s)
  note nosleep = sleepThenMaybeWake_admits[OF assms(1) ok coord_ok_state[OF ok Some], of e oper]
  show ?thesis
  proof (cases "currentStop oper s")
    case True
    have "ls_runtimeEpoch s = Some e" if "coord_admits e (commit env (stillBusy env x s) c)" for x
      using that by (cases x)
        (auto simp: coord_admits_def stillBusy_def Let_def admits_def[of e "_\<lparr>ls_phase := _\<rparr>"]
          admits_def[of e "_\<lparr>ls_updatedAt := _\<rparr>"] dest: snapshot_admits)
    then show ?thesis using a True Some nosleep stopCatch_admits
      by (cases reply)
        (auto simp: performStopFinish_def requireState_def coord_admits_def[of e "commit _ _ _"]
          terminationPending_def failedRunning_def admits_def split: if_splits)
  next
    case False
    then show ?thesis using a Some stopCatch_admits
      by (cases reply) (auto simp: performStopFinish_def requireState_def)
  qed
qed

lemma onStopReply_admits:
  assumes "env_ok env" and "coord_ok c" and "coord_admits e (onStopReply env reply c)"
  shows "coord_admits e c \<or> answersStop e c"
proof (cases "\<exists>oper ep r. lc_stop c = Some (StopRpc oper ep r)")
  case True
  then obtain oper ep v where s: "lc_stop c = Some (StopRpc oper ep v)" by blast
  let ?c = "c\<lparr>lc_stop := None\<rparr>"
  have ok: "coord_ok ?c" using assms(2) by simp
  obtain r d where d: "performStopFinish env oper reply ?c = (r, d)" by fastforce
  with osteps_performStopFinish[OF assms(1) ok, of oper reply]
  have "osteps env stopCauses ?c d" by simp
  from osteps_coord_ok[OF this ok] have okd: "coord_ok d" .
  have "coord_admits e d"
    using assms(3) osteps_local_admits[OF osteps_settleStop okd]
    by (simp add: onStopReply_def s d split: if_splits)
  with performStopFinish_admits[OF assms(1) ok, of e oper reply] d s show ?thesis
    by (auto simp: coord_admits_def answersStop_def)
qed (use assms in \<open>auto simp: onStopReply_def split: option.splits stop_call.splits\<close>)

text \<open>
  C3. Admission for an epoch opens only through an answer: if work of an epoch is admitted
  after a step and was not before, the step is the answer to the wake of exactly that epoch,
  still the current one, or the answer to the current stop of that same generation. No stale
  answer, probe, alarm, lease call or reload opens it.
\<close>

theorem admission_opens_by_current_answer:
  assumes "reach lc_init lc_step c" and "lc_step c (env, ev) c'" and "coord_admits e c'"
    and "\<not> coord_admits e c"
  shows "(\<exists>r. ev = EvWakeReply r) \<and> answersWake e c \<or> (\<exists>r. ev = EvStopReply r) \<and> answersStop e c"
proof -
  note ok = lc.holds_in_reach[OF assms(1)]
  have local: False if "is_handler ev" and "causes ev = {Local}"
  proof -
    from osteps_local_admits[OF _ _ assms(3), of env] lc_step_refines[OF assms(2) ok that(1)] ok
    have "coord_admits e (handlerStart ev c)" by (simp add: that(2))
    with assms(4) show False by (auto simp: coord_admits_def)
  qed
  from assms(2) show ?thesis
  proof cases
    case (st_initialize inp)
    show ?thesis
    proof (cases "lc_state c")
      case (Some s)
      from initialize_state_Some[OF this] st_initialize assms(3,4) Some show ?thesis
        by (auto simp: coord_admits_def)
    qed (use st_initialize assms(3) in \<open>simp add: coord_admits_def admits_def
          initializeInstance_def initialState_def Let_def\<close>)
  next
    case (st_wakeReply r)
    then show ?thesis using onWakeReply_admits[OF ok] assms(3,4) by blast
  next
    case (st_stopReply oper ep v r)
    then show ?thesis using onStopReply_admits[OF _ ok] assms(3,4) by blast
  next
    case st_markDeleted
    then show ?thesis using assms(3) by (simp add: markDeleted_def coord_admits_def)
  next
    case st_reload
    then have "lc_state c' = lc_disk c"
      by (auto simp: newCoordinator_def Let_def split: option.splits if_splits)
    then show ?thesis using assms(3,4) ok by (auto simp: coord_admits_def coord_ok_def)
  qed (use local in \<open>simp_all add: is_handler_def\<close>)
qed

lemma answersWake_exWaking: "answersWake ''e1'' exWaking"
  using exWaking_eval by (auto simp: answersWake_def currentWake_def)

lemma admission_opens_by_current_answer_witness:
  "\<not> coord_admits ''e1'' exWaking \<and> coord_admits ''e1'' exRunning \<and> answersWake ''e1'' exWaking"
proof -
  have step: "lc_step exWaking (exEnv 1000, EvWakeReply (Inr exIdle)) exRunning"
    unfolding exRunning_def by (rule st_wakeReply) (simp_all add: exWaking_eval)
  have 1: "\<not> coord_admits ''e1'' exWaking"
    using exWaking_eval(1) by (auto simp: coord_admits_def admits_def)
  moreover have 2: "coord_admits ''e1'' exRunning"
    using exRunning_eval by (auto simp: coord_admits_def admits_def)
  ultimately show ?thesis
    using admission_opens_by_current_answer[OF reach_exWaking step 2 1] by simp
qed

section \<open>Idle stops\<close>

definition idleDue :: "lc_env \<Rightarrow> stored_lifecycle \<Rightarrow> bool" where
  "idleDue env s = (activeLeaseCount s (env_now env) = 0 \<and>
     (\<forall>w. ls_lastSemanticWorkAt s = Some w \<longrightarrow> w + idleTimeout s \<le> env_now env))"

definition idle_rel :: "lc_env \<Rightarrow> stored_lifecycle \<Rightarrow> stored_lifecycle \<Rightarrow> bool" where
  "idle_rel env x y =
     (idleStopping y \<longrightarrow> idleStopping x \<and> (idleDue env x \<longrightarrow> idleDue env y) \<or> idleDue env y)"

lemma expired_phase:
  "isAdmissionPhase (ls_phase s) \<Longrightarrow> removeExpiredLeases now s = Some s' \<Longrightarrow>
     ls_phase s' = RunningUnknown"
  by (auto simp: removeExpiredLeases_def Let_def split: if_splits)

lemma transition_idle_rel:
  assumes "transition env k s s'" and "state_ok s"
  shows "idle_rel env s s'"
proof (cases "idleStopping s' \<and> idleStopping s")
  case True
  from assms(1) True have "idleDue env s \<longrightarrow> idleDue env s'"
    by (induction rule: transition.induct)
      (simp_all add: idleStopping_def idleDue_def idleTimeout_def activeLeaseCount_def
        stillBusy_not_quiescing terminationPending_def failedRunning_def toSleepingState_def
        clearIdleWindow_def)
  with True show ?thesis by (simp add: idle_rel_def)
next
  case False
  show ?thesis
  proof (cases "idleStopping s'")
    case stop: True
    with False have new: "\<not> idleStopping s" by simp
    from transition_idleStop[OF assms(1) stop new assms(2)] have may: "mayIdleStop env s" .
    from assms(1) stop new may have "idleDue env s'"
    proof (induction rule: transition.induct)
      case (t_expire s s')
      then show ?case using expired_phase by (auto simp: idleStopping_def)
    qed (auto simp: idleStopping_def idleDue_def idleTimeout_def activeLeaseCount_def
        mayIdleStop_def stillBusy_not_quiescing terminationPending_def failedRunning_def
        toSleepingState_def applyUnknownActivity_def snapshot_not_quiescing Let_def)
    then show ?thesis by (simp add: idle_rel_def)
  qed (simp add: idle_rel_def)
qed

lemma idle_rel_refl: "idle_rel env x x"
  by (simp add: idle_rel_def)

lemma idle_rel_trans: "idle_rel env x y \<Longrightarrow> idle_rel env y z \<Longrightarrow> idle_rel env x z"
  by (auto simp: idle_rel_def)

text \<open>
  A lemma for every step: a relation of stored states that the specification has, that is
  reflexive and transitive, holds across any step that finds and leaves a state.
\<close>

lemma reload_state: "newCoordinator env c = Inr c' \<Longrightarrow> lc_state c' = lc_disk c"
  by (auto simp: newCoordinator_def Let_def split: option.splits if_splits)

lemma lc_step_rel:
  assumes "lc_step c (env, ev) c'" and ok: "coord_ok c" and s: "lc_state c = Some s"
    and "ev \<noteq> EvMarkDeleted"
    and refl: "\<And>s. R s s" and trans: "\<And>x y z. R x y \<Longrightarrow> R y z \<Longrightarrow> R x z"
    and rel: "\<And>k x y. transition env k x y \<Longrightarrow> state_ok x \<Longrightarrow> R x y"
  shows "\<exists>s'. lc_state c' = Some s' \<and> R s s'"
proof (cases "is_handler ev")
  case True
  show ?thesis
    by (rule osteps_rel[OF lc_step_refines[OF assms(1) ok True] _ _ refl trans rel])
      (use ok s in simp_all)
next
  case False
  from assms(1) False assms(4) ok s show ?thesis
    by cases (auto simp: is_handler_def initialize_state_Some coord_ok_def refl
        dest!: reload_state)
qed

text \<open>
  C4. A container is stopped for idleness only when it is idle: whenever a step moves the
  coordinator into an idle stop, no lease of the current epoch is live, and the idle timeout
  of the instance (ten minutes by default) has passed since the last admitted work.
\<close>

theorem idle_stop_only_when_due:
  assumes "reach lc_init lc_step c" and "lc_step c (env, ev) c'"
    and "lc_state c = Some s" and "lc_state c' = Some s'" and "idleStopping s'"
    and "\<not> idleStopping s"
  shows "activeLeaseCount s' (env_now env) = 0 \<and>
    (\<forall>w. ls_lastSemanticWorkAt s' = Some w \<longrightarrow> w + idleTimeout s' \<le> env_now env)"
proof -
  have "ev \<noteq> EvMarkDeleted"
    using assms(2,4) by (auto simp: markDeleted_def elim: lc_step.cases)
  from lc_step_rel[OF assms(2) lc.holds_in_reach[OF assms(1)] assms(3) this,
      where R = "idle_rel env", OF idle_rel_refl idle_rel_trans transition_idle_rel]
  have "idle_rel env s s'" using assms(4) by simp
  with assms(5,6) show ?thesis by (auto simp: idle_rel_def idleDue_def)
qed

lemma idle_stop_only_when_due_witness:
  "\<exists>s'. lc_state exStopping = Some s' \<and> activeLeaseCount s' 601000 = 0 \<and> ls_phase s' = Quiescing"
proof -
  have 1: "map_option idleStopping (lc_state exStopping) = Some True"
    "map_option idleStopping (lc_state exIdling) = Some False" by code_simp+
  then obtain s s' where s: "lc_state exIdling = Some s" "lc_state exStopping = Some s'"
    "idleStopping s'" "\<not> idleStopping s" by auto
  from idle_stop_only_when_due[OF reach_exIdling step_exStopping s] s show ?thesis
    by (simp add: exEnv_def idleStopping_def)
qed

section \<open>Revisions\<close>

definition revision_rel :: "stored_lifecycle \<Rightarrow> stored_lifecycle \<Rightarrow> bool" where
  "revision_rel x y = (ls_revision x \<le> ls_revision y \<and>
     (ls_runtimeEpoch y \<noteq> ls_runtimeEpoch x \<longrightarrow> ls_revision x < ls_revision y))"

lemma revision_rel_trans: "revision_rel x y \<Longrightarrow> revision_rel y z \<Longrightarrow> revision_rel x z"
  by (fastforce simp: revision_rel_def)

lemma transition_revision_rel: "transition env k s s' \<Longrightarrow> state_ok s \<Longrightarrow> revision_rel s s'"
  using transition_revision by (simp add: revision_rel_def)

text \<open>
  The revision of an instance never goes back, whatever step the coordinator takes until
  it forgets the instance, and it grows whenever the runtime generation changes; so a probe
  that remembers its revision cannot mistake another generation for its own.
\<close>

theorem revision_fences_generation:
  assumes "reach lc_init lc_step c" and "lc_step c (env, ev) c'" and "lc_state c = Some s"
    and "ev \<noteq> EvMarkDeleted"
  shows "\<exists>s'. lc_state c' = Some s' \<and> ls_revision s \<le> ls_revision s' \<and>
    (ls_runtimeEpoch s' \<noteq> ls_runtimeEpoch s \<longrightarrow> ls_revision s < ls_revision s')"
  using lc_step_rel[OF assms(2) lc.holds_in_reach[OF assms(1)] assms(3,4), where R = revision_rel]
    revision_rel_trans transition_revision_rel by (auto simp: revision_rel_def)

lemma revision_fences_generation_witness:
  "\<exists>s'. lc_state exWaking = Some s' \<and> 0 < ls_revision s' \<and> ls_runtimeEpoch s' \<noteq> None"
proof -
  have step: "lc_step exCreated (exEnv 0, EvWake) exWaking"
    unfolding exWaking_def by (rule st_wake) simp
  from revision_fences_generation[OF reach_exCreated step exCreated_eval(1)] exWaking_eval(1)
  show ?thesis by (auto simp: initialState_def)
qed

section \<open>The alarm\<close>

lemma fold_min_le: "fold min ts (t :: millis) \<le> t \<and> (\<forall>x \<in> set ts. fold min ts t \<le> x)"
  by (induction ts arbitrary: t) (auto, (meson min.boundedE)+)

lemma nextAlarmAt_due:
  assumes "needsAlarm s"
  obtains t where "nextAlarmAt s now = Some t" and "now \<le> t"
    and "\<And>x. x \<in> set (alarmCandidates s now) \<Longrightarrow> t \<le> max now x"
proof (cases "alarmCandidates s now")
  case Nil
  with assms show ?thesis
    by (intro that[of "now + OPERATION_RECOVERY_INTERVAL_MS"])
      (simp_all add: nextAlarmAt_def OPERATION_RECOVERY_INTERVAL_MS_def)
next
  case (Cons a l)
  with assms fold_min_le[of l a] show ?thesis
    by (intro that[of "max now (fold min l a)"]) (auto simp: nextAlarmAt_def)
qed

lemma handler_alarm:
  assumes "lc_step c (env, ev) c'" and "coord_ok c" and "is_handler ev"
    and "lc_state c' \<noteq> lc_state c"
  shows "alarm_set env c'"
  using osteps_alarm_set[OF lc_step_refines[OF assms(1-3)]] assms(4) by simp

text \<open>
  C5. Whoever changes the state arms the alarm: after a handler that changed it, a phase
  that needs attention has an alarm, not before now and no later than the next probe, the
  idle deadline and the end of every live lease (or now, where those have passed); a sleeping
  or deleting coordinator has none.
\<close>

theorem state_change_arms_alarm:
  assumes "reach lc_init lc_step c" and "lc_step c (env, ev) c'" and "is_handler ev"
    and "lc_state c' \<noteq> lc_state c" and "lc_state c' = Some s'"
  shows "(\<not> needsAlarm s' \<longrightarrow> lc_alarm c' = None) \<and>
    (needsAlarm s' \<longrightarrow> (\<exists>t \<ge> env_now env. lc_alarm c' = Some t \<and>
       (\<forall>x \<in> set (alarmCandidates s' (env_now env)). t \<le> max (env_now env) x)))"
proof -
  from handler_alarm[OF assms(2) lc.holds_in_reach[OF assms(1)] assms(3,4)] assms(5)
  have a: "lc_alarm c' = nextAlarmAt s' (env_now env)" by (simp add: alarm_set_def)
  show ?thesis
  proof (cases "needsAlarm s'")
    case True
    from nextAlarmAt_due[OF this, of "env_now env"] a True show ?thesis by metis
  qed (simp add: a nextAlarmAt_def)
qed

lemma state_change_arms_alarm_witness: "\<exists>t \<ge> 601000. lc_alarm exStopping = Some t"
proof -
  obtain s' where s: "lc_state exStopping = Some s'" "needsAlarm s'"
  proof -
    have "map_option needsAlarm (lc_state exStopping) = Some True" by code_simp
    with that show thesis by auto
  qed
  have "map_option ls_phase (lc_state exIdling) \<noteq> map_option ls_phase (lc_state exStopping)"
    by code_simp
  then have "lc_state exStopping \<noteq> lc_state exIdling" by auto
  from state_change_arms_alarm[OF reach_exIdling step_exStopping _ this s(1)] s(2)
  show ?thesis by (auto simp: is_handler_def exEnv_def)
qed

lemma reload_recovers_ok:
  assumes "reach lc_init lc_step c"
  shows "\<exists>c'. newCoordinator env c = Inr c' \<and> lc_state c' = lc_state c \<and>
    lc_wake c' = None \<and> lc_probe c' = None \<and> lc_stop c' = None \<and>
    (\<forall>s. lc_state c = Some s \<longrightarrow> (needsAlarm s \<longleftrightarrow> lc_alarm c' \<noteq> None))"
  using lc.holds_in_reach[OF assms]
  by (cases "lc_state c") (auto simp: newCoordinator_def coord_ok_def state_ok_def Let_def
      split: option.split)

text \<open>
  Losing the object loses nothing: after any history, loading it again succeeds, gives
  the very state it had, forgets only the calls in flight, and a phase that needs attention
  has an alarm.
\<close>

theorem reload_recovers:
  assumes "reach lc_init lc_step c"
  shows "\<exists>c'. newCoordinator env c = Inr c' \<and> lc_state c' = lc_state c \<and>
    lc_wake c' = None \<and> lc_probe c' = None \<and> lc_stop c' = None \<and>
    (\<forall>s. lc_state c = Some s \<longrightarrow> (needsAlarm s \<longleftrightarrow> lc_alarm c' \<noteq> None))"
  by (rule reload_recovers_ok[OF assms])

lemma reload_recovers_witness:
  "\<exists>c'. newCoordinator (exEnv 5000) exRunning = Inr c' \<and> lc_state c' = lc_state exRunning"
  using reload_recovers[OF reach_exRunning, of "exEnv 5000"] by blast

text \<open>
  A wake in trouble is replayed, not restarted: the alarm of a waking phase whose call is
  gone sends the wake of the same operation and the same epoch again, without a new revision.
\<close>

theorem alarm_replays_wake:
  assumes "reach lc_init lc_step c" and s: "lc_state c = Some s"
    and "ls_phase s = Waking \<or> ls_phase s = ErrorWaking" and "lc_wake c = None"
  shows "\<exists>s' oper e. lc_state (alarm env c) = Some s' \<and> ls_phase s' = Waking \<and>
    ls_operation s = Some oper \<and> ls_runtimeEpoch s = Some e \<and>
    lc_wake (alarm env c) = Some \<lparr>wc_operation = oper, wc_runtimeEpoch = e\<rparr> \<and>
    ls_operation s' = ls_operation s \<and> ls_runtimeEpoch s' = ls_runtimeEpoch s \<and>
    ls_revision s' = ls_revision s \<and> lc_handler (alarm env c) = AlarmAwaitsWake"
proof -
  from coord_ok_state[OF lc.holds_in_reach[OF assms(1)] s] assms(3)
  have p: "truthy_str (ls_runtimeEpoch s)" "map_option op_type (ls_operation s) = Some OpWake"
    by (auto simp: state_ok_def)
  then obtain oper e where o: "ls_operation s = Some oper" "op_type oper = OpWake"
      "ls_runtimeEpoch s = Some e" "e \<noteq> []" by (auto dest: truthy_strD)
  from assms(3) o show ?thesis
    by (auto simp: alarm_def s continueWake_def assms(4) performWakeStart_def requireState_def Let_def)
qed

definition exRecovered :: coordinator where
  "exRecovered = (case newCoordinator (exEnv 100) exWaking of Inr c \<Rightarrow> c | Inl _ \<Rightarrow> exEmpty)"

lemma reach_exRecovered: "reach lc_init lc_step exRecovered"
proof -
  from reload_recovers_ok[OF reach_exWaking, of "exEnv 100"] obtain c'
    where c': "newCoordinator (exEnv 100) exWaking = Inr c'" by blast
  then have "lc_step exWaking (exEnv 100, EvReload) c'" by (intro st_reload) simp_all
  with c' show ?thesis by (simp add: exRecovered_def reach_next[OF reach_exWaking])
qed

lemma alarm_replays_wake_witness:
  "lc_wake exRecovered = None \<and> map_option wc_runtimeEpoch (lc_wake (alarm (exEnv 30100) exRecovered)) = Some ''e1''"
proof -
  have 1: "map_option ls_phase (lc_state exRecovered) = Some Waking"
    "map_option ls_runtimeEpoch (lc_state exRecovered) = Some (Some ''e1'')"
    "lc_wake exRecovered = None" by code_simp+
  then obtain s where s: "lc_state exRecovered = Some s" "ls_phase s = Waking"
    "ls_runtimeEpoch s = Some ''e1''" by auto
  from alarm_replays_wake[OF reach_exRecovered s(1) _ 1(3), of "exEnv 30100"] s 1(3)
  show ?thesis by auto
qed

text \<open>
  A stop is replayed with the identity it was decided with: the alarm of a quiescing
  coordinator whose call is gone sends the same operation, of the same generation and
  revision, again and changes nothing.
\<close>

theorem alarm_replays_stop:
  assumes "reach lc_init lc_step c" and s: "lc_state c = Some s" and q: "ls_phase s = Quiescing"
    and "lc_stop c = None"
  shows "\<exists>oper. ls_operation s = Some oper \<and> lc_state (alarm env c) = Some s \<and>
    lc_stop (alarm env c) = Some (StopRpc oper (ls_runtimeEpoch s) (ls_revision s)) \<and>
    lc_handler (alarm env c) = AlarmAwaitsStop"
proof -
  from state_okD_quiescing[OF coord_ok_state[OF lc.holds_in_reach[OF assms(1)] s] q]
  obtain oper where o: "ls_operation s = Some oper" "truthy_str (ls_runtimeEpoch s)" by blast
  then show ?thesis
    by (simp add: alarm_def s q Let_def alarmAwaitStop_def continueStop_def assms(4)
        performStopStart_def requireState_def)
qed

definition exStopLost :: coordinator where
  "exStopLost = (case newCoordinator (exEnv 601500) exStopping of Inr c \<Rightarrow> c | Inl _ \<Rightarrow> exEmpty)"

lemma reach_exStopping: "reach lc_init lc_step exStopping"
  by (rule reach_next[OF reach_exIdling step_exStopping])

lemma reach_exStopLost: "reach lc_init lc_step exStopLost"
proof -
  from reload_recovers_ok[OF reach_exStopping, of "exEnv 601500"] obtain c'
    where c': "newCoordinator (exEnv 601500) exStopping = Inr c'" by blast
  then have "lc_step exStopping (exEnv 601500, EvReload) c'" by (intro st_reload) simp_all
  with c' show ?thesis by (simp add: exStopLost_def reach_next[OF reach_exStopping])
qed

lemma alarm_replays_stop_witness:
  "\<exists>oper e r. lc_stop (alarm (exEnv 631000) exStopLost) = Some (StopRpc oper e r) \<and>
     op_id oper = ''op1''"
proof -
  have 1: "map_option ls_phase (lc_state exStopLost) = Some Quiescing" "lc_stop exStopLost = None"
    "map_option (\<lambda>s. map_option op_id (ls_operation s)) (lc_state exStopLost) = Some (Some ''op1'')"
    by code_simp+
  then obtain s where s: "lc_state exStopLost = Some s" "ls_phase s = Quiescing"
    "map_option op_id (ls_operation s) = Some ''op1''" by auto
  from alarm_replays_stop[OF reach_exStopLost s(1,2) 1(2), of "exEnv 631000"] s(3)
  show ?thesis by auto
qed

section \<open>Unreachable containers\<close>

text \<open>
  A container that cannot be probed is given exactly one hour: when the alarm's own probe
  fails, the coordinator goes to \<open>ErrorRunning\<close> and, if and only if probes have been
  failing for \<open>MAX_PROBE_FAILURE_WINDOW_MS\<close>, at once on to a forced stop, whose call is
  sent; the time of the first failure is kept until a probe succeeds.
\<close>

theorem unreachable_stop_after_window:
  assumes s: "lc_state c = Some s" and p: "lc_probe c = Some p" and cur: "currentProbe p s"
    and h: "lc_handler c = AlarmAwaitsProbe" and "lc_stop c = None"
    and e: "truthy_str (ls_runtimeEpoch s)"
  shows "\<exists>s'. lc_state (onProbeReply env (Inl m) c) = Some s' \<and>
    (let since = nullish (ls_probeFailingSince s) (env_now env) in
     ls_probeFailingSince s' = Some since \<and>
     (if env_now env - since \<ge> MAX_PROBE_FAILURE_WINDOW_MS
      then ls_phase s' = Quiescing \<and> map_option op_type (ls_operation s') = Some OpForceStop \<and>
        (\<exists>oper r. lc_stop (onProbeReply env (Inl m) c) = Some (StopRpc oper (ls_runtimeEpoch s) r))
      else ls_phase s' = ErrorRunning \<and> lc_stop (onProbeReply env (Inl m) c) = None))"
proof -
  let ?u = "applyUnknownActivity m (env_now env) s"
  have u: "ls_phase ?u = ErrorRunning" "ls_runtimeEpoch ?u = ls_runtimeEpoch s"
    "ls_probeFailingSince ?u = Some (nullish (ls_probeFailingSince s) (env_now env))"
    by (simp_all add: applyUnknownActivity_def Let_def)
  have "onProbeReply env (Inl m) c = afterProbe env (commit env ?u (c\<lparr>lc_probe := None\<rparr>))"
    using s p cur h by (simp add: onProbeReply_def performProbeFinish_def requireState_def)
  then show ?thesis using e assms(5)
    by (simp add: afterProbe_def probeFailureWindowExpired_def u beginUnreachableStop_def
        alarmAwaitStop_def continueStop_def performStopStart_def requireState_def Let_def)
qed

definition exFailing :: coordinator where
  "exFailing = onProbeReply (exEnv 4000) (Inl ''unreachable'') exProbing"

definition exFailing2 :: coordinator where
  "exFailing2 = alarm (exEnv 3604000) exFailing"

lemma unreachable_stop_after_window_witness:
  "map_option ls_phase (lc_state (onProbeReply (exEnv 3604000) (Inl ''gone'') exFailing2)) =
     Some Quiescing"
proof -
  have 1: "map_option (\<lambda>s. (ls_probeFailingSince s, ls_runtimeEpoch s)) (lc_state exFailing2) =
      Some (Some 4000, Some ''e1'')"
    "(case (lc_probe exFailing2, lc_state exFailing2) of
        (Some p, Some s) \<Rightarrow> currentProbe p s | _ \<Rightarrow> False)"
    "lc_handler exFailing2 = AlarmAwaitsProbe" "lc_stop exFailing2 = None"
    by code_simp+
  then obtain s p where s: "lc_state exFailing2 = Some s" "lc_probe exFailing2 = Some p"
    "currentProbe p s" "ls_probeFailingSince s = Some 4000" "truthy_str (ls_runtimeEpoch s)"
    by (auto split: option.splits)
  from unreachable_stop_after_window[OF s(1-3) 1(3,4) s(5), of "exEnv 3604000" "''gone''"] s(4)
  show ?thesis by (auto simp: exEnv_def MAX_PROBE_FAILURE_WINDOW_MS_def)
qed

section \<open>Work leases\<close>

lemma activeLeaseCount_pos:
  "(k, l) \<in> set (ls_workLeases s) \<Longrightarrow> isActiveLease l (ls_runtimeEpoch s) t \<Longrightarrow>
     0 < activeLeaseCount s t"
  by (auto simp: activeLeaseCount_def filter_empty_conv)

lemma update_mem: "(k, v) \<in> set (AList.update k v kvs)"
  by (induction kvs) auto

text \<open>
  A lease keeps its container busy: admitted work gets a lease of at least five seconds
  and at most five minutes, for the epoch it asked for, and until that lease expires no
  report of a running container, however idle, moves the coordinator to an idle phase.
\<close>

theorem lease_keeps_busy:
  assumes "fst (beginWork env e ttl c) = WorkAdmitted l x r"
  shows "\<exists>s. lc_state (snd (beginWork env e ttl c)) = Some s \<and> ls_phase s = RunningBusy \<and>
    ls_runtimeEpoch s = Some e \<and> ls_revision s = r \<and>
    env_now env + MIN_WORK_LEASE_MS \<le> x \<and> x \<le> env_now env + MAX_WORK_LEASE_MS \<and>
    (\<forall>snap t. ex_state snap = ExRunning \<longrightarrow> t < x \<longrightarrow>
       ls_phase (applyExecutionSnapshot snap t s) = RunningBusy \<and>
       ls_idleDeadlineAt (applyExecutionSnapshot snap t s) = None)"
proof (cases "admissionFor e c")
  case (Admitted e' r')
  then obtain s where s: "lc_state c = Some s" "ls_runtimeEpoch s = Some e" by (rule admittedD)
  let ?l = "\<lparr>wl_id = env_id env, wl_runtimeEpoch = e, wl_startedAt = env_now env,
     wl_expiresAt = env_now env + normalizeLeaseTtl ttl\<rparr>"
  obtain s' where s': "lc_state (snd (beginWork env e ttl c)) = Some s'"
    "ls_phase s' = RunningBusy" "ls_runtimeEpoch s' = Some e" "ls_revision s' = r"
    "(env_id env, ?l) \<in> set (ls_workLeases s')" "wl_expiresAt ?l = x"
    using assms s Admitted by (auto simp: beginWork_def Let_def update_mem)
  have "0 < activeLeaseCount s' t" if "t < x" for t
    by (rule activeLeaseCount_pos[OF s'(5)]) (use that s' in \<open>simp add: isActiveLease_def\<close>)
  then have "ls_phase (applyExecutionSnapshot snap t s') = RunningBusy \<and>
       ls_idleDeadlineAt (applyExecutionSnapshot snap t s') = None"
    if "ex_state snap = ExRunning" "t < x" for snap t
    using that by (simp add: applyExecutionSnapshot_def Let_def applyCommon_def clearIdleWindow_def)
  with s' normalizeLeaseTtl_bounds[of ttl] show ?thesis by auto
qed (use assms in \<open>simp add: beginWork_def\<close>)

lemma lease_keeps_busy_witness:
  "\<exists>s. lc_state (snd (beginWork (exEnv 2000) ''e1'' (Some 1) exRunning)) = Some s \<and>
     ls_phase (applyExecutionSnapshot exIdle 6999 s) = RunningBusy"
proof -
  have "fst (beginWork (exEnv 2000) ''e1'' (Some 1) exRunning) = WorkAdmitted ''op1'' 7000 2"
    by code_simp
  from lease_keeps_busy[OF this] show ?thesis by (auto simp: exIdle_def)
qed

section \<open>A wake during a stop\<close>

text \<open>
  A wake is never lost to a stop in progress: asked for while the container is being
  stopped, it is remembered, and when the stop completes the coordinator goes on to a new
  generation and sends its wake.
\<close>

theorem wake_during_stop_follows:
  assumes s: "lc_state c = Some s" and st: "lc_stop c = Some (StopRpc oper ep v)"
    and cur: "currentStop oper s" and "lc_wake c = None" and "env_ok env"
  shows "\<exists>s'. lc_state (onStopReply env StopStopped (snd (wake env0 c))) = Some s' \<and>
    ls_phase s' = Waking \<and> ls_runtimeEpoch s' = Some (env_epoch env) \<and>
    ls_revision s < ls_revision s' \<and>
    map_option wc_runtimeEpoch (lc_wake (onStopReply env StopStopped (snd (wake env0 c)))) =
      Some (env_epoch env)"
proof -
  let ?c = "snd (wake env0 c)" and ?s = "s\<lparr>ls_wakeAfterStop := True, ls_updatedAt := env_now env0\<rparr>"
  have q: "ls_phase s = Quiescing" using cur by (simp add: currentStop_def)
  then have c: "?c = commit env0 ?s c"
    by (simp add: wake_def requireState_def s Let_def)
  have "currentStop oper ?s" using cur by (simp add: currentStop_def)
  then show ?thesis
    by (simp add: onStopReply_def c st performStopFinish_def requireState_def
        sleepThenMaybeWake_def Let_def continueWake_def assms(4) performWakeStart_def
        toSleepingState_def clearIdleWindow_def)
qed

definition exWaitingStop :: coordinator where
  "exWaitingStop = snd (forceStop (exEnv 5000) exRunning)"

lemma wake_during_stop_follows_witness:
  "map_option ls_phase (lc_state (onStopReply (exEnv 9000) StopStopped
     (snd (wake (exEnv 6000) exWaitingStop)))) = Some Waking"
proof -
  have 1: "(case (lc_stop exWaitingStop, lc_state exWaitingStop) of
      (Some (StopRpc oper e v), Some s) \<Rightarrow> currentStop oper s | _ \<Rightarrow> False)"
    "lc_wake exWaitingStop = None" by code_simp+
  then obtain oper e v s where s: "lc_state exWaitingStop = Some s"
    "lc_stop exWaitingStop = Some (StopRpc oper e v)" "currentStop oper s"
    by (auto split: option.splits stop_call.splits)
  from wake_during_stop_follows[OF s 1(2), of "exEnv 9000" "exEnv 6000"] show ?thesis by auto
qed

section \<open>Deletion\<close>

definition deleting_rel :: "stored_lifecycle \<Rightarrow> stored_lifecycle \<Rightarrow> bool" where
  "deleting_rel x y = (ls_phase x = Deleting \<longrightarrow> ls_phase y = Deleting)"

lemma transition_deleting:
  assumes "transition env k s s'" and "state_ok s"
  shows "deleting_rel s s'"
proof (cases "ls_phase s = Deleting")
  case True
  from assms(1) this state_okD_leases[OF assms(2)] have "ls_phase s' = Deleting"
    by (induction rule: transition.induct) simp_all
  then show ?thesis by (simp add: deleting_rel_def)
qed (simp add: deleting_rel_def)

text \<open>
  Deletion is final: a coordinator that is deleting stays so through every step, late
  answers, alarms and reloads included, until it is marked deleted; so a container cannot be
  brought back by a wake that was already under way.
\<close>

theorem deleting_is_final:
  assumes "reach lc_init lc_step c" and "lc_step c (env, ev) c'" and "lc_state c = Some s"
    and "ls_phase s = Deleting" and "ev \<noteq> EvMarkDeleted"
  shows "\<exists>s'. lc_state c' = Some s' \<and> ls_phase s' = Deleting"
  using lc_step_rel[OF assms(2) lc.holds_in_reach[OF assms(1)] assms(3,5), where R = deleting_rel,
      OF _ _ transition_deleting] assms(4) by (auto simp: deleting_rel_def)

definition exDeleting :: coordinator where
  "exDeleting = beginDelete (exEnv 10) exWaking"

lemma deleting_is_final_witness:
  "\<exists>s'. lc_state (onWakeReply (exEnv 1000) (Inr exIdle) exDeleting) = Some s' \<and>
     ls_phase s' = Deleting"
proof -
  have "lc_step exWaking (exEnv 10, EvBeginDelete) exDeleting"
    unfolding exDeleting_def by (rule st_beginDelete) simp
  then have r: "reach lc_init lc_step exDeleting" by (rule reach_next[OF reach_exWaking])
  have 1: "map_option ls_phase (lc_state exDeleting) = Some Deleting" "lc_wake exDeleting \<noteq> None"
    by code_simp+
  then obtain s where s: "lc_state exDeleting = Some s" "ls_phase s = Deleting" by auto
  have "lc_step exDeleting (exEnv 1000, EvWakeReply (Inr exIdle))
      (onWakeReply (exEnv 1000) (Inr exIdle) exDeleting)"
    by (rule st_wakeReply) (simp_all add: 1(2))
  from deleting_is_final[OF r this s] show ?thesis by simp
qed

section \<open>The mirrored row\<close>

definition mirror_set :: "lc_env \<Rightarrow> coordinator \<Rightarrow> bool" where
  "mirror_set env c = (\<forall>s. lc_state c = Some s \<longrightarrow>
     (if env_rowOk env then lc_mirror c = Some (publicLifecycle (ls_phase s))
      else lc_lastSynced c = None \<or> lc_mirror c = Some (publicLifecycle (ls_phase s))))"

lemma commit_mirror_set: "coord_ok c \<Longrightarrow> mirror_set env (commit env s c)"
  by (auto simp: mirror_set_def commit_def persistAndSchedule_def maybeSyncRuntimeCache_def
      coord_ok_def Let_def)

lemma persist_mirror_set: "coord_ok c \<Longrightarrow> mirror_set env (persistAndSchedule env c)"
  by (auto simp: mirror_set_def persistAndSchedule_def maybeSyncRuntimeCache_def
      coord_ok_def Let_def split: option.splits)

lemma osteps_mirror_set:
  assumes "osteps env K a b" and "coord_ok a"
  shows "(lc_state b = lc_state a \<and> lc_mirror b = lc_mirror a \<and> lc_lastSynced b = lc_lastSynced a) \<or>
    mirror_set env b"
proof -
  have "coord_ok b \<and> ((lc_state b = lc_state a \<and> lc_mirror b = lc_mirror a \<and>
      lc_lastSynced b = lc_lastSynced a) \<or> mirror_set env b)"
    using assms(1)
  proof (induction rule: rtranclp_induct)
    case (step y z)
    then have y: "coord_ok y" and z: "coord_ok z" using ostep_coord_ok by blast+
    from step.hyps(2) show ?case
    proof cases
      case (o_commit s k s')
      with commit_mirror_set[OF y] z show ?thesis by simp
    next
      case o_persist
      with persist_mirror_set[OF y] z show ?thesis by simp
    next
      case o_book
      then have "mirror_set env z = mirror_set env y" by (simp add: mirror_set_def)
      with step.IH z o_book show ?thesis by simp
    qed
  qed (use assms(2) in simp)
  then show ?thesis by blast
qed

text \<open>
  The row the rest of the program reads follows the coordinator: after every handler
  that changed the state, the row holds the public lifecycle of the new phase if the
  row could be written; if it could not, it either is already right or is marked unsynced,
  so that the next persist writes it whatever the phase.
\<close>

theorem mirror_follows_state:
  assumes "reach lc_init lc_step c" and "lc_step c (env, ev) c'" and "is_handler ev"
    and "lc_state c' \<noteq> lc_state c" and "lc_state c' = Some s'"
  shows "if env_rowOk env then lc_mirror c' = Some (publicLifecycle (ls_phase s'))
    else lc_lastSynced c' = None \<or> lc_mirror c' = Some (publicLifecycle (ls_phase s'))"
  using osteps_mirror_set[OF lc_step_refines[OF assms(2) lc.holds_in_reach[OF assms(1)] assms(3)]]
    assms(4,5) lc.holds_in_reach[OF assms(1)] by (simp add: mirror_set_def)

lemma mirror_follows_state_witness: "lc_mirror exStopping = Some RQuiescing"
proof -
  have "map_option ls_phase (lc_state exIdling) \<noteq> map_option ls_phase (lc_state exStopping)"
    by code_simp
  then have 1: "lc_state exStopping \<noteq> lc_state exIdling" by auto
  have "map_option ls_phase (lc_state exStopping) = Some Quiescing" by code_simp
  then obtain s where s: "lc_state exStopping = Some s" "ls_phase s = Quiescing" by auto
  from mirror_follows_state[OF reach_exIdling step_exStopping _ 1 s(1)] s(2) show ?thesis
    by (simp add: is_handler_def exEnv_def)
qed

section \<open>A stop nobody carries on\<close>

definition exEnvId :: "millis \<Rightarrow> string \<Rightarrow> string \<Rightarrow> lc_env" where
  "exEnvId now e i = \<lparr>env_now = now, env_epoch = e, env_id = i, env_rowOk = True\<rparr>"

definition stuckSteps :: "(lc_env \<times> lc_event) list" where
  "stuckSteps =
     [(exEnvId 5000 ''e2'' ''op2'', EvForceStop),
      (exEnvId 6000 ''e3'' ''op3'', EvWake),
      (exEnvId 7000 ''e4'' ''op4'', EvStopReply StopStopped),
      (exEnvId 8000 ''e5'' ''op5'', EvForceStop),
      (exEnvId 38000 ''e6'' ''op6'', EvAlarm),
      (exEnvId 39000 ''e7'' ''op7'', EvWakeReply (Inr exIdle))]"

definition exS1 :: coordinator where
  "exS1 = snd (forceStop (exEnvId 5000 ''e2'' ''op2'') exRunning)"
definition exS2 :: coordinator where
  "exS2 = snd (wake (exEnvId 6000 ''e3'' ''op3'') exS1)"
definition exS3 :: coordinator where
  "exS3 = onStopReply (exEnvId 7000 ''e4'' ''op4'') StopStopped exS2"
definition exS4 :: coordinator where
  "exS4 = snd (forceStop (exEnvId 8000 ''e5'' ''op5'') exS3)"
definition exS5 :: coordinator where
  "exS5 = alarm (exEnvId 38000 ''e6'' ''op6'') exS4"
definition exS6 :: coordinator where
  "exS6 = onWakeReply (exEnvId 39000 ''e7'' ''op7'') (Inr exIdle) exS5"

definition quiescent :: "coordinator \<Rightarrow> bool" where
  "quiescent c = (lc_alarm c = None \<and> lc_wake c = None \<and> lc_probe c = None \<and> lc_stop c = None \<and>
     lc_handler c = AlarmIdle)"

lemma exEnvId_ok [simp]: "env_ok (exEnvId t e i) = (e \<noteq> [])"
  by (simp add: env_ok_def exEnvId_def)

text \<open>
  A stop can be left with nobody to carry it on. A user stops a running container, a
  wake is asked for meanwhile, the stop succeeds and its wake is sent; a second stop joins
  the first, which is still waiting for that wake, and so sends nothing; the alarm of the
  second stop joins it too and is used up; when the wake answers at last, it is stale and
  nothing is persisted. The coordinator is then in \<open>Quiescing\<close> with no call in flight, no
  handler running and no alarm, so that no answer or alarm will ever move it.
\<close>

theorem stop_may_be_abandoned:
  "\<exists>c. run lc_step exRunning stuckSteps c \<and> map_option ls_phase (lc_state c) = Some Quiescing \<and>
     quiescent c"
proof (intro exI conjI)
  have stop: "\<exists>oper e v. lc_stop exS2 = Some (StopRpc oper e v)"
  proof -
    have "(case lc_stop exS2 of Some (StopRpc _ _ _) \<Rightarrow> True | _ \<Rightarrow> False)" by code_simp
    then show ?thesis by (auto split: option.splits stop_call.splits)
  qed
  have "lc_step exRunning (exEnvId 5000 ''e2'' ''op2'', EvForceStop) exS1"
    unfolding exS1_def by (rule st_forceStop) simp
  moreover have "lc_step exS1 (exEnvId 6000 ''e3'' ''op3'', EvWake) exS2"
    unfolding exS2_def by (rule st_wake) simp
  moreover have "lc_step exS2 (exEnvId 7000 ''e4'' ''op4'', EvStopReply StopStopped) exS3"
    using stop unfolding exS3_def by (auto intro: st_stopReply)
  moreover have "lc_step exS3 (exEnvId 8000 ''e5'' ''op5'', EvForceStop) exS4"
    unfolding exS4_def by (rule st_forceStop) simp
  moreover have "lc_step exS4 (exEnvId 38000 ''e6'' ''op6'', EvAlarm) exS5"
    unfolding exS5_def by (rule st_alarm[where t = 38000], simp, code_simp, code_simp, code_simp)
  moreover have "lc_step exS5 (exEnvId 39000 ''e7'' ''op7'', EvWakeReply (Inr exIdle)) exS6"
    unfolding exS6_def by (rule st_wakeReply, simp, code_simp)
  ultimately show "run lc_step exRunning stuckSteps exS6"
    unfolding stuckSteps_def by (blast intro: run_more run_done)
  show "map_option ls_phase (lc_state exS6) = Some Quiescing" and "quiescent exS6" by code_simp+
qed

end
