(* ===== verification/Session_Model.thy ===== *)
theory Session_Model
  imports Js_Text
begin

text \<open>
  The session vocabulary of \<open>src/sessions.ts\<close>, \<open>src/session-runtime-cache.ts\<close> and
  \<open>src/repos.ts\<close>: the records the registry keeps, the badge the list shows, the cached
  runtime status, and the validation of prompts and attachments.
\<close>

section \<open>Records\<close>

record repo_definition =
  rd_repoKey :: string
  rd_displayName :: string
  rd_cloneUrl :: string
  rd_defaultBranch :: string

datatype boot_step = Cloning

record session_record =
  sr_id :: string
  sr_instanceId :: string
  sr_repoKey :: "string option"
  sr_directory :: "string option"
  sr_provider :: session_provider
  sr_model :: string
  sr_variant :: "string option"
  sr_title :: string
  sr_opencodeSessionId :: "string option"
  sr_phase :: session_phase
  sr_pendingPromptCount :: nat
  sr_lastError :: "string option"
  sr_lastPromptAt :: "millis option"
  sr_cleanedAt :: "millis option"
  sr_unreadAt :: "millis option"
  sr_pinnedAt :: "millis option"
  sr_titleLocked :: bool
  sr_bootStep :: "boot_step option"
  sr_runtimeLifecycle :: "runtime_lifecycle option"
  sr_container :: "container_status option"
  sr_statusQuery :: bool
  sr_statusObservedAt :: "millis option"
  sr_createdAt :: millis
  sr_updatedAt :: millis

record instance_record =
  ir_id :: string
  ir_name :: string
  ir_repoKey :: "string option"
  ir_repo :: "repo_definition option"
  ir_provider :: session_provider
  ir_lifecycle :: instance_lifecycle
  ir_createdAt :: millis
  ir_updatedAt :: millis
  ir_lastError :: "string option"
  ir_deleteOperationId :: "string option"

text \<open>The fields of a runtime status that the session list folds or rebuilds.\<close>

record runtime_status =
  rs_container :: container_status
  rs_provider :: session_provider
  rs_deleting :: bool
  rs_platformRunning :: bool
  rs_lifecycle :: runtime_lifecycle
  rs_hasBackup :: bool
  rs_trackedBackupCount :: nat

section \<open>The badge\<close>

datatype session_status =
    SQueued | SStarting | SWorking | SIdle | SSleeping | SFailed | SLost | SError
  | SDeleting | SCleaned

definition isCleanedLifecycle :: "instance_lifecycle \<Rightarrow> bool" where
  "isCleanedLifecycle l = (l = Cleaning \<or> l = Cleaned \<or> l = CleanFailed)"

fun runtimeBadge :: "runtime_lifecycle \<Rightarrow> session_status" where
  "runtimeBadge RBusy = SWorking"
| "runtimeBadge RIdle = SIdle"
| "runtimeBadge RWaking = SStarting"
| "runtimeBadge _ = SSleeping"

definition deriveSessionStatus ::
  "session_phase \<Rightarrow> runtime_status \<Rightarrow> instance_lifecycle \<Rightarrow> session_status" where
  "deriveSessionStatus phase runtime lifecycle =
     (if rs_deleting runtime then SDeleting
      else if isCleanedLifecycle lifecycle then SCleaned
      else if phase = Lost then SLost
      else if phase = Failed then SFailed
      else if rs_lifecycle runtime = RError then SError
      else if phase = Queued then SQueued
      else if phase = Starting then SStarting
      else runtimeBadge (rs_lifecycle runtime))"

section \<open>The cached runtime status\<close>

definition runtimeLifecycleNeedsStatusQuery :: "runtime_lifecycle \<Rightarrow> bool" where
  "runtimeLifecycleNeedsStatusQuery l = (l \<noteq> RIdle \<and> l \<noteq> RSleeping)"

definition sessionNeedsLiveStatusQuery :: "session_record \<Rightarrow> instance_record \<Rightarrow> bool" where
  "sessionNeedsLiveStatusQuery s i =
     (if ir_lifecycle i \<noteq> Ready then False
      else if sr_phase s = Queued \<or> sr_phase s = Starting then True
      else if sr_statusObservedAt s = None \<or> sr_runtimeLifecycle s = None then True
      else sr_statusQuery s)"

fun containerHintForRuntimeLifecycle :: "runtime_lifecycle \<Rightarrow> container_status" where
  "containerHintForRuntimeLifecycle RSleeping = CStopped"
| "containerHintForRuntimeLifecycle RStopping = CStopped"
| "containerHintForRuntimeLifecycle RQuiescing = CStopping"
| "containerHintForRuntimeLifecycle RCheckpointing = CStopping"
| "containerHintForRuntimeLifecycle _ = CRunning"

definition runtimeStatusFromSessionCache ::
  "session_record \<Rightarrow> instance_record \<Rightarrow> runtime_status option" where
  "runtimeStatusFromSessionCache s i =
     (if sr_statusObservedAt s = None then None
      else case sr_runtimeLifecycle s of
        None \<Rightarrow> None
      | Some lifecycle \<Rightarrow>
          (let c = nullish (sr_container s) (containerHintForRuntimeLifecycle lifecycle)
           in Some \<lparr>rs_container = c, rs_provider = ir_provider i, rs_deleting = False,
                rs_platformRunning = (c = CRunning \<or> c = CHealthy \<or> c = CStopping),
                rs_lifecycle = lifecycle, rs_hasBackup = False, rs_trackedBackupCount = 0\<rparr>))"

text \<open>\<open>patchSessionRuntimeStatus\<close>: what the coordinator and the list write to the row.\<close>

record runtime_patch =
  rp_runtimeLifecycle :: runtime_lifecycle
  rp_container :: "container_status option"
  rp_statusQuery :: "bool option"

definition patchSessionRuntimeStatus ::
  "millis \<Rightarrow> runtime_patch \<Rightarrow> session_record \<Rightarrow> session_record" where
  "patchSessionRuntimeStatus now p s = s
     \<lparr>sr_runtimeLifecycle := Some (rp_runtimeLifecycle p),
      sr_container := Some (nullish (rp_container p)
        (containerHintForRuntimeLifecycle (rp_runtimeLifecycle p))),
      sr_statusQuery := nullish (rp_statusQuery p)
        (runtimeLifecycleNeedsStatusQuery (rp_runtimeLifecycle p)),
      sr_statusObservedAt := Some now\<rparr>"

definition markSessionStatusQuery :: "session_record \<Rightarrow> session_record" where
  "markSessionStatusQuery s = s\<lparr>sr_statusQuery := True\<rparr>"

definition deriveLastActivityAt :: "session_record \<Rightarrow> millis" where
  "deriveLastActivityAt s =
     fold (\<lambda>c latest. case c of None \<Rightarrow> latest | Some t \<Rightarrow> if t > latest then t else latest)
       [Some (sr_updatedAt s), sr_lastPromptAt s, Some (sr_createdAt s)] (sr_createdAt s)"

text \<open>The idle sweep's cutoff, three days back.\<close>

definition CLEANUP_IDLE_DAYS :: int where
  "CLEANUP_IDLE_DAYS = 3"

definition cleanupCutoff :: "millis \<Rightarrow> millis" where
  "cleanupCutoff now = now - CLEANUP_IDLE_DAYS * 24 * 60 * 60 * 1000"

section \<open>Prompts and titles\<close>

definition MAX_SESSION_PROMPT_LENGTH :: nat where
  "MAX_SESSION_PROMPT_LENGTH = 32000"

definition MAX_SESSION_TITLE_LENGTH :: nat where
  "MAX_SESSION_TITLE_LENGTH = 80"

text \<open>The ellipsis is no character below 256; it is an argument.\<close>

definition deriveSessionTitle :: "char \<Rightarrow> string \<Rightarrow> string" where
  "deriveSessionTitle ellipsis prompt =
     (case find (\<lambda>l. length l > 0) (map trim (split_on (CHR 0x0A) prompt)) of
        None \<Rightarrow> ''Untitled session''
      | Some l \<Rightarrow> if length l > MAX_SESSION_TITLE_LENGTH
                  then take (MAX_SESSION_TITLE_LENGTH - 1) l @ [ellipsis] else l)"

definition normalizeSessionPrompt :: "json \<Rightarrow> string option" where
  "normalizeSessionPrompt v =
     (case the_str v of
        None \<Rightarrow> None
      | Some s \<Rightarrow> (let prompt = trim s in
          if prompt = [] \<or> length prompt > MAX_SESSION_PROMPT_LENGTH then None else Some prompt))"

section \<open>Attachments\<close>

record attachment_ref =
  at_key :: string
  at_mime :: string
  at_filename :: "string option"
  at_size :: nat

definition MAX_SESSION_ATTACHMENTS :: nat where
  "MAX_SESSION_ATTACHMENTS = 4"

definition MAX_SESSION_ATTACHMENT_FILENAME_LENGTH :: nat where
  "MAX_SESSION_ATTACHMENT_FILENAME_LENGTH = 128"

definition SESSION_ATTACHMENT_MIME_TYPES :: "string list" where
  "SESSION_ATTACHMENT_MIME_TYPES = [''image/png'', ''image/jpeg'', ''image/webp'', ''image/gif'']"

definition isSessionAttachmentMime :: "json \<Rightarrow> bool" where
  "isSessionAttachmentMime v = (\<exists>m \<in> set SESSION_ATTACHMENT_MIME_TYPES. v = JStr m)"

definition is_control :: "char \<Rightarrow> bool" where
  "is_control c = (let n = (of_char c :: nat) in n < 32 \<or> n = 127)"

text \<open>The name after the last slash or backslash, without control characters.\<close>

definition basename :: "string \<Rightarrow> string" where
  "basename s = rev (takeWhile (\<lambda>c. c \<noteq> CHR ''/'' \<and> c \<noteq> CHR 0x5C) (rev s))"

definition normalizeAttachmentFilename :: "json \<Rightarrow> string option" where
  "normalizeAttachmentFilename v =
     (case the_str v of
        None \<Rightarrow> None
      | Some s \<Rightarrow>
          (let filename = take MAX_SESSION_ATTACHMENT_FILENAME_LENGTH
                 (trim (filter (\<lambda>c. \<not> is_control c) (basename s)))
           in if filename = [] then None else Some filename))"

definition UPLOADS_PREFIX :: string where
  "UPLOADS_PREFIX = ''uploads/''"

definition attachmentUploadKey :: "string \<Rightarrow> string" where
  "attachmentUploadKey uploadId = ''uploads/'' @ uploadId"

text \<open>Lower-case hexadecimal digits in groups of 8, 4, 4, 4 and 12.\<close>

definition is_uuid :: "string \<Rightarrow> bool" where
  "is_uuid s = (map length (split_on (CHR ''-'') s) = [8, 4, 4, 4, 12] \<and>
     (\<forall>w \<in> set (split_on (CHR ''-'') s). list_all is_hex w))"

definition isAttachmentUploadKey :: "json \<Rightarrow> bool" where
  "isAttachmentUploadKey v =
     (case the_str v of None \<Rightarrow> False
      | Some s \<Rightarrow> starts_with s ''uploads/'' \<and> is_uuid (drop (length ''uploads/'') s))"

text \<open>An entry is a key, or an object with a key (an array has none).\<close>

fun attachmentEntryKey :: "json \<Rightarrow> json" where
  "attachmentEntryKey (JObj kvs) = field kvs ''key''"
| "attachmentEntryKey (JArr xs) = JUndefined"
| "attachmentEntryKey v = v"

fun collectAttachmentKeys :: "json list \<Rightarrow> string list \<Rightarrow> string list option" where
  "collectAttachmentKeys [] keys = Some keys"
| "collectAttachmentKeys (entry # es) keys =
     (let key = attachmentEntryKey entry in
      if \<not> isAttachmentUploadKey key then None
      else case the_str key of
        None \<Rightarrow> None
      | Some k \<Rightarrow> if k \<in> set keys then None else collectAttachmentKeys es (keys @ [k]))"

definition normalizeAttachmentKeys :: "json \<Rightarrow> string list option" where
  "normalizeAttachmentKeys v =
     (case v of
        JUndefined \<Rightarrow> Some []
      | JNull \<Rightarrow> Some []
      | JArr es \<Rightarrow> if length es > MAX_SESSION_ATTACHMENTS then None else collectAttachmentKeys es []
      | _ \<Rightarrow> None)"

definition promptAttachmentKey :: "string \<Rightarrow> string \<Rightarrow> string \<Rightarrow> string" where
  "promptAttachmentKey sessionId promptId index =
     ''prompt-attachments/'' @ sessionId @ ''/'' @ promptId @ ''/'' @ index"

definition promptAttachmentPrefix :: "string \<Rightarrow> string" where
  "promptAttachmentPrefix sessionId = ''prompt-attachments/'' @ sessionId @ ''/''"

end
