(* ===== verification/Model_Catalog.thy ===== *)
theory Model_Catalog
  imports Js_Text
begin

text \<open>
  The model catalog of \<open>src/model-catalog.ts\<close>: the options a stored OpenCode configuration
  offers, the lookups over them, and the resolution of a model's variant. An object's
  entries are a list in the order \<open>Object.entries\<close> gives. The labels the composer shows for
  a variant and a model are left out; they are derived from the names kept here.
\<close>

section \<open>The configuration and the catalog\<close>

record model_config =
  mc_name :: "string option"
  mc_variants :: "string list"

record provider_config =
  pv_name :: "string option"
  pv_models :: "(string \<times> model_config) list"

record opencode_config =
  oc_model :: "string option"
  oc_provider :: "(string \<times> provider_config) list"

record model_option =
  mo_id :: string
  mo_providerID :: string
  mo_modelID :: string
  mo_providerName :: string
  mo_modelName :: string
  mo_variants :: "string list"

record model_catalog =
  cat_options :: "model_option list"
  cat_defaultModelRef :: string

record model_selection =
  sel_model :: string
  sel_variant :: "string option"

definition modelOption :: "string \<Rightarrow> string \<Rightarrow> string \<Rightarrow> model_config \<Rightarrow> model_option" where
  "modelOption providerID providerName modelID model =
     \<lparr>mo_id = providerID @ ''/'' @ modelID, mo_providerID = providerID, mo_modelID = modelID,
      mo_providerName = providerName, mo_modelName = nullish (mc_name model) modelID,
      mo_variants = mc_variants model\<rparr>"

definition catalogFromConfig :: "opencode_config \<Rightarrow> model_catalog" where
  "catalogFromConfig config =
     \<lparr>cat_options = concat (map (\<lambda>(providerID, provider).
        map (\<lambda>(modelID, model).
            modelOption providerID (nullish (pv_name provider) providerID) modelID model)
          (pv_models provider)) (oc_provider config)),
      cat_defaultModelRef = nullish (oc_model config) []\<rparr>"

section \<open>Lookups\<close>

definition findModel :: "model_catalog \<Rightarrow> string \<Rightarrow> model_option option" where
  "findModel cat ref = find (\<lambda>o'. mo_id o' = ref) (cat_options cat)"

definition isModelRef :: "model_catalog \<Rightarrow> json \<Rightarrow> bool" where
  "isModelRef cat v = (case the_str v of None \<Rightarrow> False | Some r \<Rightarrow> findModel cat r \<noteq> None)"

definition isValidVariant :: "model_catalog \<Rightarrow> string \<Rightarrow> json \<Rightarrow> bool" where
  "isValidVariant cat ref v =
     (case findModel cat ref of
        None \<Rightarrow> False
      | Some opt \<Rightarrow>
          (if v = JUndefined \<or> v = JNull \<or> v = JStr [] then length (mo_variants opt) = 0
           else case the_str v of None \<Rightarrow> False | Some s \<Rightarrow> s \<in> set (mo_variants opt)))"

definition parseModelRef :: "model_catalog \<Rightarrow> string \<Rightarrow> (string \<times> string) option" where
  "parseModelRef cat ref =
     map_option (\<lambda>o'. (mo_providerID o', mo_modelID o')) (findModel cat ref)"

definition defaultVariantForModel :: "model_catalog \<Rightarrow> string \<Rightarrow> string option" where
  "defaultVariantForModel cat ref =
     (case findModel cat ref of
        None \<Rightarrow> None
      | Some opt \<Rightarrow>
          (case mo_variants opt of
             [] \<Rightarrow> None
           | v # vs \<Rightarrow>
               (if ''medium'' \<in> set (v # vs) then Some ''medium''
                else if ''high'' \<in> set (v # vs) then Some ''high''
                else Some v)))"

definition jopt :: "string option \<Rightarrow> json" where
  "jopt s = (case s of None \<Rightarrow> JUndefined | Some x \<Rightarrow> JStr x)"

definition resolveVariant :: "model_catalog \<Rightarrow> string \<Rightarrow> string option \<Rightarrow> string option" where
  "resolveVariant cat ref preferred =
     (if preferred \<noteq> None \<and> isValidVariant cat ref (jopt preferred) then preferred
      else defaultVariantForModel cat ref)"

definition resolveDefaultModelSelection ::
  "model_catalog \<Rightarrow> model_selection option \<Rightarrow> model_selection" where
  "resolveDefaultModelSelection cat recent =
     (let recentModel = map_option sel_model recent;
          model = (if isModelRef cat (jopt recentModel) then the recentModel
                   else if isModelRef cat (JStr (cat_defaultModelRef cat))
                     then cat_defaultModelRef cat
                   else (case cat_options cat of [] \<Rightarrow> [] | o' # os \<Rightarrow> mo_id o'));
          variant = resolveVariant cat model
            (if recentModel = Some model then Option.bind recent sel_variant else None)
      in \<lparr>sel_model = model, sel_variant = (if truthy_str variant then variant else None)\<rparr>)"

section \<open>Lemmas\<close>

lemma findModelD: "findModel cat ref = Some opt \<Longrightarrow> opt \<in> set (cat_options cat) \<and> mo_id opt = ref"
  by (auto simp: findModel_def find_Some_iff)

lemma findModel_None: "findModel cat ref = None \<longleftrightarrow> ref \<notin> mo_id ` set (cat_options cat)"
  by (auto simp: findModel_def find_None_iff)

lemma defaultVariant_listed:
  "findModel cat ref = Some opt \<Longrightarrow> mo_variants opt \<noteq> [] \<Longrightarrow>
     \<exists>v \<in> set (mo_variants opt). defaultVariantForModel cat ref = Some v"
  by (cases "mo_variants opt") (auto simp: defaultVariantForModel_def)

text \<open>
  A prompt never carries a variant its model does not have: for a known model, whatever
  the client preferred, the resolved variant is valid for the model: one of its variants, or
  none where it has none.
\<close>

theorem resolveVariant_valid:
  assumes "findModel cat ref = Some opt" and "[] \<notin> set (mo_variants opt)"
  shows "isValidVariant cat ref (jopt (resolveVariant cat ref preferred)) \<and>
    (resolveVariant cat ref preferred = None \<longrightarrow> mo_variants opt = [])"
proof (cases "preferred \<noteq> None \<and> isValidVariant cat ref (jopt preferred)")
  case True
  then show ?thesis by (auto simp: resolveVariant_def)
next
  case False
  then have r: "resolveVariant cat ref preferred = defaultVariantForModel cat ref"
    by (auto simp: resolveVariant_def)
  show ?thesis
  proof (cases "mo_variants opt = []")
    case True
    with assms(1) show ?thesis
      by (simp add: r defaultVariantForModel_def isValidVariant_def jopt_def)
  next
    case False
    from defaultVariant_listed[OF assms(1) this] obtain v where
      "v \<in> set (mo_variants opt)" "defaultVariantForModel cat ref = Some v" by blast
    with assms show ?thesis by (auto simp: r isValidVariant_def jopt_def)
  qed
qed

definition exConfig :: opencode_config where
  "exConfig = \<lparr>oc_model = Some ''ag/m'', oc_provider = [(''ag'', \<lparr>pv_name = None,
     pv_models = [(''m'', \<lparr>mc_name = None, mc_variants = [''low'', ''high'']\<rparr>)]\<rparr>)]\<rparr>"

lemma resolveVariant_valid_witness:
  "isValidVariant (catalogFromConfig exConfig) ''ag/m''
     (jopt (resolveVariant (catalogFromConfig exConfig) ''ag/m'' (Some ''none'')))"
proof -
  have "map_option mo_variants (findModel (catalogFromConfig exConfig) ''ag/m'') =
      Some [''low'', ''high'']" by code_simp
  then obtain opt where "findModel (catalogFromConfig exConfig) ''ag/m'' = Some opt"
    "mo_variants opt = [''low'', ''high'']" by auto
  from resolveVariant_valid[OF this(1)] this(2) show ?thesis by simp
qed

text \<open>
  The reference of a configured model is read back as the provider and model it was made
  from, whatever slashes the model id contains, as long as provider ids contain none.
\<close>

theorem parseModelRef_roundtrip:
  assumes "(p, pc) \<in> set (oc_provider config)" and "(m, mc) \<in> set (pv_models pc)"
    and "\<forall>(q, qc) \<in> set (oc_provider config). CHR ''/'' \<notin> set q"
  shows "parseModelRef (catalogFromConfig config) (p @ ''/'' @ m) = Some (p, m)"
proof -
  let ?cat = "catalogFromConfig config"
  have "p @ ''/'' @ m \<in> mo_id ` set (cat_options ?cat)"
    using assms(1,2) by (force simp: catalogFromConfig_def modelOption_def)
  then obtain opt where f: "findModel ?cat (p @ ''/'' @ m) = Some opt"
    using findModel_None by (metis option.exhaust)
  then have "opt \<in> set (cat_options ?cat)" and i: "mo_id opt = p @ ''/'' @ m"
    using findModelD by blast+
  then obtain q qc n where q: "(q, qc) \<in> set (oc_provider config)"
      "mo_providerID opt = q" "mo_modelID opt = n" "mo_id opt = q @ ''/'' @ n"
    by (auto simp: catalogFromConfig_def modelOption_def)
  have "CHR ''/'' \<notin> set q" and "CHR ''/'' \<notin> set p" using q(1) assms(1,3) by auto
  with i q(4) have "q = p \<and> n = m"
    using split_append[of "CHR ''/''" q n] split_append[of "CHR ''/''" p m]
    by (metis append_Cons append_Nil join_split list.inject)
  with f q show ?thesis by (simp add: parseModelRef_def)
qed

lemma parseModelRef_roundtrip_witness:
  "parseModelRef (catalogFromConfig exConfig) ''ag/m'' = Some (''ag'', ''m'')"
  using parseModelRef_roundtrip[of "''ag''" _ exConfig "''m''"]
  by (simp add: exConfig_def)

end
