(* ===== verification/Session_Agent.thy ===== *)
theory Session_Agent
  imports Session_Model Model_Catalog
begin

text \<open>
  The \<open>SessionAgent\<close> Durable Object of \<open>src/session-agent.ts\<close>: the durable queue of
  prompts, the registration of the session, the dispatch that hands prompts to the container
  one at a time, the retry ladder and the terminal states.

  A handler runs without interruption between two awaited calls; whenever it awaits one (the
  registry in D1, the model catalog, the Sandbox, the coordinator) any other event may be
  delivered first. The dispatch in progress is therefore a program counter with what the
  handler still holds in its variables, as are a registration, a \<open>queuePrompt\<close> and a
  \<open>startSession\<close> that wait for the catalog, and the calls that have still to set the alarm.
  Writing the object's own storage lets nothing in. \<open>sg_log\<close> and \<open>sg_accepted\<close> are not
  in the program: they record every prompt that was queued and every prompt the container
  accepted, in order.
\<close>

section \<open>The stored state\<close>

definition SCHEMA_VERSION :: nat where
  "SCHEMA_VERSION = 2"

definition RETRY_BACKOFF_MS :: "millis list" where
  "RETRY_BACKOFF_MS = [5000, 20000, 60000]"

definition DISPATCH_WORK_LEASE_MS :: millis where
  "DISPATCH_WORK_LEASE_MS = 90000"

definition MAX_DELIVERED_PROMPT_IDS :: nat where
  "MAX_DELIVERED_PROMPT_IDS = 50"

definition PROMPT_SETTLE_POLL_ATTEMPTS :: nat where
  "PROMPT_SETTLE_POLL_ATTEMPTS = 40"

definition WORKSPACE_ROOT :: string where
  "WORKSPACE_ROOT = ''/workspace''"

record pending_prompt =
  pp_id :: string
  pp_text :: string
  pp_model :: string
  pp_variant :: "string option"
  pp_attachments :: "attachment_ref list"
  pp_queuedAt :: millis

text \<open>The name and the provider may be absent in a version 1 state only.\<close>

record agent_state =
  ag_schemaVersion :: nat
  ag_sessionId :: string
  ag_instanceId :: string
  ag_instanceName :: "string option"
  ag_provider :: "session_provider option"
  ag_repoKey :: "string option"
  ag_repo :: "repo_definition option"
  ag_registered :: bool
  ag_directory :: string
  ag_model :: string
  ag_variant :: "string option"
  ag_title :: string
  ag_opencodeSessionId :: "string option"
  ag_phase :: session_phase
  ag_pending :: "pending_prompt list"
  ag_deliveredPromptIds :: "string list"
  ag_attempt :: nat
  ag_lastError :: "string option"
  ag_lastPromptAt :: "millis option"
  ag_createdAt :: millis
  ag_updatedAt :: millis

record start_input =
  si_sessionId :: string
  si_instanceId :: string
  si_instanceName :: string
  si_provider :: session_provider
  si_repoKey :: "string option"
  si_repo :: "repo_definition option"
  si_directory :: string
  si_model :: string
  si_variant :: "string option"
  si_title :: string
  si_createdAt :: millis
  si_prompt :: string
  si_promptId :: "string option"
  si_attachments :: "attachment_ref list"

record queue_input =
  qi_prompt :: string
  qi_model :: "string option"
  qi_variant :: "string option"
  qi_promptId :: "string option"
  qi_attachments :: "attachment_ref list"

definition needsDispatch :: "agent_state \<Rightarrow> bool" where
  "needsDispatch s = (length (ag_pending s) > 0 \<and> ag_phase s \<noteq> Failed \<and> ag_phase s \<noteq> Lost)"

text \<open>\<open>/session not found/i\<close>, searched anywhere in the message.\<close>

definition isMissingOpencodeSession :: "string \<Rightarrow> bool" where
  "isMissingOpencodeSession message = contains (map lower_char message) ''session not found''"

definition migrateState :: "agent_state \<Rightarrow> agent_state option" where
  "migrateState s =
     (if ag_schemaVersion s = SCHEMA_VERSION then Some s
      else if ag_schemaVersion s \<noteq> 1 then None
      else Some (s\<lparr>ag_schemaVersion := SCHEMA_VERSION,
        ag_instanceName := Some (nullish (ag_instanceName s) (ag_instanceId s)),
        ag_provider := Some (nullish (ag_provider s) ''cloudflare''),
        ag_registered := True\<rparr>))"

text \<open>What the registry row of the session should be, and what a report changes in it.\<close>

definition newSessionFromState :: "agent_state \<Rightarrow> session_record" where
  "newSessionFromState s =
     \<lparr>sr_id = ag_sessionId s, sr_instanceId = ag_instanceId s,
      sr_repoKey = (if truthy_str (ag_repoKey s) then ag_repoKey s else None),
      sr_directory = Some (ag_directory s), sr_provider = nullish (ag_provider s) [],
      sr_model = ag_model s, sr_variant = (if truthy_str (ag_variant s) then ag_variant s else None),
      sr_title = ag_title s, sr_opencodeSessionId = None, sr_phase = ag_phase s,
      sr_pendingPromptCount = length (ag_pending s), sr_lastError = None, sr_lastPromptAt = None,
      sr_cleanedAt = None, sr_unreadAt = None, sr_pinnedAt = None, sr_titleLocked = False,
      sr_bootStep = None, sr_runtimeLifecycle = None, sr_container = None, sr_statusQuery = True,
      sr_statusObservedAt = None, sr_createdAt = ag_createdAt s, sr_updatedAt = ag_updatedAt s\<rparr>"

record session_patch =
  sp_phase :: session_phase
  sp_model :: string
  sp_variant :: "string option"
  sp_pendingPromptCount :: nat
  sp_lastError :: "string option"
  sp_opencodeSessionId :: "string option"
  sp_lastPromptAt :: "millis option"

definition reportToHub :: "agent_state \<Rightarrow> session_patch" where
  "reportToHub s =
     \<lparr>sp_phase = ag_phase s, sp_model = ag_model s, sp_variant = ag_variant s,
      sp_pendingPromptCount = length (ag_pending s), sp_lastError = ag_lastError s,
      sp_opencodeSessionId =
        (if truthy_str (ag_opencodeSessionId s) then ag_opencodeSessionId s else None),
      sp_lastPromptAt = ag_lastPromptAt s\<rparr>"

record agent_snapshot =
  sn_sessionId :: string
  sn_phase :: session_phase
  sn_pendingPromptCount :: nat
  sn_opencodeSessionId :: "string option"
  sn_lastError :: "string option"
  sn_lastPromptAt :: "millis option"
  sn_updatedAt :: millis

definition snapshot :: "agent_state \<Rightarrow> agent_snapshot" where
  "snapshot s =
     \<lparr>sn_sessionId = ag_sessionId s, sn_phase = ag_phase s,
      sn_pendingPromptCount = length (ag_pending s),
      sn_opencodeSessionId =
        (if truthy_str (ag_opencodeSessionId s) then ag_opencodeSessionId s else None),
      sn_lastError = (if truthy_str (ag_lastError s) then ag_lastError s else None),
      sn_lastPromptAt = ag_lastPromptAt s, sn_updatedAt = ag_updatedAt s\<rparr>"

section \<open>The object\<close>

record ag_env =
  ae_now :: millis
  ae_id :: string

text \<open>What the dispatch keeps in its variables once it has a lease.\<close>

record dispatch =
  dc_directory :: string
  dc_epoch :: string
  dc_lease :: string
  dc_session :: "string option"
  dc_catalog :: model_catalog
  dc_delivered :: bool

datatype adv_pc =
    AdvRegister
  | AdvStartingReport
  | AdvWake string
  | AdvRuntimeStatus string string string
  | AdvBeginWork string string
  | AdvCreate string string string
  | AdvCreateReport string string string
  | AdvCatalog string string string "string option"
  | AdvPrompt dispatch pending_prompt
  | AdvPromptReport dispatch pending_prompt
  | AdvDeleteAttachments dispatch
  | AdvSettle dispatch nat
  | AdvSettleLast dispatch nat
  | AdvEndWork dispatch
  | AdvWorkingReport
  | AdvFailReport bool "millis option"
  | AdvUnread "millis option"

datatype reg_pc = RegInsert agent_state | RegInit agent_state

record queue_call =
  qc_input :: queue_input
  qc_state :: agent_state

datatype arm_call = ArmQueue bool | ArmRetry bool

record agent =
  sg_state :: "agent_state option"
  sg_disk :: "agent_state option"
  sg_alarm :: "millis option"
  sg_adv :: "adv_pc option"
  sg_reg :: "reg_pc option"
  sg_starts :: "start_input list"
  sg_queues :: "queue_call list"
  sg_arms :: "arm_call list"
  sg_log :: "pending_prompt list"
  sg_accepted :: "pending_prompt list"

datatype agent_error =
    AgNotInitialized
  | AgIdentityMismatch
  | AgInvalidDirectory string
  | AgUnknownModel string
  | AgLost string
  | AgFailed string

text \<open>Assign the state and persist it.\<close>

definition agPut :: "agent_state \<Rightarrow> agent \<Rightarrow> agent" where
  "agPut s c = c\<lparr>sg_state := Some s, sg_disk := Some s\<rparr>"

section \<open>Starting and registering\<close>

datatype start_result = StartSnapshot agent_snapshot | StartAwaitsCatalog

definition startSession :: "start_input \<Rightarrow> agent \<Rightarrow> (agent_error + start_result) \<times> agent" where
  "startSession inp c =
     (case sg_state c of
        Some s \<Rightarrow>
          (if ag_sessionId s \<noteq> si_sessionId inp then (Inl AgIdentityMismatch, c)
           else (Inr (StartSnapshot (snapshot s)), c))
      | None \<Rightarrow>
          (if si_directory inp \<noteq> WORKSPACE_ROOT \<and>
              \<not> starts_with (si_directory inp) (WORKSPACE_ROOT @ ''/'')
           then (Inl (AgInvalidDirectory (si_directory inp)), c)
           else (Inr StartAwaitsCatalog, c\<lparr>sg_starts := sg_starts c @ [inp]\<rparr>)))"

definition startState :: "ag_env \<Rightarrow> start_input \<Rightarrow> string option \<Rightarrow> agent_state" where
  "startState env inp variant =
     (let v = (if truthy_str variant then variant else None) in
      \<lparr>ag_schemaVersion = SCHEMA_VERSION, ag_sessionId = si_sessionId inp,
       ag_instanceId = si_instanceId inp, ag_instanceName = Some (si_instanceName inp),
       ag_provider = Some (si_provider inp),
       ag_repoKey = (if truthy_str (si_repoKey inp) then si_repoKey inp else None),
       ag_repo = si_repo inp, ag_registered = False, ag_directory = si_directory inp,
       ag_model = si_model inp, ag_variant = v, ag_title = si_title inp,
       ag_opencodeSessionId = None, ag_phase = Queued,
       ag_pending = [\<lparr>pp_id = nullish (si_promptId inp) (ae_id env), pp_text = si_prompt inp,
         pp_model = si_model inp, pp_variant = v, pp_attachments = si_attachments inp,
         pp_queuedAt = ae_now env\<rparr>],
       ag_deliveredPromptIds = [], ag_attempt = 0, ag_lastError = None, ag_lastPromptAt = None,
       ag_createdAt = si_createdAt inp, ag_updatedAt = ae_now env\<rparr>)"

text \<open>The catalog has answered: \<^term>\<open>Inl\<close> is a failed read.\<close>

definition startContinue ::
  "ag_env \<Rightarrow> start_input \<Rightarrow> string + model_catalog \<Rightarrow> agent \<Rightarrow> (agent_error + agent_snapshot) \<times> agent"
  where
  "startContinue env inp reply c =
     (case reply of
        Inl m \<Rightarrow> (Inl (AgFailed m), c)
      | Inr cat \<Rightarrow>
          (if \<not> isModelRef cat (JStr (si_model inp)) then (Inl (AgUnknownModel (si_model inp)), c)
           else
             (let s = startState env inp (resolveVariant cat (si_model inp) (si_variant inp))
              in (Inr (snapshot s), (agPut s c)
                   \<lparr>sg_alarm := Some (ae_now env), sg_log := ag_pending s, sg_accepted := []\<rparr>))))"

text \<open>
  \<open>registerOnce\<close>: the first component is the result where it is known at once; a
  registration in progress is joined.
\<close>

definition registerOnce :: "agent \<Rightarrow> (agent_error + unit) option \<times> agent" where
  "registerOnce c =
     (if sg_reg c \<noteq> None then (None, c)
      else case sg_state c of
        None \<Rightarrow> (Some (Inl AgNotInitialized), c)
      | Some s \<Rightarrow> if ag_registered s then (Some (Inr ()), c)
                  else (None, c\<lparr>sg_reg := Some (RegInsert s)\<rparr>))"

definition ensureRegistered :: "agent \<Rightarrow> agent" where
  "ensureRegistered c = (case sg_state c of None \<Rightarrow> c | Some _ \<Rightarrow> snd (registerOnce c))"

section \<open>Queueing, retrying, losing, deleting\<close>

definition queuePrompt :: "queue_input \<Rightarrow> agent \<Rightarrow> (agent_error + unit) \<times> agent" where
  "queuePrompt inp c =
     (case sg_state c of
        None \<Rightarrow> (Inl AgNotInitialized, c)
      | Some s \<Rightarrow>
          (if ag_phase s = Lost
           then (Inl (AgLost (nullish (ag_lastError s)
             ''This session is lost: the container no longer holds its conversation.'')), c)
           else (Inr (), c\<lparr>sg_queues := sg_queues c @ [\<lparr>qc_input = inp, qc_state = s\<rparr>]\<rparr>)))"

definition queuedPrompt ::
  "ag_env \<Rightarrow> queue_input \<Rightarrow> string \<Rightarrow> string option \<Rightarrow> pending_prompt" where
  "queuedPrompt env inp model variant =
     \<lparr>pp_id = nullish (qi_promptId inp) (ae_id env), pp_text = qi_prompt inp, pp_model = model,
      pp_variant = variant, pp_attachments = qi_attachments inp, pp_queuedAt = ae_now env\<rparr>"

text \<open>
  The rest of \<open>queuePrompt\<close>, once the catalog has answered. It goes on from the state it
  read before the call, which is in \<open>qc_state\<close>. The result \<^term>\<open>Inr None\<close> stands for the
  snapshot the caller gets when the calls after the write are over.
\<close>

definition queueContinue ::
  "ag_env \<Rightarrow> queue_call \<Rightarrow> string + model_catalog \<Rightarrow> agent
     \<Rightarrow> (agent_error + agent_snapshot option) \<times> agent"
  where
  "queueContinue env call reply c =
     (let s = qc_state call; inp = qc_input call; model = nullish (qi_model inp) (ag_model s) in
      case reply of
        Inl m \<Rightarrow> (Inl (AgFailed m), c)
      | Inr cat \<Rightarrow>
          (if \<not> isModelRef cat (JStr model) then (Inl (AgUnknownModel model), c)
           else
             (let resolved = resolveVariant cat model
                    (if qi_variant inp \<noteq> None then qi_variant inp else ag_variant s);
                  variant = (if truthy_str resolved then resolved else None);
                  p = queuedPrompt env inp model variant
              in if pp_id p \<in> set (map pp_id (ag_pending s)) \<or>
                    pp_id p \<in> set (ag_deliveredPromptIds s)
                 then (case sg_state c of
                         None \<Rightarrow> (Inl AgNotInitialized, c)
                       | Some cur \<Rightarrow> (Inr (Some (snapshot cur)), c))
                 else
                   (let s' = s\<lparr>ag_model := model, ag_variant := variant,
                               ag_pending := ag_pending s @ [p], ag_phase := Queued,
                               ag_attempt := 0, ag_updatedAt := ae_now env, ag_lastError := None\<rparr>
                    in (Inr None, (agPut s' c)
                         \<lparr>sg_arms := sg_arms c @ [ArmQueue False], sg_log := sg_log c @ [p]\<rparr>)))))"

definition retrySession ::
  "ag_env \<Rightarrow> agent \<Rightarrow> (agent_error + agent_snapshot option) \<times> agent" where
  "retrySession env c =
     (case sg_state c of
        None \<Rightarrow> (Inl AgNotInitialized, c)
      | Some s \<Rightarrow>
          (if ag_phase s = Lost then (Inr (Some (snapshot s)), c)
           else
             (let s' = s\<lparr>ag_phase := (if length (ag_pending s) > 0 then Queued else Working),
                         ag_attempt := 0, ag_updatedAt := ae_now env, ag_lastError := None\<rparr>
              in (Inr None, (agPut s' c)\<lparr>sg_arms := sg_arms c @ [ArmRetry False]\<rparr>))))"

text \<open>
  The end of \<open>queuePrompt\<close> and of \<open>retrySession\<close>: two awaited calls of the registry (the
  flag tells which one has answered), then the alarm. Reading \<open>this.state\<close> after either
  throws where the session is gone by then, so nothing more happens; after the second one,
  \<open>queuePrompt\<close> sets the alarm first.
\<close>

definition armContinue :: "ag_env \<Rightarrow> arm_call \<Rightarrow> agent \<Rightarrow> agent" where
  "armContinue env a c =
     (case a of
        ArmQueue False \<Rightarrow>
          (case sg_state c of None \<Rightarrow> c | Some _ \<Rightarrow> c\<lparr>sg_arms := sg_arms c @ [ArmQueue True]\<rparr>)
      | ArmQueue True \<Rightarrow> c\<lparr>sg_alarm := Some (ae_now env)\<rparr>
      | ArmRetry False \<Rightarrow>
          (case sg_state c of None \<Rightarrow> c | Some _ \<Rightarrow> c\<lparr>sg_arms := sg_arms c @ [ArmRetry True]\<rparr>)
      | ArmRetry True \<Rightarrow>
          (case sg_state c of
             None \<Rightarrow> c
           | Some s \<Rightarrow> if needsDispatch s then c\<lparr>sg_alarm := Some (ae_now env)\<rparr> else c))"

definition markLost :: "ag_env \<Rightarrow> string \<Rightarrow> agent \<Rightarrow> agent" where
  "markLost env lastError c =
     (case sg_state c of
        None \<Rightarrow> c
      | Some s \<Rightarrow>
          (if ag_phase s = Lost then c
           else agPut (s\<lparr>ag_phase := Lost, ag_attempt := 0, ag_lastError := Some lastError,
                         ag_updatedAt := ae_now env\<rparr>) (c\<lparr>sg_alarm := None\<rparr>)))"

text \<open>Deleting all of the storage deletes the alarm with it.\<close>

definition agMarkDeleted :: "agent \<Rightarrow> agent" where
  "agMarkDeleted c = c\<lparr>sg_state := None, sg_disk := None, sg_alarm := None\<rparr>"

text \<open>The staged images that go with a deleted session's queue.\<close>

definition queuedAttachmentKeys :: "agent_state \<Rightarrow> string list" where
  "queuedAttachmentKeys s = concat (map (\<lambda>p. map at_key (pp_attachments p)) (ag_pending s))"

end
