(* ===== verification/Session_Dispatch.thy ===== *)
theory Session_Dispatch
  imports Session_Agent
begin

text \<open>
  The dispatch of \<open>src/session-agent.ts\<close>: the alarm, \<open>advance\<close>, \<open>dispatchPending\<close> and
  the retry ladder, one definition per stretch of code between two awaited calls, and the
  step relation over every handler of the object.
\<close>

section \<open>Failures and the retry ladder\<close>

datatype thrown = ThrownLost string | ThrownError string

fun thrownMessage :: "thrown \<Rightarrow> string" where
  "thrownMessage (ThrownLost m) = m"
| "thrownMessage (ThrownError m) = m"

fun isLost :: "thrown \<Rightarrow> bool" where
  "isLost (ThrownLost m) = True"
| "isLost (ThrownError m) = False"

definition agUpdate :: "ag_env \<Rightarrow> (agent_state \<Rightarrow> agent_state) \<Rightarrow> agent \<Rightarrow> agent" where
  "agUpdate env f c =
     (case sg_state c of None \<Rightarrow> c | Some s \<Rightarrow> agPut ((f s)\<lparr>ag_updatedAt := ae_now env\<rparr>) c)"

text \<open>The \<open>catch\<close> block of \<open>advance\<close>, up to its report.\<close>

definition advCatch :: "ag_env \<Rightarrow> thrown \<Rightarrow> agent \<Rightarrow> agent" where
  "advCatch env err c =
     (case sg_state c of
        None \<Rightarrow> c\<lparr>sg_adv := None\<rparr>
      | Some s \<Rightarrow>
          (let message = thrownMessage err; attempt = ag_attempt s + 1;
               exhausted = (attempt > length RETRY_BACKOFF_MS)
           in if isLost err \<or>
                 (exhausted \<and> isMissingOpencodeSession message)
              then (agUpdate env (\<lambda>s. s\<lparr>ag_phase := Lost, ag_attempt := 0,
                      ag_lastError := Some message\<rparr>) c)\<lparr>sg_adv := Some (AdvFailReport True None)\<rparr>
              else (agUpdate env (\<lambda>s. s\<lparr>ag_phase := (if exhausted then Failed else Queued),
                      ag_attempt := attempt, ag_lastError := Some message\<rparr>) c)
                     \<lparr>sg_adv := Some (AdvFailReport exhausted
                        (if exhausted then None else Some (RETRY_BACKOFF_MS ! (attempt - 1))))\<rparr>))"

text \<open>After the reports of a failure: the alarm of the next attempt.\<close>

definition advBackoff :: "ag_env \<Rightarrow> millis option \<Rightarrow> agent \<Rightarrow> agent" where
  "advBackoff env backoff c =
     (case backoff of
        None \<Rightarrow> c\<lparr>sg_adv := None\<rparr>
      | Some b \<Rightarrow> c\<lparr>sg_adv := None, sg_alarm := Some (ae_now env + b)\<rparr>)"

section \<open>The stretches of \<open>dispatchPending\<close>\<close>

text \<open>Where the session is gone, \<open>requireState\<close> throws and the \<open>catch\<close> block returns.\<close>

definition advStarting :: "ag_env \<Rightarrow> agent \<Rightarrow> agent" where
  "advStarting env c =
     (case sg_state c of
        None \<Rightarrow> c\<lparr>sg_adv := None\<rparr>
      | Some _ \<Rightarrow> (agUpdate env (\<lambda>s. s\<lparr>ag_phase := Starting\<rparr>) c)
                   \<lparr>sg_adv := Some AdvStartingReport\<rparr>)"

definition advRegistered :: "ag_env \<Rightarrow> agent_error + unit \<Rightarrow> agent \<Rightarrow> agent" where
  "advRegistered env r c =
     (case r of
        Inr _ \<Rightarrow> advStarting env c
      | Inl (AgFailed m) \<Rightarrow> advCatch env (ThrownError m) c
      | Inl _ \<Rightarrow> advCatch env (ThrownError ''Session agent is not initialized'') c)"

definition advance :: "ag_env \<Rightarrow> agent \<Rightarrow> agent" where
  "advance env c =
     (case sg_state c of
        None \<Rightarrow> c
      | Some s \<Rightarrow>
          (if \<not> needsDispatch s then c
           else (case registerOnce c of
                   (Some r, c1) \<Rightarrow> advRegistered env r c1
                 | (None, c1) \<Rightarrow> c1\<lparr>sg_adv := Some AdvRegister\<rparr>)))"

definition agAlarm :: "ag_env \<Rightarrow> agent \<Rightarrow> agent" where
  "agAlarm env c0 =
     (let c = c0\<lparr>sg_alarm := None\<rparr> in if sg_adv c \<noteq> None then c else advance env c)"

definition advWake :: "agent \<Rightarrow> agent" where
  "advWake c =
     (case sg_state c of
        None \<Rightarrow> c\<lparr>sg_adv := None\<rparr>
      | Some s \<Rightarrow> c\<lparr>sg_adv := Some (AdvWake (ag_directory s))\<rparr>)"

definition currentSession :: "agent \<Rightarrow> string option" where
  "currentSession c =
     (case sg_state c of None \<Rightarrow> None
      | Some s \<Rightarrow> if truthy_str (ag_opencodeSessionId s) then ag_opencodeSessionId s else None)"

definition advSurvived :: "string \<Rightarrow> string \<Rightarrow> agent \<Rightarrow> agent" where
  "advSurvived dir epoch c =
     (case currentSession c of
        None \<Rightarrow> c\<lparr>sg_adv := Some (AdvBeginWork dir epoch)\<rparr>
      | Some o' \<Rightarrow> c\<lparr>sg_adv := Some (AdvRuntimeStatus dir epoch o')\<rparr>)"

definition lostMessage :: "string \<Rightarrow> string \<Rightarrow> string" where
  "lostMessage sid at =
     ''The container restarted without a workspace checkpoint, so OpenCode session '' @ sid @
     '' no longer exists (lost at '' @ at @ '').''"

text \<open>The runtime status names the session its workspace lost, if any, and when.\<close>

definition advStatus ::
  "ag_env \<Rightarrow> string \<Rightarrow> string \<Rightarrow> string \<Rightarrow> (string \<times> string) option \<Rightarrow> agent \<Rightarrow> agent" where
  "advStatus env dir epoch sid lost c =
     (if map_option fst lost \<noteq> Some sid then c\<lparr>sg_adv := Some (AdvBeginWork dir epoch)\<rparr>
      else advCatch env (ThrownLost (lostMessage sid (snd (the lost)))) c)"

text \<open>\<open>requireState().opencodeSessionId!\<close>, then the catalog.\<close>

definition advNeedCatalog :: "string \<Rightarrow> string \<Rightarrow> string \<Rightarrow> agent \<Rightarrow> agent" where
  "advNeedCatalog dir epoch lease c =
     (case sg_state c of
        None \<Rightarrow> c\<lparr>sg_adv := None\<rparr>
      | Some s \<Rightarrow> c\<lparr>sg_adv := Some (AdvCatalog dir epoch lease (ag_opencodeSessionId s))\<rparr>)"

datatype lease_reply = LeaseAdmitted string | LeaseRefused string

definition advLease :: "ag_env \<Rightarrow> string \<Rightarrow> string \<Rightarrow> lease_reply \<Rightarrow> agent \<Rightarrow> agent" where
  "advLease env dir epoch r c =
     (case r of
        LeaseRefused why \<Rightarrow>
          advCatch env (ThrownError (''Runtime did not admit session work: '' @ why)) c
      | LeaseAdmitted lease \<Rightarrow>
          (if currentSession c = None then c\<lparr>sg_adv := Some (AdvCreate dir epoch lease)\<rparr>
           else advNeedCatalog dir epoch lease c))"

definition advCreated :: "ag_env \<Rightarrow> string \<Rightarrow> string \<Rightarrow> string \<Rightarrow> string \<Rightarrow> agent \<Rightarrow> agent" where
  "advCreated env dir epoch lease sid c =
     (case sg_state c of
        None \<Rightarrow> c\<lparr>sg_adv := None\<rparr>
      | Some _ \<Rightarrow> (agUpdate env (\<lambda>s. s\<lparr>ag_opencodeSessionId := Some sid\<rparr>) c)
                   \<lparr>sg_adv := Some (AdvCreateReport dir epoch lease)\<rparr>)"

text \<open>The end of the loop: the wait for the last prompt, or the release of the lease.\<close>

definition advFinish :: "dispatch \<Rightarrow> agent \<Rightarrow> agent" where
  "advFinish d c =
     (if \<not> dc_delivered d then c\<lparr>sg_adv := Some (AdvEndWork d)\<rparr>
      else c\<lparr>sg_adv := Some (AdvSettleLast d 0)\<rparr>)"

definition advLoop :: "ag_env \<Rightarrow> dispatch \<Rightarrow> agent \<Rightarrow> agent" where
  "advLoop env d c =
     (case sg_state c of
        None \<Rightarrow> advFinish d c
      | Some s \<Rightarrow>
          (case ag_pending s of
             [] \<Rightarrow> advFinish d c
           | p # ps \<Rightarrow>
               (if parseModelRef (dc_catalog d) (pp_model p) = None
                then advCatch env (ThrownError (''Unknown model: '' @ pp_model p)) c
                else c\<lparr>sg_adv := Some (AdvPrompt d p)\<rparr>)))"

text \<open>\<open>slice(-n)\<close>.\<close>

definition keep_last :: "nat \<Rightarrow> 'a list \<Rightarrow> 'a list" where
  "keep_last n xs = drop (length xs - n) xs"

text \<open>The container has accepted the prompt: it leaves the queue.\<close>

definition dequeued :: "ag_env \<Rightarrow> pending_prompt \<Rightarrow> agent_state \<Rightarrow> agent_state" where
  "dequeued env p s = s
     \<lparr>ag_model := pp_model p, ag_variant := pp_variant p,
      ag_pending := filter (\<lambda>q. pp_id q \<noteq> pp_id p) (ag_pending s),
      ag_deliveredPromptIds :=
        keep_last MAX_DELIVERED_PROMPT_IDS (ag_deliveredPromptIds s @ [pp_id p]),
      ag_lastPromptAt := Some (ae_now env)\<rparr>"

definition advAccepted :: "ag_env \<Rightarrow> dispatch \<Rightarrow> pending_prompt \<Rightarrow> agent \<Rightarrow> agent" where
  "advAccepted env d p c0 =
     (let c = c0\<lparr>sg_accepted := sg_accepted c0 @ [p]\<rparr> in
      case sg_state c of
        None \<Rightarrow> c\<lparr>sg_adv := None\<rparr>
      | Some _ \<Rightarrow> (agUpdate env (dequeued env p) c)\<lparr>sg_adv := Some (AdvPromptReport d p)\<rparr>)"

definition advDelivered :: "ag_env \<Rightarrow> dispatch \<Rightarrow> agent \<Rightarrow> agent" where
  "advDelivered env d c =
     (let d' = d\<lparr>dc_delivered := True\<rparr> in
      case sg_state c of
        None \<Rightarrow> advLoop env d' c
      | Some s \<Rightarrow> if length (ag_pending s) > 0 then c\<lparr>sg_adv := Some (AdvSettle d' 0)\<rparr>
                  else advLoop env d' c)"

definition advWorking :: "ag_env \<Rightarrow> agent \<Rightarrow> agent" where
  "advWorking env c =
     (case sg_state c of
        None \<Rightarrow> c\<lparr>sg_adv := None\<rparr>
      | Some _ \<Rightarrow> (agUpdate env (\<lambda>s. s\<lparr>ag_phase := Working, ag_attempt := 0,
                     ag_lastError := None\<rparr>) c)\<lparr>sg_adv := Some AdvWorkingReport\<rparr>)"

text \<open>\<open>awaitPromptSettled\<close>: \<open>next\<close> runs with whether activity was confirmed.\<close>

definition advSettled ::
  "(dispatch \<Rightarrow> nat \<Rightarrow> adv_pc) \<Rightarrow> (bool \<Rightarrow> agent \<Rightarrow> agent) \<Rightarrow> dispatch \<Rightarrow> nat \<Rightarrow> string + bool
     \<Rightarrow> agent \<Rightarrow> agent" where
  "advSettled pc next d n r c =
     (case r of
        Inl m \<Rightarrow> next False c
      | Inr True \<Rightarrow> next True c
      | Inr False \<Rightarrow>
          (if n + 1 < PROMPT_SETTLE_POLL_ATTEMPTS then c\<lparr>sg_adv := Some (pc d (n + 1))\<rparr>
           else next False c))"

section \<open>One answer to the dispatch\<close>

datatype adv_reply =
    ReDone
  | ReWake "string + string"
  | ReStatus "string + (string \<times> string) option"
  | ReLease "string + lease_reply"
  | ReCreate "string + string"
  | ReCatalog "string + model_catalog"
  | RePrompt "string + unit"
  | ReActive "string + bool"
  | ReEndWork "string + unit"

definition onFail ::
  "ag_env \<Rightarrow> string + 'a \<Rightarrow> ('a \<Rightarrow> agent \<Rightarrow> agent) \<Rightarrow> agent \<Rightarrow> agent" where
  "onFail env r k c =
     (case r of Inl m \<Rightarrow> advCatch env (ThrownError m) c | Inr x \<Rightarrow> k x c)"

definition advReply :: "ag_env \<Rightarrow> adv_pc \<Rightarrow> adv_reply \<Rightarrow> agent \<Rightarrow> agent option" where
  "advReply env pc reply c =
     (case pc of
        AdvRegister \<Rightarrow> None
      | AdvStartingReport \<Rightarrow> (case reply of ReDone \<Rightarrow> Some (advWake c) | _ \<Rightarrow> None)
      | AdvWake dir \<Rightarrow>
          (case reply of ReWake r \<Rightarrow> Some (onFail env r (advSurvived dir) c) | _ \<Rightarrow> None)
      | AdvRuntimeStatus dir e sid \<Rightarrow>
          (case reply of ReStatus r \<Rightarrow> Some (onFail env r (advStatus env dir e sid) c) | _ \<Rightarrow> None)
      | AdvBeginWork dir e \<Rightarrow>
          (case reply of ReLease r \<Rightarrow> Some (onFail env r (advLease env dir e) c) | _ \<Rightarrow> None)
      | AdvCreate dir e l \<Rightarrow>
          (case reply of ReCreate r \<Rightarrow> Some (onFail env r (advCreated env dir e l) c) | _ \<Rightarrow> None)
      | AdvCreateReport dir e l \<Rightarrow>
          (case reply of ReDone \<Rightarrow> Some (advNeedCatalog dir e l c) | _ \<Rightarrow> None)
      | AdvCatalog dir e l sid \<Rightarrow>
          (case reply of ReCatalog r \<Rightarrow>
             Some (onFail env r (\<lambda>cat. advLoop env \<lparr>dc_directory = dir, dc_epoch = e, dc_lease = l,
               dc_session = sid, dc_catalog = cat, dc_delivered = False\<rparr>) c) | _ \<Rightarrow> None)
      | AdvPrompt d p \<Rightarrow>
          (case reply of RePrompt r \<Rightarrow> Some (onFail env r (\<lambda>_. advAccepted env d p) c) | _ \<Rightarrow> None)
      | AdvPromptReport d p \<Rightarrow>
          (case reply of ReDone \<Rightarrow>
             Some (if pp_attachments p \<noteq> [] then c\<lparr>sg_adv := Some (AdvDeleteAttachments d)\<rparr>
                   else advDelivered env d c) | _ \<Rightarrow> None)
      | AdvDeleteAttachments d \<Rightarrow> (case reply of ReDone \<Rightarrow> Some (advDelivered env d c) | _ \<Rightarrow> None)
      | AdvSettle d n \<Rightarrow>
          (case reply of ReActive r \<Rightarrow>
             Some (advSettled AdvSettle (\<lambda>_. advLoop env d) d n r c) | _ \<Rightarrow> None)
      | AdvSettleLast d n \<Rightarrow>
          (case reply of ReActive r \<Rightarrow>
             Some (advSettled AdvSettleLast (\<lambda>ok c. if ok then c\<lparr>sg_adv := Some (AdvEndWork d)\<rparr>
               else advWorking env c) d n r c) | _ \<Rightarrow> None)
      | AdvEndWork d \<Rightarrow>
          (case reply of ReEndWork r \<Rightarrow> Some (onFail env r (\<lambda>_. advWorking env) c) | _ \<Rightarrow> None)
      | AdvWorkingReport \<Rightarrow> (case reply of ReDone \<Rightarrow> Some (c\<lparr>sg_adv := None\<rparr>) | _ \<Rightarrow> None)
      | AdvFailReport unread b \<Rightarrow>
          (case reply of ReDone \<Rightarrow>
             Some (if unread then c\<lparr>sg_adv := Some (AdvUnread b)\<rparr> else advBackoff env b c)
           | _ \<Rightarrow> None)
      | AdvUnread b \<Rightarrow> (case reply of ReDone \<Rightarrow> Some (advBackoff env b c) | _ \<Rightarrow> None))"

section \<open>Answers to a registration\<close>

text \<open>Whoever waits for it goes on: only the dispatch keeps state of its own meanwhile.\<close>

definition regSettle :: "ag_env \<Rightarrow> agent_error + unit \<Rightarrow> agent \<Rightarrow> agent" where
  "regSettle env r c =
     (if sg_adv c = Some AdvRegister then advRegistered env r (c\<lparr>sg_reg := None\<rparr>)
      else c\<lparr>sg_reg := None\<rparr>)"

definition registeredCopy :: "ag_env \<Rightarrow> agent_state \<Rightarrow> agent_state" where
  "registeredCopy env s = s\<lparr>ag_registered := True, ag_updatedAt := ae_now env\<rparr>"

definition regReply :: "ag_env \<Rightarrow> reg_pc \<Rightarrow> string + unit \<Rightarrow> agent \<Rightarrow> agent" where
  "regReply env pc r c =
     (case r of
        Inl m \<Rightarrow> regSettle env (Inl (AgFailed m)) c
      | Inr _ \<Rightarrow>
          (case pc of
             RegInsert s \<Rightarrow> c\<lparr>sg_reg := Some (RegInit s)\<rparr>
           | RegInit s \<Rightarrow> regSettle env (Inr ()) (agPut (registeredCopy env s) c)))"

section \<open>The constructor\<close>

definition newAgent :: "ag_env \<Rightarrow> agent \<Rightarrow> agent option" where
  "newAgent env c =
     (let c' = c\<lparr>sg_adv := None, sg_reg := None, sg_starts := [], sg_queues := [], sg_arms := []\<rparr>
      in case sg_disk c of
           None \<Rightarrow> Some (c'\<lparr>sg_state := None\<rparr>)
         | Some stored \<Rightarrow>
             (case migrateState stored of
                None \<Rightarrow> None
              | Some s \<Rightarrow> Some (let c1 = agPut s c' in
                  if needsDispatch s \<and> sg_alarm c = None
                  then c1\<lparr>sg_alarm := Some (ae_now env)\<rparr> else c1)))"

section \<open>The step relation\<close>

datatype agent_event =
    AgStart start_input
  | AgStartCatalog start_input "string + model_catalog"
  | AgEnsureRegistered
  | AgRegReply "string + unit"
  | AgQueue queue_input
  | AgQueueCatalog queue_call "string + model_catalog"
  | AgArm arm_call
  | AgRetry
  | AgMarkLost string
  | AgMarkDeleted
  | AgAlarmFires
  | AgAdvReply adv_reply
  | AgReload

inductive ag_step :: "agent \<Rightarrow> ag_env \<times> agent_event \<Rightarrow> agent \<Rightarrow> bool" where
  gs_start: "ag_step c (env, AgStart inp) (snd (startSession inp c))"
| gs_startCatalog: "inp \<in> set (sg_starts c) \<Longrightarrow>
    ag_step c (env, AgStartCatalog inp r)
      (snd (startContinue env inp r (c\<lparr>sg_starts := remove1 inp (sg_starts c)\<rparr>)))"
| gs_ensure: "ag_step c (env, AgEnsureRegistered) (ensureRegistered c)"
| gs_regReply: "sg_reg c = Some pc \<Longrightarrow> ag_step c (env, AgRegReply r) (regReply env pc r c)"
| gs_queue: "ag_step c (env, AgQueue inp) (snd (queuePrompt inp c))"
| gs_queueCatalog: "q \<in> set (sg_queues c) \<Longrightarrow>
    ag_step c (env, AgQueueCatalog q r)
      (snd (queueContinue env q r (c\<lparr>sg_queues := remove1 q (sg_queues c)\<rparr>)))"
| gs_arm: "a \<in> set (sg_arms c) \<Longrightarrow>
    ag_step c (env, AgArm a) (armContinue env a (c\<lparr>sg_arms := remove1 a (sg_arms c)\<rparr>))"
| gs_retry: "ag_step c (env, AgRetry) (snd (retrySession env c))"
| gs_markLost: "ag_step c (env, AgMarkLost m) (markLost env m c)"
| gs_markDeleted: "ag_step c (env, AgMarkDeleted) (agMarkDeleted c)"
| gs_alarm: "sg_alarm c = Some t \<Longrightarrow> t \<le> ae_now env \<Longrightarrow> sg_adv c = None \<Longrightarrow>
    ag_step c (env, AgAlarmFires) (agAlarm env c)"
| gs_advReply: "sg_adv c = Some pc \<Longrightarrow> advReply env pc r c = Some c' \<Longrightarrow>
    ag_step c (env, AgAdvReply r) c'"
| gs_reload: "newAgent env c = Some c' \<Longrightarrow> ag_step c (env, AgReload) c'"

definition ag_init :: "agent \<Rightarrow> bool" where
  "ag_init c = (c = \<lparr>sg_state = None, sg_disk = None, sg_alarm = None, sg_adv = None,
     sg_reg = None, sg_starts = [], sg_queues = [], sg_arms = [], sg_log = [], sg_accepted = []\<rparr>)"

end
