(* ===== verification/Session_Agent_Invariant.thy ===== *)
theory Session_Agent_Invariant
  imports Session_Dispatch
begin

text \<open>
  Invariants of the session agent. \<open>calm\<close> says that no handler holds an outdated copy of
  the state while it waits: nothing is queued, delivered or reset under a \<open>queuePrompt\<close>
  that waits for the catalog, nothing at all changes under a registration, and the session
  is not declared lost from outside in the middle of a dispatch. On calm executions every
  queued prompt is delivered at most once and in order, none disappears, and none waits
  without an alarm or a handler; Session_Agent_Properties shows what happens otherwise.
\<close>

section \<open>Calm executions\<close>

definition agrees :: "agent_state \<Rightarrow> agent_state \<Rightarrow> bool" where
  "agrees s cur = (ag_pending s = ag_pending cur \<and>
     ag_deliveredPromptIds s = ag_deliveredPromptIds cur \<and> ag_phase cur \<noteq> Lost)"

fun reg_copy :: "reg_pc \<Rightarrow> agent_state" where
  "reg_copy (RegInsert s) = s"
| "reg_copy (RegInit s) = s"

fun reporting :: "adv_pc \<Rightarrow> bool" where
  "reporting (AdvFailReport u b) = True"
| "reporting (AdvUnread b) = True"
| "reporting _ = False"

definition calm :: "agent \<Rightarrow> bool" where
  "calm c =
     ((\<forall>q \<in> set (sg_queues c). \<exists>s. sg_state c = Some s \<and> agrees (qc_state q) s) \<and>
      (\<forall>r. sg_reg c = Some r \<longrightarrow> sg_state c = Some (reg_copy r)) \<and>
      (sg_starts c \<noteq> [] \<longrightarrow> sg_state c = None \<and> sg_adv c = None) \<and>
      (\<forall>s pc. sg_state c = Some s \<longrightarrow> ag_phase s = Lost \<longrightarrow> sg_adv c = Some pc \<longrightarrow> reporting pc))"

definition calm_step :: "agent \<Rightarrow> ag_env \<times> agent_event \<Rightarrow> agent \<Rightarrow> bool" where
  "calm_step c l c' = (ag_step c l c' \<and> calm c')"

section \<open>Delivered once and in order\<close>

lemma keep_last_snoc: "keep_last n (keep_last n xs @ [x]) = keep_last n (xs @ [x])"
  by (cases "length xs \<le> n") (simp_all add: keep_last_def Suc_diff_le)

lemma set_keep_last: "set (keep_last n xs) \<subseteq> set xs"
  by (simp add: keep_last_def set_drop_subset)

lemma distinct_keep_last: "distinct xs \<Longrightarrow> distinct (keep_last n xs)"
  by (simp add: keep_last_def)

lemma length_keep_last: "length (keep_last n xs) \<le> n"
  by (simp add: keep_last_def)

definition queue_ok :: "pending_prompt list \<Rightarrow> pending_prompt list \<Rightarrow> agent_state \<Rightarrow> bool" where
  "queue_ok lg acc s =
     (lg = acc @ ag_pending s \<and>
      ag_deliveredPromptIds s = keep_last MAX_DELIVERED_PROMPT_IDS (map pp_id acc) \<and>
      distinct (ag_deliveredPromptIds s @ map pp_id (ag_pending s)))"

definition once_ok :: "agent \<Rightarrow> bool" where
  "once_ok c = (\<forall>s. sg_state c = Some s \<longrightarrow>
     queue_ok (sg_log c) (sg_accepted c) s \<and>
     (\<forall>d p. sg_adv c = Some (AdvPrompt d p) \<longrightarrow> (\<exists>ps. ag_pending s = p # ps)))"

text \<open>What most handlers do to the queue: nothing.\<close>

definition same_queue :: "agent \<Rightarrow> agent \<Rightarrow> bool" where
  "same_queue c c' =
     (sg_log c' = sg_log c \<and> sg_accepted c' = sg_accepted c \<and>
      (\<forall>s'. sg_state c' = Some s' \<longrightarrow> (\<exists>s. sg_state c = Some s \<and> ag_pending s' = ag_pending s \<and>
         ag_deliveredPromptIds s' = ag_deliveredPromptIds s)) \<and>
      (\<forall>d p. sg_adv c' = Some (AdvPrompt d p) \<longrightarrow> sg_adv c = Some (AdvPrompt d p)))"

lemma once_same_queue: "once_ok c \<Longrightarrow> same_queue c c' \<Longrightarrow> once_ok c'"
  unfolding once_ok_def same_queue_def queue_ok_def by (metis (no_types))

lemma same_queue_refl [simp]: "same_queue c c"
  by (simp add: same_queue_def)

lemma same_queue_trans: "same_queue a b \<Longrightarrow> same_queue b c \<Longrightarrow> same_queue a c"
  unfolding same_queue_def by (metis (no_types))

lemma same_queue_frame [simp]:
  "same_queue c (c\<lparr>sg_alarm := a\<rparr>)" "same_queue c (c\<lparr>sg_reg := r\<rparr>)"
  "same_queue c (c\<lparr>sg_starts := ss\<rparr>)" "same_queue c (c\<lparr>sg_queues := qs\<rparr>)"
  "same_queue c (c\<lparr>sg_arms := as\<rparr>)" "same_queue c (c\<lparr>sg_adv := None\<rparr>)"
  by (simp_all add: same_queue_def)

lemma same_queue_adv:
  "(\<And>d p. pc \<noteq> AdvPrompt d p) \<Longrightarrow> same_queue c (c\<lparr>sg_adv := Some pc\<rparr>)"
  by (simp add: same_queue_def)

lemma same_queue_catch: "same_queue c (advCatch env e c)"
  by (auto simp: same_queue_def advCatch_def agUpdate_def agPut_def Let_def split: option.split)

lemma same_queue_stretches:
  "same_queue c (advBackoff env b c)" "same_queue c (advStarting env c)"
  "same_queue c (advWake c)" "same_queue c (advSurvived dir e c)"
  "same_queue c (advNeedCatalog dir e l c)" "same_queue c (advCreated env dir e l sid c)"
  "same_queue c (advFinish d c)" "same_queue c (advWorking env c)"
  by (auto simp: same_queue_def advBackoff_def advStarting_def advWake_def advSurvived_def
      advNeedCatalog_def advCreated_def advFinish_def advWorking_def agUpdate_def agPut_def
      split: option.split)

lemma same_queue_status: "same_queue c (advStatus env dir e sid l c)"
  by (simp add: advStatus_def same_queue_catch same_queue_adv)

lemma same_queue_lease: "same_queue c (advLease env dir e r c)"
  by (simp add: advLease_def same_queue_catch same_queue_adv same_queue_stretches
      split: lease_reply.split)

lemma same_queue_onFail: "(\<And>x. same_queue c (k x c)) \<Longrightarrow> same_queue c (onFail env r k c)"
  by (simp add: onFail_def same_queue_catch split: sum.split)

lemma same_queue_registered: "same_queue c (advRegistered env r c)"
  by (simp add: advRegistered_def same_queue_catch same_queue_stretches
      split: sum.split agent_error.split)

lemma same_queue_registerOnce: "same_queue c (snd (registerOnce c))"
  by (simp add: registerOnce_def split: option.split)

lemma same_queue_advance: "same_queue c (advance env c)"
proof (cases "sg_state c")
  case (Some s)
  obtain r d where r: "registerOnce c = (r, d)" by fastforce
  with same_queue_registerOnce[of c] have "same_queue c d" by simp
  then show ?thesis
    using same_queue_trans[OF _ same_queue_registered] same_queue_trans[OF _ same_queue_adv]
    by (simp add: advance_def Some r split: option.split)
qed (simp add: advance_def)

lemma same_queue_alarm: "same_queue c (agAlarm env c)"
  using same_queue_trans[OF same_queue_frame(1) same_queue_advance]
  by (simp add: agAlarm_def Let_def)

text \<open>The handlers that do change the queue.\<close>

lemma once_loop: "once_ok c \<Longrightarrow> once_ok (advLoop env d c)"
proof -
  assume ok: "once_ok c"
  show ?thesis
  proof (cases "sg_state c")
    case None
    then show ?thesis using once_same_queue[OF ok same_queue_stretches(7)] by (simp add: advLoop_def)
  next
    case (Some s)
    show ?thesis
    proof (cases "ag_pending s")
      case Nil
      then show ?thesis using once_same_queue[OF ok same_queue_stretches(7)]
        by (simp add: advLoop_def Some)
    next
      case (Cons p ps)
      have "once_ok (c\<lparr>sg_adv := Some (AdvPrompt d p)\<rparr>)"
        using ok Some Cons by (simp add: once_ok_def)
      then show ?thesis using once_same_queue[OF ok same_queue_catch]
        by (simp add: advLoop_def Some Cons)
    qed
  qed
qed

lemma queue_ok_updatedAt [simp]: "queue_ok lg acc (s\<lparr>ag_updatedAt := u\<rparr>) = queue_ok lg acc s"
  by (simp add: queue_ok_def)

lemma queue_ok_accept:
  assumes "queue_ok lg acc s" and "ag_pending s = p # ps"
  shows "queue_ok lg (acc @ [p]) (dequeued env p s)"
proof -
  from assms(1) have l: "lg = acc @ ag_pending s"
    and k: "ag_deliveredPromptIds s = keep_last MAX_DELIVERED_PROMPT_IDS (map pp_id acc)"
    and "distinct (ag_deliveredPromptIds s @ map pp_id (ag_pending s))"
    unfolding queue_ok_def by blast+
  then have d: "distinct (ag_deliveredPromptIds s @ pp_id p # map pp_id ps)"
    using assms(2) by (metis list.simps(9))
  then have f: "filter (\<lambda>q. pp_id q \<noteq> pp_id p) ps = ps"
    by (intro filter_True) (auto simp: image_iff)
  let ?k = "keep_last MAX_DELIVERED_PROMPT_IDS (ag_deliveredPromptIds s @ [pp_id p])"
  have "?k = keep_last MAX_DELIVERED_PROMPT_IDS (map pp_id (acc @ [p]))"
    by (simp add: k keep_last_snoc)
  moreover have "distinct (?k @ map pp_id ps)"
  proof -
    have "set ?k \<inter> set (map pp_id ps) = {}"
      using d set_keep_last[of MAX_DELIVERED_PROMPT_IDS "ag_deliveredPromptIds s @ [pp_id p]"]
      by (simp only: distinct_append distinct.simps set_append list.set) blast
    moreover have "distinct ?k" using d by (intro distinct_keep_last) simp
    ultimately show ?thesis using d by simp
  qed
  ultimately show ?thesis using assms(2) f l by (simp add: queue_ok_def dequeued_def)
qed

lemma once_accepted:
  assumes ok: "once_ok c" and "sg_adv c = Some (AdvPrompt d p)"
  shows "once_ok (advAccepted env d p c)"
proof (cases "sg_state c")
  case (Some s)
  from ok Some assms(2) obtain ps where "queue_ok (sg_log c) (sg_accepted c) s"
      "ag_pending s = p # ps" by (auto simp: once_ok_def)
  from queue_ok_accept[OF this, of env]
  have "queue_ok (sg_log c) (sg_accepted c @ [p]) ((dequeued env p s)\<lparr>ag_updatedAt := ae_now env\<rparr>)"
    by simp
  then show ?thesis by (simp add: once_ok_def advAccepted_def Some agUpdate_def agPut_def)
qed (simp add: once_ok_def advAccepted_def)

lemma once_delivered: "once_ok c \<Longrightarrow> once_ok (advDelivered env d c)"
  using once_same_queue[OF _ same_queue_adv] once_loop
  by (simp add: advDelivered_def Let_def split: option.split)

lemma once_advReply:
  assumes ok: "once_ok c" and pc: "sg_adv c = Some pc" and r: "advReply env pc reply c = Some c'"
  shows "once_ok c'"
proof -
  note sq = once_same_queue[OF ok]
  have catch: "once_ok (advCatch env e c)" for e by (rule sq[OF same_queue_catch])
  have loop: "once_ok (onFail env x (\<lambda>y. advLoop env (f y)) c)" for x :: "string + 'a" and f
    by (simp add: onFail_def catch once_loop[OF ok] split: sum.split)
  have acc: "once_ok (onFail env x (\<lambda>_. advAccepted env d p) c)"
    if "pc = AdvPrompt d p" for x :: "string + unit" and d p
    using once_accepted[OF ok] pc that by (simp add: onFail_def catch split: sum.split)
  have settled: "once_ok (advSettled f k d n x c)"
    if "\<And>b. once_ok (k b c)" and "\<And>d n d' p. f d n \<noteq> AdvPrompt d' p" for f k d n x
    using that sq[OF same_queue_adv] by (auto simp: advSettled_def split: sum.split bool.split)
  show ?thesis
  proof (cases pc)
    case (AdvPrompt d p)
    with r acc[of d p] show ?thesis by (cases reply) (auto simp: advReply_def)
  next
    case (AdvCatalog dir e l sid)
    with r loop show ?thesis by (cases reply) (auto simp: advReply_def)
  next
    case (AdvPromptReport d p)
    with r show ?thesis
      by (cases reply) (auto simp: advReply_def once_delivered[OF ok] sq same_queue_adv)
  next
    case (AdvDeleteAttachments d)
    with r show ?thesis by (cases reply) (auto simp: advReply_def once_delivered[OF ok])
  next
    case (AdvSettle d n)
    with r settled[of "\<lambda>_. advLoop env d" AdvSettle] once_loop[OF ok] show ?thesis
      by (cases reply) (auto simp: advReply_def)
  next
    case (AdvSettleLast d n)
    have "once_ok (if b then c\<lparr>sg_adv := Some (AdvEndWork d)\<rparr> else advWorking env c)" for b
      by (simp add: sq same_queue_adv same_queue_stretches)
    with AdvSettleLast r settled[of "\<lambda>ok c. if ok then c\<lparr>sg_adv := Some (AdvEndWork d)\<rparr>
        else advWorking env c" AdvSettleLast d n] show ?thesis
      by (cases reply) (auto simp: advReply_def)
  qed (use r in \<open>cases reply; auto simp: advReply_def intro!: sq same_queue_onFail
      same_queue_stretches same_queue_status same_queue_lease same_queue_adv\<close>)+
qed

section \<open>Memory and storage\<close>

definition disk_ok :: "agent \<Rightarrow> bool" where
  "disk_ok c = (sg_disk c = sg_state c)"

lemma disk_frame [simp]:
  "disk_ok (c\<lparr>sg_alarm := a\<rparr>) = disk_ok c" "disk_ok (c\<lparr>sg_reg := r\<rparr>) = disk_ok c"
  "disk_ok (c\<lparr>sg_starts := ss\<rparr>) = disk_ok c" "disk_ok (c\<lparr>sg_queues := qs\<rparr>) = disk_ok c"
  "disk_ok (c\<lparr>sg_arms := as\<rparr>) = disk_ok c" "disk_ok (c\<lparr>sg_adv := pc\<rparr>) = disk_ok c"
  "disk_ok (c\<lparr>sg_log := l\<rparr>) = disk_ok c" "disk_ok (c\<lparr>sg_accepted := l\<rparr>) = disk_ok c"
  "disk_ok (agPut s c)"
  by (simp_all add: disk_ok_def agPut_def)

lemma disk_update [simp]: "disk_ok c \<Longrightarrow> disk_ok (agUpdate env f c)"
  by (simp add: agUpdate_def split: option.split)

lemma disk_stretches [simp]:
  assumes "disk_ok c"
  shows "disk_ok (advCatch env e c)" "disk_ok (advBackoff env b c)" "disk_ok (advStarting env c)"
    "disk_ok (advWake c)" "disk_ok (advSurvived dir ep c)" "disk_ok (advNeedCatalog dir ep l c)"
    "disk_ok (advCreated env dir ep l sid c)" "disk_ok (advFinish d c)" "disk_ok (advWorking env c)"
    "disk_ok (advStatus env dir ep sid lost c)" "disk_ok (advLease env dir ep lr c)"
    "disk_ok (advAccepted env d p c)"
  using assms
  by (simp_all add: advCatch_def advBackoff_def advStarting_def advWake_def advSurvived_def
      advNeedCatalog_def advCreated_def advFinish_def advWorking_def advStatus_def advLease_def
      advAccepted_def Let_def split: option.split lease_reply.split)

lemma disk_loop [simp]: "disk_ok c \<Longrightarrow> disk_ok (advLoop env d c)"
  by (simp add: advLoop_def split: option.split list.split)

lemma disk_delivered [simp]: "disk_ok c \<Longrightarrow> disk_ok (advDelivered env d c)"
  by (simp add: advDelivered_def Let_def split: option.split)

lemma disk_advReply:
  assumes "disk_ok c" and "advReply env pc reply c = Some c'"
  shows "disk_ok c'"
proof -
  have onFail: "disk_ok (onFail env r k c)" if "\<And>x. disk_ok (k x c)" for r :: "string + 'a" and k
    using that assms(1) by (simp add: onFail_def split: sum.split)
  have settled: "disk_ok (advSettled f k d n r c)" if "\<And>b. disk_ok (k b c)" for f k d n r
    using that assms(1) by (simp add: advSettled_def split: sum.split bool.split)
  from assms show ?thesis
    by (cases pc; cases reply; simp add: advReply_def) (auto intro!: onFail settled)
qed

lemma disk_registered [simp]: "disk_ok c \<Longrightarrow> disk_ok (advRegistered env r c)"
  by (simp add: advRegistered_def split: sum.split agent_error.split)

lemma disk_registerOnce [simp]: "disk_ok c \<Longrightarrow> disk_ok (snd (registerOnce c))"
  by (simp add: registerOnce_def split: option.split)

lemma disk_alarm [simp]: "disk_ok c \<Longrightarrow> disk_ok (agAlarm env c)"
proof -
  have "disk_ok (advance env c)" if "disk_ok c" for c
  proof -
    obtain r d where r: "registerOnce c = (r, d)" by fastforce
    with disk_registerOnce[OF that] have "disk_ok d" by simp
    with that show ?thesis by (simp add: advance_def r split: option.split)
  qed
  then show "disk_ok c \<Longrightarrow> ?thesis" by (simp add: agAlarm_def Let_def)
qed

lemma disk_step: "ag_step c l c' \<Longrightarrow> disk_ok c \<Longrightarrow> disk_ok c'"
proof (induction rule: ag_step.induct)
  case (gs_regReply c pc env r)
  then show ?case
    by (cases pc) (auto simp: regReply_def regSettle_def split: sum.split)
next
  case (gs_advReply c pc env r c')
  then show ?case using disk_advReply by blast
next
  case (gs_reload env c c')
  then show ?case
    by (auto simp: newAgent_def Let_def disk_ok_def agPut_def split: option.splits if_splits)
qed (simp_all add: startSession_def startContinue_def ensureRegistered_def queuePrompt_def
      queueContinue_def armContinue_def retrySession_def markLost_def agMarkDeleted_def Let_def
      split: option.split sum.split arm_call.split bool.split, simp_all add: disk_ok_def)

section \<open>The queue under calm steps\<close>

lemma calm_queue:
  "calm c \<Longrightarrow> q \<in> set (sg_queues c) \<Longrightarrow> \<exists>s. sg_state c = Some s \<and> agrees (qc_state q) s"
  by (simp add: calm_def)

lemma calm_reg: "calm c \<Longrightarrow> sg_reg c = Some r \<Longrightarrow> sg_state c = Some (reg_copy r)"
  by (simp add: calm_def)

lemma once_start:
  assumes "sg_adv c = None"
  shows "once_ok (snd (startContinue env inp r c)) \<or> snd (startContinue env inp r c) = c"
  using assms
  by (auto simp: startContinue_def Let_def once_ok_def agPut_def queue_ok_def startState_def
      keep_last_def split: sum.split)

lemma queue_ok_cong:
  "ag_pending s' = ag_pending s \<Longrightarrow> ag_deliveredPromptIds s' = ag_deliveredPromptIds s \<Longrightarrow>
     queue_ok lg acc s' = queue_ok lg acc s"
  by (simp only: queue_ok_def)

lemma queue_ok_append:
  assumes "queue_ok lg acc s" and "pp_id p \<notin> set (map pp_id (ag_pending s))"
    and "pp_id p \<notin> set (ag_deliveredPromptIds s)"
    and "ag_pending s' = ag_pending s @ [p]" and "ag_deliveredPromptIds s' = ag_deliveredPromptIds s"
  shows "queue_ok (lg @ [p]) acc s'"
  unfolding queue_ok_def assms(4,5)
  using assms(1-3) by (simp only: queue_ok_def) auto

lemma once_queueContinue:
  assumes ok: "once_ok c" and cur: "sg_state c = Some s" "agrees (qc_state q) s"
  shows "once_ok (snd (queueContinue env q r c))"
proof -
  let ?s = "qc_state q"
  have q: "queue_ok (sg_log c) (sg_accepted c) ?s"
    using ok cur queue_ok_cong[of ?s s] by (simp add: once_ok_def agrees_def)
  have adv: "\<exists>ps. ag_pending ?s = p # ps" if "sg_adv c = Some (AdvPrompt d p)" for d p
    using ok cur that by (auto simp: once_ok_def agrees_def)
  show ?thesis
  proof (cases "snd (queueContinue env q r c) = c")
    case False
    then obtain cat where r: "r = Inr cat" by (cases r) (simp_all add: queueContinue_def Let_def)
    let ?model = "nullish (qi_model (qc_input q)) (ag_model ?s)"
    let ?res = "resolveVariant cat ?model (if qi_variant (qc_input q) \<noteq> None
      then qi_variant (qc_input q) else ag_variant ?s)"
    let ?v = "if truthy_str ?res then ?res else None"
    let ?p = "queuedPrompt env (qc_input q) ?model ?v"
    let ?s' = "?s\<lparr>ag_model := ?model, ag_variant := ?v, ag_pending := ag_pending ?s @ [?p],
      ag_phase := Queued, ag_attempt := 0, ag_updatedAt := ae_now env, ag_lastError := None\<rparr>"
    from False r have new: "pp_id ?p \<notin> set (map pp_id (ag_pending ?s))"
        "pp_id ?p \<notin> set (ag_deliveredPromptIds ?s)"
      and d: "snd (queueContinue env q r c) = (agPut ?s' c)
        \<lparr>sg_arms := sg_arms c @ [ArmQueue False], sg_log := sg_log c @ [?p]\<rparr>"
      by (auto simp: queueContinue_def Let_def split: if_splits option.splits)
    have "queue_ok (sg_log c @ [?p]) (sg_accepted c) ?s'"
      by (rule queue_ok_append[OF q new]) simp_all
    then show ?thesis using adv by (auto simp: d once_ok_def agPut_def)
  qed (simp add: ok)
qed

lemma once_regReply:
  assumes ok: "once_ok c" and "sg_reg c = Some pc" and "sg_state c = Some (reg_copy pc)"
  shows "once_ok (regReply env pc r c)"
proof -
  have settle: "once_ok (regSettle env x d)" if "once_ok d" for x d
  proof -
    have "same_queue d (regSettle env x d)"
      using same_queue_trans[OF same_queue_frame(2) same_queue_registered]
      by (simp add: regSettle_def)
    with that show ?thesis by (rule once_same_queue)
  qed
  have put: "once_ok (agPut (registeredCopy env s) c)" if "sg_state c = Some s" for s
    by (rule once_same_queue[OF ok]) (simp add: that same_queue_def agPut_def registeredCopy_def)
  show ?thesis
    using assms settle put once_same_queue[OF ok same_queue_frame(2)]
    by (cases pc) (auto simp: regReply_def split: sum.split)
qed

lemma same_queue_rest:
  "same_queue c (snd (startSession inp c))" "same_queue c (ensureRegistered c)"
  "same_queue c (snd (queuePrompt qi c))" "same_queue c (snd (retrySession env c))"
  "same_queue c (markLost env m c)" "same_queue c (agMarkDeleted c)"
  "same_queue c (armContinue env a c)"
  by (auto simp: startSession_def ensureRegistered_def registerOnce_def queuePrompt_def
      retrySession_def markLost_def agMarkDeleted_def armContinue_def agPut_def same_queue_def
      Let_def split: option.split arm_call.split bool.split)

lemma migrate_keeps:
  "migrateState s = Some s' \<Longrightarrow> ag_pending s' = ag_pending s \<and> ag_phase s' = ag_phase s \<and>
     ag_deliveredPromptIds s' = ag_deliveredPromptIds s"
  by (auto simp: migrateState_def split: if_splits)

lemma same_queue_reload: "disk_ok c \<Longrightarrow> newAgent env c = Some c' \<Longrightarrow> same_queue c c'"
  by (auto simp: newAgent_def disk_ok_def same_queue_def agPut_def Let_def
      split: option.splits if_splits dest!: migrate_keeps)

lemma once_step:
  assumes "ag_step c l c'" and "once_ok c" and "disk_ok c" and "calm c"
  shows "once_ok c'"
  using assms
proof (induction rule: ag_step.induct)
  case (gs_startCatalog inp c env r)
  let ?c = "c\<lparr>sg_starts := remove1 inp (sg_starts c)\<rparr>"
  have "sg_adv ?c = None" using gs_startCatalog by (auto simp: calm_def)
  with once_start[OF this, of env inp r] once_same_queue[OF gs_startCatalog.prems(1)] show ?case by auto
next
  case (gs_queueCatalog q c env r)
  from calm_queue[OF gs_queueCatalog.prems(3) gs_queueCatalog.hyps] obtain s where
    "sg_state c = Some s" "agrees (qc_state q) s" by blast
  with once_queueContinue[of "c\<lparr>sg_queues := remove1 q (sg_queues c)\<rparr>"]
    once_same_queue[OF gs_queueCatalog.prems(1)] show ?case by simp
next
  case (gs_regReply c pc env r)
  then show ?case using once_regReply calm_reg by blast
next
  case (gs_advReply c pc env r c')
  then show ?case using once_advReply by blast
next
  case (gs_reload env c c')
  then show ?case using once_same_queue same_queue_reload by blast
next
  case (gs_arm a c env)
  then show ?case
    using once_same_queue same_queue_trans[OF same_queue_frame(5) same_queue_rest(7)] by blast
qed (use once_same_queue same_queue_rest same_queue_alarm in blast)+

end
