(* ===== verification/Session_Agent_Liveness.thy ===== *)
theory Session_Agent_Liveness
  imports Session_Agent_Invariant
begin

text \<open>
  No queued prompt is left lying: on calm executions a session that has something to
  dispatch always has an alarm, a call that is about to set it, or a dispatch that will
  still look at the queue. With Session_Agent_Invariant this gives the invariant of the agent
  as an instance of \<^term>\<open>inductive_invariant\<close>.
\<close>

text \<open>The stretches of a dispatch after its last look at the queue.\<close>

fun closing :: "adv_pc \<Rightarrow> bool" where
  "closing (AdvSettleLast d n) = True"
| "closing (AdvEndWork d) = True"
| "closing AdvWorkingReport = True"
| "closing (AdvFailReport u b) = (b = None)"
| "closing (AdvUnread b) = (b = None)"
| "closing _ = False"

definition covered :: "agent \<Rightarrow> bool" where
  "covered c = (sg_alarm c \<noteq> None \<or> sg_arms c \<noteq> [] \<or>
     (\<exists>pc. sg_adv c = Some pc \<and> \<not> closing pc))"

definition live_ok :: "agent \<Rightarrow> bool" where
  "live_ok c = (\<forall>s. sg_state c = Some s \<longrightarrow>
     (\<forall>pc. sg_adv c = Some pc \<longrightarrow> \<not> reporting pc \<longrightarrow> ag_phase s \<noteq> Failed \<and> ag_phase s \<noteq> Lost) \<and>
     (needsDispatch s \<longrightarrow> covered c))"

lemmas live_defs = live_ok_def covered_def needsDispatch_def

lemma live_None: "sg_state c = None \<Longrightarrow> live_ok c"
  by (simp add: live_ok_def)

lemma live_catch: "live_ok (advCatch env e c)"
  by (auto simp: live_defs advCatch_def agUpdate_def agPut_def Let_def split: option.split)

lemma live_goto:
  assumes "live_ok c" and "sg_adv c = Some pc" and "\<not> reporting pc"
    and "\<not> reporting pc'" and "closing pc' \<longrightarrow> closing pc"
  shows "live_ok (c\<lparr>sg_adv := Some pc'\<rparr>)"
  using assms by (auto simp: live_defs)

lemma live_stretches:
  assumes "live_ok c" and "sg_adv c = Some pc" and "\<not> reporting pc"
  shows "live_ok (advStarting env c)" "live_ok (advCreated env dir e l sid c)"
    "closing pc \<Longrightarrow> live_ok (advWorking env c)"
    "\<not> closing pc \<Longrightarrow> live_ok (advWake c)" "\<not> closing pc \<Longrightarrow> live_ok (advSurvived dir e c)"
    "\<not> closing pc \<Longrightarrow> live_ok (advNeedCatalog dir e l c)"
  using assms
  by (auto simp: live_defs advStarting_def advCreated_def advWorking_def advWake_def advSurvived_def
      advNeedCatalog_def agUpdate_def agPut_def split: option.split)

lemma live_status:
  "live_ok c \<Longrightarrow> sg_adv c = Some pc \<Longrightarrow> \<not> reporting pc \<Longrightarrow> \<not> closing pc \<Longrightarrow>
     live_ok (advStatus env dir e sid l c)"
  using live_goto by (simp add: advStatus_def live_catch)

lemma live_lease:
  "live_ok c \<Longrightarrow> sg_adv c = Some pc \<Longrightarrow> \<not> reporting pc \<Longrightarrow> \<not> closing pc \<Longrightarrow>
     live_ok (advLease env dir e r c)"
  using live_goto live_stretches(6) by (simp add: advLease_def live_catch split: lease_reply.split)

lemma live_finish:
  assumes "live_ok c" and "sg_adv c = Some pc" and "\<not> reporting pc"
    and "\<And>s. sg_state c = Some s \<Longrightarrow> ag_pending s = []"
  shows "live_ok (advFinish d c)"
  using assms by (auto simp: live_defs advFinish_def)

lemma live_loop:
  assumes "live_ok c" and "sg_adv c = Some pc" and "\<not> reporting pc"
  shows "live_ok (advLoop env d c)"
proof (cases "sg_state c")
  case None
  then show ?thesis using live_finish[OF assms] by (simp add: advLoop_def)
next
  case (Some s)
  show ?thesis
  proof (cases "ag_pending s")
    case Nil
    then show ?thesis using live_finish[OF assms] Some by (simp add: advLoop_def)
  next
    case (Cons p ps)
    have "live_ok (c\<lparr>sg_adv := Some (AdvPrompt d p)\<rparr>)"
      using assms Some by (simp add: live_ok_def covered_def)
    then show ?thesis by (simp add: advLoop_def Some Cons live_catch)
  qed
qed

lemma live_accepted:
  assumes "live_ok c" and "sg_adv c = Some pc" and "\<not> reporting pc"
  shows "live_ok (advAccepted env d p c)"
  using assms
  by (auto simp: live_defs advAccepted_def agUpdate_def agPut_def dequeued_def Let_def
      split: option.split)

lemma live_delivered:
  assumes "live_ok c" and "sg_adv c = Some pc" and "\<not> reporting pc"
  shows "live_ok (advDelivered env d c)"
proof -
  have "live_ok (c\<lparr>sg_adv := Some (AdvSettle d' 0)\<rparr>)" for d'
    using assms by (auto simp: live_defs)
  with live_loop[OF assms] show ?thesis by (simp add: advDelivered_def Let_def split: option.split)
qed

lemma live_backoff:
  assumes "live_ok c" and "sg_adv c = Some pc" and "pc = AdvFailReport u b \<or> pc = AdvUnread b"
  shows "live_ok (advBackoff env b c)"
  using assms by (auto simp: live_defs advBackoff_def split: option.split)

lemma live_onFail:
  "(\<And>x. live_ok (k x c)) \<Longrightarrow> live_ok (onFail env r k c)"
  by (simp add: onFail_def live_catch split: sum.split)

lemma live_settled:
  assumes "live_ok c" and "sg_adv c = Some pc" and "\<not> reporting pc"
    and "\<And>b. live_ok (k b c)" and "\<And>n. \<not> reporting (f d n)" and "\<And>n. closing (f d n) \<longrightarrow> closing pc"
  shows "live_ok (advSettled f k d n r c)"
  using assms live_goto[OF assms(1-3)] by (simp add: advSettled_def split: sum.split bool.split)

lemma live_advReply:
  assumes ok: "live_ok c" and pc: "sg_adv c = Some pc" and r: "advReply env pc reply c = Some c'"
  shows "live_ok c'"
proof (cases "reporting pc")
  case True
  then show ?thesis
  proof (cases pc)
    case (AdvFailReport u b)
    have "live_ok (c\<lparr>sg_adv := Some (AdvUnread b)\<rparr>)"
      using ok pc AdvFailReport by (auto simp: live_ok_def covered_def)
    moreover have "live_ok (advBackoff env b c)" using live_backoff[OF ok pc] AdvFailReport by blast
    ultimately show ?thesis using r AdvFailReport
      by (cases reply) (auto simp: advReply_def split: if_splits)
  next
    case (AdvUnread b)
    then have "live_ok (advBackoff env b c)" using live_backoff[OF ok pc] by blast
    then show ?thesis using r AdvUnread by (cases reply) (auto simp: advReply_def)
  qed simp_all
next
  case False
  note st = live_stretches[OF ok pc False]
  note rest = live_status[OF ok pc False] live_lease[OF ok pc False] live_loop[OF ok pc False]
    live_accepted[OF ok pc False] live_delivered[OF ok pc False] live_goto[OF ok pc False]
  show ?thesis
  proof (cases pc)
    case (AdvSettleLast d n)
    have "live_ok (if b then c\<lparr>sg_adv := Some (AdvEndWork d)\<rparr> else advWorking env c)" for b
      using rest(6)[of "AdvEndWork d"] st(3) AdvSettleLast by simp
    with AdvSettleLast r live_settled[OF ok pc False, of "\<lambda>ok c. if ok
        then c\<lparr>sg_adv := Some (AdvEndWork d)\<rparr> else advWorking env c" AdvSettleLast d]
    show ?thesis by (cases reply) (auto simp: advReply_def)
  next
    case (AdvSettle d n)
    with r rest(3) live_settled[OF ok pc False, of "\<lambda>_. advLoop env d" AdvSettle d]
    show ?thesis by (cases reply) (auto simp: advReply_def)
  next
    case AdvWorkingReport
    with r ok pc show ?thesis by (cases reply) (auto simp: advReply_def live_defs)
  qed (use r False in \<open>cases reply; auto simp: advReply_def intro!: live_onFail st rest\<close>)+
qed

section \<open>The other handlers\<close>

lemma live_registered:
  assumes "live_ok c" and "sg_adv c = Some AdvRegister"
  shows "live_ok (advRegistered env r c)"
  using live_stretches(1)[OF assms]
  by (simp add: advRegistered_def live_catch split: sum.split agent_error.split)

lemma live_regReply:
  assumes ok: "live_ok c" and "sg_reg c = Some pc" and cur: "sg_state c = Some (reg_copy pc)"
  shows "live_ok (regReply env pc r c)"
proof -
  have settle: "live_ok (regSettle env x d)" if "live_ok d" for x d
  proof -
    have "live_ok (d\<lparr>sg_reg := None\<rparr>)" using that by (simp add: live_defs)
    with live_registered[of "d\<lparr>sg_reg := None\<rparr>"] show ?thesis by (simp add: regSettle_def)
  qed
  have "live_ok (agPut (registeredCopy env s) c)" if "sg_state c = Some s" for s
    using ok that by (simp add: live_defs agPut_def registeredCopy_def)
  moreover have "live_ok (c\<lparr>sg_reg := x\<rparr>)" for x using ok by (simp add: live_defs)
  ultimately show ?thesis
    using cur settle ok by (cases pc) (auto simp: regReply_def split: sum.split)
qed

lemma live_advance:
  assumes "sg_adv c = None"
  shows "live_ok (advance env c)"
proof (cases "sg_state c")
  case (Some s)
  show ?thesis
  proof (cases "needsDispatch s")
    case True
    obtain r d where r: "registerOnce c = (r, d)" by fastforce
    then have d: "sg_state d = Some s" using Some
      by (auto simp: registerOnce_def split: option.splits if_splits)
    have "live_ok (advRegistered env x d)" for x
    proof -
      have "live_ok (advStarting env d)"
        using True d by (simp add: live_defs advStarting_def agUpdate_def agPut_def)
      then show ?thesis
        by (simp add: advRegistered_def live_catch split: sum.split agent_error.split)
    qed
    moreover have "live_ok (d\<lparr>sg_adv := Some AdvRegister\<rparr>)" using True d by (simp add: live_defs)
    ultimately show ?thesis by (simp add: advance_def Some True r split: option.split)
  qed (simp add: advance_def Some live_ok_def assms)
qed (simp add: advance_def live_None)

lemma live_same:
  "live_ok c \<Longrightarrow> sg_state c' = sg_state c \<Longrightarrow> sg_alarm c' = sg_alarm c \<Longrightarrow>
     sg_arms c' = sg_arms c \<Longrightarrow> sg_adv c' = sg_adv c \<Longrightarrow> live_ok c'"
  by (simp add: live_ok_def covered_def)

lemma live_frame:
  "live_ok c \<Longrightarrow> live_ok (snd (startSession inp c))"
  "live_ok c \<Longrightarrow> live_ok (ensureRegistered c)"
  "live_ok c \<Longrightarrow> live_ok (snd (queuePrompt qi c))"
  "live_ok c \<Longrightarrow> live_ok (c\<lparr>sg_queues := qs\<rparr>)"
  "live_ok c \<Longrightarrow> live_ok (c\<lparr>sg_starts := ss\<rparr>)"
  by (erule live_same; simp add: startSession_def ensureRegistered_def registerOnce_def
      queuePrompt_def split: option.split)+

text \<open>A write of a state in the queue, with a call that will set the alarm.\<close>

lemma live_armed:
  assumes "ag_phase s \<noteq> Failed" and "ag_phase s \<noteq> Lost" and "as \<noteq> []"
  shows "live_ok ((agPut s c)\<lparr>sg_arms := as, sg_log := l\<rparr>)"
    and "live_ok ((agPut s c)\<lparr>sg_arms := as\<rparr>)"
  using assms by (simp_all add: live_ok_def covered_def agPut_def)

lemma live_queueContinue:
  assumes "live_ok c"
  shows "live_ok (snd (queueContinue env q r c))"
proof (cases r)
  case (Inr cat)
  then show ?thesis using assms
    by (simp add: queueContinue_def Let_def live_armed split: option.split)
qed (simp add: queueContinue_def Let_def assms)

lemma live_arm:
  assumes "live_ok c" and "a \<in> set (sg_arms c)"
  shows "live_ok (armContinue env a (c\<lparr>sg_arms := remove1 a (sg_arms c)\<rparr>))"
proof (cases "sg_state c")
  case (Some s)
  have adv: "\<forall>pc. sg_adv c = Some pc \<longrightarrow> \<not> reporting pc \<longrightarrow> ag_phase s \<noteq> Failed \<and> ag_phase s \<noteq> Lost"
    using assms(1) Some by (simp add: live_ok_def)
  show ?thesis
  proof (cases a)
    case (ArmQueue b)
    then show ?thesis using adv Some by (cases b) (simp_all add: armContinue_def live_ok_def covered_def)
  next
    case (ArmRetry b)
    then show ?thesis using adv Some by (cases b) (simp_all add: armContinue_def live_ok_def covered_def)
  qed
qed (simp add: armContinue_def live_None split: arm_call.split bool.split)

lemma live_start:
  assumes "sg_state c = None" and "sg_adv c = None"
  shows "live_ok (snd (startContinue env inp r c))"
  using assms
  by (cases r) (simp_all add: startContinue_def Let_def live_None live_ok_def covered_def agPut_def)

lemma live_retry: "live_ok c \<Longrightarrow> live_ok (snd (retrySession env c))"
  by (simp add: retrySession_def Let_def live_armed split: option.split)

lemma live_markLost:
  assumes "live_ok c" and "calm (markLost env m c)"
  shows "live_ok (markLost env m c)"
proof (cases "sg_state c")
  case (Some s)
  show ?thesis
  proof (cases "ag_phase s = Lost")
    case False
    with assms(2) Some show ?thesis
      by (auto simp: markLost_def live_ok_def needsDispatch_def agPut_def calm_def)
  qed (simp add: markLost_def Some assms(1))
qed (simp add: markLost_def assms(1))

lemma live_reload: "newAgent env c = Some c' \<Longrightarrow> live_ok c'"
  by (auto simp: newAgent_def live_ok_def covered_def agPut_def Let_def
      split: option.splits if_splits)

lemma live_step:
  assumes "ag_step c l c'" and "live_ok c" and "calm c" and "calm c'"
  shows "live_ok c'"
  using assms
proof (induction rule: ag_step.induct)
  case (gs_startCatalog inp c env r)
  then have "sg_adv c = None" "sg_state c = None" by (auto simp: calm_def)
  then show ?case by (simp add: live_start)
next
  case (gs_regReply c pc env r)
  then show ?case using live_regReply calm_reg by blast
next
  case (gs_alarm c t env)
  then show ?case using live_advance[of "c\<lparr>sg_alarm := None\<rparr>"] by (simp add: agAlarm_def Let_def)
next
  case (gs_advReply c pc env r c')
  then show ?case using live_advReply by blast
next
  case (gs_markDeleted c env)
  then show ?case by (simp add: agMarkDeleted_def live_None)
qed (simp_all add: live_frame live_queueContinue live_arm live_retry live_markLost live_reload)

section \<open>The invariant of the agent\<close>

definition agent_ok :: "agent \<Rightarrow> bool" where
  "agent_ok c = (calm c \<and> disk_ok c \<and> once_ok c \<and> live_ok c)"

lemma agent_ok_init: "ag_init c \<Longrightarrow> agent_ok c"
  by (simp add: ag_init_def agent_ok_def calm_def disk_ok_def once_ok_def live_ok_def)

interpretation ag: inductive_invariant ag_init calm_step agent_ok
proof unfold_locales
  show "agent_ok c" if "ag_init c" for c using that by (rule agent_ok_init)
  show "agent_ok c'" if "agent_ok c" and "calm_step c l c'" for c l c'
    using that disk_step once_step live_step unfolding agent_ok_def calm_step_def by blast
qed

text \<open>Memory and storage agree on every execution, calm or not.\<close>

interpretation ag_disk: inductive_invariant ag_init ag_step disk_ok
proof unfold_locales
  show "disk_ok c" if "ag_init c" for c using that by (simp add: ag_init_def disk_ok_def)
qed (rule disk_step)

end
