(* ===== verification/Session_Agent_Properties.thy ===== *)
theory Session_Agent_Properties
  imports Session_Agent_Liveness
begin

text \<open>
  What the session agent promises, and the executions on which the code does not keep it.
\<close>

section \<open>Executing events\<close>

text \<open>The step relation as a function, for evaluating concrete executions.\<close>

definition agDo :: "agent \<Rightarrow> ag_env \<times> agent_event \<Rightarrow> agent option" where
  "agDo c l = (case l of (env, ev) \<Rightarrow>
     (case ev of
        AgStart inp \<Rightarrow> Some (snd (startSession inp c))
      | AgStartCatalog inp r \<Rightarrow>
          (if inp \<in> set (sg_starts c)
           then Some (snd (startContinue env inp r (c\<lparr>sg_starts := remove1 inp (sg_starts c)\<rparr>)))
           else None)
      | AgEnsureRegistered \<Rightarrow> Some (ensureRegistered c)
      | AgRegReply r \<Rightarrow> (case sg_reg c of None \<Rightarrow> None | Some pc \<Rightarrow> Some (regReply env pc r c))
      | AgQueue inp \<Rightarrow> Some (snd (queuePrompt inp c))
      | AgQueueCatalog q r \<Rightarrow>
          (if q \<in> set (sg_queues c)
           then Some (snd (queueContinue env q r (c\<lparr>sg_queues := remove1 q (sg_queues c)\<rparr>)))
           else None)
      | AgArm a \<Rightarrow>
          (if a \<in> set (sg_arms c)
           then Some (armContinue env a (c\<lparr>sg_arms := remove1 a (sg_arms c)\<rparr>)) else None)
      | AgRetry \<Rightarrow> Some (snd (retrySession env c))
      | AgMarkLost m \<Rightarrow> Some (markLost env m c)
      | AgMarkDeleted \<Rightarrow> Some (agMarkDeleted c)
      | AgAlarmFires \<Rightarrow>
          (case sg_alarm c of None \<Rightarrow> None
           | Some t \<Rightarrow> if t \<le> ae_now env \<and> sg_adv c = None then Some (agAlarm env c) else None)
      | AgAdvReply r \<Rightarrow> (case sg_adv c of None \<Rightarrow> None | Some pc \<Rightarrow> advReply env pc r c)
      | AgReload \<Rightarrow> newAgent env c))"

lemma agDo_step: "agDo c l = Some c' \<Longrightarrow> ag_step c l c'"
  by (cases l) (auto simp: agDo_def split: agent_event.splits option.splits if_splits
      intro: ag_step.intros)

fun agExec :: "agent \<Rightarrow> (ag_env \<times> agent_event) list \<Rightarrow> agent option" where
  "agExec c [] = Some c"
| "agExec c (l # ls) = (case agDo c l of None \<Rightarrow> None | Some c' \<Rightarrow> agExec c' ls)"

lemma agExec_run: "agExec c ls = Some c' \<Longrightarrow> run ag_step c ls c'"
  by (induction ls arbitrary: c) (auto split: option.splits intro: run.intros agDo_step)

definition calmb :: "agent \<Rightarrow> bool" where
  "calmb c =
     (list_all (\<lambda>q. case sg_state c of None \<Rightarrow> False | Some s \<Rightarrow> agrees (qc_state q) s) (sg_queues c) \<and>
      (case sg_reg c of None \<Rightarrow> True | Some r \<Rightarrow> sg_state c = Some (reg_copy r)) \<and>
      (sg_starts c \<noteq> [] \<longrightarrow> sg_state c = None \<and> sg_adv c = None) \<and>
      (case sg_state c of None \<Rightarrow> True | Some s \<Rightarrow> (case sg_adv c of None \<Rightarrow> True
         | Some pc \<Rightarrow> ag_phase s = Lost \<longrightarrow> reporting pc)))"

lemma calmb_calm: "calmb c = calm c"
  unfolding calmb_def calm_def list_all_iff
  by (cases "sg_state c"; cases "sg_reg c"; cases "sg_adv c") auto

fun calmExec :: "agent \<Rightarrow> (ag_env \<times> agent_event) list \<Rightarrow> agent option" where
  "calmExec c [] = Some c"
| "calmExec c (l # ls) = (case agDo c l of None \<Rightarrow> None
     | Some c' \<Rightarrow> if calmb c' then calmExec c' ls else None)"

lemma calmExec_run: "calmExec c ls = Some c' \<Longrightarrow> run calm_step c ls c'"
  by (induction ls arbitrary: c)
    (auto simp: calm_step_def calmb_calm split: option.splits if_splits intro!: run.intros agDo_step)

section \<open>A concrete session\<close>

definition ge :: "millis \<Rightarrow> string \<Rightarrow> ag_env" where
  "ge now i = \<lparr>ae_now = now, ae_id = i\<rparr>"

definition exCat :: model_catalog where
  "exCat = catalogFromConfig exConfig"

definition exStart :: start_input where
  "exStart = \<lparr>si_sessionId = ''s'', si_instanceId = ''s'', si_instanceName = ''n'',
     si_provider = ''docker'', si_repoKey = None, si_repo = None, si_directory = ''/workspace'',
     si_model = ''ag/m'', si_variant = None, si_title = ''t'', si_createdAt = 0, si_prompt = ''one'',
     si_promptId = Some ''p1'', si_attachments = []\<rparr>"

definition exQueue :: "string \<Rightarrow> queue_input" where
  "exQueue i = \<lparr>qi_prompt = ''text'', qi_model = None, qi_variant = None, qi_promptId = Some i,
     qi_attachments = []\<rparr>"

definition exAgent :: agent where
  "exAgent = \<lparr>sg_state = None, sg_disk = None, sg_alarm = None, sg_adv = None, sg_reg = None,
     sg_starts = [], sg_queues = [], sg_arms = [], sg_log = [], sg_accepted = []\<rparr>"

lemma exAgent_init: "ag_init exAgent"
  by (simp add: ag_init_def exAgent_def)

text \<open>The session is created, registered and dispatched up to the answer to its prompt.\<close>

definition exCreate :: "(ag_env \<times> agent_event) list" where
  "exCreate = [(ge 0 ''x'', AgStart exStart), (ge 0 ''x'', AgStartCatalog exStart (Inr exCat))]"

definition exRegister :: "(ag_env \<times> agent_event) list" where
  "exRegister = [(ge 1 ''x'', AgAlarmFires), (ge 2 ''x'', AgRegReply (Inr ())),
     (ge 3 ''x'', AgRegReply (Inr ()))]"

definition exDispatch :: "(ag_env \<times> agent_event) list" where
  "exDispatch = [(ge 4 ''x'', AgAdvReply ReDone), (ge 5 ''x'', AgAdvReply (ReWake (Inr ''e1''))),
     (ge 6 ''x'', AgAdvReply (ReLease (Inr (LeaseAdmitted ''l'')))),
     (ge 7 ''x'', AgAdvReply (ReCreate (Inr ''oc''))), (ge 8 ''x'', AgAdvReply ReDone),
     (ge 9 ''x'', AgAdvReply (ReCatalog (Inr exCat)))]"

definition exHanded :: "(ag_env \<times> agent_event) list" where
  "exHanded = [(ge 10 ''x'', AgAdvReply (RePrompt (Inr ()))), (ge 11 ''x'', AgAdvReply ReDone),
     (ge 12 ''x'', AgAdvReply (ReActive (Inr True)))]"

definition agAt :: "(ag_env \<times> agent_event) list \<Rightarrow> agent" where
  "agAt ls = the (agExec exAgent ls)"

lemma agAt_run: "agExec exAgent ls \<noteq> None \<Longrightarrow> run ag_step exAgent ls (agAt ls)"
  by (auto simp: agAt_def intro: agExec_run)

text \<open>One evaluation gives the execution and what is observed at its end.\<close>

lemma agExec_observe:
  "map_option f (agExec exAgent ls) = Some x \<Longrightarrow> \<exists>c. run ag_step exAgent ls c \<and> f c = x"
  by (auto intro: agExec_run)

definition calmAt :: "(ag_env \<times> agent_event) list \<Rightarrow> agent" where
  "calmAt ls = the (calmExec exAgent ls)"

lemma calmAt_reach: "calmExec exAgent ls \<noteq> None \<Longrightarrow> reach ag_init calm_step (calmAt ls)"
proof -
  assume "calmExec exAgent ls \<noteq> None"
  then obtain c where c: "calmExec exAgent ls = Some c" by blast
  have "reach ag_init calm_step exAgent" by (rule reach_start) (rule exAgent_init)
  with reach_run[OF calmExec_run[OF c]] show ?thesis by (simp add: calmAt_def c)
qed

lemma calmExec_observe:
  "map_option f (calmExec exAgent ls) = Some x \<Longrightarrow> \<exists>c. reach ag_init calm_step c \<and> f c = x"
  using calmAt_reach[of ls] by (auto simp: calmAt_def)

text \<open>What the examples look at.\<close>

definition seen :: "agent \<Rightarrow> string list \<times> string list \<times> (string list \<times> session_phase \<times> string option) option" where
  "seen c = (map pp_id (sg_log c), map pp_id (sg_accepted c),
     map_option (\<lambda>s. (map pp_id (ag_pending s), ag_phase s, ag_lastError s)) (sg_state c))"


section \<open>What holds on calm executions\<close>








lemma lost_reporting:
  assumes "sg_adv c = Some pc" and "reporting pc" and "advReply env pc r c = Some c'"
  shows "sg_state c' = sg_state c"
  using assms by (cases pc; cases r)
    (auto simp: advReply_def advBackoff_def split: option.splits if_splits)

lemma lost_step:
  assumes "reach ag_init calm_step c" and "calm_step c (env, ev) c'" and s: "sg_state c = Some s"
    and l: "ag_phase s = Lost" and "ev \<noteq> AgMarkDeleted"
  shows "sg_state c' = Some s \<or> sg_state c' = Some (registeredCopy env s) \<or>
    sg_state c' = migrateState s \<and> migrateState s \<noteq> None"
proof -
  have ok: "agent_ok c" by (rule ag.holds_in_reach[OF assms(1)])
  then have calm: "calm c" by (simp add: agent_ok_def)
  from assms(2) have "ag_step c (env, ev) c'" by (simp add: calm_step_def)
  then show ?thesis
  proof cases
    case (gs_startCatalog inp r)
    then show ?thesis using calm s by (auto simp: calm_def)
  next
    case (gs_regReply pc r)
    have "sg_adv c \<noteq> Some AdvRegister" using calm s l by (auto simp: calm_def)
    moreover have "reg_copy pc = s" using calm gs_regReply s by (auto simp: calm_def)
    ultimately show ?thesis using gs_regReply s
      by (cases pc) (auto simp: regReply_def regSettle_def agPut_def split: sum.split)
  next
    case (gs_queueCatalog q r)
    then show ?thesis using calm s l by (auto simp: calm_def agrees_def)
  next
    case (gs_arm a)
    then show ?thesis using s
      by (auto simp: armContinue_def split: arm_call.split bool.split)
  next
    case (gs_alarm t)
    then show ?thesis using s l by (simp add: agAlarm_def Let_def advance_def needsDispatch_def)
  next
    case (gs_advReply pc r)
    then have "reporting pc" using calm s l by (auto simp: calm_def)
    with gs_advReply s lost_reporting show ?thesis by auto
  next
    case gs_reload
    then show ?thesis using ok s
      by (auto simp: newAgent_def agent_ok_def disk_ok_def agPut_def Let_def split: option.splits if_splits)
  qed (use assms(5) s l in \<open>simp_all add: startSession_def ensureRegistered_def registerOnce_def
      queuePrompt_def retrySession_def markLost_def\<close>)
qed

text \<open>
  A lost session stays lost: on calm executions, once a session is lost every step but its
  deletion leaves it lost, with its queue and its error as they were, whatever is queued,
  retried, answered or reloaded.
\<close>

theorem lost_is_terminal:
  assumes "reach ag_init calm_step c" and "calm_step c (env, ev) c'" and s: "sg_state c = Some s"
    and l: "ag_phase s = Lost" and "ev \<noteq> AgMarkDeleted"
  shows "\<exists>s'. sg_state c' = Some s' \<and> ag_phase s' = Lost \<and> ag_pending s' = ag_pending s \<and>
    ag_lastError s' = ag_lastError s"
proof -
  have "sg_state c' = Some s \<or> sg_state c' = Some (registeredCopy env s) \<or>
      sg_state c' = migrateState s \<and> migrateState s \<noteq> None"
    using assms by (rule lost_step)
  then show ?thesis using l
    by (auto simp: registeredCopy_def migrateState_def split: if_splits)
qed

definition exLost :: agent where
  "exLost = calmAt (exCreate @ [(ge 0 ''x'', AgMarkLost ''gone'')])"

lemma lost_is_terminal_witness:
  "map_option ag_phase (sg_state (snd (retrySession (ge 5 ''y'') exLost))) = Some Lost"
proof -
  have "calmExec exAgent (exCreate @ [(ge 0 ''x'', AgMarkLost ''gone'')]) \<noteq> None" by code_simp
  from calmAt_reach[OF this] have r: "reach ag_init calm_step exLost" by (simp add: exLost_def)
  have "calmb (snd (retrySession (ge 5 ''y'') exLost))" by code_simp
  then have st: "calm_step exLost (ge 5 ''y'', AgRetry) (snd (retrySession (ge 5 ''y'') exLost))"
    by (simp add: calm_step_def calmb_calm gs_retry)
  have "map_option ag_phase (sg_state exLost) = Some Lost" by code_simp
  then obtain s where s: "sg_state exLost = Some s" "ag_phase s = Lost" by auto
  from lost_is_terminal[OF r st s] show ?thesis by auto
qed

section \<open>The retry ladder\<close>



section \<open>What outdated copies do\<close>

definition callAt :: "(ag_env \<times> agent_event) list \<Rightarrow> string \<Rightarrow> queue_call" where
  "callAt ls i = \<lparr>qc_input = exQueue i, qc_state = the (sg_state (agAt ls))\<rparr>"

definition exTwoQueues :: "(ag_env \<times> agent_event) list" where
  "exTwoQueues = exCreate @ [(ge 1 ''x'', AgQueue (exQueue ''p2'')), (ge 1 ''x'', AgQueue (exQueue ''p3'')),
     (ge 2 ''x'', AgQueueCatalog (callAt exCreate ''p2'') (Inr exCat)),
     (ge 3 ''x'', AgQueueCatalog (callAt exCreate ''p3'') (Inr exCat))]"

definition exPrefix :: "(ag_env \<times> agent_event) list" where
  "exPrefix = exCreate @ exRegister @ exDispatch"

definition exQueueDuringPrompt :: "(ag_env \<times> agent_event) list" where
  "exQueueDuringPrompt = exPrefix @ [(ge 10 ''x'', AgQueue (exQueue ''p2'')),
     (ge 11 ''x'', AgAdvReply (RePrompt (Inr ()))),
     (ge 12 ''x'', AgQueueCatalog (callAt exPrefix ''p2'') (Inr exCat)),
     (ge 13 ''x'', AgAdvReply ReDone), (ge 14 ''x'', AgAdvReply (ReActive (Inr True))),
     (ge 15 ''x'', AgAdvReply (RePrompt (Inr ())))]"

text \<open>
  C12. \<open>queuePrompt\<close> writes back the state it read before it asked for the model catalog. Two
  prompts sent at once: the first is acknowledged, queued, and gone from the queue without
  ever having been delivered. A prompt sent while another is being delivered: the delivered
  one is back in the queue and the container is given it a second time.
\<close>

theorem stale_queue_copy:
  "(\<exists>c s. run ag_step exAgent exTwoQueues c \<and> sg_state c = Some s \<and>
      map pp_id (sg_log c) = [''p1'', ''p2'', ''p3''] \<and> sg_accepted c = [] \<and>
      map pp_id (ag_pending s) = [''p1'', ''p3'']) \<and>
   (\<exists>c. run ag_step exAgent exQueueDuringPrompt c \<and>
      map pp_id (sg_log c) = [''p1'', ''p2''] \<and> map pp_id (sg_accepted c) = [''p1'', ''p1''])"
proof
  have "map_option seen (agExec exAgent exTwoQueues) =
      Some ([''p1'', ''p2'', ''p3''], [], Some ([''p1'', ''p3''], Queued, None))" by code_simp
  from agExec_observe[OF this]
  show "\<exists>c s. run ag_step exAgent exTwoQueues c \<and> sg_state c = Some s \<and>
      map pp_id (sg_log c) = [''p1'', ''p2'', ''p3''] \<and> sg_accepted c = [] \<and>
      map pp_id (ag_pending s) = [''p1'', ''p3'']" by (fastforce simp: seen_def)
  have "map_option (\<lambda>c. (map pp_id (sg_log c), map pp_id (sg_accepted c)))
      (agExec exAgent exQueueDuringPrompt) = Some ([''p1'', ''p2''], [''p1'', ''p1''])" by code_simp
  from agExec_observe[OF this]
  show "\<exists>c. run ag_step exAgent exQueueDuringPrompt c \<and>
      map pp_id (sg_log c) = [''p1'', ''p2''] \<and> map pp_id (sg_accepted c) = [''p1'', ''p1'']" by simp
qed

definition exRegistering :: "(ag_env \<times> agent_event) list" where
  "exRegistering = exCreate @ [(ge 1 ''x'', AgAlarmFires), (ge 2 ''x'', AgRegReply (Inr ()))]"

definition exQueueDuringRegister :: "(ag_env \<times> agent_event) list" where
  "exQueueDuringRegister = exRegistering @ [(ge 3 ''x'', AgQueue (exQueue ''p2'')),
     (ge 4 ''x'', AgQueueCatalog (callAt exRegistering ''p2'') (Inr exCat)),
     (ge 5 ''x'', AgRegReply (Inr ()))]"

definition exDeleteDuringRegister :: "(ag_env \<times> agent_event) list" where
  "exDeleteDuringRegister = exRegistering @ [(ge 3 ''x'', AgMarkDeleted),
     (ge 4 ''x'', AgRegReply (Inr ()))]"

text \<open>
  \<open>register\<close> writes back the state it read before its two remote writes. A prompt
  queued meanwhile is acknowledged and then dropped; a session deleted meanwhile is in memory
  and in storage again, and being dispatched.
\<close>

theorem stale_registration_copy:
  "(\<exists>c s. run ag_step exAgent exQueueDuringRegister c \<and> sg_state c = Some s \<and>
      map pp_id (sg_log c) = [''p1'', ''p2''] \<and> sg_accepted c = [] \<and>
      map pp_id (ag_pending s) = [''p1'']) \<and>
   (\<exists>c s. run ag_step exAgent exDeleteDuringRegister c \<and> sg_state c = Some s \<and>
      sg_disk c = Some s \<and> ag_phase s = Starting \<and> sg_adv c = Some AdvStartingReport)"
proof
  have "map_option seen (agExec exAgent exQueueDuringRegister) =
      Some ([''p1'', ''p2''], [], Some ([''p1''], Starting, None))" by code_simp
  from agExec_observe[OF this]
  show "\<exists>c s. run ag_step exAgent exQueueDuringRegister c \<and> sg_state c = Some s \<and>
      map pp_id (sg_log c) = [''p1'', ''p2''] \<and> sg_accepted c = [] \<and>
      map pp_id (ag_pending s) = [''p1'']" by (fastforce simp: seen_def)
  have "map_option (\<lambda>c. (map_option ag_phase (sg_state c), sg_adv c))
      (agExec exAgent exDeleteDuringRegister) = Some (Some Starting, Some AdvStartingReport)"
    by code_simp
  from agExec_observe[OF this] obtain c s where c: "run ag_step exAgent exDeleteDuringRegister c"
    "sg_state c = Some s" "ag_phase s = Starting" "sg_adv c = Some AdvStartingReport" by auto
  have "disk_ok exAgent" by (simp add: disk_ok_def exAgent_def)
  from ag_disk.kept_by_run[OF c(1) this] c
  show "\<exists>c s. run ag_step exAgent exDeleteDuringRegister c \<and> sg_state c = Some s \<and>
      sg_disk c = Some s \<and> ag_phase s = Starting \<and> sg_adv c = Some AdvStartingReport"
    by (auto simp: disk_ok_def)
qed

definition exLostDuringPrompt :: "(ag_env \<times> agent_event) list" where
  "exLostDuringPrompt = exPrefix @ [(ge 10 ''x'', AgMarkLost ''gone'')] @ exHanded @
     [(ge 16 ''x'', AgAdvReply (ReEndWork (Inr ()))), (ge 17 ''x'', AgAdvReply ReDone)]"

text \<open>
  A session that is declared lost while a dispatch is under way is \<open>working\<close> again, with
  its error cleared, when that dispatch ends: the terminal phase does not last.
\<close>

theorem lost_is_overwritten:
  "\<exists>c s. run ag_step exAgent exLostDuringPrompt c \<and> AgMarkLost ''gone'' \<in> snd ` set exLostDuringPrompt \<and>
     sg_state c = Some s \<and> ag_phase s = Working \<and> ag_lastError s = None \<and> sg_adv c = None"
proof -
  have "map_option (\<lambda>c. (sg_adv c, map_option (\<lambda>s. (ag_phase s, ag_lastError s)) (sg_state c)))
      (agExec exAgent exLostDuringPrompt) = Some (None, Some (Working, None))" by code_simp
  from agExec_observe[OF this] show ?thesis by (auto simp: exLostDuringPrompt_def)
qed

definition exEndWorkFails :: "(ag_env \<times> agent_event) list" where
  "exEndWorkFails = exCreate @ exRegister @ exDispatch @ exHanded @
     [(ge 16 ''x'', AgAdvReply (ReEndWork (Inl ''reset''))), (ge 17 ''x'', AgAdvReply ReDone),
      (ge 5017 ''x'', AgAlarmFires)]"

text \<open>
  When releasing the lease fails after every prompt has been delivered, the failure is
  handled as one of dispatch: the session goes back to \<open>queued\<close> with its error, the alarm
  finds an empty queue and returns, and nothing is left that would correct the phase: no
  alarm, no handler, nothing pending. No handler holds an outdated copy in this execution.
\<close>

theorem empty_queue_left_queued:
  "\<exists>c s. reach ag_init calm_step c \<and> sg_state c = Some s \<and> ag_phase s = Queued \<and>
     ag_lastError s = Some ''reset'' \<and> ag_pending s = [] \<and> map pp_id (sg_accepted c) = [''p1''] \<and>
     sg_alarm c = None \<and> sg_adv c = None \<and> sg_arms c = []"
proof -
  have "map_option (\<lambda>c. (seen c, sg_alarm c, sg_adv c, sg_arms c)) (calmExec exAgent exEndWorkFails) =
      Some (([''p1''], [''p1''], Some ([], Queued, Some ''reset'')), None, None, [])" by code_simp
  from calmExec_observe[OF this] show ?thesis by (auto simp: seen_def)
qed

end
