(* ===== verification/Session_Properties.thy ===== *)
theory Session_Properties
  imports Session_Model Lifecycle_State
begin

text \<open>
  Properties of the session vocabulary: what survives the validation of prompts and
  attachments, the order of precedence of the badge, and the cached runtime status.
\<close>

section \<open>Attachments\<close>

lemma collect_step:
  assumes "collectAttachmentKeys (entry # es) keys = Some ks"
  obtains k where "isAttachmentUploadKey (JStr k)" and "k \<notin> set keys"
    and "collectAttachmentKeys es (keys @ [k]) = Some ks"
proof (cases "attachmentEntryKey entry")
  case (JStr k)
  with assms that[of k] show ?thesis by (simp add: Let_def split: if_splits)
qed (use assms in \<open>simp_all add: isAttachmentUploadKey_def\<close>)

lemma collectAttachmentKeys_ok:
  assumes "collectAttachmentKeys es keys = Some ks" and "distinct keys"
    and "\<forall>k \<in> set keys. isAttachmentUploadKey (JStr k)"
  shows "distinct ks \<and> length ks = length keys + length es \<and>
    (\<forall>k \<in> set ks. isAttachmentUploadKey (JStr k))"
  using assms
proof (induction es arbitrary: keys)
  case (Cons entry es)
  from collect_step[OF Cons.prems(1)] obtain k where k: "isAttachmentUploadKey (JStr k)"
    "k \<notin> set keys" "collectAttachmentKeys es (keys @ [k]) = Some ks" .
  from Cons.IH[OF k(3)] k(1,2) Cons.prems(2,3) show ?case by simp
qed simp

lemma uuid_chars:
  assumes "is_uuid s"
  shows "CHR ''/'' \<notin> set s \<and> CHR ''.'' \<notin> set s"
proof -
  have "set s \<subseteq> insert (CHR ''-'') (\<Union>w \<in> set (split_on (CHR ''-'') s). set w)"
  proof (induction s)
    case (Cons x xs)
    then show ?case by (cases "split_on (CHR ''-'') xs") auto
  qed simp
  moreover have "\<not> is_hex (CHR ''/'')" "\<not> is_hex (CHR ''.'')" by code_simp+
  ultimately show ?thesis using assms by (auto simp: is_uuid_def list_all_iff)
qed

text \<open>
  The keys of a prompt's attachments name uploads and nothing else: whatever a client
  sends, if it is accepted it is a list of at most four different keys, each of them
  \<open>uploads/\<close> followed by an id without slashes or dots, so that no key can name another
  object of the bucket, and none would be delivered twice.
\<close>

theorem attachment_keys_are_uploads:
  assumes "normalizeAttachmentKeys v = Some ks"
  shows "distinct ks \<and> length ks \<le> MAX_SESSION_ATTACHMENTS \<and>
    (\<forall>k \<in> set ks. \<exists>i. k = attachmentUploadKey i \<and> is_uuid i \<and>
       CHR ''/'' \<notin> set i \<and> CHR ''.'' \<notin> set i)"
proof -
  have key: "\<exists>i. k = attachmentUploadKey i \<and> is_uuid i \<and> CHR ''/'' \<notin> set i \<and> CHR ''.'' \<notin> set i"
    if "isAttachmentUploadKey (JStr k)" for k
  proof -
    from that obtain i where "k = ''uploads/'' @ i" and "is_uuid i"
      by (auto simp: isAttachmentUploadKey_def starts_with_iff)
    then show ?thesis using uuid_chars[of i] by (auto simp: attachmentUploadKey_def)
  qed
  show ?thesis
  proof (cases v)
    case (JArr es)
    with assms have "length es \<le> MAX_SESSION_ATTACHMENTS" "collectAttachmentKeys es [] = Some ks"
      by (auto simp: normalizeAttachmentKeys_def split: if_splits)
    with collectAttachmentKeys_ok[OF this(2)] key show ?thesis by simp
  qed (use assms in \<open>auto simp: normalizeAttachmentKeys_def\<close>)
qed

lemma attachment_keys_are_uploads_witness:
  "normalizeAttachmentKeys (JArr [JStr ''uploads/01234567-89ab-cdef-0123-456789abcdef'']) =
     Some [''uploads/01234567-89ab-cdef-0123-456789abcdef''] \<and>
   distinct [''uploads/01234567-89ab-cdef-0123-456789abcdef'']"
proof -
  have 1: "normalizeAttachmentKeys (JArr [JStr ''uploads/01234567-89ab-cdef-0123-456789abcdef'']) =
     Some [''uploads/01234567-89ab-cdef-0123-456789abcdef'']" by code_simp
  from attachment_keys_are_uploads[OF this] 1 show ?thesis by blast
qed

lemma basename_chars: "set (basename s) \<subseteq> {c. c \<noteq> CHR ''/'' \<and> c \<noteq> CHR 0x5C}"
  by (auto simp: basename_def dest: set_takeWhileD)

text \<open>
  A stored file name is only a name: not empty, at most 128 characters, without slash,
  backslash or control character, whatever path or bytes the client sent.
\<close>

theorem attachment_filename_is_safe:
  assumes "normalizeAttachmentFilename v = Some f"
  shows "f \<noteq> [] \<and> length f \<le> MAX_SESSION_ATTACHMENT_FILENAME_LENGTH \<and>
    (\<forall>c \<in> set f. c \<noteq> CHR ''/'' \<and> c \<noteq> CHR 0x5C \<and> \<not> is_control c)"
proof -
  from assms obtain s where f: "f = take MAX_SESSION_ATTACHMENT_FILENAME_LENGTH
      (trim (filter (\<lambda>c. \<not> is_control c) (basename s)))" and "f \<noteq> []"
    by (auto simp: normalizeAttachmentFilename_def Let_def split: option.splits if_splits)
  have "set f \<subseteq> set (filter (\<lambda>c. \<not> is_control c) (basename s))"
    unfolding f using set_take_subset set_trim by fast
  with basename_chars[of s] \<open>f \<noteq> []\<close> show ?thesis by (auto simp: f)
qed

lemma attachment_filename_is_safe_witness:
  "\<exists>f. normalizeAttachmentFilename (JStr ''../a/b.png'') = Some f \<and> CHR ''/'' \<notin> set f"
proof -
  have "normalizeAttachmentFilename (JStr ''../a/b.png'') = Some ''b.png''" by code_simp
  from attachment_filename_is_safe[OF this] this show ?thesis by blast
qed

section \<open>The list's cache\<close>

text \<open>
  The cache of the session list: after a lifecycle has been mirrored to a row, the list
  rebuilds a status with exactly that lifecycle without asking anybody, marks the container
  as running exactly where the mirrored status says so, and keeps asking live precisely while
  the row is ready and either a dispatch is unfinished or the lifecycle may still change by
  itself, which is so for all but idle and sleeping.
\<close>

theorem cached_status_follows_mirror:
  "(let s' = patchSessionRuntimeStatus now
        \<lparr>rp_runtimeLifecycle = l, rp_container = ct, rp_statusQuery = None\<rparr> s in
    \<exists>r. runtimeStatusFromSessionCache s' i = Some r \<and> rs_lifecycle r = l \<and>
      rs_container r = nullish ct (containerHintForRuntimeLifecycle l) \<and>
      rs_deleting r = False \<and> rs_provider r = ir_provider i \<and>
      (sessionNeedsLiveStatusQuery s' i \<longleftrightarrow> ir_lifecycle i = Ready \<and>
         (sr_phase s = Queued \<or> sr_phase s = Starting \<or> (l \<noteq> RIdle \<and> l \<noteq> RSleeping))) \<and>
      sr_updatedAt s' = sr_updatedAt s)"
  by (simp add: patchSessionRuntimeStatus_def runtimeStatusFromSessionCache_def Let_def
      sessionNeedsLiveStatusQuery_def runtimeLifecycleNeedsStatusQuery_def)

end
