(* ===== verification/Request_Validation.thy ===== *)
theory Request_Validation
  imports Session_Model
begin

text \<open>
  What requests and GitHub may name: the validators of \<open>src/repos.ts\<close>, \<open>src/http.ts\<close> and
  \<open>src/question-requests.ts\<close>, and the walk of \<open>src/session-lineage.ts\<close> from a subagent's
  session up to the session it belongs to. Regular expressions are written out as conditions
  on the characters.
\<close>

section \<open>Repositories\<close>

definition ARTIFACTS_DIRECTORY_NAME :: string where
  "ARTIFACTS_DIRECTORY_NAME = ''artifacts''"

definition REPO_WORKSPACE_ROOT :: string where
  "REPO_WORKSPACE_ROOT = ''/workspace''"

definition workspaceDirectory :: "string option \<Rightarrow> string" where
  "workspaceDirectory repoKey =
     (if truthy_str repoKey then REPO_WORKSPACE_ROOT @ ''/'' @ the repoKey else REPO_WORKSPACE_ROOT)"

definition repo_key_char :: "char \<Rightarrow> bool" where
  "repo_key_char c = (is_lower c \<or> is_digit c \<or> c = CHR ''-'')"

definition SAFE_REPO_KEY :: "string \<Rightarrow> bool" where
  "SAFE_REPO_KEY s = (case s of [] \<Rightarrow> False
     | c # cs \<Rightarrow> (is_lower c \<or> is_digit c) \<and> length cs \<le> 63 \<and> list_all repo_key_char cs)"

definition is_alnum :: "char \<Rightarrow> bool" where
  "is_alnum c = (is_lower c \<or> is_upper c \<or> is_digit c)"

definition SAFE_GIT_REF :: "string \<Rightarrow> bool" where
  "SAFE_GIT_REF s = (1 \<le> length s \<and> length s \<le> 255 \<and>
     list_all (\<lambda>c. is_alnum c \<or> c \<in> set ''._/-'') s)"

definition clone_url_char :: "char \<Rightarrow> bool" where
  "clone_url_char c = (is_alnum c \<or> c \<in> set ''._/:@-'')"

definition SAFE_CLONE_URL :: "string \<Rightarrow> bool" where
  "SAFE_CLONE_URL s = (\<exists>p \<in> {''https://'', ''git@''}.
     starts_with s p \<and> drop (length p) s \<noteq> [] \<and> list_all clone_url_char (drop (length p) s))"

definition isSafeRepoKey :: "json \<Rightarrow> bool" where
  "isSafeRepoKey v =
     (case the_str v of None \<Rightarrow> False
      | Some s \<Rightarrow> SAFE_REPO_KEY s \<and> \<not> contains s ''..'' \<and> s \<noteq> ARTIFACTS_DIRECTORY_NAME)"

text \<open>An array is an object without these properties, so it is refused as well.\<close>

definition isSafeRepoDefinition :: "json \<Rightarrow> bool" where
  "isSafeRepoDefinition v =
     (case v of
        JObj kvs \<Rightarrow>
          isSafeRepoKey (field kvs ''repoKey'') \<and>
          (case the_str (field kvs ''displayName'') of None \<Rightarrow> False
           | Some d \<Rightarrow> length d > 0 \<and> length d \<le> 200) \<and>
          (case the_str (field kvs ''defaultBranch'') of None \<Rightarrow> False | Some b \<Rightarrow> SAFE_GIT_REF b) \<and>
          (case the_str (field kvs ''cloneUrl'') of None \<Rightarrow> False | Some u \<Rightarrow> SAFE_CLONE_URL u)
      | _ \<Rightarrow> False)"

text \<open>The suffix \<open>.git\<close>, then trailing slashes, are dropped before the owner is read.\<close>

definition stripGitSuffix :: "string \<Rightarrow> string" where
  "stripGitSuffix u =
     (let v = (if suffix ''.git'' u then take (length u - 4) u else u)
      in rev (dropWhile (\<lambda>c. c = CHR ''/'') (rev v)))"

definition repoOwnerFromCloneUrl :: "string \<Rightarrow> string option" where
  "repoOwnerFromCloneUrl cloneUrl =
     (let u = stripGitSuffix cloneUrl in
      if starts_with u ''https://'' then
        (case split_on (CHR ''/'') (drop 8 u) of
           [host, owner, repo] \<Rightarrow> if host \<noteq> [] \<and> owner \<noteq> [] \<and> repo \<noteq> [] then Some owner else None
         | _ \<Rightarrow> None)
      else if starts_with u ''git@'' then
        (case split_on (CHR '':'') (drop 4 u) of
           host # w # ws \<Rightarrow>
             (case split_on (CHR ''/'') (join_with '':'' (w # ws)) of
                [owner, repo] \<Rightarrow> if host \<noteq> [] \<and> owner \<noteq> [] \<and> repo \<noteq> [] then Some owner else None
              | _ \<Rightarrow> None)
         | _ \<Rightarrow> None)
      else None)"

section \<open>Routes\<close>

definition isSafeInstanceId :: "string \<Rightarrow> bool" where
  "isSafeInstanceId s =
     (s \<noteq> [] \<and> length s \<le> 63 \<and> list_all repo_key_char s \<and>
      hd s \<noteq> CHR ''-'' \<and> last s \<noteq> CHR ''-'')"

text \<open>A version 4 UUID in either case.\<close>

definition isSafeRuntimeEpoch :: "string \<Rightarrow> bool" where
  "isSafeRuntimeEpoch s =
     (let t = map lower_char s in
      is_uuid t \<and> t ! 14 = CHR ''4'' \<and> t ! 19 \<in> set ''89ab'')"

text \<open>Header names are lower case, as \<open>Headers\<close> keeps them.\<close>

type_synonym headers = "(string \<times> string) list"

definition FORWARD_BLOCKED_COOKIES :: "string list" where
  "FORWARD_BLOCKED_COOKIES = [''cf_authorization='', ''hub_admin='']"

definition blockedCookie :: "string \<Rightarrow> bool" where
  "blockedCookie part =
     (\<exists>b \<in> set FORWARD_BLOCKED_COOKIES. starts_with (map lower_char part) b)"

definition sanitizeCookie :: "string \<Rightarrow> string" where
  "sanitizeCookie cookie =
     join_with ''; '' (filter (\<lambda>part. \<not> blockedCookie part) (map trim (split_on (CHR '';'') cookie)))"

definition stripAccessCredentials :: "headers \<Rightarrow> headers" where
  "stripAccessCredentials headers =
     (let hs = filter (\<lambda>(n, v). \<not> (starts_with (map lower_char n) ''cf-access-'' \<or>
                 map lower_char n = ''cf-authorization'')) headers
      in case map_of hs ''cookie'' of
           None \<Rightarrow> hs
         | Some cookie \<Rightarrow>
             (if cookie = [] then hs
              else if sanitizeCookie cookie \<noteq> []
                then AList.update ''cookie'' (sanitizeCookie cookie) hs
              else AList.delete ''cookie'' hs))"

section \<open>Questions\<close>

definition MAX_QUESTIONS :: nat where
  "MAX_QUESTIONS = 32"

definition MAX_ANSWERS_PER_QUESTION :: nat where
  "MAX_ANSWERS_PER_QUESTION = 32"

definition MAX_ANSWER_LENGTH :: nat where
  "MAX_ANSWER_LENGTH = 2000"

definition REQUEST_ID_PATTERN :: "string \<Rightarrow> bool" where
  "REQUEST_ID_PATTERN s = (1 \<le> length s \<and> length s \<le> 128 \<and>
     list_all (\<lambda>c. is_alnum c \<or> c \<in> set ''_.-'') s)"

datatype question_action =
    Reply string "string list list"
  | Reject string

text \<open>One question's answers: each a string of bounded length, not empty.\<close>

definition answerEntry :: "json \<Rightarrow> string list option" where
  "answerEntry entry =
     (case entry of
        JArr xs \<Rightarrow>
          (if length xs > MAX_ANSWERS_PER_QUESTION then None
           else if list_all (\<lambda>a. case the_str a of None \<Rightarrow> False
                     | Some s \<Rightarrow> length s \<noteq> 0 \<and> length s \<le> MAX_ANSWER_LENGTH) xs
             then Some (map (\<lambda>a. the (the_str a)) xs)
           else None)
      | _ \<Rightarrow> None)"

fun collectAnswers :: "json list \<Rightarrow> string list list option" where
  "collectAnswers [] = Some []"
| "collectAnswers (e # es) =
     (case answerEntry e of None \<Rightarrow> None
      | Some a \<Rightarrow> (case collectAnswers es of None \<Rightarrow> None | Some as' \<Rightarrow> Some (a # as')))"

definition normalizeAnswers :: "json \<Rightarrow> string list list option" where
  "normalizeAnswers v =
     (case v of
        JArr es \<Rightarrow>
          (if length es = 0 \<or> length es > MAX_QUESTIONS then None
           else case collectAnswers es of
                  None \<Rightarrow> None
                | Some answers \<Rightarrow> if list_all (\<lambda>a. a = []) answers then None else Some answers)
      | _ \<Rightarrow> None)"

definition normalizeQuestionAction :: "json \<Rightarrow> question_action option" where
  "normalizeQuestionAction v =
     (case v of
        JObj kvs \<Rightarrow>
          (case the_str (field kvs ''requestID'') of
             None \<Rightarrow> None
           | Some rid \<Rightarrow>
               (if \<not> REQUEST_ID_PATTERN rid then None
                else if field kvs ''reject'' = JBool True
                  then (if field kvs ''answers'' = JUndefined then Some (Reject rid) else None)
                else if field kvs ''reject'' \<noteq> JUndefined \<and> field kvs ''reject'' \<noteq> JBool False
                  then None
                else map_option (Reply rid) (normalizeAnswers (field kvs ''answers''))))
      | _ \<Rightarrow> None)"

section \<open>Lineage\<close>

record session_entry =
  se_id :: string
  se_title :: string
  se_agent :: "string option"
  se_parentID :: "string option"

definition MAX_LINEAGE_DEPTH :: nat where
  "MAX_LINEAGE_DEPTH = 10"

text \<open>
  The loop: \<open>fuel\<close> hops are left. \<open>read\<close> is what OpenCode answers at each hop; nothing is
  assumed of it, not even that two hops see the same sessions.
\<close>

fun walkLoop ::
  "(nat \<Rightarrow> string \<Rightarrow> session_entry option) \<Rightarrow> string \<Rightarrow> nat \<Rightarrow> string \<Rightarrow> string list
     \<Rightarrow> session_entry list \<Rightarrow> session_entry list option" where
  "walkLoop read rootId 0 current seen chain = None"
| "walkLoop read rootId (Suc fuel) current seen chain =
     (if current \<in> set seen then None
      else case read fuel current of
        None \<Rightarrow> None
      | Some entry \<Rightarrow>
          (if se_id entry = rootId then Some (entry # chain)
           else if \<not> truthy_str (se_parentID entry) then None
           else walkLoop read rootId fuel (the (se_parentID entry)) (current # seen) (entry # chain)))"

definition walkSessionLineage ::
  "string \<Rightarrow> string \<Rightarrow> (nat \<Rightarrow> string \<Rightarrow> session_entry option) \<Rightarrow> session_entry list option" where
  "walkSessionLineage sessionId rootId read =
     walkLoop read rootId (MAX_LINEAGE_DEPTH + 1) sessionId [] []"

definition isSafeOpencodeSessionId :: "json \<Rightarrow> bool" where
  "isSafeOpencodeSessionId v =
     (case the_str v of None \<Rightarrow> False
      | Some s \<Rightarrow> 1 \<le> length s \<and> length s \<le> 128 \<and>
          list_all (\<lambda>c. is_alnum c \<or> c = CHR ''_'' \<or> c = CHR ''-'') s)"

text \<open>A path upwards: each entry names as its parent the session read for the entry above.\<close>

fun linked :: "string \<Rightarrow> (nat \<Rightarrow> string \<Rightarrow> session_entry option) \<Rightarrow> session_entry list \<Rightarrow> bool" where
  "linked sid read [] = False"
| "linked sid read [e] = (\<exists>n. read n sid = Some e)"
| "linked sid read (e # e' # es) =
     ((\<exists>n. read n sid = Some e) \<and>
      (case se_parentID e of None \<Rightarrow> False | Some p \<Rightarrow> linked p read (e' # es)))"

lemma walkLoop_ok:
  assumes "walkLoop read rootId fuel current seen chain = Some r"
  shows "\<exists>up. r = rev up @ chain \<and> linked current read up \<and> se_id (last up) = rootId \<and>
    up \<noteq> [] \<and> length up \<le> fuel \<and> (\<forall>e \<in> set (butlast up). se_id e \<noteq> rootId)"
  using assms
proof (induction read rootId fuel current seen chain rule: walkLoop.induct)
  case (2 read rootId fuel current seen chain)
  from "2.prems" obtain e where e: "read fuel current = Some e" "current \<notin> set seen"
    by (auto split: if_splits option.splits)
  show ?case
  proof (cases "se_id e = rootId")
    case True
    with "2.prems" e show ?thesis by (intro exI[of _ "[e]"]) auto
  next
    case False
    with "2.prems" e obtain p where p: "se_parentID e = Some p" "truthy_str (se_parentID e)"
      and w: "walkLoop read rootId fuel p (current # seen) (e # chain) = Some r"
      by (auto split: if_splits dest: truthy_strD)
    have "walkLoop read rootId fuel (the (se_parentID e)) (current # seen) (e # chain) = Some r"
      using p w by simp
    from "2.IH"[OF e(2,1) False _ this] p obtain up where up: "r = rev up @ e # chain"
      "linked p read up" "se_id (last up) = rootId" "up \<noteq> []" "length up \<le> fuel"
      "\<forall>x \<in> set (butlast up). se_id x \<noteq> rootId" by auto
    then obtain u us where u: "up = u # us" by (cases up) auto
    show ?thesis
      by (intro exI[of _ "e # up"]) (use up u p e False in auto)
  qed
qed simp

text \<open>
  A subagent's transcript is shown only below its own session: when the walk succeeds, the
  path it returns starts at the root session of the container, ends at an entry read for the
  requested id, links each session to the parent it names, contains the root only once, and
  has at most eleven entries; it asks OpenCode at most eleven times whatever it is answered.
\<close>

theorem lineage_reaches_root:
  assumes "walkSessionLineage sessionId rootId read = Some r"
  shows "linked sessionId read (rev r) \<and> se_id (hd r) = rootId \<and>
    length r \<le> MAX_LINEAGE_DEPTH + 1 \<and> (\<forall>e \<in> set (tl r). se_id e \<noteq> rootId)"
proof -
  from walkLoop_ok[OF assms[unfolded walkSessionLineage_def]] obtain up where
    up: "r = rev up" "linked sessionId read up" "se_id (last up) = rootId" "up \<noteq> []"
      "length up \<le> MAX_LINEAGE_DEPTH + 1" "\<forall>e \<in> set (butlast up). se_id e \<noteq> rootId" by auto
  from up(4) obtain us u where "up = us @ [u]" by (cases up rule: rev_cases) auto
  with up show ?thesis by simp
qed

definition exRead :: "nat \<Rightarrow> string \<Rightarrow> session_entry option" where
  "exRead n i = (if i = ''child'' then Some \<lparr>se_id = ''child'', se_title = [], se_agent = None,
       se_parentID = Some ''root''\<rparr>
     else if i = ''root'' then Some \<lparr>se_id = ''root'', se_title = [], se_agent = None,
       se_parentID = None\<rparr> else None)"

lemma lineage_reaches_root_witness:
  "\<exists>r. walkSessionLineage ''child'' ''root'' exRead = Some r \<and> se_id (hd r) = ''root''"
proof -
  have "walkSessionLineage ''child'' ''root'' exRead \<noteq> None" by code_simp
  then obtain r where "walkSessionLineage ''child'' ''root'' exRead = Some r" by blast
  with lineage_reaches_root[OF this] show ?thesis by blast
qed

section \<open>What validation lets through\<close>

lemma collectAnswers_ok:
  "collectAnswers es = Some as' \<Longrightarrow> length as' = length es \<and>
     (\<forall>a \<in> set as'. length a \<le> MAX_ANSWERS_PER_QUESTION \<and>
        (\<forall>s \<in> set a. s \<noteq> [] \<and> length s \<le> MAX_ANSWER_LENGTH))"
proof (induction es arbitrary: as')
  case (Cons e es)
  then obtain a bs where a: "answerEntry e = Some a" "collectAnswers es = Some bs" "as' = a # bs"
    by (auto split: option.splits)
  from a(1) have "length a \<le> MAX_ANSWERS_PER_QUESTION \<and>
      (\<forall>s \<in> set a. s \<noteq> [] \<and> length s \<le> MAX_ANSWER_LENGTH)"
    by (cases e) (fastforce simp: answerEntry_def list_all_iff split: if_splits option.splits)+
  with Cons.IH[OF a(2)] a(3) show ?case by auto
qed simp

text \<open>
  What a browser may send to the container as an answer is bounded and unambiguous: at
  most 32 questions of at most 32 answers of at most 2000 characters, something answered, for
  a request id of at most 128 harmless characters; a body that both answers and rejects is
  refused.
\<close>

theorem question_action_bounded:
  assumes "normalizeQuestionAction (JObj kvs) = Some act"
  shows "(\<forall>rid. act = Reject rid \<longrightarrow> REQUEST_ID_PATTERN rid \<and> field kvs ''answers'' = JUndefined) \<and>
    (\<forall>rid as'. act = Reply rid as' \<longrightarrow> REQUEST_ID_PATTERN rid \<and> field kvs ''reject'' \<noteq> JBool True \<and>
       1 \<le> length as' \<and> length as' \<le> MAX_QUESTIONS \<and> (\<exists>a \<in> set as'. a \<noteq> []) \<and>
       (\<forall>a \<in> set as'. length a \<le> MAX_ANSWERS_PER_QUESTION \<and>
          (\<forall>s \<in> set a. s \<noteq> [] \<and> length s \<le> MAX_ANSWER_LENGTH)))"
proof -
  have ans: "1 \<le> length as' \<and> length as' \<le> MAX_QUESTIONS \<and> (\<exists>a \<in> set as'. a \<noteq> []) \<and>
       (\<forall>a \<in> set as'. length a \<le> MAX_ANSWERS_PER_QUESTION \<and>
          (\<forall>s \<in> set a. s \<noteq> [] \<and> length s \<le> MAX_ANSWER_LENGTH))"
    if "normalizeAnswers v = Some as'" for v as'
  proof (cases v)
    case (JArr es)
    with that have es: "length es \<noteq> 0" "length es \<le> MAX_QUESTIONS" "collectAnswers es = Some as'"
      "\<not> list_all (\<lambda>a. a = []) as'"
      by (auto simp: normalizeAnswers_def split: if_splits option.splits)
    from collectAnswers_ok[OF es(3)] es(1,2,4) show ?thesis by (auto simp: list_all_iff Suc_le_eq)
  qed (use that in \<open>auto simp: normalizeAnswers_def\<close>)
  from assms ans show ?thesis
    by (auto simp: normalizeQuestionAction_def split: option.splits if_splits)
qed

lemma question_action_bounded_witness:
  "normalizeQuestionAction (JObj [(''requestID'', JStr ''q1''), (''reject'', JBool True)]) =
     Some (Reject ''q1'') \<and> REQUEST_ID_PATTERN ''q1''"
proof -
  have 1: "normalizeQuestionAction (JObj [(''requestID'', JStr ''q1''), (''reject'', JBool True)]) =
     Some (Reject ''q1'')" by code_simp
  from question_action_bounded[OF this] 1 show ?thesis by blast
qed

end
