(* ===== verification/Hub_Registry.thy ===== *)
theory Hub_Registry
  imports Request_Validation Session_Agent Model_Catalog "HOL-Library.Product_Lexorder"
begin

text \<open>
  The session registry of \<open>src/hub-store.ts\<close>, \<open>src/hub-rows.ts\<close> and \<open>src/db/schema.ts\<close>:
  one row per session in a table with the id as its primary key. A table is the list of its
  rows; every statement of the store is one function on it, as each is one statement of SQL.
  A JSON column is represented by what \<open>JSON.parse\<close> reads from its text.
\<close>

section \<open>The row and its two projections\<close>

record session_row =
  rw_id :: string
  rw_name :: string
  rw_repoKey :: string
  rw_repoJson :: "json_text option"
  rw_lifecycle :: instance_lifecycle
  rw_lifecycleError :: "string option"
  rw_deleteOperationId :: "string option"
  rw_provider :: session_provider
  rw_directory :: "string option"
  rw_model :: string
  rw_variant :: "string option"
  rw_title :: string
  rw_titleLocked :: nat
  rw_opencodeSessionId :: "string option"
  rw_phase :: session_phase
  rw_pendingPromptCount :: nat
  rw_lastError :: "string option"
  rw_lastPromptAt :: "millis option"
  rw_cleanedAt :: "millis option"
  rw_unreadAt :: "millis option"
  rw_pinnedAt :: "millis option"
  rw_bootStep :: "boot_step option"
  rw_runtimeLifecycle :: "runtime_lifecycle option"
  rw_container :: "container_status option"
  rw_statusQuery :: nat
  rw_statusObservedAt :: "millis option"
  rw_createdAt :: millis
  rw_updatedAt :: millis

type_synonym registry = "session_row list"

definition repoFromJson :: "(string \<times> json) list \<Rightarrow> repo_definition" where
  "repoFromJson kvs =
     \<lparr>rd_repoKey = nullish (the_str (field kvs ''repoKey'')) [],
      rd_displayName = nullish (the_str (field kvs ''displayName'')) [],
      rd_cloneUrl = nullish (the_str (field kvs ''cloneUrl'')) [],
      rd_defaultBranch = nullish (the_str (field kvs ''defaultBranch'')) []\<rparr>"

definition repoToJson :: "repo_definition \<Rightarrow> json" where
  "repoToJson rd = JObj [(''repoKey'', JStr (rd_repoKey rd)), (''displayName'', JStr (rd_displayName rd)),
     (''cloneUrl'', JStr (rd_cloneUrl rd)), (''defaultBranch'', JStr (rd_defaultBranch rd))]"

definition parseRepoJson :: "json_text option \<Rightarrow> repo_definition option" where
  "parseRepoJson value' =
     (case value' of
        Some (Text (JObj kvs)) \<Rightarrow>
          if isSafeRepoDefinition (JObj kvs) then Some (repoFromJson kvs) else None
      | _ \<Rightarrow> None)"

definition non_empty :: "string \<Rightarrow> string option" where
  "non_empty s = (if s = [] then None else Some s)"

definition rowToInstance :: "session_row \<Rightarrow> instance_record" where
  "rowToInstance row =
     \<lparr>ir_id = rw_id row, ir_name = rw_name row, ir_repoKey = non_empty (rw_repoKey row),
      ir_repo = parseRepoJson (rw_repoJson row), ir_provider = rw_provider row,
      ir_lifecycle = rw_lifecycle row, ir_createdAt = rw_createdAt row,
      ir_updatedAt = rw_updatedAt row, ir_lastError = rw_lifecycleError row,
      ir_deleteOperationId = rw_deleteOperationId row\<rparr>"

definition rowToSession :: "session_row \<Rightarrow> session_record" where
  "rowToSession row =
     \<lparr>sr_id = rw_id row, sr_instanceId = rw_id row, sr_repoKey = non_empty (rw_repoKey row),
      sr_directory = rw_directory row, sr_provider = rw_provider row, sr_model = rw_model row,
      sr_variant = rw_variant row, sr_title = rw_title row,
      sr_opencodeSessionId = rw_opencodeSessionId row, sr_phase = rw_phase row,
      sr_pendingPromptCount = rw_pendingPromptCount row, sr_lastError = rw_lastError row,
      sr_lastPromptAt = rw_lastPromptAt row, sr_cleanedAt = rw_cleanedAt row,
      sr_unreadAt = rw_unreadAt row, sr_pinnedAt = rw_pinnedAt row,
      sr_titleLocked = (rw_titleLocked row \<noteq> 0), sr_bootStep = rw_bootStep row,
      sr_runtimeLifecycle = rw_runtimeLifecycle row, sr_container = rw_container row,
      sr_statusQuery = (rw_statusQuery row \<noteq> 0),
      sr_statusObservedAt = rw_statusObservedAt row,
      sr_createdAt = rw_createdAt row, sr_updatedAt = rw_updatedAt row\<rparr>"

section \<open>Statements\<close>

text \<open>\<open>UPDATE sessions SET .. WHERE ..\<close>, and the rows it returns.\<close>

definition updateWhere ::
  "(session_row \<Rightarrow> bool) \<Rightarrow> (session_row \<Rightarrow> session_row) \<Rightarrow> registry \<Rightarrow> registry" where
  "updateWhere P f db = map (\<lambda>r. if P r then f r else r) db"

definition has_id :: "string \<Rightarrow> session_row \<Rightarrow> bool" where
  "has_id i r = (rw_id r = i)"

definition getRow :: "string \<Rightarrow> registry \<Rightarrow> session_row option" where
  "getRow i db = find (has_id i) db"

definition ids :: "registry \<Rightarrow> string list" where
  "ids db = map rw_id db"

section \<open>Creation\<close>

record new_session =
  ns_record :: session_record
  ns_name :: string
  ns_repo :: "repo_definition option"

record new_session_input =
  ni_repo :: "repo_definition option"
  ni_provider :: "session_provider option"
  ni_model :: string
  ni_variant :: "string option"
  ni_title :: string

text \<open>
  \<open>uuid\<close> is what \<open>crypto.randomUUID\<close> answers and \<open>name\<close> the display name; the errors are
  those the function throws.
\<close>

definition buildNewSession ::
  "string \<Rightarrow> string \<Rightarrow> new_session_input \<Rightarrow> model_catalog \<Rightarrow> millis \<Rightarrow> string + new_session" where
  "buildNewSession uuid name inp cat now =
     (if (case ni_repo inp of None \<Rightarrow> False | Some rd \<Rightarrow> \<not> isSafeRepoDefinition (repoToJson rd))
        then Inl ''Unknown repository''
      else if \<not> isModelRef cat (JStr (ni_model inp)) then Inl (''Unknown model: '' @ ni_model inp)
      else let sid = ''inst-'' @ uuid in
        Inr \<lparr>ns_record =
              \<lparr>sr_id = sid, sr_instanceId = sid, sr_repoKey = map_option rd_repoKey (ni_repo inp),
               sr_directory = Some (workspaceDirectory (map_option rd_repoKey (ni_repo inp))),
               sr_provider = nullish (ni_provider inp) ''cloudflare'', sr_model = ni_model inp,
               sr_variant = (if truthy_str (ni_variant inp) then ni_variant inp else None),
               sr_title = ni_title inp, sr_opencodeSessionId = None, sr_phase = Queued,
               sr_pendingPromptCount = 1, sr_lastError = None, sr_lastPromptAt = None,
               sr_cleanedAt = None, sr_unreadAt = None, sr_pinnedAt = None,
               sr_titleLocked = False, sr_bootStep = None, sr_runtimeLifecycle = None,
               sr_container = None, sr_statusQuery = True, sr_statusObservedAt = None,
               sr_createdAt = now, sr_updatedAt = now\<rparr>,
            ns_name = name, ns_repo = ni_repo inp\<rparr>)"

definition newRow :: "new_session \<Rightarrow> session_row" where
  "newRow session =
     (let rec = ns_record session; repo = ns_repo session in
      \<lparr>rw_id = sr_id rec, rw_name = ns_name session,
       rw_repoKey = (case repo of None \<Rightarrow> [] | Some rd \<Rightarrow> rd_repoKey rd),
       rw_repoJson = map_option (\<lambda>rd. Text (repoToJson rd)) repo,
       rw_lifecycle = Ready, rw_lifecycleError = None, rw_deleteOperationId = None,
       rw_provider = sr_provider rec,
       rw_directory = Some (nullish (sr_directory rec) (workspaceDirectory (sr_repoKey rec))),
       rw_model = sr_model rec, rw_variant = sr_variant rec, rw_title = sr_title rec,
       rw_titleLocked = 0, rw_opencodeSessionId = None, rw_phase = sr_phase rec,
       rw_pendingPromptCount = sr_pendingPromptCount rec, rw_lastError = None,
       rw_lastPromptAt = None, rw_cleanedAt = None, rw_unreadAt = None, rw_pinnedAt = None,
       rw_bootStep = None, rw_runtimeLifecycle = None, rw_container = None,
       rw_statusQuery = 1, rw_statusObservedAt = None,
       rw_createdAt = sr_createdAt rec, rw_updatedAt = sr_createdAt rec\<rparr>)"

definition insertSessionRow :: "new_session \<Rightarrow> registry \<Rightarrow> registry" where
  "insertSessionRow session db =
     (if sr_id (ns_record session) \<in> set (ids db) then db else db @ [newRow session])"

section \<open>Field writes\<close>

text \<open>An absent property, \<open>null\<close>, or a value.\<close>

datatype 'a patch_field = Absent | Cleared | SetTo 'a

record state_patch =
  pa_phase :: "session_phase option"
  pa_model :: "string option"
  pa_title :: "string option"
  pa_opencodeSessionId :: "string option"
  pa_pendingPromptCount :: "nat option"
  pa_lastPromptAt :: "millis option"
  pa_variant :: "string patch_field"
  pa_lastError :: "string patch_field"

fun tri_state :: "'a patch_field \<Rightarrow> 'a option \<Rightarrow> 'a option" where
  "tri_state Absent column = column"
| "tri_state Cleared column = None"
| "tri_state (SetTo x) column = Some x"

definition or_keep :: "string option \<Rightarrow> string \<Rightarrow> string" where
  "or_keep s column = (if truthy_str s then the s else column)"

definition sessionPatchAssignments :: "state_patch \<Rightarrow> millis \<Rightarrow> session_row \<Rightarrow> session_row" where
  "sessionPatchAssignments p now r =
     r\<lparr>rw_phase := nullish (pa_phase p) (rw_phase r),
       rw_model := or_keep (pa_model p) (rw_model r),
       rw_title := (if rw_titleLocked r = 0 then or_keep (pa_title p) (rw_title r) else rw_title r),
       rw_opencodeSessionId := (if truthy_str (pa_opencodeSessionId p)
          then pa_opencodeSessionId p else rw_opencodeSessionId r),
       rw_pendingPromptCount := nullish (pa_pendingPromptCount p) (rw_pendingPromptCount r),
       rw_lastPromptAt := (case pa_lastPromptAt p of None \<Rightarrow> rw_lastPromptAt r | Some t \<Rightarrow> Some t),
       rw_variant := tri_state (pa_variant p) (rw_variant r),
       rw_lastError := tri_state (pa_lastError p) (rw_lastError r),
       rw_updatedAt := now\<rparr>"

definition updateSession ::
  "string \<Rightarrow> state_patch \<Rightarrow> millis \<Rightarrow> registry \<Rightarrow> session_record option \<times> registry" where
  "updateSession i p now db =
     (let db' = updateWhere (has_id i) (sessionPatchAssignments p now) db
      in (map_option rowToSession (getRow i db'), db'))"

definition renamed :: "string \<Rightarrow> millis \<Rightarrow> session_row \<Rightarrow> session_row" where
  "renamed title now r = r\<lparr>rw_title := title, rw_titleLocked := 1, rw_updatedAt := now\<rparr>"

definition renameSession ::
  "string \<Rightarrow> string \<Rightarrow> millis \<Rightarrow> registry \<Rightarrow> session_record option \<times> registry" where
  "renameSession i title now db =
     (let db' = updateWhere (has_id i) (renamed title now) db
      in (map_option rowToSession (getRow i db'), db'))"

definition markedUnread :: "millis \<Rightarrow> session_row \<Rightarrow> session_row" where
  "markedUnread at r = r\<lparr>rw_unreadAt := Some (nullish (rw_unreadAt r) at)\<rparr>"

definition markSessionUnread :: "string \<Rightarrow> millis \<Rightarrow> registry \<Rightarrow> registry" where
  "markSessionUnread i at = updateWhere (has_id i) (markedUnread at)"

definition unreadCleared :: "session_row \<Rightarrow> session_row" where
  "unreadCleared r = r\<lparr>rw_unreadAt := None\<rparr>"

definition markSessionRead :: "string \<Rightarrow> millis \<Rightarrow> registry \<Rightarrow> registry" where
  "markSessionRead i seenAt =
     updateWhere (\<lambda>r. has_id i r \<and> rw_unreadAt r = Some seenAt) unreadCleared"

definition clearSessionUnread :: "string \<Rightarrow> registry \<Rightarrow> registry" where
  "clearSessionUnread i = updateWhere (has_id i) unreadCleared"

definition pinnedRow :: "bool \<Rightarrow> millis \<Rightarrow> session_row \<Rightarrow> session_row" where
  "pinnedRow pinned now r =
     r\<lparr>rw_pinnedAt := (if pinned then Some (nullish (rw_pinnedAt r) now) else None)\<rparr>"

definition setSessionPinned ::
  "string \<Rightarrow> bool \<Rightarrow> millis \<Rightarrow> registry \<Rightarrow> session_record option \<times> registry" where
  "setSessionPinned i pinned now db =
     (let db' = updateWhere (has_id i) (pinnedRow pinned now) db
      in (map_option rowToSession (getRow i db'), db'))"

definition bootStepSet :: "boot_step option \<Rightarrow> session_row \<Rightarrow> session_row" where
  "bootStepSet step r = r\<lparr>rw_bootStep := step\<rparr>"

definition setSessionBootStep :: "string \<Rightarrow> boot_step option \<Rightarrow> registry \<Rightarrow> registry" where
  "setSessionBootStep i step = updateWhere (has_id i) (bootStepSet step)"

definition runtimePatched :: "millis \<Rightarrow> runtime_patch \<Rightarrow> session_row \<Rightarrow> session_row" where
  "runtimePatched now p r =
     r\<lparr>rw_runtimeLifecycle := Some (rp_runtimeLifecycle p),
       rw_container := Some (nullish (rp_container p)
         (containerHintForRuntimeLifecycle (rp_runtimeLifecycle p))),
       rw_statusQuery := of_bool (nullish (rp_statusQuery p)
         (runtimeLifecycleNeedsStatusQuery (rp_runtimeLifecycle p))),
       rw_statusObservedAt := Some now\<rparr>"

definition statusQueryMarked :: "session_row \<Rightarrow> session_row" where
  "statusQueryMarked r = r\<lparr>rw_statusQuery := 1\<rparr>"

text \<open>The row's writers that are not the Hub's queue, as one command each.\<close>

datatype row_write =
    WritePatch string state_patch
  | WriteTitle string string
  | WriteUnread string millis
  | WriteRead string millis
  | WriteSeen string
  | WritePinned string bool
  | WriteBootStep string "boot_step option"
  | WriteRuntime string runtime_patch
  | WriteStatusQuery string

fun applyWrite :: "row_write \<Rightarrow> millis \<Rightarrow> registry \<Rightarrow> registry" where
  "applyWrite (WritePatch i p) now db = snd (updateSession i p now db)"
| "applyWrite (WriteTitle i title) now db = snd (renameSession i title now db)"
| "applyWrite (WriteUnread i at) now db = markSessionUnread i at db"
| "applyWrite (WriteRead i seenAt) now db = markSessionRead i seenAt db"
| "applyWrite (WriteSeen i) now db = clearSessionUnread i db"
| "applyWrite (WritePinned i b) now db = snd (setSessionPinned i b now db)"
| "applyWrite (WriteBootStep i step) now db = setSessionBootStep i step db"
| "applyWrite (WriteRuntime i p) now db = updateWhere (has_id i) (runtimePatched now p) db"
| "applyWrite (WriteStatusQuery i) now db = updateWhere (has_id i) statusQueryMarked db"

section \<open>The deletion and cleanup queues\<close>

definition claimedFor :: "instance_lifecycle \<Rightarrow> session_row \<Rightarrow> bool" where
  "claimedFor l r = (rw_lifecycle r = l \<and> rw_deleteOperationId r \<noteq> None)"

definition fencedOn :: "string \<Rightarrow> string \<Rightarrow> session_row \<Rightarrow> bool" where
  "fencedOn i op r = (rw_id r = i \<and> rw_deleteOperationId r = Some op)"

definition deleteClaim :: "string \<Rightarrow> millis \<Rightarrow> session_row \<Rightarrow> session_row" where
  "deleteClaim op now r =
     r\<lparr>rw_lifecycle := RowDeleting, rw_deleteOperationId := Some op, rw_lifecycleError := None,
       rw_updatedAt := now\<rparr>"

text \<open>The claim of \<open>beginDelete\<close>; the poke and the RPC that follow are steps of the Hub.\<close>

definition beginDeleteClaim ::
  "string \<Rightarrow> string \<Rightarrow> millis \<Rightarrow> registry \<Rightarrow> instance_record option \<times> registry" where
  "beginDeleteClaim i op now db =
     (let db' = updateWhere (\<lambda>r. has_id i r \<and> \<not> claimedFor RowDeleting r) (deleteClaim op now) db
      in (map_option rowToInstance (getRow i db'), db'))"

text \<open>The first of the rows with the least \<open>updated_at\<close>.\<close>

fun oldest :: "registry \<Rightarrow> session_row option" where
  "oldest [] = None"
| "oldest (r # rs) =
     (case oldest rs of
        None \<Rightarrow> Some r
      | Some s \<Rightarrow> if rw_updatedAt r \<le> rw_updatedAt s then Some r else Some s)"

definition nextPending :: "instance_lifecycle \<Rightarrow> registry \<Rightarrow> session_row option" where
  "nextPending l db = oldest (filter (claimedFor l) db)"

definition nextPendingDeletion :: "registry \<Rightarrow> instance_record option" where
  "nextPendingDeletion db = map_option rowToInstance (nextPending RowDeleting db)"

definition nextPendingCleanup :: "registry \<Rightarrow> instance_record option" where
  "nextPendingCleanup db = map_option rowToInstance (nextPending Cleaning db)"

definition hasPendingDeletion :: "registry \<Rightarrow> bool" where
  "hasPendingDeletion db = (\<exists>r \<in> set db. claimedFor RowDeleting r)"

definition hasPendingCleanup :: "registry \<Rightarrow> bool" where
  "hasPendingCleanup db = (\<exists>r \<in> set db. claimedFor Cleaning r)"

definition deleteFailed :: "string \<Rightarrow> millis \<Rightarrow> session_row \<Rightarrow> session_row" where
  "deleteFailed err now r =
     r\<lparr>rw_lifecycle := DeleteFailed, rw_lifecycleError := Some err, rw_updatedAt := now\<rparr>"

definition markDeleteFailed :: "string \<Rightarrow> string \<Rightarrow> string \<Rightarrow> millis \<Rightarrow> registry \<Rightarrow> registry" where
  "markDeleteFailed i op err now = updateWhere (fencedOn i op) (deleteFailed err now)"

definition deferred :: "string \<Rightarrow> millis \<Rightarrow> session_row \<Rightarrow> session_row" where
  "deferred msg now r =
     r\<lparr>rw_lifecycleError := Some (msg @ ''; retry scheduled''), rw_updatedAt := now\<rparr>"

definition deferDelete :: "string \<Rightarrow> string \<Rightarrow> string \<Rightarrow> millis \<Rightarrow> registry \<Rightarrow> registry" where
  "deferDelete i op msg now = updateWhere (fencedOn i op) (deferred msg now)"

definition finishDelete :: "string \<Rightarrow> string \<Rightarrow> registry \<Rightarrow> registry" where
  "finishDelete i op = filter (\<lambda>r. \<not> fencedOn i op r)"

definition cleanupEligible :: "millis \<Rightarrow> session_row \<Rightarrow> bool" where
  "cleanupEligible cutoff r =
     ((rw_lifecycle r = Ready \<or> rw_lifecycle r = CleanFailed) \<and>
      rw_pendingPromptCount r = 0 \<and>
      rw_phase r \<noteq> Queued \<and> rw_phase r \<noteq> Starting \<and>
      rw_updatedAt r < cutoff \<and>
      (case rw_lastPromptAt r of None \<Rightarrow> True | Some t \<Rightarrow> t < cutoff) \<and>
      (case rw_runtimeLifecycle r of None \<Rightarrow> False
       | Some l \<Rightarrow> l = RIdle \<or> l = RSleeping \<or> l = RError))"

definition sweepCandidates :: "millis \<Rightarrow> registry \<Rightarrow> string list" where
  "sweepCandidates cutoff db = map rw_id (filter (cleanupEligible cutoff) db)"

definition cleanClaim :: "string \<Rightarrow> session_row \<Rightarrow> session_row" where
  "cleanClaim op r =
     r\<lparr>rw_lifecycle := Cleaning, rw_deleteOperationId := Some op, rw_lifecycleError := None\<rparr>"

text \<open>One claim of the sweep: whether a row was claimed, and the table after it.\<close>

definition sweepClaim :: "millis \<Rightarrow> string \<Rightarrow> string \<Rightarrow> registry \<Rightarrow> bool \<times> registry" where
  "sweepClaim cutoff i op db =
     (let P = (\<lambda>r. has_id i r \<and> cleanupEligible cutoff r)
      in (list_ex P db, updateWhere P (cleanClaim op) db))"

definition cleanedRow :: "millis \<Rightarrow> session_row \<Rightarrow> session_row" where
  "cleanedRow now r =
     r\<lparr>rw_lifecycle := Cleaned, rw_deleteOperationId := None, rw_lifecycleError := None,
       rw_cleanedAt := Some now\<rparr>"

definition finishClean :: "string \<Rightarrow> string \<Rightarrow> millis \<Rightarrow> registry \<Rightarrow> registry" where
  "finishClean i op now = updateWhere (fencedOn i op) (cleanedRow now)"

definition cleanFailed :: "string \<Rightarrow> session_row \<Rightarrow> session_row" where
  "cleanFailed err r = r\<lparr>rw_lifecycle := CleanFailed, rw_lifecycleError := Some err\<rparr>"

definition markCleanFailed :: "string \<Rightarrow> string \<Rightarrow> string \<Rightarrow> registry \<Rightarrow> registry" where
  "markCleanFailed i op err = updateWhere (fencedOn i op) (cleanFailed err)"

section \<open>The list\<close>

text \<open>
  \<open>MAX(updated_at, created_at, COALESCE(last_prompt_at, ''))\<close>: the empty string is below
  every timestamp.
\<close>

definition sessionActivityAt :: "session_row \<Rightarrow> millis" where
  "sessionActivityAt r =
     (let m = max (rw_updatedAt r) (rw_createdAt r)
      in case rw_lastPromptAt r of None \<Rightarrow> m | Some t \<Rightarrow> max m t)"

definition lastActivityAt :: "session_row \<Rightarrow> millis" where
  "lastActivityAt r =
     (case rw_lastPromptAt r of
        None \<Rightarrow> rw_createdAt r
      | Some t \<Rightarrow> if t > rw_createdAt r then t else rw_createdAt r)"

definition pinnedFirst :: "session_row \<Rightarrow> nat" where
  "pinnedFirst r = (if rw_pinnedAt r = None then 1 else 0)"

text \<open>
  The ordering terms as one ascending key; descending terms are negated, and the id, which
  is unique, is compared from the other side by sorting the reversed list.
\<close>

definition listKey :: "session_row \<Rightarrow> nat \<times> millis \<times> millis \<times> string" where
  "listKey r = (1 - pinnedFirst r, sessionActivityAt r, rw_createdAt r, rw_id r)"

definition listRegistry :: "nat option \<Rightarrow> registry \<Rightarrow> (session_record \<times> instance_record) list" where
  "listRegistry limit db =
     (let sorted = rev (sort_key listKey db);
          rows = (case limit of None \<Rightarrow> sorted | Some n \<Rightarrow> take n sorted)
      in map (\<lambda>r. (rowToSession r, rowToInstance r)) rows)"

text \<open>The newest session by creation; ties go to the larger id.\<close>

definition lastModelSelection :: "registry \<Rightarrow> model_selection option" where
  "lastModelSelection db =
     (case rev (sort_key (\<lambda>r. (rw_createdAt r, rw_id r)) db) of
        [] \<Rightarrow> None
      | r # _ \<Rightarrow> Some \<lparr>sel_model = rw_model r,
          sel_variant = (if truthy_str (rw_variant r) then rw_variant r else None)\<rparr>)"

section \<open>What an update of rows keeps\<close>

text \<open>
  Three contracts, each adding to the one before: an update that keeps the row's identity,
  one that also keeps the queue's claim on it, and a marker, which changes nothing that the
  sweep or the order by activity reads.
\<close>

locale row_update =
  fixes f :: "session_row \<Rightarrow> session_row"
  assumes keeps_id: "rw_id (f r) = rw_id r"
begin

lemma ids_kept: "ids (updateWhere P f db) = ids db"
  by (simp add: ids_def updateWhere_def keeps_id)

lemma getRow_after:
  "getRow i (updateWhere P f db) = map_option (\<lambda>r. if P r then f r else r) (getRow i db)"
  by (induction db) (auto simp: getRow_def updateWhere_def has_id_def keeps_id)

lemma unmatched: "(\<And>r. r \<in> set db \<Longrightarrow> \<not> P r) \<Longrightarrow> updateWhere P f db = db"
  by (simp add: updateWhere_def map_idI)

end

locale content_update = row_update +
  assumes keeps_lifecycle: "rw_lifecycle (f r) = rw_lifecycle r"
    and keeps_operation: "rw_deleteOperationId (f r) = rw_deleteOperationId r"
begin

lemma claim_kept: "claimedFor l (f r) = claimedFor l r"
  by (simp add: claimedFor_def keeps_lifecycle keeps_operation)

lemma fence_kept: "fencedOn i op (f r) = fencedOn i op r"
  by (simp add: fencedOn_def keeps_id keeps_operation)

lemma deletions_kept: "hasPendingDeletion (updateWhere P f db) = hasPendingDeletion db"
  by (induction db) (auto simp: hasPendingDeletion_def updateWhere_def claim_kept)

lemma cleanups_kept: "hasPendingCleanup (updateWhere P f db) = hasPendingCleanup db"
  by (induction db) (auto simp: hasPendingCleanup_def updateWhere_def claim_kept)

end

locale marker_update = content_update +
  assumes keeps_times: "rw_updatedAt (f r) = rw_updatedAt r" "rw_createdAt (f r) = rw_createdAt r"
      "rw_lastPromptAt (f r) = rw_lastPromptAt r"
    and keeps_work: "rw_pendingPromptCount (f r) = rw_pendingPromptCount r"
      "rw_phase (f r) = rw_phase r" "rw_runtimeLifecycle (f r) = rw_runtimeLifecycle r"
begin

lemma eligibility_kept: "cleanupEligible cutoff (f r) = cleanupEligible cutoff r"
  by (simp add: cleanupEligible_def keeps_lifecycle keeps_times keeps_work)

lemma activity_kept: "sessionActivityAt (f r) = sessionActivityAt r"
  by (simp add: sessionActivityAt_def keeps_times)

lemma candidates_kept: "sweepCandidates cutoff (updateWhere P f db) = sweepCandidates cutoff db"
  by (induction db) (auto simp: sweepCandidates_def updateWhere_def eligibility_kept keeps_id)

end

interpretation patch_row: content_update "sessionPatchAssignments p now" for p now
  by unfold_locales (simp_all add: sessionPatchAssignments_def)

interpretation rename_row: content_update "renamed title now" for title now
  by unfold_locales (simp_all add: renamed_def)

interpretation runtime_row: content_update "runtimePatched now p" for now p
  by unfold_locales (simp_all add: runtimePatched_def)

interpretation unread_row: marker_update "markedUnread at" for at
  by unfold_locales (simp_all add: markedUnread_def)

interpretation seen_row: marker_update unreadCleared
  by unfold_locales (simp_all add: unreadCleared_def)

interpretation pin_row: marker_update "pinnedRow pinned now" for pinned now
  by unfold_locales (simp_all add: pinnedRow_def)

interpretation boot_row: marker_update "bootStepSet step" for step
  by unfold_locales (simp_all add: bootStepSet_def)

interpretation query_row: marker_update statusQueryMarked
  by unfold_locales (simp_all add: statusQueryMarked_def)

interpretation claim_row: row_update "deleteClaim op now" for op now
  by unfold_locales (simp add: deleteClaim_def)

interpretation clean_row: row_update "cleanClaim op" for op
  by unfold_locales (simp add: cleanClaim_def)

interpretation delete_failed_row: row_update "deleteFailed err now" for err now
  by unfold_locales (simp add: deleteFailed_def)

interpretation deferred_row: content_update "deferred msg now" for msg now
  by unfold_locales (simp_all add: deferred_def)

interpretation cleaned_row: row_update "cleanedRow now" for now
  by unfold_locales (simp add: cleanedRow_def)

interpretation clean_failed_row: row_update "cleanFailed err" for err
  by unfold_locales (simp add: cleanFailed_def)

lemmas write_defs = updateSession_def renameSession_def markSessionUnread_def markSessionRead_def
  clearSessionUnread_def setSessionPinned_def setSessionBootStep_def

lemmas kept_ids = patch_row.ids_kept rename_row.ids_kept runtime_row.ids_kept unread_row.ids_kept
  seen_row.ids_kept pin_row.ids_kept boot_row.ids_kept query_row.ids_kept claim_row.ids_kept
  clean_row.ids_kept delete_failed_row.ids_kept deferred_row.ids_kept cleaned_row.ids_kept
  clean_failed_row.ids_kept

text \<open>Every field write is the update of some rows that keeps their claims.\<close>

lemma applyWrite_update:
  "\<exists>P f. content_update f \<and> applyWrite w now db = updateWhere P f db"
proof (cases w)
  case (WritePatch i p)
  then show ?thesis
    by (auto simp: write_defs Let_def intro: patch_row.content_update_axioms)
next
  case (WriteTitle i title)
  then show ?thesis
    by (auto simp: write_defs Let_def intro: rename_row.content_update_axioms)
next
  case (WriteUnread i at)
  then show ?thesis
    by (auto simp: write_defs intro: unread_row.content_update_axioms)
next
  case (WriteRead i at)
  then show ?thesis
    by (auto simp: write_defs intro: seen_row.content_update_axioms)
next
  case (WriteSeen i)
  then show ?thesis
    by (auto simp: write_defs intro: seen_row.content_update_axioms)
next
  case (WritePinned i b)
  then show ?thesis
    by (auto simp: write_defs Let_def intro: pin_row.content_update_axioms)
next
  case (WriteBootStep i b)
  then show ?thesis
    by (auto simp: write_defs intro: boot_row.content_update_axioms)
next
  case (WriteRuntime i p)
  then show ?thesis
    by (auto intro: runtime_row.content_update_axioms)
next
  case (WriteStatusQuery i)
  then show ?thesis
    by (auto intro: query_row.content_update_axioms)
qed

text \<open>The row's runtime columns project to the record's.\<close>

lemma runtimePatched_projects:
  "rowToSession (runtimePatched now p r) = patchSessionRuntimeStatus now p (rowToSession r)"
  by (simp add: rowToSession_def runtimePatched_def patchSessionRuntimeStatus_def)

lemma statusQueryMarked_projects:
  "rowToSession (statusQueryMarked r) = markSessionStatusQuery (rowToSession r)"
  by (simp add: rowToSession_def statusQueryMarked_def markSessionStatusQuery_def)

end
