(* ===== verification/Hub_Queue.thy ===== *)
theory Hub_Queue
  imports Hub_Registry
begin

text \<open>
  The Hub object of \<open>src/hub.ts\<close>, the alarm that drains the deletion and cleanup queues,
  together with the requests that fill them. The object runs one alarm handler at a time; a
  handler is cut at its remote calls, and the writes of other callers fall between. The
  operation ids issued so far are kept beside the table, because \<open>crypto.randomUUID\<close> never
  answers one twice.
\<close>

section \<open>State\<close>

datatype attempt_stage = AtAgent | AtBegin | AtPurge | AtMark

text \<open>Where the running alarm handler waits; \<open>Rearm\<close> is before its last two queries.\<close>

datatype hub_pc =
    DeleteAt attempt_stage string string
  | CleanAt attempt_stage string string
  | Rearm

record sweep =
  sw_cutoff :: millis
  sw_candidates :: "string list"
  sw_claimed :: nat

record hub =
  hb_db :: registry
  hb_alarm :: "millis option"
  hb_attempt :: "hub_pc option"
  hb_legacy :: bool
  hb_pokes :: nat
  hb_sweeps :: "sweep list"
  hb_lost :: bool
  hb_deleteOps :: "string list"
  hb_cleanOps :: "string list"

definition DELETE_ATTEMPT_TIMEOUT_MS :: millis where
  "DELETE_ATTEMPT_TIMEOUT_MS = 12 * 60 * 1000"

section \<open>Handlers\<close>

definition hasPending :: "registry \<Rightarrow> bool" where
  "hasPending db = (hasPendingDeletion db \<or> hasPendingCleanup db)"

definition setAlarmIfNone :: "millis \<Rightarrow> millis option \<Rightarrow> millis option" where
  "setAlarmIfNone now a = (if a = None then Some now else a)"

text \<open>The constructor: \<open>deleteAll\<close> takes a legacy object's alarm with it.\<close>

definition newHub :: "millis \<Rightarrow> hub \<Rightarrow> hub" where
  "newHub now s =
     (let a = (if hb_legacy s then None else hb_alarm s)
      in s\<lparr>hb_legacy := False, hb_lost := False, hb_attempt := None,
           hb_alarm := (if a = None \<and> hasPending (hb_db s) then Some now else a)\<rparr>)"

definition poke :: "millis \<Rightarrow> hub \<Rightarrow> hub" where
  "poke now s = s\<lparr>hb_alarm := setAlarmIfNone now (hb_alarm s), hb_lost := False\<rparr>"

definition cleanNext :: "registry \<Rightarrow> hub_pc" where
  "cleanNext db =
     (case nextPendingCleanup db of
        None \<Rightarrow> Rearm
      | Some rec \<Rightarrow> CleanAt AtAgent (ir_id rec) (nullish (ir_deleteOperationId rec) []))"

text \<open>The alarm up to its first remote call; the platform clears the alarm it delivers.\<close>

definition hubAlarm :: "hub \<Rightarrow> hub" where
  "hubAlarm s = s\<lparr>hb_alarm := None,
     hb_attempt := Some
       (case nextPendingDeletion (hb_db s) of
          Some rec \<Rightarrow> DeleteAt AtBegin (ir_id rec) (nullish (ir_deleteOperationId rec) [])
        | None \<Rightarrow> cleanNext (hb_db s))\<rparr>"

text \<open>
  What a remote call answers. Only the purge can be pending or time out, after
  \<^const>\<open>DELETE_ATTEMPT_TIMEOUT_MS\<close>; a store write that throws inside the handler's
  \<open>try\<close> ends the attempt as a thrown call does.
\<close>

datatype hub_reply = ReplyOk | ReplyPending | ReplyTimeout | ReplyThrown string

definition PENDING_MESSAGE :: string where
  "PENDING_MESSAGE = ''Container termination is still pending''"

definition endAttempt :: "(registry \<Rightarrow> registry) \<Rightarrow> hub \<Rightarrow> hub" where
  "endAttempt w s = s\<lparr>hb_db := w (hb_db s), hb_attempt := Some Rearm\<rparr>"

definition goOn :: "hub_pc \<Rightarrow> hub \<Rightarrow> hub" where
  "goOn pc s = s\<lparr>hb_attempt := Some pc\<rparr>"

fun deleteReply :: "millis \<Rightarrow> attempt_stage \<Rightarrow> string \<Rightarrow> string \<Rightarrow> hub_reply \<Rightarrow> hub \<Rightarrow> hub option" where
  "deleteReply now st i op (ReplyThrown msg) s =
     Some (endAttempt (markDeleteFailed i op msg now) s)"
| "deleteReply now AtBegin i op ReplyOk s = Some (goOn (DeleteAt AtPurge i op) s)"
| "deleteReply now AtPurge i op ReplyOk s = Some (goOn (DeleteAt AtMark i op) s)"
| "deleteReply now AtPurge i op ReplyPending s =
     Some (endAttempt (deferDelete i op PENDING_MESSAGE now) s)"
| "deleteReply now AtPurge i op ReplyTimeout s =
     Some (endAttempt (deferDelete i op (''Timed out deleting instance '' @ i) now) s)"
| "deleteReply now AtMark i op ReplyOk s = Some (endAttempt (finishDelete i op) s)"
| "deleteReply now st i op rep s = None"

fun cleanReply :: "millis \<Rightarrow> attempt_stage \<Rightarrow> string \<Rightarrow> string \<Rightarrow> hub_reply \<Rightarrow> hub \<Rightarrow> hub option" where
  "cleanReply now st i op (ReplyThrown msg) s =
     Some (endAttempt (markCleanFailed i op msg) s)"
| "cleanReply now AtAgent i op ReplyOk s = Some (goOn (CleanAt AtBegin i op) s)"
| "cleanReply now AtBegin i op ReplyOk s = Some (goOn (CleanAt AtPurge i op) s)"
| "cleanReply now AtPurge i op ReplyOk s = Some (goOn (CleanAt AtMark i op) s)"
| "cleanReply now AtPurge i op ReplyPending s =
     Some (endAttempt (deferDelete i op PENDING_MESSAGE now) s)"
| "cleanReply now AtPurge i op ReplyTimeout s =
     Some (endAttempt (deferDelete i op (''Timed out cleaning instance '' @ i) now) s)"
| "cleanReply now AtMark i op ReplyOk s = Some (endAttempt (finishClean i op now) s)"
| "cleanReply now st i op rep s = None"

definition hubReply :: "millis \<Rightarrow> hub_reply \<Rightarrow> hub \<Rightarrow> hub option" where
  "hubReply now rep s =
     (case hb_attempt s of
        Some (DeleteAt st i op) \<Rightarrow> deleteReply now st i op rep s
      | Some (CleanAt st i op) \<Rightarrow> cleanReply now st i op rep s
      | _ \<Rightarrow> None)"

definition hubRearm :: "millis \<Rightarrow> hub \<Rightarrow> hub" where
  "hubRearm now s = s\<lparr>hb_attempt := None, hb_lost := False,
     hb_alarm := (if hasPending (hb_db s) then Some now else hb_alarm s)\<rparr>"

text \<open>A handler that throws, or whose object dies, is delivered again.\<close>

definition hubRedelivered :: "millis \<Rightarrow> hub \<Rightarrow> hub" where
  "hubRedelivered now s = s\<lparr>hb_attempt := None, hb_alarm := setAlarmIfNone now (hb_alarm s)\<rparr>"

section \<open>Requests\<close>

text \<open>\<open>beginDelete\<close> up to its poke, which it owes when the row exists.\<close>

definition hubBeginDelete :: "string \<Rightarrow> string \<Rightarrow> millis \<Rightarrow> hub \<Rightarrow> hub" where
  "hubBeginDelete i op now s =
     (case beginDeleteClaim i op now (hb_db s) of (rec, db') \<Rightarrow>
        s\<lparr>hb_db := db', hb_deleteOps := op # hb_deleteOps s,
          hb_pokes := (if rec = None then hb_pokes s else hb_pokes s + 1)\<rparr>)"

text \<open>\<open>sweepIdleSessions\<close>: the scan, one claim, and the end that owes the poke.\<close>

definition sweepStart :: "millis \<Rightarrow> hub \<Rightarrow> hub" where
  "sweepStart now s = s\<lparr>hb_sweeps := hb_sweeps s @
     [\<lparr>sw_cutoff = cleanupCutoff now,
       sw_candidates = sweepCandidates (cleanupCutoff now) (hb_db s), sw_claimed = 0\<rparr>]\<rparr>"

definition sweepNext :: "nat \<Rightarrow> string \<Rightarrow> hub \<Rightarrow> hub option" where
  "sweepNext k op s =
     (if k < length (hb_sweeps s) then
        (case sw_candidates (hb_sweeps s ! k) of
           [] \<Rightarrow> None
         | i # is \<Rightarrow>
             (case sweepClaim (sw_cutoff (hb_sweeps s ! k)) i op (hb_db s) of (claimed, db') \<Rightarrow>
                Some (s\<lparr>hb_db := db', hb_cleanOps := op # hb_cleanOps s,
                  hb_sweeps := (hb_sweeps s)[k := (hb_sweeps s ! k)
                    \<lparr>sw_candidates := is,
                     sw_claimed := (if claimed then 1 else 0) + sw_claimed (hb_sweeps s ! k)\<rparr>]\<rparr>)))
      else None)"

definition without :: "nat \<Rightarrow> 'a list \<Rightarrow> 'a list" where
  "without k xs = take k xs @ drop (Suc k) xs"

definition sweepEnd :: "nat \<Rightarrow> hub \<Rightarrow> hub option" where
  "sweepEnd k s =
     (if k < length (hb_sweeps s) \<and> sw_candidates (hb_sweeps s ! k) = [] then
        Some (s\<lparr>hb_sweeps := without k (hb_sweeps s),
          hb_pokes := (if sw_claimed (hb_sweeps s ! k) > 0 then hb_pokes s + 1 else hb_pokes s)\<rparr>)
      else None)"

text \<open>A sweep that dies, or whose coordinator throws, owes a poke that never comes.\<close>

definition sweepLost :: "nat \<Rightarrow> hub \<Rightarrow> hub option" where
  "sweepLost k s =
     (if k < length (hb_sweeps s) then
        Some (s\<lparr>hb_sweeps := without k (hb_sweeps s),
          hb_lost := (hb_lost s \<or> sw_claimed (hb_sweeps s ! k) > 0)\<rparr>)
      else None)"

section \<open>Steps\<close>

datatype hub_event =
    HubNew
  | HubAlarm
  | HubReplied hub_reply
  | HubRearm
  | HubRedelivered
  | HubBeginDelete string string
  | HubPoke
  | HubPokeLost
  | HubSweepStart
  | HubSweepNext nat string
  | HubSweepEnd nat
  | HubSweepLost nat
  | HubInsert new_session
  | HubWrite row_write

definition fresh_op :: "string \<Rightarrow> hub \<Rightarrow> bool" where
  "fresh_op op s = (op \<notin> set (hb_deleteOps s) \<and> op \<notin> set (hb_cleanOps s))"

inductive hub_step :: "hub \<Rightarrow> millis \<times> hub_event \<Rightarrow> hub \<Rightarrow> bool" where
  h_new: "hb_attempt s = None \<Longrightarrow> hub_step s (now, HubNew) (newHub now s)"
| h_alarm: "hb_attempt s = None \<Longrightarrow> hb_alarm s = Some due \<Longrightarrow> due \<le> now \<Longrightarrow>
    hub_step s (now, HubAlarm) (hubAlarm s)"
| h_reply: "hubReply now rep s = Some t \<Longrightarrow> hub_step s (now, HubReplied rep) t"
| h_rearm: "hb_attempt s = Some Rearm \<Longrightarrow> hub_step s (now, HubRearm) (hubRearm now s)"
| h_redelivered: "hb_attempt s \<noteq> None \<Longrightarrow> hub_step s (now, HubRedelivered) (hubRedelivered now s)"
| h_delete: "fresh_op op s \<Longrightarrow>
    hub_step s (now, HubBeginDelete i op) (hubBeginDelete i op now s)"
| h_poke: "hb_pokes s = Suc n \<Longrightarrow> hub_step s (now, HubPoke) (poke now (s\<lparr>hb_pokes := n\<rparr>))"
| h_poke_lost: "hb_pokes s = Suc n \<Longrightarrow>
    hub_step s (now, HubPokeLost) (s\<lparr>hb_pokes := n, hb_lost := True\<rparr>)"
| h_sweep: "hub_step s (now, HubSweepStart) (sweepStart now s)"
| h_sweep_next: "fresh_op op s \<Longrightarrow> sweepNext k op s = Some t \<Longrightarrow>
    hub_step s (now, HubSweepNext k op) t"
| h_sweep_end: "sweepEnd k s = Some t \<Longrightarrow> hub_step s (now, HubSweepEnd k) t"
| h_sweep_lost: "sweepLost k s = Some t \<Longrightarrow> hub_step s (now, HubSweepLost k) t"
| h_insert: "hub_step s (now, HubInsert session) (s\<lparr>hb_db := insertSessionRow session (hb_db s)\<rparr>)"
| h_write: "hub_step s (now, HubWrite w) (s\<lparr>hb_db := applyWrite w now (hb_db s)\<rparr>)"

text \<open>The same relation as a function of the event, to run concrete executions.\<close>

fun hubExec :: "hub \<Rightarrow> millis \<times> hub_event \<Rightarrow> hub option" where
  "hubExec s (now, HubNew) = (if hb_attempt s = None then Some (newHub now s) else None)"
| "hubExec s (now, HubAlarm) =
     (case hb_alarm s of
        None \<Rightarrow> None
      | Some due \<Rightarrow> if hb_attempt s = None \<and> due \<le> now then Some (hubAlarm s) else None)"
| "hubExec s (now, HubReplied rep) = hubReply now rep s"
| "hubExec s (now, HubRearm) = (if hb_attempt s = Some Rearm then Some (hubRearm now s) else None)"
| "hubExec s (now, HubRedelivered) =
     (if hb_attempt s = None then None else Some (hubRedelivered now s))"
| "hubExec s (now, HubBeginDelete i op) =
     (if fresh_op op s then Some (hubBeginDelete i op now s) else None)"
| "hubExec s (now, HubPoke) =
     (case hb_pokes s of 0 \<Rightarrow> None | Suc n \<Rightarrow> Some (poke now (s\<lparr>hb_pokes := n\<rparr>)))"
| "hubExec s (now, HubPokeLost) =
     (case hb_pokes s of 0 \<Rightarrow> None | Suc n \<Rightarrow> Some (s\<lparr>hb_pokes := n, hb_lost := True\<rparr>))"
| "hubExec s (now, HubSweepStart) = Some (sweepStart now s)"
| "hubExec s (now, HubSweepNext k op) = (if fresh_op op s then sweepNext k op s else None)"
| "hubExec s (now, HubSweepEnd k) = sweepEnd k s"
| "hubExec s (now, HubSweepLost k) = sweepLost k s"
| "hubExec s (now, HubInsert session) = Some (s\<lparr>hb_db := insertSessionRow session (hb_db s)\<rparr>)"
| "hubExec s (now, HubWrite w) = Some (s\<lparr>hb_db := applyWrite w now (hb_db s)\<rparr>)"

lemma hubExec_step: "hubExec s e = Some t \<Longrightarrow> hub_step s e t"
  by (induction s e rule: hubExec.induct)
    (auto split: if_splits option.splits nat.splits intro: hub_step.intros)

fun hubRun :: "hub \<Rightarrow> (millis \<times> hub_event) list \<Rightarrow> hub option" where
  "hubRun s [] = Some s"
| "hubRun s (e # es) = (case hubExec s e of None \<Rightarrow> None | Some t \<Rightarrow> hubRun t es)"

lemma hubRun_run: "hubRun s es = Some t \<Longrightarrow> run hub_step s es t"
  by (induction es arbitrary: s) (auto split: option.splits intro: run.intros hubExec_step)

definition hub_init :: "hub \<Rightarrow> bool" where
  "hub_init s = (hb_db s = [] \<and> hb_attempt s = None \<and> hb_pokes s = 0 \<and> hb_sweeps s = [] \<and>
     \<not> hb_lost s \<and> hb_deleteOps s = [] \<and> hb_cleanOps s = [])"

section \<open>The invariant\<close>

text \<open>A row's lifecycle and its operation id agree on who claimed it.\<close>

definition row_ok :: "hub \<Rightarrow> session_row \<Rightarrow> bool" where
  "row_ok s r =
     (case rw_deleteOperationId r of
        None \<Rightarrow> rw_lifecycle r \<in> {Ready, Cleaned}
      | Some op \<Rightarrow>
          (op \<in> set (hb_deleteOps s) \<and> rw_lifecycle r \<in> {RowDeleting, DeleteFailed}) \<or>
          (op \<in> set (hb_cleanOps s) \<and> rw_lifecycle r \<in> {Cleaning, CleanFailed}))"

fun pc_ok :: "hub \<Rightarrow> hub_pc \<Rightarrow> bool" where
  "pc_ok s (DeleteAt st i op) = (op \<in> set (hb_deleteOps s))"
| "pc_ok s (CleanAt st i op) = (op \<in> set (hb_cleanOps s))"
| "pc_ok s Rearm = True"

definition claims_ok :: "hub \<Rightarrow> bool" where
  "claims_ok s =
     (distinct (ids (hb_db s)) \<and>
      set (hb_deleteOps s) \<inter> set (hb_cleanOps s) = {} \<and>
      (\<forall>r \<in> set (hb_db s). row_ok s r) \<and>
      (\<forall>pc. hb_attempt s = Some pc \<longrightarrow> pc_ok s pc))"

text \<open>Who will look at a queue that is not empty.\<close>

definition awake :: "hub \<Rightarrow> bool" where
  "awake s =
     (hasPending (hb_db s) \<longrightarrow>
        hb_alarm s \<noteq> None \<or> hb_attempt s \<noteq> None \<or> hb_pokes s > 0 \<or>
        (\<exists>w \<in> set (hb_sweeps s). sw_claimed w > 0) \<or> hb_lost s)"

end
