(* ===== verification/Hub_Invariant.thy ===== *)
theory Hub_Invariant
  imports Hub_Queue
begin

text \<open>
  The Hub's two invariants, proved for every interleaving of requests, sweeps, field writes,
  alarms and crashes: \<^const>\<open>claims_ok\<close>, that a row's lifecycle agrees with the
  operation that claimed it, and \<^const>\<open>awake\<close>, that a queue that is not empty has
  something that will look at it.
\<close>

section \<open>Claims\<close>

lemma row_ok_mono:
  "row_ok s r \<Longrightarrow> set (hb_deleteOps s) \<subseteq> set (hb_deleteOps t) \<Longrightarrow>
     set (hb_cleanOps s) \<subseteq> set (hb_cleanOps t) \<Longrightarrow> row_ok t r"
  by (auto simp: row_ok_def split: option.splits)

lemma row_ok_same:
  "hb_deleteOps t = hb_deleteOps s \<Longrightarrow> hb_cleanOps t = hb_cleanOps s \<Longrightarrow> row_ok t r = row_ok s r"
  by (simp add: row_ok_def cong: option.case_cong)

lemma pc_ok_mono:
  "pc_ok s pc \<Longrightarrow> set (hb_deleteOps s) \<subseteq> set (hb_deleteOps t) \<Longrightarrow>
     set (hb_cleanOps s) \<subseteq> set (hb_cleanOps t) \<Longrightarrow> pc_ok t pc"
  by (cases pc) auto

lemma claims_update:
  assumes ok: "claims_ok s" and f: "row_update f"
    and db: "hb_db t = updateWhere P f (hb_db s)"
    and ops: "set (hb_deleteOps s) \<subseteq> set (hb_deleteOps t)"
      "set (hb_cleanOps s) \<subseteq> set (hb_cleanOps t)"
      "set (hb_deleteOps t) \<inter> set (hb_cleanOps t) = {}"
    and rows: "\<And>r. P r \<Longrightarrow> r \<in> set (hb_db s) \<Longrightarrow> row_ok s r \<Longrightarrow> row_ok t (f r)"
    and pc: "\<And>pc. hb_attempt t = Some pc \<Longrightarrow> pc_ok t pc"
  shows "claims_ok t"
proof -
  have "row_ok t r" if r: "r \<in> set (hb_db t)" for r
  proof -
    from r db obtain q where q: "q \<in> set (hb_db s)" "r = (if P q then f q else q)"
      by (auto simp: updateWhere_def)
    with ok have "row_ok s q" by (simp add: claims_ok_def)
    with q rows[of q] row_ok_mono[OF _ ops(1,2)] show ?thesis by auto
  qed
  with ok row_update.ids_kept[OF f] db ops(3) pc show ?thesis
    by (simp add: claims_ok_def)
qed


lemma claims_content:
  assumes ok: "claims_ok s" and f: "content_update f"
    and db: "hb_db t = updateWhere P f (hb_db s)"
    and ops: "hb_deleteOps t = hb_deleteOps s" "hb_cleanOps t = hb_cleanOps s"
    and pc: "\<And>pc. hb_attempt t = Some pc \<Longrightarrow> pc_ok t pc"
  shows "claims_ok t"
proof (rule claims_update[OF ok _ db])
  show "row_update f" using f by (simp add: content_update_def)
  fix r assume "row_ok s r"
  with content_update.keeps_lifecycle[OF f] content_update.keeps_operation[OF f] ops
  show "row_ok t (f r)" by (auto simp: row_ok_def split: option.splits)
qed (use ok ops pc in \<open>auto simp: claims_ok_def\<close>)

lemma ids_filter: "distinct (ids db) \<Longrightarrow> distinct (ids (filter P db))"
  by (auto simp: ids_def distinct_map intro: inj_on_subset)

lemma claims_subset:
  assumes ok: "claims_ok s" and db: "hb_db t = filter P (hb_db s)"
    and ops: "hb_deleteOps t = hb_deleteOps s" "hb_cleanOps t = hb_cleanOps s"
    and pc: "\<And>pc. hb_attempt t = Some pc \<Longrightarrow> pc_ok t pc"
  shows "claims_ok t"
  using ok db ops pc ids_filter[of "hb_db s" P] row_ok_same[OF ops]
  by (auto simp: claims_ok_def)

lemma claims_same_db:
  assumes "claims_ok s" "hb_db t = hb_db s"
    and "hb_deleteOps t = hb_deleteOps s" "hb_cleanOps t = hb_cleanOps s"
    and "\<And>pc. hb_attempt t = Some pc \<Longrightarrow> pc_ok t pc"
  shows "claims_ok t"
  using assms row_ok_same[of t s] by (auto simp: claims_ok_def)

text \<open>The row an alarm picks is in the table and claimed.\<close>

lemma oldest_in: "oldest rs = Some r \<Longrightarrow> r \<in> set rs"
  by (induction rs arbitrary: r) (auto split: option.splits if_splits)

lemma oldest_None [simp]: "oldest rs = None \<longleftrightarrow> rs = []"
  by (cases rs) (auto split: option.splits)

lemma oldest_least: "oldest rs = Some r \<Longrightarrow> q \<in> set rs \<Longrightarrow> rw_updatedAt r \<le> rw_updatedAt q"
  by (induction rs arbitrary: r q) (fastforce split: option.splits if_splits)+

lemma nextPending_Some:
  "nextPending l db = Some r \<Longrightarrow>
     r \<in> set db \<and> rw_lifecycle r = l \<and> (\<exists>op. rw_deleteOperationId r = Some op)"
  by (auto simp: nextPending_def claimedFor_def dest!: oldest_in)

lemma nextPending_None: "nextPending l db = None \<longleftrightarrow> \<not> (\<exists>r \<in> set db. claimedFor l r)"
  by (auto simp: nextPending_def filter_empty_conv)

definition pickedAt :: "registry \<Rightarrow> hub_pc" where
  "pickedAt db =
     (case nextPendingDeletion db of
        Some rec \<Rightarrow> DeleteAt AtBegin (ir_id rec) (nullish (ir_deleteOperationId rec) [])
      | None \<Rightarrow> cleanNext db)"

lemma hubAlarm_picks: "hubAlarm s = s\<lparr>hb_alarm := None, hb_attempt := Some (pickedAt (hb_db s))\<rparr>"
  by (simp add: hubAlarm_def pickedAt_def)

lemma pickedAt_cases:
  "(\<exists>r op. nextPending RowDeleting db = Some r \<and> rw_deleteOperationId r = Some op \<and>
      pickedAt db = DeleteAt AtBegin (rw_id r) op) \<or>
   (\<not> hasPendingDeletion db \<and> (\<exists>r op. nextPending Cleaning db = Some r \<and>
      rw_deleteOperationId r = Some op \<and> pickedAt db = CleanAt AtAgent (rw_id r) op)) \<or>
   (\<not> hasPending db \<and> pickedAt db = Rearm)"
proof (cases "nextPending RowDeleting db")
  case (Some r)
  with nextPending_Some[OF Some] show ?thesis
    by (auto simp: pickedAt_def nextPendingDeletion_def rowToInstance_def)
next
  case None
  then have d: "\<not> hasPendingDeletion db" by (simp add: nextPending_None hasPendingDeletion_def)
  show ?thesis
  proof (cases "nextPending Cleaning db")
    case (Some r)
    with None d nextPending_Some[OF Some] show ?thesis
      by (auto simp: pickedAt_def nextPendingDeletion_def nextPendingCleanup_def cleanNext_def
          rowToInstance_def)
  next
    case N: None
    then have "\<not> hasPendingCleanup db" by (simp add: nextPending_None hasPendingCleanup_def)
    with None N d show ?thesis
      by (auto simp: pickedAt_def nextPendingDeletion_def nextPendingCleanup_def cleanNext_def
          hasPending_def)
  qed
qed

lemma pickedAt_ok: "claims_ok s \<Longrightarrow> pc_ok s (pickedAt (hb_db s))"
  using pickedAt_cases[of "hb_db s"]
  by (fastforce simp: claims_ok_def row_ok_def dest!: nextPending_Some)

text \<open>Each attempt's end keeps the claims, whoever holds the row now.\<close>

lemma fence_op: "fencedOn i op r \<Longrightarrow> rw_deleteOperationId r = Some op"
  by (simp add: fencedOn_def)

lemma rearm_ok: "hb_attempt (endAttempt w s) = Some pc \<Longrightarrow> pc_ok t pc"
  by (simp add: endAttempt_def)

lemma claims_end_update:
  assumes ok: "claims_ok s" and f: "row_update f"
    and rows: "\<And>r. rw_deleteOperationId r = Some op \<Longrightarrow> row_ok s r \<Longrightarrow> row_ok s (f r)"
  shows "claims_ok (endAttempt (updateWhere (fencedOn i op) f) s)"
proof (rule claims_update[OF ok f, where P = "fencedOn i op"])
  fix r assume "fencedOn i op r" "row_ok s r"
  then show "row_ok (endAttempt (updateWhere (fencedOn i op) f) s) (f r)"
    using rows[of r] row_ok_same[of "endAttempt (updateWhere (fencedOn i op) f) s" s]
    by (simp add: fence_op endAttempt_def)
qed (use ok in \<open>auto simp: endAttempt_def claims_ok_def\<close>)

lemma claims_deferred: "claims_ok s \<Longrightarrow> claims_ok (endAttempt (deferDelete i op msg now) s)"
  by (rule claims_content[OF _ deferred_row.content_update_axioms])
    (auto simp: endAttempt_def deferDelete_def)

lemma claims_deleteReply:
  assumes ok: "claims_ok s" and pc: "hb_attempt s = Some (DeleteAt st i op)"
    and r: "deleteReply now st i op rep s = Some t"
  shows "claims_ok t"
proof -
  from ok pc have op: "op \<in> set (hb_deleteOps s)" "op \<notin> set (hb_cleanOps s)"
    by (auto simp: claims_ok_def)
  have failed: "claims_ok (endAttempt (markDeleteFailed i op msg now) s)" for msg
    unfolding markDeleteFailed_def
    by (rule claims_end_update[OF ok delete_failed_row.row_update_axioms])
      (use op in \<open>auto simp: row_ok_def deleteFailed_def\<close>)
  have fin: "claims_ok (endAttempt (finishDelete i op) s)"
    by (rule claims_subset[OF ok]) (auto simp: endAttempt_def finishDelete_def)
  have on: "claims_ok (goOn (DeleteAt st' i op) s)" for st'
    by (rule claims_same_db[OF ok]) (use op in \<open>auto simp: goOn_def\<close>)
  from r failed fin on claims_deferred[OF ok] show ?thesis
    by (cases rep; cases st) auto
qed

lemma claims_cleanReply:
  assumes ok: "claims_ok s" and pc: "hb_attempt s = Some (CleanAt st i op)"
    and r: "cleanReply now st i op rep s = Some t"
  shows "claims_ok t"
proof -
  from ok pc have op: "op \<in> set (hb_cleanOps s)" "op \<notin> set (hb_deleteOps s)"
    by (auto simp: claims_ok_def)
  have failed: "claims_ok (endAttempt (markCleanFailed i op msg) s)" for msg
    unfolding markCleanFailed_def
    by (rule claims_end_update[OF ok clean_failed_row.row_update_axioms])
      (use op in \<open>auto simp: row_ok_def cleanFailed_def\<close>)
  have fin: "claims_ok (endAttempt (finishClean i op now) s)"
    unfolding finishClean_def
    by (rule claims_end_update[OF ok cleaned_row.row_update_axioms])
      (auto simp: row_ok_def cleanedRow_def)
  have on: "claims_ok (goOn (CleanAt st' i op) s)" for st'
    by (rule claims_same_db[OF ok]) (use op in \<open>auto simp: goOn_def\<close>)
  from r failed fin on claims_deferred[OF ok] show ?thesis
    by (cases rep; cases st) auto
qed

lemma hubReply_cases:
  assumes "hubReply now rep s = Some t"
  obtains st i op where "hb_attempt s = Some (DeleteAt st i op)" "deleteReply now st i op rep s = Some t"
    | st i op where "hb_attempt s = Some (CleanAt st i op)" "cleanReply now st i op rep s = Some t"
  using assms by (auto simp: hubReply_def split: option.splits hub_pc.splits)

lemma claims_delete:
  assumes ok: "claims_ok s" and new: "fresh_op op s"
  shows "claims_ok (hubBeginDelete i op now s)"
proof (rule claims_update[OF ok claim_row.row_update_axioms])
  show "hb_db (hubBeginDelete i op now s) =
      updateWhere (\<lambda>r. has_id i r \<and> \<not> claimedFor RowDeleting r) (deleteClaim op now) (hb_db s)"
    by (simp add: hubBeginDelete_def beginDeleteClaim_def Let_def)
  show "pc_ok (hubBeginDelete i op now s) pc" if "hb_attempt (hubBeginDelete i op now s) = Some pc" for pc
    using that ok
    by (cases pc) (auto simp: claims_ok_def hubBeginDelete_def beginDeleteClaim_def Let_def)
qed (use ok new in \<open>auto simp: claims_ok_def hubBeginDelete_def beginDeleteClaim_def Let_def
      fresh_op_def row_ok_def deleteClaim_def\<close>)

lemma sweepNext_Some:
  assumes "sweepNext k op s = Some t"
  obtains i "is" where "k < length (hb_sweeps s)" "sw_candidates (hb_sweeps s ! k) = i # is"
    "t = s\<lparr>hb_db := updateWhere (\<lambda>r. has_id i r \<and> cleanupEligible (sw_cutoff (hb_sweeps s ! k)) r)
              (cleanClaim op) (hb_db s),
           hb_cleanOps := op # hb_cleanOps s,
           hb_sweeps := (hb_sweeps s)[k := (hb_sweeps s ! k)\<lparr>sw_candidates := is, sw_claimed :=
             (if list_ex (\<lambda>r. has_id i r \<and> cleanupEligible (sw_cutoff (hb_sweeps s ! k)) r) (hb_db s)
              then 1 else 0) + sw_claimed (hb_sweeps s ! k)\<rparr>]\<rparr>"
  using assms by (auto simp: sweepNext_def sweepClaim_def Let_def split: if_splits list.splits)

lemma claims_sweepNext:
  assumes ok: "claims_ok s" and new: "fresh_op op s" and t: "sweepNext k op s = Some t"
  shows "claims_ok t"
proof -
  from t obtain i "is" where "k < length (hb_sweeps s)" and t':
    "t = s\<lparr>hb_db := updateWhere (\<lambda>r. has_id i r \<and> cleanupEligible (sw_cutoff (hb_sweeps s ! k)) r)
              (cleanClaim op) (hb_db s),
           hb_cleanOps := op # hb_cleanOps s,
           hb_sweeps := (hb_sweeps s)[k := (hb_sweeps s ! k)\<lparr>sw_candidates := is, sw_claimed :=
             (if list_ex (\<lambda>r. has_id i r \<and> cleanupEligible (sw_cutoff (hb_sweeps s ! k)) r) (hb_db s)
              then 1 else 0) + sw_claimed (hb_sweeps s ! k)\<rparr>]\<rparr>"
    by (rule sweepNext_Some)
  show ?thesis
  proof (rule claims_update[OF ok clean_row.row_update_axioms])
    show "hb_db t = updateWhere (\<lambda>r. has_id i r \<and>
        cleanupEligible (sw_cutoff (hb_sweeps s ! k)) r) (cleanClaim op) (hb_db s)"
      by (simp add: t')
    show "pc_ok t pc" if "hb_attempt t = Some pc" for pc
      using that ok unfolding t' by (cases pc) (auto simp: claims_ok_def)
  qed (use ok new in \<open>auto simp: t' claims_ok_def fresh_op_def row_ok_def cleanClaim_def\<close>)
qed

lemma claims_insert:
  assumes ok: "claims_ok s"
  shows "claims_ok (s\<lparr>hb_db := insertSessionRow session (hb_db s)\<rparr>)"
proof -
  have pc: "pc_ok (s\<lparr>hb_db := d\<rparr>) pc" if "hb_attempt s = Some pc" for pc d
    using that ok by (cases pc) (auto simp: claims_ok_def)
  have same: "row_ok (s\<lparr>hb_db := d\<rparr>) r = row_ok s r" for d r
    by (rule row_ok_same) simp_all
  have new: "rw_id (newRow session) = sr_id (ns_record session)" "row_ok s (newRow session)"
    by (simp_all add: newRow_def row_ok_def Let_def)
  from ok pc same new show ?thesis
    by (auto simp: claims_ok_def insertSessionRow_def ids_def)
qed

theorem claims_step: "hub_step s e t \<Longrightarrow> claims_ok s \<Longrightarrow> claims_ok t"
proof (induction rule: hub_step.induct)
  case (h_alarm s due now)
  then show ?case
    by (intro claims_same_db[OF h_alarm.prems]) (auto simp: hubAlarm_picks
        intro!: pc_ok_mono[OF pickedAt_ok[OF h_alarm.prems]])
next
  case (h_reply now rep s t)
  then show ?case by (elim hubReply_cases) (blast intro: claims_deleteReply claims_cleanReply)+
next
  case (h_delete op s now i)
  then show ?case by (blast intro: claims_delete)
next
  case (h_sweep_next op s k t now)
  then show ?case by (blast intro: claims_sweepNext)
next
  case (h_insert s now session)
  then show ?case by (rule claims_insert)
next
  case (h_write s now w)
  from applyWrite_update[of w now "hb_db s"] obtain P f where
    f: "content_update f" "applyWrite w now (hb_db s) = updateWhere P f (hb_db s)" by blast
  show ?case
  proof (rule claims_content[OF h_write.prems f(1)])
    show "pc_ok (s\<lparr>hb_db := applyWrite w now (hb_db s)\<rparr>) pc"
      if "hb_attempt (s\<lparr>hb_db := applyWrite w now (hb_db s)\<rparr>) = Some pc" for pc
      using that h_write.prems by (cases pc) (auto simp: claims_ok_def)
  qed (simp_all add: f)
next
  case (h_sweep s now)
  then show ?case
    by (intro claims_same_db[OF h_sweep.prems]) (auto simp: sweepStart_def claims_ok_def
        intro: pc_ok_mono)
next
  case (h_sweep_end k s t now)
  then show ?case
    by (intro claims_same_db[OF h_sweep_end.prems]) (auto simp: sweepEnd_def claims_ok_def
        split: if_splits intro: pc_ok_mono)
next
  case (h_sweep_lost k s t now)
  then show ?case
    by (intro claims_same_db[OF h_sweep_lost.prems]) (auto simp: sweepLost_def claims_ok_def
        split: if_splits intro: pc_ok_mono)
next
  case (h_poke s n now)
  then show ?case
    by (intro claims_same_db[OF h_poke.prems]) (auto simp: poke_def claims_ok_def intro: pc_ok_mono)
next
  case (h_poke_lost s n now)
  then show ?case
    by (intro claims_same_db[OF h_poke_lost.prems]) (auto simp: claims_ok_def intro: pc_ok_mono)
next
  case (h_new s now)
  then show ?case
    by (intro claims_same_db[OF h_new.prems]) (auto simp: newHub_def Let_def)
next
  case (h_rearm s now)
  then show ?case
    by (intro claims_same_db[OF h_rearm.prems]) (auto simp: hubRearm_def)
next
  case (h_redelivered s now)
  then show ?case
    by (intro claims_same_db[OF h_redelivered.prems]) (auto simp: hubRedelivered_def)
qed

section \<open>The queue is looked at\<close>

lemma pending_update:
  assumes "\<And>r l. r \<in> set db \<Longrightarrow> P r \<Longrightarrow> claimedFor l (f r) \<Longrightarrow> claimedFor l r"
  shows "hasPending (updateWhere P f db) \<Longrightarrow> hasPending db"
  using assms by (fastforce simp: hasPending_def hasPendingDeletion_def hasPendingCleanup_def
      updateWhere_def split: if_splits)

lemma pending_content: "content_update f \<Longrightarrow> hasPending (updateWhere P f db) = hasPending db"
  by (simp add: hasPending_def content_update.deletions_kept content_update.cleanups_kept)

lemma pending_insert: "hasPending (insertSessionRow session db) = hasPending db"
  by (auto simp: hasPending_def hasPendingDeletion_def hasPendingCleanup_def insertSessionRow_def
      claimedFor_def newRow_def Let_def)

lemma pending_claim:
  assumes "hasPending (snd (beginDeleteClaim i op now db))" "\<not> hasPending db"
  shows "fst (beginDeleteClaim i op now db) \<noteq> None"
proof -
  let ?P = "\<lambda>r. has_id i r \<and> \<not> claimedFor RowDeleting r"
  have "\<exists>r \<in> set db. ?P r"
  proof (rule ccontr)
    assume "\<not> ?thesis"
    then have "updateWhere ?P (deleteClaim op now) db = db"
      by (intro claim_row.unmatched) blast
    with assms show False by (simp add: beginDeleteClaim_def Let_def)
  qed
  then have "getRow i db \<noteq> None" by (auto simp: getRow_def find_None_iff)
  then show ?thesis by (simp add: beginDeleteClaim_def Let_def claim_row.getRow_after)
qed

lemma awake_asleep:
  "awake t" if "hasPending (hb_db t) \<Longrightarrow> hasPending (hb_db s)" and "awake s"
    and "hb_alarm s \<noteq> None \<Longrightarrow> hb_alarm t \<noteq> None" "hb_attempt s \<noteq> None \<Longrightarrow> hb_attempt t \<noteq> None"
    and "hb_pokes s \<le> hb_pokes t" "hb_lost s \<Longrightarrow> hb_lost t"
    and "\<And>w. w \<in> set (hb_sweeps s) \<Longrightarrow> sw_claimed w > 0 \<Longrightarrow> \<exists>v \<in> set (hb_sweeps t). sw_claimed v > 0"
  using that by (fastforce simp: awake_def)

lemma set_without: "k < length xs \<Longrightarrow> set xs = insert (xs ! k) (set (without k xs))"
  unfolding without_def by (subst id_take_nth_drop[of k xs]) auto

lemma hubReply_attempt: "hubReply now rep s = Some t \<Longrightarrow> hb_attempt t \<noteq> None"
  by (elim hubReply_cases; cases rep)
    (auto simp: endAttempt_def goOn_def elim!: deleteReply.elims cleanReply.elims)

lemma awake_sweepNext:
  assumes t: "sweepNext k op s = Some t" and s: "awake s"
  shows "awake t"
proof -
  let ?w = "hb_sweeps s ! k"
  from t obtain i "is" where k: "k < length (hb_sweeps s)" and t':
    "t = s\<lparr>hb_db := updateWhere (\<lambda>r. has_id i r \<and> cleanupEligible (sw_cutoff ?w) r)
              (cleanClaim op) (hb_db s),
           hb_cleanOps := op # hb_cleanOps s,
           hb_sweeps := (hb_sweeps s)[k := ?w\<lparr>sw_candidates := is, sw_claimed :=
             (if list_ex (\<lambda>r. has_id i r \<and> cleanupEligible (sw_cutoff ?w) r) (hb_db s)
              then 1 else 0) + sw_claimed ?w\<rparr>]\<rparr>"
    by (rule sweepNext_Some)
  let ?c = "list_ex (\<lambda>r. has_id i r \<and> cleanupEligible (sw_cutoff ?w) r) (hb_db s)"
  have new: "hb_sweeps t ! k \<in> set (hb_sweeps t)" "sw_claimed (hb_sweeps t ! k) \<ge> sw_claimed ?w"
    "?c \<Longrightarrow> sw_claimed (hb_sweeps t ! k) > 0"
    using k by (auto simp: t' set_update_memI)
  show ?thesis
  proof (cases ?c)
    case True
    with new show ?thesis by (auto simp: awake_def)
  next
    case False
    then have "hb_db t = hb_db s"
      by (auto simp: t' list_ex_iff intro!: clean_row.unmatched)
    moreover have "\<exists>v \<in> set (hb_sweeps t). sw_claimed v > 0"
      if w: "w \<in> set (hb_sweeps s)" "sw_claimed w > 0" for w
    proof -
      from w(1) obtain j where j: "j < length (hb_sweeps s)" "hb_sweeps s ! j = w"
        by (auto simp: in_set_conv_nth)
      then have "hb_sweeps t ! j \<in> set (hb_sweeps t)" by (simp add: t')
      moreover have "sw_claimed (hb_sweeps t ! j) > 0"
        using j w(2) k by (cases "j = k") (auto simp: t')
      ultimately show ?thesis by blast
    qed
    ultimately show ?thesis by (intro awake_asleep[OF _ s]) (auto simp: t')
  qed
qed

lemma without_claimed:
  assumes k: "k < length ws" and w: "w \<in> set ws" "sw_claimed w > 0"
  shows "sw_claimed (ws ! k) > 0 \<or> (\<exists>v \<in> set (without k ws). sw_claimed v > 0)"
  using w set_without[OF k] by auto

theorem awake_step: "hub_step s e t \<Longrightarrow> awake s \<Longrightarrow> awake t"
proof (induction rule: hub_step.induct)
  case (h_new s now)
  then show ?case by (auto simp: awake_def newHub_def Let_def)
next
  case (h_alarm s due now)
  then show ?case by (simp add: awake_def hubAlarm_def)
next
  case (h_reply now rep s t)
  then show ?case using hubReply_attempt by (auto simp: awake_def)
next
  case (h_rearm s now)
  then show ?case by (auto simp: awake_def hubRearm_def)
next
  case (h_redelivered s now)
  then show ?case by (simp add: awake_def hubRedelivered_def setAlarmIfNone_def)
next
  case (h_delete op s now i)
  show ?case
  proof (cases "hasPending (hb_db s)")
    case True
    with h_delete.prems show ?thesis
      by (intro awake_asleep[OF _ h_delete.prems]) (auto simp: hubBeginDelete_def split: prod.splits)
  next
    case False
    with pending_claim[of i op now "hb_db s"] show ?thesis
      by (auto simp: awake_def hubBeginDelete_def split: prod.splits)
  qed
next
  case (h_poke s n now)
  then show ?case by (simp add: awake_def poke_def setAlarmIfNone_def)
next
  case (h_poke_lost s n now)
  then show ?case by (simp add: awake_def)
next
  case (h_sweep s now)
  then show ?case by (intro awake_asleep[OF _ h_sweep.prems]) (auto simp: sweepStart_def)
next
  case (h_sweep_next op s k t now)
  then show ?case by (blast intro: awake_sweepNext)
next
  case (h_sweep_end k s t now)
  then have k: "k < length (hb_sweeps s)" by (simp add: sweepEnd_def split: if_splits)
  from h_sweep_end show ?case
    using without_claimed[OF k] by (fastforce simp: sweepEnd_def awake_def split: if_splits)
next
  case (h_sweep_lost k s t now)
  then have k: "k < length (hb_sweeps s)" by (simp add: sweepLost_def split: if_splits)
  from h_sweep_lost show ?case
    using without_claimed[OF k] by (fastforce simp: sweepLost_def awake_def split: if_splits)
next
  case (h_insert s now session)
  then show ?case by (intro awake_asleep[OF _ h_insert.prems]) (auto simp: pending_insert)
next
  case (h_write s now w)
  from applyWrite_update[of w now "hb_db s"] pending_content
  have "hasPending (applyWrite w now (hb_db s)) = hasPending (hb_db s)" by metis
  then show ?case by (intro awake_asleep[OF _ h_write.prems]) auto
qed

section \<open>The interface\<close>

definition hub_ok :: "hub \<Rightarrow> bool" where
  "hub_ok s = (claims_ok s \<and> awake s)"

definition issued :: "hub \<Rightarrow> nat" where
  "issued s = length (hb_deleteOps s) + length (hb_cleanOps s)"

lemma issued_step: "hub_step s e t \<Longrightarrow> issued s \<le> issued t"
proof (induction rule: hub_step.induct)
  case (h_reply now rep s t)
  then show ?case
    by (elim hubReply_cases; cases rep)
      (auto simp: issued_def endAttempt_def goOn_def elim!: deleteReply.elims cleanReply.elims)
qed (auto simp: issued_def newHub_def hubAlarm_def hubRearm_def hubRedelivered_def hubBeginDelete_def
    poke_def sweepStart_def sweepNext_def sweepClaim_def sweepEnd_def sweepLost_def Let_def
    split: prod.splits if_splits list.splits)

interpretation hub: monotone_measure hub_init hub_step hub_ok issued
proof unfold_locales
  show "hub_init s \<Longrightarrow> hub_ok s" for s
    by (auto simp: hub_ok_def claims_ok_def awake_def hub_init_def hasPending_def ids_def
        hasPendingDeletion_def hasPendingCleanup_def)
  show "hub_ok s \<Longrightarrow> hub_step s e t \<Longrightarrow> hub_ok t" for s e t
    by (auto simp: hub_ok_def intro: claims_step awake_step)
  show "hub_ok s \<Longrightarrow> hub_step s e t \<Longrightarrow> issued s \<le> issued t" for s e t
    by (rule issued_step)
qed

end
