(* ===== verification/Hub_Properties.thy ===== *)
theory Hub_Properties
  imports Hub_Invariant "HOL-Library.Multiset"
begin

text \<open>
  What the registry and the Hub's alarm guarantee: a session disappears only because somebody
  asked and its container was purged, cleanup takes only sessions that have settled and gives
  way to deletion, the queue is always looked at and drains, a new session is stored as it
  was built, and a page of the list is its top.
\<close>

section \<open>Deletion\<close>

lemma db_kept_or_ended:
  assumes "hubReply now rep s = Some t"
  shows "set (ids (hb_db s)) \<subseteq> set (ids (hb_db t)) \<or>
    (\<exists>i op. rep = ReplyOk \<and> hb_attempt s = Some (DeleteAt AtMark i op) \<and>
       hb_db t = finishDelete i op (hb_db s))"
  using assms
  by (elim hubReply_cases; cases rep)
    (auto simp: endAttempt_def goOn_def markDeleteFailed_def deferDelete_def markCleanFailed_def
      finishClean_def kept_ids elim!: deleteReply.elims cleanReply.elims)

lemma ids_write: "ids (applyWrite w now db) = ids db"
  by (cases w) (simp_all add: write_defs Let_def kept_ids)

lemma rows_step:
  "hub_step s e t \<Longrightarrow> set (ids (hb_db s)) \<subseteq> set (ids (hb_db t)) \<or>
    (\<exists>now i op. e = (now, HubReplied ReplyOk) \<and> hb_attempt s = Some (DeleteAt AtMark i op) \<and>
       hb_db t = finishDelete i op (hb_db s))"
proof (induction rule: hub_step.induct)
  case (h_reply now rep s t)
  then show ?case using db_kept_or_ended by blast
next
  case (h_sweep_next op s k t now)
  then show ?case by (elim sweepNext_Some) (simp add: kept_ids)
next
  case (h_insert s now session)
  then show ?case by (auto simp: insertSessionRow_def ids_def)
qed (auto simp: newHub_def hubAlarm_def hubRearm_def hubRedelivered_def hubBeginDelete_def
    beginDeleteClaim_def poke_def sweepStart_def sweepEnd_def sweepLost_def Let_def
    kept_ids ids_write split: if_splits)

text \<open>
  C9. A session disappears from the registry in one way only: an alarm finishing the delete
  attempt on it, after its container was purged and its coordinator marked deleted, and the
  row is still claimed by the operation of a delete request. No sweep, cleanup, field write,
  crash or attempt that lost its claim removes a session.
\<close>

theorem deletion_is_requested:
  assumes "reach hub_init hub_step s" and "hub_step s e t"
    and "r \<in> set (hb_db s)" and "rw_id r \<notin> set (ids (hb_db t))"
  shows "\<exists>now op. e = (now, HubReplied ReplyOk) \<and> hb_attempt s = Some (DeleteAt AtMark (rw_id r) op) \<and>
    rw_deleteOperationId r = Some op \<and> op \<in> set (hb_deleteOps s) \<and>
    rw_lifecycle r \<in> {RowDeleting, DeleteFailed}"
proof -
  have "rw_id r \<in> set (ids (hb_db s))" using assms(3) by (simp add: ids_def)
  with rows_step[OF assms(2)] assms(4) obtain now i op where e: "e = (now, HubReplied ReplyOk)"
    "hb_attempt s = Some (DeleteAt AtMark i op)" "hb_db t = finishDelete i op (hb_db s)" by blast
  with assms(3,4) have f: "fencedOn i op r" by (auto simp: finishDelete_def ids_def)
  from hub.holds_in_reach[OF assms(1)] have ok: "claims_ok s" by (simp add: hub_ok_def)
  with e(2) have "op \<in> set (hb_deleteOps s)" "op \<notin> set (hb_cleanOps s)"
    by (auto simp: claims_ok_def)
  moreover from ok assms(3) have "row_ok s r" by (simp add: claims_ok_def)
  ultimately show ?thesis using e f by (auto simp: fencedOn_def row_ok_def)
qed

section \<open>Fences\<close>

lemma updateWhere_mem:
  "r \<in> set (updateWhere P f db) \<Longrightarrow> \<exists>q. q \<in> set db \<and> r = (if P q then f q else q)"
  unfolding updateWhere_def set_map by blast

inductive_cases hub_deleteE: "hub_step s (now, HubBeginDelete i op) t"

lemma stale_attempt:
  assumes "hb_attempt s = Some (DeleteAt st i op) \<or> hb_attempt s = Some (CleanAt st i op)"
    and "\<And>r. r \<in> set (hb_db s) \<Longrightarrow> \<not> fencedOn i op r" and "hubReply now rep s = Some t"
  shows "hb_db t = hb_db s"
proof -
  have "updateWhere (fencedOn i op) f (hb_db s) = hb_db s" for f
    using assms(2) by (simp add: updateWhere_def map_idI)
  moreover have "finishDelete i op (hb_db s) = hb_db s"
    using assms(2) by (simp add: finishDelete_def filter_id_conv)
  ultimately show ?thesis using assms(1,3)
    by (auto simp: hubReply_def endAttempt_def goOn_def markDeleteFailed_def deferDelete_def
        markCleanFailed_def finishClean_def elim!: deleteReply.elims cleanReply.elims)
qed

text \<open>
  A delete request takes over a session whose cleanup is already running: from then on
  the row is claimed for deletion, and however the running cleanup attempt ends, with its
  container cleaned, pending, timed out or failed, it writes nothing over that claim.
\<close>

theorem deletion_preempts_cleaning:
  assumes "reach hub_init hub_step s" and "hb_attempt s = Some (CleanAt st i op)"
    and "hub_step s (now, HubBeginDelete i op') t" and "hubReply now' rep t = Some u"
  shows "hb_db u = hb_db t \<and>
    (\<forall>r \<in> set (hb_db t). rw_id r = i \<longrightarrow> claimedFor RowDeleting r)"
proof -
  from hub.holds_in_reach[OF assms(1)] have ok: "claims_ok s" by (simp add: hub_ok_def)
  have "t = hubBeginDelete i op' now s \<and> fresh_op op' s"
    using assms(3) by (rule hub_deleteE) simp
  then have t: "t = hubBeginDelete i op' now s" and new: "fresh_op op' s" by simp_all
  have db: "hb_db t = updateWhere (\<lambda>r. has_id i r \<and> \<not> claimedFor RowDeleting r)
      (deleteClaim op' now) (hb_db s)"
    by (simp add: t hubBeginDelete_def beginDeleteClaim_def Let_def)
  from ok assms(2) have op: "op \<in> set (hb_cleanOps s)" "op \<notin> set (hb_deleteOps s)"
    by (auto simp: claims_ok_def)
  from this(1) new have ne: "op \<noteq> op'" unfolding fresh_op_def by metis
  have claimed: "claimedFor RowDeleting r" if "r \<in> set (hb_db t)" "rw_id r = i" for r
  proof -
    from that(1) obtain q where q: "r = (if has_id i q \<and> \<not> claimedFor RowDeleting q
        then deleteClaim op' now q else q)" unfolding db using updateWhere_mem by blast
    show ?thesis
    proof (cases "has_id i q \<and> \<not> claimedFor RowDeleting q")
      case True
      with q show ?thesis by (simp add: claimedFor_def deleteClaim_def)
    next
      case False
      with q that(2) show ?thesis by (auto simp: has_id_def)
    qed
  qed
  have "\<not> fencedOn i op r" if r: "r \<in> set (hb_db t)" for r
  proof
    assume f: "fencedOn i op r"
    from r obtain q where q: "q \<in> set (hb_db s)"
      "r = (if has_id i q \<and> \<not> claimedFor RowDeleting q then deleteClaim op' now q else q)"
      unfolding db using updateWhere_mem by blast
    from ok q(1) have "row_ok s q" by (simp add: claims_ok_def)
    show False
    proof (cases "has_id i q \<and> \<not> claimedFor RowDeleting q")
      case True
      with q(2) f ne show False by (simp add: fencedOn_def deleteClaim_def)
    next
      case False
      with q(2) f have "rw_deleteOperationId q = Some op" "rw_lifecycle q = RowDeleting"
        by (auto simp: fencedOn_def claimedFor_def has_id_def)
      with \<open>row_ok s q\<close> op show False by (simp add: row_ok_def)
    qed
  qed
  moreover have "hb_attempt t = Some (CleanAt st i op)"
    by (simp add: t hubBeginDelete_def beginDeleteClaim_def Let_def assms(2))
  ultimately have "hb_db u = hb_db t" using assms(4) by (intro stale_attempt) auto
  with claimed show ?thesis by blast
qed

section \<open>Cleanup\<close>

lemma getRow_mem: "getRow i db = Some r \<Longrightarrow> r \<in> set db \<and> rw_id r = i"
  by (auto simp: getRow_def has_id_def find_Some_iff)

lemma getRow_unique: "distinct (ids db) \<Longrightarrow> r \<in> set db \<Longrightarrow> getRow (rw_id r) db = Some r"
  by (induction db) (auto simp: getRow_def has_id_def ids_def)

lemma not_cleaning:
  assumes "row_update f" "\<And>r. P r \<Longrightarrow> rw_lifecycle (f r) = Cleaning \<Longrightarrow> rw_lifecycle r = Cleaning"
    and "getRow i db = Some r" "getRow i (updateWhere P f db) = Some r'" "rw_lifecycle r' = Cleaning"
  shows "rw_lifecycle r = Cleaning"
  using assms(2-) row_update.getRow_after[OF assms(1)] by (auto split: if_splits)

lemma not_cleaning_content:
  assumes "content_update f" "getRow i db = Some r" "getRow i (updateWhere P f db) = Some r'"
    "rw_lifecycle r' = Cleaning"
  shows "rw_lifecycle r = Cleaning"
proof (rule not_cleaning[OF _ _ assms(2-4)])
  show "row_update f" using assms(1) by (simp add: content_update_def)
qed (simp add: content_update.keeps_lifecycle[OF assms(1)])

lemma getRow_filter:
  assumes "distinct (ids db)" "getRow i db = Some r" "getRow i (filter P db) = Some r'"
  shows "r' = r"
proof -
  from getRow_mem[OF assms(3)] have "r' \<in> set db" "rw_id r' = i" by auto
  with getRow_unique[OF assms(1)] assms(2) show ?thesis by fastforce
qed

lemma reply_not_cleaning:
  assumes "hubReply now rep s = Some t" "distinct (ids (hb_db s))"
    "getRow i (hb_db s) = Some r" "getRow i (hb_db t) = Some r'" "rw_lifecycle r' = Cleaning"
  shows "rw_lifecycle r = Cleaning"
proof -
  consider "hb_db t = hb_db s" | j op where "hb_db t = finishDelete j op (hb_db s)"
    | P msg where "hb_db t = updateWhere P (deferred msg now) (hb_db s)"
    | P msg where "hb_db t = updateWhere P (deleteFailed msg now) (hb_db s)"
    | P msg where "hb_db t = updateWhere P (cleanFailed msg) (hb_db s)"
    | P where "hb_db t = updateWhere P (cleanedRow now) (hb_db s)"
    using assms(1)
    by (elim hubReply_cases; cases rep)
      (auto simp: endAttempt_def goOn_def markDeleteFailed_def deferDelete_def markCleanFailed_def
        finishClean_def elim!: deleteReply.elims cleanReply.elims)
  then show ?thesis
  proof cases
    case 2
    then have "r' = r"
      using getRow_filter[OF assms(2,3)] assms(4) by (simp add: finishDelete_def)
    with assms(5) show ?thesis by simp
  next
    case 3
    with assms not_cleaning_content[OF deferred_row.content_update_axioms] show ?thesis by auto
  next
    case (4 P msg)
    with assms(3-5) not_cleaning[OF delete_failed_row.row_update_axioms, of P msg now]
    show ?thesis by (auto simp: deleteFailed_def)
  next
    case (5 P msg)
    with assms(3-5) not_cleaning[OF clean_failed_row.row_update_axioms, of P msg]
    show ?thesis by (auto simp: cleanFailed_def)
  next
    case (6 P)
    with assms(3-5) not_cleaning[OF cleaned_row.row_update_axioms, of P now]
    show ?thesis by (auto simp: cleanedRow_def)
  qed (use assms in auto)
qed

lemma getRow_append:
  "getRow i (xs @ ys) = (case getRow i xs of None \<Rightarrow> getRow i ys | Some r \<Rightarrow> Some r)"
  by (induction xs) (auto simp: getRow_def)

text \<open>
  Cleanup takes only sessions that have settled. When any step puts a session into
  cleaning, it is a claim of the idle sweep, the row at that very moment (not at the scan) was
  ready or failed to be cleaned before, had nothing queued or starting, neither a write nor a
  prompt since the cutoff, and a runtime seen idle, sleeping or unreachable; the claim does
  not move the session in the list.
\<close>

theorem cleaning_only_when_settled:
  assumes "reach hub_init hub_step s" and "hub_step s e t"
    and "getRow i (hb_db s) = Some r" and "getRow i (hb_db t) = Some r'"
    and "rw_lifecycle r' = Cleaning" and "rw_lifecycle r \<noteq> Cleaning"
  shows "\<exists>now k op. e = (now, HubSweepNext k op) \<and>
    cleanupEligible (sw_cutoff (hb_sweeps s ! k)) r \<and> r' = cleanClaim op r \<and>
    sessionActivityAt r' = sessionActivityAt r"
  using assms(2)
proof cases
  case (h_reply now rep)
  from hub.holds_in_reach[OF assms(1)] have "distinct (ids (hb_db s))"
    by (simp add: hub_ok_def claims_ok_def)
  with reply_not_cleaning h_reply assms(3-) show ?thesis by blast
next
  case (h_delete op now j)
  have "hb_db t = updateWhere (\<lambda>r. has_id j r \<and> \<not> claimedFor RowDeleting r)
      (deleteClaim op now) (hb_db s)"
    by (simp add: h_delete hubBeginDelete_def beginDeleteClaim_def Let_def)
  from not_cleaning[OF claim_row.row_update_axioms _ assms(3) assms(4)[unfolded this] assms(5)]
    assms(6)
  show ?thesis by (auto simp: deleteClaim_def)
next
  case (h_sweep_next op k now)
  from h_sweep_next(3) obtain j "is" where db: "hb_db t = updateWhere
      (\<lambda>r. has_id j r \<and> cleanupEligible (sw_cutoff (hb_sweeps s ! k)) r) (cleanClaim op) (hb_db s)"
    by (elim sweepNext_Some) simp
  with assms(3-) clean_row.getRow_after
  have "cleanupEligible (sw_cutoff (hb_sweeps s ! k)) r \<and> r' = cleanClaim op r"
    by (auto split: if_splits)
  with h_sweep_next(1) show ?thesis by (auto simp: cleanClaim_def sessionActivityAt_def)
next
  case (h_insert now session)
  with assms(3-) show ?thesis
    by (auto simp: insertSessionRow_def getRow_append split: if_splits)
next
  case (h_write now w)
  from applyWrite_update[of w now "hb_db s"] obtain P f where
    "content_update f" "applyWrite w now (hb_db s) = updateWhere P f (hb_db s)" by blast
  with not_cleaning_content h_write assms(3-) show ?thesis by fastforce
qed (use assms(3-) in \<open>auto simp: newHub_def hubAlarm_def hubRearm_def hubRedelivered_def
    poke_def sweepStart_def sweepEnd_def sweepLost_def Let_def split: if_splits\<close>)

section \<open>The queue\<close>

text \<open>
  C10. A claimed session is never stranded. Whatever order requests, sweeps, alarms and crashes
  take, while a deletion or a cleanup is queued the Hub has an alarm set, is in an alarm, or is
  still owed a poke by a running request or sweep; the exception is a request that died between
  its claim and its poke, and then the object's next construction sets the alarm.
\<close>

theorem queue_never_stranded:
  assumes "reach hub_init hub_step s" and "hasPending (hb_db s)"
  shows "hb_alarm s \<noteq> None \<or> hb_attempt s \<noteq> None \<or> hb_pokes s > 0 \<or>
      (\<exists>w \<in> set (hb_sweeps s). sw_claimed w > 0) \<or>
      (hb_lost s \<and> hb_alarm (newHub now s) \<noteq> None)"
proof -
  from hub.holds_in_reach[OF assms(1)] have "awake s" by (simp add: hub_ok_def)
  moreover have "hb_alarm (newHub now s) \<noteq> None" using assms(2) by (simp add: newHub_def Let_def)
  ultimately show ?thesis using assms(2) by (auto simp: awake_def)
qed

text \<open>
  The Hub left alone with hosts that answer: its alarm fires, every call it makes succeeds, and
  the handler ends. One application is one step of the object.
\<close>

definition drainStep :: "millis \<Rightarrow> hub \<Rightarrow> hub" where
  "drainStep now s =
     (case hb_attempt s of
        None \<Rightarrow> (case hb_alarm s of None \<Rightarrow> s | Some due \<Rightarrow> hubAlarm s)
      | Some Rearm \<Rightarrow> hubRearm now s
      | Some _ \<Rightarrow> (case hubReply now ReplyOk s of None \<Rightarrow> s | Some t \<Rightarrow> t))"

definition drained :: "millis \<Rightarrow> nat \<Rightarrow> hub \<Rightarrow> hub" where
  "drained now n s = (drainStep now ^^ n) s"

definition queued :: "session_row \<Rightarrow> bool" where
  "queued r = (claimedFor RowDeleting r \<or> claimedFor Cleaning r)"

definition pendingCount :: "registry \<Rightarrow> nat" where
  "pendingCount db = length (filter queued db)"

lemma hasPending_count: "hasPending db \<longleftrightarrow> pendingCount db > 0"
  by (auto simp: hasPending_def hasPendingDeletion_def hasPendingCleanup_def pendingCount_def
      queued_def length_greater_0_conv filter_empty_conv)

lemma drained_Suc: "drained now (Suc n) s = drained now n (drainStep now s)"
  by (simp add: drained_def funpow_swap1)

lemma drained_0: "drained now 0 s = s"
  by (simp add: drained_def)

lemma drained_add: "drained now (m + n) s = drained now n (drained now m s)"
  by (simp add: drained_def funpow_add add.commute[of m n])

text \<open>The one row an attempt is about is taken off the queue.\<close>

lemma only_row:
  assumes "distinct (ids db)" "r \<in> set db"
  shows "\<exists>xs ys. db = xs @ r # ys \<and> (\<forall>q \<in> set xs \<union> set ys. rw_id q \<noteq> rw_id r)"
proof -
  from assms(2) obtain xs ys where db: "db = xs @ r # ys" by (auto simp: in_set_conv_decomp)
  from assms(1) have "rw_id r \<notin> rw_id ` set xs" "rw_id r \<notin> rw_id ` set ys"
    by (simp_all add: db ids_def)
  then have "\<forall>q \<in> set xs \<union> set ys. rw_id q \<noteq> rw_id r" by (metis UnE imageI)
  with db show ?thesis by blast
qed

lemma fenced_off: "rw_id q \<noteq> i \<Longrightarrow> \<not> fencedOn i op q"
  by (simp add: fencedOn_def)

lemma count_finishDelete:
  assumes "distinct (ids db)" "r \<in> set db" "fencedOn (rw_id r) op r" "queued r"
  shows "Suc (pendingCount (finishDelete (rw_id r) op db)) = pendingCount db"
proof -
  from only_row[OF assms(1,2)] obtain xs ys where db: "db = xs @ r # ys"
    and o: "\<forall>q \<in> set xs \<union> set ys. rw_id q \<noteq> rw_id r" by blast
  then have "finishDelete (rw_id r) op xs = xs" "finishDelete (rw_id r) op ys = ys"
    by (auto simp: finishDelete_def filter_id_conv fenced_off)
  then show ?thesis using assms(3,4) by (simp add: db pendingCount_def finishDelete_def)
qed

lemma count_finishClean:
  assumes "distinct (ids db)" "r \<in> set db" "fencedOn (rw_id r) op r" "queued r"
  shows "Suc (pendingCount (finishClean (rw_id r) op now db)) = pendingCount db"
proof -
  from only_row[OF assms(1,2)] obtain xs ys where db: "db = xs @ r # ys"
    and o: "\<forall>q \<in> set xs \<union> set ys. rw_id q \<noteq> rw_id r" by blast
  then have "finishClean (rw_id r) op now xs = xs" "finishClean (rw_id r) op now ys = ys"
    by (auto simp: finishClean_def updateWhere_def map_idI fenced_off)
  moreover have "\<not> queued (cleanedRow now r)" by (simp add: queued_def claimedFor_def cleanedRow_def)
  ultimately show ?thesis using assms(3,4)
    by (simp add: db pendingCount_def finishClean_def updateWhere_def)
qed

definition quietHub :: "millis \<Rightarrow> hub \<Rightarrow> bool" where
  "quietHub now s = (claims_ok s \<and> hb_attempt s = None \<and>
     (hasPending (hb_db s) \<longrightarrow> hb_alarm s \<noteq> None))"

lemma drain_delete_round:
  assumes a: "hb_attempt s = None" "hb_alarm s = Some due"
    and p: "pickedAt (hb_db s) = DeleteAt AtBegin i op"
  shows "drained now 5 s = hubRearm now (endAttempt (finishDelete i op) (hubAlarm s))"
  using a p
  by (simp add: eval_nat_numeral drained_Suc drained_0 drainStep_def hubAlarm_picks hubReply_def
      goOn_def endAttempt_def)

lemma drain_clean_round:
  assumes a: "hb_attempt s = None" "hb_alarm s = Some due"
    and p: "pickedAt (hb_db s) = CleanAt AtAgent i op"
  shows "drained now 6 s = hubRearm now (endAttempt (finishClean i op now) (hubAlarm s))"
  using a p
  by (simp add: eval_nat_numeral drained_Suc drained_0 drainStep_def hubAlarm_picks hubReply_def
      goOn_def endAttempt_def)

lemma quiet_rearm:
  assumes "claims_ok t" "hb_attempt t = Some Rearm"
  shows "quietHub now (hubRearm now t)"
proof -
  have "claims_ok (hubRearm now t)"
    by (rule claims_same_db[OF assms(1)]) (simp_all add: hubRearm_def)
  then show ?thesis by (simp add: quietHub_def hubRearm_def)
qed

lemma drain_round:
  assumes q: "quietHub now s" and p: "hasPending (hb_db s)"
  shows "\<exists>n \<le> 6. quietHub now (drained now n s) \<and>
    Suc (pendingCount (hb_db (drained now n s))) = pendingCount (hb_db s)"
proof -
  from q p obtain due where a: "hb_attempt s = None" "hb_alarm s = Some due" and ok: "claims_ok s"
    by (auto simp: quietHub_def)
  then have d: "distinct (ids (hb_db s))" by (simp add: claims_ok_def)
  have al: "claims_ok (hubAlarm s)" "hb_db (hubAlarm s) = hb_db s"
    "hb_attempt (hubAlarm s) = Some (pickedAt (hb_db s))"
    using claims_step[OF h_alarm[OF a, of due] ok] by (simp_all add: hubAlarm_picks)
  from pickedAt_cases[of "hb_db s"] p consider
    (D) r op where "nextPending RowDeleting (hb_db s) = Some r" "rw_deleteOperationId r = Some op"
      "pickedAt (hb_db s) = DeleteAt AtBegin (rw_id r) op"
  | (C) r op where "nextPending Cleaning (hb_db s) = Some r" "rw_deleteOperationId r = Some op"
      "pickedAt (hb_db s) = CleanAt AtAgent (rw_id r) op" by blast
  then show ?thesis
  proof cases
    case D
    let ?t = "endAttempt (finishDelete (rw_id r) op) (hubAlarm s)"
    from nextPending_Some[OF D(1)] D(2) have r: "r \<in> set (hb_db s)" "fencedOn (rw_id r) op r" "queued r"
      by (auto simp: fencedOn_def queued_def claimedFor_def)
    have "claims_ok ?t"
      by (rule claims_subset[OF al(1)]) (auto simp: endAttempt_def finishDelete_def)
    then have "quietHub now (hubRearm now ?t)" by (rule quiet_rearm) (simp add: endAttempt_def)
    moreover have "Suc (pendingCount (hb_db (hubRearm now ?t))) = pendingCount (hb_db s)"
      using count_finishDelete[OF d r] by (simp add: hubRearm_def endAttempt_def al(2))
    ultimately show ?thesis
      using drain_delete_round[OF a D(3), of now] by (intro exI[of _ 5]) simp
  next
    case C
    let ?t = "endAttempt (finishClean (rw_id r) op now) (hubAlarm s)"
    from nextPending_Some[OF C(1)] C(2) have r: "r \<in> set (hb_db s)" "fencedOn (rw_id r) op r" "queued r"
      by (auto simp: fencedOn_def queued_def claimedFor_def)
    have "claims_ok ?t" unfolding finishClean_def
      by (rule claims_end_update[OF al(1) cleaned_row.row_update_axioms])
        (auto simp: row_ok_def cleanedRow_def)
    then have "quietHub now (hubRearm now ?t)" by (rule quiet_rearm) (simp add: endAttempt_def)
    moreover have "Suc (pendingCount (hb_db (hubRearm now ?t))) = pendingCount (hb_db s)"
      using count_finishClean[OF d r, of now] by (simp add: hubRearm_def endAttempt_def al(2))
    ultimately show ?thesis
      using drain_clean_round[OF a C(3), of now] by (intro exI[of _ 6]) simp
  qed
qed

lemma drain_all:
  "quietHub now s \<Longrightarrow> pendingCount (hb_db s) = k \<Longrightarrow>
     \<exists>n \<le> 6 * k. quietHub now (drained now n s) \<and> \<not> hasPending (hb_db (drained now n s))"
proof (induction k arbitrary: s)
  case 0
  then show ?case by (intro exI[of _ 0]) (simp add: drained_0 hasPending_count)
next
  case (Suc k)
  then have "hasPending (hb_db s)" by (simp add: hasPending_count)
  with drain_round[OF Suc.prems(1)] obtain m where m: "m \<le> 6" "quietHub now (drained now m s)"
    "Suc (pendingCount (hb_db (drained now m s))) = pendingCount (hb_db s)" by blast
  with Suc.IH[OF m(2)] Suc.prems(2) obtain n where n: "n \<le> 6 * k"
    "quietHub now (drained now n (drained now m s))"
    "\<not> hasPending (hb_db (drained now n (drained now m s)))" by auto
  with m(1) show ?case
    by (intro exI[of _ "m + n"]) (simp add: drained_add)
qed

text \<open>
  C11. The queue drains. From any reachable state with an alarm set and no attempt running, if
  hosts answer and nothing new arrives, the Hub finishes one queued session per alarm, setting
  the next alarm itself: within six steps for each queued session none is left, and no attempt
  is left running.
\<close>

theorem queue_drains:
  assumes "reach hub_init hub_step s" and "hb_attempt s = None" and "hb_alarm s = Some due"
  shows "\<exists>n \<le> 6 * pendingCount (hb_db s).
    \<not> hasPending (hb_db (drained now n s)) \<and> hb_attempt (drained now n s) = None"
proof -
  from hub.holds_in_reach[OF assms(1)] assms(2,3) have "quietHub now s"
    by (simp add: quietHub_def hub_ok_def)
  from drain_all[OF this refl] show ?thesis by (auto simp: quietHub_def)
qed

section \<open>Creation\<close>

lemma safe_key: "isSafeRepoKey (JStr k) \<Longrightarrow> k \<noteq> []"
  by (auto simp: isSafeRepoKey_def SAFE_REPO_KEY_def)

lemma repoJson_roundtrip:
  assumes "isSafeRepoDefinition (repoToJson rd)"
  shows "parseRepoJson (Some (Text (repoToJson rd))) = Some rd" and "rd_repoKey rd \<noteq> []"
proof -
  from assms show "parseRepoJson (Some (Text (repoToJson rd))) = Some rd"
    by (simp add: parseRepoJson_def repoToJson_def repoFromJson_def field_def)
  from assms have "isSafeRepoKey (JStr (rd_repoKey rd))"
    by (simp add: isSafeRepoDefinition_def repoToJson_def field_def)
  then show "rd_repoKey rd \<noteq> []" by (rule safe_key)
qed

lemma getRow_absent: "i \<notin> set (ids db) \<Longrightarrow> getRow i db = None"
  by (induction db) (auto simp: getRow_def has_id_def ids_def)

text \<open>
  A session is stored as it was built. Inserting a minted session whose id is new makes the
  registry answer with that very session record and with the repository it was created from,
  read back through its JSON column; replaying the insertion, even with other values under the
  same id, changes nothing; the title a human gives later survives every automatic one.
\<close>

theorem new_session_is_stored:
  assumes "buildNewSession uuid name inp cat now = Inr ns"
    and "sr_id (ns_record ns) \<notin> set (ids db)"
  shows "let i = sr_id (ns_record ns); db' = insertSessionRow ns db in
    map_option rowToSession (getRow i db') = Some (ns_record ns) \<and>
    map_option (\<lambda>r. ir_repo (rowToInstance r)) (getRow i db') = Some (ni_repo inp) \<and>
    (\<forall>ns'. sr_id (ns_record ns') = i \<longrightarrow> insertSessionRow ns' db' = db') \<and>
    (\<forall>p t title. map_option sr_title
       (fst (updateSession i p t (snd (renameSession i title t db')))) = Some title)"
proof -
  let ?i = "sr_id (ns_record ns)" and ?db = "insertSessionRow ns db"
  from assms(1) have safe: "\<And>rd. ns_repo ns = Some rd \<Longrightarrow> isSafeRepoDefinition (repoToJson rd)"
    and repo: "ns_repo ns = ni_repo inp"
    by (auto simp: buildNewSession_def Let_def split: if_splits option.splits)
  have row: "getRow ?i ?db = Some (newRow ns)"
    using assms(2) by (simp add: insertSessionRow_def getRow_append getRow_absent)
      (simp add: getRow_def has_id_def newRow_def Let_def)
  have "rowToSession (newRow ns) = ns_record ns"
    using assms(1) repoJson_roundtrip(2)[OF safe]
    by (auto simp: buildNewSession_def Let_def newRow_def rowToSession_def non_empty_def
        split: if_splits option.splits)
  moreover have "ir_repo (rowToInstance (newRow ns)) = ni_repo inp"
    using repoJson_roundtrip(1)[OF safe]
    by (cases "ns_repo ns") (simp_all add: newRow_def Let_def rowToInstance_def parseRepoJson_def repo)
  moreover have "insertSessionRow ns' ?db = ?db" if "sr_id (ns_record ns') = ?i" for ns'
  proof -
    have "?i \<in> set (ids ?db)" using row getRow_absent[of ?i ?db] by auto
    with that show ?thesis by (simp add: insertSessionRow_def[of ns'])
  qed
  moreover have "map_option sr_title
       (fst (updateSession ?i p t (snd (renameSession ?i title t ?db)))) = Some title" for p t title
    using getRow_mem[OF row]
    by (simp add: updateSession_def renameSession_def Let_def row patch_row.getRow_after
        rename_row.getRow_after has_id_def renamed_def sessionPatchAssignments_def rowToSession_def)
  ultimately show ?thesis by (simp add: Let_def row)
qed

section \<open>The list\<close>

lemma sort_page:
  assumes "sorted (map f xs)" "rev xs = p @ q"
  shows "(\<forall>a \<in> set p. \<forall>b \<in> set q. f b \<le> f a) \<and> sorted_wrt (\<lambda>a b. f b \<le> f a) p"
proof -
  have "sorted_wrt (\<lambda>a b. f b \<le> f a) (rev xs)"
    using assms(1) by (simp add: sorted_map sorted_wrt_rev)
  then show ?thesis by (simp add: assms(2) sorted_wrt_append)
qed

lemma key_pinned:
  "listKey q \<le> listKey r \<Longrightarrow> rw_pinnedAt q = Some y \<Longrightarrow> \<exists>z. rw_pinnedAt r = Some z"
  by (auto simp: listKey_def pinnedFirst_def split: if_splits)

lemma key_recent:
  "listKey q \<le> listKey r \<Longrightarrow> rw_pinnedAt q = None \<longleftrightarrow> rw_pinnedAt r = None \<Longrightarrow>
     sessionActivityAt q \<le> sessionActivityAt r"
  by (auto simp: listKey_def pinnedFirst_def split: if_splits)

text \<open>
  A page of the session list is its top. The rows the database cuts at the limit are ranked
  below every row it returns: none of them is pinned unless every returned row is, and within
  the pinned and within the others none was touched more recently. The order is by the same
  moment the sidebar computes from the records.
\<close>

theorem page_is_the_top:
  "\<exists>page others. mset page + mset others = mset db \<and> length page = min n (length db) \<and>
     listRegistry (Some n) db = map (\<lambda>r. (rowToSession r, rowToInstance r)) page \<and>
     sorted_wrt (\<lambda>a b. listKey b \<le> listKey a) page \<and>
     (\<forall>r \<in> set page. \<forall>q \<in> set others.
        (rw_pinnedAt q \<noteq> None \<longrightarrow> rw_pinnedAt r \<noteq> None) \<and>
        ((rw_pinnedAt q = None) = (rw_pinnedAt r = None) \<longrightarrow>
           deriveLastActivityAt (rowToSession q) \<le> deriveLastActivityAt (rowToSession r)))"
proof -
  let ?s = "rev (sort_key listKey db)"
  have agree: "deriveLastActivityAt (rowToSession r) = sessionActivityAt r" for r
    by (auto simp: deriveLastActivityAt_def sessionActivityAt_def rowToSession_def Let_def max_def
        split: option.splits)
  have split: "?s = take n ?s @ drop n ?s" by simp
  from sort_page[OF sorted_sort_key split] have
    "\<forall>a \<in> set (take n ?s). \<forall>b \<in> set (drop n ?s). listKey b \<le> listKey a"
    "sorted_wrt (\<lambda>a b. listKey b \<le> listKey a) (take n ?s)" by blast+
  moreover have "mset (take n ?s) + mset (drop n ?s) = mset db"
    by (simp flip: mset_append)
  ultimately show ?thesis
    by - (rule exI[of _ "take n ?s"], rule exI[of _ "drop n ?s"],
      auto simp: listRegistry_def agree min.commute dest: key_pinned intro: key_recent)
qed

section \<open>Concrete executions\<close>

text \<open>
  A session is created, works and falls asleep; three days later the sweep takes it and the
  Hub starts cleaning it.
\<close>

definition exNew :: new_session where
  "exNew = \<lparr>ns_record = \<lparr>sr_id = ''i'', sr_instanceId = ''i'', sr_repoKey = None,
       sr_directory = Some ''/workspace'', sr_provider = ''cloudflare'', sr_model = ''p/m'',
       sr_variant = None, sr_title = ''t'', sr_opencodeSessionId = None, sr_phase = Queued,
       sr_pendingPromptCount = 1, sr_lastError = None, sr_lastPromptAt = None,
       sr_cleanedAt = None, sr_unreadAt = None, sr_pinnedAt = None, sr_titleLocked = False,
       sr_bootStep = None, sr_runtimeLifecycle = None, sr_container = None,
       sr_statusQuery = True, sr_statusObservedAt = None, sr_createdAt = 0, sr_updatedAt = 0\<rparr>,
     ns_name = ''amber-fox'', ns_repo = None\<rparr>"

definition exHub :: hub where
  "exHub = \<lparr>hb_db = [], hb_alarm = None, hb_attempt = None, hb_legacy = False, hb_pokes = 0,
     hb_sweeps = [], hb_lost = False, hb_deleteOps = [], hb_cleanOps = []\<rparr>"

definition exPatch :: state_patch where
  "exPatch = \<lparr>pa_phase = Some Working, pa_model = None, pa_title = None,
     pa_opencodeSessionId = Some ''ses'', pa_pendingPromptCount = Some 0, pa_lastPromptAt = Some 10,
     pa_variant = Absent, pa_lastError = Cleared\<rparr>"

definition exSettled :: "(millis \<times> hub_event) list" where
  "exSettled = [(0, HubInsert exNew), (10, HubWrite (WritePatch ''i'' exPatch)),
     (20, HubWrite (WriteRuntime ''i''
        \<lparr>rp_runtimeLifecycle = RSleeping, rp_container = None, rp_statusQuery = None\<rparr>)),
     (300000000, HubSweepStart)]"

definition exCleaning :: "(millis \<times> hub_event) list" where
  "exCleaning = exSettled @ [(300000001, HubSweepNext 0 ''op1''), (300000002, HubSweepEnd 0),
     (300000003, HubPoke), (300000004, HubAlarm)]"

definition exDeleting :: "(millis \<times> hub_event) list" where
  "exDeleting = [(0, HubInsert exNew), (1, HubBeginDelete ''i'' ''op1''), (2, HubPoke),
     (3, HubAlarm), (4, HubReplied ReplyOk), (5, HubReplied ReplyOk)]"

lemma exHub_reach: "hubRun exHub es = Some s \<Longrightarrow> reach hub_init hub_step s"
  by (rule reach_run[OF hubRun_run]) (auto intro: reach_start simp: hub_init_def exHub_def)

definition exState :: "(millis \<times> hub_event) list \<Rightarrow> hub" where
  "exState es = (case hubRun exHub es of None \<Rightarrow> exHub | Some s \<Rightarrow> s)"

lemma exState_reach: "reach hub_init hub_step (exState es)"
  by (auto simp: exState_def intro: exHub_reach reach_start simp: hub_init_def exHub_def
      split: option.splits)

definition exRow :: session_row where
  "exRow = deleteClaim ''op1'' 1 (newRow exNew)"

lemma deletion_is_requested_witness:
  "\<exists>t op. hub_step (exState exDeleting) (6, HubReplied ReplyOk) t \<and>
     rw_deleteOperationId exRow = Some op \<and> op \<in> set (hb_deleteOps (exState exDeleting))"
proof -
  have x: "(case hubExec (exState exDeleting) (6, HubReplied ReplyOk) of
      None \<Rightarrow> False | Some t \<Rightarrow> ids (hb_db t) = []) \<and> exRow \<in> set (hb_db (exState exDeleting))"
    by code_simp
  then obtain t where t: "hubExec (exState exDeleting) (6, HubReplied ReplyOk) = Some t"
    "ids (hb_db t) = []" by (auto split: option.splits)
  have "hub_step (exState exDeleting) (6, HubReplied ReplyOk) t" using t(1) by (rule hubExec_step)
  with deletion_is_requested[OF exState_reach this, of exRow] x t(2) show ?thesis by auto
qed

lemma deletion_preempts_cleaning_witness:
  "\<exists>t u. hub_step (exState exCleaning) (300000005, HubBeginDelete ''i'' ''op2'') t \<and>
     hubReply 300000006 (ReplyThrown ''lost'') t = Some u \<and> hb_db u = hb_db t"
proof -
  have x: "(case hubExec (exState exCleaning) (300000005, HubBeginDelete ''i'' ''op2'') of
      None \<Rightarrow> False | Some t \<Rightarrow> hubReply 300000006 (ReplyThrown ''lost'') t \<noteq> None) \<and>
      hb_attempt (exState exCleaning) = Some (CleanAt AtAgent ''i'' ''op1'')"
    by code_simp
  then obtain t u where t:
    "hubExec (exState exCleaning) (300000005, HubBeginDelete ''i'' ''op2'') = Some t"
    "hubReply 300000006 (ReplyThrown ''lost'') t = Some u" by (auto split: option.splits)
  have s: "hub_step (exState exCleaning) (300000005, HubBeginDelete ''i'' ''op2'') t"
    using t(1) by (rule hubExec_step)
  from deletion_preempts_cleaning[OF exState_reach _ s t(2)] x s t(2) show ?thesis by auto
qed

lemma cleaning_only_when_settled_witness:
  "\<exists>t r k op. hub_step (exState exSettled) (300000001, HubSweepNext 0 ''op1'') t \<and>
     cleanupEligible (sw_cutoff (hb_sweeps (exState exSettled) ! k)) r \<and>
     getRow ''i'' (hb_db t) = Some (cleanClaim op r)"
proof -
  have x: "(case hubExec (exState exSettled) (300000001, HubSweepNext 0 ''op1'') of
      None \<Rightarrow> False
    | Some t \<Rightarrow> (case getRow ''i'' (hb_db t) of None \<Rightarrow> False | Some r' \<Rightarrow> rw_lifecycle r' = Cleaning)) \<and>
      (case getRow ''i'' (hb_db (exState exSettled)) of
         None \<Rightarrow> False | Some r \<Rightarrow> rw_lifecycle r = Ready)"
    by code_simp
  then obtain t r r' where t:
    "hubExec (exState exSettled) (300000001, HubSweepNext 0 ''op1'') = Some t"
    "getRow ''i'' (hb_db t) = Some r'" "rw_lifecycle r' = Cleaning"
    "getRow ''i'' (hb_db (exState exSettled)) = Some r" "rw_lifecycle r = Ready"
    by (auto split: option.splits)
  have s: "hub_step (exState exSettled) (300000001, HubSweepNext 0 ''op1'') t"
    using t(1) by (rule hubExec_step)
  from cleaning_only_when_settled[OF exState_reach s t(4,2,3)] s t show ?thesis by auto
qed

lemma page_is_the_top_witness:
  "\<exists>page. length page = 1 \<and> listRegistry (Some 1) [newRow exNew, exRow] =
     map (\<lambda>r. (rowToSession r, rowToInstance r)) page"
  using page_is_the_top[of "[newRow exNew, exRow]" 1] by fastforce

lemma queue_never_stranded_witness:
  "hasPending (hb_db (exState (take 2 exDeleting))) \<and> hb_pokes (exState (take 2 exDeleting)) > 0"
proof -
  have x: "hasPending (hb_db (exState (take 2 exDeleting))) \<and>
      hb_alarm (exState (take 2 exDeleting)) = None \<and>
      hb_attempt (exState (take 2 exDeleting)) = None \<and>
      hb_sweeps (exState (take 2 exDeleting)) = [] \<and> \<not> hb_lost (exState (take 2 exDeleting))"
    by code_simp
  with queue_never_stranded[OF exState_reach, of "take 2 exDeleting" 0] show ?thesis by simp
qed

lemma queue_drains_witness:
  "hasPending (hb_db (exState (take 3 exDeleting))) \<and>
   (\<exists>n \<le> 6. \<not> hasPending (hb_db (drained 3 n (exState (take 3 exDeleting)))))"
proof -
  have x: "hasPending (hb_db (exState (take 3 exDeleting))) \<and>
      hb_attempt (exState (take 3 exDeleting)) = None \<and>
      hb_alarm (exState (take 3 exDeleting)) = Some 2 \<and>
      pendingCount (hb_db (exState (take 3 exDeleting))) = 1"
    by code_simp
  with queue_drains[OF exState_reach, of "take 3 exDeleting" 2 3] show ?thesis by auto
qed

definition exInput :: new_session_input where
  "exInput = \<lparr>ni_repo = Some \<lparr>rd_repoKey = ''app'', rd_displayName = ''me/app'',
       rd_cloneUrl = ''git@github.com:me/app'', rd_defaultBranch = ''main''\<rparr>,
     ni_provider = None, ni_model = ''p/m'', ni_variant = None, ni_title = ''t''\<rparr>"

definition exCatalog :: model_catalog where
  "exCatalog = \<lparr>cat_options = [\<lparr>mo_id = ''p/m'', mo_providerID = ''p'', mo_modelID = ''m'',
       mo_providerName = ''P'', mo_modelName = ''M'', mo_variants = []\<rparr>],
     cat_defaultModelRef = ''p/m''\<rparr>"

lemma new_session_is_stored_witness:
  "\<exists>ns. buildNewSession ''u'' ''amber-fox'' exInput exCatalog 5 = Inr ns \<and>
     map_option rowToSession (getRow ''inst-u'' (insertSessionRow ns [])) = Some (ns_record ns)"
proof -
  have x: "case buildNewSession ''u'' ''amber-fox'' exInput exCatalog 5 of
      Inl e \<Rightarrow> False | Inr ns \<Rightarrow> sr_id (ns_record ns) = ''inst-u''" by code_simp
  then obtain ns where "buildNewSession ''u'' ''amber-fox'' exInput exCatalog 5 = Inr ns"
    "sr_id (ns_record ns) = ''inst-u''" by (auto split: sum.splits)
  with new_session_is_stored[OF this(1), of "[]"] show ?thesis by (auto simp: ids_def Let_def)
qed

section \<open>A cleanup that waits\<close>

text \<open>
  Deferring an attempt stamps the row whatever claimed it: a cleanup whose container is still
  terminating moves its session to the top of the list.
\<close>

lemma deferred_clean_resurfaces:
  "rw_lifecycle r = Cleaning \<Longrightarrow> sessionActivityAt r \<le> now \<Longrightarrow>
     sessionActivityAt (deferred msg now r) = now"
  by (auto simp: sessionActivityAt_def deferred_def Let_def split: option.splits)

end
