(* ===== verification/Activity.thy ===== *)
theory Activity
  imports Js_Text
begin

text \<open>
  What counts as work: \<open>src/opencode-activity.ts\<close>. The locations of a container, the
  classification of the two activity reports of OpenCode, and their aggregation, which the
  shutdown policy reads. The fetch of a report is an argument: for every question, what the
  container answers.
\<close>

section \<open>States and their order\<close>

datatype activity_state = ActIdle | ActUnknown | ActActive

text \<open>Active beats unknown, unknown beats idle.\<close>

fun activity_rank :: "activity_state \<Rightarrow> nat" where
  "activity_rank ActIdle = 0"
| "activity_rank ActUnknown = 1"
| "activity_rank ActActive = 2"

lemma activity_rank_inj [simp]: "activity_rank a = activity_rank b \<longleftrightarrow> a = b"
  by (cases a; cases b) auto

instantiation activity_state :: linorder
begin

definition less_eq_activity_state :: "activity_state \<Rightarrow> activity_state \<Rightarrow> bool" where
  "less_eq_activity_state a b = (activity_rank a \<le> activity_rank b)"

definition less_activity_state :: "activity_state \<Rightarrow> activity_state \<Rightarrow> bool" where
  "less_activity_state a b = (activity_rank a < activity_rank b)"

instance
proof
  fix a b :: activity_state
  show "a \<le> b \<Longrightarrow> b \<le> a \<Longrightarrow> a = b"
    unfolding less_eq_activity_state_def using activity_rank_inj by (meson le_antisym)
qed (auto simp: less_eq_activity_state_def less_activity_state_def)

end

record classification =
  ac_state :: activity_state
  ac_sessions :: "string list"
  ac_reason :: "string option"

definition idleActivity :: classification where
  "idleActivity = \<lparr>ac_state = ActIdle, ac_sessions = [], ac_reason = None\<rparr>"

definition unknownActivity :: "string \<Rightarrow> classification" where
  "unknownActivity reason = \<lparr>ac_state = ActUnknown, ac_sessions = [], ac_reason = Some reason\<rparr>"

section \<open>Locations\<close>

record location =
  oc_directory :: string
  oc_workspace :: "string option"

record location_input =
  li_directory :: "string option"
  li_workspace :: "string option"

text \<open>The walk over the segments; \<open>pop\<close> on an empty stack does nothing.\<close>

fun posixSegments :: "string list \<Rightarrow> string list \<Rightarrow> string list" where
  "posixSegments [] segments = segments"
| "posixSegments (w # ws) segments =
     (if w = [] \<or> w = ''.'' then posixSegments ws segments
      else if w = ''..'' then posixSegments ws (butlast segments)
      else posixSegments ws (segments @ [w]))"

definition normalizeAbsolutePosixPath :: "string \<Rightarrow> string option" where
  "normalizeAbsolutePosixPath v =
     (if \<not> starts_with v ''/'' then None
      else Some (''/'' @ join_with ''/'' (posixSegments (split_on (CHR ''/'') v) [])))"

definition normalizeOpenCodeLocation :: "location_input \<Rightarrow> location option" where
  "normalizeOpenCodeLocation inp =
     (case li_directory inp of
        None \<Rightarrow> None
      | Some d \<Rightarrow>
          (case normalizeAbsolutePosixPath (trim d) of
             None \<Rightarrow> None
           | Some directory \<Rightarrow>
               Some \<lparr>oc_directory = directory,
                 oc_workspace = (case li_workspace inp of
                    None \<Rightarrow> None | Some w \<Rightarrow> if trim w = [] then None else Some (trim w))\<rparr>))"

text \<open>
  The map from keys to locations, in insertion order. The key is the JSON text of the
  directory and the workspace, so it is represented by the pair itself.
\<close>

definition openCodeLocationKey :: "location \<Rightarrow> string \<times> string option" where
  "openCodeLocationKey l = (oc_directory l, oc_workspace l)"

fun collectLocations ::
  "location_input list \<Rightarrow> ((string \<times> string option) \<times> location) list
     \<Rightarrow> ((string \<times> string option) \<times> location) list" where
  "collectLocations [] m = m"
| "collectLocations (inp # ins) m =
     (case normalizeOpenCodeLocation inp of
        None \<Rightarrow> collectLocations ins m
      | Some l \<Rightarrow> collectLocations ins (AList.update (openCodeLocationKey l) l m))"

definition normalizeKnownOpenCodeLocations :: "location_input list \<Rightarrow> location list" where
  "normalizeKnownOpenCodeLocations inputs = map snd (collectLocations inputs [])"

definition sessionLocation :: "json \<Rightarrow> location_input list" where
  "sessionLocation session =
     (case session of
        JObj kvs \<Rightarrow>
          (case the_str (field kvs ''directory'') of
             None \<Rightarrow> []
           | Some d \<Rightarrow> [\<lparr>li_directory = Some d, li_workspace = the_str (field kvs ''workspaceID'')\<rparr>])
      | _ \<Rightarrow> [])"

definition openCodeLocationsFromGlobalSessions :: "json \<Rightarrow> location list option" where
  "openCodeLocationsFromGlobalSessions v =
     (case v of
        JArr xs \<Rightarrow> Some (normalizeKnownOpenCodeLocations (concat (map sessionLocation xs)))
      | _ \<Rightarrow> None)"

text \<open>The two query parameters of the request's URL are given.\<close>

definition extractOpenCodeLocation ::
  "string option \<Rightarrow> string option \<Rightarrow> string \<Rightarrow> location option" where
  "extractOpenCodeLocation requestedDirectory workspace defaultDirectory =
     (let directory = (case requestedDirectory of
          None \<Rightarrow> defaultDirectory
        | Some d \<Rightarrow> if d \<noteq> [] \<and> trim d \<noteq> [] then d else defaultDirectory)
      in normalizeOpenCodeLocation \<lparr>li_directory = Some directory, li_workspace = workspace\<rparr>)"

section \<open>Classification\<close>

datatype legacy_state = LegacyBusy | LegacyRetry | LegacyIdle | LegacyUnknown

definition classifyLegacySessionStatus :: "json \<Rightarrow> legacy_state" where
  "classifyLegacySessionStatus v =
     (case v of
        JObj kvs \<Rightarrow>
          (case the_str (field kvs ''type'') of
             None \<Rightarrow> LegacyUnknown
           | Some t \<Rightarrow>
               if t = ''busy'' then LegacyBusy
               else if t = ''retry'' then LegacyRetry
               else if t = ''idle'' then LegacyIdle
               else LegacyUnknown)
      | _ \<Rightarrow> LegacyUnknown)"

definition classifiedAs :: "legacy_state set \<Rightarrow> (string \<times> json) list \<Rightarrow> string list" where
  "classifiedAs A kvs = sort (map fst (filter (\<lambda>(i, st). classifyLegacySessionStatus st \<in> A) kvs))"

definition unrecognized :: "string list \<Rightarrow> string" where
  "unrecognized xs = ''Unrecognized legacy status for: '' @ join_with '', '' xs"

definition classifyLegacySessionStatuses :: "json \<Rightarrow> classification" where
  "classifyLegacySessionStatuses v =
     (case v of
        JObj kvs \<Rightarrow>
          (let active = classifiedAs {LegacyBusy, LegacyRetry} kvs;
               unknown = classifiedAs {LegacyUnknown} kvs
           in if active \<noteq> [] then
                \<lparr>ac_state = ActActive, ac_sessions = active,
                 ac_reason = (if unknown \<noteq> [] then Some (unrecognized unknown) else None)\<rparr>
              else if unknown \<noteq> [] then unknownActivity (unrecognized unknown)
              else idleActivity)
      | _ \<Rightarrow> unknownActivity ''Legacy session status response is not an object'')"

definition classifyV2ActiveSessions :: "json \<Rightarrow> classification" where
  "classifyV2ActiveSessions v =
     (case v of
        JObj kvs \<Rightarrow>
          (case field kvs ''data'' of
             JObj active \<Rightarrow>
               (let ids = sort (map fst active)
                in if ids \<noteq> [] then \<lparr>ac_state = ActActive, ac_sessions = ids, ac_reason = None\<rparr>
                   else idleActivity)
           | _ \<Rightarrow> unknownActivity ''V2 active session response has no data map'')
      | _ \<Rightarrow> unknownActivity ''V2 active session response has no data map'')"

section \<open>Aggregation\<close>

text \<open>The first occurrences, in order.\<close>

fun firsts :: "'a list \<Rightarrow> 'a list" where
  "firsts [] = []"
| "firsts (x # xs) = x # firsts (filter (\<lambda>y. y \<noteq> x) xs)"

definition activeSessions :: "classification list \<Rightarrow> string list" where
  "activeSessions cs = sort (firsts (concat (map
     (\<lambda>c. if ac_state c = ActActive then ac_sessions c else []) cs)))"

definition unknownReasons :: "classification list \<Rightarrow> string list" where
  "unknownReasons cs = firsts (map (\<lambda>c. nullish (ac_reason c) ''Unknown OpenCode activity'')
     (filter (\<lambda>c. ac_state c = ActUnknown) cs))"

definition aggregateActivityClassifications :: "classification list \<Rightarrow> classification" where
  "aggregateActivityClassifications cs =
     (if cs = [] then unknownActivity ''No OpenCode activity sources were observed''
      else if activeSessions cs \<noteq> [] then
        \<lparr>ac_state = ActActive, ac_sessions = activeSessions cs, ac_reason = None\<rparr>
      else if unknownReasons cs \<noteq> [] then unknownActivity (join_with ''; '' (unknownReasons cs))
      else idleActivity)"

section \<open>The query\<close>

text \<open>What the container answers: an exception, a status that is not \<open>ok\<close>, or a JSON body.\<close>

datatype fetch_reply = FetchThrows string | FetchStatus string | FetchBody json

definition queryJsonActivity ::
  "string \<Rightarrow> fetch_reply \<Rightarrow> (json \<Rightarrow> classification) \<Rightarrow> classification" where
  "queryJsonActivity pathname reply classify =
     (case reply of
        FetchThrows m \<Rightarrow> unknownActivity (pathname @ '' failed: '' @ m)
      | FetchStatus code \<Rightarrow> unknownActivity (pathname @ '' returned HTTP '' @ code)
      | FetchBody v \<Rightarrow> classify v)"

definition LEGACY_SESSION_STATUS_PATH :: string where
  "LEGACY_SESSION_STATUS_PATH = ''/session/status''"

definition V2_ACTIVE_SESSION_PATH :: string where
  "V2_ACTIVE_SESSION_PATH = ''/api/session/active''"

record activity_snapshot =
  as_result :: classification
  as_legacy :: "(location \<times> classification) list"
  as_v2 :: classification

definition queryOpenCodeActivity ::
  "(location \<Rightarrow> fetch_reply) \<Rightarrow> fetch_reply \<Rightarrow> location_input list \<Rightarrow> activity_snapshot" where
  "queryOpenCodeActivity fetchLegacy fetchV2 inputs =
     (let locations = normalizeKnownOpenCodeLocations inputs;
          legacy = map (\<lambda>l. (l, queryJsonActivity LEGACY_SESSION_STATUS_PATH (fetchLegacy l)
                     classifyLegacySessionStatuses)) locations;
          v2 = queryJsonActivity V2_ACTIVE_SESSION_PATH fetchV2 classifyV2ActiveSessions
      in \<lparr>as_result = aggregateActivityClassifications
            ((if legacy \<noteq> [] then map snd legacy
              else [unknownActivity ''No known legacy OpenCode locations'']) @ [v2]),
          as_legacy = legacy, as_v2 = v2\<rparr>)"

end
