(* ===== verification/Activity_Properties.thy ===== *)
theory Activity_Properties
  imports Activity
begin

text \<open>
  The shutdown policy may trust an idle answer: it is given only when every known location and
  the process itself reported that nothing runs. Aggregation is the maximum of the states, and
  locations are compared in a canonical form.
\<close>

section \<open>Sound classifications\<close>

text \<open>Active, and only active, names sessions.\<close>

definition sound :: "classification \<Rightarrow> bool" where
  "sound c = ((ac_state c = ActActive) = (ac_sessions c \<noteq> []))"

lemma sound_intros [simp]: "sound idleActivity" "sound (unknownActivity r)"
  by (simp_all add: sound_def idleActivity_def unknownActivity_def)

lemma states [simp]: "ac_state idleActivity = ActIdle" "ac_state (unknownActivity r) = ActUnknown"
  "ac_sessions idleActivity = []" "ac_sessions (unknownActivity r) = []"
  by (simp_all add: idleActivity_def unknownActivity_def)

lemma sound_legacy: "sound (classifyLegacySessionStatuses v)"
  by (auto simp: classifyLegacySessionStatuses_def Let_def sound_def split: json.splits)

lemma sound_v2: "sound (classifyV2ActiveSessions v)"
  by (auto simp: classifyV2ActiveSessions_def Let_def sound_def split: json.splits)

lemma sound_query: "(\<And>v. sound (classify v)) \<Longrightarrow> sound (queryJsonActivity p r classify)"
  by (cases r) (auto simp: queryJsonActivity_def)

section \<open>Aggregation is the maximum\<close>

lemma set_firsts [simp]: "set (firsts xs) = set xs"
  by (induction xs rule: firsts.induct) auto

lemma distinct_firsts: "distinct (firsts xs)"
  by (induction xs rule: firsts.induct) auto

lemma firsts_Nil [simp]: "firsts xs = [] \<longleftrightarrow> xs = []"
  by (cases xs) auto

lemma sort_Nil [simp]: "sort xs = [] \<longleftrightarrow> xs = []"
  by (metis set_empty set_sort)

lemma set_activeSessions:
  "set (activeSessions cs) = (\<Union>c \<in> {c \<in> set cs. ac_state c = ActActive}. set (ac_sessions c))"
  by (auto simp: activeSessions_def)

lemma no_active:
  assumes "\<forall>c \<in> set cs. sound c"
  shows "activeSessions cs = [] \<longleftrightarrow> (\<forall>c \<in> set cs. ac_state c \<noteq> ActActive)"
  using assms by (auto simp: activeSessions_def sound_def split: if_splits)

lemma no_unknown: "unknownReasons cs = [] \<longleftrightarrow> (\<forall>c \<in> set cs. ac_state c \<noteq> ActUnknown)"
  by (auto simp: unknownReasons_def filter_empty_conv)

lemma state_le: "a \<le> ActActive" "ActIdle \<le> a" "a \<noteq> ActActive \<Longrightarrow> a \<le> ActUnknown"
  for a :: activity_state
  by (cases a; simp add: less_eq_activity_state_def)+

lemma Max_state:
  assumes "cs \<noteq> []" and "\<And>c. c \<in> set cs \<Longrightarrow> ac_state c \<le> a" and "\<exists>c \<in> set cs. ac_state c = a"
  shows "Max (ac_state ` set cs) = a"
  using assms by (intro Max_eqI) auto

text \<open>
  Aggregating activity reports is taking the maximum in the order idle, unknown, active;
  the sessions named are exactly those of the active reports, sorted and without repetition.
\<close>

theorem aggregate_is_maximum:
  assumes "cs \<noteq> []" and "\<forall>c \<in> set cs. sound c"
  shows "ac_state (aggregateActivityClassifications cs) = Max (ac_state ` set cs) \<and>
    set (ac_sessions (aggregateActivityClassifications cs)) = (\<Union>c \<in> set cs. set (ac_sessions c)) \<and>
    sorted (ac_sessions (aggregateActivityClassifications cs)) \<and>
    distinct (ac_sessions (aggregateActivityClassifications cs))"
proof -
  have all: "(\<Union>c \<in> set cs. set (ac_sessions c)) = set (activeSessions cs)"
    using assms(2) by (fastforce simp: set_activeSessions sound_def)
  have ord: "sorted (activeSessions cs)" "distinct (activeSessions cs)"
    by (simp_all add: activeSessions_def distinct_firsts)
  consider (A) "activeSessions cs \<noteq> []" | (U) "activeSessions cs = []" "unknownReasons cs \<noteq> []"
    | (I) "activeSessions cs = []" "unknownReasons cs = []" by blast
  then show ?thesis
  proof cases
    case A
    then have "Max (ac_state ` set cs) = ActActive"
      using assms(1) no_active[OF assms(2)] by (intro Max_state) (auto simp: state_le)
    with A all ord assms(1) show ?thesis by (simp add: aggregateActivityClassifications_def)
  next
    case U
    then have "Max (ac_state ` set cs) = ActUnknown"
      using assms(1) no_active[OF assms(2)] no_unknown[of cs]
      by (intro Max_state) (auto simp: state_le)
    with U all assms(1) show ?thesis by (simp add: aggregateActivityClassifications_def)
  next
    case I
    then have "ac_state c = ActIdle" if "c \<in> set cs" for c
      using that no_active[OF assms(2)] no_unknown[of cs] by (cases "ac_state c") auto
    then have "Max (ac_state ` set cs) = ActIdle"
      using assms(1) by (intro Max_state) (auto simp: neq_Nil_conv)
    with I all assms(1) show ?thesis by (simp add: aggregateActivityClassifications_def)
  qed
qed

lemma aggregate_is_maximum_witness:
  "ac_state (aggregateActivityClassifications [idleActivity, unknownActivity ''x'']) = ActUnknown"
proof -
  have "Max (ac_state ` set [idleActivity, unknownActivity ''x'']) = ActUnknown"
    by (intro Max_eqI) (auto simp: state_le)
  with aggregate_is_maximum[of "[idleActivity, unknownActivity ''x'']"] show ?thesis by simp
qed

section \<open>Idle means idle\<close>

lemma aggregate_idle:
  assumes "\<forall>c \<in> set cs. sound c"
  shows "ac_state (aggregateActivityClassifications cs) = ActIdle \<longleftrightarrow>
    cs \<noteq> [] \<and> (\<forall>c \<in> set cs. ac_state c = ActIdle)"
proof -
  have "(\<forall>c \<in> set cs. ac_state c = ActIdle) \<longleftrightarrow>
      (\<forall>c \<in> set cs. ac_state c \<noteq> ActActive) \<and> (\<forall>c \<in> set cs. ac_state c \<noteq> ActUnknown)"
    using activity_state.exhaust by (metis activity_state.distinct)
  then show ?thesis
    using no_active[OF assms] no_unknown[of cs] by (auto simp: aggregateActivityClassifications_def)
qed

lemma legacy_idle:
  "ac_state (classifyLegacySessionStatuses v) = ActIdle \<longleftrightarrow>
     (\<exists>kvs. v = JObj kvs \<and> (\<forall>(i, st) \<in> set kvs. classifyLegacySessionStatus st = LegacyIdle))"
proof (cases v)
  case (JObj kvs)
  have "classifiedAs A kvs = [] \<longleftrightarrow> (\<forall>(i, st) \<in> set kvs. classifyLegacySessionStatus st \<notin> A)" for A
    by (auto simp: classifiedAs_def filter_empty_conv)
  moreover have "st = LegacyIdle \<longleftrightarrow> st \<notin> {LegacyBusy, LegacyRetry} \<and> st \<notin> {LegacyUnknown}" for st
    by (cases st) auto
  ultimately show ?thesis
    by (auto simp: JObj classifyLegacySessionStatuses_def Let_def split: if_splits)
qed (auto simp: classifyLegacySessionStatuses_def)

lemma v2_idle:
  "ac_state (classifyV2ActiveSessions v) = ActIdle \<longleftrightarrow>
     (\<exists>kvs. v = JObj kvs \<and> field kvs ''data'' = JObj [])"
  by (auto simp: classifyV2ActiveSessions_def Let_def split: json.splits if_splits)

lemma query_idle:
  "ac_state (queryJsonActivity p r classify) = ActIdle \<longleftrightarrow>
     (\<exists>v. r = FetchBody v \<and> ac_state (classify v) = ActIdle)"
  by (cases r) (auto simp: queryJsonActivity_def)

text \<open>
  Idle means idle. The query calls a container idle exactly when it knows at least one
  location, every known location answered with an object in which every session is idle, and
  the process answered with an empty set of active sessions; an exception, an HTTP error, a
  body of another shape or a status it does not know is never idle.
\<close>

theorem idle_means_idle:
  "ac_state (as_result (queryOpenCodeActivity fetchLegacy fetchV2 inputs)) = ActIdle \<longleftrightarrow>
     normalizeKnownOpenCodeLocations inputs \<noteq> [] \<and>
     (\<forall>l \<in> set (normalizeKnownOpenCodeLocations inputs). \<exists>kvs. fetchLegacy l = FetchBody (JObj kvs) \<and>
        (\<forall>(i, st) \<in> set kvs. classifyLegacySessionStatus st = LegacyIdle)) \<and>
     (\<exists>kvs. fetchV2 = FetchBody (JObj kvs) \<and> field kvs ''data'' = JObj [])"
proof -
  let ?ls = "normalizeKnownOpenCodeLocations inputs"
  let ?q = "\<lambda>l. queryJsonActivity LEGACY_SESSION_STATUS_PATH (fetchLegacy l) classifyLegacySessionStatuses"
  let ?v2 = "queryJsonActivity V2_ACTIVE_SESSION_PATH fetchV2 classifyV2ActiveSessions"
  let ?cs = "(if ?ls \<noteq> [] then map ?q ?ls
    else [unknownActivity ''No known legacy OpenCode locations'']) @ [?v2]"
  have "as_result (queryOpenCodeActivity fetchLegacy fetchV2 inputs) =
      aggregateActivityClassifications ?cs"
    by (simp add: queryOpenCodeActivity_def Let_def comp_def)
  moreover have "\<forall>c \<in> set ?cs. sound c"
    by (auto intro: sound_query sound_legacy sound_v2)
  ultimately have "ac_state (as_result (queryOpenCodeActivity fetchLegacy fetchV2 inputs)) = ActIdle \<longleftrightarrow>
      (\<forall>c \<in> set ?cs. ac_state c = ActIdle)"
    by (simp add: aggregate_idle)
  also have "\<dots> \<longleftrightarrow> ?ls \<noteq> [] \<and> (\<forall>l \<in> set ?ls. ac_state (?q l) = ActIdle) \<and> ac_state ?v2 = ActIdle"
    by auto
  finally show ?thesis
    by (simp add: query_idle legacy_idle v2_idle) blast
qed

lemma idle_means_idle_witness:
  "ac_state (as_result (queryOpenCodeActivity (\<lambda>_. FetchBody (JObj []))
     (FetchStatus ''503'') [\<lparr>li_directory = Some ''/workspace'', li_workspace = None\<rparr>])) \<noteq> ActIdle"
  by (simp add: idle_means_idle)

section \<open>Canonical paths\<close>

definition proper :: "string \<Rightarrow> bool" where
  "proper w = (w \<noteq> [] \<and> w \<noteq> ''.'' \<and> w \<noteq> ''..'' \<and> CHR ''/'' \<notin> set w)"

lemma posixSegments_proper:
  "\<forall>w \<in> set ws. CHR ''/'' \<notin> set w \<Longrightarrow> \<forall>w \<in> set acc. proper w \<Longrightarrow>
     \<forall>w \<in> set (posixSegments ws acc). proper w"
proof (induction ws arbitrary: acc)
  case (Cons w ws)
  have bl: "\<forall>x \<in> set (butlast acc). proper x" using Cons.prems(2) by (metis in_set_butlastD)
  have ws: "\<forall>w \<in> set ws. CHR ''/'' \<notin> set w" using Cons.prems(1) by simp
  consider (skip) "w = [] \<or> w = ''.''" | (up) "w = ''..''" | (down) "proper w"
    "\<not> (w = [] \<or> w = ''.'')" "w \<noteq> ''..''"
    using Cons.prems(1) unfolding proper_def by (metis list.set_intros(1))
  then show ?case
  proof cases
    case skip
    with Cons.IH[OF ws Cons.prems(2)] show ?thesis by simp
  next
    case up
    with Cons.IH[OF ws bl] show ?thesis by simp
  next
    case down
    have "\<forall>x \<in> set (acc @ [w]). proper x" using Cons.prems(2) down(1) by simp
    with Cons.IH[OF ws this] down(2,3) show ?thesis by (simp only: posixSegments.simps if_False)
  qed
qed simp

lemma posixSegments_id: "\<forall>w \<in> set ws. proper w \<Longrightarrow> posixSegments ws acc = acc @ ws"
  by (induction ws acc rule: posixSegments.induct) (auto simp: proper_def)

lemma split_absolute:
  assumes "\<forall>w \<in> set ws. proper w"
  shows "split_on (CHR ''/'') (''/'' @ join_with ''/'' ws) = [] # (if ws = [] then [[]] else ws)"
proof (cases "ws = []")
  case False
  have "split_on (CHR ''/'') (join_with ''/'' ws) = ws"
    using False assms by (intro split_join) (simp_all add: proper_def)
  with False show ?thesis by simp
qed simp

lemma path_idempotent:
  assumes "normalizeAbsolutePosixPath v = Some p"
  shows "normalizeAbsolutePosixPath p = Some p"
proof -
  define s where "s = posixSegments (split_on (CHR ''/'') v) []"
  from assms have p: "p = ''/'' @ join_with ''/'' s"
    by (simp add: normalizeAbsolutePosixPath_def s_def split: if_splits)
  have ok: "\<forall>w \<in> set s. proper w"
    unfolding s_def by (rule posixSegments_proper) (auto dest: split_on_no_sep)
  have "posixSegments (split_on (CHR ''/'') p) [] = s"
    unfolding p split_absolute[OF ok] using posixSegments_id[OF ok, of "[]"] by simp
  moreover have "starts_with p ''/''" unfolding p starts_with_def by simp
  ultimately have "normalizeAbsolutePosixPath p = Some (''/'' @ join_with ''/'' s)"
    by (simp only: normalizeAbsolutePosixPath_def not_True_eq_False if_False)
  then show ?thesis by (simp only: p)
qed

lemma collected:
  "distinct_keys m \<Longrightarrow> \<forall>(k, l) \<in> set m. k = openCodeLocationKey l \<Longrightarrow>
     distinct_keys (collectLocations ins m) \<and>
     (\<forall>(k, l) \<in> set (collectLocations ins m). k = openCodeLocationKey l)"
proof (induction ins arbitrary: m)
  case (Cons inp ins)
  show ?case
  proof (cases "normalizeOpenCodeLocation inp")
    case (Some l)
    let ?m = "AList.update (openCodeLocationKey l) l m"
    have "distinct_keys ?m" using Cons.prems(1) by simp
    moreover have "\<forall>(k, l) \<in> set ?m. k = openCodeLocationKey l"
      using Cons.prems(2) set_update_subset[of "openCodeLocationKey l" l m] by blast
    ultimately show ?thesis using Cons.IH[of ?m] Some by simp
  qed (use Cons in simp)
qed simp

lemma locations_distinct: "distinct (normalizeKnownOpenCodeLocations inputs)"
proof -
  have m: "distinct_keys (collectLocations inputs [])"
    "\<forall>(k, l) \<in> set (collectLocations inputs []). k = openCodeLocationKey l"
    using collected[of "[]" inputs] by simp_all
  have "map openCodeLocationKey (map snd (collectLocations inputs [])) =
      map fst (collectLocations inputs [])"
    using m(2) by (simp add: split_beta)
  with m(1) show ?thesis
    unfolding distinct_keys_def normalizeKnownOpenCodeLocations_def by (metis distinct_map)
qed

end
