(* ===== verification/Session_Events.thy ===== *)
theory Session_Events
  imports Js_Text
begin

text \<open>
  The live event stream of \<open>src/session-events.ts\<close>: frames cut from a byte stream that
  arrives in chunks, the session a frame belongs to, what it means for the unread marker, and
  the forwarding of one session's frames with a heartbeat beside it. \<open>JSON.parse\<close> is an
  argument, which answers nothing where it throws; the text of the Hub's own frames is given.
\<close>

section \<open>Frames\<close>

definition LF :: char where "LF = CHR 0x0A"
definition CR :: char where "CR = CHR 0x0D"

text \<open>The length of a match of \<open>/\r?\n\r?\n/\<close> at the start of a text, 0 where there is none.\<close>

fun lineEnd :: "string \<Rightarrow> nat" where
  "lineEnd [] = 0"
| "lineEnd [a] = (if a = LF then 1 else 0)"
| "lineEnd (a # b # s) = (if a = CR \<and> b = LF then 2 else if a = LF then 1 else 0)"

definition separator :: "string \<Rightarrow> nat" where
  "separator s = (let n = lineEnd s; m = lineEnd (drop n s) in if n = 0 \<or> m = 0 then 0 else n + m)"

text \<open>The first match: the text before it and the text after it.\<close>

fun nextFrame :: "string \<Rightarrow> (string \<times> string) option" where
  "nextFrame [] = None"
| "nextFrame (c # cs) =
     (if separator (c # cs) > 0 then Some ([], drop (separator (c # cs)) (c # cs))
      else case nextFrame cs of None \<Rightarrow> None | Some (p, r) \<Rightarrow> Some (c # p, r))"

lemma nextFrame_shorter: "nextFrame s = Some (p, r) \<Longrightarrow> length r < length s"
proof (induction s arbitrary: p r)
  case (Cons c cs)
  show ?case
  proof (cases "separator (c # cs) > 0")
    case True
    with Cons.prems have "r = drop (separator (c # cs)) (c # cs)" by simp
    with True show ?thesis by simp
  next
    case False
    with Cons.prems obtain q where "nextFrame cs = Some (q, r)" by (auto split: option.splits)
    from Cons.IH[OF this] show ?thesis by simp
  qed
qed simp

text \<open>The loop of \<open>push\<close>: the complete frames and the remainder.\<close>

function cutFrames :: "string \<Rightarrow> string list \<times> string" where
  "cutFrames s =
     (case nextFrame s of
        None \<Rightarrow> ([], s)
      | Some (p, r) \<Rightarrow> (case cutFrames r of (fs, q) \<Rightarrow> (p # fs, q)))"
  by pat_completeness auto
termination by (relation "measure length") (auto dest: nextFrame_shorter)

declare cutFrames.simps [simp del]

text \<open>\<open>SseFrameBuffer.push\<close>: the frames of this chunk, and the new buffer.\<close>

definition framePush :: "string \<Rightarrow> string \<Rightarrow> string list \<times> string" where
  "framePush buffer chunk = cutFrames (buffer @ chunk)"

section \<open>The payload of a frame\<close>

definition strip_cr :: "string \<Rightarrow> string" where
  "strip_cr w = (if w \<noteq> [] \<and> last w = CR then butlast w else w)"

text \<open>\<open>split(/\r?\n/)\<close>.\<close>

definition splitLines :: "string \<Rightarrow> string list" where
  "splitLines s = (let ws = split_on LF s in map strip_cr (butlast ws) @ [last ws])"

definition sseFrameData :: "string \<Rightarrow> string option" where
  "sseFrameData frame =
     (let values = map (\<lambda>l. let v = drop 5 l in if starts_with v '' '' then drop 1 v else v)
            (filter (\<lambda>l. starts_with l ''data:'') (splitLines frame))
      in if length values > 0 then Some (join_with [LF] values) else None)"

definition eventSessionId :: "json \<Rightarrow> string option" where
  "eventSessionId payload =
     (case payload of
        JObj kvs \<Rightarrow>
          (case field kvs ''properties'' of
             JObj ps \<Rightarrow> the_str (field ps ''sessionID'')
           | _ \<Rightarrow> None)
      | _ \<Rightarrow> None)"

definition frameBelongsToSession :: "(string \<Rightarrow> json option) \<Rightarrow> string \<Rightarrow> string \<Rightarrow> bool" where
  "frameBelongsToSession parse frame sid =
     (case sseFrameData frame of
        None \<Rightarrow> False
      | Some d \<Rightarrow> (case parse d of None \<Rightarrow> False | Some v \<Rightarrow> eventSessionId v = Some sid))"

section \<open>What an event means\<close>

datatype event_kind = EventStop | EventAsk | EventActivity

definition STOP_EVENT_TYPES :: "string list" where
  "STOP_EVENT_TYPES = [''session.idle'', ''session.error'']"

definition ASK_EVENT_TYPES :: "string list" where
  "ASK_EVENT_TYPES = [''question.asked'', ''question.v2.asked'', ''permission.asked'',
     ''permission.v2.asked'']"

definition objectField :: "json \<Rightarrow> string \<Rightarrow> json" where
  "objectField v k = (case v of JObj kvs \<Rightarrow> field kvs k | _ \<Rightarrow> JUndefined)"

definition sessionStatusIsIdle :: "json \<Rightarrow> bool" where
  "sessionStatusIsIdle payload =
     (objectField (objectField (objectField payload ''properties'') ''status'') ''type'' = JStr ''idle'')"

definition classifySessionEvent ::
  "(string \<Rightarrow> json option) \<Rightarrow> string \<Rightarrow> string \<Rightarrow> event_kind option" where
  "classifySessionEvent parse frame sid =
     (case sseFrameData frame of
        None \<Rightarrow> None
      | Some d \<Rightarrow>
          (case parse d of
             None \<Rightarrow> None
           | Some payload \<Rightarrow>
               (if eventSessionId payload \<noteq> Some sid then None
                else case the_str (objectField payload ''type'') of
                  None \<Rightarrow> Some EventActivity
                | Some t \<Rightarrow>
                    (if t \<in> set STOP_EVENT_TYPES then Some EventStop
                     else if t \<in> set ASK_EVENT_TYPES then Some EventAsk
                     else if t = ''session.status''
                       then Some (if sessionStatusIsIdle payload then EventStop else EventActivity)
                     else Some EventActivity))))"

section \<open>Forwarding\<close>

text \<open>One frame of the stream as it is written, with the text of its data.\<close>

definition sseFrame :: "string \<Rightarrow> string \<Rightarrow> string" where
  "sseFrame event payload = ''event: '' @ event @ [LF] @ ''data: '' @ payload @ [LF, LF]"

definition RETRY_FRAME :: string where
  "RETRY_FRAME = ''retry: 15000'' @ [LF, LF]"

definition HEARTBEAT_FRAME :: string where
  "HEARTBEAT_FRAME = '': keep-alive'' @ [LF, LF]"

definition closedSessionEventStream :: "string \<Rightarrow> string" where
  "closedSessionEventStream hub = RETRY_FRAME @ sseFrame ''hub'' hub"

definition forwarded :: "(string \<Rightarrow> json option) \<Rightarrow> string \<Rightarrow> string \<Rightarrow> string list" where
  "forwarded parse sid frame =
     (if \<not> frameBelongsToSession parse frame sid then []
      else case sseFrameData frame of
        None \<Rightarrow> []
      | Some d \<Rightarrow> [sseFrame ''opencode'' d])"

text \<open>The transform of one chunk: what it writes and the new buffer.\<close>

definition transformChunk ::
  "(string \<Rightarrow> json option) \<Rightarrow> string \<Rightarrow> string \<Rightarrow> string \<Rightarrow> string list \<times> string" where
  "transformChunk parse sid buffer chunk =
     (case framePush buffer chunk of (frames, buffer') \<Rightarrow>
        (concat (map (forwarded parse sid) frames), buffer'))"

fun transformAll ::
  "(string \<Rightarrow> json option) \<Rightarrow> string \<Rightarrow> string \<Rightarrow> string list \<Rightarrow> string list \<times> string" where
  "transformAll parse sid buffer [] = ([], buffer)"
| "transformAll parse sid buffer (c # cs) =
     (case transformChunk parse sid buffer c of (out, b) \<Rightarrow>
        (case transformAll parse sid b cs of (out', b') \<Rightarrow> (out @ out', b')))"

text \<open>The whole filtered stream: \<open>start\<close>, every chunk, \<open>flush\<close>.\<close>

definition filteredStream ::
  "(string \<Rightarrow> json option) \<Rightarrow> string \<Rightarrow> string \<Rightarrow> string \<Rightarrow> string list \<Rightarrow> string list" where
  "filteredStream parse sid hubLive hubEnded chunks =
     [RETRY_FRAME, sseFrame ''hub'' hubLive] @ fst (transformAll parse sid [] chunks) @
     [sseFrame ''hub'' hubEnded]"

section \<open>The relay with its heartbeat\<close>

datatype relay_end = StillOpen | ClosedEnd | Errored | Cancelled

record relay =
  ry_open :: bool
  ry_timer :: bool
  ry_out :: "string list"
  ry_end :: relay_end

datatype relay_event = Tick bool | Chunk string | PipeDone | PipeFailed | ConsumerCancels

definition relayStart :: relay where
  "relayStart = \<lparr>ry_open = True, ry_timer = True, ry_out = [], ry_end = StillOpen\<rparr>"

text \<open>
  A tick's flag says whether \<open>enqueue\<close> succeeded; it throws where the consumer is gone. The
  interval fires only while it is set. An \<open>error\<close> after the consumer's own cancel throws
  and is swallowed.
\<close>

definition relayStep :: "relay_event \<Rightarrow> relay \<Rightarrow> relay" where
  "relayStep ev r =
     (case ev of
        Tick ok \<Rightarrow>
          (if \<not> ry_timer r \<or> \<not> ry_open r then r
           else if ok then r\<lparr>ry_out := ry_out r @ [HEARTBEAT_FRAME]\<rparr>
           else r\<lparr>ry_open := False, ry_timer := False\<rparr>)
      | Chunk c \<Rightarrow> (if ry_open r then r\<lparr>ry_out := ry_out r @ [c]\<rparr> else r)
      | PipeDone \<Rightarrow>
          (if \<not> ry_open r then r else r\<lparr>ry_open := False, ry_timer := False, ry_end := ClosedEnd\<rparr>)
      | PipeFailed \<Rightarrow>
          (if \<not> ry_open r then r else r\<lparr>ry_open := False, ry_timer := False, ry_end := Errored\<rparr>)
      | ConsumerCancels \<Rightarrow>
          r\<lparr>ry_open := False, ry_timer := False,
            ry_end := (if ry_end r = StillOpen then Cancelled else ry_end r)\<rparr>)"

definition relayRun :: "relay_event list \<Rightarrow> relay" where
  "relayRun evs = fold relayStep evs relayStart"

section \<open>Chunks do not matter\<close>

lemma lineEnd_LF [simp]: "lineEnd (LF # t) = 1"
  by (cases t) (auto simp: LF_def CR_def)

lemma lineEnd_pos: "0 < lineEnd (c # t) \<longleftrightarrow> c = LF \<or> c = CR \<and> t \<noteq> [] \<and> hd t = LF"
  by (cases t) auto

lemma lineEnd_append: "lineEnd s > 0 \<Longrightarrow> lineEnd (s @ t) = lineEnd s"
  by (induction s rule: lineEnd.induct) (auto split: if_splits)

lemma lineEnd_le: "lineEnd s \<le> length s"
  by (induction s rule: lineEnd.induct) auto

lemma separator_append: "separator s > 0 \<Longrightarrow> separator (s @ t) = separator s"
  by (auto simp: separator_def Let_def lineEnd_append lineEnd_le split: if_splits)

lemma separator_le: "separator s \<le> length s"
  using lineEnd_le[of s] lineEnd_le[of "drop (lineEnd s) s"] by (auto simp: separator_def Let_def)

text \<open>A separator that only the next chunk completes leaves no room for another inside it.\<close>

lemma separator_partial:
  assumes "separator s = 0" and "separator (s @ t) > 0"
  shows "nextFrame (tl s) = None"
proof -
  have ne: "LF \<noteq> CR" by (simp add: LF_def CR_def)
  consider "s = []" | a where "s = [a]" | a b where "s = [a, b]" | a b c where "s = [a, b, c]"
    | a b c d s' where "s = a # b # c # d # s'"
    by (metis list.exhaust)
  then show ?thesis
  proof cases
    case (4 a b c)
    with assms ne have "a = CR \<and> b = LF \<and> c = CR"
      by (auto simp: separator_def Let_def lineEnd_pos split: if_splits)
    with 4 ne show ?thesis by (simp add: separator_def Let_def)
  next
    case (5 a b c d s')
    with assms ne have False by (auto simp: separator_def Let_def split: if_splits)
    then show ?thesis ..
  qed (simp_all add: separator_def Let_def)
qed

lemma nextFrame_append: "nextFrame s = Some (p, r) \<Longrightarrow> nextFrame (s @ t) = Some (p, r @ t)"
proof (induction s arbitrary: p r)
  case (Cons c cs)
  show ?case
  proof (cases "separator (c # cs) > 0")
    case True
    have "drop (separator (c # cs)) ((c # cs) @ t) = drop (separator (c # cs)) (c # cs) @ t"
      using separator_le[of "c # cs"] unfolding drop_append by simp
    with True Cons.prems separator_append[OF True, of t] show ?thesis by auto
  next
    case False
    with Cons.prems obtain q where q: "nextFrame cs = Some (q, r)" "p = c # q"
      by (auto split: option.splits)
    have "\<not> separator (c # cs @ t) > 0"
      using False q(1) separator_partial[of "c # cs" t] by auto
    with Cons.IH[OF q(1)] q(2) show ?thesis by simp
  qed
qed simp

lemma cutFrames_append:
  "cutFrames (s @ t) = (case cutFrames s of (fs, q) \<Rightarrow> (case cutFrames (q @ t) of (gs, r) \<Rightarrow> (fs @ gs, r)))"
proof (induction s rule: cutFrames.induct)
  case (1 s)
  show ?case
  proof (cases "nextFrame s")
    case None
    then have "cutFrames s = ([], s)" by (subst cutFrames.simps) simp
    then show ?thesis by (simp split: prod.splits)
  next
    case (Some pr)
    obtain p r where pr: "pr = (p, r)" by (cases pr)
    from 1[OF Some[unfolded pr] refl] have IH: "cutFrames (r @ t) =
      (case cutFrames r of (fs, q) \<Rightarrow> (case cutFrames (q @ t) of (gs, r) \<Rightarrow> (fs @ gs, r)))" .
    have "cutFrames (s @ t) = (case cutFrames (r @ t) of (fs, q) \<Rightarrow> (p # fs, q))"
      using nextFrame_append[OF Some[unfolded pr]] by (subst cutFrames.simps) simp
    moreover have "cutFrames s = (case cutFrames r of (fs, q) \<Rightarrow> (p # fs, q))"
      using Some pr by (subst cutFrames.simps) simp
    ultimately show ?thesis by (simp add: IH split: prod.splits)
  qed
qed

lemma cutFrames_none: "nextFrame b = None \<Longrightarrow> cutFrames b = ([], b)"
  by (subst cutFrames.simps) simp

lemma cutFrames_rest: "cutFrames s = (fs, q) \<Longrightarrow> nextFrame q = None"
proof (induction s arbitrary: fs rule: cutFrames.induct)
  case (1 s)
  show ?case
  proof (cases "nextFrame s")
    case None
    with "1.prems" show ?thesis by (simp add: cutFrames_none)
  next
    case (Some pr)
    obtain p r where pr: "pr = (p, r)" by (cases pr)
    have "cutFrames s = (case cutFrames r of (fs, q) \<Rightarrow> (p # fs, q))"
      using Some pr by (subst cutFrames.simps) simp
    with "1.prems" obtain gs where "cutFrames r = (gs, q)" by (auto split: prod.splits)
    with "1.IH"[OF Some[unfolded pr] refl] show ?thesis by blast
  qed
qed

lemma transformAll_frames:
  "nextFrame b = None \<Longrightarrow> transformAll parse sid b cs =
     (concat (map (forwarded parse sid) (fst (cutFrames (b @ concat cs)))), snd (cutFrames (b @ concat cs)))"
proof (induction cs arbitrary: b)
  case (Cons c cs)
  obtain fs q where q: "cutFrames (b @ c) = (fs, q)" by fastforce
  from Cons.IH[OF cutFrames_rest[OF q]] cutFrames_append[of "b @ c" "concat cs"] q
  show ?case
    by (auto simp: transformChunk_def framePush_def split: prod.splits)
qed (simp add: cutFrames_none)

text \<open>
  C13. The browser sees exactly its session's frames. However the network cuts the container's
  event stream into chunks, in the middle of a frame or of a separator, the filtered stream is
  the Hub's own first frames, then one frame for each complete frame of the whole text that
  carries this session's id, in order and with its data, then the Hub's last frame; frames of
  other sessions, of the server or of no readable payload leave no trace.
\<close>

theorem only_this_sessions_frames:
  "filteredStream parse sid hubLive hubEnded chunks =
     [RETRY_FRAME, sseFrame ''hub'' hubLive] @
     concat (map (forwarded parse sid) (fst (cutFrames (concat chunks)))) @
     [sseFrame ''hub'' hubEnded] \<and>
   (\<forall>f w. w \<in> set (forwarded parse sid f) \<longrightarrow>
      (\<exists>d v. sseFrameData f = Some d \<and> parse d = Some v \<and> eventSessionId v = Some sid \<and>
         w = sseFrame ''opencode'' d))"
proof -
  have "fst (transformAll parse sid [] chunks) =
      concat (map (forwarded parse sid) (fst (cutFrames (concat chunks))))"
    by (simp add: transformAll_frames)
  then show ?thesis
    by (auto simp: filteredStream_def forwarded_def frameBelongsToSession_def split: option.splits if_splits)
qed

lemma only_this_sessions_frames_witness:
  "\<exists>d v. sseFrameData ''data: x'' = Some d \<and>
     (\<lambda>_. Some (JObj [(''properties'', JObj [(''sessionID'', JStr ''s'')])])) d = Some v \<and>
     eventSessionId v = Some ''s''"
proof -
  let ?p = "\<lambda>_ :: string. Some (JObj [(''properties'', JObj [(''sessionID'', JStr ''s'')])])"
  have "sseFrame ''opencode'' ''x'' \<in> set (forwarded ?p ''s'' ''data: x'')" by code_simp
  with only_this_sessions_frames[of ?p "''s''" "[]" "[]" "[]"] show ?thesis by blast
qed

section \<open>After the end\<close>

lemma relay_closed:
  "\<not> ry_open r \<Longrightarrow> \<not> ry_timer r \<Longrightarrow>
     ry_out (relayStep ev r) = ry_out r \<and> \<not> ry_open (relayStep ev r) \<and> \<not> ry_timer (relayStep ev r)"
  by (cases ev) (auto simp: relayStep_def)

lemma relay_closed_all:
  "\<not> ry_open r \<Longrightarrow> \<not> ry_timer r \<Longrightarrow> ry_out (fold relayStep evs r) = ry_out r"
proof (induction evs arbitrary: r)
  case (Cons ev evs)
  from relay_closed[OF Cons.prems, of ev] Cons.IH[of "relayStep ev r"] show ?case by simp
qed simp

text \<open>Once either side has finished, neither a heartbeat nor a chunk is written any more.\<close>

lemma relay_silent_after_end:
  assumes "ev \<in> {PipeDone, PipeFailed, ConsumerCancels, Tick False}" and "ry_open r = ry_timer r"
  shows "ry_out (fold relayStep evs (relayStep ev r)) = ry_out r"
proof -
  have "\<not> ry_open (relayStep ev r) \<and> \<not> ry_timer (relayStep ev r) \<and> ry_out (relayStep ev r) = ry_out r"
    using assms by (auto simp: relayStep_def)
  then show ?thesis by (simp add: relay_closed_all)
qed

end
