(* ===== verification/Workspace_Files.thy ===== *)
theory Workspace_Files
  imports Activity_Properties Request_Validation
begin

text \<open>
  Browsing a session's checkout, \<open>src/workspace-files.ts\<close>: which path a request may name,
  how a directory is listed and what is shown of a file. The order of names,
  \<open>localeCompare\<close>, is an argument.
\<close>

section \<open>Paths\<close>

datatype workspace_root = Checkout | Artifacts

datatype path_error = UnknownRoot | InvalidPath | EscapesWorkspace

definition parseWorkspaceRoot :: "json \<Rightarrow> path_error + workspace_root" where
  "parseWorkspaceRoot v =
     (if v = JUndefined \<or> v = JNull \<or> v = JStr [] \<or> v = JStr ''checkout'' then Inr Checkout
      else if v = JStr ''artifacts'' then Inr Artifacts
      else Inl UnknownRoot)"

definition pathSegments :: "string \<Rightarrow> string list" where
  "pathSegments s = filter (\<lambda>w. w \<noteq> [] \<and> w \<noteq> ''.'') (split_on (CHR ''/'') s)"

definition normalizeWorkspaceRelativePath :: "json \<Rightarrow> path_error + string" where
  "normalizeWorkspaceRelativePath requested =
     (if requested = JUndefined \<or> requested = JNull \<or> requested = JStr [] then Inr []
      else case the_str requested of
        None \<Rightarrow> Inl InvalidPath
      | Some s \<Rightarrow>
          (if CHR 0x00 \<in> set s \<or> length s > 4096 then Inl InvalidPath
           else if ''..'' \<in> set (pathSegments s) then Inl EscapesWorkspace
           else Inr (join_with ''/'' (pathSegments s))))"

definition resolveWorkspacePath :: "string \<Rightarrow> json \<Rightarrow> path_error + string" where
  "resolveWorkspacePath root requested =
     (case normalizeWorkspaceRelativePath requested of
        Inl e \<Rightarrow> Inl e
      | Inr relative \<Rightarrow> Inr (if relative \<noteq> [] then root @ ''/'' @ relative else root))"

definition parentPath :: "string \<Rightarrow> string" where
  "parentPath relativePath =
     (if CHR ''/'' \<notin> set relativePath then []
      else join_with ''/'' (butlast (split_on (CHR ''/'') relativePath)))"

section \<open>Listings\<close>

datatype entry_type = EFile | EDirectory | ESymlink | EOther

record file_info =
  fi_name :: string
  fi_type :: entry_type
  fi_size :: nat
  fi_modifiedAt :: "string option"

record workspace_entry =
  we_name :: string
  we_path :: string
  we_type :: entry_type
  we_size :: nat
  we_modifiedAt :: "string option"

record workspace_listing =
  wl_path :: string
  wl_parent :: "string option"
  wl_entries :: "workspace_entry list"
  wl_truncated :: bool

definition HIDDEN_DIRECTORIES :: "string list" where
  "HIDDEN_DIRECTORIES = [''.git'']"

definition MAX_DIRECTORY_ENTRIES :: nat where
  "MAX_DIRECTORY_ENTRIES = 2000"

text \<open>The comparison: whether the left file may stand before the right one.\<close>

definition fileBefore :: "(string \<Rightarrow> string \<Rightarrow> bool) \<Rightarrow> file_info \<Rightarrow> file_info \<Rightarrow> bool" where
  "fileBefore le left right =
     (let leftIsDirectory = (fi_type left = EDirectory);
          rightIsDirectory = (fi_type right = EDirectory)
      in if leftIsDirectory \<noteq> rightIsDirectory then leftIsDirectory
         else le (fi_name left) (fi_name right))"

text \<open>A stable sort, as \<open>Array.prototype.sort\<close> is.\<close>

fun insertBy :: "('a \<Rightarrow> 'a \<Rightarrow> bool) \<Rightarrow> 'a \<Rightarrow> 'a list \<Rightarrow> 'a list" where
  "insertBy before x [] = [x]"
| "insertBy before x (y # ys) = (if before x y then x # y # ys else y # insertBy before x ys)"

definition sortBy :: "('a \<Rightarrow> 'a \<Rightarrow> bool) \<Rightarrow> 'a list \<Rightarrow> 'a list" where
  "sortBy before xs = foldr (insertBy before) xs []"

definition workspaceEntry :: "string \<Rightarrow> file_info \<Rightarrow> workspace_entry" where
  "workspaceEntry relativePath file =
     \<lparr>we_name = fi_name file,
      we_path = (if relativePath \<noteq> [] then relativePath @ ''/'' @ fi_name file else fi_name file),
      we_type = fi_type file, we_size = fi_size file,
      we_modifiedAt = (if truthy_str (fi_modifiedAt file) then fi_modifiedAt file else None)\<rparr>"

definition buildWorkspaceListing ::
  "(string \<Rightarrow> string \<Rightarrow> bool) \<Rightarrow> string \<Rightarrow> file_info list \<Rightarrow> workspace_listing" where
  "buildWorkspaceListing le relativePath files =
     (let visible = filter (\<lambda>f. fi_name f \<notin> set HIDDEN_DIRECTORIES) files;
          sorted = sortBy (fileBefore le) visible
      in \<lparr>wl_path = relativePath,
          wl_parent = (if relativePath \<noteq> [] then Some (parentPath relativePath) else None),
          wl_entries = map (workspaceEntry relativePath) (take MAX_DIRECTORY_ENTRIES sorted),
          wl_truncated = (length sorted > MAX_DIRECTORY_ENTRIES)\<rparr>)"

section \<open>Contents\<close>

record workspace_file =
  wf_path :: string
  wf_size :: nat
  wf_content :: "string option"
  wf_binary :: bool
  wf_truncated :: bool

definition MAX_VIEWABLE_FILE_BYTES :: nat where
  "MAX_VIEWABLE_FILE_BYTES = 256 * 1024"

text \<open>A character below 128 takes one byte in UTF-8, the others below 256 two.\<close>

definition utf8Length :: "string \<Rightarrow> nat" where
  "utf8Length s = sum_list (map (\<lambda>c. if (of_char c :: nat) < 128 then 1 else 2) s)"

definition buildWorkspaceFile :: "string \<Rightarrow> string \<Rightarrow> bool \<Rightarrow> workspace_file" where
  "buildWorkspaceFile path content base64 =
     (if base64 then \<lparr>wf_path = path, wf_size = (length content * 3) div 4, wf_content = None,
        wf_binary = True, wf_truncated = False\<rparr>
      else let size = utf8Length content in
        if size \<le> MAX_VIEWABLE_FILE_BYTES then
          \<lparr>wf_path = path, wf_size = size, wf_content = Some content, wf_binary = False,
           wf_truncated = False\<rparr>
        else \<lparr>wf_path = path, wf_size = size, wf_content = Some (take MAX_VIEWABLE_FILE_BYTES content),
           wf_binary = False, wf_truncated = True\<rparr>)"

text \<open>
  The header that names a download. \<open>encodeURIComponent\<close> is an argument; what it leaves of
  \<open>'()*\<close> is escaped by hand.
\<close>

definition fallbackName :: "string \<Rightarrow> string" where
  "fallbackName name = map (\<lambda>c. let n = (of_char c :: nat) in
     if n < 0x20 \<or> n > 0x7e then CHR ''_'' else if c = CHR 0x5C \<or> c = CHR 0x22 then CHR ''_'' else c) name"

definition escapeExt :: "char \<Rightarrow> string" where
  "escapeExt c = (if c = CHR 0x27 then ''%27'' else if c = CHR ''('' then ''%28''
     else if c = CHR '')'' then ''%29'' else if c = CHR ''*'' then ''%2A'' else [c])"

definition workspaceDownloadDisposition :: "(string \<Rightarrow> string) \<Rightarrow> string \<Rightarrow> string" where
  "workspaceDownloadDisposition encode path =
     (let popped = after_last (CHR ''/'') path;
          name = (if popped \<noteq> [] then popped else ''file'');
          fallback = fallbackName name;
          quoted = ''attachment; filename='' @ [CHR 0x22] @ fallback @ [CHR 0x22]
      in if fallback = name then quoted
         else quoted @ ''; filename*=UTF-8'' @ [CHR 0x27, CHR 0x27] @
           concat (map escapeExt (encode name)))"

section \<open>Inside the root\<close>

lemma segments_proper:
  "''..'' \<notin> set (pathSegments s) \<Longrightarrow> \<forall>w \<in> set (pathSegments s). proper w"
  by (auto simp: pathSegments_def proper_def dest: split_on_no_sep)

text \<open>A canonical directory below the file system's root is its own segments.\<close>

lemma canonical_segments:
  assumes "normalizeAbsolutePosixPath root = Some root" and "root \<noteq> ''/''"
  obtains ws where "root = ''/'' @ join_with ''/'' ws" "ws \<noteq> []" "\<forall>w \<in> set ws. proper w"
proof -
  define ws where "ws = posixSegments (split_on (CHR ''/'') root) []"
  have root: "root = ''/'' @ join_with ''/'' ws"
    using assms(1) by (simp add: normalizeAbsolutePosixPath_def ws_def split: if_splits)
  have "\<forall>w \<in> set ws. proper w"
    unfolding ws_def by (rule posixSegments_proper) (auto dest: split_on_no_sep)
  moreover have "ws \<noteq> []" using root assms(2) by auto
  ultimately show thesis using that root by blast
qed

lemma join_append:
  "xs \<noteq> [] \<Longrightarrow> ys \<noteq> [] \<Longrightarrow> join_with sep (xs @ ys) = join_with sep xs @ sep @ join_with sep ys"
  by (induction sep xs rule: join_with.induct) (auto simp: neq_Nil_conv)

lemma normalize_segments:
  assumes "\<forall>w \<in> set ws. proper w"
  shows "normalizeAbsolutePosixPath (''/'' @ join_with ''/'' ws) = Some (''/'' @ join_with ''/'' ws)"
proof -
  have "posixSegments (split_on (CHR ''/'') (''/'' @ join_with ''/'' ws)) [] = ws"
    unfolding split_absolute[OF assms] using posixSegments_id[OF assms, of "[]"] by simp
  then show ?thesis by (simp add: normalizeAbsolutePosixPath_def starts_with_def)
qed

text \<open>
  C14. A file request stays in its workspace. Whatever the browser sends, a request that is not
  refused resolves to the root itself or to a path below it, and resolving dots and double
  dots in that path, as the container's file system will, changes nothing: it cannot lead out
  of the root. A request with a double-dot segment, a NUL character, or of another type is
  refused.
\<close>

theorem request_stays_in_workspace:
  assumes "normalizeAbsolutePosixPath root = Some root" and "root \<noteq> ''/''"
    and "resolveWorkspacePath root requested = Inr p"
  shows "normalizeAbsolutePosixPath p = Some p \<and> (p = root \<or> starts_with p (root @ ''/''))"
proof -
  from assms(3) obtain rel where rel: "normalizeWorkspaceRelativePath requested = Inr rel"
    "p = (if rel \<noteq> [] then root @ ''/'' @ rel else root)"
    by (auto simp: resolveWorkspacePath_def split: sum.splits)
  show ?thesis
  proof (cases "rel = []")
    case False
    with rel(1) obtain s where s: "rel = join_with ''/'' (pathSegments s)"
      "''..'' \<notin> set (pathSegments s)"
      by (auto simp: normalizeWorkspaceRelativePath_def split: if_splits option.splits)
    from assms(1,2) obtain ws where ws: "root = ''/'' @ join_with ''/'' ws" "ws \<noteq> []"
      "\<forall>w \<in> set ws. proper w" by (rule canonical_segments)
    have "pathSegments s \<noteq> []" using False s(1) by auto
    then have p: "p = ''/'' @ join_with ''/'' (ws @ pathSegments s)"
      using rel(2) False ws s(1) by (simp add: join_append)
    have "\<forall>w \<in> set (ws @ pathSegments s). proper w" using ws(3) segments_proper[OF s(2)] by auto
    from normalize_segments[OF this] p have "normalizeAbsolutePosixPath p = Some p" by simp
    moreover have "starts_with p (root @ ''/'')"
      using starts_with_append[of "root @ ''/''" rel] rel(2) False by simp
    ultimately show ?thesis by blast
  qed (use assms(1) rel(2) in simp)
qed

lemma request_stays_in_workspace_witness:
  "resolveWorkspacePath ''/workspace/app'' (JStr ''/src/./x'') = Inr ''/workspace/app/src/x'' \<and>
   normalizeAbsolutePosixPath ''/workspace/app/src/x'' = Some ''/workspace/app/src/x''"
proof -
  have 1: "normalizeAbsolutePosixPath ''/workspace/app'' = Some ''/workspace/app''"
    "resolveWorkspacePath ''/workspace/app'' (JStr ''/src/./x'') = Inr ''/workspace/app/src/x''"
    by code_simp+
  from request_stays_in_workspace[OF 1(1) _ 1(2)] 1(2) show ?thesis by simp
qed

section \<open>Listings and contents\<close>

lemma set_insertBy: "set (insertBy before x xs) = insert x (set xs)"
  by (induction xs) auto

lemma set_sortBy: "set (sortBy before xs) = set xs"
  by (induction xs) (auto simp: sortBy_def set_insertBy)

lemma listing_hides_git:
  "e \<in> set (wl_entries (buildWorkspaceListing le rel files)) \<Longrightarrow> we_name e \<noteq> ''.git''"
  by (auto simp: buildWorkspaceListing_def Let_def workspaceEntry_def HIDDEN_DIRECTORIES_def set_sortBy
      dest!: in_set_takeD)

lemma shown_file_bounded:
  "wf_content (buildWorkspaceFile path content base64) = Some shown \<Longrightarrow>
     length shown \<le> MAX_VIEWABLE_FILE_BYTES"
proof -
  have "length s \<le> utf8Length s" for s by (induction s) (auto simp: utf8Length_def)
  then show "wf_content (buildWorkspaceFile path content base64) = Some shown \<Longrightarrow> ?thesis"
    by (auto simp: buildWorkspaceFile_def Let_def split: if_splits intro: order_trans)
qed

end
