(* ===== verification/Provider_Runtime.thy ===== *)
theory Provider_Runtime
  imports Js_Text Lifecycle_Coordinator
begin

text \<open>
  Where a session may run and how its runtime is woken: the configured Docker hosts of
  \<open>src/sandbox-providers.ts\<close>, read from the setting \<open>docker.hosts\<close>, and the wake with its
  bounded wait of \<open>src/instance-runtime.ts\<close>. The stored setting is an untrusted JSON value;
  numbers in it are integers.
\<close>

section \<open>Docker hosts\<close>

record docker_host =
  dh_id :: string
  dh_provider :: session_provider
  dh_label :: string
  dh_baseUrl :: string
  dh_token :: string
  dh_image :: string
  dh_idleTimeoutMinutes :: int

definition DEFAULT_DOCKER_IMAGE :: string where
  "DEFAULT_DOCKER_IMAGE = ''opencode-session:latest''"

definition DEFAULT_DOCKER_IDLE_TIMEOUT_MINUTES :: int where
  "DEFAULT_DOCKER_IDLE_TIMEOUT_MINUTES = 30"

definition CLOUDFLARE_IDLE_TIMEOUT_MS :: millis where
  "CLOUDFLARE_IDLE_TIMEOUT_MS = 10 * 60 * 1000"

text \<open>A property read through \<open>entry?.k\<close>, trimmed where it is a string.\<close>

definition trimmedField :: "json \<Rightarrow> string \<Rightarrow> string" where
  "trimmedField entry k =
     (case entry of
        JObj kvs \<Rightarrow> (case the_str (field kvs k) of None \<Rightarrow> [] | Some s \<Rightarrow> trim s)
      | _ \<Rightarrow> [])"

definition idleMinutes :: "json \<Rightarrow> int" where
  "idleMinutes entry =
     (case entry of
        JObj kvs \<Rightarrow>
          (case field kvs ''idleTimeoutMinutes'' of
             JNum n \<Rightarrow> if 1 \<le> n \<and> n \<le> 1440 then n else DEFAULT_DOCKER_IDLE_TIMEOUT_MINUTES
           | _ \<Rightarrow> DEFAULT_DOCKER_IDLE_TIMEOUT_MINUTES)
      | _ \<Rightarrow> DEFAULT_DOCKER_IDLE_TIMEOUT_MINUTES)"

definition dropSlashes :: "string \<Rightarrow> string" where
  "dropSlashes s = rev (dropWhile (\<lambda>c. c = CHR ''/'') (rev s))"

definition dockerHost :: "json \<Rightarrow> docker_host" where
  "dockerHost entry =
     (let i = trimmedField entry ''id''; image = trimmedField entry ''image'';
          label = trimmedField entry ''label''
      in \<lparr>dh_id = i, dh_provider = dockerProvider i, dh_label = (if label = [] then i else label),
          dh_baseUrl = dropSlashes (trimmedField entry ''baseUrl''),
          dh_token = trimmedField entry ''token'',
          dh_image = (if image = [] then DEFAULT_DOCKER_IMAGE else image),
          dh_idleTimeoutMinutes = idleMinutes entry\<rparr>)"

fun collectHosts :: "json list \<Rightarrow> string list \<Rightarrow> docker_host list" where
  "collectHosts [] seen = []"
| "collectHosts (entry # es) seen =
     (let i = trimmedField entry ''id'' in
      if i = [] \<or> trimmedField entry ''baseUrl'' = [] \<or> trimmedField entry ''token'' = [] \<or>
         i \<in> set seen
      then collectHosts es seen
      else dockerHost entry # collectHosts es (i # seen))"

definition listDockerHosts :: "json \<Rightarrow> docker_host list" where
  "listDockerHosts stored = (case stored of JArr es \<Rightarrow> collectHosts es [] | _ \<Rightarrow> [])"

definition resolveDockerHost :: "json \<Rightarrow> session_provider \<Rightarrow> docker_host option" where
  "resolveDockerHost stored provider =
     (if \<not> isDockerProvider provider then None
      else case dockerHostId provider of
        None \<Rightarrow> (case listDockerHosts stored of [] \<Rightarrow> None | h # hs \<Rightarrow> Some h)
      | Some i \<Rightarrow> find (\<lambda>h. dh_id h = i) (listDockerHosts stored))"

definition listSessionProviders :: "json \<Rightarrow> session_provider list" where
  "listSessionProviders stored = map dh_provider (listDockerHosts stored) @ [''cloudflare'']"

definition listSessionProviderOptions :: "json \<Rightarrow> (session_provider \<times> string) list" where
  "listSessionProviderOptions stored =
     map (\<lambda>h. (dh_provider h, dh_label h)) (listDockerHosts stored) @ [(''cloudflare'', ''Cloudflare'')]"

definition resolveLifecycleIdleTimeoutMs :: "json \<Rightarrow> session_provider \<Rightarrow> millis" where
  "resolveLifecycleIdleTimeoutMs stored provider =
     (if \<not> isDockerProvider provider then CLOUDFLARE_IDLE_TIMEOUT_MS
      else (case resolveDockerHost stored provider of
              None \<Rightarrow> DEFAULT_DOCKER_IDLE_TIMEOUT_MINUTES
            | Some h \<Rightarrow> dh_idleTimeoutMinutes h) * 60 * 1000)"

section \<open>Waking a runtime\<close>

definition WAKE_POLL_ATTEMPTS :: nat where
  "WAKE_POLL_ATTEMPTS = 60"

text \<open>
  The initialisation of the coordinator that the wake asks for first: nothing where it is
  initialised already, otherwise the idle timeout that goes with the provider.
\<close>

definition ensureLifecycleInitialized ::
  "json \<Rightarrow> session_provider \<Rightarrow> string \<Rightarrow> lifecycle_status \<Rightarrow> initialize_input option" where
  "ensureLifecycleInitialized stored provider instanceId status =
     (if st_phase status \<noteq> Uninitialized then None
      else Some \<lparr>ii_instanceId = instanceId,
        ii_idleTimeoutMs = Some (resolveLifecycleIdleTimeoutMs stored provider)\<rparr>)"

text \<open>
  The wait: \<open>answers n\<close> is what the coordinator's n-th \<open>wake()\<close> answers. The result is the
  last answer and the number of calls made.
\<close>

fun wakePoll :: "(nat \<Rightarrow> wake_result) \<Rightarrow> nat \<Rightarrow> nat \<Rightarrow> wake_result \<times> nat" where
  "wakePoll answers attempt 0 = (answers attempt, attempt + 1)"
| "wakePoll answers attempt (Suc left) =
     (if wr_pending (answers attempt) then wakePoll answers (attempt + 1) left
      else (answers attempt, attempt + 1))"

datatype wake_error = WakePending

definition wakeInstanceRuntime ::
  "(nat \<Rightarrow> wake_result) \<Rightarrow> wake_error + (string \<times> lifecycle_status)" where
  "wakeInstanceRuntime answers =
     (case wakePoll answers 0 WAKE_POLL_ATTEMPTS of (result, calls) \<Rightarrow>
        if \<not> wr_ready result \<or> \<not> truthy_str (wr_runtimeEpoch result) then Inl WakePending
        else Inr (the (wr_runtimeEpoch result), wr_status result))"

section \<open>Every offer can be taken\<close>

lemma collectHosts_id: "h \<in> set (collectHosts es seen) \<Longrightarrow> dh_id h \<notin> set seen"
  by (induction es seen rule: collectHosts.induct) (auto simp: dockerHost_def Let_def split: if_splits)

lemma collectHosts_entry:
  "h \<in> set (collectHosts es seen) \<Longrightarrow> \<exists>e \<in> set es. h = dockerHost e \<and>
     trimmedField e ''id'' \<noteq> [] \<and> trimmedField e ''token'' \<noteq> []"
  by (induction es seen rule: collectHosts.induct) (auto simp: Let_def split: if_splits)

lemma collectHosts_find:
  "h \<in> set (collectHosts es seen) \<Longrightarrow> find (\<lambda>g. dh_id g = dh_id h) (collectHosts es seen) = Some h"
proof (induction es seen rule: collectHosts.induct)
  case (2 entry es seen)
  show ?case
  proof (cases "trimmedField entry ''id'' = [] \<or> trimmedField entry ''baseUrl'' = [] \<or>
      trimmedField entry ''token'' = [] \<or> trimmedField entry ''id'' \<in> set seen")
    case True
    with 2 show ?thesis by (auto simp: Let_def)
  next
    case False
    have i: "dh_id (dockerHost entry) = trimmedField entry ''id''" by (simp add: dockerHost_def Let_def)
    from "2.prems" False consider "h = dockerHost entry"
      | "h \<in> set (collectHosts es (trimmedField entry ''id'' # seen))" by (auto simp: Let_def)
    then show ?thesis
    proof cases
      case 2
      with collectHosts_id[OF 2] "2.IH"(2)[OF refl False] i False show ?thesis by (auto simp: Let_def)
    qed (use False i in \<open>simp add: Let_def\<close>)
  qed
qed simp

lemma dockerHostId_provider [simp]:
  "dockerHostId (dockerProvider i) = Some i" "isDockerProvider (dockerProvider i)"
  by (simp_all add: dockerHostId_def dockerProvider_def isDockerProvider_def)

text \<open>
  Every host a user is offered can be reached. Whatever is stored, each offered provider is
  either Cloudflare or resolves to exactly the configured host it was offered for, which
  carries an id and a token, and whose idle timeout is between one minute and a day; a
  provider whose host is gone gets the default timeout, never none.
\<close>

theorem offered_providers_resolve:
  "(\<forall>(p, label) \<in> set (listSessionProviderOptions stored). p = ''cloudflare'' \<or>
     (\<exists>h. resolveDockerHost stored p = Some h \<and> dh_provider h = p \<and> dh_label h = label \<and>
        dh_id h \<noteq> [] \<and> dh_token h \<noteq> [])) \<and>
   60000 \<le> resolveLifecycleIdleTimeoutMs stored provider \<and>
   resolveLifecycleIdleTimeoutMs stored provider \<le> 24 * 60 * 60000"
proof -
  have minutes: "1 \<le> idleMinutes e \<and> idleMinutes e \<le> 1440" for e
    by (auto simp: idleMinutes_def DEFAULT_DOCKER_IDLE_TIMEOUT_MINUTES_def split: json.splits)
  have host: "1 \<le> dh_idleTimeoutMinutes h \<and> dh_idleTimeoutMinutes h \<le> 1440"
    if "h \<in> set (listDockerHosts stored)" for h
    using that minutes collectHosts_entry
    by (fastforce simp: listDockerHosts_def dockerHost_def Let_def split: json.splits)
  have "h \<in> set (listDockerHosts stored)" if "resolveDockerHost stored p = Some h" for p h
    using that by (auto simp: resolveDockerHost_def find_Some_iff split: if_splits option.splits list.splits)
  with host have "60000 \<le> resolveLifecycleIdleTimeoutMs stored provider \<and>
      resolveLifecycleIdleTimeoutMs stored provider \<le> 24 * 60 * 60000"
    by (fastforce simp: resolveLifecycleIdleTimeoutMs_def CLOUDFLARE_IDLE_TIMEOUT_MS_def
        DEFAULT_DOCKER_IDLE_TIMEOUT_MINUTES_def split: option.splits)
  moreover have "resolveDockerHost stored (dh_provider h) = Some h \<and> dh_id h \<noteq> [] \<and> dh_token h \<noteq> []"
    if h: "h \<in> set (listDockerHosts stored)" for h
  proof -
    from h obtain es where es: "stored = JArr es" "h \<in> set (collectHosts es [])"
      by (auto simp: listDockerHosts_def split: json.splits)
    from collectHosts_entry[OF es(2)] have "dh_provider h = dockerProvider (dh_id h)"
      "dh_id h \<noteq> []" "dh_token h \<noteq> []" by (auto simp: dockerHost_def Let_def)
    with collectHosts_find[OF es(2)] show ?thesis
      by (simp add: resolveDockerHost_def listDockerHosts_def es(1))
  qed
  ultimately show ?thesis by (auto simp: listSessionProviderOptions_def)
qed

lemma offered_providers_resolve_witness:
  "\<exists>h. resolveDockerHost (JArr [JObj [(''id'', JStr ''a''), (''baseUrl'', JStr ''https://h/''),
      (''token'', JStr ''t'')]]) ''docker:a'' = Some h \<and> dh_label h = ''a''"
proof -
  let ?s = "JArr [JObj [(''id'', JStr ''a''), (''baseUrl'', JStr ''https://h/''), (''token'', JStr ''t'')]]"
  have "(''docker:a'', ''a'') \<in> set (listSessionProviderOptions ?s)" by code_simp
  with offered_providers_resolve[of ?s] show ?thesis by fastforce
qed

section \<open>The wait is bounded\<close>

lemma wakePoll_calls: "snd (wakePoll answers attempt left) \<le> attempt + left + 1"
  by (induction answers attempt left rule: wakePoll.induct) auto

lemma wakePoll_last: "wakePoll answers attempt left = (r, calls) \<Longrightarrow> r = answers (calls - 1)"
proof (induction left arbitrary: attempt)
  case (Suc left)
  then show ?case by (cases "wr_pending (answers attempt)") auto
qed auto

text \<open>
  One explicit intent asks at most 61 times, and succeeds only on an answer of the coordinator
  that is ready and names its epoch.
\<close>

lemma wake_needs_ready_answer:
  assumes "wakeInstanceRuntime answers = Inr (e, status)"
  shows "\<exists>n \<le> WAKE_POLL_ATTEMPTS. wr_ready (answers n) \<and> wr_runtimeEpoch (answers n) = Some e \<and>
    e \<noteq> [] \<and> wr_status (answers n) = status"
proof -
  obtain r calls where w: "wakePoll answers 0 WAKE_POLL_ATTEMPTS = (r, calls)" by fastforce
  have "calls - 1 \<le> WAKE_POLL_ATTEMPTS"
    using wakePoll_calls[of answers 0 WAKE_POLL_ATTEMPTS] w by simp
  moreover have "wr_ready r \<and> wr_runtimeEpoch r = Some e \<and> e \<noteq> [] \<and> wr_status r = status"
    using assms by (cases "wr_runtimeEpoch r") (simp_all add: wakeInstanceRuntime_def w split: if_splits)
  ultimately show ?thesis using wakePoll_last[OF w] by blast
qed

end
