(* ===== verification/Repo_Catalog.thy ===== *)
theory Repo_Catalog
  imports Hub_Registry "HOL-Library.Multiset"
begin

text \<open>
  The repositories a session may start from: the reading of GitHub's pages in
  \<open>src/github-catalog.ts\<close>, and the stored catalog and its order by last use in
  \<open>src/hub-store.ts\<close>. What GitHub answers for each page is an argument.
\<close>

section \<open>Keys\<close>

text \<open>
  \<open>normalizeRepoKey\<close>: lower case; every run of unsafe characters, then every run of dashes,
  one dash; one dash dropped at each end; 64 characters; a dash at the cut dropped.
\<close>

fun collapse :: "(char \<Rightarrow> bool) \<Rightarrow> bool \<Rightarrow> string \<Rightarrow> string" where
  "collapse P inRun [] = []"
| "collapse P inRun (c # cs) =
     (if P c then (if inRun then collapse P True cs else CHR ''-'' # collapse P True cs)
      else c # collapse P False cs)"

definition dropLeadingDash :: "string \<Rightarrow> string" where
  "dropLeadingDash s = (case s of [] \<Rightarrow> [] | c # cs \<Rightarrow> if c = CHR ''-'' then cs else s)"

definition dropTrailingDash :: "string \<Rightarrow> string" where
  "dropTrailingDash s = rev (dropLeadingDash (rev s))"

definition normalizeRepoKey :: "string \<Rightarrow> string" where
  "normalizeRepoKey v =
     dropTrailingDash (take 64 (dropTrailingDash (dropLeadingDash
       (collapse (\<lambda>c. c = CHR ''-'') False
         (collapse (\<lambda>c. \<not> repo_key_char c) False (map lower_char v))))))"

section \<open>One page of GitHub\<close>

definition str_or_empty :: "json \<Rightarrow> string" where
  "str_or_empty v = nullish (the_str v) []"

definition pushable :: "(string \<times> json) list \<Rightarrow> bool" where
  "pushable kvs =
     (field kvs ''archived'' \<noteq> JBool True \<and> field kvs ''disabled'' \<noteq> JBool True \<and>
      (case field kvs ''permissions'' of JObj ps \<Rightarrow> field ps ''push'' = JBool True | _ \<Rightarrow> False))"

text \<open>One entry of the page, given the keys that are taken.\<close>

definition repoEntry :: "string list \<Rightarrow> json \<Rightarrow> repo_definition option" where
  "repoEntry taken v =
     (case v of
        JObj kvs \<Rightarrow>
          (if \<not> pushable kvs then None
           else
             let fullName = str_or_empty (field kvs ''full_name''); name = str_or_empty (field kvs ''name'');
                 owner = hd (split_on (CHR ''/'') fullName);
                 candidate = normalizeRepoKey name;
                 key = (if candidate = [] \<or> candidate \<in> set taken
                        then normalizeRepoKey (owner @ ''-'' @ name) else candidate)
             in if key = [] \<or> key \<in> set taken then None
                else
                  let repo = \<lparr>rd_repoKey = key,
                        rd_displayName = (if fullName \<noteq> [] then fullName else name),
                        rd_cloneUrl = str_or_empty (field kvs ''ssh_url''),
                        rd_defaultBranch = str_or_empty (field kvs ''default_branch'')\<rparr>
                  in if isSafeRepoDefinition (repoToJson repo) then Some repo else None)
      | _ \<Rightarrow> None)"

fun collectRepos :: "json list \<Rightarrow> string list \<Rightarrow> repo_definition list" where
  "collectRepos [] taken = []"
| "collectRepos (v # vs) taken =
     (case repoEntry taken v of
        None \<Rightarrow> collectRepos vs taken
      | Some rd \<Rightarrow> rd # collectRepos vs (rd_repoKey rd # taken))"

definition repoDefinitionsFromGithub :: "json \<Rightarrow> repo_definition list \<Rightarrow> repo_definition list" where
  "repoDefinitionsFromGithub payload existing =
     (case payload of JArr vs \<Rightarrow> collectRepos vs (map rd_repoKey existing) | _ \<Rightarrow> [])"

section \<open>All pages\<close>

definition PER_PAGE :: nat where "PER_PAGE = 100"
definition MAX_PAGES :: nat where "MAX_PAGES = 5"

definition lastPage :: "json \<Rightarrow> bool" where
  "lastPage payload = (case payload of JArr vs \<Rightarrow> length vs < PER_PAGE | _ \<Rightarrow> True)"

text \<open>\<open>page n\<close> is the answer for page n: an error, or its body. \<open>left\<close> pages may follow.\<close>

fun fetchPages :: "(nat \<Rightarrow> string + json) \<Rightarrow> nat \<Rightarrow> nat \<Rightarrow> repo_definition list
    \<Rightarrow> string + repo_definition list" where
  "fetchPages page n 0 repos = Inr repos"
| "fetchPages page n (Suc left) repos =
     (case page n of
        Inl e \<Rightarrow> Inl e
      | Inr payload \<Rightarrow>
          (let repos' = repos @ repoDefinitionsFromGithub payload repos
           in if lastPage payload then Inr repos' else fetchPages page (n + 1) left repos'))"

definition fetchGithubRepoCatalog :: "(nat \<Rightarrow> string + json) \<Rightarrow> string + repo_definition list" where
  "fetchGithubRepoCatalog page = fetchPages page 1 MAX_PAGES []"

section \<open>The catalog in use\<close>

fun addInUse :: "repo_definition list \<Rightarrow> string list \<Rightarrow> repo_definition list" where
  "addInUse [] listed = []"
| "addInUse (rd # rds) listed =
     (if rd_repoKey rd \<in> set listed then addInUse rds listed
      else rd # addInUse rds (rd_repoKey rd # listed))"

definition withReposInUse :: "repo_definition list \<Rightarrow> repo_definition list \<Rightarrow> repo_definition list" where
  "withReposInUse repos inUse = repos @ addInUse inUse (map rd_repoKey repos)"

definition reposInUse :: "registry \<Rightarrow> repo_definition list" where
  "reposInUse db = List.map_filter (\<lambda>r. parseRepoJson (rw_repoJson r)) db"

text \<open>The latest activity of a repository's sessions, for a key that is not empty.\<close>

definition repoLastUse :: "registry \<Rightarrow> string \<Rightarrow> millis option" where
  "repoLastUse db k =
     (let times = map lastActivityAt (filter (\<lambda>r. rw_repoKey r \<noteq> [] \<and> rw_repoKey r = k) db)
      in if times = [] then None else Some (Max (set times)))"

definition orderReposByLastUse ::
  "repo_definition list \<Rightarrow> (string \<Rightarrow> millis option) \<Rightarrow> repo_definition list" where
  "orderReposByLastUse repos lastUsedAt =
     sort_key (\<lambda>rd. - the (lastUsedAt (rd_repoKey rd)))
       (filter (\<lambda>rd. lastUsedAt (rd_repoKey rd) \<noteq> None) repos) @
     filter (\<lambda>rd. lastUsedAt (rd_repoKey rd) = None) repos"

record cached_catalog =
  cc_fetchedAt :: millis
  cc_repos :: "repo_definition list"

record catalog_view =
  cv_repos :: "repo_definition list"
  cv_fetchedAt :: millis
  cv_stale :: bool

definition REPO_CATALOG_TTL_MS :: millis where
  "REPO_CATALOG_TTL_MS = 10 * 60 * 1000"

text \<open>
  The stored catalog, or a fresh one: the result and the setting afterwards. A token that is
  absent or empty is a failed refresh.
\<close>

definition readRepoCatalog ::
  "bool \<Rightarrow> string option \<Rightarrow> (nat \<Rightarrow> string + json) \<Rightarrow> millis \<Rightarrow> cached_catalog option
     \<Rightarrow> (string + cached_catalog) \<times> cached_catalog option" where
  "readRepoCatalog force token page now stored =
     (let failed = (\<lambda>m. case stored of
            Some c \<Rightarrow> (Inr c, stored)
          | None \<Rightarrow> (Inl (''Failed to read the repository catalog: '' @ m), stored))
      in if stored \<noteq> None \<and> \<not> force then (Inr (the stored), stored)
         else if \<not> truthy_str token
           then failed ''No GitHub token is configured; set one on the settings page''
         else case fetchGithubRepoCatalog page of
           Inl m \<Rightarrow> failed m
         | Inr repos \<Rightarrow>
             (if repos = [] then failed ''GitHub returned no repositories this token can push to''
              else (let c = \<lparr>cc_fetchedAt = now, cc_repos = repos\<rparr> in (Inr c, Some c))))"

definition listRepoCatalog ::
  "bool \<Rightarrow> string option \<Rightarrow> (nat \<Rightarrow> string + json) \<Rightarrow> millis \<Rightarrow> cached_catalog option \<Rightarrow> registry
     \<Rightarrow> (string + catalog_view) \<times> cached_catalog option" where
  "listRepoCatalog force token page now stored db =
     (case readRepoCatalog force token page now stored of
        (Inl e, s) \<Rightarrow> (Inl e, s)
      | (Inr c, s) \<Rightarrow>
          (Inr \<lparr>cv_repos = orderReposByLastUse (withReposInUse (cc_repos c) (reposInUse db)) (repoLastUse db),
             cv_fetchedAt = cc_fetchedAt c,
             cv_stale = (now - cc_fetchedAt c \<ge> REPO_CATALOG_TTL_MS)\<rparr>, s))"

section \<open>What is offered can be cloned\<close>

definition catalog_ok :: "repo_definition list \<Rightarrow> bool" where
  "catalog_ok rds = (distinct (map rd_repoKey rds) \<and>
     (\<forall>rd \<in> set rds. isSafeRepoDefinition (repoToJson rd)))"

lemma repoEntry_ok:
  "repoEntry taken v = Some rd \<Longrightarrow> rd_repoKey rd \<notin> set taken \<and> isSafeRepoDefinition (repoToJson rd)"
  by (auto simp: repoEntry_def Let_def split: json.splits if_splits)

lemma collectRepos_ok:
  "catalog_ok (collectRepos vs taken) \<and> set (map rd_repoKey (collectRepos vs taken)) \<inter> set taken = {}"
proof (induction vs arbitrary: taken)
  case (Cons v vs)
  show ?case
  proof (cases "repoEntry taken v")
    case (Some rd)
    with repoEntry_ok[OF Some] Cons.IH[of "rd_repoKey rd # taken"] show ?thesis
      by (auto simp: catalog_ok_def)
  qed (use Cons.IH[of taken] in simp)
qed (simp add: catalog_ok_def)

lemma page_ok:
  "catalog_ok repos \<Longrightarrow> catalog_ok (repos @ repoDefinitionsFromGithub payload repos)"
  using collectRepos_ok[of _ "map rd_repoKey repos"]
  by (cases payload) (auto simp: catalog_ok_def repoDefinitionsFromGithub_def)

lemma fetchPages_ok:
  "catalog_ok repos \<Longrightarrow> fetchPages page n left repos = Inr r \<Longrightarrow> catalog_ok r"
  by (induction page n left repos rule: fetchPages.induct)
    (auto simp: Let_def page_ok split: sum.splits if_splits)

lemma addInUse_ok:
  "\<forall>rd \<in> set rds. isSafeRepoDefinition (repoToJson rd) \<Longrightarrow>
     catalog_ok (addInUse rds listed) \<and> set (map rd_repoKey (addInUse rds listed)) \<inter> set listed = {}"
proof (induction rds arbitrary: listed)
  case (Cons rd rds)
  from Cons.IH[of listed] Cons.IH[of "rd_repoKey rd # listed"] Cons.prems show ?case
    by (auto simp: catalog_ok_def)
qed (simp add: catalog_ok_def)

lemma addInUse_keys:
  "rd_repoKey ` set rds \<subseteq> set listed \<union> rd_repoKey ` set (addInUse rds listed)"
proof (induction rds arbitrary: listed)
  case (Cons rd rds)
  from Cons.IH[of listed] Cons.IH[of "rd_repoKey rd # listed"] show ?case
    by (cases "rd_repoKey rd \<in> set listed") (auto simp del: image_subset_iff)
qed simp

lemma withReposInUse_ok:
  assumes "catalog_ok repos" and "\<forall>rd \<in> set inUse. isSafeRepoDefinition (repoToJson rd)"
  shows "catalog_ok (withReposInUse repos inUse)"
  using assms(1) addInUse_ok[OF assms(2), of "map rd_repoKey repos"]
  by (auto simp: withReposInUse_def catalog_ok_def)

lemma mset_parts: "mset (filter P xs) + mset (filter (\<lambda>x. \<not> P x) xs) = mset xs"
  by (induction xs) auto

lemma orderRepos_mset: "mset (orderReposByLastUse repos f) = mset repos"
  using mset_parts[of "\<lambda>rd. f (rd_repoKey rd) \<noteq> None" repos] by (simp add: orderReposByLastUse_def)

lemma catalog_ok_order: "catalog_ok repos \<Longrightarrow> catalog_ok (orderReposByLastUse repos f)"
proof -
  have "set (orderReposByLastUse repos f) = set repos"
    using orderRepos_mset mset_eq_setD by blast
  moreover have "distinct (map rd_repoKey (orderReposByLastUse repos f)) = distinct (map rd_repoKey repos)"
    by (rule mset_eq_imp_distinct_iff) (simp add: orderRepos_mset)
  ultimately show "catalog_ok repos \<Longrightarrow> ?thesis" by (simp add: catalog_ok_def)
qed

lemma in_use_safe:
  assumes "rd \<in> set (reposInUse db)"
  shows "isSafeRepoDefinition (repoToJson rd)"
proof -
  have mf: "y \<in> set (List.map_filter g xs) \<Longrightarrow> \<exists>x \<in> set xs. g x = Some y" for g y xs
    by (auto simp: List.map_filter_def)
  from mf[OF assms[unfolded reposInUse_def]] obtain r :: session_row where "parseRepoJson (rw_repoJson r) = Some rd"
    by blast
  then obtain kvs where k: "isSafeRepoDefinition (JObj kvs)" "rd = repoFromJson kvs"
    by (auto simp: parseRepoJson_def split: option.splits json_text.splits json.splits if_splits)
  have e: "the_str v = Some x \<Longrightarrow> v = JStr x" for v x by (cases v) auto
  from k(1) obtain a b c d where "field kvs ''repoKey'' = JStr a" "field kvs ''displayName'' = JStr b"
    "field kvs ''defaultBranch'' = JStr c" "field kvs ''cloneUrl'' = JStr d"
    by (auto simp: isSafeRepoDefinition_def isSafeRepoKey_def split: option.splits dest!: e)
  then show ?thesis using k
    by (simp add: isSafeRepoDefinition_def repoToJson_def repoFromJson_def field_def)
qed

text \<open>
  Every repository the composer offers can be cloned into a directory of its own: whatever
  GitHub answered, whichever pages were read and whatever sessions exist, the keys offered are
  pairwise different and every definition is safe, and every repository in use is offered. A
  refresh that fails serves the stored catalog and
  leaves the stored setting as it was.
\<close>

theorem offered_repositories_are_safe:
  assumes "\<And>c. stored = Some c \<Longrightarrow> catalog_ok (cc_repos c)"
    and "listRepoCatalog force token page now stored db = (Inr v, stored')"
  shows "catalog_ok (cv_repos v) \<and>
    rd_repoKey ` set (reposInUse db) \<subseteq> rd_repoKey ` set (cv_repos v) \<and>
    (\<forall>c. stored' = Some c \<longrightarrow> catalog_ok (cc_repos c)) \<and>
    (stored' \<noteq> stored \<longrightarrow> (\<exists>repos. fetchGithubRepoCatalog page = Inr repos \<and> repos \<noteq> [] \<and>
       stored' = Some \<lparr>cc_fetchedAt = now, cc_repos = repos\<rparr>))"
proof -
  from assms(2) obtain c where c: "readRepoCatalog force token page now stored = (Inr c, stored')"
    and v: "cv_repos v = orderReposByLastUse (withReposInUse (cc_repos c) (reposInUse db)) (repoLastUse db)"
    by (auto simp: listRepoCatalog_def split: prod.splits sum.splits)
  from c consider "stored = Some c" "stored' = stored"
    | repos where "fetchGithubRepoCatalog page = Inr repos" "repos \<noteq> []"
        "c = \<lparr>cc_fetchedAt = now, cc_repos = repos\<rparr>" "stored' = Some c"
    by (cases stored) (auto simp: readRepoCatalog_def Let_def split: if_splits sum.splits)
  then have s: "catalog_ok (cc_repos c) \<and> (\<forall>c. stored' = Some c \<longrightarrow> catalog_ok (cc_repos c)) \<and>
    (stored' \<noteq> stored \<longrightarrow> (\<exists>repos. fetchGithubRepoCatalog page = Inr repos \<and> repos \<noteq> [] \<and>
       stored' = Some \<lparr>cc_fetchedAt = now, cc_repos = repos\<rparr>))"
  proof cases
    case (2 repos)
    have "catalog_ok repos"
      using 2(1) fetchPages_ok[of "[]"] by (simp add: fetchGithubRepoCatalog_def catalog_ok_def)
    with 2 show ?thesis by simp
  qed (use assms(1) in auto)
  have "catalog_ok (cv_repos v)"
    unfolding v using s in_use_safe by (intro catalog_ok_order withReposInUse_ok) auto
  moreover have "rd_repoKey ` set (reposInUse db) \<subseteq> rd_repoKey ` set (cv_repos v)"
  proof -
    have "rd_repoKey ` set (reposInUse db) \<subseteq>
        rd_repoKey ` set (withReposInUse (cc_repos c) (reposInUse db))"
      using addInUse_keys[of "reposInUse db" "map rd_repoKey (cc_repos c)"]
      by (simp add: withReposInUse_def image_Un)
    moreover have "set (cv_repos v) = set (withReposInUse (cc_repos c) (reposInUse db))"
      unfolding v using orderRepos_mset mset_eq_setD by blast
    ultimately show ?thesis by simp
  qed
  ultimately show ?thesis using s by blast
qed

definition exPage :: "nat \<Rightarrow> string + json" where
  "exPage n = Inr (JArr [JObj [(''name'', JStr ''My App''), (''full_name'', JStr ''me/My App''),
     (''ssh_url'', JStr ''git@github.com:me/my-app.git''), (''default_branch'', JStr ''main''),
     (''permissions'', JObj [(''push'', JBool True)])]])"

lemma offered_repositories_are_safe_witness:
  "\<exists>v s'. listRepoCatalog False (Some ''tok'') exPage 7 None [] = (Inr v, s') \<and>
     map rd_repoKey (cv_repos v) = [''my-app''] \<and> catalog_ok (cv_repos v)"
proof -
  have 1: "case listRepoCatalog False (Some ''tok'') exPage 7 None [] of
      (Inl e, s') \<Rightarrow> False | (Inr v, s') \<Rightarrow> map rd_repoKey (cv_repos v) = [''my-app'']" by code_simp
  then obtain v s' where "listRepoCatalog False (Some ''tok'') exPage 7 None [] = (Inr v, s')"
    "map rd_repoKey (cv_repos v) = [''my-app'']" by (auto split: prod.splits sum.splits)
  with offered_repositories_are_safe[OF _ this(1)] show ?thesis by auto
qed

end
