(* ===== verification/Effects.thy ===== *)
theory Effects
  imports Prelude
begin

text \<open>
  Asynchronous code that can fail or be cut off anywhere: a program runs on a world and a list
  of answers, one for every awaited call, in order. A call takes its answer and says how the
  world changes and what comes back, a value or an exception. When the answers end the object
  is gone in the middle of the program, so quantifying over all lists of answers quantifies
  over every failure and every moment of a crash. The rules compute what has to hold before a
  program for a condition to hold after it, after an exception, and wherever it may be cut off.
\<close>

section \<open>Programs\<close>

datatype ('e, 'v) outcome = Returned 'v | Raised 'e | CutOff

type_synonym ('w, 'a, 'e, 'v) program = "'w \<Rightarrow> 'a list \<Rightarrow> ('e, 'v) outcome \<times> 'w \<times> 'a list"

definition return :: "'v \<Rightarrow> ('w, 'a, 'e, 'v) program" where
  "return v = (\<lambda>w as. (Returned v, w, as))"

definition raise :: "'e \<Rightarrow> ('w, 'a, 'e, 'v) program" where
  "raise e = (\<lambda>w as. (Raised e, w, as))"

text \<open>\<open>await m\<close>, then the rest.\<close>

definition andThen ::
  "('w, 'a, 'e, 'v) program \<Rightarrow> ('v \<Rightarrow> ('w, 'a, 'e, 'u) program) \<Rightarrow> ('w, 'a, 'e, 'u) program" where
  "andThen m f = (\<lambda>w as.
     case m w as of
       (Returned v, w', as') \<Rightarrow> f v w' as'
     | (Raised e, w', as') \<Rightarrow> (Raised e, w', as')
     | (CutOff, w', as') \<Rightarrow> (CutOff, w', as'))"

text \<open>\<open>try m catch (e) handler\<close>.\<close>

definition catching ::
  "('w, 'a, 'e, 'v) program \<Rightarrow> ('e \<Rightarrow> ('w, 'a, 'e, 'v) program) \<Rightarrow> ('w, 'a, 'e, 'v) program" where
  "catching m h = (\<lambda>w as.
     case m w as of
       (Returned v, w', as') \<Rightarrow> (Returned v, w', as')
     | (Raised e, w', as') \<Rightarrow> h e w' as'
     | (CutOff, w', as') \<Rightarrow> (CutOff, w', as'))"

text \<open>Reading and writing the object's own memory, without an await.\<close>

definition reading :: "('w \<Rightarrow> ('w, 'a, 'e, 'v) program) \<Rightarrow> ('w, 'a, 'e, 'v) program" where
  "reading f = (\<lambda>w. f w w)"

definition modify :: "('w \<Rightarrow> 'w) \<Rightarrow> ('w, 'a, 'e, unit) program" where
  "modify g = (\<lambda>w as. (Returned (), g w, as))"

text \<open>One awaited call.\<close>

definition call :: "('a \<Rightarrow> 'w \<Rightarrow> ('e + 'v) \<times> 'w) \<Rightarrow> ('w, 'a, 'e, 'v) program" where
  "call f = (\<lambda>w as.
     case as of
       [] \<Rightarrow> (CutOff, w, [])
     | a # as' \<Rightarrow>
         (case f a w of
            (Inl e, w') \<Rightarrow> (Raised e, w', as')
          | (Inr v, w') \<Rightarrow> (Returned v, w', as')))"

text \<open>\<open>for (const x of xs) await f(x)\<close>, with the results collected.\<close>

fun forEach :: "('x \<Rightarrow> ('w, 'a, 'e, 'v) program) \<Rightarrow> 'x list \<Rightarrow> ('w, 'a, 'e, 'v list) program" where
  "forEach f [] = return []"
| "forEach f (x # xs) = andThen (f x) (\<lambda>v. andThen (forEach f xs) (\<lambda>vs. return (v # vs)))"

section \<open>What has to hold before\<close>

definition wp ::
  "('w, 'a, 'e, 'v) program \<Rightarrow> ('v \<Rightarrow> 'w \<Rightarrow> bool) \<Rightarrow> ('e \<Rightarrow> 'w \<Rightarrow> bool) \<Rightarrow> ('w \<Rightarrow> bool) \<Rightarrow> 'w \<Rightarrow> bool" where
  "wp m Q E C w = (\<forall>as.
     case m w as of
       (Returned v, w', _) \<Rightarrow> Q v w'
     | (Raised e, w', _) \<Rightarrow> E e w'
     | (CutOff, w', _) \<Rightarrow> C w')"

lemma wp_return [simp]: "wp (return v) Q E C w \<longleftrightarrow> Q v w"
  by (simp add: wp_def return_def)

lemma wp_raise [simp]: "wp (raise e) Q E C w \<longleftrightarrow> E e w"
  by (simp add: wp_def raise_def)

lemma wp_modify [simp]: "wp (modify g) Q E C w \<longleftrightarrow> Q () (g w)"
  by (simp add: wp_def modify_def)

lemma wp_reading [simp]: "wp (reading f) Q E C w \<longleftrightarrow> wp (f w) Q E C w"
  by (simp add: wp_def reading_def)

lemma wp_call [simp]:
  "wp (call f) Q E C w \<longleftrightarrow>
     C w \<and> (\<forall>a. case f a w of (Inl e, w') \<Rightarrow> E e w' | (Inr v, w') \<Rightarrow> Q v w')"
proof
  assume l: "wp (call f) Q E C w"
  from l[unfolded wp_def, rule_format, of "[]"] have "C w" by (simp add: call_def)
  moreover have "case f a w of (Inl e, w') \<Rightarrow> E e w' | (Inr v, w') \<Rightarrow> Q v w'" for a
    using l[unfolded wp_def, rule_format, of "[a]"] by (auto simp: call_def split: prod.splits sum.splits)
  ultimately show "C w \<and> (\<forall>a. case f a w of (Inl e, w') \<Rightarrow> E e w' | (Inr v, w') \<Rightarrow> Q v w')" by blast
next
  assume r: "C w \<and> (\<forall>a. case f a w of (Inl e, w') \<Rightarrow> E e w' | (Inr v, w') \<Rightarrow> Q v w')"
  show "wp (call f) Q E C w"
    unfolding wp_def
  proof
    fix as
    show "case call f w as of (Returned v, w', _) \<Rightarrow> Q v w' | (Raised e, w', _) \<Rightarrow> E e w'
      | (CutOff, w', _) \<Rightarrow> C w'"
    proof (cases as)
      case (Cons a as')
      have "case f a w of (Inl e, w') \<Rightarrow> E e w' | (Inr v, w') \<Rightarrow> Q v w'"
        using r by (elim conjE allE[of _ a])
      then show ?thesis using Cons by (auto simp: call_def split: prod.splits sum.splits)
    qed (use r in \<open>simp add: call_def\<close>)
  qed
qed

lemma wp_andThen [intro]:
  assumes "wp m (\<lambda>v. wp (f v) Q E C) E C w"
  shows "wp (andThen m f) Q E C w"
  unfolding wp_def
proof
  fix as
  obtain r w' as' where m: "m w as = (r, w', as')" by (cases "m w as") auto
  from assms[unfolded wp_def, rule_format, of as]
  have r: "case r of Returned v \<Rightarrow> wp (f v) Q E C w' | Raised e \<Rightarrow> E e w' | CutOff \<Rightarrow> C w'"
    by (cases r) (simp_all add: m wp_def)
  show "case andThen m f w as of (Returned v, w', _) \<Rightarrow> Q v w' | (Raised e, w', _) \<Rightarrow> E e w'
      | (CutOff, w', _) \<Rightarrow> C w'"
    using r by (cases r) (simp_all add: andThen_def m wp_def)
qed

lemma wp_catching [intro]:
  assumes "wp m Q (\<lambda>e. wp (h e) Q E C) C w"
  shows "wp (catching m h) Q E C w"
  unfolding wp_def
proof
  fix as
  obtain r w' as' where m: "m w as = (r, w', as')" by (cases "m w as") auto
  from assms[unfolded wp_def, rule_format, of as]
  have r: "case r of Returned v \<Rightarrow> Q v w' | Raised e \<Rightarrow> wp (h e) Q E C w' | CutOff \<Rightarrow> C w'"
    by (cases r) (simp_all add: m wp_def)
  show "case catching m h w as of (Returned v, w', _) \<Rightarrow> Q v w' | (Raised e, w', _) \<Rightarrow> E e w'
      | (CutOff, w', _) \<Rightarrow> C w'"
    using r by (cases r) (simp_all add: catching_def m wp_def)
qed

lemma wp_mono:
  assumes "wp m Q E C w"
    and "\<And>v w. Q v w \<Longrightarrow> Q' v w" and "\<And>e w. E e w \<Longrightarrow> E' e w" and "\<And>w. C w \<Longrightarrow> C' w"
  shows "wp m Q' E' C' w"
  using assms unfolding wp_def by (fastforce split: prod.splits outcome.splits)

lemma wp_forEach:
  assumes "J w" and "\<And>x w. x \<in> set xs \<Longrightarrow> J w \<Longrightarrow> wp (f x) (\<lambda>v. J) E C w"
  shows "wp (forEach f xs) (\<lambda>vs. J) E C w"
  using assms
proof (induction xs arbitrary: w)
  case (Cons x xs)
  have "wp (f x) (\<lambda>v. J) E C w" using Cons.prems by simp
  then have "wp (f x) (\<lambda>v. wp (andThen (forEach f xs) (\<lambda>vs. return (v # vs))) (\<lambda>vs. J) E C) E C w"
  proof (rule wp_mono)
    fix v w' assume "J w'"
    then have "wp (forEach f xs) (\<lambda>vs. J) E C w'" using Cons by simp
    then show "wp (andThen (forEach f xs) (\<lambda>vs. return (v # vs))) (\<lambda>vs. J) E C w'"
      by (intro wp_andThen) (simp add: wp_mono)
  qed
  then show ?case by (simp add: wp_andThen)
qed simp

text \<open>A loop whose rounds achieve \<open>P\<close> of their element, keep it for the others, and return \<open>R\<close>.\<close>

lemma wp_forEach_all:
  assumes "J w" and "\<And>x w. x \<in> set xs \<Longrightarrow> J w \<Longrightarrow>
      wp (f x) (\<lambda>v w'. J w' \<and> P x w' \<and> R x v \<and> (\<forall>y. P y w \<longrightarrow> P y w')) E C w"
  shows "wp (forEach f xs)
    (\<lambda>vs w'. J w' \<and> (\<forall>x \<in> set xs. P x w') \<and> list_all2 R xs vs \<and> (\<forall>y. P y w \<longrightarrow> P y w')) E C w"
  using assms
proof (induction xs arbitrary: w)
  case (Cons x xs)
  let ?Q = "\<lambda>vs w'. J w' \<and> (\<forall>y \<in> set (x # xs). P y w') \<and> list_all2 R (x # xs) vs \<and> (\<forall>y. P y w \<longrightarrow> P y w')"
  have "wp (f x) (\<lambda>v w'. J w' \<and> P x w' \<and> R x v \<and> (\<forall>y. P y w \<longrightarrow> P y w')) E C w" using Cons.prems by simp
  then have "wp (f x) (\<lambda>v. wp (andThen (forEach f xs) (\<lambda>vs. return (v # vs))) ?Q E C) E C w"
  proof (rule wp_mono)
    fix v w' assume w': "J w' \<and> P x w' \<and> R x v \<and> (\<forall>y. P y w \<longrightarrow> P y w')"
    then have "wp (forEach f xs) (\<lambda>vs u. J u \<and> (\<forall>x \<in> set xs. P x u) \<and> list_all2 R xs vs \<and>
        (\<forall>y. P y w' \<longrightarrow> P y u)) E C w'"
      using Cons by simp
    then show "wp (andThen (forEach f xs) (\<lambda>vs. return (v # vs))) ?Q E C w'"
      by (intro wp_andThen, elim wp_mono) (use w' in auto)
  qed
  then show ?case by (simp add: wp_andThen)
qed simp

text \<open>From the rules back to one run.\<close>

lemma wp_run:
  assumes "wp m Q E C w" and "m w as = (r, w', as')"
  shows "case r of Returned v \<Rightarrow> Q v w' | Raised e \<Rightarrow> E e w' | CutOff \<Rightarrow> C w'"
  using assms(1)[unfolded wp_def, rule_format, of as] by (cases r) (simp_all add: assms(2))

end
