(* ===== verification/Sandbox_Persistence.thy ===== *)
theory Sandbox_Persistence
  imports Effects Js_Text
begin

text \<open>
  What survives a container: the checkpoints, the restore and the purge of
  \<open>src/sandbox.ts\<close>, against the host of \<open>host/host.ts\<close> and the two buckets. A workspace is its
  marker and the rest of its contents. The host archives a workspace under a new id, which is
  the answer of the call; the key of the archive below that id is the service's own
  (\<open>archiveName\<close>), the key of its metadata is \<open>meta.json\<close>. Whether the service reports a
  failed restore only by an exception is a parameter too (\<open>restoreThrows\<close>). Storage operations of the object
  are transactional: one that fails has done nothing.
\<close>

section \<open>The world\<close>

datatype error =
    NotRunning
  | Message string

record workspace =
  ws_marker :: bool
  ws_content :: string

definition freshWorkspace :: workspace where
  "freshWorkspace = \<lparr>ws_marker = False, ws_content = []\<rparr>"

record snapshot_handle =
  sh_id :: string
  sh_dir :: string

datatype checkpoint_reason = ManualCheckpoint | IdleStopCheckpoint

fun reasonText :: "checkpoint_reason \<Rightarrow> string" where
  "reasonText ManualCheckpoint = ''manual''"
| "reasonText IdleStopCheckpoint = ''idle-stop''"

record stored_backup =
  sb_backup :: snapshot_handle
  sb_createdAt :: millis
  sb_reason :: checkpoint_reason

datatype persistence_operation = CheckpointOperation | RestoreOperation

record persistence_error =
  pe_at :: millis
  pe_operation :: persistence_operation
  pe_message :: error

record instance_identity =
  id_id :: string
  id_provider :: session_provider
  id_deleting :: bool

record storage =
  so_purge :: bool
  so_identity :: "instance_identity option"
  so_hostRunning :: "bool option"
  so_target :: "string option"
  so_backup :: "stored_backup option"
  so_legacy :: "snapshot_handle list option"
  so_ledger :: "(string \<times> snapshot_handle) list"
  so_restoredAt :: "millis option"
  so_error :: "persistence_error option"
  so_lost :: "(millis \<times> string) option"

definition emptyStorage :: storage where
  "emptyStorage = \<lparr>so_purge = False, so_identity = None, so_hostRunning = None, so_target = None,
     so_backup = None, so_legacy = None, so_ledger = [], so_restoredAt = None, so_error = None,
     so_lost = None\<rparr>"

text \<open>An object of the archive bucket: an archive, or metadata, whose text may not be JSON.\<close>

datatype backup_object = Archive workspace | Metadata "json option"

text \<open>
  The fields of the object in memory, its storage, and what lies outside it: the container,
  the workspace it has, the buckets, and the clock.
\<close>

record world =
  identity :: "instance_identity option"
  purgeRequested :: bool
  instanceActive :: bool
  hostRunning :: bool
  transcriptTarget :: "string option"
  storage :: storage
  running :: bool
  workspace :: "workspace option"
  ephemeral :: bool
  archiveName :: string
  restoreThrows :: bool
  backupBucket :: "(string \<times> backup_object) list"
  sessionBucket :: "string list"
  now :: millis

text \<open>
  The answer to a call: done, with the text the callee chose; a negative answer; a failure
  before or after the work was done, or part of it; or the container is found to be gone.
\<close>

datatype answer = Done string | Refused | Fails | FailsAfter string | FailsPartly nat | Gone

type_synonym 'v task = "(world, answer, error, 'v) program"

section \<open>Calls\<close>

definition failed :: error where "failed = Message ''The call failed''"

definition updateStorage :: "(storage \<Rightarrow> storage) \<Rightarrow> world \<Rightarrow> world" where
  "updateStorage g w = w\<lparr>storage := g (storage w)\<rparr>"

definition storageCall :: "(storage \<Rightarrow> storage) \<Rightarrow> unit task" where
  "storageCall g = call (\<lambda>a w. case a of Done _ \<Rightarrow> (Inr (), updateStorage g w) | _ \<Rightarrow> (Inl failed, w))"

text \<open>A container that stops takes an ephemeral workspace with it.\<close>

definition containerGone :: "world \<Rightarrow> world" where
  "containerGone w = w\<lparr>running := False, workspace := (if ephemeral w then None else workspace w)\<rparr>"

text \<open>A host route that requires a running container (\<open>requireRunning\<close>).\<close>

definition hostCall :: "(string \<Rightarrow> world \<Rightarrow> 'v \<times> world) \<Rightarrow> 'v task" where
  "hostCall f = call (\<lambda>a w.
     case a of
       Done s \<Rightarrow> (if running w then (case f s w of (v, w') \<Rightarrow> (Inr v, w')) else (Inl NotRunning, w))
     | FailsAfter s \<Rightarrow> (Inl failed, if running w then snd (f s w) else w)
     | Gone \<Rightarrow> (Inl NotRunning, containerGone w)
     | _ \<Rightarrow> (Inl failed, w))"

definition setHostRuntime :: "bool \<Rightarrow> unit task" where
  "setHostRuntime b = andThen (modify (\<lambda>w. w\<lparr>hostRunning := b\<rparr>))
     (\<lambda>_. storageCall (\<lambda>s. s\<lparr>so_hostRunning := Some b\<rparr>))"

definition onHost :: "'v task \<Rightarrow> 'v task" where
  "onHost operation = catching operation (\<lambda>e. reading (\<lambda>w.
     if e = NotRunning \<and> hostRunning w
     then andThen (setHostRuntime False) (\<lambda>_. raise e) else raise e))"

definition supportsSnapshots :: "instance_identity \<Rightarrow> bool" where
  "supportsSnapshots i = (id_provider i = ''cloudflare'')"

text \<open>\<open>host()\<close>: whether the resolved host has snapshots. Resolving it may fail.\<close>

definition theHost :: "bool task" where
  "theHost = reading (\<lambda>w.
     case identity w of
       None \<Rightarrow> raise (Message ''This instance has no sandbox host'')
     | Some i \<Rightarrow> call (\<lambda>a w. case a of Done _ \<Rightarrow> (Inr (supportsSnapshots i), w) | _ \<Rightarrow> (Inl failed, w)))"

text \<open>\<open>ensureSession\<close> of the host: whether the workspace is a new one.\<close>

definition ensured :: "world \<Rightarrow> bool \<times> world" where
  "ensured w =
     (case workspace w of
        None \<Rightarrow> (True, w\<lparr>running := True, workspace := Some freshWorkspace\<rparr>)
      | Some _ \<Rightarrow> (False, w\<lparr>running := True\<rparr>))"

definition hostEnsure :: "bool task" where
  "hostEnsure = call (\<lambda>a w.
     case a of
       Done _ \<Rightarrow> (case ensured w of (b, w') \<Rightarrow> (Inr b, w'))
     | FailsAfter _ \<Rightarrow> (Inl failed, snd (ensured w))
     | Gone \<Rightarrow> (Inl NotRunning, containerGone w)
     | _ \<Rightarrow> (Inl failed, w))"

definition markerExists :: "bool task" where
  "markerExists = hostCall (\<lambda>_ w. (case workspace w of None \<Rightarrow> False | Some s \<Rightarrow> ws_marker s, w))"

definition writeMarker :: "unit task" where
  "writeMarker = hostCall (\<lambda>_ w. ((), w\<lparr>workspace := map_option (ws_marker_update (\<lambda>_. True)) (workspace w)\<rparr>))"

definition hostSync :: "unit task" where
  "hostSync = hostCall (\<lambda>_ w. ((), w))"

section \<open>The archive bucket\<close>

definition backupPrefix :: "string \<Rightarrow> string" where
  "backupPrefix i = ''backups/'' @ i @ ''/''"

definition backupName :: "string \<Rightarrow> checkpoint_reason \<Rightarrow> string" where
  "backupName owner reason = ''opencode:'' @ owner @ '':'' @ reasonText reason"

text \<open>The service never gives an id twice, and its ids are path segments.\<close>

definition freshBackupId :: "world \<Rightarrow> string \<Rightarrow> bool" where
  "freshBackupId w i =
     (CHR ''/'' \<notin> set i \<and> (\<forall>(k, b) \<in> set (backupBucket w). \<not> starts_with k (backupPrefix i)) \<and>
      i \<notin> (\<lambda>(k, h). sh_id h) ` set (so_ledger (storage w)) \<and>
      (case so_backup (storage w) of None \<Rightarrow> True | Some b \<Rightarrow> sh_id (sb_backup b) \<noteq> i))"

definition snapshotMeta :: "string \<Rightarrow> string \<Rightarrow> string \<Rightarrow> json" where
  "snapshotMeta i dir name = JObj [(''id'', JStr i), (''dir'', JStr dir), (''name'', JStr name)]"

definition addSnapshot :: "string \<Rightarrow> string \<Rightarrow> string \<Rightarrow> world \<Rightarrow> world" where
  "addSnapshot i dir name w =
     (case workspace w of
        None \<Rightarrow> w
      | Some s \<Rightarrow> w\<lparr>backupBucket := backupBucket w @
          [(backupPrefix i @ archiveName w, Archive s),
           (backupPrefix i @ ''meta.json'', Metadata (Some (snapshotMeta i dir name)))]\<rparr>)"

text \<open>
  \<open>host.snapshot\<close> and the check of the handle it returns; a negative answer is a handle
  without an id.
\<close>

definition hostSnapshot :: "string \<Rightarrow> string \<Rightarrow> snapshot_handle task" where
  "hostSnapshot dir name = call (\<lambda>a w.
     case a of
       Done i \<Rightarrow>
         (if \<not> running w then (Inl NotRunning, w)
          else if \<not> freshBackupId w i then (Inl failed, w)
          else (Inr \<lparr>sh_id = i, sh_dir = dir\<rparr>, addSnapshot i dir name w))
     | Refused \<Rightarrow> (Inl (Message ''The sandbox host returned an untrackable snapshot handle''), w)
     | FailsAfter i \<Rightarrow> (Inl failed, if running w \<and> freshBackupId w i then addSnapshot i dir name w else w)
     | Gone \<Rightarrow> (Inl NotRunning, containerGone w)
     | _ \<Rightarrow> (Inl failed, w))"

fun findArchive :: "string \<Rightarrow> (string \<times> backup_object) list \<Rightarrow> workspace option" where
  "findArchive p [] = None"
| "findArchive p ((k, b) # kbs) =
     (case b of
        Archive s \<Rightarrow> if starts_with k p then Some s else findArchive p kbs
      | Metadata j \<Rightarrow> findArchive p kbs)"

definition archived :: "world \<Rightarrow> string \<Rightarrow> workspace option" where
  "archived w i = findArchive (backupPrefix i) (backupBucket w)"

text \<open>
  \<open>host.snapshotRestore\<close>: whether the workspace was put back, as the host reports it. An
  archive that is gone is an error.
\<close>

definition hostRestore :: "snapshot_handle \<Rightarrow> bool task" where
  "hostRestore h = call (\<lambda>a w.
     case a of
       Done _ \<Rightarrow>
         (if \<not> running w then (Inl NotRunning, w)
          else (case archived w (sh_id h) of
                  None \<Rightarrow> (Inl (Message ''SNAPSHOT_NOT_FOUND''), w)
                | Some s \<Rightarrow> (Inr True, w\<lparr>workspace := Some s\<rparr>)))
     | Refused \<Rightarrow> (if restoreThrows w then (Inl failed, w) else (Inr False, w))
     | FailsAfter _ \<Rightarrow>
         (Inl failed, case archived w (sh_id h) of
            None \<Rightarrow> w | Some s \<Rightarrow> if running w then w\<lparr>workspace := Some s\<rparr> else w)
     | Gone \<Rightarrow> (Inl NotRunning, containerGone w)
     | _ \<Rightarrow> (Inl failed, w))"

text \<open>A bucket lists at most a thousand keys at a time.\<close>

definition R2_PAGE :: nat where "R2_PAGE = 1000"

definition keysUnder :: "string \<Rightarrow> string list \<Rightarrow> string list" where
  "keysUnder p ks = filter (\<lambda>k. starts_with k p) ks"

text \<open>
  The deletion of everything below a prefix: list a page, stop when it is empty, delete it.
  A failing delete may have removed some of the page.
\<close>

fun sweepPrefix ::
  "(world \<Rightarrow> string list) \<Rightarrow> (string list \<Rightarrow> world \<Rightarrow> world) \<Rightarrow> string \<Rightarrow> unit task" where
  "sweepPrefix keys del p w [] = (CutOff, w, [])"
| "sweepPrefix keys del p w (a # as) =
     (case a of
        Done _ \<Rightarrow>
          (let page = take R2_PAGE (keysUnder p (keys w)) in
           if page = [] then (Returned (), w, as)
           else (case as of
                   [] \<Rightarrow> (CutOff, w, [])
                 | b # bs \<Rightarrow>
                     (case b of
                        Done _ \<Rightarrow> sweepPrefix keys del p (del page w) bs
                      | FailsAfter _ \<Rightarrow> (Raised failed, del page w, bs)
                      | FailsPartly n \<Rightarrow> (Raised failed, del (take n page) w, bs)
                      | _ \<Rightarrow> (Raised failed, w, bs))))
      | _ \<Rightarrow> (Raised failed, w, as))"

definition deleteFromBackups :: "string list \<Rightarrow> world \<Rightarrow> world" where
  "deleteFromBackups ks w = w\<lparr>backupBucket := filter (\<lambda>(k, b). k \<notin> set ks) (backupBucket w)\<rparr>"

definition deleteFromSessions :: "string list \<Rightarrow> world \<Rightarrow> world" where
  "deleteFromSessions ks w = w\<lparr>sessionBucket := filter (\<lambda>k. k \<notin> set ks) (sessionBucket w)\<rparr>"

definition deleteBackupObjects :: "snapshot_handle list \<Rightarrow> unit list task" where
  "deleteBackupObjects backups = forEach
     (\<lambda>b. sweepPrefix (\<lambda>w. map fst (backupBucket w)) deleteFromBackups (backupPrefix (sh_id b))) backups"

definition transcriptMirrorPrefix :: "string \<Rightarrow> string" where
  "transcriptMirrorPrefix sessionId = ''transcripts/'' @ sessionId @ ''/''"

definition deleteTranscriptMirror :: "string \<Rightarrow> unit task" where
  "deleteTranscriptMirror sessionId =
     sweepPrefix sessionBucket deleteFromSessions (transcriptMirrorPrefix sessionId)"

section \<open>The ledger of snapshots\<close>

definition BACKUP_HANDLE_STORAGE_PREFIX :: string where
  "BACKUP_HANDLE_STORAGE_PREFIX = ''persistence:backup-handle:''"

definition backupHandleStorageKey :: "string \<Rightarrow> string" where
  "backupHandleStorageKey i = BACKUP_HANDLE_STORAGE_PREFIX @ i"

text \<open>The later entry of an id replaces the earlier one, in its place.\<close>

definition mergeBackupHandles ::
  "snapshot_handle list \<Rightarrow> snapshot_handle option list \<Rightarrow> snapshot_handle list" where
  "mergeBackupHandles handles optional =
     map snd (fold (\<lambda>h. AList.update (sh_id h) h)
       (handles @ List.map_filter (\<lambda>h. h) optional) [])"

text \<open>
  The ledger is read in pages of a thousand, each starting after the last key of the one
  before; the storage lists its keys in order.
\<close>

function ledgerPages ::
  "nat \<Rightarrow> (string \<times> snapshot_handle) list \<Rightarrow> string option \<Rightarrow> (string \<times> snapshot_handle) list" where
  "ledgerPages limit kvs startAfter =
     (let rest = (case startAfter of None \<Rightarrow> kvs | Some s \<Rightarrow> filter (\<lambda>(k, h). s < k) kvs);
          page = take limit rest
      in if page = [] then []
         else if length page < limit then page
         else page @ ledgerPages limit rest (Some (fst (last page))))"
  by pat_completeness auto
termination
proof (relation "measure (\<lambda>(limit, kvs, s).
    length (case s of None \<Rightarrow> kvs | Some s \<Rightarrow> filter (\<lambda>(k, h). s < k) kvs))", goal_cases)
  case (2 limit kvs s rest page)
  let ?s = "fst (last page)"
  have "last page \<in> set rest" using 2 by (metis in_set_takeD last_in_set)
  moreover have "\<not> (case last page of (k, h) \<Rightarrow> ?s < k)" by (simp add: case_prod_beta)
  ultimately have "length (filter (\<lambda>(k, h). ?s < k) rest) < length rest"
    by (rule length_filter_less)
  then show ?case using 2 by simp
qed simp

declare ledgerPages.simps [simp del]

definition listBackupHandleLedger :: "storage \<Rightarrow> (string \<times> snapshot_handle) list" where
  "listBackupHandleLedger s = ledgerPages 1000 (sort_key fst (so_ledger s)) None"

definition getTrackedBackupHandles :: "storage \<Rightarrow> snapshot_handle list" where
  "getTrackedBackupHandles s =
     mergeBackupHandles (nullish (so_legacy s) []) (map (\<lambda>(k, h). Some h) (listBackupHandleLedger s))"

definition putLedger :: "snapshot_handle list \<Rightarrow> storage \<Rightarrow> storage" where
  "putLedger hs s = s\<lparr>so_ledger := fold (\<lambda>h. AList.update (backupHandleStorageKey (sh_id h)) h) hs (so_ledger s)\<rparr>"

definition deleteLedger :: "string list \<Rightarrow> storage \<Rightarrow> storage" where
  "deleteLedger ks s = s\<lparr>so_ledger := filter (\<lambda>(k, h). k \<notin> set ks) (so_ledger s), so_legacy := None\<rparr>"

definition replaceBackupHandleLedger :: "snapshot_handle list \<Rightarrow> unit task" where
  "replaceBackupHandleLedger backups = reading (\<lambda>w.
     let existing = listBackupHandleLedger (storage w);
         desired = map (\<lambda>b. backupHandleStorageKey (sh_id b)) backups;
         staleKeys = filter (\<lambda>k. k \<notin> set desired) (map fst existing)
     in andThen (if backups \<noteq> [] then storageCall (putLedger backups) else return ())
          (\<lambda>_. storageCall (deleteLedger staleKeys)))"

section \<open>Restoring\<close>

definition assertInstanceActive :: "unit task" where
  "assertInstanceActive = reading (\<lambda>w.
     if \<not> instanceActive w \<or> purgeRequested w then raise (Message ''Instance is not active'')
     else return ())"

definition recordPersistenceError :: "persistence_operation \<Rightarrow> error \<Rightarrow> unit task" where
  "recordPersistenceError operation e = reading (\<lambda>w. storageCall
     (\<lambda>s. s\<lparr>so_error := Some \<lparr>pe_at = now w, pe_operation = operation, pe_message = e\<rparr>\<rparr>))"

definition recordWorkspaceLoss :: "unit task" where
  "recordWorkspaceLoss = reading (\<lambda>w.
     case transcriptTarget w of
       None \<Rightarrow> return ()
     | Some t \<Rightarrow>
         (if map_option snd (so_lost (storage w)) = Some t then return ()
          else storageCall (\<lambda>s. s\<lparr>so_lost := Some (now w, t)\<rparr>)))"

definition putBack :: "stored_backup option \<Rightarrow> unit task" where
  "putBack storedBackup =
     (case storedBackup of
        None \<Rightarrow> return ()
      | Some b \<Rightarrow> andThen (onHost (hostRestore (sb_backup b))) (\<lambda>restored.
          reading (\<lambda>w. storageCall (\<lambda>s. s\<lparr>so_restoredAt := Some (now w)\<rparr>))))"

definition materialize :: "stored_backup option \<Rightarrow> unit task" where
  "materialize storedBackup = catching
     (andThen (putBack storedBackup) (\<lambda>_.
      andThen (onHost writeMarker) (\<lambda>_.
      storageCall (so_error_update (\<lambda>_. None)))))
     (\<lambda>e. andThen (recordPersistenceError RestoreOperation e) (\<lambda>_. raise e))"

definition restoreMissing :: "bool \<Rightarrow> unit task" where
  "restoreMissing snapshots = reading (\<lambda>w.
     let storedBackup = (if snapshots then so_backup (storage w) else None)
     in andThen (if storedBackup = None then recordWorkspaceLoss else return ())
          (\<lambda>_. materialize storedBackup))"

definition restoreWorkspace :: "unit task" where
  "restoreWorkspace =
     andThen theHost (\<lambda>snapshots.
     andThen hostEnsure (\<lambda>created.
     andThen (setHostRuntime True) (\<lambda>_.
     andThen (if snapshots then onHost markerExists else return (\<not> created)) (\<lambda>provisioned.
     if provisioned then return () else restoreMissing snapshots))))"

definition ensureWorkspaceRestored :: "unit task" where
  "ensureWorkspaceRestored = andThen assertInstanceActive (\<lambda>_. restoreWorkspace)"

section \<open>Checkpoints\<close>

definition WORKSPACE_ROOT :: string where "WORKSPACE_ROOT = ''/workspace''"

text \<open>The latest handle and its ledger entry in one put; where it fails, the new objects go.\<close>

definition storeBackup :: "stored_backup \<Rightarrow> unit task" where
  "storeBackup sb = catching
     (storageCall (\<lambda>s. putLedger [sb_backup sb] (s\<lparr>so_backup := Some sb\<rparr>)))
     (\<lambda>e. andThen (deleteBackupObjects [sb_backup sb]) (\<lambda>_. raise e))"

text \<open>The stale snapshots; those whose deletion failed stay known.\<close>

definition deleteStale :: "snapshot_handle list \<Rightarrow> string \<Rightarrow> snapshot_handle list list task" where
  "deleteStale knownBackups kept = forEach
     (\<lambda>stale. if sh_id stale = kept then return []
        else catching (andThen (deleteBackupObjects [stale]) (\<lambda>_. return []))
               (\<lambda>e. return [stale]))
     knownBackups"

definition takeCheckpoint ::
  "checkpoint_reason \<Rightarrow> stored_backup option \<Rightarrow> snapshot_handle list \<Rightarrow> stored_backup task" where
  "takeCheckpoint reason previous tracked =
     andThen (onHost writeMarker) (\<lambda>_.
     andThen (onHost hostSync) (\<lambda>_.
     reading (\<lambda>w0.
     andThen (onHost (hostSnapshot WORKSPACE_ROOT
       (backupName (case identity w0 of None \<Rightarrow> [] | Some i \<Rightarrow> id_id i) reason))) (\<lambda>backup.
     reading (\<lambda>w.
       let sb = \<lparr>sb_backup = backup, sb_createdAt = now w, sb_reason = reason\<rparr>;
           knownBackups = mergeBackupHandles tracked [map_option sb_backup previous, Some backup]
       in andThen (storeBackup sb) (\<lambda>_.
          andThen (storageCall (so_error_update (\<lambda>_. None))) (\<lambda>_.
          andThen (deleteStale knownBackups (sh_id backup)) (\<lambda>kept.
          andThen (catching (replaceBackupHandleLedger (backup # concat kept)) (\<lambda>_. return ())) (\<lambda>_.
          return sb)))))))))"

definition doCreateCheckpoint :: "checkpoint_reason \<Rightarrow> stored_backup task" where
  "doCreateCheckpoint reason =
     andThen ensureWorkspaceRestored (\<lambda>_.
     andThen theHost (\<lambda>snapshots.
     reading (\<lambda>w.
       let previous = so_backup (storage w); tracked = getTrackedBackupHandles (storage w)
       in if \<not> snapshots then raise (Message ''This sandbox host does not support snapshots'')
          else catching (takeCheckpoint reason previous tracked)
                 (\<lambda>e. andThen (recordPersistenceError CheckpointOperation e) (\<lambda>_. raise e)))))"

definition createCheckpoint :: "checkpoint_reason \<Rightarrow> stored_backup task" where
  "createCheckpoint reason = andThen assertInstanceActive (\<lambda>_. doCreateCheckpoint reason)"

definition persistWorkspaceBeforeStop :: "checkpoint_reason \<Rightarrow> unit task" where
  "persistWorkspaceBeforeStop reason =
     andThen theHost (\<lambda>snapshots.
       if snapshots then andThen (createCheckpoint reason) (\<lambda>_. return ())
       else andThen theHost (\<lambda>_. onHost hostSync))"

section \<open>Stopping\<close>

text \<open>\<open>host.stop\<close>: whether the container is down; a container that is not running is.\<close>

definition hostStop :: "bool task" where
  "hostStop = call (\<lambda>a w.
     case a of
       Done _ \<Rightarrow> (Inr True, containerGone w)
     | Refused \<Rightarrow> (if running w then (Inr False, w) else (Inr True, w))
     | FailsAfter _ \<Rightarrow> (Inl failed, containerGone w)
     | Gone \<Rightarrow> (Inl NotRunning, containerGone w)
     | _ \<Rightarrow> (Inl failed, w))"

definition terminateContainerBounded :: "bool task" where
  "terminateContainerBounded = catching
     (andThen theHost (\<lambda>_. andThen hostStop (\<lambda>stopped.
        if stopped then andThen (setHostRuntime False) (\<lambda>_. return True) else return False)))
     (\<lambda>e. if e = NotRunning then andThen (setHostRuntime False) (\<lambda>_. return True) else return False)"

section \<open>Purging\<close>

fun pages :: "nat \<Rightarrow> 'a list \<Rightarrow> 'a list list" where
  "pages n xs = (if n = 0 \<or> length xs \<le> n then [xs] else take n xs # pages n (drop n xs))"

declare pages.simps [simp del]

definition ends_with :: "string \<Rightarrow> string \<Rightarrow> bool" where
  "ends_with s p = starts_with (rev s) (rev p)"

definition ownedHandle :: "string \<Rightarrow> json \<Rightarrow> snapshot_handle list" where
  "ownedHandle owner v =
     (case v of
        JObj kvs \<Rightarrow>
          (case (the_str (field kvs ''id''), the_str (field kvs ''dir''), the_str (field kvs ''name'')) of
             (Some i, Some d, Some n) \<Rightarrow>
               if starts_with n (''opencode:'' @ owner @ '':'') then [\<lparr>sh_id = i, sh_dir = d\<rparr>] else []
           | _ \<Rightarrow> [])
      | _ \<Rightarrow> [])"

text \<open>
  One metadata object: gone meanwhile, not JSON, or inspected. \<open>null.id\<close> throws and is
  caught like text that is not JSON.
\<close>

definition inspectMetadata :: "string \<Rightarrow> string \<Rightarrow> snapshot_handle list task" where
  "inspectMetadata owner k = call (\<lambda>a w.
     case a of
       Done _ \<Rightarrow> (Inr (case map_of (backupBucket w) k of
           Some (Metadata (Some v)) \<Rightarrow> ownedHandle owner v | _ \<Rightarrow> []), w)
     | _ \<Rightarrow> (Inl failed, w))"

definition bucketList :: "unit task" where
  "bucketList = call (\<lambda>a w. case a of Done _ \<Rightarrow> (Inr (), w) | _ \<Rightarrow> (Inl failed, w))"

text \<open>
  The walk over the whole prefix by cursor. Nothing else changes the bucket meanwhile, so the
  pages are those of the listing at its start.
\<close>

definition discoverOwnedBackups :: "snapshot_handle list task" where
  "discoverOwnedBackups = reading (\<lambda>w.
     case identity w of
       None \<Rightarrow> return []
     | Some i \<Rightarrow> andThen theHost (\<lambda>snapshots.
         if \<not> snapshots then return []
         else andThen (forEach (\<lambda>page. andThen bucketList (\<lambda>_.
                  forEach (inspectMetadata (id_id i)) (filter (\<lambda>k. ends_with k ''/meta.json'') page)))
                (pages R2_PAGE (keysUnder ''backups/'' (map fst (backupBucket w)))))
              (\<lambda>found. return (concat (concat found)))))"

definition hostRemove :: "bool task" where
  "hostRemove = call (\<lambda>a w.
     case a of
       Done _ \<Rightarrow> (Inr True, w\<lparr>running := False, workspace := None\<rparr>)
     | Refused \<Rightarrow> (Inr False, w)
     | FailsAfter _ \<Rightarrow> (Inl failed, w\<lparr>running := False, workspace := None\<rparr>)
     | Gone \<Rightarrow> (Inl NotRunning, containerGone w)
     | _ \<Rightarrow> (Inl failed, w))"

datatype purge_result = Purged | PurgePending

definition deleteAll :: "unit task" where
  "deleteAll = storageCall (\<lambda>s. emptyStorage)"

text \<open>What is left once the snapshots are gone.\<close>

definition finishPurge :: "bool \<Rightarrow> string \<Rightarrow> purge_result task" where
  "finishPurge keepTranscript owner =
     (if keepTranscript then
        andThen (storageCall (so_backup_update (\<lambda>_. None))) (\<lambda>_.
        andThen (replaceBackupHandleLedger []) (\<lambda>_. return Purged))
      else
        andThen (deleteTranscriptMirror owner) (\<lambda>_.
        andThen deleteAll (\<lambda>_. return Purged)))"

definition afterRemoval :: "bool \<Rightarrow> string \<Rightarrow> snapshot_handle list \<Rightarrow> purge_result task" where
  "afterRemoval keepTranscript owner backups =
     andThen (setHostRuntime False) (\<lambda>_.
     andThen (deleteBackupObjects backups) (\<lambda>_. finishPurge keepTranscript owner))"

text \<open>The purge after its barrier and the two drains, with the identity marked as deleting.\<close>

definition purgeBarrierRaised :: "bool \<Rightarrow> string \<Rightarrow> purge_result task" where
  "purgeBarrierRaised keepTranscript owner = reading (\<lambda>w.
     let latest = map_option sb_backup (so_backup (storage w));
         tracked = getTrackedBackupHandles (storage w)
     in andThen discoverOwnedBackups (\<lambda>owned.
        andThen (onHost (andThen theHost (\<lambda>_. hostRemove))) (\<lambda>removed.
        if \<not> removed then return PurgePending
        else afterRemoval keepTranscript owner
          (mergeBackupHandles tracked (latest # map Some owned)))))"

definition doPurgeInstance :: "bool \<Rightarrow> purge_result task" where
  "doPurgeInstance keepTranscript =
     andThen (modify (\<lambda>w. w\<lparr>purgeRequested := True, instanceActive := False\<rparr>)) (\<lambda>_.
     reading (\<lambda>w.
       case identity w of
         None \<Rightarrow> andThen deleteAll (\<lambda>_. return Purged)
       | Some i \<Rightarrow>
           andThen (storageCall (\<lambda>s. s\<lparr>so_purge := True, so_identity := Some (i\<lparr>id_deleting := True\<rparr>)\<rparr>)) (\<lambda>_.
           andThen (modify (\<lambda>w. w\<lparr>identity := Some (i\<lparr>id_deleting := True\<rparr>)\<rparr>)) (\<lambda>_.
           purgeBarrierRaised keepTranscript (id_id i)))))"

definition purgeInstance :: "purge_result task" where
  "purgeInstance = doPurgeInstance False"

definition cleanInstance :: "purge_result task" where
  "cleanInstance = doPurgeInstance True"

section \<open>The object comes and goes\<close>

text \<open>The constructor: the memory is read from the storage.\<close>

definition reloadSandbox :: "world \<Rightarrow> world" where
  "reloadSandbox w =
     (let s = storage w in
      w\<lparr>identity := so_identity s, purgeRequested := so_purge s,
        instanceActive := (case so_identity s of None \<Rightarrow> False | Some i \<Rightarrow> \<not> id_deleting i \<and> \<not> so_purge s),
        hostRunning := nullish (so_hostRunning s) False,
        transcriptTarget := so_target s\<rparr>)"

end
