(* ===== verification/Sandbox_Ledger.thy ===== *)
theory Sandbox_Ledger
  imports Sandbox_Persistence
begin

text \<open>
  Facts on snapshot handles: prefixes of different ids have no key in common, merging handles
  loses no id, and the ledger read page by page is the whole ledger.
\<close>

section \<open>Prefixes\<close>

lemma prefix_unique:
  assumes "starts_with k (backupPrefix i)" and "starts_with k (backupPrefix j)"
    and "CHR ''/'' \<notin> set i" and "CHR ''/'' \<notin> set j"
  shows "i = j"
proof -
  from assms(1,2) obtain r s where "i @ ''/'' @ r = j @ ''/'' @ s"
    by (auto simp: starts_with_iff backupPrefix_def)
  then have "split_on (CHR ''/'') (i @ CHR ''/'' # r) = split_on (CHR ''/'') (j @ CHR ''/'' # s)" by simp
  with assms(3,4) show ?thesis by (simp add: split_append)
qed

lemma findArchive_filter:
  assumes "\<And>k. k \<in> set ks \<Longrightarrow> \<not> starts_with k p"
  shows "findArchive p (filter (\<lambda>(k, b). k \<notin> set ks) kbs) = findArchive p kbs"
  using assms by (induction p kbs rule: findArchive.induct) (auto split: backup_object.splits)

lemma findArchive_append:
  "findArchive p (xs @ ys) = (case findArchive p xs of None \<Rightarrow> findArchive p ys | Some s \<Rightarrow> Some s)"
  by (induction p xs rule: findArchive.induct) (auto split: backup_object.splits)

lemma findArchive_none: "(\<And>k b. (k, b) \<in> set kbs \<Longrightarrow> \<not> starts_with k p) \<Longrightarrow> findArchive p kbs = None"
  by (induction p kbs rule: findArchive.induct) (auto split: backup_object.splits)

section \<open>Merging and the ledger\<close>

lemma fold_update_set:
  "snd ` set (fold (\<lambda>h. AList.update (f h) h) hs kvs) \<subseteq> set hs \<union> snd ` set kvs"
proof (induction hs arbitrary: kvs)
  case (Cons h hs)
  have "snd ` set (AList.update (f h) h kvs) \<subseteq> insert h (snd ` set kvs)"
    using set_update_subset[of "f h" h kvs] by auto
  with Cons.IH[of "AList.update (f h) h kvs"] show ?case by auto
qed simp

lemma set_somes: "set (List.map_filter (\<lambda>h. h) opt) = {h. Some h \<in> set opt}"
  by (induction opt) (auto simp: List.map_filter_def split: option.splits)

lemma merge_subset:
  "set (mergeBackupHandles hs opt) \<subseteq> set hs \<union> {h. Some h \<in> set opt}"
proof -
  show ?thesis
    using set_somes[of opt] fold_update_set[of sh_id "hs @ List.map_filter (\<lambda>h. h) opt" "[]"]
    by (auto simp: mergeBackupHandles_def)
qed

lemma fold_update_keys:
  "fst ` set (fold (\<lambda>h. AList.update (f h) h) hs kvs) = f ` set hs \<union> fst ` set kvs"
proof (induction hs arbitrary: kvs)
  case (Cons h hs)
  have "set (map fst (AList.update (f h) h kvs)) = insert (f h) (set (map fst kvs))"
    by (simp add: update_keys insert_absorb)
  with Cons.IH show ?case by simp
qed simp

text \<open>Merging loses no id.\<close>

lemma merge_ids:
  "sh_id ` set (mergeBackupHandles hs opt) = sh_id ` (set hs \<union> {h. Some h \<in> set opt})"
proof -
  have key: "(k, h) \<in> set (fold (\<lambda>h. AList.update (sh_id h) h) xs kvs) \<Longrightarrow>
      (\<And>k h. (k, h) \<in> set kvs \<Longrightarrow> k = sh_id h) \<Longrightarrow> k = sh_id h" for k h xs kvs
  proof (induction xs arbitrary: kvs)
    case Nil
    from Nil.prems(1) have "(k, h) \<in> set kvs" by simp
    with Nil.prems(2) show ?case by blast
  next
    case (Cons x xs)
    show ?case
    proof (rule Cons.IH[of "AList.update (sh_id x) x kvs"])
      show "(k, h) \<in> set (fold (\<lambda>h. AList.update (sh_id h) h) xs (AList.update (sh_id x) x kvs))"
        using Cons.prems(1) by simp
      show "k = sh_id h" if "(k, h) \<in> set (AList.update (sh_id x) x kvs)" for k h
        using that set_update_subset[of "sh_id x" x kvs] Cons.prems(2) by auto
    qed
  qed
  let ?m = "fold (\<lambda>h. AList.update (sh_id h) h) (hs @ List.map_filter (\<lambda>h. h) opt) []"
  have all: "k = sh_id h" if "(k, h) \<in> set ?m" for k h
    by (rule key[OF that]) simp
  have "sh_id ` snd ` set ?m = fst ` set ?m"
    unfolding image_image
  proof (rule image_cong)
    fix p assume "p \<in> set ?m"
    then have "fst p = sh_id (snd p)" by (intro all) simp
    then show "sh_id (snd p) = fst p" by (rule sym)
  qed simp
  also have "\<dots> = sh_id ` (set hs \<union> {h. Some h \<in> set opt})"
    by (subst fold_update_keys) (simp add: set_somes)
  finally show ?thesis by (simp add: mergeBackupHandles_def)
qed

text \<open>The pages of the ledger are the whole ledger.\<close>

lemma ledgerPages_all:
  "sorted (map fst kvs) \<Longrightarrow> distinct (map fst kvs) \<Longrightarrow> 0 < limit \<Longrightarrow>
     ledgerPages limit kvs startAfter =
       (case startAfter of None \<Rightarrow> kvs | Some s \<Rightarrow> filter (\<lambda>(k, h). s < k) kvs)"
proof (induction limit kvs startAfter rule: ledgerPages.induct)
  case (1 limit kvs startAfter)
  define rest where "rest = (case startAfter of None \<Rightarrow> kvs | Some s \<Rightarrow> filter (\<lambda>(k, h). s < k) kvs)"
  have r: "sorted (map fst rest)" "distinct (map fst rest)"
    using "1.prems" by (auto simp: rest_def sorted_filter distinct_map_filter split: option.split)
  show ?case
  proof (cases "take limit rest = [] \<or> length (take limit rest) < limit")
    case True
    then have "rest = take limit rest" using "1.prems"(3) by auto
    with True show ?thesis
      by (subst ledgerPages.simps) (auto simp: Let_def rest_def[symmetric])
  next
    case False
    then have ih: "ledgerPages limit rest (Some (fst (last (take limit rest)))) =
        filter (\<lambda>(k, h). fst (last (take limit rest)) < k) rest"
      using "1.IH"[OF rest_def refl] r "1.prems"(3) by auto
    have "filter (\<lambda>(k, h). fst (last (take limit rest)) < k) rest = drop limit rest"
      using take_drop_after[OF r] False by blast
    with False ih show ?thesis
      by (subst ledgerPages.simps) (simp add: Let_def rest_def[symmetric])
  qed
qed

lemma ledger_read:
  "distinct (map fst (so_ledger s)) \<Longrightarrow> listBackupHandleLedger s = sort_key fst (so_ledger s)"
  unfolding listBackupHandleLedger_def
proof -
  assume "distinct (map fst (so_ledger s))"
  then have "distinct (map fst (sort_key fst (so_ledger s)))"
    by (metis distinct_map distinct_sort set_sort)
  then show "ledgerPages 1000 (sort_key fst (so_ledger s)) None = sort_key fst (so_ledger s)"
    by (subst ledgerPages_all) simp_all
qed

end
