(* ===== verification/Sandbox_Persistence_Invariant.thy ===== *)
theory Sandbox_Persistence_Invariant
  imports Sandbox_Ledger
begin

text \<open>
  The invariant of the persistence code: handles that are known are well formed, and the
  archive of the recorded checkpoint is there. Each operation keeps it whichever of its calls
  fail and wherever it is cut off, and says what becomes of the workspace and of the archive.
\<close>

section \<open>Well-formed worlds\<close>

definition safeId :: "string \<Rightarrow> bool" where
  "safeId i = (CHR ''/'' \<notin> set i)"

definition storage_ok :: "storage \<Rightarrow> bool" where
  "storage_ok s \<longleftrightarrow>
     distinct (map fst (so_ledger s)) \<and>
     (\<forall>(k, h) \<in> set (so_ledger s). safeId (sh_id h)) \<and>
     (\<forall>h \<in> set (nullish (so_legacy s) []). safeId (sh_id h)) \<and>
     (\<forall>b. so_backup s = Some b \<longrightarrow> safeId (sh_id (sb_backup b)))"

definition host_ok :: "world \<Rightarrow> bool" where
  "host_ok w \<longleftrightarrow>
     (running w \<longrightarrow> workspace w \<noteq> None) \<and>
     (ephemeral w \<and> \<not> running w \<longrightarrow> workspace w = None) \<and>
     (\<forall>i. identity w = Some i \<longrightarrow> ephemeral w = supportsSnapshots i) \<and>
     (\<forall>i. so_identity (storage w) = Some i \<longrightarrow> ephemeral w = supportsSnapshots i)"

text \<open>The archive of the recorded checkpoint.\<close>

definition savedIn ::
  "stored_backup option \<Rightarrow> (string \<times> backup_object) list \<Rightarrow> workspace option" where
  "savedIn b bucket =
     (case b of None \<Rightarrow> None | Some b \<Rightarrow> findArchive (backupPrefix (sh_id (sb_backup b))) bucket)"

definition saved :: "world \<Rightarrow> workspace option" where
  "saved w = savedIn (so_backup (storage w)) (backupBucket w)"

definition world_ok :: "world \<Rightarrow> bool" where
  "world_ok w \<longleftrightarrow> host_ok w \<and> storage_ok (storage w) \<and>
     (so_backup (storage w) \<noteq> None \<longrightarrow> saved w \<noteq> None)"

text \<open>
  What the calls to the host leave as it is: everything but the container, its workspace, the
  belief about it, and the notes on restores, errors and losses.
\<close>

definition core :: "world \<Rightarrow> world" where
  "core w = w\<lparr>hostRunning := False, running := False, workspace := None,
     storage := (storage w)\<lparr>so_hostRunning := None, so_restoredAt := None, so_error := None, so_lost := None\<rparr>\<rparr>"

definition quiet :: "world \<Rightarrow> world \<Rightarrow> bool" where
  "quiet w w' \<longleftrightarrow> core w' = core w \<and> host_ok w'"

named_theorems sandbox_simps \<open>the calls of the object, unfolded\<close>

lemmas [sandbox_simps] = updateStorage_def containerGone_def failed_def

lemma quiet_refl [simp]: "quiet w w \<longleftrightarrow> host_ok w"
  by (simp add: quiet_def)

lemma quietD:
  assumes "quiet w w'"
  shows "host_ok w'" "identity w' = identity w" "ephemeral w' = ephemeral w"
    "backupBucket w' = backupBucket w" "so_backup (storage w') = so_backup (storage w)"
    "so_ledger (storage w') = so_ledger (storage w)" "so_legacy (storage w') = so_legacy (storage w)"
    "archiveName w' = archiveName w" "restoreThrows w' = restoreThrows w"
    "transcriptTarget w' = transcriptTarget w" "now w' = now w"
    "purgeRequested w' = purgeRequested w" "instanceActive w' = instanceActive w"
    "so_identity (storage w') = so_identity (storage w)" "so_purge (storage w') = so_purge (storage w)"
    "so_target (storage w') = so_target (storage w)" "sessionBucket w' = sessionBucket w"
    "saved w' = saved w"
proof -
  from assms have c: "core w' = core w" and h: "host_ok w'" by (simp_all add: quiet_def)
  show "host_ok w'" by (rule h)
  from arg_cong[OF c, of identity] arg_cong[OF c, of ephemeral] arg_cong[OF c, of backupBucket]
    arg_cong[OF c, of archiveName] arg_cong[OF c, of restoreThrows] arg_cong[OF c, of transcriptTarget]
    arg_cong[OF c, of now] arg_cong[OF c, of purgeRequested] arg_cong[OF c, of instanceActive]
    arg_cong[OF c, of sessionBucket]
  show f: "identity w' = identity w" "ephemeral w' = ephemeral w" "backupBucket w' = backupBucket w"
    "archiveName w' = archiveName w" "restoreThrows w' = restoreThrows w"
    "transcriptTarget w' = transcriptTarget w" "now w' = now w"
    "purgeRequested w' = purgeRequested w" "instanceActive w' = instanceActive w"
    "sessionBucket w' = sessionBucket w"
    by (simp_all add: core_def)
  from arg_cong[OF c, of storage] have s: "storage (core w') = storage (core w)" .
  from arg_cong[OF s, of so_backup] arg_cong[OF s, of so_ledger] arg_cong[OF s, of so_legacy]
    arg_cong[OF s, of so_identity] arg_cong[OF s, of so_purge] arg_cong[OF s, of so_target]
  show g: "so_backup (storage w') = so_backup (storage w)"
    "so_ledger (storage w') = so_ledger (storage w)" "so_legacy (storage w') = so_legacy (storage w)"
    "so_identity (storage w') = so_identity (storage w)" "so_purge (storage w') = so_purge (storage w)"
    "so_target (storage w') = so_target (storage w)"
    by (simp_all add: core_def)
  show "saved w' = saved w" by (simp add: saved_def f g)
qed

lemma quiet_trans: "quiet u v \<Longrightarrow> quiet v w \<Longrightarrow> quiet u w"
  by (simp add: quiet_def)

lemma world_ok_quiet:
  assumes "world_ok w" and "quiet w w'"
  shows "world_ok w'"
  using assms(1) quietD[OF assms(2)] by (simp add: world_ok_def storage_ok_def)

section \<open>Calls to the host\<close>

text \<open>A call keeps still what it cannot touch, however it ends; \<open>Q\<close> is what it achieves.\<close>

definition calm :: "world \<Rightarrow> 'v task \<Rightarrow> ('v \<Rightarrow> world \<Rightarrow> bool) \<Rightarrow> world \<Rightarrow> bool" where
  "calm u m Q w \<longleftrightarrow> wp m (\<lambda>v w'. quiet u w' \<and> Q v w') (\<lambda>_. quiet u) (quiet u) w"

lemma calm_andThen:
  "calm u m (\<lambda>v. calm u (f v) Q) w \<Longrightarrow> calm u (andThen m f) Q w"
  unfolding calm_def by (rule wp_andThen) (auto elim: wp_mono)

lemma calm_mono: "calm u m Q w \<Longrightarrow> (\<And>v w'. quiet u w' \<Longrightarrow> Q v w' \<Longrightarrow> Q' v w') \<Longrightarrow> calm u m Q' w"
  unfolding calm_def by (erule wp_mono) auto

lemma calm_return [simp]: "calm u (return v) Q w \<longleftrightarrow> quiet u w \<and> Q v w"
  by (simp add: calm_def)

lemma calm_raise [simp]: "calm u (raise e) Q w \<longleftrightarrow> quiet u w"
  by (simp add: calm_def)

lemma calm_reading [simp]: "calm u (reading f) Q w \<longleftrightarrow> calm u (f w) Q w"
  by (simp add: calm_def)

lemma calm_catching:
  "calm u m Q w \<Longrightarrow> (\<And>e w'. quiet u w' \<Longrightarrow> calm u (h e) Q w') \<Longrightarrow> calm u (catching m h) Q w"
  unfolding calm_def by (rule wp_catching) (auto elim: wp_mono)

lemma calm_setHostRuntime:
  assumes "quiet u w" and "\<And>w'. quiet u w' \<Longrightarrow> running w' = running w \<Longrightarrow> workspace w' = workspace w \<Longrightarrow>
      so_lost (storage w') = so_lost (storage w) \<Longrightarrow> Q () w'"
  shows "calm u (setHostRuntime r) Q w"
  unfolding calm_def setHostRuntime_def using assms(1)
  by (intro wp_andThen)
    (auto simp: storageCall_def updateStorage_def quiet_def core_def host_ok_def split: answer.splits intro!: assms(2))

lemma calm_onHost:
  assumes "calm u m Q w"
  shows "calm u (onHost m) Q w"
  unfolding onHost_def
proof (rule calm_catching[OF assms])
  fix e w' assume "quiet u w'"
  then show "calm u (reading (\<lambda>w. if e = NotRunning \<and> hostRunning w
      then andThen (setHostRuntime False) (\<lambda>_. raise e) else raise e)) Q w'"
    by (auto intro!: calm_andThen calm_setHostRuntime)
qed

lemma quiet_gone: "quiet u w \<Longrightarrow> quiet u (containerGone w)"
  by (auto simp: quiet_def core_def host_ok_def containerGone_def)

lemma calm_hostCall:
  assumes q: "quiet u w"
    and f: "\<And>s. running w \<Longrightarrow> quiet u (snd (f s w)) \<and> Q (fst (f s w)) (snd (f s w))"
  shows "calm u (hostCall f) Q w"
  unfolding calm_def hostCall_def
  using q f quiet_gone[OF q] by (auto split: answer.splits prod.splits) (metis snd_conv fst_conv)+

lemma calm_theHost:
  assumes "quiet u w" and "\<And>i. identity u = Some i \<Longrightarrow> Q (ephemeral u) w"
  shows "calm u theHost Q w"
  using assms quietD[OF assms(1)]
  by (auto simp: calm_def theHost_def host_ok_def split: option.splits answer.splits)

section \<open>What a wake finds\<close>

text \<open>Whether the workspace at hand is the one the session works in.\<close>

definition provisioned :: "world \<Rightarrow> bool" where
  "provisioned w =
     (case workspace w of None \<Rightarrow> False | Some s \<Rightarrow> if ephemeral w then ws_marker s else True)"

definition marked :: "workspace \<Rightarrow> workspace" where
  "marked s = s\<lparr>ws_marker := True\<rparr>"

text \<open>
  The workspace after a wake: the one at hand where the session worked in it, otherwise the
  recorded checkpoint, otherwise what a new container has.
\<close>

definition resumed :: "world \<Rightarrow> workspace" where
  "resumed w =
     (let found = nullish (workspace w) freshWorkspace in
      if provisioned w then found
      else marked (if ephemeral w then nullish (saved w) found else found))"

text \<open>The loss that is recorded: of a session there was, with nothing to put back.\<close>

definition lossAfter :: "world \<Rightarrow> (millis \<times> string) option" where
  "lossAfter w =
     (if provisioned w \<or> ephemeral w \<and> so_backup (storage w) \<noteq> None then so_lost (storage w)
      else case transcriptTarget w of
        None \<Rightarrow> so_lost (storage w)
      | Some t \<Rightarrow>
          if map_option snd (so_lost (storage w)) = Some t then so_lost (storage w) else Some (now w, t))"

definition awake :: "world \<Rightarrow> world \<Rightarrow> bool" where
  "awake w w' \<longleftrightarrow> running w' \<and> (restoreThrows w \<longrightarrow> workspace w' = Some (resumed w)) \<and> so_lost (storage w') = lossAfter w"

lemma calm_storageCall:
  assumes "quiet u w" and "\<And>a. quiet u (updateStorage g w)" and "Q () (updateStorage g w)"
  shows "calm u (storageCall g) Q w"
  using assms by (auto simp: calm_def storageCall_def split: answer.splits)

lemma quiet_storage [simp]:
  "quiet u (updateStorage (so_error_update f) w) = quiet u w"
  "quiet u (updateStorage (\<lambda>s. s\<lparr>so_error := e\<rparr>) w) = quiet u w"
  "quiet u (updateStorage (\<lambda>s. s\<lparr>so_restoredAt := t\<rparr>) w) = quiet u w"
  "quiet u (updateStorage (\<lambda>s. s\<lparr>so_lost := l\<rparr>) w) = quiet u w"
  by (auto simp: quiet_def core_def host_ok_def updateStorage_def)

lemma updateStorage_fields [simp]:
  "running (updateStorage g w) = running w" "workspace (updateStorage g w) = workspace w"
  "storage (updateStorage g w) = g (storage w)" "backupBucket (updateStorage g w) = backupBucket w"
  by (simp_all add: updateStorage_def)

lemma calm_recordError: "quiet u w \<Longrightarrow> (\<And>w'. quiet u w' \<Longrightarrow> Q () w') \<Longrightarrow> calm u (recordPersistenceError p e) Q w"
  by (auto simp: recordPersistenceError_def intro!: calm_storageCall)

lemma calm_writeMarker:
  assumes "quiet u w" and "\<And>w' s. quiet u w' \<Longrightarrow> running w' \<Longrightarrow> workspace w = Some s \<Longrightarrow>
      workspace w' = Some (marked s) \<Longrightarrow> so_lost (storage w') = so_lost (storage w) \<Longrightarrow> Q () w'"
  shows "calm u (onHost writeMarker) Q w"
  unfolding writeMarker_def
proof (rule calm_onHost, rule calm_hostCall[OF assms(1)])
  fix s assume r: "running w"
  with assms(1) obtain x where x: "workspace w = Some x" by (auto simp: quiet_def host_ok_def)
  let ?w = "w\<lparr>workspace := map_option (ws_marker_update (\<lambda>_. True)) (workspace w)\<rparr>"
  have "quiet u ?w" using assms(1) r by (auto simp: quiet_def core_def host_ok_def)
  moreover from this have "Q () ?w" by (rule assms(2)) (simp_all add: r x marked_def)
  ultimately show "quiet u (snd ((), ?w)) \<and> Q (fst ((), ?w)) (snd ((), ?w))" by simp
qed

lemma calm_hostRestore:
  assumes "quiet u w"
    and "\<And>w' v. quiet u w' \<Longrightarrow> running w' = running w \<Longrightarrow>
      restoreThrows u \<Longrightarrow> running w \<and> workspace w' = archived w (sh_id h) \<Longrightarrow>
      so_lost (storage w') = so_lost (storage w) \<Longrightarrow> Q v w'"
    and "\<And>w' v. quiet u w' \<Longrightarrow> running w' = running w \<Longrightarrow> \<not> restoreThrows u \<Longrightarrow>
      so_lost (storage w') = so_lost (storage w) \<Longrightarrow> Q v w'"
  shows "calm u (onHost (hostRestore h)) Q w"
proof (rule calm_onHost)
  have q: "quiet u (w\<lparr>workspace := Some s\<rparr>)" if "running w" for s
    using assms(1) that by (auto simp: quiet_def core_def host_ok_def)
  have Q: "Q True (w\<lparr>workspace := Some s\<rparr>)" if "running w" "archived w (sh_id h) = Some s" for s
    by (cases "restoreThrows u"; rule assms(2) assms(3)) (use that q in auto)
  have Q': "Q False w" if "\<not> restoreThrows u"
    by (rule assms(3)) (use that assms(1) in auto)
  show "calm u (hostRestore h) Q w"
    using assms(1) q Q Q' quietD(9)[OF assms(1)] quiet_gone[OF assms(1)]
    by (auto simp: calm_def hostRestore_def failed_def split: answer.splits option.splits)
qed

lemma calm_putBack:
  assumes "quiet u w" and r: "running w"
    and "\<And>w'. quiet u w' \<Longrightarrow> running w' \<Longrightarrow>
      (restoreThrows u \<longrightarrow> workspace w' = (if sb = None then workspace w else archived w (sh_id (sb_backup (the sb))))) \<Longrightarrow>
      so_lost (storage w') = so_lost (storage w) \<Longrightarrow> Q () w'"
  shows "calm u (putBack sb) Q w"
proof (cases sb)
  case (Some b)
  show ?thesis
    unfolding putBack_def Some option.case
    by (rule calm_andThen, rule calm_hostRestore[OF assms(1)])
      (auto intro!: calm_storageCall assms(3) simp: Some r)
qed (use assms in \<open>auto simp: putBack_def\<close>)

lemma calm_recordLoss:
  assumes "quiet u w" and "\<And>w'. quiet u w' \<Longrightarrow> running w' = running w \<Longrightarrow> workspace w' = workspace w \<Longrightarrow>
      so_lost (storage w') = (case transcriptTarget u of None \<Rightarrow> so_lost (storage w)
        | Some t \<Rightarrow> if map_option snd (so_lost (storage w)) = Some t then so_lost (storage w)
            else Some (now u, t)) \<Longrightarrow> Q () w'"
  shows "calm u recordWorkspaceLoss Q w"
  using assms(1) quietD(10,11)[OF assms(1)]
  by (auto simp: recordWorkspaceLoss_def split: option.splits intro!: calm_storageCall assms(2))

lemma calm_hostEnsure:
  assumes "quiet u w" and "\<And>w'. quiet u w' \<Longrightarrow> running w' \<Longrightarrow>
      workspace w' = Some (nullish (workspace w) freshWorkspace) \<Longrightarrow>
      so_lost (storage w') = so_lost (storage w) \<Longrightarrow> Q (workspace w = None) w'"
  shows "calm u hostEnsure Q w"
proof -
  have q: "quiet u (snd (ensured w))"
    using assms(1) by (auto simp: ensured_def quiet_def core_def host_ok_def split: option.splits)
  have "fst (ensured w) = (workspace w = None)" by (auto simp: ensured_def split: option.splits)
  moreover have "Q (workspace w = None) (snd (ensured w))"
    by (rule assms(2)[OF q]) (auto simp: ensured_def split: option.splits)
  ultimately have "Q (fst (ensured w)) (snd (ensured w))" by simp
  with q assms(1) quiet_gone[OF assms(1)] show ?thesis
    by (auto simp: calm_def hostEnsure_def split: answer.splits prod.splits)
qed

lemma savedIn_archived:
  "quiet w v \<Longrightarrow> so_backup (storage w) = Some b \<Longrightarrow> archived v (sh_id (sb_backup b)) = saved w"
  by (simp add: saved_def savedIn_def archived_def quietD(4))

lemma calm_materialize:
  assumes v: "quiet w v" "running v" "workspace v = Some (nullish (workspace w) freshWorkspace)"
      "so_lost (storage v) = lossAfter w" and p: "\<not> provisioned w"
    and sb: "sb = (if ephemeral w then so_backup (storage w) else None)"
  shows "calm w (materialize sb) (\<lambda>_. awake w) v"
  unfolding materialize_def
proof (rule calm_catching)
  have "calm w (onHost writeMarker) (\<lambda>_. calm w (storageCall (so_error_update (\<lambda>_. None))) (\<lambda>_. awake w)) x"
    if x: "quiet w x" "running x" "so_lost (storage x) = lossAfter w"
      "restoreThrows w \<longrightarrow> workspace x = (if sb = None then workspace v else archived v (sh_id (sb_backup (the sb))))"
    for x
  proof (rule calm_writeMarker[OF x(1)])
    fix y s assume y: "quiet w y" "running y" "workspace x = Some s" "workspace y = Some (marked s)"
      "so_lost (storage y) = so_lost (storage x)"
    have "marked s = resumed w" if r: "restoreThrows w"
    proof (cases sb)
      case None
      then have "saved w = None \<or> \<not> ephemeral w"
        using sb by (auto simp: saved_def savedIn_def)
      then show ?thesis using None x(4) y(3) r p v(3) by (auto simp: resumed_def Let_def)
    next
      case (Some b)
      then have "ephemeral w" "so_backup (storage w) = Some b" using sb by (auto split: if_splits)
      with Some x(4) y(3) r p savedIn_archived[OF v(1)] show ?thesis
        by (cases "saved w") (auto simp: resumed_def Let_def)
    qed
    with y x(3) show "calm w (storageCall (so_error_update (\<lambda>_. None))) (\<lambda>_. awake w) y"
      by (intro calm_storageCall) (auto simp: awake_def)
  qed
  then show "calm w (andThen (putBack sb) (\<lambda>_. andThen (onHost writeMarker)
      (\<lambda>_. storageCall (so_error_update (\<lambda>_. None))))) (\<lambda>_. awake w) v"
    using v by (intro calm_andThen calm_putBack) auto
  show "calm w (andThen (recordPersistenceError RestoreOperation e) (\<lambda>_. raise e)) (\<lambda>_. awake w) y"
    if "quiet w y" for e y
    using that by (intro calm_andThen calm_recordError) auto
qed

lemma calm_restoreMissing:
  assumes v: "quiet w v" "running v" "workspace v = Some (nullish (workspace w) freshWorkspace)"
      "so_lost (storage v) = so_lost (storage w)" and p: "\<not> provisioned w"
  shows "calm w (restoreMissing (ephemeral w)) (\<lambda>_. awake w) v"
proof -
  let ?sb = "if ephemeral w then so_backup (storage w) else None"
  have m: "calm w (materialize ?sb) (\<lambda>_. awake w) x"
    if "quiet w x" "running x" "workspace x = workspace v" "so_lost (storage x) = lossAfter w" for x
    using calm_materialize[of w x ?sb] that v(3) p by simp
  show ?thesis
    unfolding restoreMissing_def
    using v p m quietD(5)[OF v(1)]
    by (auto simp: Let_def lossAfter_def split: option.splits
        intro!: calm_andThen calm_recordLoss)
qed

lemma calm_markerExists:
  assumes "quiet u w" and "running w \<Longrightarrow> Q (case workspace w of None \<Rightarrow> False | Some s \<Rightarrow> ws_marker s) w"
  shows "calm u (onHost markerExists) Q w"
  unfolding markerExists_def by (rule calm_onHost, rule calm_hostCall) (use assms in auto)

lemma calm_restoreWorkspace:
  assumes h: "host_ok w"
  shows "calm w restoreWorkspace (\<lambda>_. awake w) w"
proof -
  have last: "calm w (if provisioned w then return () else restoreMissing (ephemeral w)) (\<lambda>_. awake w) v"
    if v: "quiet w v" "running v" "workspace v = Some (nullish (workspace w) freshWorkspace)"
      "so_lost (storage v) = so_lost (storage w)" for v
    using calm_restoreMissing[OF v] v
    by (auto simp: awake_def resumed_def lossAfter_def)
  show ?thesis
    unfolding restoreWorkspace_def
  proof (rule calm_andThen, rule calm_theHost, simp add: h, rule calm_andThen, rule calm_hostEnsure, simp add: h,
      rule calm_andThen, rule calm_setHostRuntime, assumption)
    fix x y assume x: "quiet w x" "running x" "workspace x = Some (nullish (workspace w) freshWorkspace)"
      "so_lost (storage x) = so_lost (storage w)"
      and y: "quiet w y" "running y = running x" "workspace y = workspace x"
      "so_lost (storage y) = so_lost (storage x)"
    have e: "(if ephemeral w then ws_marker (nullish (workspace w) freshWorkspace) else workspace w \<noteq> None) = provisioned w"
      by (auto simp: provisioned_def freshWorkspace_def split: option.splits)
    show "calm w (andThen (if ephemeral w then onHost markerExists else return (\<not> (workspace w = None)))
        (\<lambda>provisioned. if provisioned then return () else restoreMissing (ephemeral w))) (\<lambda>_. awake w) y"
    proof (rule calm_andThen, cases "ephemeral w")
      case True
      have "calm w (onHost markerExists) (\<lambda>v. calm w (if v then return () else restoreMissing (ephemeral w)) (\<lambda>_. awake w)) y"
        by (rule calm_markerExists[OF y(1)]) (use last[OF y(1)] x y e True in simp)
      with True show "calm w (if ephemeral w then onHost markerExists else return (\<not> (workspace w = None)))
          (\<lambda>v. calm w (if v then return () else restoreMissing (ephemeral w)) (\<lambda>_. awake w)) y" by simp
    next
      case False
      with last[OF y(1)] x y e show "calm w (if ephemeral w then onHost markerExists else return (\<not> (workspace w = None)))
          (\<lambda>v. calm w (if v then return () else restoreMissing (ephemeral w)) (\<lambda>_. awake w)) y" by simp
    qed
  qed
qed

end
