(* ===== verification/Sandbox_Checkpoint.thy ===== *)
theory Sandbox_Checkpoint
  imports Sandbox_Persistence_Invariant
begin

text \<open>
  Checkpoints: the recorded checkpoint changes in one storage operation, from an intact archive
  to another, and only then are the stale ones deleted.
\<close>

section \<open>What a checkpoint may touch\<close>

definition outer :: "world \<Rightarrow> world" where
  "outer w = w\<lparr>hostRunning := False, running := False, workspace := None, backupBucket := [],
     storage := (storage w)\<lparr>so_hostRunning := None, so_restoredAt := None, so_error := None, so_lost := None,
       so_backup := None, so_legacy := None, so_ledger := []\<rparr>\<rparr>"

definition steady :: "world \<Rightarrow> world \<Rightarrow> bool" where
  "steady u w \<longleftrightarrow> outer w = outer u \<and> host_ok w \<and> storage_ok (storage w)"

text \<open>The given checkpoint is recorded, with the given archive, and the workspace is the given one.\<close>

definition stands ::
  "world \<Rightarrow> stored_backup option \<Rightarrow> workspace option \<Rightarrow> workspace option \<Rightarrow> world \<Rightarrow> bool" where
  "stands u b s x w \<longleftrightarrow>
     steady u w \<and> so_backup (storage w) = b \<and> saved w = s \<and> workspace w = x"

lemma steadyD:
  assumes "steady u w"
  shows "host_ok w" "storage_ok (storage w)" "identity w = identity u" "ephemeral w = ephemeral u"
    "archiveName w = archiveName u" "restoreThrows w = restoreThrows u"
    "transcriptTarget w = transcriptTarget u" "now w = now u"
    "purgeRequested w = purgeRequested u" "instanceActive w = instanceActive u"
    "sessionBucket w = sessionBucket u"
    "so_identity (storage w) = so_identity (storage u)" "so_purge (storage w) = so_purge (storage u)"
    "so_target (storage w) = so_target (storage u)"
proof -
  from assms have c: "outer w = outer u" and h: "host_ok w" "storage_ok (storage w)"
    by (simp_all add: steady_def)
  show "host_ok w" "storage_ok (storage w)" by (rule h)+
  from arg_cong[OF c, of identity] arg_cong[OF c, of ephemeral]
    arg_cong[OF c, of archiveName] arg_cong[OF c, of restoreThrows] arg_cong[OF c, of transcriptTarget]
    arg_cong[OF c, of now] arg_cong[OF c, of purgeRequested] arg_cong[OF c, of instanceActive]
    arg_cong[OF c, of sessionBucket]
  show "identity w = identity u" "ephemeral w = ephemeral u"
    "archiveName w = archiveName u" "restoreThrows w = restoreThrows u"
    "transcriptTarget w = transcriptTarget u" "now w = now u"
    "purgeRequested w = purgeRequested u" "instanceActive w = instanceActive u"
    "sessionBucket w = sessionBucket u"
    by (simp_all add: outer_def)
  from arg_cong[OF c, of storage] have s: "storage (outer w) = storage (outer u)" .
  from arg_cong[OF s, of so_identity] arg_cong[OF s, of so_purge] arg_cong[OF s, of so_target]
  show "so_identity (storage w) = so_identity (storage u)" "so_purge (storage w) = so_purge (storage u)"
    "so_target (storage w) = so_target (storage u)"
    by (simp_all add: outer_def)
qed

lemma steady_refl [simp]: "steady w w \<longleftrightarrow> host_ok w \<and> storage_ok (storage w)"
  by (simp add: steady_def)

lemma steady_trans: "steady u v \<Longrightarrow> steady v w \<Longrightarrow> steady u w"
  by (simp add: steady_def)

lemma outer_quiet: "core w = core u \<Longrightarrow> outer w = outer u"
proof -
  assume a: "core w = core u"
  have e: "outer w = outer (core w)" for w by (simp add: outer_def core_def)
  have "outer w = outer (core w)" by (rule e)
  also have "\<dots> = outer (core u)" by (simp only: a)
  also have "\<dots> = outer u" by (rule e [symmetric])
  finally show ?thesis .
qed

lemma steady_quiet:
  assumes "quiet u w" and "storage_ok (storage u)"
  shows "steady u w"
proof -
  from assms(1) have "core w = core u" "host_ok w" by (simp_all add: quiet_def)
  with outer_quiet[of w u] quietD(5,6,7)[OF assms(1)] assms(2) show ?thesis
    by (simp add: steady_def storage_ok_def)
qed

lemma stands_quiet:
  assumes "stands u b s x v" and "quiet v w"
  shows "stands u b s (workspace w) w"
  using assms steady_quiet[OF assms(2)] quietD[OF assms(2)] steady_trans
  by (auto simp: stands_def steady_def)

section \<open>Deleting objects\<close>

lemma starts_with_keysUnder: "k \<in> set (take n (keysUnder p ks)) \<Longrightarrow> starts_with k p"
  by (auto simp: keysUnder_def dest: in_set_takeD)

lemma wp_sweepPrefix:
  assumes I: "I w" and del: "\<And>ks w. I w \<Longrightarrow> (\<And>k. k \<in> set ks \<Longrightarrow> starts_with k p) \<Longrightarrow> I (del ks w)"
  shows "wp (sweepPrefix keys del p) (\<lambda>_ w. I w \<and> keysUnder p (keys w) = []) (\<lambda>_. I) I w"
proof -
  have "case sweepPrefix keys del p w as of
      (Returned v, w', _) \<Rightarrow> I w' \<and> keysUnder p (keys w') = []
    | (Raised e, w', _) \<Rightarrow> I w' | (CutOff, w', _) \<Rightarrow> I w'" for as
    using I
  proof (induction as arbitrary: w rule: length_induct)
    case (1 as)
    let ?page = "take R2_PAGE (keysUnder p (keys w))"
    have d: "I (del ?page w)"
      by (rule del[OF "1.prems"[rule_format]]) (rule starts_with_keysUnder)
    have d2: "I (del (take n ?page) w)" for n
      by (rule del[OF "1.prems"[rule_format]]) (rule starts_with_keysUnder, erule in_set_takeD)
    have e: "?page = [] \<Longrightarrow> keysUnder p (keys w) = []" by (simp add: R2_PAGE_def)
    show ?case
    proof (cases as)
      case (Cons a bs)
      show ?thesis
      proof (cases bs)
        case (Cons b cs)
        then have "case sweepPrefix keys del p (del ?page w) cs of
            (Returned v, w', _) \<Rightarrow> I w' \<and> keysUnder p (keys w') = []
          | (Raised e, w', _) \<Rightarrow> I w' | (CutOff, w', _) \<Rightarrow> I w'"
          using "1.IH" d \<open>as = a # bs\<close> by simp
        then show ?thesis
          using "1.prems" d d2 e \<open>as = a # bs\<close> Cons by (auto simp: Let_def split: answer.splits)
      qed (use "1.prems" e Cons in \<open>auto simp: Let_def split: answer.splits\<close>)
    qed (use "1.prems" in simp)
  qed
  then show ?thesis by (simp add: wp_def)
qed

text \<open>Deleting the snapshot of another id leaves the recorded one alone.\<close>

definition otherThan :: "stored_backup option \<Rightarrow> string \<Rightarrow> bool" where
  "otherThan b i \<longleftrightarrow> safeId i \<and> (\<forall>sb. b = Some sb \<longrightarrow> sh_id (sb_backup sb) \<noteq> i)"

lemma stands_delete:
  assumes "stands u b s x w" and "otherThan b i" and "\<And>k. k \<in> set ks \<Longrightarrow> starts_with k (backupPrefix i)"
  shows "stands u b s x (deleteFromBackups ks w)"
proof -
  from assms(1) have w: "steady u w" "so_backup (storage w) = b" "saved w = s" "workspace w = x"
    by (simp_all add: stands_def)
  have "savedIn b (filter (\<lambda>(k, y). k \<notin> set ks) (backupBucket w)) = savedIn b (backupBucket w)"
  proof (cases b)
    case (Some sb)
    have "safeId (sh_id (sb_backup sb))"
      using steadyD(2)[OF w(1)] w(2) Some by (auto simp: storage_ok_def)
    then have "\<not> starts_with k (backupPrefix (sh_id (sb_backup sb)))" if "k \<in> set ks" for k
      using prefix_unique[OF assms(3)[OF that]] assms(2) Some by (auto simp: otherThan_def safeId_def)
    then show ?thesis by (simp add: savedIn_def Some findArchive_filter)
  qed (simp add: savedIn_def)
  with w show ?thesis
    by (auto simp: stands_def deleteFromBackups_def steady_def outer_def host_ok_def saved_def)
qed

text \<open>A call that keeps the recorded checkpoint, however it ends.\<close>

definition keeps ::
  "world \<Rightarrow> stored_backup option \<Rightarrow> workspace option \<Rightarrow> workspace option \<Rightarrow> 'v task
     \<Rightarrow> ('v \<Rightarrow> world \<Rightarrow> bool) \<Rightarrow> world \<Rightarrow> bool" where
  "keeps u b s x m Q w \<longleftrightarrow>
     wp m (\<lambda>v w'. stands u b s x w' \<and> Q v w') (\<lambda>_. stands u b s x) (stands u b s x) w"

lemma keeps_andThen:
  "keeps u b s x m (\<lambda>v. keeps u b s x (f v) Q) w \<Longrightarrow> keeps u b s x (andThen m f) Q w"
  unfolding keeps_def by (rule wp_andThen) (auto elim: wp_mono)

lemma keeps_mono:
  "keeps u b s x m Q w \<Longrightarrow> (\<And>v w'. stands u b s x w' \<Longrightarrow> Q v w' \<Longrightarrow> Q' v w') \<Longrightarrow> keeps u b s x m Q' w"
  unfolding keeps_def by (erule wp_mono) auto

lemma keeps_return [simp]: "keeps u b s x (return v) Q w \<longleftrightarrow> stands u b s x w \<and> Q v w"
  by (simp add: keeps_def)

lemma keeps_raise [simp]: "keeps u b s x (raise e) Q w \<longleftrightarrow> stands u b s x w"
  by (simp add: keeps_def)

lemma keeps_reading [simp]: "keeps u b s x (reading f) Q w \<longleftrightarrow> keeps u b s x (f w) Q w"
  by (simp add: keeps_def)

lemma keeps_catching:
  "keeps u b s x m Q w \<Longrightarrow> (\<And>e w'. stands u b s x w' \<Longrightarrow> keeps u b s x (h e) Q w') \<Longrightarrow>
     keeps u b s x (catching m h) Q w"
  unfolding keeps_def by (rule wp_catching) (auto elim: wp_mono)

lemma keeps_deleteOne:
  assumes "stands u b s x w" and "otherThan b (sh_id h)"
  shows "keeps u b s x (deleteBackupObjects [h])
    (\<lambda>_ w'. keysUnder (backupPrefix (sh_id h)) (map fst (backupBucket w')) = []) w"
proof -
  have "wp (sweepPrefix (\<lambda>w. map fst (backupBucket w)) deleteFromBackups (backupPrefix (sh_id h)))
      (\<lambda>_ w. stands u b s x w \<and> keysUnder (backupPrefix (sh_id h)) (map fst (backupBucket w)) = [])
      (\<lambda>_. stands u b s x) (stands u b s x) w"
    by (rule wp_sweepPrefix[where I = "stands u b s x"], rule assms(1)) (rule stands_delete[OF _ assms(2)])
  then show ?thesis
    unfolding keeps_def deleteBackupObjects_def forEach.simps
    by (intro wp_andThen, elim wp_mono) (auto intro!: wp_andThen)
qed

lemma keeps_storageCall:
  assumes "stands u b s x w" and "stands u b s x (updateStorage g w)" and "Q () (updateStorage g w)"
  shows "keeps u b s x (storageCall g) Q w"
  using assms by (auto simp: keeps_def storageCall_def split: answer.splits)

lemma stands_updateStorage:
  assumes "stands u b s x w" and "storage_ok (g (storage w))" and "so_backup (g (storage w)) = so_backup (storage w)"
    and "outer (updateStorage g w) = outer w" and "so_identity (g (storage w)) = so_identity (storage w)"
  shows "stands u b s x (updateStorage g w)"
  using assms by (auto simp: stands_def steady_def host_ok_def saved_def updateStorage_def)

lemma stands_clearError [simp]:
  "stands u b s x (updateStorage (so_error_update f) w) = stands u b s x w"
  "stands u b s x (updateStorage (\<lambda>t. t\<lparr>so_error := e\<rparr>) w) = stands u b s x w"
  by (auto simp: stands_def steady_def host_ok_def saved_def updateStorage_def outer_def storage_ok_def)

lemma putLedger_fields [simp]:
  "so_backup (putLedger hs s) = so_backup s" "so_identity (putLedger hs s) = so_identity s"
  "so_legacy (putLedger hs s) = so_legacy s"
  "so_backup (deleteLedger ks s) = so_backup s" "so_identity (deleteLedger ks s) = so_identity s"
  by (simp_all add: putLedger_def deleteLedger_def)

lemma fold_update_distinct:
  "distinct (map fst kvs) \<Longrightarrow> distinct (map fst (fold (\<lambda>h. AList.update (f h) h) hs kvs))"
  by (induction hs arbitrary: kvs) (auto simp: distinct_update)

lemma putLedger_ok:
  assumes "storage_ok s" and "\<And>h. h \<in> set hs \<Longrightarrow> safeId (sh_id h)"
  shows "storage_ok (putLedger hs s)"
proof -
  have "safeId (sh_id h)"
    if "(k, h) \<in> set (fold (\<lambda>h. AList.update (backupHandleStorageKey (sh_id h)) h) hs (so_ledger s))" for k h
  proof -
    have "h \<in> set hs \<union> snd ` set (so_ledger s)"
      using that fold_update_set[of "\<lambda>h. backupHandleStorageKey (sh_id h)" hs "so_ledger s"] by force
    then show ?thesis using assms by (auto simp: storage_ok_def)
  qed
  with assms(1) show ?thesis
    by (auto simp: storage_ok_def putLedger_def fold_update_distinct)
qed

lemma deleteLedger_ok: "storage_ok s \<Longrightarrow> storage_ok (deleteLedger ks s)"
  by (auto simp: storage_ok_def deleteLedger_def distinct_map_filter)

lemma stands_ledger:
  assumes "stands u b s x w"
  shows "(\<And>h. h \<in> set hs \<Longrightarrow> safeId (sh_id h)) \<Longrightarrow> stands u b s x (updateStorage (putLedger hs) w)"
    and "stands u b s x (updateStorage (deleteLedger ks) w)"
proof -
  from assms have ok: "storage_ok (storage w)" by (auto simp: stands_def dest: steadyD(2))
  show "stands u b s x (updateStorage (putLedger hs) w)" if "\<And>h. h \<in> set hs \<Longrightarrow> safeId (sh_id h)"
    by (rule stands_updateStorage[OF assms])
      (use that ok in \<open>simp_all add: putLedger_ok, simp add: outer_def updateStorage_def putLedger_def\<close>)
  show "stands u b s x (updateStorage (deleteLedger ks) w)"
    by (rule stands_updateStorage[OF assms])
      (use ok in \<open>simp_all add: deleteLedger_ok, simp add: outer_def updateStorage_def deleteLedger_def\<close>)
qed

lemma keeps_replaceLedger:
  assumes "stands u b s x w" and "\<And>h. h \<in> set hs \<Longrightarrow> safeId (sh_id h)"
    and "\<And>w'. stands u b s x w' \<Longrightarrow> Q () w'"
  shows "keeps u b s x (replaceBackupHandleLedger hs) Q w"
  unfolding replaceBackupHandleLedger_def keeps_reading Let_def
proof (rule keeps_andThen)
  have d: "keeps u b s x (storageCall (deleteLedger ks)) Q w'" if "stands u b s x w'" for ks w'
    by (rule keeps_storageCall[OF that stands_ledger(2)[OF that]]) (rule assms(3)[OF stands_ledger(2)[OF that]])
  let ?ks = "filter (\<lambda>k. k \<notin> set (map (\<lambda>b. backupHandleStorageKey (sh_id b)) hs))
      (map fst (listBackupHandleLedger (storage w)))"
  show "keeps u b s x (if hs \<noteq> [] then storageCall (putLedger hs) else return ())
      (\<lambda>_. keeps u b s x (storageCall (deleteLedger ?ks)) Q) w"
  proof (cases "hs = []")
    case False
    have "stands u b s x (updateStorage (putLedger hs) w)" by (rule stands_ledger(1)[OF assms(1,2)])
    then have "keeps u b s x (storageCall (putLedger hs)) (\<lambda>_. keeps u b s x (storageCall (deleteLedger ?ks)) Q) w"
      by (intro keeps_storageCall assms(1) d)
    with False show ?thesis by simp
  qed (use assms(1) d in simp)
qed

section \<open>Taking a checkpoint\<close>

text \<open>Cut off or failed: the old checkpoint is recorded, or the new one is.\<close>

definition oldOrNew ::
  "world \<Rightarrow> stored_backup option \<Rightarrow> workspace option \<Rightarrow> workspace \<Rightarrow> world \<Rightarrow> bool" where
  "oldOrNew u b s y w \<longleftrightarrow>
     (\<exists>x. stands u b s x w) \<or> (\<exists>sb x. stands u (Some sb) (Some (marked y)) x w)"

lemma oldOrNew_quiet: "oldOrNew u b s y v \<Longrightarrow> quiet v w \<Longrightarrow> oldOrNew u b s y w"
  unfolding oldOrNew_def using stands_quiet by blast

lemma wp_onHost:
  assumes "wp m Q (\<lambda>_. E) C w" and "\<And>v w. E v \<Longrightarrow> quiet v w \<Longrightarrow> E w" and "\<And>w. E w \<Longrightarrow> C w \<and> host_ok w"
  shows "wp (onHost m) Q (\<lambda>_. E) C w"
  unfolding onHost_def
proof (rule wp_catching, rule wp_mono[OF assms(1)])
  fix e w' assume e: "E w'"
  then have "calm w' (setHostRuntime False) (\<lambda>_ _. True) w'"
    using assms(3) by (intro calm_setHostRuntime) auto
  then have "wp (setHostRuntime False) (\<lambda>_. E) (\<lambda>_. E) C w'"
    unfolding calm_def by (rule wp_mono) (use e assms(2,3) in blast)+
  then have "wp (andThen (setHostRuntime False) (\<lambda>_. raise d)) Q (\<lambda>_. E) C w'" for d
    by (intro wp_andThen) (auto elim: wp_mono)
  then show "wp (reading (\<lambda>w. if e = NotRunning \<and> hostRunning w
      then andThen (setHostRuntime False) (\<lambda>_. raise e) else raise e)) Q (\<lambda>_. E) C w'"
    using e by simp
qed

lemma stands_addSnapshot:
  assumes w: "stands u b s (Some y) w" and f: "freshBackupId w i" and "s = None \<longrightarrow> b = None"
  shows "stands u b s (Some y) (addSnapshot i dir name w) \<and>
    archived (addSnapshot i dir name w) i = Some y \<and> otherThan b i"
proof -
  from w have v: "steady u w" "so_backup (storage w) = b" "saved w = s" "workspace w = Some y"
    by (simp_all add: stands_def)
  let ?new = "[(backupPrefix i @ archiveName w, Archive y),
     (backupPrefix i @ ''meta.json'', Metadata (Some (snapshotMeta i dir name)))]"
  have a: "addSnapshot i dir name w = w\<lparr>backupBucket := backupBucket w @ ?new\<rparr>"
    by (simp add: addSnapshot_def v)
  have n: "findArchive (backupPrefix i) (backupBucket w) = None"
    by (rule findArchive_none) (use f in \<open>auto simp: freshBackupId_def\<close>)
  have "savedIn b (backupBucket w @ ?new) = savedIn b (backupBucket w)"
    using v assms(3) by (cases b) (auto simp: savedIn_def saved_def findArchive_append split: option.splits)
  moreover have "otherThan b i" using f v(2) by (auto simp: otherThan_def freshBackupId_def safeId_def)
  ultimately show ?thesis
    using v unfolding a
    by (auto simp: stands_def steady_def outer_def host_ok_def saved_def archived_def findArchive_append n)
qed

lemma wp_hostSnapshot:
  assumes w: "stands u b s (Some y) w" and sb: "s = None \<longrightarrow> b = None"
  shows "wp (onHost (hostSnapshot dir name))
    (\<lambda>h w'. stands u b s (Some y) w' \<and> archived w' (sh_id h) = Some y \<and> otherThan b (sh_id h))
    (\<lambda>_ w'. \<exists>x. stands u b s x w') (\<lambda>w'. \<exists>x. stands u b s x w') w"
proof (rule wp_onHost)
  have h: "host_ok w" using w by (auto simp: stands_def dest: steadyD(1))
  have g: "stands u b s (workspace (containerGone w)) (containerGone w)"
    by (rule stands_quiet[OF w]) (use h quiet_gone[of w w] in auto)
  show "wp (hostSnapshot dir name)
    (\<lambda>h w'. stands u b s (Some y) w' \<and> archived w' (sh_id h) = Some y \<and> otherThan b (sh_id h))
    (\<lambda>_ w'. \<exists>x. stands u b s x w') (\<lambda>w'. \<exists>x. stands u b s x w') w"
    using w g stands_addSnapshot[OF w _ sb]
    by (auto simp: hostSnapshot_def split: answer.splits)
  show "\<And>v w. \<exists>x. stands u b s x v \<Longrightarrow> quiet v w \<Longrightarrow> \<exists>x. stands u b s x w"
    using stands_quiet by blast
  show "\<And>w'. \<exists>x. stands u b s x w' \<Longrightarrow> (\<exists>x. stands u b s x w') \<and> host_ok w'"
    by (auto simp: stands_def dest: steadyD(1))
qed

lemma wp_storeBackup:
  assumes w: "stands u b s x w" and a: "archived w (sh_id (sb_backup sb)) = Some y"
    and o: "otherThan b (sh_id (sb_backup sb))"
  shows "wp (storeBackup sb) (\<lambda>_. stands u (Some sb) (Some y) x) (\<lambda>_ w'. \<exists>x. stands u b s x w')
    (\<lambda>w'. (\<exists>x. stands u b s x w')) w"
proof -
  let ?g = "\<lambda>t. putLedger [sb_backup sb] (t\<lparr>so_backup := Some sb\<rparr>)"
  from w have v: "steady u w" "saved w = s" "workspace w = x" by (simp_all add: stands_def)
  have ok: "storage_ok (?g (storage w))"
    by (rule putLedger_ok) (use steadyD(2)[OF v(1)] o in \<open>auto simp: storage_ok_def otherThan_def\<close>)
  have "stands u (Some sb) (Some y) x (updateStorage ?g w)"
    using v ok a by (auto simp: stands_def steady_def saved_def savedIn_def archived_def updateStorage_def
        outer_def host_ok_def putLedger_def)
  moreover have "wp (andThen (deleteBackupObjects [sb_backup sb]) (\<lambda>_. raise e)) (\<lambda>_. stands u (Some sb) (Some y) x)
      (\<lambda>_ w'. \<exists>x. stands u b s x w') (\<lambda>w'. \<exists>x. stands u b s x w') w" for e
    by (rule wp_andThen, rule wp_mono[OF keeps_deleteOne[OF w o, unfolded keeps_def]]) auto
  ultimately show ?thesis
    unfolding storeBackup_def using w
    by (intro wp_catching) (auto simp: storageCall_def split: answer.splits)
qed

lemma keeps_deleteStale:
  assumes w: "stands u (Some sb) s x w" and known: "\<And>h. h \<in> set known \<Longrightarrow> safeId (sh_id h)"
  shows "keeps u (Some sb) s x (deleteStale known (sh_id (sb_backup sb)))
    (\<lambda>kept _. \<forall>h \<in> set (concat kept). safeId (sh_id h)) w"
proof -
  have one: "keeps u (Some sb) s x (if sh_id h = sh_id (sb_backup sb) then return []
        else catching (andThen (deleteBackupObjects [h]) (\<lambda>_. return [])) (\<lambda>e. return [h]))
      (\<lambda>v _. set v \<subseteq> {h}) v" if "h \<in> set known" "stands u (Some sb) s x v" for h v
  proof (cases "sh_id h = sh_id (sb_backup sb)")
    case False
    then have o: "otherThan (Some sb) (sh_id h)" using known that(1) by (auto simp: otherThan_def)
    have "keeps u (Some sb) s x (catching (andThen (deleteBackupObjects [h]) (\<lambda>_. return [])) (\<lambda>e. return [h]))
      (\<lambda>v _. set v \<subseteq> {h}) v"
      by (rule keeps_catching, rule keeps_andThen, rule keeps_mono[OF keeps_deleteOne[OF that(2) o]]) auto
    with False show ?thesis by simp
  qed (use that in simp)
  have "wp (deleteStale known (sh_id (sb_backup sb)))
      (\<lambda>vs w'. stands u (Some sb) s x w' \<and> (\<forall>h \<in> set known. True) \<and> list_all2 (\<lambda>h v. set v \<subseteq> {h}) known vs \<and>
        (\<forall>y :: snapshot_handle. True \<longrightarrow> True))
      (\<lambda>_. stands u (Some sb) s x) (stands u (Some sb) s x) w"
    unfolding deleteStale_def
    by (rule wp_forEach_all[where J = "stands u (Some sb) s x" and P = "\<lambda>_ _. True"], rule w)
      (use one in \<open>simp add: keeps_def\<close>)
  moreover have "safeId (sh_id h)"
    if "list_all2 (\<lambda>h v. set v \<subseteq> {h}) known kept" "v \<in> set kept" "h \<in> set v" for h v and kept :: "snapshot_handle list list"
  proof -
    from that(1) have "\<forall>v \<in> set kept. \<forall>h \<in> set v. h \<in> set known" by (induction) auto
    with that(2,3) known show ?thesis by blast
  qed
  ultimately show ?thesis unfolding keeps_def by (elim wp_mono) auto
qed

lemma merge_safe:
  assumes "h \<in> set (mergeBackupHandles hs opt)" and "\<And>h. h \<in> set hs \<Longrightarrow> safeId (sh_id h)"
    and "\<And>h. Some h \<in> set opt \<Longrightarrow> safeId (sh_id h)"
  shows "safeId (sh_id h)"
  using merge_subset[of hs opt] assms by blast

lemma getTracked_safe:
  assumes "storage_ok s" and "h \<in> set (getTrackedBackupHandles s)"
  shows "safeId (sh_id h)"
  using assms(2) unfolding getTrackedBackupHandles_def
proof (rule merge_safe)
  show "safeId (sh_id h)" if "h \<in> set (nullish (so_legacy s) [])" for h
    using that assms(1) by (simp add: storage_ok_def)
  fix h assume "Some h \<in> set (map (\<lambda>(k, h). Some h) (listBackupHandleLedger s))"
  then obtain k where "(k, h) \<in> set (so_ledger s)"
    using assms(1) by (auto simp: storage_ok_def ledger_read)
  then show "safeId (sh_id h)" using assms(1) by (auto simp: storage_ok_def)
qed

text \<open>The part after the new checkpoint is recorded.\<close>

lemma keeps_afterStore:
  assumes w: "stands u (Some sb) s x w" and known: "\<And>h. h \<in> set known \<Longrightarrow> safeId (sh_id h)"
  shows "keeps u (Some sb) s x
    (andThen (storageCall (so_error_update (\<lambda>_. None))) (\<lambda>_.
     andThen (deleteStale known (sh_id (sb_backup sb))) (\<lambda>kept.
     andThen (catching (replaceBackupHandleLedger (sb_backup sb # concat kept)) (\<lambda>_. return ())) (\<lambda>_.
     return sb)))) (\<lambda>v _. v = sb) w"
proof -
  have safe: "safeId (sh_id (sb_backup sb))"
    using w by (auto simp: stands_def storage_ok_def dest!: steadyD(2))
  have r: "keeps u (Some sb) s x (catching (replaceBackupHandleLedger (sb_backup sb # concat kept)) (\<lambda>_. return ()))
      (\<lambda>_. keeps u (Some sb) s x (return sb) (\<lambda>v _. v = sb)) v"
    if "stands u (Some sb) s x v" "\<forall>h \<in> set (concat kept). safeId (sh_id h)" for kept v
    by (rule keeps_catching, rule keeps_replaceLedger[OF that(1)]) (use that(2) safe in auto)
  show ?thesis
    by (intro keeps_andThen keeps_storageCall w)
      (use w r in \<open>auto intro!: keeps_andThen keeps_mono[OF keeps_deleteStale[OF _ known]]\<close>)
qed

lemma stands_some_iff: "stands u b s x w \<Longrightarrow> so_backup (storage w) = b \<and> saved w = s"
  by (simp add: stands_def)

lemma wp_takeCheckpoint:
  assumes w: "stands u b s (Some y) w" and s: "s = None \<longrightarrow> b = None"
    and prev: "previous = b" and tracked: "\<And>h. h \<in> set tracked \<Longrightarrow> safeId (sh_id h)"
  shows "wp (takeCheckpoint reason previous tracked)
    (\<lambda>sb. stands u (Some sb) (Some (marked y)) (Some (marked y)))
    (\<lambda>_. oldOrNew u b s y) (oldOrNew u b s y) w"
proof -
  have h: "host_ok w" using w by (auto simp: stands_def dest: steadyD(1))
  have old: "oldOrNew u b s y v" if "quiet w v" for v
    using stands_quiet[OF w that] by (auto simp: oldOrNew_def)
  have new: "oldOrNew u b s y v" if "stands u (Some sb) (Some (marked y)) x v" for sb x v
    using that by (auto simp: oldOrNew_def)
  have old': "oldOrNew u b s y v" if "\<exists>x. stands u b s x v" for v
    using that by (auto simp: oldOrNew_def)
  have rest: "wp (storeBackup sb) (\<lambda>_. wp
      (andThen (storageCall (so_error_update (\<lambda>_. None))) (\<lambda>_.
       andThen (deleteStale (mergeBackupHandles tracked [map_option sb_backup previous, Some (sb_backup sb)])
          (sh_id (sb_backup sb))) (\<lambda>kept.
       andThen (catching (replaceBackupHandleLedger (sb_backup sb # concat kept)) (\<lambda>_. return ())) (\<lambda>_.
       return sb)))) (\<lambda>sb. stands u (Some sb) (Some (marked y)) (Some (marked y)))
        (\<lambda>_. oldOrNew u b s y) (oldOrNew u b s y)) (\<lambda>_. oldOrNew u b s y) (oldOrNew u b s y) v"
    if v: "stands u b s (Some (marked y)) v" "archived v (sh_id (sb_backup sb)) = Some (marked y)"
      "otherThan b (sh_id (sb_backup sb))" for sb v
  proof (rule wp_mono[OF wp_storeBackup[OF v]])
    have pb: "\<And>p. b = Some p \<Longrightarrow> safeId (sh_id (sb_backup p))"
      using v(1) by (auto simp: stands_def storage_ok_def dest!: steadyD(2))
    fix z v' assume st: "stands u (Some sb) (Some (marked y)) (Some (marked y)) v'"
    have known: "safeId (sh_id h)"
      if "h \<in> set (mergeBackupHandles tracked [map_option sb_backup previous, Some (sb_backup sb)])" for h
      by (rule merge_safe[OF that]; cases b) (use tracked pb prev v(3) in \<open>auto simp: otherThan_def\<close>)
    show "wp (andThen (storageCall (so_error_update (\<lambda>_. None))) (\<lambda>_.
       andThen (deleteStale (mergeBackupHandles tracked [map_option sb_backup previous, Some (sb_backup sb)])
          (sh_id (sb_backup sb))) (\<lambda>kept.
       andThen (catching (replaceBackupHandleLedger (sb_backup sb # concat kept)) (\<lambda>_. return ())) (\<lambda>_.
       return sb)))) (\<lambda>sb. stands u (Some sb) (Some (marked y)) (Some (marked y)))
        (\<lambda>_. oldOrNew u b s y) (oldOrNew u b s y) v'"
      using keeps_afterStore[OF st known] unfolding keeps_def
      by (rule wp_mono) (use new in auto)
  qed (use old' in auto)
  have snap: "wp (onHost (hostSnapshot dir name)) (\<lambda>h v'. stands u b s (Some (marked y)) v' \<and>
        archived v' (sh_id h) = Some (marked y) \<and> otherThan b (sh_id h))
      (\<lambda>_. oldOrNew u b s y) (oldOrNew u b s y) v"
    if "stands u b s (Some (marked y)) v" for dir name v
    using wp_hostSnapshot[OF that s] by (rule wp_mono) (use old' in auto)
  have sync: "calm w (onHost hostSync) (\<lambda>_ v'. workspace v' = workspace v) v" if "quiet w v" for v
    unfolding hostSync_def by (rule calm_onHost, rule calm_hostCall[OF that]) (use that in simp)
  have "calm w (onHost writeMarker) (\<lambda>_ v. calm w (onHost hostSync) (\<lambda>_ v'. workspace v' = Some (marked y)) v) w"
  proof (rule calm_writeMarker)
    fix v z assume v: "quiet w v" "workspace w = Some z" "workspace v = Some (marked z)"
    moreover have "z = y" using v(2) w by (simp add: stands_def)
    ultimately show "calm w (onHost hostSync) (\<lambda>_ v'. workspace v' = Some (marked y)) v"
      by (intro calm_mono[OF sync]) auto
  qed (use h in simp)
  note head = this[unfolded calm_def]
  show ?thesis
    unfolding takeCheckpoint_def
    apply (rule wp_andThen, rule wp_mono[OF head])
      apply (elim conjE)
      apply (rule wp_andThen, erule wp_mono)
        apply (subst wp_reading, rule wp_andThen, rule wp_mono[OF snap])
           apply (metis stands_quiet w)
          apply (simp only: wp_reading Let_def, rule wp_andThen)
          apply (erule conjE)+
          apply (rule rest[where sb = "\<lparr>sb_backup = _, sb_createdAt = _, sb_reason = _\<rparr>", simplified])
    using old by (auto)
qed

section \<open>The operations\<close>

lemma world_ok_stands:
  "world_ok w \<longleftrightarrow> stands w (so_backup (storage w)) (saved w) (workspace w) w \<and>
     (so_backup (storage w) = None \<or> saved w \<noteq> None)"
  by (auto simp: world_ok_def stands_def)

lemma calm_assertActive: "quiet u w \<Longrightarrow> (instanceActive w \<and> \<not> purgeRequested w \<Longrightarrow> Q () w) \<Longrightarrow>
    calm u assertInstanceActive Q w"
  by (auto simp: assertInstanceActive_def)

lemma calm_ensureRestored:
  "host_ok w \<Longrightarrow> calm w ensureWorkspaceRestored (\<lambda>_. awake w) w"
  unfolding ensureWorkspaceRestored_def
  by (intro calm_andThen calm_assertActive calm_restoreWorkspace) auto

text \<open>The end of a checkpoint begun in \<open>w\<close> that is recorded.\<close>

definition recorded :: "world \<Rightarrow> stored_backup \<Rightarrow> world \<Rightarrow> bool" where
  "recorded w sb w' \<longleftrightarrow>
     (\<exists>y. stands w (Some sb) (Some (marked y)) (Some (marked y)) w' \<and> (restoreThrows w \<longrightarrow> y = resumed w))"

definition interrupted :: "world \<Rightarrow> world \<Rightarrow> bool" where
  "interrupted w w' \<longleftrightarrow>
     (\<exists>y. oldOrNew w (so_backup (storage w)) (saved w) y w' \<and> (restoreThrows w \<longrightarrow> y = resumed w))"

lemma wp_calm: "calm u m Q w \<Longrightarrow> wp m (\<lambda>v w'. quiet u w' \<and> Q v w') (\<lambda>_. quiet u) (quiet u) w"
  by (simp add: calm_def)

lemma interrupted_quiet:
  assumes "world_ok w" and "quiet w v"
  shows "interrupted w v"
  using stands_quiet[of w _ _ _ w v] assms unfolding interrupted_def oldOrNew_def world_ok_stands by blast

lemma interrupted_then:
  assumes "interrupted w v" and "quiet v v'"
  shows "interrupted w v'"
  using assms unfolding interrupted_def by (blast intro: oldOrNew_quiet)

lemma interrupted_ok: "interrupted w v \<Longrightarrow> host_ok v"
  by (auto simp: interrupted_def oldOrNew_def stands_def dest: steadyD(1))

lemma wp_doCreateCheckpoint:
  assumes w: "world_ok w"
  shows "wp (doCreateCheckpoint reason) (recorded w) (\<lambda>_. interrupted w) (interrupted w) w"
  unfolding doCreateCheckpoint_def
proof (rule wp_andThen, rule wp_mono[OF wp_calm[OF calm_ensureRestored]])
  show "host_ok w" using w by (simp add: world_ok_def)
  note early = interrupted_quiet[OF w]
  show "interrupted w v" if "quiet w v" for v using that by (rule early)
  show "interrupted w v" if "quiet w v" for v :: world using that by (rule early)
  fix r v assume v: "quiet w v \<and> awake w v"
  let ?b = "so_backup (storage w)"
  have st: "stands w ?b (saved w) (workspace v) v"
    using w v stands_quiet unfolding world_ok_stands by blast
  obtain y where y: "workspace v = Some y" "restoreThrows w \<longrightarrow> y = resumed w"
    using v by (auto simp: awake_def quiet_def host_ok_def)
  have err: "wp (andThen (recordPersistenceError CheckpointOperation e) (\<lambda>_. raise e)) (recorded w)
      (\<lambda>_. interrupted w) (interrupted w) v'" if i: "interrupted w v'" for e v'
  proof (rule wp_andThen, rule wp_mono[OF wp_calm[OF calm_recordError[where u = v' and Q = "\<lambda>_ _. True"]]])
    show "quiet v' v'" using interrupted_ok[OF i] by simp
  qed (use interrupted_then[OF i] in auto)
  have take: "wp (takeCheckpoint reason ?b (getTrackedBackupHandles (storage v))) (recorded w)
      (\<lambda>e. wp (andThen (recordPersistenceError CheckpointOperation e) (\<lambda>_. raise e)) (recorded w)
         (\<lambda>_. interrupted w) (interrupted w)) (interrupted w) v"
  proof (rule wp_mono[OF wp_takeCheckpoint])
    show "stands w ?b (saved w) (Some y) v" using st y by simp
    show "saved w = None \<longrightarrow> ?b = None" using w by (auto simp: world_ok_def)
    show "safeId (sh_id h)" if "h \<in> set (getTrackedBackupHandles (storage v))" for h
      by (rule getTracked_safe[OF _ that]) (use st in \<open>auto simp: stands_def dest: steadyD(2)\<close>)
    have i: "interrupted w v'" if "oldOrNew w ?b (saved w) y v'" for v'
      using that y(2) by (auto simp: interrupted_def)
    then show "interrupted w v'" if "oldOrNew w ?b (saved w) y v'" for v' using that .
    show "wp (andThen (recordPersistenceError CheckpointOperation e) (\<lambda>_. raise e)) (recorded w)
         (\<lambda>_. interrupted w) (interrupted w) v'" if "oldOrNew w ?b (saved w) y v'" for e v'
      using that by (intro err i)
    show "recorded w sb v'" if "stands w (Some sb) (Some (marked y)) (Some (marked y)) v'" for sb v'
      using that y(2) by (auto simp: recorded_def)
  qed simp
  have q: "quiet v v" using v by (simp add: quiet_def)
  show "wp (andThen theHost (\<lambda>snapshots. reading (\<lambda>w.
       let previous = so_backup (storage w); tracked = getTrackedBackupHandles (storage w)
       in if \<not> snapshots then raise (Message ''This sandbox host does not support snapshots'')
          else catching (takeCheckpoint reason previous tracked)
                 (\<lambda>e. andThen (recordPersistenceError CheckpointOperation e) (\<lambda>_. raise e)))))
      (recorded w) (\<lambda>_. interrupted w) (interrupted w) v"
  proof (rule wp_andThen, rule wp_mono[OF wp_calm[OF calm_theHost[OF q, where Q = "\<lambda>_ x. x = v"]]])
    have iv: "interrupted w v" using v early by blast
    show "interrupted w x" "interrupted w x" if "quiet v x" for x
      by (rule interrupted_then[OF iv that])+
    fix snapshots x assume x: "quiet v x \<and> x = v"
    have "so_backup (storage v) = ?b" using st by (simp add: stands_def)
    with x take iv show "wp (reading (\<lambda>w. let previous = so_backup (storage w); tracked = getTrackedBackupHandles (storage w)
       in if \<not> snapshots then raise (Message ''This sandbox host does not support snapshots'')
          else catching (takeCheckpoint reason previous tracked)
                 (\<lambda>e. andThen (recordPersistenceError CheckpointOperation e) (\<lambda>_. raise e))))
      (recorded w) (\<lambda>_. interrupted w) (interrupted w) x"
      by (auto simp: Let_def intro!: wp_catching)
  qed simp
qed

lemma wp_createCheckpoint:
  assumes "world_ok w"
  shows "wp (createCheckpoint reason) (recorded w) (\<lambda>_. interrupted w) (interrupted w) w"
  unfolding createCheckpoint_def assertInstanceActive_def
  using wp_doCreateCheckpoint[OF assms] interrupted_quiet[OF assms] assms
  by (auto intro!: wp_andThen simp: world_ok_def)

text \<open>
  What a stop that saw the workspace through may rely on: with snapshots the archive of the
  workspace is recorded, without them the workspace is left as it was.
\<close>

definition persisted :: "world \<Rightarrow> world \<Rightarrow> bool" where
  "persisted w w' \<longleftrightarrow>
     (if ephemeral w then \<exists>sb. recorded w sb w' else quiet w w' \<and> workspace w' = workspace w)"

lemma wp_persist:
  assumes w: "world_ok w"
  shows "wp (persistWorkspaceBeforeStop reason) (\<lambda>_. persisted w) (\<lambda>_. interrupted w) (interrupted w) w"
proof -
  have h: "quiet w w" using w by (simp add: world_ok_def)
  have e: "interrupted w v" if "quiet w v" for v by (rule interrupted_quiet[OF w that])
  have snap: "wp (andThen (createCheckpoint reason) (\<lambda>_. return ())) (\<lambda>_. persisted w) (\<lambda>_. interrupted w)
      (interrupted w) w" if "ephemeral w"
    by (rule wp_andThen, rule wp_mono[OF wp_createCheckpoint[OF w]]) (use that in \<open>auto simp: persisted_def\<close>)
  have flush: "calm w (andThen theHost (\<lambda>_. onHost hostSync)) (\<lambda>_ v. workspace v = workspace w) w"
    unfolding hostSync_def
    by (intro calm_andThen calm_theHost[OF h] calm_onHost calm_hostCall[OF h]) (use h in simp)
  have vol: "wp (andThen theHost (\<lambda>_. onHost hostSync)) (\<lambda>_. persisted w) (\<lambda>_. interrupted w)
      (interrupted w) w" if "\<not> ephemeral w"
    using wp_calm[OF flush] by (rule wp_mono) (use that e in \<open>auto simp: persisted_def\<close>)
  show ?thesis
    unfolding persistWorkspaceBeforeStop_def
  proof (rule wp_andThen, rule wp_mono[OF wp_calm[OF calm_theHost[OF h, where Q = "\<lambda>b x. x = w \<and> b = ephemeral w"]]])
    fix b x assume "quiet w x \<and> x = w \<and> b = ephemeral w"
    then show "wp (if b then andThen (createCheckpoint reason) (\<lambda>_. return ())
        else andThen theHost (\<lambda>_. onHost hostSync)) (\<lambda>_. persisted w) (\<lambda>_. interrupted w) (interrupted w) x"
      using snap vol by auto
  qed (use e in auto)
qed

end
