(* ===== verification/Sandbox_Persistence_Properties.thy ===== *)
theory Sandbox_Persistence_Properties
  imports Sandbox_Checkpoint
begin

text \<open>
  The checkpoint that is recorded can always be restored, a workspace that slept is the one
  that wakes, and a purge leaves nothing behind: whichever calls fail, and wherever the object
  is cut off.
\<close>

section \<open>Histories\<close>

text \<open>
  What happens to a sandbox: its operations, each with the answers it gets; the agent writes;
  the container dies; the object is rebuilt; time passes.
\<close>

datatype happening =
    WakeUp "answer list"
  | TakeCheckpoint checkpoint_reason "answer list"
  | StopDown checkpoint_reason "answer list"
  | AgentWrites string
  | ContainerDies
  | ObjectRebuilt
  | TimePasses millis

definition after :: "'v task \<Rightarrow> answer list \<Rightarrow> world \<Rightarrow> world" where
  "after m as w = fst (snd (m w as))"

definition stopDown :: "checkpoint_reason \<Rightarrow> bool task" where
  "stopDown reason = andThen (persistWorkspaceBeforeStop reason) (\<lambda>_. terminateContainerBounded)"

definition agentWrites :: "string \<Rightarrow> world \<Rightarrow> world" where
  "agentWrites c w =
     (if running w then w\<lparr>workspace := map_option (ws_content_update (\<lambda>_. c)) (workspace w)\<rparr> else w)"

fun happen :: "happening \<Rightarrow> world \<Rightarrow> world" where
  "happen (WakeUp as) w = after ensureWorkspaceRestored as w"
| "happen (TakeCheckpoint reason as) w = after (createCheckpoint reason) as w"
| "happen (StopDown reason as) w = after (stopDown reason) as w"
| "happen (AgentWrites c) w = agentWrites c w"
| "happen ContainerDies w = containerGone w"
| "happen ObjectRebuilt w = reloadSandbox w"
| "happen (TimePasses d) w = w\<lparr>now := now w + d\<rparr>"

lemma after_wp: "wp m (\<lambda>_. I) (\<lambda>_. I) I w \<Longrightarrow> I (after m as w)"
  unfolding after_def by (cases "m w as") (auto dest!: wp_run split: outcome.splits)

text \<open>The recorded checkpoint, if there is one, is intact; and there still is one.\<close>

definition stillThere :: "world \<Rightarrow> world \<Rightarrow> bool" where
  "stillThere w w' \<longleftrightarrow> world_ok w' \<and> (so_backup (storage w) \<noteq> None \<longrightarrow> so_backup (storage w') \<noteq> None)"

lemma stillThere_refl: "world_ok w \<Longrightarrow> stillThere w w"
  by (simp add: stillThere_def)

lemma stillThere_trans: "stillThere u v \<Longrightarrow> stillThere v w \<Longrightarrow> stillThere u w"
  by (auto simp: stillThere_def)

lemma stillThere_quiet: "world_ok w \<Longrightarrow> quiet w v \<Longrightarrow> stillThere w v"
  by (simp add: stillThere_def world_ok_quiet quietD(5))

lemma stands_ok: "stands u b s x w \<Longrightarrow> (b \<noteq> None \<longrightarrow> s \<noteq> None) \<Longrightarrow> world_ok w"
  by (auto simp: stands_def world_ok_def steady_def)

lemma stillThere_recorded: "world_ok w \<Longrightarrow> recorded w sb v \<Longrightarrow> stillThere w v"
  unfolding recorded_def stillThere_def
  by (elim exE conjE, frule stands_ok) (auto simp: stands_def)

lemma stillThere_interrupted:
  assumes "world_ok w" and "interrupted w v"
  shows "stillThere w v"
proof -
  have c: "so_backup (storage w) \<noteq> None \<longrightarrow> saved w \<noteq> None" using assms(1) by (simp add: world_ok_def)
  from assms(2) obtain y where "oldOrNew w (so_backup (storage w)) (saved w) y v"
    by (auto simp: interrupted_def)
  then consider x where "stands w (so_backup (storage w)) (saved w) x v"
    | sb x where "stands w (Some sb) (Some (marked y)) x v" by (auto simp: oldOrNew_def)
  then show ?thesis
    by cases (use c stands_ok in \<open>auto simp: stillThere_def stands_def\<close>)
qed

lemma stillThere_persisted: "world_ok w \<Longrightarrow> persisted w v \<Longrightarrow> stillThere w v"
  by (auto simp: persisted_def split: if_splits intro: stillThere_recorded stillThere_quiet)

lemma calm_terminate:
  assumes q: "quiet u w"
  shows "calm u terminateContainerBounded (\<lambda>_ _. True) w"
proof -
  have stop: "calm u hostStop (\<lambda>_ _. True) v" if "quiet u v" for v
    using that quiet_gone[OF that] by (auto simp: calm_def hostStop_def split: answer.splits)
  have s: "calm u (setHostRuntime b) (\<lambda>_. quiet u) v" if "quiet u v" for b v
    by (rule calm_setHostRuntime[OF that])
  show ?thesis
    unfolding terminateContainerBounded_def
    by (intro calm_catching calm_andThen calm_theHost[OF q] calm_mono[OF stop[OF q]])
      (auto intro!: calm_andThen calm_mono[OF s])
qed

lemma wp_stopDown:
  assumes w: "world_ok w"
  shows "wp (stopDown reason) (\<lambda>_. stillThere w) (\<lambda>_. stillThere w) (stillThere w) w"
  unfolding stopDown_def
proof (rule wp_andThen, rule wp_mono[OF wp_persist[OF w]])
  fix x v assume p: "persisted w v"
  then have st: "stillThere w v" by (rule stillThere_persisted[OF w])
  then have q: "quiet v v" by (simp add: stillThere_def world_ok_def)
  have "stillThere w v'" if "quiet v v'" for v'
    using stillThere_trans[OF st stillThere_quiet[OF _ that]] st by (simp add: stillThere_def)
  with wp_calm[OF calm_terminate[OF q]]
  show "wp terminateContainerBounded (\<lambda>_. stillThere w) (\<lambda>_. stillThere w) (stillThere w) v"
    by (auto elim: wp_mono)
qed (use stillThere_interrupted[OF w] in auto)

lemma stillThere_happen: "world_ok w \<Longrightarrow> stillThere w (happen h w)"
proof (cases h)
  case (WakeUp as)
  assume w: "world_ok w"
  then have c: "calm w ensureWorkspaceRestored (\<lambda>_. awake w) w" by (simp add: calm_ensureRestored world_ok_def)
  show ?thesis
    unfolding WakeUp happen.simps
    by (rule after_wp, rule wp_mono[OF wp_calm[OF c]]) (auto intro: stillThere_quiet[OF w])
next
  case (TakeCheckpoint reason as)
  assume w: "world_ok w"
  show ?thesis
    unfolding TakeCheckpoint happen.simps
    by (rule after_wp, rule wp_mono[OF wp_createCheckpoint[OF w]])
      (auto intro: stillThere_recorded[OF w] stillThere_interrupted[OF w])
next
  case (StopDown reason as)
  assume "world_ok w"
  then show ?thesis unfolding StopDown happen.simps by (rule after_wp[OF wp_stopDown])
next
  case ContainerDies
  assume w: "world_ok w"
  then show ?thesis
    unfolding ContainerDies happen.simps
    by (intro stillThere_quiet quiet_gone) (simp_all add: world_ok_def)
qed (auto simp: agentWrites_def reloadSandbox_def Let_def stillThere_def world_ok_def host_ok_def saved_def)

text \<open>
  C15. The latest checkpoint is never lost: through any sequence of wakes, checkpoints, stops,
  writes of the agent, deaths of the container and restarts of the object, with any call
  failing before or after its work and any operation cut off at any point, the checkpoint that
  is recorded has its archive, and once there is one there is always one.
\<close>

theorem latest_checkpoint_survives:
  assumes "world_ok w"
  shows "(so_backup (storage (fold happen hs w)) = None \<or> saved (fold happen hs w) \<noteq> None) \<and>
    (so_backup (storage w) = None \<or> so_backup (storage (fold happen hs w)) \<noteq> None)"
proof -
  have "stillThere w (fold happen hs w)"
    using assms
  proof (induction hs arbitrary: w)
    case (Cons h hs)
    from Cons.prems have "stillThere w (happen h w)" by (rule stillThere_happen)
    moreover from this have "stillThere (happen h w) (fold happen hs (happen h w))"
      by (intro Cons.IH) (simp add: stillThere_def)
    ultimately show ?case using stillThere_trans by simp
  qed (simp add: stillThere_refl)
  then show ?thesis by (auto simp: stillThere_def world_ok_def)
qed

text \<open>A first container: nothing recorded yet.\<close>

definition exWorld :: world where
  "exWorld = \<lparr>identity = Some \<lparr>id_id = ''s1'', id_provider = ''cloudflare'', id_deleting = False\<rparr>,
     purgeRequested = False, instanceActive = True, hostRunning = False,
     transcriptTarget = Some ''ses_1'',
     storage = emptyStorage\<lparr>so_identity := Some \<lparr>id_id = ''s1'', id_provider = ''cloudflare'', id_deleting = False\<rparr>,
       so_target := Some ''ses_1''\<rparr>,
     running = False, workspace = None, ephemeral = True, archiveName = ''data.sqsh'', restoreThrows = True,
     backupBucket = [], sessionBucket = [], now = 5\<rparr>"

definition oks :: "nat \<Rightarrow> answer list" where
  "oks n = replicate n (Done [])"

text \<open>Wake, work, checkpoint; in a second checkpoint the deletion of the first archive fails.\<close>

definition exHistory :: "happening list" where
  "exHistory = [WakeUp (oks 8), AgentWrites ''v1'',
     TakeCheckpoint ManualCheckpoint (oks 7 @ [Done ''b1''] @ oks 9), AgentWrites ''v2'',
     TakeCheckpoint ManualCheckpoint (oks 7 @ [Done ''b2''] @ oks 2 @ [Done [], Fails, Done [], Done []]), ContainerDies]"

lemma world_ok_history: "world_ok w \<Longrightarrow> world_ok (fold happen hs w)"
proof (induction hs arbitrary: w)
  case (Cons h hs)
  with stillThere_happen[OF Cons.prems, of h] show ?case by (simp add: stillThere_def)
qed simp

lemma exWorld_ok: "world_ok exWorld"
  by (simp add: world_ok_def host_ok_def storage_ok_def exWorld_def emptyStorage_def supportsSnapshots_def saved_def savedIn_def)

lemma latest_checkpoint_survives_witness:
  "saved (fold happen exHistory exWorld) = Some \<lparr>ws_marker = True, ws_content = ''v2''\<rparr> \<and>
   saved (fold happen (take 3 exHistory) exWorld) = Some \<lparr>ws_marker = True, ws_content = ''v1''\<rparr> \<and>
   so_backup (storage (fold happen exHistory exWorld)) \<noteq> None"
proof -
  have kept: "so_backup (storage (fold happen exHistory exWorld)) \<noteq> None"
  proof
    assume none: "so_backup (storage (fold happen exHistory exWorld)) = None"
    let ?w = "fold happen (take 3 exHistory) exWorld"
    have step: "fold happen (drop 3 exHistory) ?w = fold happen exHistory exWorld"
      by (simp add: exHistory_def)
    have "world_ok ?w" by (rule world_ok_history[OF exWorld_ok])
    from conjunct2[OF latest_checkpoint_survives[OF this, of "drop 3 exHistory"]]
    have "so_backup (storage ?w) = None"
    proof
      assume "so_backup (storage (fold happen (drop 3 exHistory) ?w)) \<noteq> None"
      with none step show ?thesis by (simp only: simp_thms)
    qed
    moreover have "so_backup (storage ?w) \<noteq> None" by code_simp
    ultimately show False by contradiction
  qed
  have "saved (fold happen exHistory exWorld) = Some \<lparr>ws_marker = True, ws_content = ''v2''\<rparr>" by code_simp
  moreover have "saved (fold happen (take 3 exHistory) exWorld) = Some \<lparr>ws_marker = True, ws_content = ''v1''\<rparr>"
    by code_simp
  ultimately show ?thesis using kept by blast
qed

section \<open>Sleeping and waking\<close>







text \<open>
  A lost workspace is noticed at the first moment it can be. A wake that succeeds keeps the
  workspace the session worked in and notes nothing; it puts the recorded checkpoint into a
  new container and notes nothing; and where there is neither, it starts on an empty workspace
  and the loss is on record for the OpenCode session whose conversation is gone.
\<close>

theorem lost_workspace_is_noted:
  assumes "world_ok w" and "restoreThrows w" and "ensureWorkspaceRestored w as = (Returned (), w', r)"
  shows "if provisioned w then workspace w' = workspace w \<and> so_lost (storage w') = so_lost (storage w)
    else if ephemeral w \<and> so_backup (storage w) \<noteq> None
    then workspace w' = map_option marked (saved w) \<and> workspace w' \<noteq> None \<and> so_lost (storage w') = so_lost (storage w)
    else workspace w' = Some (marked (nullish (workspace w) freshWorkspace)) \<and>
      map_option snd (so_lost (storage w')) =
        (if transcriptTarget w = None then map_option snd (so_lost (storage w)) else transcriptTarget w)"
proof -
  have h: "host_ok w" using assms(1) by (simp add: world_ok_def)
  have "awake w w'" using wp_run[OF wp_calm[OF calm_ensureRestored[OF h]] assms(3)] by simp
  then have a: "workspace w' = Some (resumed w)" "so_lost (storage w') = lossAfter w"
    using assms(2) by (simp_all add: awake_def)
  have s: "so_backup (storage w) = None \<Longrightarrow> saved w = None" by (simp add: saved_def savedIn_def)
  consider "provisioned w" | "\<not> provisioned w" "ephemeral w" "so_backup (storage w) \<noteq> None"
    | "\<not> provisioned w" "\<not> (ephemeral w \<and> so_backup (storage w) \<noteq> None)" by blast
  then show ?thesis
  proof cases
    case 1
    then obtain x where "workspace w = Some x" by (auto simp: provisioned_def split: option.splits)
    with 1 a show ?thesis by (simp add: resumed_def lossAfter_def Let_def)
  next
    case 2
    then obtain y where "saved w = Some y" using assms(1) by (auto simp: world_ok_def)
    with 2 a show ?thesis by (simp add: resumed_def lossAfter_def Let_def)
  next
    case 3
    with a s show ?thesis
      by (auto simp: resumed_def lossAfter_def Let_def split: option.splits)
  qed
qed

lemma lost_workspace_is_noted_witness:
  "\<exists>w' r. ensureWorkspaceRestored exWorld (oks 8) = (Returned (), w', r) \<and>
     map_option snd (so_lost (storage w')) = Some ''ses_1''"
proof -
  let ?e = "ensureWorkspaceRestored exWorld (oks 8)"
  have "case ?e of (Returned _, _, _) \<Rightarrow> True | _ \<Rightarrow> False" by code_simp
  then obtain w' r where e: "?e = (Returned (), w', r)" by (cases ?e) (auto split: outcome.splits)
  have "restoreThrows exWorld" "\<not> provisioned exWorld" "so_backup (storage exWorld) = None"
    "transcriptTarget exWorld = Some ''ses_1''" by code_simp+
  with lost_workspace_is_noted[OF exWorld_ok _ e] e show ?thesis by auto
qed

end
