(* ===== verification/Sandbox_Purge.thy ===== *)
theory Sandbox_Purge
  imports Sandbox_Persistence_Properties
begin

text \<open>
  A purge that reports success has left nothing of the instance: no container, no workspace,
  no snapshot that was recorded, tracked or can be found in the bucket under the instance's
  name, no transcript and no storage. A cleanup keeps the transcript and the storage.
\<close>

section \<open>Finding snapshots\<close>








section \<open>Deleting what was found\<close>






section \<open>The purge\<close>
















section \<open>A restore that is refused\<close>

text \<open>The recorded checkpoint holds \<open>v1\<close>; the container is gone.\<close>

definition exAsleep :: world where
  "exAsleep = (fold happen [WakeUp (oks 8), AgentWrites ''v1'',
     StopDown IdleStopCheckpoint (oks 8 @ [Done ''b1''] @ oks 9)] exWorld)\<lparr>restoreThrows := False\<rparr>"

text \<open>
  C18. The answer of a restore is not looked at. Where the host answers that it has not restored
  the snapshot, the wake succeeds on an empty workspace with the marker written, and no loss is
  noted; the next checkpoint records the empty workspace and deletes the archive that held the
  session's work.
\<close>

theorem refused_restore_loses_workspace:
  "saved exAsleep = Some \<lparr>ws_marker = True, ws_content = ''v1''\<rparr> \<and>
   (\<exists>w r w' r'. ensureWorkspaceRestored exAsleep (oks 4 @ [Refused] @ oks 4) = (Returned (), w, r) \<and>
      workspace w = Some \<lparr>ws_marker = True, ws_content = []\<rparr> \<and>
      so_lost (storage w) = so_lost (storage exAsleep) \<and>
      stopDown IdleStopCheckpoint w (oks 8 @ [Done ''b2''] @ oks 12) = (Returned True, w', r') \<and>
      saved w' = Some \<lparr>ws_marker = True, ws_content = []\<rparr> \<and> archived w' ''b1'' = None)"
proof -
  let ?e = "ensureWorkspaceRestored exAsleep (oks 4 @ [Refused] @ oks 4)"
  have "saved exAsleep = Some \<lparr>ws_marker = True, ws_content = ''v1''\<rparr>" by code_simp
  moreover have "case ?e of (Returned _, w, _) \<Rightarrow> workspace w = Some \<lparr>ws_marker = True, ws_content = []\<rparr> \<and>
      so_lost (storage w) = so_lost (storage exAsleep) \<and>
      (case stopDown IdleStopCheckpoint w (oks 8 @ [Done ''b2''] @ oks 12) of
         (Returned True, w', _) \<Rightarrow> saved w' = Some \<lparr>ws_marker = True, ws_content = []\<rparr> \<and> archived w' ''b1'' = None
       | _ \<Rightarrow> False) | _ \<Rightarrow> False" by code_simp
  ultimately show ?thesis by (auto split: prod.splits outcome.splits bool.splits)
qed

end
