(* ===== verification/Sandbox_Gate.thy ===== *)
theory Sandbox_Gate
  imports Request_Validation
begin

text \<open>
  The runtime gate of \<open>src/sandbox.ts\<close>: which requests are let through to a container, how a
  stop waits for those that are inside, how lifecycle operations take turns, and the barrier of
  a purge. Every awaited call cuts a handler: a thread is what the object has in flight, with
  the place where it waits. Operations of the object's own storage do not let other work in
  between. What happens inside a call to the host is a choice of the step: whether it
  succeeds, and what the object believes of the container afterwards.
\<close>

section \<open>State\<close>

datatype gate_phase = GWaking | GRunning | GQuiescing | GCheckpointing | GStopping | GSleeping

record runtime_gate =
  rg_phase :: gate_phase
  rg_epoch :: "string option"
  rg_revision :: nat
  rg_operation :: "string option"

definition isStopGatePhase :: "gate_phase \<Rightarrow> bool" where
  "isStopGatePhase p = (p = GQuiescing \<or> p = GCheckpointing \<or> p = GStopping)"

datatype mutation =
    WakeFor string string
  | IdleStop string nat string
  | ForceStop "string option" string

text \<open>How a stop ends: the epoch and revision it returns to, its operation, and whether it is forced.\<close>

record stop_plan =
  sp_epoch :: "string option"
  sp_revision :: nat
  sp_operation :: string
  sp_force :: bool

datatype stage =
    Queued mutation
  | WakeProbe string
  | WakeBody string nat
  | WakeInspect "nat option"
  | WakeNote
  | StopProbe mutation
  | StopDrain bool stop_plan
  | StopSettle stop_plan
  | StopInspect stop_plan
  | StopPersist stop_plan
  | StopTerminate stop_plan
  | StopCatch stop_plan

text \<open>
  A request that passed the first look at the gate; one that is inside the container; an
  operation, which may use the host itself; a lifecycle read; a lifecycle mutation; a purge
  that waits for the operations and for the lifecycle, and one that removes the container.
\<close>

datatype thread =
    Remembering string
  | Forwarded string
  | Operation bool
  | LifecycleRead
  | Mutation stage
  | PurgeWait bool bool bool
  | PurgeRemove bool

datatype identity_state = IdentityActive | IdentityDeleting

record gate_storage =
  gs_purge :: bool
  gs_identity :: "(string \<times> identity_state) option"
  gs_gate :: "runtime_gate option"
  gs_hostRunning :: bool

definition emptyGateStorage :: gate_storage where
  "emptyGateStorage = \<lparr>gs_purge = False, gs_identity = None, gs_gate = None, gs_hostRunning = False\<rparr>"

record sandbox =
  purging :: bool
  active :: bool
  ident :: "(string \<times> identity_state) option"
  gate :: "runtime_gate option"
  believed :: bool
  activeOperations :: nat
  lifecycleOperations :: nat
  mutationTail :: "nat list"
  threads :: "(nat \<times> thread) list"
  nextThread :: nat
  stored :: gate_storage

definition newSandbox :: sandbox where
  "newSandbox = \<lparr>purging = False, active = False, ident = None, gate = None, believed = False,
     activeOperations = 0, lifecycleOperations = 0, mutationTail = [], threads = [], nextThread = 0,
     stored = emptyGateStorage\<rparr>"

definition sandboxReload :: "sandbox \<Rightarrow> sandbox" where
  "sandboxReload s =
     (let st = stored s in
      \<lparr>purging = gs_purge st,
        active = (map_option snd (gs_identity st) = Some IdentityActive \<and> \<not> gs_purge st),
        ident = gs_identity st, gate = gs_gate st, believed = gs_hostRunning st,
        activeOperations = 0, lifecycleOperations = 0, mutationTail = [], threads = [],
        nextThread = nextThread s, stored = st\<rparr>)"

section \<open>Threads and counters\<close>

definition spawn :: "thread \<Rightarrow> sandbox \<Rightarrow> sandbox" where
  "spawn t s = s\<lparr>threads := threads s @ [(nextThread s, t)], nextThread := nextThread s + 1\<rparr>"

definition drop_thread :: "nat \<Rightarrow> sandbox \<Rightarrow> sandbox" where
  "drop_thread k s = s\<lparr>threads := filter (\<lambda>(j, t). j \<noteq> k) (threads s)\<rparr>"

definition become :: "nat \<Rightarrow> thread \<Rightarrow> sandbox \<Rightarrow> sandbox" where
  "become k t s = s\<lparr>threads := map (\<lambda>(j, u). (j, if j = k then t else u)) (threads s)\<rparr>"

text \<open>The waiters of the two drains are released when their counter reaches zero.\<close>

fun releaseOps :: "thread \<Rightarrow> thread" where
  "releaseOps (Mutation (StopDrain woken p)) = Mutation (StopDrain True p)"
| "releaseOps (PurgeWait keep a b) = PurgeWait keep True b"
| "releaseOps t = t"

fun releaseLife :: "thread \<Rightarrow> thread" where
  "releaseLife (PurgeWait keep a b) = PurgeWait keep a True"
| "releaseLife t = t"

definition finishActiveOperation :: "sandbox \<Rightarrow> sandbox" where
  "finishActiveOperation s =
     (let s' = s\<lparr>activeOperations := activeOperations s - 1\<rparr> in
      if activeOperations s' = 0 then s'\<lparr>threads := map (\<lambda>(k, t). (k, releaseOps t)) (threads s')\<rparr>
      else s')"

definition finishLifecycleOperation :: "sandbox \<Rightarrow> sandbox" where
  "finishLifecycleOperation s =
     (let s' = s\<lparr>lifecycleOperations := lifecycleOperations s - 1\<rparr> in
      if lifecycleOperations s' = 0 then s'\<lparr>threads := map (\<lambda>(k, t). (k, releaseLife t)) (threads s')\<rparr>
      else s')"

definition instanceIsActive :: "sandbox \<Rightarrow> bool" where
  "instanceIsActive s = (active s \<and> \<not> purging s)"

definition setBelief :: "bool \<Rightarrow> sandbox \<Rightarrow> sandbox" where
  "setBelief b s = s\<lparr>believed := b, stored := (stored s)\<lparr>gs_hostRunning := b\<rparr>\<rparr>"

text \<open>The gate as it is stored: an empty epoch or operation is left out.\<close>

definition present :: "string option \<Rightarrow> string option" where
  "present x = (if truthy_str x then x else None)"

definition setRuntimeGate :: "gate_phase \<Rightarrow> string option \<Rightarrow> nat \<Rightarrow> string option \<Rightarrow> sandbox \<Rightarrow> sandbox" where
  "setRuntimeGate p e r opid s =
     (let g = \<lparr>rg_phase = p, rg_epoch = present e, rg_revision = r, rg_operation = present opid\<rparr>
      in s\<lparr>gate := Some g, stored := (stored s)\<lparr>gs_gate := Some g\<rparr>\<rparr>)"

definition phaseOf :: "sandbox \<Rightarrow> gate_phase option" where
  "phaseOf s = map_option rg_phase (gate s)"

definition gateRevision :: "sandbox \<Rightarrow> nat" where
  "gateRevision s = (case gate s of None \<Rightarrow> 0 | Some g \<Rightarrow> rg_revision g)"

text \<open>The gate is open for the runtime of this epoch.\<close>

definition runningFor :: "string \<Rightarrow> sandbox \<Rightarrow> bool" where
  "runningFor e s = (case gate s of None \<Rightarrow> False | Some g \<Rightarrow> rg_phase g = GRunning \<and> rg_epoch g = Some e)"

section \<open>Requests and operations\<close>

text \<open>\<open>proxyOpencodeFetch\<close>, up to the note of the request's location.\<close>

definition proxyArrives :: "string option \<Rightarrow> sandbox \<Rightarrow> sandbox" where
  "proxyArrives epoch s =
     (case epoch of
        None \<Rightarrow> s
      | Some e \<Rightarrow>
          if e = [] \<or> \<not> runningFor e s \<or> \<not> believed s then s else spawn (Remembering e) s)"

text \<open>After it: the gate is looked at again, and the request goes to the host.\<close>

definition proxyForwards :: "nat \<Rightarrow> string \<Rightarrow> sandbox \<Rightarrow> sandbox" where
  "proxyForwards k e s =
     (if \<not> runningFor e s \<or> \<not> believed s then drop_thread k s
      else if \<not> instanceIsActive s then drop_thread k s
      else become k (Forwarded e) (s\<lparr>activeOperations := activeOperations s + 1\<rparr>))"

text \<open>The answer of the host; 503 says that the container is gone.\<close>

definition proxyAnswered :: "nat \<Rightarrow> bool \<Rightarrow> sandbox \<Rightarrow> sandbox" where
  "proxyAnswered k gone s =
     finishActiveOperation (drop_thread k (if gone then setBelief False s else s))"

text \<open>
  An operation begins: with an epoch where it asks for the current runtime first
  (\<open>assertCurrentRuntime\<close>, and the test of the manual checkpoint), and then it may use the
  host; without one where it only makes requests through the gate.
\<close>

definition beginOperation :: "string option \<Rightarrow> sandbox \<Rightarrow> sandbox" where
  "beginOperation epoch s =
     (if \<not> instanceIsActive s then s
      else case epoch of
        None \<Rightarrow> spawn (Operation False) (s\<lparr>activeOperations := activeOperations s + 1\<rparr>)
      | Some e \<Rightarrow>
          if \<not> runningFor e s then s
          else spawn (Operation True) (s\<lparr>activeOperations := activeOperations s + 1\<rparr>))"

text \<open>It ends; a call that found the container gone has corrected the belief.\<close>

definition operationEnds :: "nat \<Rightarrow> bool \<Rightarrow> sandbox \<Rightarrow> sandbox" where
  "operationEnds k gone s =
     finishActiveOperation (drop_thread k (if gone \<and> believed s then setBelief False s else s))"

section \<open>Lifecycle operations\<close>

definition beginRead :: "sandbox \<Rightarrow> sandbox" where
  "beginRead s =
     (if \<not> instanceIsActive s then s
      else spawn LifecycleRead (s\<lparr>lifecycleOperations := lifecycleOperations s + 1\<rparr>))"

definition readEnds :: "nat \<Rightarrow> bool \<Rightarrow> sandbox \<Rightarrow> sandbox" where
  "readEnds k gone s =
     finishLifecycleOperation (drop_thread k (if gone \<and> believed s then setBelief False s else s))"

text \<open>\<open>withLifecycleMutation\<close>: counted at once, then waiting for the one before.\<close>

definition beginMutation :: "mutation \<Rightarrow> sandbox \<Rightarrow> sandbox" where
  "beginMutation m s =
     (if \<not> instanceIsActive s then s
      else spawn (Mutation (Queued m))
        (s\<lparr>lifecycleOperations := lifecycleOperations s + 1, mutationTail := mutationTail s @ [nextThread s]\<rparr>))"

definition mutationEnds :: "nat \<Rightarrow> sandbox \<Rightarrow> sandbox" where
  "mutationEnds k s =
     finishLifecycleOperation (drop_thread k (s\<lparr>mutationTail := filter (\<lambda>j. j \<noteq> k) (mutationTail s)\<rparr>))"

definition moveTo :: "nat \<Rightarrow> stage \<Rightarrow> sandbox \<Rightarrow> sandbox" where
  "moveTo k st = become k (Mutation st)"

section \<open>Waking\<close>

definition threadAt :: "nat \<Rightarrow> sandbox \<Rightarrow> thread option" where
  "threadAt k s = map_of (threads s) k"

text \<open>The gate is taken to \<open>waking\<close> under the next revision, and the container is brought up.\<close>

definition startWake :: "nat \<Rightarrow> string \<Rightarrow> sandbox \<Rightarrow> sandbox" where
  "startWake k e s =
     (let r = gateRevision s + 1 in moveTo k (WakeBody e r) (setRuntimeGate GWaking (Some e) r None s))"

definition performWake :: "nat \<Rightarrow> string \<Rightarrow> string \<Rightarrow> sandbox \<Rightarrow> sandbox" where
  "performWake k i e s =
     (if \<not> instanceIsActive s then mutationEnds k s
      else if map_option fst (ident s) \<noteq> Some i then mutationEnds k s
      else if \<not> isSafeRuntimeEpoch e then mutationEnds k s
      else if runningFor e s then moveTo k (WakeProbe e) s
      else startWake k e s)"

definition wakeProbed :: "nat \<Rightarrow> string \<Rightarrow> bool \<Rightarrow> sandbox \<Rightarrow> sandbox" where
  "wakeProbed k e up s =
     (let s' = setBelief up s in if up then moveTo k (WakeInspect None) s' else startWake k e s')"

text \<open>The container is up and its server answers, or a stage of the wake failed.\<close>

definition wakeBodyEnds :: "nat \<Rightarrow> string \<Rightarrow> nat \<Rightarrow> bool \<Rightarrow> sandbox \<Rightarrow> sandbox" where
  "wakeBodyEnds k e r ok s =
     (if ok then moveTo k (WakeInspect (Some r)) (setRuntimeGate GRunning (Some e) r None (setBelief True s))
      else moveTo k WakeNote (setRuntimeGate GSleeping None r None s))"

definition wakeInspected :: "nat \<Rightarrow> nat option \<Rightarrow> bool \<Rightarrow> sandbox \<Rightarrow> sandbox" where
  "wakeInspected k r ok s =
     (case r of
        None \<Rightarrow> mutationEnds k s
      | Some n \<Rightarrow> moveTo k WakeNote (if ok then s else setRuntimeGate GSleeping None n None s))"

section \<open>Stopping\<close>

definition stopSleeps :: "nat \<Rightarrow> stop_plan \<Rightarrow> sandbox \<Rightarrow> sandbox" where
  "stopSleeps k p s = mutationEnds k (setRuntimeGate GSleeping None (sp_revision p) None s)"

definition toTerminate :: "nat \<Rightarrow> stop_plan \<Rightarrow> sandbox \<Rightarrow> sandbox" where
  "toTerminate k p s = (if believed s then moveTo k (StopTerminate p) s else stopSleeps k p s)"

text \<open>The body of a stop, entered where the gate stands.\<close>

definition stopFromGate :: "nat \<Rightarrow> stop_plan \<Rightarrow> sandbox \<Rightarrow> sandbox" where
  "stopFromGate k p s =
     (case phaseOf s of
        Some GQuiescing \<Rightarrow> moveTo k (StopDrain (activeOperations s = 0) p) s
      | Some GCheckpointing \<Rightarrow> moveTo k (StopPersist p) s
      | _ \<Rightarrow> toTerminate k p s)"

definition recovering :: "string \<Rightarrow> sandbox \<Rightarrow> bool" where
  "recovering opid s =
     (case gate s of
        None \<Rightarrow> False
      | Some g \<Rightarrow> rg_operation g = Some opid \<and> isStopGatePhase (rg_phase g))"

definition performQuiesce :: "nat \<Rightarrow> string \<Rightarrow> nat \<Rightarrow> string \<Rightarrow> bool \<Rightarrow> sandbox \<Rightarrow> sandbox" where
  "performQuiesce k e r opid up s0 =
     (let s = setBelief up s0 in
      if \<not> up then mutationEnds k (setRuntimeGate GSleeping None (max r (gateRevision s)) None s)
      else if recovering opid s then
        stopFromGate k \<lparr>sp_epoch = Some e, sp_revision = max r (gateRevision s), sp_operation = opid, sp_force = False\<rparr> s
      else if \<not> runningFor e s then mutationEnds k s
      else stopFromGate k \<lparr>sp_epoch = Some e, sp_revision = r, sp_operation = opid, sp_force = False\<rparr>
             (setRuntimeGate GQuiescing (Some e) r (Some opid) s))"

definition gateEpoch :: "sandbox \<Rightarrow> string option" where
  "gateEpoch s = (case gate s of None \<Rightarrow> None | Some g \<Rightarrow> rg_epoch g)"

definition orElse :: "'a option \<Rightarrow> 'a option \<Rightarrow> 'a option" where
  "orElse a b = (case a of None \<Rightarrow> b | Some x \<Rightarrow> Some x)"

definition performForceStop :: "nat \<Rightarrow> string option \<Rightarrow> string \<Rightarrow> bool \<Rightarrow> sandbox \<Rightarrow> sandbox" where
  "performForceStop k e opid up s0 =
     (let s = setBelief up s0; previous = orElse (gateEpoch s) e; r = gateRevision s in
      if \<not> up then mutationEnds k (setRuntimeGate GSleeping None (r + 1) None s)
      else if recovering opid s then
        stopFromGate k \<lparr>sp_epoch = previous, sp_revision = r, sp_operation = opid, sp_force = True\<rparr> s
      else if truthy_str e \<and> truthy_str (gateEpoch s) \<and> e \<noteq> gateEpoch s then mutationEnds k s
      else stopFromGate k \<lparr>sp_epoch = previous, sp_revision = r + 1, sp_operation = opid, sp_force = True\<rparr>
             (setRuntimeGate GQuiescing previous (r + 1) (Some opid) s))"

definition stopProbed :: "nat \<Rightarrow> mutation \<Rightarrow> bool \<Rightarrow> sandbox \<Rightarrow> sandbox" where
  "stopProbed k m up s =
     (case m of
        WakeFor i e \<Rightarrow> mutationEnds k s
      | IdleStop e r opid \<Rightarrow> performQuiesce k e r opid up s
      | ForceStop e opid \<Rightarrow> performForceStop k e opid up s)"

text \<open>The operations are gone: an idle stop settles first, a forced one goes on to the checkpoint.\<close>

definition toCheckpoint :: "nat \<Rightarrow> stop_plan \<Rightarrow> sandbox \<Rightarrow> sandbox" where
  "toCheckpoint k p s =
     moveTo k (StopPersist p) (setRuntimeGate GCheckpointing (sp_epoch p) (sp_revision p) (Some (sp_operation p)) s)"

definition stopDrained :: "nat \<Rightarrow> bool \<Rightarrow> stop_plan \<Rightarrow> sandbox \<Rightarrow> sandbox" where
  "stopDrained k woken p s =
     (if \<not> woken then s
      else if sp_force p then toCheckpoint k p s
      else moveTo k (StopSettle p) s)"

datatype inspection = Idle | Busy | Unreadable

definition stopInspected :: "nat \<Rightarrow> stop_plan \<Rightarrow> inspection \<Rightarrow> sandbox \<Rightarrow> sandbox" where
  "stopInspected k p found s =
     (case found of
        Idle \<Rightarrow> toCheckpoint k p s
      | Busy \<Rightarrow> mutationEnds k (setRuntimeGate GRunning (sp_epoch p) (sp_revision p) None s)
      | Unreadable \<Rightarrow> moveTo k (StopCatch p) s)"

definition stopPersisted :: "nat \<Rightarrow> stop_plan \<Rightarrow> bool \<Rightarrow> sandbox \<Rightarrow> sandbox" where
  "stopPersisted k p ok s =
     (if ok then toTerminate k p (setRuntimeGate GStopping None (sp_revision p) (Some (sp_operation p)) s)
      else moveTo k (StopCatch p) s)"

definition stopTerminated :: "nat \<Rightarrow> stop_plan \<Rightarrow> bool \<Rightarrow> sandbox \<Rightarrow> sandbox" where
  "stopTerminated k p down s =
     (if down then stopSleeps k p (setBelief False s) else mutationEnds k s)"

definition stopCaught :: "nat \<Rightarrow> stop_plan \<Rightarrow> bool \<Rightarrow> sandbox \<Rightarrow> sandbox" where
  "stopCaught k p up s =
     (let s' = setBelief up s in
      if up then mutationEnds k (setRuntimeGate GRunning (sp_epoch p) (sp_revision p) None s')
      else stopSleeps k p s')"

text \<open>A mutation whose turn has come checks again that the instance is active.\<close>

definition mutationGranted :: "nat \<Rightarrow> mutation \<Rightarrow> sandbox \<Rightarrow> sandbox" where
  "mutationGranted k m s =
     (if \<not> instanceIsActive s then mutationEnds k s
      else case m of
        WakeFor i e \<Rightarrow> performWake k i e s
      | IdleStop e r opid \<Rightarrow> moveTo k (StopProbe m) s
      | ForceStop e opid \<Rightarrow> moveTo k (StopProbe m) s)"

section \<open>Purge and initialization\<close>

fun purgesAs :: "bool \<Rightarrow> thread \<Rightarrow> bool" where
  "purgesAs keep (PurgeWait k a b) = (k = keep)"
| "purgesAs keep (PurgeRemove k) = (k = keep)"
| "purgesAs keep t = False"

text \<open>\<open>doPurgeInstance\<close> up to its drains; a purge of the same kind that runs already is joined.\<close>

definition startPurge :: "bool \<Rightarrow> sandbox \<Rightarrow> sandbox" where
  "startPurge keep s0 =
     (if list_ex (\<lambda>(k, t). purgesAs keep t) (threads s0) then s0
      else let s = s0\<lparr>purging := True, active := False\<rparr> in
      case ident s of
        None \<Rightarrow> s\<lparr>stored := emptyGateStorage\<rparr>
      | Some (i, st) \<Rightarrow>
          spawn (PurgeWait keep (activeOperations s = 0) (lifecycleOperations s = 0))
            (s\<lparr>ident := Some (i, IdentityDeleting),
               stored := (stored s)\<lparr>gs_purge := True, gs_identity := Some (i, IdentityDeleting)\<rparr>\<rparr>))"

definition purgeDrained :: "nat \<Rightarrow> bool \<Rightarrow> bool \<Rightarrow> bool \<Rightarrow> sandbox \<Rightarrow> sandbox" where
  "purgeDrained k keep ops life s = (if ops \<and> life then become k (PurgeRemove keep) s else s)"

definition purgeRemoved :: "nat \<Rightarrow> bool \<Rightarrow> bool \<Rightarrow> sandbox \<Rightarrow> sandbox" where
  "purgeRemoved k keep removed s =
     (if \<not> removed then drop_thread k s
      else let s' = drop_thread k (setBelief False s) in
        if keep then s' else s'\<lparr>stored := emptyGateStorage\<rparr>)"

text \<open>\<open>initializeInstance\<close>; \<open>fits\<close> says that repository and provider are valid and agree.\<close>

definition sandboxInitialize :: "string \<Rightarrow> bool \<Rightarrow> sandbox \<Rightarrow> sandbox" where
  "sandboxInitialize i fits s =
     (if purging s \<or> \<not> fits then s
      else case ident s of
        Some (j, st) \<Rightarrow>
          if j \<noteq> i \<or> st \<noteq> IdentityActive then s
          else let s' = s\<lparr>active := True\<rparr> in
            if gate s' = None \<and> \<not> believed s' then setRuntimeGate GSleeping None 0 None s' else s'
      | None \<Rightarrow>
          setRuntimeGate GSleeping None 0 None
            (s\<lparr>ident := Some (i, IdentityActive), active := True,
               stored := (stored s)\<lparr>gs_identity := Some (i, IdentityActive)\<rparr>\<rparr>))"

section \<open>Steps\<close>

datatype gate_event =
    ProxyArrives "string option"
  | OperationArrives "string option"
  | ReadArrives
  | MutationArrives mutation
  | PurgeArrives bool
  | InitializeArrives string bool
  | Refreshed bool
  | Goes nat bool
  | Inspected nat inspection
  | Reload

text \<open>
  The next part of thread \<open>k\<close>: its turn, the end of a wait, or the answer of the host.
  The answer is the flag: a request found the container gone, the container is up, the call
  succeeded.
\<close>

definition goes :: "nat \<Rightarrow> bool \<Rightarrow> sandbox \<Rightarrow> sandbox" where
  "goes k yes s =
     (case threadAt k s of
        None \<Rightarrow> s
      | Some t \<Rightarrow>
        (case t of
           Remembering e \<Rightarrow> proxyForwards k e s
         | Forwarded e \<Rightarrow> proxyAnswered k yes s
         | Operation own \<Rightarrow> operationEnds k yes s
         | LifecycleRead \<Rightarrow> readEnds k yes s
         | PurgeWait keep a b \<Rightarrow> purgeDrained k keep a b s
         | PurgeRemove keep \<Rightarrow> purgeRemoved k keep yes s
         | Mutation st \<Rightarrow>
           (case st of
              Queued m \<Rightarrow> if mutationTail s \<noteq> [] \<and> hd (mutationTail s) = k then mutationGranted k m s else s
            | WakeProbe e \<Rightarrow> wakeProbed k e yes s
            | WakeBody e r \<Rightarrow> wakeBodyEnds k e r yes s
            | WakeInspect r \<Rightarrow> wakeInspected k r yes s
            | WakeNote \<Rightarrow> mutationEnds k s
            | StopProbe m \<Rightarrow> stopProbed k m yes s
            | StopDrain woken p \<Rightarrow> stopDrained k woken p s
            | StopSettle p \<Rightarrow> moveTo k (StopInspect p) s
            | StopInspect p \<Rightarrow> s
            | StopPersist p \<Rightarrow> stopPersisted k p yes s
            | StopTerminate p \<Rightarrow> stopTerminated k p yes s
            | StopCatch p \<Rightarrow> stopCaught k p yes s)))"

definition inspected :: "nat \<Rightarrow> inspection \<Rightarrow> sandbox \<Rightarrow> sandbox" where
  "inspected k found s =
     (case threadAt k s of
        Some (Mutation (StopInspect p)) \<Rightarrow> stopInspected k p found s
      | _ \<Rightarrow> s)"

text \<open>
  \<open>Refreshed\<close> is every other look at the host: a status call asks it, and a
  background call may find the container gone.
\<close>

definition happens :: "gate_event \<Rightarrow> sandbox \<Rightarrow> sandbox" where
  "happens h s =
     (case h of
        ProxyArrives e \<Rightarrow> proxyArrives e s
      | OperationArrives e \<Rightarrow> beginOperation e s
      | ReadArrives \<Rightarrow> beginRead s
      | MutationArrives m \<Rightarrow> beginMutation m s
      | PurgeArrives keep \<Rightarrow> startPurge keep s
      | InitializeArrives i fits \<Rightarrow> sandboxInitialize i fits s
      | Refreshed b \<Rightarrow> if ident s = None then s else setBelief b s
      | Goes k yes \<Rightarrow> goes k yes s
      | Inspected k found \<Rightarrow> inspected k found s
      | Reload \<Rightarrow> sandboxReload s)"

definition gate_step :: "sandbox \<Rightarrow> gate_event \<Rightarrow> sandbox \<Rightarrow> bool" where
  "gate_step s h s' = (s' = happens h s)"

definition gate_start :: "sandbox \<Rightarrow> bool" where
  "gate_start s = (s = newSandbox)"

end
