(* ===== verification/Sandbox_Gate_Invariant.thy ===== *)
theory Sandbox_Gate_Invariant
  imports Sandbox_Gate Prelude
begin

text \<open>
  What the gate keeps: counters that are exact, lifecycle operations that take turns, a
  checkpoint that no request and no operation runs beside, a removal that nothing runs beside,
  and drains that always end.
\<close>

section \<open>Kinds of threads\<close>

fun isMutation :: "thread \<Rightarrow> bool" where
  "isMutation (Mutation st) = True"
| "isMutation t = False"

fun admitted :: "thread \<Rightarrow> bool" where
  "admitted (Forwarded e) = True"
| "admitted (Operation own) = True"
| "admitted t = False"

fun lifecycleWork :: "thread \<Rightarrow> bool" where
  "lifecycleWork LifecycleRead = True"
| "lifecycleWork (Mutation st) = True"
| "lifecycleWork t = False"

text \<open>What is inside the container: a forwarded request, or an operation of the current runtime.\<close>

fun inside :: "thread \<Rightarrow> bool" where
  "inside (Forwarded e) = True"
| "inside (Operation own) = own"
| "inside t = False"

fun begun :: "stage \<Rightarrow> bool" where
  "begun (Queued m) = False"
| "begun st = True"

definition calmInside :: "(nat \<times> thread) list \<Rightarrow> bool" where
  "calmInside ths = (\<forall>(k, t) \<in> set ths. \<not> inside t)"

definition mutationsOf :: "(nat \<times> thread) list \<Rightarrow> nat list" where
  "mutationsOf ths = map fst (filter (isMutation \<circ> snd) ths)"

definition countOf :: "(thread \<Rightarrow> bool) \<Rightarrow> (nat \<times> thread) list \<Rightarrow> nat" where
  "countOf P ths = length (filter (P \<circ> snd) ths)"

text \<open>Where the gate stands while a mutation is at a stage.\<close>

fun stage_ok :: "gate_phase option \<Rightarrow> bool \<Rightarrow> bool \<Rightarrow> stage \<Rightarrow> bool" where
  "stage_ok ph calm idle (WakeBody e r) = (ph = Some GWaking)"
| "stage_ok ph calm idle (StopDrain w p) = (ph = Some GQuiescing \<and> (if w then calm else \<not> idle))"
| "stage_ok ph calm idle (StopSettle p) = (ph = Some GQuiescing \<and> calm)"
| "stage_ok ph calm idle (StopInspect p) = (ph = Some GQuiescing \<and> calm)"
| "stage_ok ph calm idle (StopPersist p) = (ph = Some GCheckpointing)"
| "stage_ok ph calm idle (StopTerminate p) = (ph = Some GStopping)"
| "stage_ok ph calm idle st = True"

fun thread_ok :: "sandbox \<Rightarrow> nat \<Rightarrow> thread \<Rightarrow> bool" where
  "thread_ok s k (Mutation st) =
     ((begun st \<longrightarrow> hd (mutationTail s) = k)
      \<and> stage_ok (phaseOf s) (calmInside (threads s)) (activeOperations s = 0) st)"
| "thread_ok s k (PurgeWait keep a b) =
     (purging s \<and> a = (activeOperations s = 0) \<and> b = (lifecycleOperations s = 0))"
| "thread_ok s k (PurgeRemove keep) =
     (purging s \<and> activeOperations s = 0 \<and> lifecycleOperations s = 0)"
| "thread_ok s k t = True"

definition shut :: "gate_phase option \<Rightarrow> bool" where
  "shut ph = (ph = Some GCheckpointing \<or> ph = Some GStopping)"

definition books_ok :: "sandbox \<Rightarrow> bool" where
  "books_ok s =
     (distinct (map fst (threads s)) \<and> (\<forall>k \<in> fst ` set (threads s). k < nextThread s)
      \<and> mutationTail s = mutationsOf (threads s)
      \<and> activeOperations s = countOf admitted (threads s)
      \<and> lifecycleOperations s = countOf lifecycleWork (threads s))"

definition gate_inv :: "sandbox \<Rightarrow> bool" where
  "gate_inv s =
     (books_ok s \<and> (\<forall>(k, t) \<in> set (threads s). thread_ok s k t)
      \<and> (shut (phaseOf s) \<longrightarrow> calmInside (threads s)))"

section \<open>Lists of threads\<close>

lemma countOf_append [simp]: "countOf P (xs @ ys) = countOf P xs + countOf P ys"
  by (simp add: countOf_def)

lemma countOf_one [simp]: "countOf P [(k, t)] = (if P t then 1 else 0)"
  by (simp add: countOf_def)

lemma countOf_Nil [simp]: "countOf P [] = 0"
  by (simp add: countOf_def)

lemma countOf_Cons: "countOf P ((j, u) # ths) = (if P u then 1 else 0) + countOf P ths"
  by (simp add: countOf_def)

lemma countOf_zero: "countOf P ths = 0 \<longleftrightarrow> (\<forall>(k, t) \<in> set ths. \<not> P t)"
  by (auto simp: countOf_def filter_empty_conv)

lemma countOf_pos: "map_of ths k = Some t \<Longrightarrow> P t \<Longrightarrow> 0 < countOf P ths"
  unfolding countOf_def by (rule length_pos_if_in_set [of "(k, t)"]) (simp add: map_of_SomeD)

lemma drop_absent: "k \<notin> fst ` set ths \<Longrightarrow> filter (\<lambda>(j, u). j \<noteq> k) ths = ths"
  by (intro filter_True) force

lemma become_absent: "k \<notin> fst ` set ths \<Longrightarrow> map (\<lambda>(j, u). (j, if j = k then t' else u)) ths = ths"
  by (intro map_idI) force

lemma countOf_drop:
  "distinct (map fst ths) \<Longrightarrow> map_of ths k = Some t
   \<Longrightarrow> countOf P (filter (\<lambda>(j, u). j \<noteq> k) ths) = countOf P ths - (if P t then 1 else 0)"
proof (induction ths)
  case (Cons x ths)
  obtain j u where x: "x = (j, u)" by (cases x)
  show ?case
  proof (cases "j = k")
    case True
    with Cons.prems x show ?thesis by (simp add: countOf_Cons drop_absent)
  next
    case False
    then have at: "map_of ths k = Some t" using Cons.prems x by simp
    with Cons x have "countOf P (filter (\<lambda>(j, u). j \<noteq> k) ths) = countOf P ths - (if P t then 1 else 0)"
      by simp
    then show ?thesis using False countOf_pos [OF at, of P] by (simp add: countOf_Cons x)
  qed
qed simp

lemma countOf_become:
  "distinct (map fst ths) \<Longrightarrow> map_of ths k = Some t
   \<Longrightarrow> countOf P (map (\<lambda>(j, u). (j, if j = k then t' else u)) ths) + (if P t then 1 else 0)
       = countOf P ths + (if P t' then 1 else 0)"
proof (induction ths)
  case (Cons x ths)
  obtain j u where x: "x = (j, u)" by (cases x)
  show ?case
  proof (cases "j = k")
    case True
    with Cons.prems x show ?thesis by (simp add: countOf_Cons become_absent)
  next
    case False
    with Cons x have
      "countOf P (map (\<lambda>(j, u). (j, if j = k then t' else u)) ths) + (if P t then 1 else 0)
       = countOf P ths + (if P t' then 1 else 0)"
      by simp
    then show ?thesis using False by (simp add: countOf_Cons x)
  qed
qed simp

lemma countOf_same:
  assumes "\<And>t. P (f t) = P t"
  shows "countOf P (map (\<lambda>(k, t). (k, f t)) ths) = countOf P ths"
  by (induction ths) (simp_all add: countOf_def assms split_beta)

lemma keys_map [simp]: "map fst (map (\<lambda>(j, u). (j, f j u)) ths) = map fst ths"
  by (induction ths) auto

lemma keys_fst [simp]: "fst \<circ> (\<lambda>(j, u). (j, f j u)) = fst"
  by auto

lemma keys_drop: "distinct (map fst ths) \<Longrightarrow> distinct (map fst (filter P ths))"
  by (simp add: distinct_map_filter)

lemma mutationsOf_drop:
  "mutationsOf (filter (\<lambda>(j, u). j \<noteq> k) ths) = filter (\<lambda>j. j \<noteq> k) (mutationsOf ths)"
  by (induction ths) (auto simp: mutationsOf_def)

lemma mutationsOf_same:
  assumes "\<And>t. isMutation (f t) = isMutation t"
  shows "mutationsOf (map (\<lambda>(j, u). (j, f u)) ths) = mutationsOf ths"
  by (induction ths) (simp_all add: mutationsOf_def assms split_beta)

lemma mutationsOf_become:
  "distinct (map fst ths) \<Longrightarrow> map_of ths k = Some t \<Longrightarrow> isMutation t' = isMutation t
   \<Longrightarrow> mutationsOf (map (\<lambda>(j, u). (j, if j = k then t' else u)) ths) = mutationsOf ths"
proof (induction ths)
  case (Cons x ths)
  obtain j u where x: "x = (j, u)" by (cases x)
  show ?case
  proof (cases "j = k")
    case True
    with Cons.prems x show ?thesis by (simp add: mutationsOf_def become_absent)
  next
    case False
    with Cons x have "mutationsOf (map (\<lambda>(j, u). (j, if j = k then t' else u)) ths) = mutationsOf ths"
      by simp
    then show ?thesis using False by (simp add: mutationsOf_def x)
  qed
qed simp

lemma mutationsOf_append [simp]: "mutationsOf (xs @ ys) = mutationsOf xs @ mutationsOf ys"
  by (simp add: mutationsOf_def)

lemma mutationsOf_one [simp]: "mutationsOf [(k, t)] = (if isMutation t then [k] else [])"
  by (simp add: mutationsOf_def)

lemma mutation_in_tail: "(k, Mutation st) \<in> set ths \<Longrightarrow> k \<in> set (mutationsOf ths)"
  by (force simp: mutationsOf_def)

lemma filter_absent: "k \<notin> set xs \<Longrightarrow> filter (\<lambda>j. j \<noteq> k) xs = xs"
  by (intro filter_True) auto

lemma mutationsOf_drop_other:
  assumes "distinct (map fst ths)" and "map_of ths k = Some t" and "\<not> isMutation t"
  shows "mutationsOf (filter (\<lambda>(j, u). j \<noteq> k) ths) = mutationsOf ths"
proof -
  have "k \<notin> set (mutationsOf ths)"
    using assms by (auto simp: mutationsOf_def dest: map_of_SomeD eq_key_imp_eq_value)
  then show ?thesis by (simp add: mutationsOf_drop filter_absent)
qed

lemma releaseOps_kinds [simp]:
  "isMutation (releaseOps t) = isMutation t" "admitted (releaseOps t) = admitted t"
  "lifecycleWork (releaseOps t) = lifecycleWork t" "inside (releaseOps t) = inside t"
  by (cases t rule: releaseOps.cases; simp)+

lemma releaseLife_kinds [simp]:
  "isMutation (releaseLife t) = isMutation t" "admitted (releaseLife t) = admitted t"
  "lifecycleWork (releaseLife t) = lifecycleWork t" "inside (releaseLife t) = inside t"
  by (cases t rule: releaseLife.cases; simp)+

section \<open>What the small changes leave alone\<close>

lemma setBelief_frame [simp]:
  "threads (setBelief b s) = threads s" "mutationTail (setBelief b s) = mutationTail s"
  "nextThread (setBelief b s) = nextThread s" "activeOperations (setBelief b s) = activeOperations s"
  "lifecycleOperations (setBelief b s) = lifecycleOperations s" "purging (setBelief b s) = purging s"
  "gate (setBelief b s) = gate s" "phaseOf (setBelief b s) = phaseOf s" "ident (setBelief b s) = ident s"
  "active (setBelief b s) = active s" "believed (setBelief b s) = b"
  by (simp_all add: setBelief_def phaseOf_def)

lemma setRuntimeGate_frame [simp]:
  "threads (setRuntimeGate p e r x s) = threads s"
  "mutationTail (setRuntimeGate p e r x s) = mutationTail s"
  "nextThread (setRuntimeGate p e r x s) = nextThread s"
  "activeOperations (setRuntimeGate p e r x s) = activeOperations s"
  "lifecycleOperations (setRuntimeGate p e r x s) = lifecycleOperations s"
  "purging (setRuntimeGate p e r x s) = purging s" "phaseOf (setRuntimeGate p e r x s) = Some p"
  "ident (setRuntimeGate p e r x s) = ident s" "active (setRuntimeGate p e r x s) = active s"
  "believed (setRuntimeGate p e r x s) = believed s"
  by (simp_all add: setRuntimeGate_def phaseOf_def Let_def)

lemma become_frame [simp]:
  "mutationTail (become k t s) = mutationTail s" "nextThread (become k t s) = nextThread s"
  "activeOperations (become k t s) = activeOperations s"
  "lifecycleOperations (become k t s) = lifecycleOperations s" "purging (become k t s) = purging s"
  "phaseOf (become k t s) = phaseOf s"
  "threads (become k t s) = map (\<lambda>(j, u). (j, if j = k then t else u)) (threads s)"
  by (simp_all add: become_def phaseOf_def)

lemma drop_frame [simp]:
  "mutationTail (drop_thread k s) = mutationTail s" "nextThread (drop_thread k s) = nextThread s"
  "activeOperations (drop_thread k s) = activeOperations s"
  "lifecycleOperations (drop_thread k s) = lifecycleOperations s"
  "purging (drop_thread k s) = purging s" "phaseOf (drop_thread k s) = phaseOf s"
  "threads (drop_thread k s) = filter (\<lambda>(j, u). j \<noteq> k) (threads s)"
  by (simp_all add: drop_thread_def phaseOf_def)

lemma spawn_frame [simp]:
  "mutationTail (spawn t s) = mutationTail s" "nextThread (spawn t s) = nextThread s + 1"
  "activeOperations (spawn t s) = activeOperations s"
  "lifecycleOperations (spawn t s) = lifecycleOperations s"
  "purging (spawn t s) = purging s" "phaseOf (spawn t s) = phaseOf s"
  "threads (spawn t s) = threads s @ [(nextThread s, t)]"
  by (simp_all add: spawn_def phaseOf_def)

text \<open>What the invariant reads of a state; two states that agree on it agree on the invariant.\<close>

definition core :: "sandbox \<Rightarrow> (nat \<times> thread) list \<times> nat list \<times> nat \<times> nat \<times> nat \<times> bool" where
  "core s = (threads s, mutationTail s, nextThread s, activeOperations s, lifecycleOperations s, purging s)"

lemma core_same:
  "core s' = core s \<longleftrightarrow>
     threads s' = threads s \<and> mutationTail s' = mutationTail s \<and> nextThread s' = nextThread s
     \<and> activeOperations s' = activeOperations s \<and> lifecycleOperations s' = lifecycleOperations s
     \<and> purging s' = purging s"
  by (simp add: core_def)

lemma core_changes [simp]:
  "core (setBelief b s) = core s" "core (setRuntimeGate p e r x s) = core s"
  by (simp_all add: core_def)

lemma thread_ok_same:
  assumes "core s' = core s" and "phaseOf s' = phaseOf s"
  shows "thread_ok s' k t = thread_ok s k t"
  using assms by (cases t) (simp_all add: core_def)

lemma gate_inv_same:
  assumes "gate_inv s" and "core s' = core s" and "phaseOf s' = phaseOf s"
  shows "gate_inv s'"
  using assms thread_ok_same [OF assms(2,3)]
  by (simp add: gate_inv_def books_ok_def core_same)

section \<open>One mutation at a time\<close>

lemma books_move:
  assumes "books_ok s" and "core s' = core s" and "threadAt k s = Some (Mutation st0)"
  shows "books_ok (moveTo k st s')"
  using assms mutationsOf_become [of "threads s" k "Mutation st0" "Mutation st"]
    countOf_become [of "threads s" k "Mutation st0" admitted "Mutation st"]
    countOf_become [of "threads s" k "Mutation st0" lifecycleWork "Mutation st"]
  by (auto simp: books_ok_def core_same moveTo_def threadAt_def)

lemma calm_count: "calmInside ths \<longleftrightarrow> countOf inside ths = 0"
  by (simp add: calmInside_def countOf_zero)

lemma calm_become [simp]:
  assumes "distinct (map fst ths)" and "map_of ths k = Some t" and "inside t = inside t'"
  shows "calmInside (map (\<lambda>(j, u). (j, if j = k then t' else u)) ths) = calmInside ths"
  using countOf_become [OF assms(1,2), of inside t'] assms(3) by (simp add: calm_count split: if_splits)

lemma gate_invI:
  assumes "books_ok s" and "\<And>j u. (j, u) \<in> set (threads s) \<Longrightarrow> thread_ok s j u"
    and "shut (phaseOf s) \<Longrightarrow> calmInside (threads s)"
  shows "gate_inv s"
  using assms by (auto simp: gate_inv_def)

lemma gate_invD:
  assumes "gate_inv s"
  shows "books_ok s" "(k, t) \<in> set (threads s) \<Longrightarrow> thread_ok s k t"
    "shut (phaseOf s) \<Longrightarrow> calmInside (threads s)" "distinct (map fst (threads s))"
  using assms by (auto simp: gate_inv_def books_ok_def)

text \<open>Only the mutation whose turn it is has begun.\<close>

lemma others_queued:
  assumes "gate_inv s" and "(j, Mutation st) \<in> set (threads s)" and "hd (mutationTail s) \<noteq> j"
  shows "\<not> begun st"
  using gate_invD(2) [OF assms(1,2)] assms(3) by auto

lemma queued_ok: "\<not> begun st \<Longrightarrow> stage_ok ph calm idle st"
  by (cases st) auto

lemma kept_move:
  assumes inv: "gate_inv s" and at: "threadAt k s = Some (Mutation st0)" and turn: "hd (mutationTail s) = k"
    and same: "core s' = core s"
    and ok: "stage_ok (phaseOf s') (calmInside (threads s)) (activeOperations s = 0) st"
    and shut: "shut (phaseOf s') \<Longrightarrow> calmInside (threads s)"
  shows "gate_inv (moveTo k st s')"
proof -
  have at': "map_of (threads s) k = Some (Mutation st0)" using at by (simp add: threadAt_def)
  have calm: "calmInside (threads (moveTo k st s')) = calmInside (threads s)"
    using same gate_invD(4) [OF inv] at' by (simp add: moveTo_def core_same)
  have "thread_ok (moveTo k st s') j u" if "(j, u) \<in> set (threads (moveTo k st s'))" for j u
  proof (cases "j = k")
    case True
    then have "u = Mutation st" using that same by (auto simp: moveTo_def)
    then show ?thesis using True ok turn same calm by (simp add: moveTo_def core_same)
  next
    case False
    then have mem: "(j, u) \<in> set (threads s)" using that same by (auto simp: moveTo_def core_same)
    then have "thread_ok s j u" by (rule gate_invD(2) [OF inv])
    moreover have "\<not> begun st'" if "u = Mutation st'" for st'
      using others_queued [OF inv] mem that turn False by blast
    ultimately show ?thesis using same by (cases u) (auto simp: moveTo_def core_same queued_ok)
  qed
  moreover have "phaseOf (moveTo k st s') = phaseOf s'" by (simp add: moveTo_def)
  ultimately show ?thesis
    using books_move [OF gate_invD(1) [OF inv] same at] shut calm
    by (intro gate_invI) simp_all
qed

text \<open>A mutation ends: the next one may have its turn, and a waiting purge hears of it.\<close>

lemma books_mutationEnds:
  assumes "books_ok s" and "core s' = core s" and "threadAt k s = Some (Mutation st0)"
  shows "books_ok (mutationEnds k s')"
  using assms countOf_drop [of "threads s" k "Mutation st0" admitted]
    countOf_drop [of "threads s" k "Mutation st0" lifecycleWork]
  by (auto simp: books_ok_def core_same mutationEnds_def finishLifecycleOperation_def Let_def
      threadAt_def mutationsOf_drop mutationsOf_same countOf_same keys_drop)

lemma calm_drop: "calmInside ths \<Longrightarrow> calmInside (filter P ths)"
  by (auto simp: calmInside_def)

lemma calm_release:
  "(\<And>t. inside (f t) = inside t) \<Longrightarrow> calmInside (map (\<lambda>(j, u). (j, f u)) ths) = calmInside ths"
  by (simp add: calm_count countOf_same)

definition releasedLife :: "sandbox \<Rightarrow> (nat \<times> thread) list \<Rightarrow> (nat \<times> thread) list" where
  "releasedLife s ths = (if lifecycleOperations s - 1 = 0 then map (\<lambda>(j, u). (j, releaseLife u)) ths else ths)"

definition releasedOps :: "sandbox \<Rightarrow> (nat \<times> thread) list \<Rightarrow> (nat \<times> thread) list" where
  "releasedOps s ths = (if activeOperations s - 1 = 0 then map (\<lambda>(j, u). (j, releaseOps u)) ths else ths)"

lemma finishLife_frame [simp]:
  "mutationTail (finishLifecycleOperation s) = mutationTail s"
  "nextThread (finishLifecycleOperation s) = nextThread s"
  "activeOperations (finishLifecycleOperation s) = activeOperations s"
  "lifecycleOperations (finishLifecycleOperation s) = lifecycleOperations s - 1"
  "purging (finishLifecycleOperation s) = purging s" "phaseOf (finishLifecycleOperation s) = phaseOf s"
  "threads (finishLifecycleOperation s) = releasedLife s (threads s)"
  by (simp_all add: finishLifecycleOperation_def Let_def phaseOf_def releasedLife_def)

lemma finishOps_frame [simp]:
  "mutationTail (finishActiveOperation s) = mutationTail s"
  "nextThread (finishActiveOperation s) = nextThread s"
  "activeOperations (finishActiveOperation s) = activeOperations s - 1"
  "lifecycleOperations (finishActiveOperation s) = lifecycleOperations s"
  "purging (finishActiveOperation s) = purging s" "phaseOf (finishActiveOperation s) = phaseOf s"
  "threads (finishActiveOperation s) = releasedOps s (threads s)"
  by (simp_all add: finishActiveOperation_def Let_def phaseOf_def releasedOps_def)

lemma mutationEnds_frame [simp]:
  "mutationTail (mutationEnds k s) = filter (\<lambda>j. j \<noteq> k) (mutationTail s)"
  "activeOperations (mutationEnds k s) = activeOperations s"
  "lifecycleOperations (mutationEnds k s) = lifecycleOperations s - 1"
  "purging (mutationEnds k s) = purging s" "phaseOf (mutationEnds k s) = phaseOf s"
  "threads (mutationEnds k s) = releasedLife s (filter (\<lambda>(j, u). j \<noteq> k) (threads s))"
  by (simp_all add: mutationEnds_def releasedLife_def phaseOf_def drop_thread_def
      finishLifecycleOperation_def Let_def)

lemma releasedLife_in:
  "(j, u) \<in> set (releasedLife s ths) \<Longrightarrow>
     \<exists>u0. (j, u0) \<in> set ths \<and> u = (if lifecycleOperations s - 1 = 0 then releaseLife u0 else u0)"
  by (auto simp: releasedLife_def split: if_splits)

lemma releasedOps_in:
  "(j, u) \<in> set (releasedOps s ths) \<Longrightarrow>
     \<exists>u0. (j, u0) \<in> set ths \<and> u = (if activeOperations s - 1 = 0 then releaseOps u0 else u0)"
  by (auto simp: releasedOps_def split: if_splits)

lemma calm_released [simp]:
  "calmInside (releasedLife s ths) = calmInside ths" "calmInside (releasedOps s ths) = calmInside ths"
  by (simp_all add: releasedLife_def releasedOps_def calm_release)

lemma counted_life:
  assumes "books_ok s" and "threadAt k s = Some t" and "lifecycleWork t"
  shows "0 < lifecycleOperations s"
  using assms countOf_pos [of "threads s" k t lifecycleWork] by (simp add: books_ok_def threadAt_def)

lemma counted_ops:
  assumes "books_ok s" and "threadAt k s = Some t" and "admitted t"
  shows "0 < activeOperations s"
  using assms countOf_pos [of "threads s" k t admitted] by (simp add: books_ok_def threadAt_def)

lemma kept_end:
  assumes inv: "gate_inv s" and at: "threadAt k s = Some (Mutation st0)" and turn: "hd (mutationTail s) = k"
    and same: "core s' = core s"
    and shut: "shut (phaseOf s') \<Longrightarrow> calmInside (threads s)"
  shows "gate_inv (mutationEnds k s')"
proof (rule gate_invI)
  show "books_ok (mutationEnds k s')" by (rule books_mutationEnds [OF gate_invD(1) [OF inv] same at])
  show "calmInside (threads (mutationEnds k s'))" if "shut (phaseOf (mutationEnds k s'))"
    using shut that same by (simp add: core_same calm_drop)
next
  fix j u assume "(j, u) \<in> set (threads (mutationEnds k s'))"
  then obtain u0 where mem: "(j, u0) \<in> set (threads s)" and other: "j \<noteq> k"
    and u: "u = (if lifecycleOperations s - 1 = 0 then releaseLife u0 else u0)"
    using same by (fastforce simp: core_same dest!: releasedLife_in)
  have pos: "0 < lifecycleOperations s"
    by (rule counted_life [OF gate_invD(1) [OF inv] at]) simp
  have "thread_ok s j u0" using mem by (rule gate_invD(2) [OF inv])
  moreover have "\<not> begun st'" if "u0 = Mutation st'" for st'
    using others_queued [OF inv] mem that turn other by blast
  ultimately show "thread_ok (mutationEnds k s') j u"
    using pos same u by (cases u0) (auto simp: core_same queued_ok)
qed

text \<open>A read ends, and an admitted request or operation.\<close>

lemma books_finishLife:
  assumes "books_ok s" and "core s' = core s" and "threadAt k s = Some LifecycleRead"
  shows "books_ok (finishLifecycleOperation (drop_thread k s'))"
  using assms countOf_drop [of "threads s" k LifecycleRead admitted]
    countOf_drop [of "threads s" k LifecycleRead lifecycleWork]
    mutationsOf_drop_other [of "threads s" k LifecycleRead]
  by (auto simp: books_ok_def core_same releasedLife_def threadAt_def mutationsOf_same countOf_same keys_drop)

lemma admitted_kinds: "admitted t \<Longrightarrow> \<not> isMutation t \<and> \<not> lifecycleWork t"
  by (cases t) auto

lemma inside_admitted: "inside t \<Longrightarrow> admitted t"
  by (cases t) auto

lemma books_finishOps:
  assumes "books_ok s" and "core s' = core s" and "threadAt k s = Some t" and "admitted t"
  shows "books_ok (finishActiveOperation (drop_thread k s'))"
  using assms admitted_kinds [OF assms(4)] countOf_drop [of "threads s" k t admitted]
    countOf_drop [of "threads s" k t lifecycleWork] mutationsOf_drop_other [of "threads s" k t]
  by (auto simp: books_ok_def core_same releasedOps_def threadAt_def mutationsOf_same countOf_same keys_drop)

lemma kept_finishLife:
  assumes inv: "gate_inv s" and at: "threadAt k s = Some LifecycleRead"
    and same: "core s' = core s" and ph: "phaseOf s' = phaseOf s"
  shows "gate_inv (finishLifecycleOperation (drop_thread k s'))"
proof (rule gate_invI)
  show "books_ok (finishLifecycleOperation (drop_thread k s'))"
    by (rule books_finishLife [OF gate_invD(1) [OF inv] same at])
  show "calmInside (threads (finishLifecycleOperation (drop_thread k s')))"
    if "shut (phaseOf (finishLifecycleOperation (drop_thread k s')))"
    using gate_invD(3) [OF inv] that same ph by (simp add: core_same calm_drop)
next
  fix j u assume "(j, u) \<in> set (threads (finishLifecycleOperation (drop_thread k s')))"
  then obtain u0 where mem: "(j, u0) \<in> set (threads s)"
    and u: "u = (if lifecycleOperations s - 1 = 0 then releaseLife u0 else u0)"
    using same by (fastforce simp: core_same dest!: releasedLife_in)
  have pos: "0 < lifecycleOperations s"
    by (rule counted_life [OF gate_invD(1) [OF inv] at]) simp
  have "thread_ok s j u0" using mem by (rule gate_invD(2) [OF inv])
  moreover have "stage_ok ph (calmInside (filter P (threads s))) idle st"
    if "stage_ok ph (calmInside (threads s)) idle st" for ph idle st P
    using that by (cases st) (auto simp: calm_drop split: if_splits)
  ultimately show "thread_ok (finishLifecycleOperation (drop_thread k s')) j u"
    using pos same ph u by (cases u0) (auto simp: core_same)
qed

text \<open>Once the last admitted thread is gone, nothing is inside.\<close>

lemma empty_is_calm: "books_ok s \<Longrightarrow> activeOperations s = 0 \<Longrightarrow> calmInside (threads s)"
  using inside_admitted by (fastforce simp: books_ok_def countOf_zero calmInside_def)

lemma stage_ok_calmer:
  assumes "stage_ok ph calm idle st" and "calm \<Longrightarrow> calm'" and "\<not> idle \<Longrightarrow> \<not> idle'"
  shows "stage_ok ph calm' idle' st"
  using assms by (cases st) (auto split: if_splits)

lemma stage_ok_woken:
  assumes "thread_ok s j (Mutation st)" and "activeOperations s' = 0" and "calmInside (threads s')"
    and "phaseOf s' = phaseOf s" and "mutationTail s' = mutationTail s"
  shows "thread_ok s' j (releaseOps (Mutation st))"
  using assms by (cases st) auto

lemma kept_finishOps:
  assumes inv: "gate_inv s" and at: "threadAt k s = Some t" and adm: "admitted t"
    and same: "core s' = core s" and ph: "phaseOf s' = phaseOf s"
  shows "gate_inv (finishActiveOperation (drop_thread k s'))" (is "gate_inv ?s")
proof (rule gate_invI)
  show books: "books_ok ?s"
    by (rule books_finishOps [OF gate_invD(1) [OF inv] same at adm])
  show "calmInside (threads ?s)" if "shut (phaseOf ?s)"
    using gate_invD(3) [OF inv] that same ph by (simp add: core_same calm_drop)
  fix j u assume "(j, u) \<in> set (threads ?s)"
  then obtain u0 where mem: "(j, u0) \<in> set (threads s)"
    and u: "u = (if activeOperations s - 1 = 0 then releaseOps u0 else u0)"
    using same by (fastforce simp: core_same dest!: releasedOps_in)
  have pos: "0 < activeOperations s"
    by (rule counted_ops [OF gate_invD(1) [OF inv] at adm])
  have ops: "activeOperations ?s = activeOperations s - 1" using same by (simp add: core_same)
  have tail: "mutationTail ?s = mutationTail s" "phaseOf ?s = phaseOf s" using same ph by (simp_all add: core_same)
  have ok: "thread_ok s j u0" using mem by (rule gate_invD(2) [OF inv])
  show "thread_ok ?s j u"
  proof (cases "\<exists>st. u0 = Mutation st")
    case False
    then show ?thesis using ok pos same u by (cases u0) (auto simp: core_same)
  next
    case True
    then obtain st where u0: "u0 = Mutation st" ..
    show ?thesis
    proof (cases "activeOperations s - 1 = 0")
      case True
      then have "calmInside (threads ?s)" using empty_is_calm [OF books] ops by simp
      then show ?thesis
        using stage_ok_woken [of s j st ?s] ok u0 u True ops tail by simp
    next
      case False
      have "stage_ok (phaseOf s) (calmInside (threads ?s)) (activeOperations ?s = 0) st"
        by (rule stage_ok_calmer [of _ "calmInside (threads s)" "activeOperations s = 0"])
          (use ok u0 False ops same in \<open>simp_all add: core_same calm_drop\<close>)
      then show ?thesis using ok u0 u False tail by simp
    qed
  qed
qed

section \<open>Arrivals\<close>

lemma fresh_key: "books_ok s \<Longrightarrow> nextThread s \<notin> fst ` set (threads s)"
  by (auto simp: books_ok_def)

text \<open>
  A new thread, with its counter: the purge barrier is down (or the new thread is the purge
  itself), and something goes inside only where the gate is open.
\<close>

lemma kept_arrival:
  assumes inv: "gate_inv s" and nxt: "nextThread s' = nextThread s + 1"
    and ths: "threads s' = threads s @ [(nextThread s, t)]"
    and tail: "mutationTail s' = mutationTail s @ (if isMutation t then [nextThread s] else [])"
    and ops: "activeOperations s' = activeOperations s + (if admitted t then 1 else 0)"
    and life: "lifecycleOperations s' = lifecycleOperations s + (if lifecycleWork t then 1 else 0)"
    and purge: "purging s \<Longrightarrow> purging s'"
    and ph: "phaseOf s' = phaseOf s"
    and barrier: "purging s \<Longrightarrow> \<not> admitted t \<and> \<not> lifecycleWork t"
    and gate: "inside t \<Longrightarrow> phaseOf s = Some GRunning"
    and queued: "\<And>st. t = Mutation st \<Longrightarrow> \<not> begun st"
    and new: "thread_ok s' (nextThread s) t"
  shows "gate_inv s'"
proof (rule gate_invI)
  show "books_ok s'"
    using gate_invD(1) [OF inv] nxt ths tail ops life by (auto simp: books_ok_def)
  have calm: "calmInside (threads s') = (calmInside (threads s) \<and> \<not> inside t)"
    using ths by (auto simp: calmInside_def)
  show "calmInside (threads s')" if "shut (phaseOf s')"
    using gate_invD(3) [OF inv] that ph gate calm by (auto simp: shut_def)
  fix j u assume "(j, u) \<in> set (threads s')"
  then consider "j = nextThread s" "u = t" | "(j, u) \<in> set (threads s)" using ths by auto
  then show "thread_ok s' j u"
  proof cases
    case 2
    then have ok: "thread_ok s j u" by (rule gate_invD(2) [OF inv])
    have head: "hd (mutationTail s') = hd (mutationTail s)" if "u = Mutation st" for st
    proof -
      have "mutationTail s \<noteq> []"
        using mutation_in_tail [of j st "threads s"] 2 that gate_invD(1) [OF inv]
        by (auto simp: books_ok_def)
      then show ?thesis using tail by simp
    qed
    show ?thesis
    proof (cases u)
      case (Mutation st)
      have "stage_ok (phaseOf s) (calmInside (threads s')) (activeOperations s' = 0) st"
        using ok Mutation calm ops gate by (cases st) (auto split: if_splits)
      then show ?thesis using ok Mutation head ph by auto
    qed (use ok purge barrier ops life in auto)
  qed (use new in simp)
qed

text \<open>A request is let inside: the gate is open, so no stop has drained and no purge waits.\<close>

lemma kept_forward:
  assumes inv: "gate_inv s" and at: "threadAt k s = Some (Remembering e)"
    and gate: "phaseOf s = Some GRunning" and up: "\<not> purging s"
  shows "gate_inv (become k (Forwarded e) (s\<lparr>activeOperations := activeOperations s + 1\<rparr>))" (is "gate_inv ?s")
proof (rule gate_invI)
  have at': "map_of (threads s) k = Some (Remembering e)" using at by (simp add: threadAt_def)
  have ph: "phaseOf ?s = Some GRunning" using gate by (simp add: phaseOf_def become_def)
  show "books_ok ?s"
    using gate_invD(1) [OF inv] at' mutationsOf_become [OF gate_invD(4) [OF inv] at', of "Forwarded e"]
      countOf_become [OF gate_invD(4) [OF inv] at', of admitted "Forwarded e"]
      countOf_become [OF gate_invD(4) [OF inv] at', of lifecycleWork "Forwarded e"]
    by (auto simp: books_ok_def)
  show "calmInside (threads ?s)" if "shut (phaseOf ?s)" using that ph by (simp add: shut_def)
  fix j u assume "(j, u) \<in> set (threads ?s)"
  then consider "u = Forwarded e" | "(j, u) \<in> set (threads s)" by (auto split: if_splits)
  then show "thread_ok ?s j u"
  proof cases
    case 2
    then have ok: "thread_ok s j u" by (rule gate_invD(2) [OF inv])
    show ?thesis
    proof (cases u)
      case (Mutation st)
      then show ?thesis using ok gate ph by (cases st) auto
    qed (use ok up in auto)
  qed simp
qed

lemma kept_drop:
  assumes inv: "gate_inv s" and at: "threadAt k s = Some t"
    and plain: "\<not> isMutation t" "\<not> admitted t" "\<not> lifecycleWork t"
    and same: "core s' = core s" and ph: "phaseOf s' = phaseOf s"
  shows "gate_inv (drop_thread k s')"
proof (rule gate_invI)
  have at': "map_of (threads s) k = Some t" using at by (simp add: threadAt_def)
  show "books_ok (drop_thread k s')"
    using gate_invD(1) [OF inv] plain same mutationsOf_drop_other [OF gate_invD(4) [OF inv] at']
      countOf_drop [OF gate_invD(4) [OF inv] at', of admitted]
      countOf_drop [OF gate_invD(4) [OF inv] at', of lifecycleWork]
    by (auto simp: books_ok_def core_same keys_drop)
  show "calmInside (threads (drop_thread k s'))" if "shut (phaseOf (drop_thread k s'))"
    using gate_invD(3) [OF inv] that same ph by (simp add: core_same calm_drop)
  fix j u assume "(j, u) \<in> set (threads (drop_thread k s'))"
  then have "(j, u) \<in> set (threads s)" using same by (auto simp: core_same)
  then have ok: "thread_ok s j u" by (rule gate_invD(2) [OF inv])
  show "thread_ok (drop_thread k s') j u"
  proof (cases u)
    case (Mutation st)
    have "stage_ok (phaseOf s) (calmInside (threads (drop_thread k s'))) (activeOperations s = 0) st"
      by (rule stage_ok_calmer [of _ "calmInside (threads s)" "activeOperations s = 0"])
        (use ok Mutation same in \<open>simp_all add: core_same calm_drop\<close>)
    then show ?thesis using ok Mutation same ph by (simp add: core_same)
  qed (use ok same in \<open>auto simp: core_same\<close>)
qed

lemma kept_purge_go:
  assumes inv: "gate_inv s" and at: "threadAt k s = Some (PurgeWait keep True True)"
  shows "gate_inv (become k (PurgeRemove keep) s)" (is "gate_inv ?s")
proof (rule gate_invI)
  have at': "map_of (threads s) k = Some (PurgeWait keep True True)" using at by (simp add: threadAt_def)
  have calm: "calmInside (threads ?s) = calmInside (threads s)"
    using gate_invD(4) [OF inv] at' by simp
  show "books_ok ?s"
    using gate_invD(1) [OF inv] mutationsOf_become [OF gate_invD(4) [OF inv] at', of "PurgeRemove keep"]
      countOf_become [OF gate_invD(4) [OF inv] at', of admitted "PurgeRemove keep"]
      countOf_become [OF gate_invD(4) [OF inv] at', of lifecycleWork "PurgeRemove keep"]
    by (auto simp: books_ok_def)
  show "calmInside (threads ?s)" if "shut (phaseOf ?s)"
    using gate_invD(3) [OF inv] that calm by simp
  fix j u assume mem: "(j, u) \<in> set (threads ?s)"
  have old: "thread_ok s k (PurgeWait keep True True)"
    using map_of_SomeD [OF at'] by (rule gate_invD(2) [OF inv])
  show "thread_ok ?s j u"
  proof (cases "u = PurgeRemove keep")
    case True
    then show ?thesis using old by simp
  next
    case False
    then have "(j, u) \<in> set (threads s)" using mem by (auto split: if_splits)
    then have ok: "thread_ok s j u" by (rule gate_invD(2) [OF inv])
    then show ?thesis using calm by (cases u) auto
  qed
qed

section \<open>The steps of a mutation\<close>

text \<open>A mutation at its turn, in a state of the invariant.\<close>

definition at_turn :: "sandbox \<Rightarrow> nat \<Rightarrow> stage \<Rightarrow> bool" where
  "at_turn s k st = (gate_inv s \<and> threadAt k s = Some (Mutation st) \<and> hd (mutationTail s) = k)"

lemma move_at_turn:
  "at_turn s k st0 \<Longrightarrow> core s' = core s
   \<Longrightarrow> stage_ok (phaseOf s') (calmInside (threads s)) (activeOperations s = 0) st
   \<Longrightarrow> (shut (phaseOf s') \<Longrightarrow> calmInside (threads s)) \<Longrightarrow> gate_inv (moveTo k st s')"
  unfolding at_turn_def by (blast intro: kept_move)

lemma end_at_turn:
  "at_turn s k st0 \<Longrightarrow> core s' = core s \<Longrightarrow> (shut (phaseOf s') \<Longrightarrow> calmInside (threads s))
   \<Longrightarrow> gate_inv (mutationEnds k s')"
  unfolding at_turn_def by (blast intro: kept_end)

lemma turn_shut: "at_turn s k st \<Longrightarrow> shut (phaseOf s) \<Longrightarrow> calmInside (threads s)"
  by (simp add: at_turn_def gate_inv_def)

lemma turn_idle: "at_turn s k st \<Longrightarrow> activeOperations s = 0 \<Longrightarrow> calmInside (threads s)"
  unfolding at_turn_def using empty_is_calm gate_invD(1) by blast

lemma turn_stage:
  assumes "at_turn s k st"
  shows "stage_ok (phaseOf s) (calmInside (threads s)) (activeOperations s = 0) st"
proof -
  have "(k, Mutation st) \<in> set (threads s)"
    using assms by (simp add: at_turn_def threadAt_def map_of_SomeD)
  moreover have "gate_inv s" using assms by (simp add: at_turn_def)
  ultimately have "thread_ok s k (Mutation st)" by (rule gate_invD(2) [rotated])
  then show ?thesis by simp
qed

lemma begun_at_turn:
  assumes "gate_inv s" and "threadAt k s = Some (Mutation st)" and "begun st"
  shows "at_turn s k st"
proof -
  have "(k, Mutation st) \<in> set (threads s)" using assms by (simp add: threadAt_def map_of_SomeD)
  then have "thread_ok s k (Mutation st)" by (rule gate_invD(2) [OF assms(1)])
  then show ?thesis using assms by (simp add: at_turn_def)
qed

lemma shut_values [simp]:
  "\<not> shut (Some GWaking)" "\<not> shut (Some GRunning)" "\<not> shut (Some GQuiescing)" "\<not> shut (Some GSleeping)"
  "\<not> shut None" "shut (Some GCheckpointing)" "shut (Some GStopping)"
  by (simp_all add: shut_def)

lemma keeps_startWake: "at_turn s k st \<Longrightarrow> core s' = core s \<Longrightarrow> gate_inv (startWake k e s')"
  unfolding startWake_def Let_def by (rule move_at_turn) simp_all

lemma keeps_performWake: "at_turn s k st \<Longrightarrow> gate_inv (performWake k i e s)"
  by (auto simp: performWake_def intro: move_at_turn end_at_turn keeps_startWake turn_shut)

lemma keeps_wakeProbed: "at_turn s k st \<Longrightarrow> gate_inv (wakeProbed k e up s)"
  by (auto simp: wakeProbed_def Let_def intro!: move_at_turn keeps_startWake intro: turn_shut)

lemma keeps_wakeBodyEnds: "at_turn s k st \<Longrightarrow> gate_inv (wakeBodyEnds k e r ok s)"
  by (auto simp: wakeBodyEnds_def intro!: move_at_turn)

lemma keeps_wakeInspected: "at_turn s k st \<Longrightarrow> gate_inv (wakeInspected k r ok s)"
  by (auto simp: wakeInspected_def intro: move_at_turn end_at_turn turn_shut split: option.split)

lemma keeps_stopSleeps: "at_turn s k st \<Longrightarrow> core s' = core s \<Longrightarrow> gate_inv (stopSleeps k p s')"
  unfolding stopSleeps_def by (rule end_at_turn) simp_all

lemma keeps_toTerminate:
  "at_turn s k st \<Longrightarrow> core s' = core s \<Longrightarrow> phaseOf s' = Some GStopping \<Longrightarrow> calmInside (threads s)
   \<Longrightarrow> gate_inv (toTerminate k p s')"
  by (auto simp: toTerminate_def intro: move_at_turn keeps_stopSleeps)

lemma keeps_stopFromGate:
  assumes turn: "at_turn s k st" and same: "core s' = core s"
    and ph: "phaseOf s' = Some q" "isStopGatePhase q" and shut: "shut (phaseOf s') \<Longrightarrow> calmInside (threads s)"
  shows "gate_inv (stopFromGate k p s')"
proof -
  consider "q = GQuiescing" | "q = GCheckpointing" | "q = GStopping"
    using ph(2) by (auto simp: isStopGatePhase_def)
  then show ?thesis
  proof cases
    case 1
    then show ?thesis using ph same turn_idle [OF turn]
      by (auto simp: stopFromGate_def core_same intro!: move_at_turn [OF turn])
  next
    case 2
    then show ?thesis using ph same shut
      by (auto simp: stopFromGate_def intro!: move_at_turn [OF turn])
  next
    case 3
    then show ?thesis using ph same shut
      by (auto simp: stopFromGate_def intro!: keeps_toTerminate [OF turn])
  qed
qed

lemma recovering_phase: "recovering x s \<Longrightarrow> \<exists>q. phaseOf s = Some q \<and> isStopGatePhase q"
  by (auto simp: recovering_def phaseOf_def split: option.splits)

lemma quiescing_stops [simp]: "isStopGatePhase GQuiescing"
  by (simp add: isStopGatePhase_def)

lemma keeps_performQuiesce:
  assumes "at_turn s k st"
  shows "gate_inv (performQuiesce k e r x up s)"
proof -
  have "gate_inv (stopFromGate k p (setBelief up s))" if "recovering x (setBelief up s)" for p
    using recovering_phase [OF that] turn_shut [OF assms]
    by (auto intro!: keeps_stopFromGate [OF assms])
  moreover have "gate_inv (stopFromGate k p (setRuntimeGate GQuiescing u v w (setBelief up s)))" for p u v w
    by (rule keeps_stopFromGate [OF assms, where q = GQuiescing]) simp_all
  ultimately show ?thesis
    using turn_shut [OF assms] by (auto simp: performQuiesce_def Let_def intro!: end_at_turn [OF assms])
qed

lemma keeps_performForceStop:
  assumes "at_turn s k st"
  shows "gate_inv (performForceStop k e x up s)"
proof -
  have "gate_inv (stopFromGate k p (setBelief up s))" if "recovering x (setBelief up s)" for p
    using recovering_phase [OF that] turn_shut [OF assms]
    by (auto intro!: keeps_stopFromGate [OF assms])
  moreover have "gate_inv (stopFromGate k p (setRuntimeGate GQuiescing u v w (setBelief up s)))" for p u v w
    by (rule keeps_stopFromGate [OF assms, where q = GQuiescing]) simp_all
  ultimately show ?thesis
    using turn_shut [OF assms] by (auto simp: performForceStop_def Let_def intro!: end_at_turn [OF assms])
qed

lemma keeps_toCheckpoint:
  "at_turn s k st \<Longrightarrow> calmInside (threads s) \<Longrightarrow> gate_inv (toCheckpoint k p s)"
  by (auto simp: toCheckpoint_def intro!: move_at_turn)

lemma keeps_stopDrained: "at_turn s k (StopDrain w p) \<Longrightarrow> gate_inv (stopDrained k w p s)"
  using turn_stage [of s k "StopDrain w p"]
  by (auto simp: stopDrained_def at_turn_def [of s k "StopDrain False p"]
      intro!: move_at_turn keeps_toCheckpoint)

lemma keeps_stopSettled: "at_turn s k (StopSettle p) \<Longrightarrow> gate_inv (moveTo k (StopInspect p) s)"
  using turn_stage [of s k "StopSettle p"] by (auto intro!: move_at_turn)

lemma keeps_stopInspected: "at_turn s k (StopInspect p) \<Longrightarrow> gate_inv (stopInspected k p found s)"
  using turn_stage [of s k "StopInspect p"]
  by (cases found) (auto simp: stopInspected_def intro!: move_at_turn end_at_turn keeps_toCheckpoint)

lemma keeps_stopPersisted: "at_turn s k (StopPersist p) \<Longrightarrow> gate_inv (stopPersisted k p ok s)"
  using turn_stage [of s k "StopPersist p"] turn_shut [of s k "StopPersist p"]
  by (auto simp: stopPersisted_def intro!: move_at_turn keeps_toTerminate)

lemma keeps_stopTerminated: "at_turn s k st \<Longrightarrow> gate_inv (stopTerminated k p down s)"
  using turn_shut [of s k st]
  by (auto simp: stopTerminated_def intro!: end_at_turn keeps_stopSleeps)

lemma keeps_stopCaught: "at_turn s k st \<Longrightarrow> gate_inv (stopCaught k p up s)"
  by (auto simp: stopCaught_def Let_def intro!: end_at_turn keeps_stopSleeps)

lemma keeps_stopProbed: "at_turn s k st \<Longrightarrow> gate_inv (stopProbed k m up s)"
  using turn_shut [of s k st]
  by (cases m) (auto simp: stopProbed_def intro: keeps_performQuiesce keeps_performForceStop end_at_turn)

lemma keeps_mutationGranted: "at_turn s k st \<Longrightarrow> gate_inv (mutationGranted k m s)"
  using turn_shut [of s k st]
  by (cases m) (auto simp: mutationGranted_def intro!: move_at_turn end_at_turn keeps_performWake)

section \<open>The steps of the other threads\<close>

lemma running_phase: "runningFor e s \<Longrightarrow> phaseOf s = Some GRunning"
  by (auto simp: runningFor_def phaseOf_def split: option.splits)

lemma keeps_proxyArrives: "gate_inv s \<Longrightarrow> gate_inv (proxyArrives e s)"
  by (auto simp: proxyArrives_def intro!: kept_arrival [of s _ "Remembering _"] split: option.split)

lemma keeps_proxyForwards:
  assumes "gate_inv s" and "threadAt k s = Some (Remembering e)"
  shows "gate_inv (proxyForwards k e s)"
  using assms running_phase [of e s]
  by (auto simp: proxyForwards_def instanceIsActive_def intro!: kept_forward [simplified] kept_drop [OF assms])

lemma keeps_proxyAnswered:
  "gate_inv s \<Longrightarrow> threadAt k s = Some (Forwarded e) \<Longrightarrow> gate_inv (proxyAnswered k gone s)"
  by (auto simp: proxyAnswered_def intro!: kept_finishOps)

lemma keeps_operationEnds:
  "gate_inv s \<Longrightarrow> threadAt k s = Some (Operation own) \<Longrightarrow> gate_inv (operationEnds k gone s)"
  by (auto simp: operationEnds_def intro!: kept_finishOps)

lemma keeps_readEnds:
  "gate_inv s \<Longrightarrow> threadAt k s = Some LifecycleRead \<Longrightarrow> gate_inv (readEnds k gone s)"
  by (auto simp: readEnds_def intro!: kept_finishLife)

lemma phaseOf_counters [simp]:
  "phaseOf (s\<lparr>activeOperations := n\<rparr>) = phaseOf s" "phaseOf (s\<lparr>lifecycleOperations := n\<rparr>) = phaseOf s"
  "phaseOf (s\<lparr>mutationTail := t\<rparr>) = phaseOf s" "phaseOf (s\<lparr>purging := b\<rparr>) = phaseOf s"
  "phaseOf (s\<lparr>active := b\<rparr>) = phaseOf s" "phaseOf (s\<lparr>stored := st\<rparr>) = phaseOf s"
  "phaseOf (s\<lparr>ident := i\<rparr>) = phaseOf s"
  by (simp_all add: phaseOf_def)

lemma keeps_beginOperation: "gate_inv s \<Longrightarrow> gate_inv (beginOperation e s)"
  using running_phase [of "the e" s]
  by (auto simp: beginOperation_def instanceIsActive_def
      intro!: kept_arrival [of s _ "Operation _"] split: option.split)

lemma keeps_beginRead: "gate_inv s \<Longrightarrow> gate_inv (beginRead s)"
  by (auto simp: beginRead_def instanceIsActive_def intro!: kept_arrival [of s _ LifecycleRead])

lemma keeps_beginMutation: "gate_inv s \<Longrightarrow> gate_inv (beginMutation m s)"
  by (auto simp: beginMutation_def instanceIsActive_def
      intro!: kept_arrival [of s _ "Mutation (Queued m)"])

section \<open>The identity\<close>

text \<open>Without an identity the instance is not active and no mutation was ever counted.\<close>

definition ident_ok :: "sandbox \<Rightarrow> bool" where
  "ident_ok s = (ident s = None \<longrightarrow> \<not> active s \<and> mutationTail s = [])"

definition grounded :: "sandbox \<Rightarrow> sandbox \<Rightarrow> bool" where
  "grounded s s' =
     (ident s' = ident s \<and> active s' = active s \<and> set (mutationTail s') \<subseteq> set (mutationTail s))"

lemma grounded_refl [simp]: "grounded s s"
  by (simp add: grounded_def)

lemma grounded_changes [simp]:
  "grounded s (setBelief b s') = grounded s s'" "grounded s (setRuntimeGate p e r x s') = grounded s s'"
  "grounded s (become k t s') = grounded s s'" "grounded s (drop_thread k s') = grounded s s'"
  "grounded s (moveTo k st s') = grounded s s'" "grounded s (spawn t s') = grounded s s'"
  "grounded s (finishActiveOperation s') = grounded s s'"
  "grounded s (finishLifecycleOperation s') = grounded s s'"
  "grounded s (s'\<lparr>activeOperations := n\<rparr>) = grounded s s'"
  "grounded s (s'\<lparr>lifecycleOperations := n\<rparr>) = grounded s s'"
  "grounded s (s'\<lparr>stored := y\<rparr>) = grounded s s'"
  by (simp_all add: grounded_def become_def drop_thread_def spawn_def moveTo_def
      finishActiveOperation_def finishLifecycleOperation_def Let_def)

lemma grounded_mutationEnds [intro]: "grounded s s' \<Longrightarrow> grounded s (mutationEnds k s')"
  by (auto simp: grounded_def mutationEnds_def drop_thread_def finishLifecycleOperation_def Let_def)

lemma grounded_ends [simp]: "grounded s (mutationEnds k s)"
  by (rule grounded_mutationEnds) simp

lemma grounded_toTerminate: "grounded s s' \<Longrightarrow> grounded s (toTerminate k p s')"
  by (auto simp: toTerminate_def stopSleeps_def)

lemma grounded_stopFromGate: "grounded s s' \<Longrightarrow> grounded s (stopFromGate k p s')"
  by (simp add: stopFromGate_def grounded_toTerminate split: option.split gate_phase.split)

lemma grounded_performWake: "grounded s (performWake k i e s)"
  by (simp add: performWake_def startWake_def Let_def)

lemma grounded_stopProbed: "grounded s (stopProbed k m up s)"
  by (cases m)
    (auto simp: stopProbed_def performQuiesce_def performForceStop_def Let_def intro!: grounded_stopFromGate)

lemma grounded_mutationGranted: "grounded s (mutationGranted k m s)"
  by (simp add: mutationGranted_def grounded_performWake split: mutation.split)

lemma grounded_stage:
  "grounded s (wakeProbed k e yes s)" "grounded s (wakeBodyEnds k e r yes s)"
  "grounded s (wakeInspected k n yes s)" "grounded s (stopDrained k w p s)"
  "grounded s (stopPersisted k p yes s)" "grounded s (stopTerminated k p yes s)"
  "grounded s (stopCaught k p yes s)" "grounded s (stopInspected k p found s)"
  by (auto simp: wakeProbed_def startWake_def wakeBodyEnds_def wakeInspected_def stopDrained_def
      toCheckpoint_def stopPersisted_def stopTerminated_def stopSleeps_def stopCaught_def
      stopInspected_def Let_def intro!: grounded_toTerminate
      split: option.split inspection.split)

lemma grounded_others:
  "grounded s (proxyForwards k e s)" "grounded s (proxyAnswered k yes s)"
  "grounded s (operationEnds k yes s)" "grounded s (readEnds k yes s)"
  "grounded s (purgeDrained k keep a b s)" "grounded s (purgeRemoved k keep yes s)"
  "grounded s (proxyArrives ep s)" "grounded s (beginOperation ep s)" "grounded s (beginRead s)"
  by (auto simp: proxyForwards_def proxyAnswered_def operationEnds_def readEnds_def purgeDrained_def
      purgeRemoved_def proxyArrives_def beginOperation_def beginRead_def Let_def split: option.split)

lemma grounded_goes: "grounded s (goes k yes s)"
  by (simp add: goes_def grounded_stage grounded_others grounded_mutationGranted grounded_stopProbed
      split: option.split thread.split stage.split)

lemma grounded_ok: "ident_ok s \<Longrightarrow> grounded s s' \<Longrightarrow> ident_ok s'"
  by (auto simp: ident_ok_def grounded_def)

lemma ident_ok_step: "ident_ok s \<Longrightarrow> ident_ok (happens h s)"
proof (cases h)
  case (MutationArrives m)
  then show "ident_ok s \<Longrightarrow> ?thesis"
    by (auto simp: happens_def ident_ok_def beginMutation_def instanceIsActive_def spawn_def)
next
  case (PurgeArrives keep)
  then show "ident_ok s \<Longrightarrow> ?thesis"
    by (auto simp: happens_def ident_ok_def startPurge_def Let_def spawn_def split: option.split)
next
  case (InitializeArrives i fits)
  then show "ident_ok s \<Longrightarrow> ?thesis"
    by (auto simp: happens_def ident_ok_def sandboxInitialize_def Let_def split: option.split)
next
  case Reload
  then show "ident_ok s \<Longrightarrow> ?thesis"
    by (auto simp: happens_def ident_ok_def sandboxReload_def Let_def)
qed (auto simp: happens_def inspected_def grounded_goes grounded_stage grounded_others
    intro: grounded_ok split: option.split thread.split stage.split)

section \<open>Purge, initialization, reload\<close>

lemma kept_barrier:
  assumes inv: "gate_inv s" and ths: "threads s' = threads s" "mutationTail s' = mutationTail s"
    "nextThread s' = nextThread s" "activeOperations s' = activeOperations s"
    "lifecycleOperations s' = lifecycleOperations s" "purging s \<Longrightarrow> purging s'" "phaseOf s' = phaseOf s"
  shows "gate_inv s'"
proof (rule gate_invI)
  show "books_ok s'" using gate_invD(1) [OF inv] ths by (simp add: books_ok_def)
  show "calmInside (threads s')" if "shut (phaseOf s')" using gate_invD(3) [OF inv] that ths by simp
  fix j u assume "(j, u) \<in> set (threads s')"
  then have "thread_ok s j u" using ths gate_invD(2) [OF inv] by simp
  then show "thread_ok s' j u" using ths by (cases u) auto
qed

lemma keeps_startPurge:
  assumes "gate_inv s"
  shows "gate_inv (startPurge keep s)"
proof (cases "ident s")
  case None
  then show ?thesis using assms by (auto simp: startPurge_def Let_def intro: kept_barrier)
next
  case (Some js)
  then show ?thesis using assms
    by (cases js) (auto simp: startPurge_def Let_def intro!: kept_arrival [of s _ "PurgeWait keep _ _"])
qed

text \<open>Where no mutation has begun, the gate may be set to \<open>sleeping\<close>.\<close>

lemma kept_sleeping:
  assumes inv: "gate_inv s" and none: "\<And>k st. (k, Mutation st) \<in> set (threads s) \<Longrightarrow> stage_ok (Some GSleeping) c i st"
    and c: "c = calmInside (threads s)" and i: "i = (activeOperations s = 0)"
    and same: "core s' = core s" and ph: "phaseOf s' = Some GSleeping"
  shows "gate_inv s'"
proof (rule gate_invI)
  show "books_ok s'" using gate_invD(1) [OF inv] same by (simp add: books_ok_def core_same)
  show "calmInside (threads s')" if "shut (phaseOf s')" using that ph by simp
  fix j u assume "(j, u) \<in> set (threads s')"
  then have mem: "(j, u) \<in> set (threads s)" using same by (simp add: core_same)
  then have "thread_ok s j u" by (rule gate_invD(2) [OF inv])
  then show "thread_ok s' j u"
    using none [of j] mem same ph c i by (cases u) (auto simp: core_same)
qed

lemma stage_ok_None: "stage_ok None c i st \<Longrightarrow> stage_ok (Some GSleeping) c i st"
  by (cases st) auto

lemma keeps_sandboxInitialize:
  assumes "gate_inv s" and "ident_ok s"
  shows "gate_inv (sandboxInitialize i fits s)"
proof (cases "ident s")
  case None
  have "mutationTail s = []" using assms(2) None by (simp add: ident_ok_def)
  then have "(k, Mutation st) \<notin> set (threads s)" for k st
    using mutation_in_tail [of k st "threads s"] gate_invD(1) [OF assms(1)] by (auto simp: books_ok_def)
  then show ?thesis
    using assms(1) None
    by (auto simp: sandboxInitialize_def core_def intro: kept_sleeping [OF assms(1) _ refl refl])
next
  case (Some js)
  obtain j st where js: "js = (j, st)" by (cases js)
  show ?thesis
  proof (cases "gate s = None")
    case True
    then have "phaseOf s = None" by (simp add: phaseOf_def)
    then have "stage_ok (Some GSleeping) (calmInside (threads s)) (activeOperations s = 0) st'"
      if "(k, Mutation st') \<in> set (threads s)" for k st'
      using gate_invD(2) [OF assms(1) that] by (simp add: stage_ok_None)
    then show ?thesis
      using assms(1) Some js
      by (auto simp: sandboxInitialize_def Let_def core_def
          intro: kept_sleeping [OF assms(1) _ refl refl] kept_barrier [OF assms(1)])
  next
    case False
    then show ?thesis
      using assms(1) Some js by (auto simp: sandboxInitialize_def Let_def intro: kept_barrier [OF assms(1)])
  qed
qed

lemma keeps_reload: "gate_inv (sandboxReload s)"
  by (simp add: gate_inv_def books_ok_def sandboxReload_def Let_def mutationsOf_def calmInside_def)

section \<open>The invariant\<close>

lemma keeps_goes:
  assumes inv: "gate_inv s"
  shows "gate_inv (goes k yes s)"
proof (cases "threadAt k s")
  case None
  then show ?thesis using inv by (simp add: goes_def)
next
  case (Some t)
  show ?thesis
  proof (cases t)
    case (Mutation st)
    have at: "threadAt k s = Some (Mutation st)" using Some Mutation by simp
    show ?thesis
    proof (cases "begun st")
      case True
      then have turn: "at_turn s k st" by (rule begun_at_turn [OF inv at])
      then show ?thesis
        using inv Some Mutation True
        by (cases st)
          (auto simp: goes_def intro: keeps_wakeProbed keeps_wakeBodyEnds keeps_wakeInspected
            keeps_stopProbed keeps_stopDrained keeps_stopSettled keeps_stopPersisted
            keeps_stopTerminated keeps_stopCaught end_at_turn turn_shut)
    next
      case False
      then obtain m where st: "st = Queued m" by (cases st) auto
      have "at_turn s k st" if "hd (mutationTail s) = k"
        using inv at that by (simp add: at_turn_def)
      then show ?thesis
        using inv Some Mutation st by (auto simp: goes_def intro: keeps_mutationGranted)
    qed
  next
    case (PurgeWait keep a b)
    then show ?thesis
      using inv Some kept_purge_go [OF inv] by (auto simp: goes_def purgeDrained_def)
  next
    case (PurgeRemove keep)
    have "core (setBelief False s) = core s" by simp
    then have "gate_inv (drop_thread k (setBelief False s))"
      using Some PurgeRemove by (auto intro: kept_drop [OF inv])
    then show ?thesis
      using inv Some PurgeRemove
      by (auto simp: goes_def purgeRemoved_def Let_def intro: kept_drop [OF inv] kept_barrier)
  qed (use inv Some in \<open>auto simp: goes_def intro: keeps_proxyForwards keeps_proxyAnswered
        keeps_operationEnds keeps_readEnds\<close>)
qed

lemma keeps_inspected: "gate_inv s \<Longrightarrow> gate_inv (inspected k found s)"
  by (auto simp: inspected_def intro!: keeps_stopInspected begun_at_turn
      split: option.split thread.split stage.split)

lemma keeps_step:
  assumes "gate_inv s \<and> ident_ok s" and "gate_step s h t"
  shows "gate_inv t \<and> ident_ok t"
proof
  show "ident_ok t" using assms ident_ok_step by (simp add: gate_step_def)
  have "core (setBelief b s) = core s" for b by simp
  then have "gate_inv (setBelief b s)" for b
    using assms(1) gate_inv_same [of s "setBelief b s"] by simp
  then show "gate_inv t"
    using assms
    by (cases h) (auto simp: gate_step_def happens_def intro: keeps_proxyArrives keeps_beginOperation
        keeps_beginRead keeps_beginMutation keeps_startPurge keeps_sandboxInitialize keeps_goes
        keeps_inspected keeps_reload)
qed

lemma starts_ok: "gate_start s \<Longrightarrow> gate_inv s \<and> ident_ok s"
  by (simp add: gate_start_def newSandbox_def gate_inv_def books_ok_def ident_ok_def mutationsOf_def
      calmInside_def)

interpretation sandbox_gate: inductive_invariant gate_start gate_step "\<lambda>s. gate_inv s \<and> ident_ok s"
  by unfold_locales (fact starts_ok, fact keeps_step)

end
