(* ===== verification/Sandbox_Gate_Properties.thy ===== *)
theory Sandbox_Gate_Properties
  imports Sandbox_Gate_Invariant
begin

text \<open>
  What the gate of \<open>src/sandbox.ts\<close> guarantees: who may run beside a checkpoint, a
  stop and a removal, that lifecycle operations take turns, what lets a request through, and
  that the waits always end.
\<close>

section \<open>Safety\<close>

lemma reachable_inv: "reach gate_start gate_step s \<Longrightarrow> gate_inv s"
  using sandbox_gate.holds_in_reach by blast

lemma reachable_thread:
  "reach gate_start gate_step s \<Longrightarrow> (k, t) \<in> set (threads s) \<Longrightarrow> thread_ok s k t"
  using reachable_inv gate_invD(2) by blast

text \<open>Concrete executions, for the witnesses.\<close>

definition gateAfter :: "gate_event list \<Rightarrow> sandbox" where
  "gateAfter hs = fold happens hs newSandbox"

lemma run_fold: "run gate_step s hs (fold happens hs s)"
  by (induction hs arbitrary: s) (auto simp: gate_step_def intro: run.intros)

lemma reach_gateAfter: "reach gate_start gate_step (gateAfter hs)"
  unfolding gateAfter_def
  by (rule reach_run [OF run_fold]) (simp add: reach_start gate_start_def)

text \<open>An instance that is up with a request inside and an idle stop that waits for it.\<close>

definition idleStopWaits :: "gate_event list" where
  "idleStopWaits =
     [InitializeArrives ''s1'' True, MutationArrives (WakeFor ''s1'' ''2b0a4c1e-7d3f-4e21-9a5b-0c1d2e3f4a5b''),
      Goes 0 True, Goes 0 True, Goes 0 True, Goes 0 True,
      ProxyArrives (Some ''2b0a4c1e-7d3f-4e21-9a5b-0c1d2e3f4a5b''), Goes 1 False,
      MutationArrives (IdleStop ''2b0a4c1e-7d3f-4e21-9a5b-0c1d2e3f4a5b'' 1 ''op-1''), Goes 2 True, Goes 2 True]"

definition idleStopPersists :: "gate_event list" where
  "idleStopPersists =
     idleStopWaits @ [Goes 1 False, Goes 2 True, OperationArrives None, Goes 2 True, Inspected 2 Idle]"

definition purgeWaits :: "gate_event list" where
  "purgeWaits = idleStopWaits @ [PurgeArrives False, Goes 1 False, Goes 2 True, Goes 2 True, Inspected 2 Busy]"

text \<open>
  C19. From the moment a stop begins its checkpoint until the container is down, no forwarded
  request and no operation of the current runtime is in flight.
\<close>

theorem checkpoint_runs_alone:
  assumes "reach gate_start gate_step s"
    and "phaseOf s = Some GCheckpointing \<or> phaseOf s = Some GStopping"
  shows "(k, Forwarded e) \<notin> set (threads s) \<and> (k, Operation True) \<notin> set (threads s)"
proof -
  have "shut (phaseOf s)" using assms(2) by (auto simp: shut_def)
  then show ?thesis
    using gate_invD(3) [OF reachable_inv [OF assms(1)]] by (auto simp: calmInside_def)
qed

theorem checkpoint_runs_alone_witness:
  "phaseOf (gateAfter idleStopPersists) = Some GCheckpointing
   \<and> (3, Operation False) \<in> set (threads (gateAfter idleStopPersists))
   \<and> (3, Operation True) \<notin> set (threads (gateAfter idleStopPersists))"
proof -
  have at: "phaseOf (gateAfter idleStopPersists) = Some GCheckpointing" by code_simp
  have "(3, Operation False) \<in> set (threads (gateAfter idleStopPersists))" by code_simp
  then show ?thesis using at checkpoint_runs_alone [OF reach_gateAfter disjI1 [OF at]] by blast
qed

text \<open>
  Once a purge removes the container and its backups, every request, every operation and
  every lifecycle operation has ended, and none can begin.
\<close>

theorem purge_removes_alone:
  assumes "reach gate_start gate_step s" and "(k, PurgeRemove keep) \<in> set (threads s)"
  shows "\<not> instanceIsActive s \<and> activeOperations s = 0 \<and> lifecycleOperations s = 0
    \<and> (\<forall>(j, t) \<in> set (threads s). \<not> admitted t \<and> \<not> lifecycleWork t)"
proof -
  have ok: "thread_ok s k (PurgeRemove keep)" using assms(1,2) by (rule reachable_thread)
  have "books_ok s" using gate_invD(1) [OF reachable_inv [OF assms(1)]] .
  then have "countOf admitted (threads s) = 0" "countOf lifecycleWork (threads s) = 0"
    using ok by (simp_all add: books_ok_def)
  then show ?thesis using ok by (auto simp: countOf_zero instanceIsActive_def)
qed

theorem purge_removes_alone_witness:
  "(3, PurgeRemove False) \<in> set (threads (gateAfter (purgeWaits @ [Goes 3 True])))
   \<and> activeOperations (gateAfter (purgeWaits @ [Goes 3 True])) = 0"
proof -
  have at: "(3, PurgeRemove False) \<in> set (threads (gateAfter (purgeWaits @ [Goes 3 True])))"
    by code_simp
  show ?thesis using at purge_removes_alone [OF reach_gateAfter at] by blast
qed

text \<open>
  C20. Wakes and stops take turns: at most one of them has begun, and it is the one that asked
  first.
\<close>

theorem lifecycle_takes_turns:
  assumes "reach gate_start gate_step s"
    and "(k, Mutation st) \<in> set (threads s)" and "begun st"
  shows "hd (mutationTail s) = k
    \<and> (\<forall>j st'. (j, Mutation st') \<in> set (threads s) \<and> begun st' \<longrightarrow> j = k \<and> st' = st)"
proof -
  have head: "hd (mutationTail s) = j"
    if "(j, Mutation st') \<in> set (threads s)" and "begun st'" for j st'
    using reachable_thread [OF assms(1) that(1)] that(2) by simp
  have "distinct (map fst (threads s))" by (rule gate_invD(4) [OF reachable_inv [OF assms(1)]])
  then have "st' = st" if "(k, Mutation st') \<in> set (threads s)" for st'
    using eq_key_imp_eq_value that assms(2) by fastforce
  then show ?thesis using head assms(2,3) by blast
qed

theorem lifecycle_takes_turns_witness:
  "hd (mutationTail (gateAfter (idleStopWaits @ [MutationArrives (ForceStop None ''op-2'')]))) = 2"
proof -
  let ?s = "gateAfter (idleStopWaits @ [MutationArrives (ForceStop None ''op-2'')])"
  let ?st = "StopDrain False \<lparr>sp_epoch = Some ''2b0a4c1e-7d3f-4e21-9a5b-0c1d2e3f4a5b'',
    sp_revision = 1, sp_operation = ''op-1'', sp_force = False\<rparr>"
  have at: "(2, Mutation ?st) \<in> set (threads ?s)" by code_simp
  have begun: "begun ?st" by simp
  show ?thesis by (rule conjunct1 [OF lifecycle_takes_turns [OF reach_gateAfter at begun]])
qed

section \<open>What lets a request through\<close>

definition noNewForward :: "sandbox \<Rightarrow> sandbox \<Rightarrow> bool" where
  "noNewForward s s' = (\<forall>k e. (k, Forwarded e) \<in> set (threads s') \<longrightarrow> (k, Forwarded e) \<in> set (threads s))"

lemma noNewForward_refl [simp]: "noNewForward s s"
  by (simp add: noNewForward_def)

lemma noNewForward_same [simp]:
  "noNewForward s (setBelief b s') = noNewForward s s'"
  "noNewForward s (setRuntimeGate p e r x s') = noNewForward s s'"
  "noNewForward s (s'\<lparr>activeOperations := n\<rparr>) = noNewForward s s'"
  "noNewForward s (s'\<lparr>lifecycleOperations := n\<rparr>) = noNewForward s s'"
  "noNewForward s (s'\<lparr>lifecycleOperations := n, mutationTail := ks\<rparr>) = noNewForward s s'"
  "noNewForward s (s'\<lparr>stored := y\<rparr>) = noNewForward s s'"
  "noNewForward s (s'\<lparr>active := b\<rparr>) = noNewForward s s'"
  by (simp_all add: noNewForward_def)

lemma release_forward [simp]:
  "releaseOps t = Forwarded e \<longleftrightarrow> t = Forwarded e" "releaseLife t = Forwarded e \<longleftrightarrow> t = Forwarded e"
  by (cases t rule: releaseOps.cases; simp) (cases t rule: releaseLife.cases; simp)

lemma released_forward [simp]:
  "(j, Forwarded e) \<in> set (releasedLife s ths) \<longleftrightarrow> (j, Forwarded e) \<in> set ths"
  "(j, Forwarded e) \<in> set (releasedOps s ths) \<longleftrightarrow> (j, Forwarded e) \<in> set ths"
  by (auto simp: releasedLife_def releasedOps_def image_iff split_beta eq_commute [of "Forwarded e"]
      intro!: bexI [of _ "(j, Forwarded e)"])

lemma noNewForward_ends [simp, intro]:
  "noNewForward s s' \<Longrightarrow> noNewForward s (mutationEnds k s')"
  "noNewForward s s' \<Longrightarrow> noNewForward s (drop_thread k s')"
  "noNewForward s s' \<Longrightarrow> noNewForward s (finishActiveOperation s')"
  "noNewForward s s' \<Longrightarrow> noNewForward s (finishLifecycleOperation s')"
  by (simp_all add: noNewForward_def)

lemma noNewForward_becomes [intro]:
  "noNewForward s s' \<Longrightarrow> noNewForward s (moveTo k st s')"
  "noNewForward s s' \<Longrightarrow> noNewForward s (become k (PurgeRemove keep) s')"
  by (auto simp: noNewForward_def moveTo_def split: if_splits)


lemma forward_toTerminate [intro]: "noNewForward s s' \<Longrightarrow> noNewForward s (toTerminate k p s')"
  by (auto simp: toTerminate_def stopSleeps_def)

lemma forward_stopFromGate [intro]: "noNewForward s s' \<Longrightarrow> noNewForward s (stopFromGate k p s')"
  by (auto simp: stopFromGate_def split: option.split gate_phase.split)











section \<open>Waiting ends\<close>

text \<open>How many steps of its own a thread has left at most.\<close>

fun stageRank :: "stage \<Rightarrow> nat" where
  "stageRank (Queued m) = 11"
| "stageRank (WakeProbe e) = 10"
| "stageRank (WakeBody e r) = 9"
| "stageRank (WakeInspect r) = 8"
| "stageRank WakeNote = 1"
| "stageRank (StopProbe m) = 10"
| "stageRank (StopDrain w p) = 8"
| "stageRank (StopSettle p) = 7"
| "stageRank (StopInspect p) = 6"
| "stageRank (StopPersist p) = 5"
| "stageRank (StopTerminate p) = 4"
| "stageRank (StopCatch p) = 3"

fun threadRank :: "thread \<Rightarrow> nat" where
  "threadRank (Remembering e) = 2"
| "threadRank (Mutation st) = stageRank st"
| "threadRank (PurgeWait keep a b) = 2"
| "threadRank t = 1"

definition totalRank :: "(nat \<times> thread) list \<Rightarrow> nat" where
  "totalRank ths = sum_list (map (threadRank \<circ> snd) ths)"

lemma stageRank_pos: "0 < stageRank st"
  by (cases st) auto

lemma threadRank_pos: "0 < threadRank t"
  by (cases t) (auto simp: stageRank_pos)

lemma rank_release [simp]: "threadRank (releaseOps t) = threadRank t" "threadRank (releaseLife t) = threadRank t"
  by (cases t rule: releaseOps.cases; simp) (cases t rule: releaseLife.cases; simp)

lemma totalRank_released [simp]:
  "totalRank (releasedLife s ths) = totalRank ths" "totalRank (releasedOps s ths) = totalRank ths"
  by (simp_all add: releasedLife_def releasedOps_def totalRank_def comp_def split_beta)

lemma totalRank_drop_le: "totalRank (filter P ths) \<le> totalRank ths"
  by (induction ths) (auto simp: totalRank_def)

lemma totalRank_drop:
  "map_of ths k = Some t \<Longrightarrow> totalRank (filter (\<lambda>(j, u). j \<noteq> k) ths) < totalRank ths"
proof (induction ths)
  case (Cons x ths)
  obtain j u where x: "x = (j, u)" by (cases x)
  show ?case
  proof (cases "j = k")
    case True
    then show ?thesis
      using totalRank_drop_le [of "\<lambda>(j, u). j \<noteq> k" ths] threadRank_pos [of u]
      by (simp add: totalRank_def x)
  next
    case False
    then show ?thesis using Cons x by (simp add: totalRank_def)
  qed
qed simp

lemma totalRank_become:
  "distinct (map fst ths) \<Longrightarrow> map_of ths k = Some t \<Longrightarrow> threadRank t' < threadRank t
   \<Longrightarrow> totalRank (map (\<lambda>(j, u). (j, if j = k then t' else u)) ths) < totalRank ths"
proof (induction ths)
  case (Cons x ths)
  obtain j u where x: "x = (j, u)" by (cases x)
  show ?case
  proof (cases "j = k")
    case True
    then show ?thesis using Cons.prems x by (simp add: become_absent totalRank_def)
  next
    case False
    then show ?thesis using Cons x by (simp add: totalRank_def)
  qed
qed simp

text \<open>A step of thread \<open>k\<close> that brings it closer to its end.\<close>

definition nearer :: "sandbox \<Rightarrow> sandbox \<Rightarrow> bool" where
  "nearer s s' = (totalRank (threads s') < totalRank (threads s))"

lemma nearer_stored [simp]: "nearer s (s'\<lparr>stored := y\<rparr>) = nearer s s'"
  by (simp add: nearer_def)

lemma nearer_ends:
  assumes "threadAt k s = Some t" and "threads s' = threads s"
  shows "nearer s (drop_thread k s')" "nearer s (finishActiveOperation (drop_thread k s'))"
    "nearer s (finishLifecycleOperation (drop_thread k s'))" "nearer s (mutationEnds k s')"
  using totalRank_drop [of "threads s" k t] assms by (simp_all add: nearer_def threadAt_def)

lemma nearer_moves:
  assumes "gate_inv s" and "threadAt k s = Some t" and "threads s' = threads s"
    and "threadRank t' < threadRank t"
  shows "nearer s (become k t' s')"
  using totalRank_become [OF gate_invD(4) [OF assms(1)], of k t t'] assms
  by (simp add: nearer_def threadAt_def)

lemma nearer_moveTo:
  assumes "gate_inv s" and "threadAt k s = Some (Mutation st0)" and "threads s' = threads s"
    and "stageRank st < stageRank st0"
  shows "nearer s (moveTo k st s')"
  unfolding moveTo_def by (rule nearer_moves [OF assms(1-3)]) (use assms(4) in simp)

lemma nearer_toTerminate:
  assumes "gate_inv s" and "threadAt k s = Some (Mutation st0)" and "threads s' = threads s"
    and "4 < stageRank st0"
  shows "nearer s (toTerminate k p s')"
  using assms by (auto simp: toTerminate_def stopSleeps_def intro!: nearer_ends nearer_moveTo)

lemma nearer_stopFromGate:
  assumes "gate_inv s" and "threadAt k s = Some (Mutation (StopProbe m))" and "threads s' = threads s"
  shows "nearer s (stopFromGate k p s')"
  using assms
  by (auto simp: stopFromGate_def intro!: nearer_toTerminate nearer_moveTo split: option.split gate_phase.split)

lemma nearer_granted:
  assumes "gate_inv s" and "threadAt k s = Some (Mutation (Queued m))"
  shows "nearer s (mutationGranted k m s)"
  using assms
  by (auto simp: mutationGranted_def performWake_def startWake_def Let_def
      intro!: nearer_ends nearer_moveTo split: mutation.split)

lemma nearer_stopProbed:
  assumes "gate_inv s" and "threadAt k s = Some (Mutation (StopProbe m))"
  shows "nearer s (stopProbed k m up s)"
  using assms
  by (cases m) (auto simp: stopProbed_def performQuiesce_def performForceStop_def Let_def
      intro!: nearer_ends nearer_stopFromGate)

lemma nearer_stages:
  assumes "gate_inv s" and "threadAt k s = Some (Mutation st)"
  shows "st = WakeProbe e \<Longrightarrow> nearer s (wakeProbed k e yes s)"
    and "st = WakeBody e r \<Longrightarrow> nearer s (wakeBodyEnds k e r yes s)"
    and "st = WakeInspect n \<Longrightarrow> nearer s (wakeInspected k n yes s)"
    and "st = StopDrain True p \<Longrightarrow> nearer s (stopDrained k True p s)"
    and "st = StopSettle p \<Longrightarrow> nearer s (moveTo k (StopInspect p) s)"
    and "st = StopInspect p \<Longrightarrow> nearer s (stopInspected k p found s)"
    and "st = StopPersist p \<Longrightarrow> nearer s (stopPersisted k p yes s)"
    and "st = StopTerminate p \<Longrightarrow> nearer s (stopTerminated k p yes s)"
    and "st = StopCatch p \<Longrightarrow> nearer s (stopCaught k p yes s)"
  using assms
  by (auto simp: wakeProbed_def startWake_def wakeBodyEnds_def wakeInspected_def stopDrained_def
      toCheckpoint_def stopInspected_def stopPersisted_def stopTerminated_def stopCaught_def
      stopSleeps_def Let_def intro!: nearer_ends nearer_moveTo nearer_toTerminate
      split: option.split inspection.split)

text \<open>What a thread does by itself: no new work arrives.\<close>

fun ownStep :: "gate_event \<Rightarrow> bool" where
  "ownStep (Goes k yes) = True"
| "ownStep (Inspected k found) = True"
| "ownStep h = False"

lemma simple_thread_goes:
  assumes "gate_inv s" and "threadAt k s = Some t"
    and "admitted t \<or> t = LifecycleRead \<or> (\<exists>e. t = Remembering e) \<or> (\<exists>keep. t = PurgeRemove keep)"
  shows "nearer s (happens (Goes k True) s)"
  using assms
  by (cases t)
    (auto simp: happens_def goes_def proxyForwards_def proxyAnswered_def operationEnds_def readEnds_def
      purgeRemoved_def Let_def
      intro!: nearer_ends nearer_moves)

lemma mutation_goes:
  assumes inv: "gate_inv s" and at: "threadAt k s = Some (Mutation st)" and head: "hd (mutationTail s) = k"
    and tail: "mutationTail s \<noteq> []" and free: "activeOperations s = 0"
  shows "\<exists>h. ownStep h \<and> nearer s (happens h s)"
proof (cases "\<exists>p. st = StopInspect p")
  case True
  then obtain p where "st = StopInspect p" ..
  then have "nearer s (happens (Inspected k Idle) s)"
    using at nearer_stages(6) [OF inv at] by (simp add: happens_def inspected_def)
  then show ?thesis by (intro exI [of _ "Inspected k Idle"]) simp
next
  case False
  have "(k, Mutation st) \<in> set (threads s)" using at by (simp add: threadAt_def map_of_SomeD)
  then have ok: "thread_ok s k (Mutation st)" by (rule gate_invD(2) [OF inv])
  have "nearer s (goes k True s)"
    using at head tail False ok free nearer_granted [OF inv] nearer_stopProbed [OF inv] nearer_stages [OF inv at]
      nearer_ends(4) [OF at]
    by (cases st) (auto simp: goes_def split: if_splits)
  then have "nearer s (happens (Goes k True) s)" by (simp add: happens_def)
  then show ?thesis by (intro exI [of _ "Goes k True"]) simp
qed

lemma some_thread_goes:
  assumes inv: "gate_inv s" and some: "threads s \<noteq> []"
  shows "\<exists>h. ownStep h \<and> nearer s (happens h s)"
proof (cases "\<exists>k t. threadAt k s = Some t
    \<and> (admitted t \<or> t = LifecycleRead \<or> (\<exists>e. t = Remembering e) \<or> (\<exists>keep. t = PurgeRemove keep))")
  case True
  then obtain k where "nearer s (happens (Goes k True) s)" using simple_thread_goes [OF inv] by blast
  then show ?thesis by (intro exI [of _ "Goes k True"]) simp
next
  case False
  have books: "books_ok s" and keys: "distinct (map fst (threads s))"
    using gate_invD(1,4) [OF inv] by simp_all
  have at: "threadAt k s = Some t" if "(k, t) \<in> set (threads s)" for k t
    using that keys by (simp add: threadAt_def)
  have ops: "activeOperations s = 0"
    using False at books by (fastforce simp: books_ok_def countOf_zero)
  show ?thesis
  proof (cases "mutationTail s = []")
    case True
    then have none: "(k, Mutation st) \<notin> set (threads s)" for k st
      using mutation_in_tail [of k st "threads s"] books by (auto simp: books_ok_def)
    have plain: "\<not> (admitted t \<or> t = LifecycleRead \<or> (\<exists>e. t = Remembering e) \<or> (\<exists>keep. t = PurgeRemove keep))"
      if "(k, t) \<in> set (threads s)" for k t
      using False at [OF that] by blast
    have "\<not> lifecycleWork t" if "(k, t) \<in> set (threads s)" for k t
      using none [of k] plain [OF that] that by (cases t) auto
    then have life: "lifecycleOperations s = 0" using books by (auto simp: books_ok_def countOf_zero)
    obtain k t where mem: "(k, t) \<in> set (threads s)" using some by (cases "threads s") auto
    have "\<exists>keep a b. t = PurgeWait keep a b"
      using none [of k] plain [OF mem] mem by (cases t) auto
    then obtain keep a b where t: "t = PurgeWait keep a b" by blast
    then have "a" "b" using gate_invD(2) [OF inv mem] ops life by simp_all
    then have "nearer s (happens (Goes k True) s)"
      using at [OF mem] t inv by (auto simp: happens_def goes_def purgeDrained_def intro!: nearer_moves)
    then show ?thesis by (intro exI [of _ "Goes k True"]) simp
  next
    case False
    then have "hd (mutationTail s) \<in> set (mutationsOf (threads s))"
      using books by (simp add: books_ok_def)
    then obtain st where "(hd (mutationTail s), Mutation st) \<in> set (threads s)"
      by (auto simp: mutationsOf_def elim: isMutation.elims)
    then show ?thesis using at mutation_goes [OF inv _ refl False ops] by blast
  qed
qed

text \<open>
  Nothing waits for ever: from every reachable state the work in flight can be brought to
  its end by its own steps, without anything new arriving. No drain misses its wake-up and no
  turn is lost.
\<close>

theorem waiting_ends:
  assumes "reach gate_start gate_step s"
  shows "\<exists>hs t. run gate_step s hs t \<and> list_all ownStep hs \<and> threads t = []"
  using assms
proof (induction "totalRank (threads s)" arbitrary: s rule: less_induct)
  case less
  show ?case
  proof (cases "threads s = []")
    case True
    have "run gate_step s [] s" by (rule run_done)
    with True show ?thesis by (intro exI [of _ "[]"] exI [of _ s]) simp
  next
    case False
    then obtain h where own: "ownStep h" and near: "nearer s (happens h s)"
      using some_thread_goes [OF reachable_inv [OF less.prems]] by blast
    have step: "gate_step s h (happens h s)" by (simp add: gate_step_def)
    with less.prems have "reach gate_start gate_step (happens h s)" by (rule reach_next)
    then obtain hs t where hs: "run gate_step (happens h s) hs t" "list_all ownStep hs" "threads t = []"
      using less.hyps [OF near [unfolded nearer_def]] by blast
    have "run gate_step s (h # hs) t" using step hs(1) by (rule run_more)
    moreover have "list_all ownStep (h # hs)" using own hs(2) by simp
    ultimately show ?thesis using hs(3) by blast
  qed
qed

theorem waiting_ends_witness:
  "threads (gateAfter purgeWaits) \<noteq> []
   \<and> (\<exists>hs t. run gate_step (gateAfter purgeWaits) hs t \<and> list_all ownStep hs \<and> threads t = [])"
proof
  show "threads (gateAfter purgeWaits) \<noteq> []" by code_simp
qed (rule waiting_ends [OF reach_gateAfter])

end
