(* ===== verification/Base64.thy ===== *)
theory Base64
  imports Js_Text
begin

text \<open>
  \<open>atob\<close> and \<open>btoa\<close> of the platform, which \<open>src/session-changes.ts\<close> and \<open>src/password.ts\<close>
  use, and that the first undoes the second. Bytes are characters.
\<close>

section \<open>Decoding\<close>

text \<open>
  \<open>atob\<close>: the alphabet, the padding, and four characters for three bytes. Bytes are
  characters. Text that is not base64 throws.
\<close>

definition base64Alphabet :: string where
  "base64Alphabet = ''ABCDEFGHIJKLMNOPQRSTUVWXYZabcdefghijklmnopqrstuvwxyz0123456789+/''"

fun indexOf :: "'a \<Rightarrow> 'a list \<Rightarrow> nat option" where
  "indexOf x [] = None"
| "indexOf x (y # ys) = (if x = y then Some 0 else map_option Suc (indexOf x ys))"

fun sextets :: "string \<Rightarrow> nat list option" where
  "sextets [] = Some []"
| "sextets (c # cs) =
     (case indexOf c base64Alphabet of
        None \<Rightarrow> None
      | Some n \<Rightarrow> map_option ((#) n) (sextets cs))"

fun bytesOf :: "nat list \<Rightarrow> string" where
  "bytesOf (a # b # c # d # rest) =
     char_of (a * 4 + b div 16) # char_of (b mod 16 * 16 + c div 4) # char_of (c mod 4 * 64 + d) # bytesOf rest"
| "bytesOf [a, b, c] = [char_of (a * 4 + b div 16), char_of (b mod 16 * 16 + c div 4)]"
| "bytesOf [a, b] = [char_of (a * 4 + b div 16)]"
| "bytesOf _ = []"

definition unpadded :: "string \<Rightarrow> string" where
  "unpadded s =
     (if length s mod 4 \<noteq> 0 then s
      else if length s \<ge> 2 \<and> drop (length s - 2) s = ''=='' then take (length s - 2) s
      else if s \<noteq> [] \<and> last s = CHR ''='' then butlast s
      else s)"

definition atob :: "string \<Rightarrow> string option" where
  "atob s = (let t = unpadded s in if length t mod 4 = 1 then None else map_option bytesOf (sextets t))"

section \<open>Encoding\<close>

text \<open>\<open>btoa\<close> over bytes.\<close>

definition encodeSextet :: "nat \<Rightarrow> char" where
  "encodeSextet n = base64Alphabet ! n"

fun base64Of :: "nat list \<Rightarrow> string" where
  "base64Of (a # b # c # rest) =
     [encodeSextet (a div 4), encodeSextet (a mod 4 * 16 + b div 16),
      encodeSextet (b mod 16 * 4 + c div 64), encodeSextet (c mod 64)] @ base64Of rest"
| "base64Of [a, b] =
     [encodeSextet (a div 4), encodeSextet (a mod 4 * 16 + b div 16), encodeSextet (b mod 16 * 4), CHR ''='']"
| "base64Of [a] = [encodeSextet (a div 4), encodeSextet (a mod 4 * 16), CHR ''='', CHR ''='']"
| "base64Of [] = []"

fun sextetsOf :: "nat list \<Rightarrow> nat list" where
  "sextetsOf (a # b # c # rest) =
     [a div 4, a mod 4 * 16 + b div 16, b mod 16 * 4 + c div 64, c mod 64] @ sextetsOf rest"
| "sextetsOf [a, b] = [a div 4, a mod 4 * 16 + b div 16, b mod 16 * 4]"
| "sextetsOf [a] = [a div 4, a mod 4 * 16]"
| "sextetsOf [] = []"

lemma indexOf_encode:
  assumes "n < 64"
  shows "indexOf (encodeSextet n) base64Alphabet = Some n" and "encodeSextet n \<noteq> CHR ''=''"
    and "\<not> is_space (encodeSextet n)"
proof -
  have "list_all (\<lambda>n. indexOf (encodeSextet n) base64Alphabet = Some n \<and> encodeSextet n \<noteq> CHR ''=''
      \<and> \<not> is_space (encodeSextet n)) [0..<64]"
    by code_simp
  with assms show "indexOf (encodeSextet n) base64Alphabet = Some n" "encodeSextet n \<noteq> CHR ''=''"
    "\<not> is_space (encodeSextet n)"
    by (simp_all add: list_all_iff)
qed

lemma sextets_encode: "list_all (\<lambda>n. n < 64) ns \<Longrightarrow> sextets (map encodeSextet ns) = Some ns"
  by (induction ns) (simp_all add: indexOf_encode)

lemma sextetsOf_bound: "list_all (\<lambda>b. b < 256) bs \<Longrightarrow> list_all (\<lambda>n. n < 64) (sextetsOf bs)"
  by (induction bs rule: sextetsOf.induct) auto

lemma byte_parts:
  fixes a b c :: nat
  assumes "a < 256" and "b < 256" and "c < 256"
  shows "a div 4 * 4 + (a mod 4 * 16 + b div 16) div 16 = a"
    and "(a mod 4 * 16 + b div 16) mod 16 * 16 + (b mod 16 * 4 + c div 64) div 4 = b"
    and "(b mod 16 * 4 + c div 64) mod 4 * 64 + c mod 64 = c"
    and "(a mod 4 * 16 + b div 16) mod 16 * 16 + b mod 16 * 4 div 4 = b"
    and "a div 4 * 4 + a mod 4 * 16 div 16 = a"
proof -
  have "b div 16 < 16" "c div 64 < 4" using assms by auto
  then show "a div 4 * 4 + (a mod 4 * 16 + b div 16) div 16 = a"
    and "(a mod 4 * 16 + b div 16) mod 16 * 16 + (b mod 16 * 4 + c div 64) div 4 = b"
    and "(b mod 16 * 4 + c div 64) mod 4 * 64 + c mod 64 = c"
    and "(a mod 4 * 16 + b div 16) mod 16 * 16 + b mod 16 * 4 div 4 = b"
    and "a div 4 * 4 + a mod 4 * 16 div 16 = a"
    by simp_all
qed

lemma bytesOf_sextetsOf:
  "list_all (\<lambda>b. b < 256) bs \<Longrightarrow> bytesOf (sextetsOf bs) = map char_of bs"
proof (induction bs rule: sextetsOf.induct)
  case (1 a b c rest)
  then show ?case using byte_parts [of a b c] by simp
next
  case (2 a b)
  then show ?case using byte_parts [of a b 0] by simp
next
  case (3 a)
  then show ?case using byte_parts [of a 0 0] by simp
qed simp

text \<open>The padding of an encoding.\<close>

definition padding :: "nat \<Rightarrow> string" where
  "padding n = (if n mod 3 = 1 then ''=='' else if n mod 3 = 2 then ''='' else [])"

lemma base64Of_sextets: "base64Of bs = map encodeSextet (sextetsOf bs) @ padding (length bs)"
  by (induction bs rule: base64Of.induct) (simp_all add: padding_def)

lemma length_sextetsOf:
  "length (sextetsOf bs) mod 4 = (if length bs mod 3 = 1 then 2 else if length bs mod 3 = 2 then 3 else 0)"
proof (induction bs rule: sextetsOf.induct)
  case (1 a b c rest)
  have "length (sextetsOf (a # b # c # rest)) mod 4 = length (sextetsOf rest) mod 4"
    using mod_add_self2 [of "length (sextetsOf rest)" 4] by (simp add: add.commute)
  moreover have "length (a # b # c # rest) mod 3 = length rest mod 3"
    using mod_add_self2 [of "length rest" 3] by (simp add: add.commute)
  ultimately show ?case using 1 by (simp only:)
qed simp_all

lemma unpadded_base64:
  assumes "list_all (\<lambda>b. b < 256) bs"
  shows "unpadded (base64Of bs) = map encodeSextet (sextetsOf bs)"
proof -
  let ?m = "map encodeSextet (sextetsOf bs)"
  have no: "c \<noteq> CHR ''=''" if "c \<in> set ?m" for c
    using that sextetsOf_bound [OF assms] indexOf_encode(2) by (auto simp: list_all_iff)
  consider "length bs mod 3 = 0" | "length bs mod 3 = 1" | "length bs mod 3 = 2" by linarith
  then show ?thesis
  proof cases
    case 1
    then have b: "base64Of bs = ?m" by (simp add: base64Of_sextets padding_def)
    have "drop (length ?m - 2) ?m \<noteq> ''==''"
    proof
      assume "drop (length ?m - 2) ?m = ''==''"
      then have "CHR ''='' \<in> set (drop (length ?m - 2) ?m)" by simp
      then show False using no in_set_dropD by metis
    qed
    moreover have "last ?m \<noteq> CHR ''=''" if "?m \<noteq> []"
      using that by (intro no last_in_set)
    ultimately show ?thesis using b by (auto simp: unpadded_def)
  next
    case 2
    then have b: "base64Of bs = ?m @ ''==''" by (simp add: base64Of_sextets padding_def)
    have "length (sextetsOf bs) mod 4 = 2" using 2 length_sextetsOf [of bs] by simp
    moreover have "length (base64Of bs) = length (sextetsOf bs) + 2" using b by simp
    ultimately have "length (base64Of bs) mod 4 = 0" by presburger
    then show ?thesis using b by (simp add: unpadded_def)
  next
    case 3
    then have b: "base64Of bs = ?m @ ''=''" by (simp add: base64Of_sextets padding_def)
    have "length (sextetsOf bs) mod 4 = 3" using 3 length_sextetsOf [of bs] by simp
    moreover have "length (base64Of bs) = length (sextetsOf bs) + 1" using b by simp
    ultimately have len: "length (base64Of bs) mod 4 = 0" by presburger
    have ne: "?m \<noteq> []" using 3 length_sextetsOf [of bs] by auto
    then obtain ms x where m: "?m = ms @ [x]" by (metis append_butlast_last_id)
    then have "x \<noteq> CHR ''=''" using no [of x] by simp
    then show ?thesis using b len m by (simp add: unpadded_def butlast_append)
  qed
qed

lemma atob_base64:
  assumes "list_all (\<lambda>b. b < 256) bs"
  shows "atob (base64Of bs) = Some (map char_of bs)"
proof -
  have "length (sextetsOf bs) mod 4 \<noteq> 1" using length_sextetsOf [of bs] by simp
  then show ?thesis
    using sextets_encode [OF sextetsOf_bound [OF assms]] bytesOf_sextetsOf [OF assms]
    by (simp add: atob_def unpadded_base64 [OF assms] Let_def)
qed

end
