(* ===== verification/Session_Changes.thy ===== *)
theory Session_Changes
  imports Base64
begin

text \<open>
  The pure half of a session's diff, \<open>src/session-changes.ts\<close>: the parsers of git's
  NUL-separated output, the decoding of the base64 wrapping, the merge of committed and
  working changes, and the quoting of what reaches a shell.
\<close>

section \<open>Changed files\<close>

datatype changed_status = FileAdded | FileModified | FileDeleted | FileRenamed | FileUntracked | FileConflicted

record changed_file =
  cf_path :: string
  cf_status :: changed_status
  cf_renamedFrom :: "string option"

definition changedFile :: "string \<Rightarrow> changed_status \<Rightarrow> changed_file" where
  "changedFile p st = \<lparr>cf_path = p, cf_status = st, cf_renamedFrom = None\<rparr>"

datatype changes_scope = ScopeHead | ScopeBranch

definition parseChangesScope :: "string option \<Rightarrow> changes_scope" where
  "parseChangesScope v = (if v = Some ''branch'' then ScopeBranch else ScopeHead)"

abbreviation nul :: char where "nul \<equiv> CHR 0x00"

text \<open>A field that is a string and not empty.\<close>

definition filled :: "string option \<Rightarrow> string option" where
  "filled s = (case s of None \<Rightarrow> None | Some x \<Rightarrow> if x = [] then None else Some x)"

definition recordAt :: "string list \<Rightarrow> nat \<Rightarrow> string option" where
  "recordAt rs i = (if i < length rs then Some (rs ! i) else None)"

section \<open>Shell quoting\<close>

definition quoteChar :: "char \<Rightarrow> string" where
  "quoteChar c = (if c = CHR 0x27 then [CHR 0x27, CHR 0x5C, CHR 0x27, CHR 0x27] else [c])"

definition shellQuote :: "string \<Rightarrow> string" where
  "shellQuote value = CHR 0x27 # concat (map quoteChar value) @ [CHR 0x27]"

section \<open>\<open>git status\<close> and \<open>git diff --name-status\<close>\<close>

definition statusFromCodes :: "char \<Rightarrow> char \<Rightarrow> changed_status" where
  "statusFromCodes index0 worktree =
     (if index0 = CHR ''?'' \<or> worktree = CHR ''?'' then FileUntracked
      else if index0 = CHR ''U'' \<or> worktree = CHR ''U'' \<or> (index0 = CHR ''A'' \<and> worktree = CHR ''A'')
        then FileConflicted
      else if index0 = CHR ''D'' \<or> worktree = CHR ''D'' then FileDeleted
      else if index0 = CHR ''A'' then FileAdded
      else FileModified)"

definition movedCode :: "char \<Rightarrow> bool" where
  "movedCode c = (c = CHR ''R'' \<or> c = CHR ''C'')"

fun statusRecords :: "string list \<Rightarrow> changed_file list" where
  "statusRecords [] = []"
| "statusRecords (r # rs) =
     (if length r < 4 then statusRecords rs
      else if movedCode (r ! 0) then
        \<lparr>cf_path = drop 3 r, cf_status = FileRenamed, cf_renamedFrom = filled (recordAt rs 0)\<rparr>
          # statusRecords (tl rs)
      else changedFile (drop 3 r) (statusFromCodes (r ! 0) (r ! 1)) # statusRecords rs)"

definition parseGitStatus :: "string \<Rightarrow> changed_file list" where
  "parseGitStatus out = statusRecords (split_on nul out)"

definition nameStatusFromCode :: "char \<Rightarrow> changed_status" where
  "nameStatusFromCode letter =
     (if letter = CHR ''A'' then FileAdded
      else if letter = CHR ''D'' then FileDeleted
      else if letter = CHR ''U'' then FileConflicted
      else FileModified)"

fun nameRecords :: "string list \<Rightarrow> changed_file list" where
  "nameRecords [] = []"
| "nameRecords (code # rs) =
     (if code = [] then nameRecords rs
      else if movedCode (hd code) then
        (case filled (recordAt rs 1) of
           None \<Rightarrow> nameRecords (drop 2 rs)
         | Some p \<Rightarrow>
             \<lparr>cf_path = p, cf_status = FileRenamed, cf_renamedFrom = filled (recordAt rs 0)\<rparr>
               # nameRecords (drop 2 rs))
      else
        (case filled (recordAt rs 0) of
           None \<Rightarrow> nameRecords (tl rs)
         | Some p \<Rightarrow> changedFile p (nameStatusFromCode (hd code)) # nameRecords (tl rs)))"

definition parseGitNameStatus :: "string \<Rightarrow> changed_file list" where
  "parseGitNameStatus out = nameRecords (split_on nul out)"

section \<open>Merging\<close>

definition mergeChangedFiles :: "changed_file list \<Rightarrow> changed_file list \<Rightarrow> changed_file list" where
  "mergeChangedFiles committed working =
     map snd (fold (\<lambda>f m. if map_of m (cf_path f) = None then AList.update (cf_path f) f m else m) working
       (fold (\<lambda>f. AList.update (cf_path f) f) committed []))"

definition MAX_DIFF_LENGTH :: int where "MAX_DIFF_LENGTH = 200000"

definition limitDiff :: "string \<Rightarrow> string \<times> bool" where
  "limitDiff d = (if int (length d) > MAX_DIFF_LENGTH then (take (nat MAX_DIFF_LENGTH) d, True) else (d, False))"

section \<open>The base64 wrapping\<close>

text \<open>\<open>textDecode\<close> stands for the UTF-8 decoding of the bytes.\<close>

definition decodeGitStatusOutput :: "(string \<Rightarrow> string) \<Rightarrow> string \<Rightarrow> string option" where
  "decodeGitStatusOutput textDecode out =
     (let packed = filter (\<lambda>c. \<not> is_space c) out in
      if packed = [] then Some [] else map_option textDecode (atob packed))"

section \<open>Commit heads\<close>

definition beforeLine :: "string \<Rightarrow> string" where
  "beforeLine s = hd (split_on (CHR 0x0A) s)"

definition parseHeadLine :: "string \<Rightarrow> string \<times> string" where
  "parseHeadLine out =
     (let line = beforeLine out in
      case indexOf (CHR 0x09) line of
        None \<Rightarrow> (trim line, [])
      | Some tab \<Rightarrow> (trim (take tab line), trim (drop (tab + 1) line)))"

end
