(* ===== verification/Session_Changes_Properties.thy ===== *)
theory Session_Changes_Properties
  imports Session_Changes
begin

text \<open>
  A POSIX shell reads a quoted value back as one word with exactly its characters; git's
  formats and the base64 wrapping are read back as they were written; a merge keeps one row
  for each path.
\<close>

section \<open>A shell's tokens\<close>

text \<open>
  The tokens of a line in the POSIX shell language: blanks separate words, single quotes keep
  everything up to the next one, a backslash keeps the next character, and the control
  operators are built of \<open>|\<close>, \<open>&\<close>, \<open>;\<close> and the end of a line. Every other special
  character (expansions, substitutions, redirections, patterns) makes the line one that is not
  read at all (\<open>None\<close>).
\<close>

definition plainChar :: "char \<Rightarrow> bool" where
  "plainChar c = (is_digit c \<or> is_lower c \<or> is_upper c \<or> c \<in> set ''-_./:=@%+,^{}'')"

definition operatorChar :: "char \<Rightarrow> bool" where
  "operatorChar c = (c = CHR ''|'' \<or> c = CHR ''&'' \<or> c = CHR '';'' \<or> c = CHR 0x0A)"

datatype shell_token = Word string | Operator char

datatype lex_mode = Between | InWord string | InQuote string

fun shellTokens :: "lex_mode \<Rightarrow> string \<Rightarrow> shell_token list option" where
  "shellTokens Between [] = Some []"
| "shellTokens (InWord w) [] = Some [Word w]"
| "shellTokens (InQuote w) [] = None"
| "shellTokens (InQuote w) (c # cs) =
     (if c = CHR 0x27 then shellTokens (InWord w) cs else shellTokens (InQuote (w @ [c])) cs)"
| "shellTokens Between (c # cs) =
     (if c = CHR '' '' then shellTokens Between cs
      else if c = CHR 0x27 then shellTokens (InQuote []) cs
      else if c = CHR 0x5C then
        (case cs of [] \<Rightarrow> None | d # ds \<Rightarrow> if d = CHR 0x0A then None else shellTokens (InWord [d]) ds)
      else if operatorChar c then map_option ((#) (Operator c)) (shellTokens Between cs)
      else if plainChar c then shellTokens (InWord [c]) cs else None)"
| "shellTokens (InWord w) (c # cs) =
     (if c = CHR '' '' then map_option ((#) (Word w)) (shellTokens Between cs)
      else if c = CHR 0x27 then shellTokens (InQuote w) cs
      else if c = CHR 0x5C then
        (case cs of [] \<Rightarrow> None | d # ds \<Rightarrow> if d = CHR 0x0A then None else shellTokens (InWord (w @ [d])) ds)
      else if operatorChar c then map_option (\<lambda>ts. Word w # Operator c # ts) (shellTokens Between cs)
      else if plainChar c then shellTokens (InWord (w @ [c])) cs else None)"

text \<open>The simple commands of a line, between its operators.\<close>

fun simpleCommands :: "shell_token list \<Rightarrow> string list list" where
  "simpleCommands [] = [[]]"
| "simpleCommands (Operator c # ts) = [] # simpleCommands ts"
| "simpleCommands (Word w # ts) =
     (case simpleCommands ts of [] \<Rightarrow> [[w]] | ws # wss \<Rightarrow> (w # ws) # wss)"

lemma quoted_body:
  "shellTokens (InQuote w) (concat (map quoteChar s) @ CHR 0x27 # rest) = shellTokens (InWord (w @ s)) rest"
  by (induction s arbitrary: w) (auto simp: quoteChar_def operatorChar_def)

text \<open>A quoted value continues a word by exactly its characters, whatever they are.\<close>

lemma quoted_word [simp]:
  "shellTokens Between (shellQuote s @ rest) = shellTokens (InWord s) rest"
  "shellTokens (InWord w) (shellQuote s @ rest) = shellTokens (InWord (w @ s)) rest"
  using quoted_body [of "[]" s rest] quoted_body [of w s rest] by (simp_all add: shellQuote_def)

lemma quoted_end [simp]:
  "shellTokens Between (shellQuote s) = Some [Word s]"
  "shellTokens (InWord w) (shellQuote s) = Some [Word (w @ s)]"
  using quoted_word(1) [of s "[]"] quoted_word(2) [of w s "[]"] by simp_all

text \<open>
  A list of arguments that are quoted and joined by blanks is read by the shell as exactly
  those arguments, whatever characters they hold: nothing in them ends a word, expands or runs.
\<close>

theorem quoted_arguments_survive:
  "shellTokens Between (join_with '' '' (map shellQuote args)) = Some (map Word args)"
proof (induction args)
  case (Cons a args)
  then show ?case by (cases args) simp_all
qed simp

section \<open>git's formats\<close>

text \<open>One entry of \<open>git status --porcelain=v1 -z\<close>, as git documents it.\<close>

record status_entry =
  se_index :: char
  se_worktree :: char
  se_path :: string
  se_from :: "string option"

definition porcelain :: "status_entry \<Rightarrow> string list" where
  "porcelain e =
     ([se_index e, se_worktree e, CHR '' ''] @ se_path e) # (case se_from e of None \<Rightarrow> [] | Some src \<Rightarrow> [src])"

definition terminated :: "string list \<Rightarrow> string" where
  "terminated rs = concat (map (\<lambda>r. r @ [nul]) rs)"

definition wellFormed :: "status_entry \<Rightarrow> bool" where
  "wellFormed e =
     (se_path e \<noteq> [] \<and> nul \<notin> set (se_path e) \<and> se_index e \<noteq> nul \<and> se_worktree e \<noteq> nul
      \<and> (if movedCode (se_index e) then (\<exists>src. se_from e = Some src \<and> src \<noteq> [] \<and> nul \<notin> set src)
         else se_from e = None))"

definition rowOf :: "status_entry \<Rightarrow> changed_file" where
  "rowOf e =
     (if movedCode (se_index e)
      then \<lparr>cf_path = se_path e, cf_status = FileRenamed, cf_renamedFrom = se_from e\<rparr>
      else changedFile (se_path e) (statusFromCodes (se_index e) (se_worktree e)))"

lemma split_terminated:
  "(\<And>r. r \<in> set rs \<Longrightarrow> nul \<notin> set r) \<Longrightarrow> split_on nul (terminated rs) = rs @ [[]]"
  by (induction rs) (simp_all add: terminated_def split_append)

lemma porcelain_no_nul: "wellFormed e \<Longrightarrow> r \<in> set (porcelain e) \<Longrightarrow> nul \<notin> set r"
  by (auto simp: wellFormed_def porcelain_def split: if_splits option.splits)

lemma status_read: "wellFormed e \<Longrightarrow> statusRecords (porcelain e @ rs) = rowOf e # statusRecords rs"
  by (cases "se_from e") (auto simp: wellFormed_def porcelain_def rowOf_def recordAt_def filled_def
      split: if_splits)

text \<open>
  What git writes is read back: every entry of a status is one row, with its path and its
  status, and a rename with the path it came from.
\<close>

theorem status_roundtrip:
  assumes "list_all wellFormed es"
  shows "parseGitStatus (terminated (concat (map porcelain es))) = map rowOf es"
proof -
  have "nul \<notin> set r" if "r \<in> set (concat (map porcelain es))" for r
    using that assms porcelain_no_nul by (auto simp: list_all_iff)
  then have "parseGitStatus (terminated (concat (map porcelain es)))
      = statusRecords (concat (map porcelain es) @ [[]])"
    unfolding parseGitStatus_def by (subst split_terminated) simp_all
  also have "\<dots> = map rowOf es"
    using assms by (induction es) (simp_all add: status_read)
  finally show ?thesis .
qed

theorem status_roundtrip_witness:
  "parseGitStatus (''R  new.ts'' @ [nul] @ ''old.ts'' @ [nul] @ ''?? a b'' @ [nul])
   = [\<lparr>cf_path = ''new.ts'', cf_status = FileRenamed, cf_renamedFrom = Some ''old.ts''\<rparr>,
      changedFile ''a b'' FileUntracked]"
proof -
  let ?es = "[\<lparr>se_index = CHR ''R'', se_worktree = CHR '' '', se_path = ''new.ts'', se_from = Some ''old.ts''\<rparr>,
    \<lparr>se_index = CHR ''?'', se_worktree = CHR ''?'', se_path = ''a b'', se_from = None\<rparr>]"
  have "list_all wellFormed ?es" by (simp add: wellFormed_def movedCode_def)
  from status_roundtrip [OF this] show ?thesis
    by (simp add: terminated_def porcelain_def rowOf_def movedCode_def statusFromCodes_def)
qed

section \<open>The base64 wrapping\<close>

text \<open>
  Output wrapped by \<open>base64\<close> in the container is unwrapped to the same bytes, wherever its
  lines are broken.
\<close>

theorem base64_roundtrip:
  assumes "list_all (\<lambda>b. b < 256) bs" and "bs \<noteq> []"
    and "filter (\<lambda>c. \<not> is_space c) out = base64Of bs"
  shows "decodeGitStatusOutput textDecode out = Some (textDecode (map char_of bs))"
proof -
  have ne: "base64Of bs \<noteq> []" using assms(2) by (cases bs rule: base64Of.cases) simp_all
  then show ?thesis
    using assms(3) atob_base64 [OF assms(1)] by (simp add: decodeGitStatusOutput_def Let_def)
qed

theorem base64_roundtrip_witness:
  "decodeGitStatusOutput (\<lambda>s. s) (''Pz8gYQA='' @ [CHR 0x0A]) = Some (''?? a'' @ [nul])"
proof -
  have "decodeGitStatusOutput (\<lambda>s. s) (''Pz8gYQA='' @ [CHR 0x0A]) = Some ((\<lambda>s. s) (map char_of [63, 63, 32, 97, 0 :: nat]))"
    by (rule base64_roundtrip) code_simp+
  moreover have "map char_of [63, 63, 32, 97, 0 :: nat] = ''?? a'' @ [nul]" by code_simp
  ultimately show ?thesis by (simp only:)
qed

section \<open>Merging\<close>

lemma merge_keys:
  "distinct_keys m \<Longrightarrow> distinct_keys (fold (\<lambda>f m. if map_of m (cf_path f) = None then AList.update (cf_path f) f m else m) fs m)"
  by (induction fs arbitrary: m) auto

lemma committed_keys:
  "distinct_keys m \<Longrightarrow> distinct_keys (fold (\<lambda>f. AList.update (cf_path f) f) fs m)"
  by (induction fs arbitrary: m) auto

definition lastWith :: "string \<Rightarrow> changed_file list \<Rightarrow> changed_file option" where
  "lastWith p fs = find (\<lambda>f. cf_path f = p) (rev fs)"

lemma committed_lookup:
  "map_of (fold (\<lambda>f. AList.update (cf_path f) f) fs m) p
   = (case lastWith p fs of None \<Rightarrow> map_of m p | Some f \<Rightarrow> Some f)"
proof (induction fs rule: rev_induct)
  case (snoc f fs)
  then show ?case by (simp add: lastWith_def update_conv')
qed (simp add: lastWith_def)

lemma working_lookup:
  "map_of (fold (\<lambda>f m. if map_of m (cf_path f) = None then AList.update (cf_path f) f m else m) fs m) p
   = (case map_of m p of None \<Rightarrow> find (\<lambda>f. cf_path f = p) fs | Some f \<Rightarrow> Some f)"
  by (induction fs arbitrary: m) (auto simp: update_conv' split: option.splits)

lemma distinct_values:
  assumes "distinct_keys m" and "\<forall>(k, f) \<in> set m. cf_path f = k"
  shows "map cf_path (map snd m) = map fst m"
  using assms by (induction m) auto

lemma committed_paths:
  "\<forall>(k, f) \<in> set m. cf_path f = k
   \<Longrightarrow> \<forall>(k, f) \<in> set (fold (\<lambda>f. AList.update (cf_path f) f) fs m). cf_path f = k"
proof (induction fs arbitrary: m)
  case (Cons f fs)
  have "\<forall>(k, g) \<in> set (AList.update (cf_path f) f m). cf_path g = k"
    using Cons.prems set_update_subset [of "cf_path f" f m] by auto
  then show ?case using Cons.IH by simp
qed simp

lemma working_paths:
  "\<forall>(k, f) \<in> set m. cf_path f = k
   \<Longrightarrow> \<forall>(k, f) \<in> set (fold (\<lambda>f m. if map_of m (cf_path f) = None then AList.update (cf_path f) f m else m) fs m). cf_path f = k"
proof (induction fs arbitrary: m)
  case (Cons f fs)
  have "\<forall>(k, g) \<in> set (if map_of m (cf_path f) = None then AList.update (cf_path f) f m else m). cf_path g = k"
    using Cons.prems set_update_subset [of "cf_path f" f m] by auto
  then show ?case using Cons.IH by simp
qed simp

text \<open>
  The merged list has one row for each path that either side names; a path that a commit
  touched has the row of the last record of the commits, and any other the row of the first
  record of the working tree.
\<close>

theorem merge_one_row_per_path:
  "distinct (map cf_path (mergeChangedFiles committed working))
   \<and> find (\<lambda>f. cf_path f = p) (mergeChangedFiles committed working)
     = (case lastWith p committed of None \<Rightarrow> find (\<lambda>f. cf_path f = p) working | Some f \<Rightarrow> Some f)"
proof -
  let ?c = "fold (\<lambda>f. AList.update (cf_path f) f) committed []"
  let ?m = "fold (\<lambda>f m. if map_of m (cf_path f) = None then AList.update (cf_path f) f m else m) working ?c"
  have keys: "distinct_keys ?m" by (intro merge_keys committed_keys) simp
  have paths: "\<forall>(k, f) \<in> set ?m. cf_path f = k" by (intro working_paths committed_paths) simp
  have look: "find (\<lambda>f. cf_path f = p) (map snd m) = map_of m p" if "\<forall>(k, f) \<in> set m. cf_path f = k" for m
    using that by (induction m) auto
  have "distinct (map cf_path (map snd ?m))"
    unfolding distinct_values [OF keys paths] using keys by (simp add: distinct_keys_def)
  moreover have "find (\<lambda>f. cf_path f = p) (map snd ?m)
      = (case lastWith p committed of None \<Rightarrow> find (\<lambda>f. cf_path f = p) working | Some f \<Rightarrow> Some f)"
    unfolding look [OF paths] working_lookup committed_lookup by (simp split: option.split)
  ultimately show ?thesis by (simp only: mergeChangedFiles_def)
qed

end
