(* ===== verification/Container_Credentials.thy ===== *)
theory Container_Credentials
  imports Request_Validation Session_Changes
begin

text \<open>
  What a wake writes into a container, \<open>src/container-credentials.ts\<close>: the files and the
  commands derived from the settings. The texts of the built-in skills
  (\<open>src/builtin-skills.ts\<close>) and of the standing instructions are arguments.
\<close>

section \<open>Settings\<close>

record ssh_key_setting =
  ks_privateKey :: string
  ks_publicKey :: string

record env_var_setting =
  ev_name :: string
  ev_value :: string

record skill_setting =
  sk_name :: string
  sk_content :: string
  sk_repoKey :: "string option"

record agents_md_entry =
  ae_repoKey :: string
  ae_content :: string

record agents_md_setting =
  am_global :: "string option"
  am_repos :: "agents_md_entry list"

record git_person =
  gp_name :: string
  gp_email :: string

record git_identity_override =
  go_owner :: string
  go_person :: git_person

record git_identity_setting =
  gi_person :: git_person
  gi_overrides :: "git_identity_override list"

record mcp_auth =
  ma_content :: string
  ma_token :: string

record credential_settings =
  cs_sshKey :: "ssh_key_setting option"
  cs_githubToken :: "string option"
  cs_gitIdentity :: "git_identity_setting option"
  cs_env :: "env_var_setting list"
  cs_skills :: "skill_setting list"
  cs_agentsMd :: "agents_md_setting option"
  cs_mcpAuth :: "mcp_auth option"

datatype file_mode = Mode600 | Mode644

record container_file =
  fi_path :: string
  fi_content :: string
  fi_mode :: file_mode

section \<open>Paths\<close>

definition ARTIFACTS_ROOT :: string where "ARTIFACTS_ROOT = ''/workspace/artifacts''"
definition CONTAINER_SKILLS_ROOT :: string where "CONTAINER_SKILLS_ROOT = ''/root/.config/opencode/skills''"
definition CONTAINER_AGENTS_MD_PATH :: string where "CONTAINER_AGENTS_MD_PATH = ''/root/.config/opencode/AGENTS.md''"
definition MCP_AUTH_DIR :: string where "MCP_AUTH_DIR = ''/workspace/.opencode-state/data/opencode''"
definition MCP_AUTH_PATH :: string where "MCP_AUTH_PATH = MCP_AUTH_DIR @ ''/mcp-auth.json''"
definition MCP_AUTH_MARKER :: string where "MCP_AUTH_MARKER = MCP_AUTH_DIR @ ''/.mcp-auth.seeded''"
definition MCP_AUTH_STAGING :: string where "MCP_AUTH_STAGING = ''/root/.mcp-auth.pending.json''"

definition BUILTIN_SKILL_NAMES :: "string list" where
  "BUILTIN_SKILL_NAMES = [''expose-dev-server'', ''browse-web'']"

section \<open>What a container sees of the settings\<close>

definition lower :: "string \<Rightarrow> string" where
  "lower s = map lower_char s"

definition resolveSkills :: "skill_setting list \<Rightarrow> string option \<Rightarrow> skill_setting list" where
  "resolveSkills skills repoKey = filter (\<lambda>s.
     case sk_repoKey s of
       None \<Rightarrow> True
     | Some r \<Rightarrow> (case repoKey of None \<Rightarrow> False | Some k \<Rightarrow> lower r = lower k)) skills"

definition resolveAgentsMd :: "agents_md_setting option \<Rightarrow> string option \<Rightarrow> string option" where
  "resolveAgentsMd setting repoKey =
     (case setting of
        None \<Rightarrow> None
      | Some am \<Rightarrow>
          (let repoEntry = (if truthy_str repoKey
                            then find (\<lambda>e. lower (ae_repoKey e) = lower (the repoKey)) (am_repos am) else None);
               parts = filter (\<lambda>p. p \<noteq> [])
                 (map (\<lambda>p. case p of None \<Rightarrow> [] | Some t \<Rightarrow> trim t) [am_global am, map_option ae_content repoEntry])
           in if parts = [] then None else Some (join_with [CHR 0x0A, CHR 0x0A] parts)))"

definition resolveGitIdentity :: "git_identity_setting option \<Rightarrow> string option \<Rightarrow> git_person option" where
  "resolveGitIdentity setting repoOwner =
     (case setting of
        None \<Rightarrow> None
      | Some gi \<Rightarrow>
          (case (if truthy_str repoOwner
                 then find (\<lambda>e. lower (go_owner e) = lower (the repoOwner)) (gi_overrides gi) else None) of
             Some e \<Rightarrow> Some (go_person e)
           | None \<Rightarrow> Some (gi_person gi)))"

definition gitConfigCommands :: "credential_settings \<Rightarrow> string option \<Rightarrow> string list" where
  "gitConfigCommands settings repoOwner =
     (case resolveGitIdentity (cs_gitIdentity settings) repoOwner of
        None \<Rightarrow> []
      | Some p \<Rightarrow> [''git config --global user.name '' @ shellQuote (gp_name p),
                  ''git config --global user.email '' @ shellQuote (gp_email p)])
     @ (if cs_sshKey settings = None then []
        else [''git config --global gpg.format ssh'',
              ''git config --global user.signingkey /root/.ssh/id_ed25519'',
              ''git config --global commit.gpgsign true''])"

section \<open>Files\<close>

definition ensureTrailingNewline :: "string \<Rightarrow> string" where
  "ensureTrailingNewline text = (if text \<noteq> [] \<and> last text = CHR 0x0A then text else text @ [CHR 0x0A])"

definition ghHosts :: "string \<Rightarrow> string" where
  "ghHosts token = ''github.com:'' @ [CHR 0x0A] @ ''    oauth_token: '' @ token @ [CHR 0x0A]
     @ ''    git_protocol: ssh'' @ [CHR 0x0A]"

text \<open>The built-in skills with the settings' skills over them, by name.\<close>

definition mergedSkills :: "skill_setting list \<Rightarrow> skill_setting list \<Rightarrow> (string \<times> skill_setting) list" where
  "mergedSkills builtins skills = fold (\<lambda>s. AList.update (sk_name s) s) (builtins @ skills) []"

definition skillPath :: "string \<Rightarrow> string" where
  "skillPath name = CONTAINER_SKILLS_ROOT @ ''/'' @ name @ ''/SKILL.md''"

definition textFile :: "string \<Rightarrow> string \<Rightarrow> file_mode \<Rightarrow> container_file" where
  "textFile p c m = \<lparr>fi_path = p, fi_content = ensureTrailingNewline c, fi_mode = m\<rparr>"

definition credentialFiles ::
  "skill_setting list \<Rightarrow> string \<Rightarrow> credential_settings \<Rightarrow> string option \<Rightarrow> container_file list" where
  "credentialFiles builtins instructions settings repoKey =
     (case cs_sshKey settings of
        None \<Rightarrow> []
      | Some k \<Rightarrow> [textFile ''/root/.ssh/id_ed25519'' (ks_privateKey k) Mode600,
                  textFile ''/root/.ssh/id_ed25519.pub'' (ks_publicKey k) Mode644])
     @ (if truthy_str (cs_githubToken settings)
        then [\<lparr>fi_path = ''/root/.config/gh/hosts.yml'', fi_content = ghHosts (the (cs_githubToken settings)), fi_mode = Mode600\<rparr>]
        else [])
     @ map (\<lambda>(n, s). textFile (skillPath (sk_name s)) (sk_content s) Mode644)
         (mergedSkills builtins (resolveSkills (cs_skills settings) repoKey))
     @ [textFile CONTAINER_AGENTS_MD_PATH
          (case resolveAgentsMd (cs_agentsMd settings) repoKey of
             None \<Rightarrow> instructions
           | Some t \<Rightarrow> t @ [CHR 0x0A, CHR 0x0A] @ instructions) Mode644]
     @ (case cs_mcpAuth settings of
          None \<Rightarrow> []
        | Some m \<Rightarrow> [textFile MCP_AUTH_STAGING (ma_content m) Mode600])"

section \<open>Commands\<close>

definition mcpAuthSeedCommand :: "string \<Rightarrow> string" where
  "mcpAuthSeedCommand token =
     (let marker = shellQuote MCP_AUTH_MARKER; target = shellQuote MCP_AUTH_PATH;
          staging = shellQuote MCP_AUTH_STAGING in
      ''if [ '' @ [CHR 0x22] @ ''$(cat '' @ marker @ '' 2>/dev/null || true)'' @ [CHR 0x22] @ '' != ''
      @ shellQuote token @ '' ]; then mkdir -p '' @ shellQuote MCP_AUTH_DIR @ '' && mv '' @ staging @ '' ''
      @ target @ '' && chmod 600 '' @ target @ '' && printf %s '' @ shellQuote token @ '' > '' @ marker
      @ ''; else rm -f '' @ staging @ ''; fi'')"

definition mcpAuthClearCommand :: string where
  "mcpAuthClearCommand =
     ''if [ -e '' @ shellQuote MCP_AUTH_MARKER @ '' ]; then rm -f '' @ shellQuote MCP_AUTH_PATH @ '' ''
     @ shellQuote MCP_AUTH_MARKER @ ''; fi''"

definition containerEnv :: "credential_settings \<Rightarrow> (string \<times> string) list" where
  "containerEnv settings = fold (\<lambda>e. AList.update (ev_name e) (ev_value e)) (cs_env settings) []"

end
