(* ===== verification/Runtime_Ops.thy ===== *)
theory Runtime_Ops
  imports Effects Container_Credentials Session_Model
begin

text \<open>
  What the worker does inside a container, \<open>src/runtime-ops.ts\<close>: the injection of the
  credentials, the checkout and the reading of the changes. The world of these programs is the
  log of what was asked of the host; a reply says how a command ended, or that the call failed.
  Calls the code starts together are made one after the other.
\<close>

section \<open>The host\<close>

record exec_result =
  er_success :: bool
  er_stdout :: string
  er_stderr :: string

datatype host_op =
    Exec string
  | WriteBatch "container_file list"
  | Exists string
  | CloneNoted

datatype host_reply = Ran exec_result | Answers bool | Wrote | CallFails

text \<open>An error, with what of the output is quoted in it and whether it was cut.\<close>

datatype runtime_error =
    HostFailure
  | CommandFailed string "string \<times> bool"
  | CloneFailed string "string \<times> bool"
  | NoPinnedRepository string
  | RevParseFailed "string \<times> bool"
  | StatusFailed "string \<times> bool"
  | NotBase64

type_synonym 'v host_task = "(host_op list, host_reply, runtime_error, 'v) program"

definition truncateOutput :: "string \<Rightarrow> string \<times> bool" where
  "truncateOutput value =
     (let collapsed = trim value in
      if length collapsed > 600 then (take 600 collapsed, True) else (collapsed, False))"

definition execCommand :: "string \<Rightarrow> exec_result host_task" where
  "execCommand cmd = call (\<lambda>a w.
     case a of Ran r \<Rightarrow> (Inr r, w @ [Exec cmd]) | _ \<Rightarrow> (Inl HostFailure, w @ [Exec cmd]))"

definition writeFiles :: "container_file list \<Rightarrow> unit host_task" where
  "writeFiles files = call (\<lambda>a w.
     case a of Wrote \<Rightarrow> (Inr (), w @ [WriteBatch files]) | _ \<Rightarrow> (Inl HostFailure, w @ [WriteBatch files]))"

definition pathExists :: "string \<Rightarrow> bool host_task" where
  "pathExists p = call (\<lambda>a w.
     case a of Answers b \<Rightarrow> (Inr b, w @ [Exists p]) | _ \<Rightarrow> (Inl HostFailure, w @ [Exists p]))"

definition mustExec :: "string \<Rightarrow> unit host_task" where
  "mustExec cmd = andThen (execCommand cmd) (\<lambda>r.
     if er_success r then return () else raise (CommandFailed cmd (truncateOutput (er_stderr r))))"

section \<open>Credentials\<close>

definition leadingScript :: "credential_settings \<Rightarrow> string option \<Rightarrow> string" where
  "leadingScript settings repoOwner = join_with '' && ''
     ([''rm -rf '' @ shellQuote CONTAINER_SKILLS_ROOT,
       ''rm -f '' @ shellQuote CONTAINER_AGENTS_MD_PATH,
       ''mkdir -p '' @ shellQuote ARTIFACTS_ROOT]
      @ gitConfigCommands settings repoOwner
      @ (if cs_mcpAuth settings = None then [mcpAuthClearCommand] else []))"

definition injectContainerCredentials ::
  "skill_setting list \<Rightarrow> string \<Rightarrow> credential_settings \<Rightarrow> string option \<Rightarrow> repo_definition option
   \<Rightarrow> (string \<times> string) list host_task" where
  "injectContainerCredentials builtins instructions settings repoKey repo =
     (let repoOwner = (case repo of None \<Rightarrow> None | Some r \<Rightarrow> repoOwnerFromCloneUrl (rd_cloneUrl r));
          files = credentialFiles builtins instructions settings repoKey
      in andThen (mustExec (leadingScript settings repoOwner)) (\<lambda>_.
         andThen (if files = [] then return () else writeFiles files) (\<lambda>_.
         andThen (case cs_mcpAuth settings of
                    None \<Rightarrow> return ()
                  | Some m \<Rightarrow> mustExec (mcpAuthSeedCommand (ma_token m))) (\<lambda>_.
         return (containerEnv settings)))))"

section \<open>The checkout\<close>

record runtime_checkout =
  ck_repo :: "repo_definition option"
  ck_repoKey :: "string option"
  ck_directory :: string
  ck_sessionId :: string

text \<open>The git work in flight: how its end is taken depends on which it is.\<close>

datatype provisioning = NoGitWork | Fetching string | CloneWork string string

definition fetchCommand :: "string \<Rightarrow> string" where
  "fetchCommand directory = ''git -C '' @ shellQuote directory @ '' fetch origin --prune''"

definition cloneCommand :: "repo_definition \<Rightarrow> string \<Rightarrow> string" where
  "cloneCommand repo directory =
     ''git clone --depth 1 --branch '' @ shellQuote (rd_defaultBranch repo) @ '' ''
     @ shellQuote (rd_cloneUrl repo) @ '' '' @ shellQuote directory"

definition noteClone :: "unit host_task" where
  "noteClone = modify (\<lambda>w. w @ [CloneNoted])"

definition provisionRepository :: "runtime_checkout \<Rightarrow> provisioning host_task" where
  "provisionRepository checkout =
     (if \<not> truthy_str (ck_repoKey checkout) then return NoGitWork
      else andThen (pathExists (ck_directory checkout @ ''/.git'')) (\<lambda>existing.
        if existing then return (Fetching (fetchCommand (ck_directory checkout)))
        else (case ck_repo checkout of
                None \<Rightarrow> raise (NoPinnedRepository (the (ck_repoKey checkout)))
              | Some repo \<Rightarrow> andThen noteClone (\<lambda>_.
                  return (CloneWork (the (ck_repoKey checkout)) (cloneCommand repo (ck_directory checkout)))))))"

definition awaitProvisioning :: "provisioning \<Rightarrow> unit host_task" where
  "awaitProvisioning p =
     (case p of
        NoGitWork \<Rightarrow> return ()
      | Fetching cmd \<Rightarrow> catching (andThen (execCommand cmd) (\<lambda>_. return ())) (\<lambda>_. return ())
      | CloneWork key cmd \<Rightarrow> andThen (execCommand cmd) (\<lambda>r.
          if er_success r then return () else raise (CloneFailed key (truncateOutput (er_stderr r)))))"

section \<open>The changes of a checkout\<close>

definition inCheckout :: "string \<Rightarrow> string \<Rightarrow> string" where
  "inCheckout directory args = ''git -C '' @ shellQuote directory @ '' '' @ args"

definition dropOrigin :: "string \<Rightarrow> string" where
  "dropOrigin s = (if starts_with s ''origin/'' then drop 7 s else s)"

definition resolveDefaultBranch :: "string \<Rightarrow> repo_definition option \<Rightarrow> string host_task" where
  "resolveDefaultBranch directory repo =
     andThen (execCommand (inCheckout directory ''symbolic-ref --short refs/remotes/origin/HEAD'')) (\<lambda>r.
       let branch = dropOrigin (trim (er_stdout r));
           pinned = (case repo of None \<Rightarrow> [] | Some rd \<Rightarrow> rd_defaultBranch rd)
       in return (if er_success r \<and> branch \<noteq> [] then branch else if pinned \<noteq> [] then pinned else ''main''))"

definition resolveBranchBase :: "string \<Rightarrow> string \<Rightarrow> string option host_task" where
  "resolveBranchBase directory defaultBranch =
     andThen (execCommand (inCheckout directory
       (''merge-base '' @ shellQuote (''origin/'' @ defaultBranch) @ '' HEAD''))) (\<lambda>r.
       return (if er_success r then filled (Some (trim (er_stdout r))) else None))"

definition readCommittedFiles :: "(string \<Rightarrow> string) \<Rightarrow> string \<Rightarrow> string \<Rightarrow> changed_file list host_task" where
  "readCommittedFiles textDecode directory base =
     andThen (execCommand (inCheckout directory
       (''diff --name-status -z '' @ shellQuote base @ '' | base64''))) (\<lambda>r.
       if \<not> er_success r then return []
       else (case decodeGitStatusOutput textDecode (er_stdout r) of
               None \<Rightarrow> raise NotBase64
             | Some t \<Rightarrow> return (parseGitNameStatus t)))"

definition MAX_NEW_FILE_DIFFS :: nat where "MAX_NEW_FILE_DIFFS = 100"

definition newFileDiff :: "string \<Rightarrow> string \<Rightarrow> string" where
  "newFileDiff directory path =
     inCheckout directory (''diff --no-index --no-color -- /dev/null '' @ shellQuote path @ '' || true'')"

definition diffNewFiles :: "string \<Rightarrow> changed_file list \<Rightarrow> string host_task" where
  "diffNewFiles directory files =
     (let paths = map cf_path (take MAX_NEW_FILE_DIFFS (filter (\<lambda>f. cf_status f = FileUntracked) files)) in
      if paths = [] then return []
      else andThen (execCommand (''{'' @ [CHR 0x0A] @ join_with [CHR 0x0A] (map (newFileDiff directory) paths)
             @ [CHR 0x0A] @ ''} | head -c 200001'')) (\<lambda>r.
        return (if er_success r then er_stdout r else [])))"

definition countUnpushedCommits :: "string \<Rightarrow> string \<Rightarrow> string \<Rightarrow> bool \<Rightarrow> int host_task" where
  "countUnpushedCommits directory branch defaultBranch hasRemoteBranch =
     (let base = (if hasRemoteBranch then branch else defaultBranch) in
      andThen (execCommand (inCheckout directory
        (''rev-list --count '' @ shellQuote (''origin/'' @ base @ ''..HEAD'')))) (\<lambda>r.
        return (case parseInt (er_stdout r) of None \<Rightarrow> 0 | Some n \<Rightarrow> if er_success r then n else 0)))"

definition remoteBranches :: "exec_result \<Rightarrow> string list" where
  "remoteBranches r =
     (if er_success r
      then filter (\<lambda>l. l \<noteq> []) (map (\<lambda>l. dropOrigin (trim l)) (split_on (CHR 0x0A) (er_stdout r)))
      else [])"

record session_changes =
  sc_repoKey :: string
  sc_branch :: string
  sc_defaultBranch :: string
  sc_onDefaultBranch :: bool
  sc_head :: "(string \<times> string) option"
  sc_scope :: changes_scope
  sc_baseRef :: "string option"
  sc_files :: "changed_file list"
  sc_diff :: string
  sc_diffTruncated :: bool
  sc_unpushedCommits :: int

definition headOf :: "exec_result \<Rightarrow> (string \<times> string) option" where
  "headOf r = (if er_success r \<and> trim (er_stdout r) \<noteq> [] then Some (parseHeadLine (er_stdout r)) else None)"

text \<open>After the four reads: the base, the committed files, the diffs and the count.\<close>

definition changesAgainst ::
  "(string \<Rightarrow> string) \<Rightarrow> string \<Rightarrow> string \<Rightarrow> changes_scope \<Rightarrow> string \<Rightarrow> string \<Rightarrow> exec_result
   \<Rightarrow> changed_file list \<Rightarrow> string list \<Rightarrow> session_changes host_task" where
  "changesAgainst textDecode repoKey directory scope defaultBranch branch headOut working remotes =
     andThen (if scope = ScopeBranch then resolveBranchBase directory defaultBranch else return None) (\<lambda>baseRef.
     andThen (case baseRef of None \<Rightarrow> return [] | Some b \<Rightarrow> readCommittedFiles textDecode directory b) (\<lambda>committed.
     andThen (execCommand (inCheckout directory
       (''diff '' @ shellQuote (nullish baseRef ''HEAD'') @ '' --no-color''))) (\<lambda>diffOut.
     let files = mergeChangedFiles committed working in
     andThen (diffNewFiles directory files) (\<lambda>newDiff.
     andThen (countUnpushedCommits directory branch defaultBranch (branch \<in> set remotes)) (\<lambda>count.
     return \<lparr>sc_repoKey = repoKey, sc_branch = branch, sc_defaultBranch = defaultBranch,
       sc_onDefaultBranch = (branch = defaultBranch), sc_head = headOf headOut,
       sc_scope = (if baseRef = None then ScopeHead else ScopeBranch), sc_baseRef = baseRef,
       sc_files = files,
       sc_diff = fst (limitDiff ((if er_success diffOut then er_stdout diffOut else []) @ newDiff)),
       sc_diffTruncated = snd (limitDiff ((if er_success diffOut then er_stdout diffOut else []) @ newDiff)),
       sc_unpushedCommits = count\<rparr>)))))"

definition readSessionChanges ::
  "(string \<Rightarrow> string) \<Rightarrow> runtime_checkout \<Rightarrow> string \<Rightarrow> changes_scope \<Rightarrow> session_changes host_task" where
  "readSessionChanges textDecode checkout repoKey scope =
     (let directory = ck_directory checkout in
      andThen (resolveDefaultBranch directory (ck_repo checkout)) (\<lambda>defaultBranch.
      andThen (execCommand (inCheckout directory ''rev-parse --abbrev-ref HEAD'')) (\<lambda>branchOut.
      andThen (execCommand (inCheckout directory
        (''log -1 --format='' @ shellQuote ''%H%x09%s''))) (\<lambda>headOut.
      andThen (execCommand (inCheckout directory ''status --porcelain=v1 -z -uall | base64'')) (\<lambda>statusOut.
      andThen (execCommand (inCheckout directory
        (''branch --remotes --list '' @ shellQuote ''origin/*''))) (\<lambda>remoteOut.
      if \<not> er_success branchOut then raise (RevParseFailed (truncateOutput (er_stderr branchOut)))
      else if \<not> er_success statusOut then raise (StatusFailed (truncateOutput (er_stderr statusOut)))
      else (case decodeGitStatusOutput textDecode (er_stdout statusOut) of
              None \<Rightarrow> raise NotBase64
            | Some t \<Rightarrow> changesAgainst textDecode repoKey directory scope defaultBranch
                (trim (er_stdout branchOut)) headOut (parseGitStatus t) (remoteBranches remoteOut))))))))"

end
