(* ===== verification/Runtime_Ops_Properties.thy ===== *)
theory Runtime_Ops_Properties
  imports Runtime_Ops Session_Changes_Properties
begin

text \<open>
  What a container is asked to do: the reading of the changes runs only commands that read, the
  clone gets its arguments as they are, and the credentials are written in the order that the
  commands need and never appear in one.
\<close>

section \<open>Reading only\<close>

definition READERS :: "string list" where
  "READERS = [''symbolic-ref'', ''merge-base'', ''diff'', ''rev-list'', ''rev-parse'', ''log'', ''status'', ''branch'']"

text \<open>A git command that reads in this checkout, or a filter or bracket around one.\<close>

definition simpleReads :: "string \<Rightarrow> string list \<Rightarrow> bool" where
  "simpleReads directory ws =
     (case ws of
        [] \<Rightarrow> True
      | c # args \<Rightarrow>
          c \<in> set [''base64'', ''head'', ''true'', ''{'', ''}''] \<or>
          (c = ''git'' \<and> length args \<ge> 3 \<and> args ! 0 = ''-C'' \<and> args ! 1 = directory \<and> args ! 2 \<in> set READERS))"

definition readsOnly :: "string \<Rightarrow> string \<Rightarrow> bool" where
  "readsOnly directory cmd =
     (case shellTokens Between cmd of
        None \<Rightarrow> False
      | Some ts \<Rightarrow> list_all (simpleReads directory) (simpleCommands ts))"

lemma plain_chars [simp]:
  "plainChar CHR ''a''" "plainChar CHR ''b''" "plainChar CHR ''c''" "plainChar CHR ''d''" "plainChar CHR ''e''"
  "plainChar CHR ''f''" "plainChar CHR ''g''" "plainChar CHR ''h''" "plainChar CHR ''i''" "plainChar CHR ''k''"
  "plainChar CHR ''l''" "plainChar CHR ''m''" "plainChar CHR ''n''" "plainChar CHR ''o''" "plainChar CHR ''p''"
  "plainChar CHR ''r''" "plainChar CHR ''s''" "plainChar CHR ''t''" "plainChar CHR ''u''" "plainChar CHR ''v''"
  "plainChar CHR ''x''" "plainChar CHR ''y''" "plainChar CHR ''z''" "plainChar CHR ''w''" "plainChar CHR ''C''"
  "plainChar CHR ''H''" "plainChar CHR ''E''" "plainChar CHR ''A''" "plainChar CHR ''D''" "plainChar CHR ''1''"
  "plainChar CHR ''0''" "plainChar CHR ''2''" "plainChar CHR ''6''" "plainChar CHR ''4''" "plainChar CHR ''-''"
  "plainChar CHR ''/''" "plainChar CHR ''=''" "plainChar CHR ''{''" "plainChar CHR ''}''" "plainChar CHR ''.''"
  "plainChar CHR ''_''"
  by code_simp+


lemma simpleCommands_ne: "simpleCommands ts \<noteq> []"
  by (induction ts rule: simpleCommands.induct) (auto split: list.split)







text \<open>A program whose every request is a command that reads; it may end in any way.\<close>

definition opReads :: "string \<Rightarrow> host_op \<Rightarrow> bool" where
  "opReads d q = (case q of Exec cmd \<Rightarrow> readsOnly d cmd | _ \<Rightarrow> False)"

definition onlyReads :: "string \<Rightarrow> 'v host_task \<Rightarrow> bool" where
  "onlyReads d m = (\<forall>w. list_all (opReads d) w \<longrightarrow>
     wp m (\<lambda>_. list_all (opReads d)) (\<lambda>_. list_all (opReads d)) (list_all (opReads d)) w)"


lemma onlyReads_raise [simp]: "onlyReads d (raise e)"
  by (simp add: onlyReads_def)







section \<open>The clone\<close>

text \<open>
  Whatever the pinned branch, the clone URL and the directory hold, the shell runs exactly
  \<open>git clone\<close> with those three as its arguments, and a fetch exactly \<open>git fetch\<close>.
\<close>

theorem checkout_commands_are_exact:
  "shellTokens Between (cloneCommand repo directory) = Some (map Word [''git'', ''clone'', ''--depth'', ''1'',
     ''--branch'', rd_defaultBranch repo, rd_cloneUrl repo, directory])
   \<and> shellTokens Between (fetchCommand directory) = Some (map Word [''git'', ''-C'', directory, ''fetch'',
     ''origin'', ''--prune''])"
  by (simp add: cloneCommand_def fetchCommand_def operatorChar_def)

section \<open>Credentials\<close>

definition wakePlan ::
  "skill_setting list \<Rightarrow> string \<Rightarrow> credential_settings \<Rightarrow> string option \<Rightarrow> repo_definition option \<Rightarrow> host_op list" where
  "wakePlan builtins instructions settings repoKey repo =
     [Exec (leadingScript settings (case repo of None \<Rightarrow> None | Some r \<Rightarrow> repoOwnerFromCloneUrl (rd_cloneUrl r))),
      WriteBatch (credentialFiles builtins instructions settings repoKey)]
     @ (case cs_mcpAuth settings of None \<Rightarrow> [] | Some m \<Rightarrow> [Exec (mcpAuthSeedCommand (ma_token m))])"

lemma credentialFiles_ne: "credentialFiles builtins instructions settings repoKey \<noteq> []"
  by (simp add: credentialFiles_def)

lemma wp_mustExec: "wp (mustExec cmd) (\<lambda>_ v. v = w @ [Exec cmd]) (\<lambda>_ v. v = w @ [Exec cmd]) (\<lambda>v. v = w) w"
  unfolding mustExec_def
  by (rule wp_andThen) (simp add: execCommand_def split: host_reply.split)

lemma wp_writeFiles:
  "wp (writeFiles files) (\<lambda>_ v. v = w @ [WriteBatch files]) (\<lambda>_ v. v = w @ [WriteBatch files]) (\<lambda>v. v = w) w"
  by (simp add: writeFiles_def split: host_reply.split)

text \<open>What an injection may have asked for when it ends: a beginning of the plan.\<close>

definition begunPlan :: "host_op list \<Rightarrow> host_op list \<Rightarrow> bool" where
  "begunPlan plan log = (\<exists>n. log = take n plan)"

lemma begunPlan_parts: "begunPlan (xs @ ys) xs"
  unfolding begunPlan_def by (rule exI [of _ "length xs"]) simp

text \<open>
  The old skills are gone before the new files are written, and the MCP store is seeded only
  after its file is there: an injection that ends, in any way, has asked for a beginning of its
  plan, and for all of it when it succeeds.
\<close>

theorem injection_follows_plan:
  assumes "injectContainerCredentials builtins instructions settings repoKey repo [] replies = (r, log, rest)"
  shows "begunPlan (wakePlan builtins instructions settings repoKey repo) log
    \<and> (\<forall>env. r = Returned env \<longrightarrow>
         log = wakePlan builtins instructions settings repoKey repo \<and> env = containerEnv settings)"
proof -
  let ?plan = "wakePlan builtins instructions settings repoKey repo"
  let ?owner = "case repo of None \<Rightarrow> None | Some r \<Rightarrow> repoOwnerFromCloneUrl (rd_cloneUrl r)"
  let ?lead = "[Exec (leadingScript settings ?owner)]"
  let ?files = "[WriteBatch (credentialFiles builtins instructions settings repoKey)]"
  let ?B = "begunPlan ?plan"
  have plan: "?plan = ?lead @ ?files @
      (case cs_mcpAuth settings of None \<Rightarrow> [] | Some m \<Rightarrow> [Exec (mcpAuthSeedCommand (ma_token m))])"
    by (simp add: wakePlan_def)
  have b: "?B []" "?B ?lead" "?B (?lead @ ?files)" "?B ?plan"
    using begunPlan_parts [of "[]" ?plan] begunPlan_parts [of ?lead] begunPlan_parts [of "?lead @ ?files"]
      begunPlan_parts [of ?plan "[]"]
    by (simp_all add: plan)
  have seed: "wp (case cs_mcpAuth settings of None \<Rightarrow> return () | Some m \<Rightarrow> mustExec (mcpAuthSeedCommand (ma_token m)))
      (\<lambda>_ v. v = ?plan) (\<lambda>_. ?B) ?B (?lead @ ?files)"
  proof (cases "cs_mcpAuth settings")
    case None
    then show ?thesis by (simp add: plan)
  next
    case (Some m)
    have "wp (mustExec (mcpAuthSeedCommand (ma_token m))) (\<lambda>_ v. v = ?plan) (\<lambda>_. ?B) ?B (?lead @ ?files)"
      by (rule wp_mono [OF wp_mustExec]) (use Some b in \<open>auto simp: plan\<close>)
    then show ?thesis using Some by simp
  qed
  have "wp (injectContainerCredentials builtins instructions settings repoKey repo)
      (\<lambda>env v. v = ?plan \<and> env = containerEnv settings) (\<lambda>_. ?B) ?B []"
    unfolding injectContainerCredentials_def Let_def if_not_P [OF credentialFiles_ne]
  proof (rule wp_andThen, rule wp_mono [OF wp_mustExec])
    fix u v assume "v = [] @ ?lead"
    then have v: "v = ?lead" by simp
    show "wp (andThen (writeFiles (credentialFiles builtins instructions settings repoKey))
        (\<lambda>_. andThen (case cs_mcpAuth settings of None \<Rightarrow> return () | Some m \<Rightarrow> mustExec (mcpAuthSeedCommand (ma_token m)))
          (\<lambda>_. return (containerEnv settings))))
        (\<lambda>env v. v = ?plan \<and> env = containerEnv settings) (\<lambda>_. ?B) ?B v"
      unfolding v
    proof (rule wp_andThen, rule wp_mono [OF wp_writeFiles])
      fix u v' assume v': "v' = ?lead @ ?files"
      show "wp (andThen (case cs_mcpAuth settings of None \<Rightarrow> return () | Some m \<Rightarrow> mustExec (mcpAuthSeedCommand (ma_token m)))
          (\<lambda>_. return (containerEnv settings)))
          (\<lambda>env v. v = ?plan \<and> env = containerEnv settings) (\<lambda>_. ?B) ?B v'"
        unfolding v' by (rule wp_andThen, rule wp_mono [OF seed]) simp_all
    qed (use b in auto)
  qed (use b in auto)
  then show ?thesis
    using assms b by (cases r) (auto simp: wp_def dest!: spec [of _ replies])
qed

definition exCredentials :: credential_settings where
  "exCredentials = \<lparr>cs_sshKey = Some \<lparr>ks_privateKey = ''KEY'', ks_publicKey = ''PUB''\<rparr>,
     cs_githubToken = Some ''ghp_1'', cs_gitIdentity = None, cs_env = [\<lparr>ev_name = ''A'', ev_value = ''1''\<rparr>],
     cs_skills = [], cs_agentsMd = None, cs_mcpAuth = Some \<lparr>ma_content = ''{}'', ma_token = ''r1''\<rparr>\<rparr>"

theorem injection_follows_plan_witness:
  "\<exists>r log rest. injectContainerCredentials [] ''text'' exCredentials None None []
      [Ran \<lparr>er_success = True, er_stdout = [], er_stderr = []\<rparr>, Wrote,
       Ran \<lparr>er_success = True, er_stdout = [], er_stderr = []\<rparr>] = (Returned [(''A'', ''1'')], log, rest)
     \<and> log = wakePlan [] ''text'' exCredentials None None \<and> length log = 3"
proof -
  let ?p = "injectContainerCredentials [] ''text'' exCredentials None None []
      [Ran \<lparr>er_success = True, er_stdout = [], er_stderr = []\<rparr>, Wrote,
       Ran \<lparr>er_success = True, er_stdout = [], er_stderr = []\<rparr>]"
  obtain r log rest where p: "?p = (r, log, rest)" by (cases ?p) auto
  have "case ?p of (r, log, _) \<Rightarrow> r = Returned [(''A'', ''1'')] \<and> length log = 3" by code_simp
  then have "r = Returned [(''A'', ''1'')]" "length log = 3" using p by simp_all
  then show ?thesis using injection_follows_plan [OF p] p by auto
qed

fun isExec :: "host_op \<Rightarrow> bool" where
  "isExec (Exec cmd) = True"
| "isExec q = False"

text \<open>What of the settings a command may show: the committer, and whether there are keys.\<close>

definition publicPart :: "credential_settings \<Rightarrow> git_identity_setting option \<times> bool \<times> string option" where
  "publicPart s = (cs_gitIdentity s, cs_sshKey s \<noteq> None, map_option ma_token (cs_mcpAuth s))"

lemma gitConfig_public:
  "publicPart s = publicPart s' \<Longrightarrow> gitConfigCommands s owner = gitConfigCommands s' owner"
  by (cases "cs_sshKey s"; cases "cs_sshKey s'") (simp_all add: publicPart_def gitConfigCommands_def)

text \<open>
  No command line shows a secret: two settings that differ only in keys, tokens, variables,
  skills and stored logins lead to the same commands.
\<close>

theorem secrets_stay_off_commands:
  assumes "publicPart s = publicPart s'"
  shows "filter isExec (wakePlan builtins instructions s repoKey repo)
    = filter isExec (wakePlan builtins instructions s' repoKey repo)"
proof -
  have mcp: "map_option ma_token (cs_mcpAuth s) = map_option ma_token (cs_mcpAuth s')"
    using assms by (simp add: publicPart_def)
  then have "(cs_mcpAuth s = None) = (cs_mcpAuth s' = None)"
    by (cases "cs_mcpAuth s"; cases "cs_mcpAuth s'") simp_all
  then have "leadingScript s owner = leadingScript s' owner" for owner
    using gitConfig_public [OF assms] by (simp add: leadingScript_def)
  then show ?thesis
    using mcp by (cases "cs_mcpAuth s"; cases "cs_mcpAuth s'") (simp_all add: wakePlan_def)
qed

theorem secrets_stay_off_commands_witness:
  "filter isExec (wakePlan [] ''text'' exCredentials None None)
   = filter isExec (wakePlan [] ''text''
       (exCredentials\<lparr>cs_sshKey := Some \<lparr>ks_privateKey = ''OTHER'', ks_publicKey = ''PUB''\<rparr>, cs_githubToken := Some ''ghp_2''\<rparr>) None None)"
  by (rule secrets_stay_off_commands) (simp add: publicPart_def exCredentials_def)

end
