(* ===== verification/Settings_Schema.thy ===== *)
theory Settings_Schema
  imports Container_Credentials Model_Catalog Provider_Runtime
begin

text \<open>
  What a setting may hold: the validators of \<open>src/settings-schema.ts\<close>, on untrusted JSON. A
  problem is a constructor for each message the code reports. A validator that throws is
  \<open>None\<close>. Parsing a URL is an argument.
\<close>

section \<open>Problems\<close>

datatype problem =
    NotAnObject
  | PermissionUnset string
  | NoProvider
  | ModelMissing
  | ModelUnknown string
  | TokenEmpty
  | BadPrivateKey
  | BadPublicKey
  | NotAList
  | BadName json
  | ListedTwice string
  | EmptyValue string
  | BadRepoKey json
  | GlobalAndRepository string
  | NoContent string
  | GlobalNotText
  | NothingSet
  | EntryNotAnObject string
  | NameMissing
  | EmailMissing
  | BadOwner json
  | OverrideNameMissing string
  | OverrideEmailMissing string
  | UrlEmpty nat
  | UrlInvalid nat
  | UrlNotHttps nat
  | UrlCredentials nat
  | UrlNotOrigin nat
  | HostTokenEmpty nat
  | HostTokenPadded nat
  | ImageEmpty nat
  | ImageInvalid nat
  | IdleNotWhole nat
  | IdleOutOfRange nat
  | HostIdInvalid nat
  | HostIdTaken nat
  | LabelEmpty nat
  | LabelLong nat

datatype warning =
    AttachmentsWithoutModalities string string
  | NoApiKey string

section \<open>The OpenCode configuration\<close>

definition REQUIRED_PERMISSION_KEYS :: "string list" where
  "REQUIRED_PERMISSION_KEYS =
     [''edit'', ''bash'', ''webfetch'', ''doom_loop'', ''external_directory'', ''task'']"

definition splitAtFirst :: "char \<Rightarrow> string \<Rightarrow> string \<times> string" where
  "splitAtFirst c s = (takeWhile (\<lambda>d. d \<noteq> c) s, drop 1 (dropWhile (\<lambda>d. d \<noteq> c) s))"

text \<open>The provider is the first segment of a reference, the model everything after it.\<close>

definition resolveModelRef :: "json \<Rightarrow> string \<Rightarrow> bool" where
  "resolveModelRef config ref =
     (if CHR ''/'' \<notin> set ref \<or> hd ref = CHR ''/'' then False
      else let (p, m) = splitAtFirst (CHR ''/'') ref in
        fieldOf (fieldOf (fieldOf (fieldOf config ''provider'') p) ''models'') m \<noteq> JUndefined)"

definition inputsFine :: "json \<Rightarrow> bool" where
  "inputsFine inputs =
     (case inputs of JArr vs \<Rightarrow> JStr ''text'' \<in> set vs \<and> JStr ''image'' \<in> set vs | _ \<Rightarrow> False)"

text \<open>The warning about one model; reading a property of \<open>null\<close> throws.\<close>

definition modelWarnings :: "string \<Rightarrow> string \<times> json \<Rightarrow> warning list option" where
  "modelWarnings p e =
     (case e of (m, v) \<Rightarrow>
        if nullishValue v then None
        else Some (if truthyValue (fieldOf v ''attachment'')
                      \<and> \<not> inputsFine (fieldOf (fieldOf v ''modalities'') ''input'')
                   then [AttachmentsWithoutModalities p m] else []))"

fun collectSome :: "'a list option list \<Rightarrow> 'a list option" where
  "collectSome [] = Some []"
| "collectSome (None # xs) = None"
| "collectSome (Some a # xs) = map_option ((@) a) (collectSome xs)"

definition allModelWarnings :: "json \<Rightarrow> warning list option" where
  "allModelWarnings providers =
     collectSome (concat (map (\<lambda>(p, v). map (modelWarnings p) (entriesOf (fieldOf v ''models'')))
       (entriesOf providers)))"

text \<open>\<open>config.model?.split('/')[0]\<close>: what is neither nullish nor a string has no \<open>split\<close>.\<close>

definition defaultProviderId :: "json \<Rightarrow> string option option" where
  "defaultProviderId model =
     (case model of
        JStr s \<Rightarrow> Some (Some (hd (split_on (CHR ''/'') s)))
      | JUndefined \<Rightarrow> Some None
      | JNull \<Rightarrow> Some None
      | _ \<Rightarrow> None)"

definition keyWarnings :: "json \<Rightarrow> string option \<Rightarrow> warning list" where
  "keyWarnings providers p =
     (if truthy_str p \<and> truthyValue (fieldOf providers (the p))
         \<and> \<not> truthyValue (fieldOf (fieldOf (fieldOf providers (the p)) ''options'') ''apiKey'')
      then [NoApiKey (the p)] else [])"

definition configErrors :: "json \<Rightarrow> problem list" where
  "configErrors raw =
     concat (map (\<lambda>k. if fieldOf (fieldOf raw ''permission'') k = JUndefined then [PermissionUnset k] else [])
       REQUIRED_PERMISSION_KEYS)
     @ (if entriesOf (fieldOf raw ''provider'') = [] then [NoProvider] else [])
     @ (case fieldOf raw ''model'' of
          JStr s \<Rightarrow> if s = [] then [ModelMissing] else if \<not> resolveModelRef raw s then [ModelUnknown s] else []
        | _ \<Rightarrow> [ModelMissing])"

definition validateOpencodeConfig :: "json \<Rightarrow> (problem list \<times> warning list) option" where
  "validateOpencodeConfig raw =
     (if \<not> isRecord raw then Some ([NotAnObject], [])
      else case allModelWarnings (fieldOf raw ''provider'') of
        None \<Rightarrow> None
      | Some ws \<Rightarrow>
          (case defaultProviderId (fieldOf raw ''model'') of
             None \<Rightarrow> None
           | Some p \<Rightarrow> Some (configErrors raw, ws @ keyWarnings (fieldOf raw ''provider'') p)))"

section \<open>Credentials\<close>

definition validateGithubToken :: "json \<Rightarrow> problem list" where
  "validateGithubToken v =
     (case the_str v of None \<Rightarrow> [TokenEmpty] | Some s \<Rightarrow> if trim s = [] then [TokenEmpty] else [])"

definition opensshLine :: "string \<Rightarrow> bool" where
  "opensshLine s =
     (starts_with s ''ssh-ed25519 '' \<or> starts_with s ''ssh-rsa ''
      \<or> (starts_with s ''ecdsa-'' \<and>
         (let kind = takeWhile (\<lambda>c. is_lower c \<or> is_digit c \<or> c = CHR ''-'') (drop 6 s) in
          kind \<noteq> [] \<and> starts_with (drop (6 + length kind) s) '' '')))"

definition validateSshKey :: "json \<Rightarrow> problem list" where
  "validateSshKey v =
     (if \<not> isObject v then [NotAnObject]
      else (case the_str (fieldOf v ''privateKey'') of
              Some s \<Rightarrow> if contains s ''BEGIN OPENSSH PRIVATE KEY'' then [] else [BadPrivateKey]
            | None \<Rightarrow> [BadPrivateKey])
         @ (case the_str (fieldOf v ''publicKey'') of
              Some s \<Rightarrow> if opensshLine (trim s) then [] else [BadPublicKey]
            | None \<Rightarrow> [BadPublicKey]))"

definition envNameChar :: "char \<Rightarrow> bool" where
  "envNameChar c = (is_lower c \<or> is_upper c \<or> is_digit c \<or> c = CHR ''_'')"

definition ENV_NAME_PATTERN :: "string \<Rightarrow> bool" where
  "ENV_NAME_PATTERN s = (s \<noteq> [] \<and> \<not> is_digit (hd s) \<and> list_all envNameChar s)"

definition emptyText :: "json \<Rightarrow> bool" where
  "emptyText v = (case the_str v of None \<Rightarrow> True | Some s \<Rightarrow> s = [])"

definition blankText :: "json \<Rightarrow> bool" where
  "blankText v = (case the_str v of None \<Rightarrow> True | Some s \<Rightarrow> trim s = [])"

fun envProblems :: "string list \<Rightarrow> json list \<Rightarrow> problem list" where
  "envProblems seen [] = []"
| "envProblems seen (e # es) =
     (case the_str (fieldOf e ''name'') of
        None \<Rightarrow> BadName (fieldOf e ''name'') # envProblems seen es
      | Some n \<Rightarrow>
          (if \<not> ENV_NAME_PATTERN n then BadName (JStr n) # envProblems seen es
           else (if n \<in> set seen then [ListedTwice n] else [])
              @ (if emptyText (fieldOf e ''value'') then [EmptyValue n] else [])
              @ envProblems (n # seen) es))"

definition validateEnvVars :: "json \<Rightarrow> problem list" where
  "validateEnvVars v = (case v of JArr es \<Rightarrow> envProblems [] es | _ \<Rightarrow> [NotAList])"

section \<open>Skills and instructions\<close>

definition SKILL_NAME_PATTERN :: "string \<Rightarrow> bool" where
  "SKILL_NAME_PATTERN s =
     (s \<noteq> [] \<and> hd s \<noteq> CHR ''-'' \<and> list_all (\<lambda>c. is_lower c \<or> is_digit c \<or> c = CHR ''-'') s)"

text \<open>For each name: whether it is set globally, and the repositories it is set for.\<close>

type_synonym skill_scopes = "(string \<times> (bool \<times> string list)) list"

definition scopeOf :: "skill_scopes \<Rightarrow> string \<Rightarrow> bool \<times> string list" where
  "scopeOf scopes n = (case map_of scopes n of None \<Rightarrow> (False, []) | Some sc \<Rightarrow> sc)"

definition scopeProblems :: "bool \<times> string list \<Rightarrow> string \<Rightarrow> string option \<Rightarrow> problem list" where
  "scopeProblems sc n repo =
     (case repo of
        None \<Rightarrow> if fst sc then [ListedTwice n] else if snd sc \<noteq> [] then [GlobalAndRepository n] else []
      | Some r \<Rightarrow> if lower r \<in> set (snd sc) then [ListedTwice n]
                  else if fst sc then [GlobalAndRepository n] else [])"

definition scopeWith :: "bool \<times> string list \<Rightarrow> string option \<Rightarrow> bool \<times> string list" where
  "scopeWith sc repo =
     (case repo of None \<Rightarrow> (True, snd sc) | Some r \<Rightarrow> (fst sc, lower r # snd sc))"

fun skillProblems :: "skill_scopes \<Rightarrow> json list \<Rightarrow> problem list" where
  "skillProblems scopes [] = []"
| "skillProblems scopes (e # es) =
     (case the_str (fieldOf e ''name'') of
        None \<Rightarrow> BadName (fieldOf e ''name'') # skillProblems scopes es
      | Some n \<Rightarrow>
          (if \<not> SKILL_NAME_PATTERN n then BadName (JStr n) # skillProblems scopes es
           else if fieldOf e ''repoKey'' \<noteq> JUndefined \<and> \<not> isSafeRepoKey (fieldOf e ''repoKey'')
             then BadRepoKey (fieldOf e ''repoKey'') # skillProblems scopes es
           else let repo = the_str (fieldOf e ''repoKey''); sc = scopeOf scopes n in
             scopeProblems sc n repo
             @ (if blankText (fieldOf e ''content'') then [NoContent n] else [])
             @ skillProblems (AList.update n (scopeWith sc repo) scopes) es))"

definition validateSkills :: "json \<Rightarrow> problem list" where
  "validateSkills v = (case v of JArr es \<Rightarrow> skillProblems [] es | _ \<Rightarrow> [NotAList])"

text \<open>The problems of the repositories' entries, and whether one of them has content.\<close>

fun repoProblems :: "string list \<Rightarrow> bool \<Rightarrow> json list \<Rightarrow> problem list \<times> bool" where
  "repoProblems seen has [] = ([], has)"
| "repoProblems seen has (e # es) =
     (if \<not> isSafeRepoKey (fieldOf e ''repoKey'')
      then map_prod ((#) (BadRepoKey (fieldOf e ''repoKey''))) id (repoProblems seen has es)
      else let r = (case the_str (fieldOf e ''repoKey'') of None \<Rightarrow> [] | Some x \<Rightarrow> x);
               blank = blankText (fieldOf e ''content'') in
        map_prod ((@) ((if lower r \<in> set seen then [ListedTwice r] else [])
                      @ (if blank then [NoContent r] else []))) id
          (repoProblems (lower r # seen) (has \<or> \<not> blank) es))"

definition validateAgentsMd :: "json \<Rightarrow> problem list" where
  "validateAgentsMd v =
     (if \<not> isRecord v then [NotAnObject]
      else let g = fieldOf v ''global'';
               first = (if g \<noteq> JUndefined \<and> the_str g = None then [GlobalNotText] else []) in
        (case fieldOf v ''repos'' of
           JUndefined \<Rightarrow> first @ (if first = [] \<and> blankText g then [NothingSet] else [])
         | JArr es \<Rightarrow>
             (let (ps, has) = repoProblems [] False es in
              first @ ps @ (if first @ ps = [] \<and> blankText g \<and> \<not> has then [NothingSet] else []))
         | _ \<Rightarrow> first @ [NotAList]))"

definition validateMcpAuth :: "json \<Rightarrow> problem list" where
  "validateMcpAuth v =
     (case v of
        JObj kvs \<Rightarrow> concat (map (\<lambda>(n, e). if isRecord e then [] else [EntryNotAnObject n]) kvs)
      | _ \<Rightarrow> [NotAnObject])"

definition GITHUB_OWNER_PATTERN :: "string \<Rightarrow> bool" where
  "GITHUB_OWNER_PATTERN s =
     (s \<noteq> [] \<and> length s \<le> 39 \<and> hd s \<noteq> CHR ''-''
      \<and> list_all (\<lambda>c. is_lower c \<or> is_upper c \<or> is_digit c \<or> c = CHR ''-'') s)"

definition hasAt :: "json \<Rightarrow> bool" where
  "hasAt v = (case the_str v of None \<Rightarrow> False | Some s \<Rightarrow> CHR ''@'' \<in> set s)"

fun overrideProblems :: "string list \<Rightarrow> json list \<Rightarrow> problem list" where
  "overrideProblems seen [] = []"
| "overrideProblems seen (e # es) =
     (case the_str (fieldOf e ''owner'') of
        None \<Rightarrow> BadOwner (fieldOf e ''owner'') # overrideProblems seen es
      | Some owner \<Rightarrow>
          (if \<not> GITHUB_OWNER_PATTERN owner then BadOwner (JStr owner) # overrideProblems seen es
           else (if lower owner \<in> set seen then [ListedTwice owner] else [])
              @ (if blankText (fieldOf e ''name'') then [OverrideNameMissing owner] else [])
              @ (if hasAt (fieldOf e ''email'') then [] else [OverrideEmailMissing owner])
              @ overrideProblems (lower owner # seen) es))"

definition validateGitIdentity :: "json \<Rightarrow> problem list" where
  "validateGitIdentity v =
     (if \<not> isObject v then [NotAnObject]
      else (if blankText (fieldOf v ''name'') then [NameMissing] else [])
         @ (if hasAt (fieldOf v ''email'') then [] else [EmailMissing])
         @ (case fieldOf v ''overrides'' of
              JUndefined \<Rightarrow> []
            | JArr es \<Rightarrow> overrideProblems [] es
            | _ \<Rightarrow> [NotAList]))"

section \<open>Docker hosts\<close>

text \<open>The parts of a \<open>URL\<close> the validator reads.\<close>

record url_parts =
  ur_protocol :: string
  ur_username :: string
  ur_password :: string
  ur_pathname :: string
  ur_search :: string
  ur_hash :: string

definition imageNameChar :: "char \<Rightarrow> bool" where
  "imageNameChar c = (is_lower c \<or> is_digit c \<or> c \<in> set ''._/-'')"

definition imageTagChar :: "char \<Rightarrow> bool" where
  "imageTagChar c = (is_lower c \<or> is_upper c \<or> is_digit c \<or> c \<in> set ''._-'')"

definition imageDigest :: "string \<Rightarrow> bool" where
  "imageDigest s =
     (s = [] \<or> (starts_with s ''@sha256:'' \<and> length (drop 8 s) = 64 \<and> list_all is_hex (drop 8 s)))"

definition imageTag :: "string \<Rightarrow> bool" where
  "imageTag s =
     (if starts_with s '':'' then
        (let tag = takeWhile imageTagChar (tl s) in
         tag \<noteq> [] \<and> hd tag \<noteq> CHR ''.'' \<and> hd tag \<noteq> CHR ''-'' \<and> length tag \<le> 128
         \<and> imageDigest (dropWhile imageTagChar (tl s)))
      else imageDigest s)"

definition DOCKER_IMAGE_PATTERN :: "string \<Rightarrow> bool" where
  "DOCKER_IMAGE_PATTERN s =
     (s \<noteq> [] \<and> (is_lower (hd s) \<or> is_digit (hd s)) \<and> imageTag (dropWhile imageNameChar s))"

definition DOCKER_HOST_ID_PATTERN :: "string \<Rightarrow> bool" where
  "DOCKER_HOST_ID_PATTERN s =
     (s \<noteq> [] \<and> length s \<le> 32 \<and> hd s \<noteq> CHR ''-''
      \<and> list_all (\<lambda>c. is_lower c \<or> is_digit c \<or> c = CHR ''-'') s)"

definition validateDockerAgentUrl :: "(string \<Rightarrow> url_parts option) \<Rightarrow> json \<Rightarrow> nat \<Rightarrow> problem list" where
  "validateDockerAgentUrl parseUrl v i =
     (if blankText v then [UrlEmpty i]
      else case parseUrl (trim (case the_str v of None \<Rightarrow> [] | Some s \<Rightarrow> s)) of
        None \<Rightarrow> [UrlInvalid i]
      | Some u \<Rightarrow>
          (if ur_protocol u \<noteq> ''https:'' then [UrlNotHttps i] else [])
          @ (if ur_username u \<noteq> [] \<or> ur_password u \<noteq> [] then [UrlCredentials i] else [])
          @ (if (ur_pathname u \<noteq> [] \<and> ur_pathname u \<noteq> ''/'') \<or> ur_search u \<noteq> [] \<or> ur_hash u \<noteq> []
             then [UrlNotOrigin i] else []))"

definition validateDockerAgentToken :: "json \<Rightarrow> nat \<Rightarrow> problem list" where
  "validateDockerAgentToken v i =
     (if blankText v then [HostTokenEmpty i]
      else if v \<noteq> JStr (trim (case the_str v of None \<Rightarrow> [] | Some s \<Rightarrow> s)) then [HostTokenPadded i] else [])"

definition validateDockerImage :: "json \<Rightarrow> nat \<Rightarrow> problem list" where
  "validateDockerImage v i =
     (if blankText v then [ImageEmpty i]
      else if \<not> DOCKER_IMAGE_PATTERN (case the_str v of None \<Rightarrow> [] | Some s \<Rightarrow> s) then [ImageInvalid i] else [])"

definition validateDockerIdleTimeoutMinutes :: "json \<Rightarrow> nat \<Rightarrow> problem list" where
  "validateDockerIdleTimeoutMinutes v i =
     (case v of JNum n \<Rightarrow> if n < 1 \<or> n > 1440 then [IdleOutOfRange i] else [] | _ \<Rightarrow> [IdleNotWhole i])"

text \<open>One host: what is wrong with its id, and the ids seen after it.\<close>

definition hostIdProblems :: "string list \<Rightarrow> json \<Rightarrow> nat \<Rightarrow> problem list \<times> string list" where
  "hostIdProblems seen v i =
     (case the_str v of
        None \<Rightarrow> ([HostIdInvalid i], seen)
      | Some s \<Rightarrow> if \<not> DOCKER_HOST_ID_PATTERN s then ([HostIdInvalid i], seen)
                  else if s \<in> set seen then ([HostIdTaken i], seen)
                  else ([], s # seen))"

definition labelProblems :: "json \<Rightarrow> nat \<Rightarrow> problem list" where
  "labelProblems v i =
     (if v = JUndefined then []
      else if blankText v then [LabelEmpty i]
      else if length (case the_str v of None \<Rightarrow> [] | Some s \<Rightarrow> s) > 60 then [LabelLong i] else [])"

fun hostProblems :: "(string \<Rightarrow> url_parts option) \<Rightarrow> nat \<Rightarrow> string list \<Rightarrow> json list \<Rightarrow> problem list" where
  "hostProblems parseUrl i seen [] = []"
| "hostProblems parseUrl i seen (h # hs) =
     (if \<not> isRecord h then NotAnObject # hostProblems parseUrl (i + 1) seen hs
      else (case hostIdProblems seen (fieldOf h ''id'') i of (ps, seen') \<Rightarrow>
        ps
        @ labelProblems (fieldOf h ''label'') i
        @ validateDockerAgentUrl parseUrl (fieldOf h ''baseUrl'') i
        @ validateDockerAgentToken (fieldOf h ''token'') i
        @ (if fieldOf h ''image'' = JUndefined then [] else validateDockerImage (fieldOf h ''image'') i)
        @ (if fieldOf h ''idleTimeoutMinutes'' = JUndefined then []
           else validateDockerIdleTimeoutMinutes (fieldOf h ''idleTimeoutMinutes'') i)
        @ hostProblems parseUrl (i + 1) seen' hs))"

definition validateDockerHosts :: "(string \<Rightarrow> url_parts option) \<Rightarrow> json \<Rightarrow> problem list" where
  "validateDockerHosts parseUrl v =
     (case v of JArr hs \<Rightarrow> if hs = [] then [NotAList] else hostProblems parseUrl 1 [] hs | _ \<Rightarrow> [NotAList])"

section \<open>The descriptor table\<close>

datatype setting_key =
    AdminPassword | GithubToken | OpencodeConfig | SshKey | ContainerEnv | Skills | AgentsMd
  | McpAuth | GitIdentity | DockerHosts

fun SETTING_KEYS :: "setting_key \<Rightarrow> string" where
  "SETTING_KEYS AdminPassword = ''auth.admin-password''"
| "SETTING_KEYS GithubToken = ''github.token''"
| "SETTING_KEYS OpencodeConfig = ''opencode.config''"
| "SETTING_KEYS SshKey = ''container.ssh-key''"
| "SETTING_KEYS ContainerEnv = ''container.env''"
| "SETTING_KEYS Skills = ''opencode.skills''"
| "SETTING_KEYS AgentsMd = ''opencode.agents-md''"
| "SETTING_KEYS McpAuth = ''opencode.mcp-auth''"
| "SETTING_KEYS GitIdentity = ''git.identity''"
| "SETTING_KEYS DockerHosts = ''docker.hosts''"

datatype setting_group = AuthGroup | GithubGroup | OpencodeGroup | ContainerGroup | GitGroup | DockerGroup
datatype exposure = Secret | Plain | Partial

record setting_descriptor =
  sd_key :: setting_key
  sd_group :: setting_group
  sd_label :: string
  sd_exposure :: exposure
  sd_required :: bool

definition SETTING_DESCRIPTORS :: "setting_descriptor list" where
  "SETTING_DESCRIPTORS =
     [\<lparr>sd_key = GithubToken, sd_group = GithubGroup, sd_label = ''GitHub token'',
        sd_exposure = Secret, sd_required = True\<rparr>,
      \<lparr>sd_key = OpencodeConfig, sd_group = OpencodeGroup, sd_label = ''OpenCode config'',
        sd_exposure = Plain, sd_required = True\<rparr>,
      \<lparr>sd_key = SshKey, sd_group = ContainerGroup, sd_label = ''SSH key'',
        sd_exposure = Partial, sd_required = True\<rparr>,
      \<lparr>sd_key = ContainerEnv, sd_group = ContainerGroup, sd_label = ''Environment variables'',
        sd_exposure = Partial, sd_required = False\<rparr>,
      \<lparr>sd_key = Skills, sd_group = OpencodeGroup, sd_label = ''Skills'',
        sd_exposure = Plain, sd_required = False\<rparr>,
      \<lparr>sd_key = AgentsMd, sd_group = OpencodeGroup, sd_label = ''AGENTS.md'',
        sd_exposure = Plain, sd_required = False\<rparr>,
      \<lparr>sd_key = McpAuth, sd_group = OpencodeGroup, sd_label = ''MCP auth (mcp-auth.json)'',
        sd_exposure = Secret, sd_required = False\<rparr>,
      \<lparr>sd_key = GitIdentity, sd_group = GitGroup, sd_label = ''Git identity'',
        sd_exposure = Plain, sd_required = False\<rparr>,
      \<lparr>sd_key = DockerHosts, sd_group = DockerGroup, sd_label = ''Docker hosts'',
        sd_exposure = Partial, sd_required = False\<rparr>]"

text \<open>The \<open>validate\<close> function of a descriptor; \<open>None\<close> where it throws.\<close>

definition validate :: "(string \<Rightarrow> url_parts option) \<Rightarrow> setting_key \<Rightarrow> json \<Rightarrow> problem list option" where
  "validate parseUrl k v =
     (case k of
        GithubToken \<Rightarrow> Some (validateGithubToken v)
      | OpencodeConfig \<Rightarrow> map_option fst (validateOpencodeConfig v)
      | SshKey \<Rightarrow> Some (validateSshKey v)
      | ContainerEnv \<Rightarrow> Some (validateEnvVars v)
      | Skills \<Rightarrow> Some (validateSkills v)
      | AgentsMd \<Rightarrow> Some (validateAgentsMd v)
      | McpAuth \<Rightarrow> Some (validateMcpAuth v)
      | GitIdentity \<Rightarrow> Some (validateGitIdentity v)
      | DockerHosts \<Rightarrow> Some (validateDockerHosts parseUrl v)
      | AdminPassword \<Rightarrow> None)"

definition findDescriptor :: "string \<Rightarrow> setting_descriptor option" where
  "findDescriptor key = find (\<lambda>d. SETTING_KEYS (sd_key d) = key) SETTING_DESCRIPTORS"

section \<open>The typed reading of a stored value\<close>

text \<open>What the casts of \<open>readSetting\<close> see of a value its validator accepted.\<close>

definition strOr :: "json \<Rightarrow> string" where
  "strOr v = (case the_str v of None \<Rightarrow> [] | Some s \<Rightarrow> s)"

definition skillOf :: "json \<Rightarrow> skill_setting" where
  "skillOf e = \<lparr>sk_name = strOr (fieldOf e ''name''), sk_content = strOr (fieldOf e ''content''),
     sk_repoKey = the_str (fieldOf e ''repoKey'')\<rparr>"

definition elementsOf :: "json \<Rightarrow> json list" where
  "elementsOf v = (case v of JArr es \<Rightarrow> es | _ \<Rightarrow> [])"

definition skillsOf :: "json \<Rightarrow> skill_setting list" where
  "skillsOf v = map skillOf (elementsOf v)"

definition envVarOf :: "json \<Rightarrow> env_var_setting" where
  "envVarOf e = \<lparr>ev_name = strOr (fieldOf e ''name''), ev_value = strOr (fieldOf e ''value'')\<rparr>"

definition modelConfigOf :: "json \<Rightarrow> model_config" where
  "modelConfigOf v = \<lparr>mc_name = the_str (fieldOf v ''name''),
     mc_variants = map fst (entriesOf (fieldOf v ''variants''))\<rparr>"

definition providerConfigOf :: "json \<Rightarrow> provider_config" where
  "providerConfigOf v = \<lparr>pv_name = the_str (fieldOf v ''name''),
     pv_models = map (\<lambda>(m, x). (m, modelConfigOf x)) (entriesOf (fieldOf v ''models''))\<rparr>"

definition configOf :: "json \<Rightarrow> opencode_config" where
  "configOf v = \<lparr>oc_model = the_str (fieldOf v ''model''),
     oc_provider = map (\<lambda>(p, x). (p, providerConfigOf x)) (entriesOf (fieldOf v ''provider''))\<rparr>"

definition agentsMdOf :: "json \<Rightarrow> agents_md_setting" where
  "agentsMdOf v = \<lparr>am_global = the_str (fieldOf v ''global''),
     am_repos = map (\<lambda>e. \<lparr>ae_repoKey = strOr (fieldOf e ''repoKey''), ae_content = strOr (fieldOf e ''content'')\<rparr>)
       (elementsOf (fieldOf v ''repos''))\<rparr>"

definition personOf :: "json \<Rightarrow> git_person" where
  "personOf v = \<lparr>gp_name = strOr (fieldOf v ''name''), gp_email = strOr (fieldOf v ''email'')\<rparr>"

definition gitIdentityOf :: "json \<Rightarrow> git_identity_setting" where
  "gitIdentityOf v = \<lparr>gi_person = personOf v,
     gi_overrides = map (\<lambda>e. \<lparr>go_owner = strOr (fieldOf e ''owner''), go_person = personOf e\<rparr>)
       (elementsOf (fieldOf v ''overrides''))\<rparr>"

definition sshKeyOf :: "json \<Rightarrow> ssh_key_setting" where
  "sshKeyOf v = \<lparr>ks_privateKey = strOr (fieldOf v ''privateKey''), ks_publicKey = strOr (fieldOf v ''publicKey'')\<rparr>"

end
