(* ===== verification/Settings_Api.thy ===== *)
theory Settings_Api
  imports Settings_Schema Hub_Registry
begin

text \<open>
  The settings table of \<open>src/settings.ts\<close>, the settings routes of \<open>src/api-settings.ts\<close>
  over it, and the credentials a wake reads from it (\<open>loadContainerCredentials\<close> of
  \<open>src/container-credentials.ts\<close>). A handler that throws is \<open>None\<close>; the Worker answers it
  with 500 and the table is as it was.
\<close>

section \<open>The table\<close>

record setting_row =
  sr_value :: json_text
  sr_updatedAt :: string

type_synonym settings_table = "(string \<times> setting_row) list"

fun parseRow :: "json_text \<Rightarrow> json" where
  "parseRow Malformed = JUndefined"
| "parseRow (Text v) = v"

definition readSettingRow :: "settings_table \<Rightarrow> setting_key \<Rightarrow> setting_row option" where
  "readSettingRow st k = map_of st (SETTING_KEYS k)"

definition readSetting :: "settings_table \<Rightarrow> setting_key \<Rightarrow> json" where
  "readSetting st k = (case readSettingRow st k of None \<Rightarrow> JUndefined | Some r \<Rightarrow> parseRow (sr_value r))"

definition writeSetting :: "string \<Rightarrow> settings_table \<Rightarrow> setting_key \<Rightarrow> json \<Rightarrow> settings_table" where
  "writeSetting now st k v = AList.update (SETTING_KEYS k) \<lparr>sr_value = Text v, sr_updatedAt = now\<rparr> st"

definition deleteSetting :: "settings_table \<Rightarrow> setting_key \<Rightarrow> settings_table" where
  "deleteSetting st k = AList.delete (SETTING_KEYS k) st"

section \<open>What may travel back\<close>

record setting_view =
  vw_key :: string
  vw_group :: setting_group
  vw_label :: string
  vw_required :: bool
  vw_configured :: bool
  vw_updatedAt :: "string option"
  vw_value :: json

text \<open>A host without its bearer. Taking a value apart throws where it is nullish.\<close>

definition hostView :: "json \<Rightarrow> json option" where
  "hostView h =
     (if nullishValue h then None
      else Some (JObj (AList.update ''tokenConfigured''
        (JBool (case the_str (fieldOf h ''token'') of None \<Rightarrow> False | Some s \<Rightarrow> s \<noteq> []))
        (AList.delete ''token'' (entriesOf h)))))"

definition envView :: "json \<Rightarrow> json option" where
  "envView e = (if nullishValue e then None else Some (JObj [(''name'', fieldOf e ''name'')]))"

definition listView :: "(json \<Rightarrow> json option) \<Rightarrow> json \<Rightarrow> json option" where
  "listView f v = map_option JArr (those (map f (case v of JArr es \<Rightarrow> es | _ \<Rightarrow> [])))"

definition exposedValue :: "setting_key \<Rightarrow> json \<Rightarrow> json option" where
  "exposedValue k v =
     (case k of
        OpencodeConfig \<Rightarrow> Some v
      | Skills \<Rightarrow> Some v
      | AgentsMd \<Rightarrow> Some v
      | GitIdentity \<Rightarrow> Some v
      | DockerHosts \<Rightarrow> listView hostView v
      | SshKey \<Rightarrow> Some (if truthyValue v then JObj [(''publicKey'', fieldOf v ''publicKey'')] else JUndefined)
      | ContainerEnv \<Rightarrow> listView envView v
      | _ \<Rightarrow> Some JUndefined)"

definition settingView :: "settings_table \<Rightarrow> setting_descriptor \<Rightarrow> setting_view option" where
  "settingView st d =
     (let row = readSettingRow st (sd_key d);
          view = (\<lambda>value. \<lparr>vw_key = SETTING_KEYS (sd_key d), vw_group = sd_group d, vw_label = sd_label d,
            vw_required = sd_required d, vw_configured = (row \<noteq> None),
            vw_updatedAt = map_option sr_updatedAt row, vw_value = value\<rparr>)
      in case row of
           None \<Rightarrow> Some (view JUndefined)
         | Some r \<Rightarrow> map_option view (exposedValue (sd_key d) (parseRow (sr_value r))))"

definition listSettings :: "settings_table \<Rightarrow> setting_view list option" where
  "listSettings st = those (map (settingView st) SETTING_DESCRIPTORS)"

definition missingRequiredSettings :: "settings_table \<Rightarrow> string list" where
  "missingRequiredSettings st =
     map (\<lambda>d. SETTING_KEYS (sd_key d))
       (filter (\<lambda>d. sd_required d \<and> readSettingRow st (sd_key d) = None) SETTING_DESCRIPTORS)"

section \<open>Storing\<close>

text \<open>
  \<open>new Map(stored.map(...))\<close> over a stored value: \<open>None\<close> where it is not a list, or an entry
  of it is nullish.
\<close>

definition storedPairs :: "string \<Rightarrow> string \<Rightarrow> json \<Rightarrow> (json \<times> json) list option" where
  "storedPairs k w stored =
     (if nullishValue stored then Some []
      else case stored of
        JArr es \<Rightarrow> if list_ex nullishValue es then None
                   else Some (map (\<lambda>e. (fieldOf e k, fieldOf e w)) es)
      | _ \<Rightarrow> None)"

definition keptValue :: "(json \<times> json) list \<Rightarrow> string \<Rightarrow> json" where
  "keptValue existing n =
     (case map_of (rev existing) (JStr n) of
        None \<Rightarrow> JStr []
      | Some v \<Rightarrow> if nullishValue v then JStr [] else v)"

definition mergedEnv :: "(json \<times> json) list \<Rightarrow> json \<Rightarrow> json" where
  "mergedEnv existing e =
     (case the_str (fieldOf e ''name'') of
        None \<Rightarrow> e
      | Some n \<Rightarrow> if fieldOf e ''value'' = JStr []
                  then JObj [(''name'', JStr n), (''value'', keptValue existing n)] else e)"

definition mergeEnvValues :: "settings_table \<Rightarrow> json \<Rightarrow> json option" where
  "mergeEnvValues st v =
     (case v of
        JArr es \<Rightarrow> map_option (\<lambda>existing. JArr (map (mergedEnv existing) es))
          (storedPairs ''name'' ''value'' (readSetting st ContainerEnv))
      | _ \<Rightarrow> Some v)"

definition mergedHost :: "(json \<times> json) list \<Rightarrow> json \<Rightarrow> json" where
  "mergedHost existing h =
     (case the_str (fieldOf h ''id'') of
        None \<Rightarrow> h
      | Some i \<Rightarrow> if fieldOf h ''token'' = JStr [] \<or> fieldOf h ''token'' = JUndefined
                  then JObj (AList.update ''token'' (keptValue existing i) (entriesOf h)) else h)"

definition mergeDockerHostTokens :: "settings_table \<Rightarrow> json \<Rightarrow> json option" where
  "mergeDockerHostTokens st v =
     (case v of
        JArr hs \<Rightarrow> map_option (\<lambda>existing. JArr (map (mergedHost existing) hs))
          (storedPairs ''id'' ''token'' (readSetting st DockerHosts))
      | _ \<Rightarrow> Some v)"

text \<open>The models that sessions are pinned to and the configuration does not define.\<close>

definition orphanedPinnedModels :: "string list \<Rightarrow> json \<Rightarrow> string list" where
  "orphanedPinnedModels pinned config =
     filter (\<lambda>m. CHR ''/'' \<in> set m \<and> hd m \<noteq> CHR ''/'' \<and> \<not> resolveModelRef config m) (remdups pinned)"

datatype put_response =
    Stored "warning list"
  | SendValue
  | UnknownSetting
  | CannotClear string
  | Refused "problem list"
  | PinnedModels "string list"

definition sentValue :: "setting_key \<Rightarrow> settings_table \<Rightarrow> json \<Rightarrow> json option" where
  "sentValue k st v =
     (if k = ContainerEnv then mergeEnvValues st v
      else if k = DockerHosts then mergeDockerHostTokens st v
      else Some v)"

text \<open>\<open>'value' in body\<close> throws on a truthy body that is no object.\<close>

definition hasValue :: "json \<Rightarrow> bool option" where
  "hasValue body =
     (case body of
        JObj kvs \<Rightarrow> Some (''value'' \<in> fst ` set kvs)
      | JArr vs \<Rightarrow> Some False
      | _ \<Rightarrow> if truthyValue body then None else Some False)"

definition putSetting ::
  "(string \<Rightarrow> url_parts option) \<Rightarrow> string \<Rightarrow> string list \<Rightarrow> json \<Rightarrow> string \<Rightarrow> settings_table
     \<Rightarrow> (put_response \<times> settings_table) option" where
  "putSetting parseUrl now pinned body key st =
     (case hasValue body of
        None \<Rightarrow> None
      | Some False \<Rightarrow> Some (SendValue, st)
      | Some True \<Rightarrow>
          (case findDescriptor key of
             None \<Rightarrow> Some (UnknownSetting, st)
           | Some d \<Rightarrow>
               (let k = sd_key d in
                if fieldOf body ''value'' = JNull then
                  (if sd_required d then Some (CannotClear (sd_label d), st)
                   else Some (Stored [], deleteSetting st k))
                else case sentValue k st (fieldOf body ''value'') of
                  None \<Rightarrow> None
                | Some v \<Rightarrow>
                    (case validate parseUrl k v of
                       None \<Rightarrow> None
                     | Some (e # es) \<Rightarrow> Some (Refused (e # es), st)
                     | Some [] \<Rightarrow>
                         (let ws = (if k = OpencodeConfig
                                    then (case validateOpencodeConfig v of None \<Rightarrow> [] | Some r \<Rightarrow> snd r) else []);
                              lost = (if k = OpencodeConfig then orphanedPinnedModels pinned v else [])
                          in if lost \<noteq> [] \<and> fieldOf body ''force'' \<noteq> JBool True
                             then Some (PinnedModels lost, st)
                             else Some (Stored ws, writeSetting now st k v))))))"

section \<open>The routes\<close>

datatype settings_route =
    ListSettings
  | SettingsStatus
  | ChangePassword
  | GenerateSshKey
  | PutSetting string
  | UnknownSettingRoute
  | NotAllowed string
  | MalformedRoute

text \<open>
  The route under \<open>/api/settings\<close>; the decoding of a segment, which throws on a malformed
  one, is an argument.
\<close>

definition settingsRoute :: "(string \<Rightarrow> string option) \<Rightarrow> string \<Rightarrow> string \<Rightarrow> settings_route" where
  "settingsRoute decode verb rest =
     (if rest = [] \<or> rest = ''/'' then (if verb \<noteq> ''GET'' then NotAllowed ''GET'' else ListSettings)
      else if rest = ''/status'' then (if verb \<noteq> ''GET'' then NotAllowed ''GET'' else SettingsStatus)
      else if rest = ''/password'' then (if verb \<noteq> ''POST'' then NotAllowed ''POST'' else ChangePassword)
      else if rest = ''/ssh-key/generate''
        then (if verb \<noteq> ''POST'' then NotAllowed ''POST'' else GenerateSshKey)
      else case decode (if hd rest = CHR ''/'' then tl rest else rest) of
        None \<Rightarrow> MalformedRoute
      | Some key \<Rightarrow>
          (case findDescriptor key of
             None \<Rightarrow> UnknownSettingRoute
           | Some d \<Rightarrow> if verb \<noteq> ''PUT'' then NotAllowed ''PUT'' else PutSetting (SETTING_KEYS (sd_key d))))"

definition generateSshKey :: "string \<Rightarrow> string \<Rightarrow> string \<Rightarrow> settings_table \<Rightarrow> settings_table" where
  "generateSshKey now privateKey publicKey st =
     writeSetting now st SshKey (JObj [(''privateKey'', JStr privateKey), (''publicKey'', JStr publicKey)])"

section \<open>What a wake reads\<close>

text \<open>\<open>v ? f v : nothing\<close>; the text of a stored row is an argument.\<close>

definition whenTruthy :: "(json \<Rightarrow> 'a) \<Rightarrow> json \<Rightarrow> 'a option" where
  "whenTruthy f v = (if truthyValue v then Some (f v) else None)"

definition loadContainerCredentials :: "(json_text \<Rightarrow> string) \<Rightarrow> settings_table \<Rightarrow> credential_settings" where
  "loadContainerCredentials jsonText st =
     \<lparr>cs_sshKey = whenTruthy sshKeyOf (readSetting st SshKey),
      cs_githubToken = whenTruthy strOr (readSetting st GithubToken),
      cs_gitIdentity = whenTruthy gitIdentityOf (readSetting st GitIdentity),
      cs_env = map envVarOf (elementsOf (readSetting st ContainerEnv)),
      cs_skills = skillsOf (readSetting st Skills),
      cs_agentsMd = whenTruthy agentsMdOf (readSetting st AgentsMd),
      cs_mcpAuth = map_option (\<lambda>r. \<lparr>ma_content = jsonText (sr_value r), ma_token = sr_updatedAt r\<rparr>)
        (readSettingRow st McpAuth)\<rparr>"

end
