(* ===== verification/Settings_Properties.thy ===== *)
theory Settings_Properties
  imports Settings_Api "HOL-Library.AList"
begin

text \<open>
  What an accepted setting guarantees to the code that reads it back: the validators of
  \<open>src/settings-schema.ts\<close> against the readers of \<open>src/container-credentials.ts\<close>,
  \<open>src/sandbox-providers.ts\<close> and \<open>src/model-catalog.ts\<close>.
\<close>

section \<open>Skills\<close>

definition visibleIn :: "bool \<times> string list \<Rightarrow> string option \<Rightarrow> bool" where
  "visibleIn sc repoKey = (fst sc \<or> (\<exists>k. repoKey = Some k \<and> lower k \<in> set (snd sc)))"

definition applies :: "string option \<Rightarrow> skill_setting \<Rightarrow> bool" where
  "applies repoKey s =
     (case sk_repoKey s of
        None \<Rightarrow> True
      | Some r \<Rightarrow> (case repoKey of None \<Rightarrow> False | Some k \<Rightarrow> lower r = lower k))"

lemma resolveSkills_applies: "resolveSkills skills k = filter (applies k) skills"
  by (simp add: resolveSkills_def applies_def[abs_def])

lemma scope_visible:
  assumes "scopeProblems sc n (sk_repoKey s) = []" and "applies k s"
  shows "\<not> visibleIn sc k" and "visibleIn (scopeWith sc (sk_repoKey s)) k"
  using assms
  by (auto simp: scopeProblems_def applies_def visibleIn_def scopeWith_def split: option.splits if_splits)

lemma scopeWith_mono: "visibleIn sc k \<Longrightarrow> visibleIn (scopeWith sc r) k"
  by (auto simp: visibleIn_def scopeWith_def split: option.splits)

lemma scopeOf_update:
  "scopeOf (AList.update n sc scopes) m = (if m = n then sc else scopeOf scopes m)"
  by (simp add: scopeOf_def update_conv')

lemma skillProblems_step:
  assumes "skillProblems scopes (e # es) = []"
  obtains n where "the_str (fieldOf e ''name'') = Some n" and "sk_name (skillOf e) = n"
    and "SKILL_NAME_PATTERN n"
    and "scopeProblems (scopeOf scopes n) n (sk_repoKey (skillOf e)) = []"
    and "skillProblems (AList.update n (scopeWith (scopeOf scopes n) (sk_repoKey (skillOf e))) scopes) es = []"
proof -
  obtain n where n: "the_str (fieldOf e ''name'') = Some n"
    using assms by (cases "the_str (fieldOf e ''name'')") auto
  then show thesis
    using assms that[of n] by (auto simp: skillOf_def strOr_def Let_def split: if_splits)
qed

lemma skillProblems_distinct:
  "skillProblems scopes es = [] \<Longrightarrow>
     distinct (map sk_name (filter (applies k) (map skillOf es))) \<and>
     (\<forall>n. visibleIn (scopeOf scopes n) k \<longrightarrow> n \<notin> sk_name ` set (filter (applies k) (map skillOf es)))"
proof (induction es arbitrary: scopes)
  case (Cons e es)
  from Cons.prems obtain n where n: "sk_name (skillOf e) = n"
    and sc: "scopeProblems (scopeOf scopes n) n (sk_repoKey (skillOf e)) = []"
    and rest: "skillProblems (AList.update n (scopeWith (scopeOf scopes n) (sk_repoKey (skillOf e))) scopes) es = []"
    by (rule skillProblems_step)
  note IH = Cons.IH[OF rest]
  have later: "m \<notin> sk_name ` set (filter (applies k) (map skillOf es))"
    if "visibleIn (scopeOf scopes m) k" for m
    using IH that by (cases "m = n") (simp_all add: scopeOf_update scopeWith_mono)
  show ?case
  proof (cases "applies k (skillOf e)")
    case True
    note vis = scope_visible[OF sc True]
    have "n \<notin> sk_name ` set (filter (applies k) (map skillOf es))"
      using IH vis(2) by (simp add: scopeOf_update)
    with True IH later vis(1) n show ?thesis by auto
  next
    case False
    with IH later show ?thesis by simp
  qed
qed simp

lemma skillProblems_names:
  "skillProblems scopes es = [] \<Longrightarrow> s \<in> set (map skillOf es) \<Longrightarrow> SKILL_NAME_PATTERN (sk_name s)"
proof (induction es arbitrary: scopes)
  case (Cons e es)
  from Cons.prems(1) obtain n where "sk_name (skillOf e) = n" "SKILL_NAME_PATTERN n"
    and rest: "skillProblems (AList.update n (scopeWith (scopeOf scopes n) (sk_repoKey (skillOf e))) scopes) es = []"
    by (rule skillProblems_step)
  with Cons.IH[OF rest] Cons.prems(2) show ?case by auto
qed simp

lemma merged_lookup:
  "s \<in> set xs \<Longrightarrow> distinct (map sk_name xs) \<Longrightarrow>
     map_of (fold (\<lambda>s. AList.update (sk_name s) s) xs al) (sk_name s) = Some s"
proof (induction xs arbitrary: al)
  case (Cons x xs)
  have keep: "sk_name s \<notin> sk_name ` set ys \<Longrightarrow>
      map_of (fold (\<lambda>s. AList.update (sk_name s) s) ys bl) (sk_name s) = map_of bl (sk_name s)" for ys bl
    by (induction ys arbitrary: bl) (simp_all add: update_conv')
  show ?case
  proof (cases "s = x")
    case True
    with Cons.prems keep[of xs] show ?thesis by (simp add: update_conv')
  next
    case False
    with Cons show ?thesis by simp
  qed
qed simp

lemma set_updateD: "p \<in> set (AList.update k v al) \<Longrightarrow> p = (k, v) \<or> p \<in> set al"
  by (induction al) (auto split: if_splits)

lemma merged_keys:
  "\<forall>(n, s) \<in> set al. sk_name s = n \<Longrightarrow> distinct (map fst al) \<Longrightarrow>
     distinct (map fst (fold (\<lambda>s. AList.update (sk_name s) s) xs al)) \<and>
     (\<forall>(n, s) \<in> set (fold (\<lambda>s. AList.update (sk_name s) s) xs al). sk_name s = n)"
proof (induction xs arbitrary: al)
  case (Cons x xs)
  have "distinct (map fst (AList.update (sk_name x) x al))"
    using Cons.prems(2) by (rule distinct_update)
  moreover have "\<forall>(n, s) \<in> set (AList.update (sk_name x) x al). sk_name s = n"
    using Cons.prems(1) by (fastforce dest: set_updateD)
  ultimately show ?case using Cons.IH by simp
qed simp

lemma filter_key:
  "distinct (map fst al) \<Longrightarrow> map_of al n = Some s \<Longrightarrow> filter (\<lambda>p. fst p = n) al = [(n, s)]"
proof (induction al)
  case (Cons p al)
  show ?case
  proof (cases "fst p = n")
    case True
    with Cons.prems have "n \<notin> fst ` set al" and "snd p = s" by (cases p, auto)+
    then show ?thesis using True by (cases p) (auto simp: filter_empty_conv)
  next
    case False
    with Cons show ?thesis by (cases p) simp
  qed
qed simp

lemma skillPath_inj [simp]: "skillPath a = skillPath b \<longleftrightarrow> a = b"
  by (simp add: skillPath_def)

lemma skillPath_new:
  "skillPath n \<noteq> ''/root/.ssh/id_ed25519''" "skillPath n \<noteq> ''/root/.ssh/id_ed25519.pub''"
  "skillPath n \<noteq> ''/root/.config/gh/hosts.yml''" "skillPath n \<noteq> CONTAINER_AGENTS_MD_PATH"
  "skillPath n \<noteq> MCP_AUTH_STAGING"
  by (simp_all add: skillPath_def CONTAINER_SKILLS_ROOT_def CONTAINER_AGENTS_MD_PATH_def MCP_AUTH_STAGING_def)

text \<open>The skill files among the files of a wake.\<close>

lemma skill_files:
  "filter (\<lambda>f. fi_path f = skillPath n) (credentialFiles builtins instr settings repoKey) =
     filter (\<lambda>f. fi_path f = skillPath n)
       (map (\<lambda>(n, s). textFile (skillPath (sk_name s)) (sk_content s) Mode644)
         (mergedSkills builtins (resolveSkills (cs_skills settings) repoKey)))"
proof -
  have no: "filter (\<lambda>f. fi_path f = skillPath n) (if truthy_str t then [\<lparr>fi_path = ''/root/.config/gh/hosts.yml'', fi_content = c, fi_mode = m\<rparr>] else []) = []" for t c m
    using skillPath_new(3)[of n] by auto
  show ?thesis
    using skillPath_new[of n]
    by (cases "cs_sshKey settings"; cases "cs_mcpAuth settings")
      (simp_all add: credentialFiles_def textFile_def no)
qed

text \<open>
  Every skill that was accepted reaches the containers it is for: among the files a wake
  writes there is, for every skill of an accepted setting that applies to the repository,
  exactly one file at the skill's path, and it holds that skill's content; no other skill,
  built-in or not, and no other credential is written over it. The name it is written under
  is one path segment of lower-case letters, digits and dashes.
\<close>

lemma accepted_skills_all_written:
  assumes "validateSkills v = []" and "cs_skills settings = skillsOf v"
    and "s \<in> set (resolveSkills (skillsOf v) repoKey)"
  shows "filter (\<lambda>f. fi_path f = skillPath (sk_name s)) (credentialFiles builtins instr settings repoKey)
      = [textFile (skillPath (sk_name s)) (sk_content s) Mode644] \<and>
    SKILL_NAME_PATTERN (sk_name s)"
proof -
  obtain es where v: "v = JArr es" and ok: "skillProblems [] es = []"
    using assms(1) by (auto simp: validateSkills_def split: json.splits)
  let ?xs = "filter (applies repoKey) (map skillOf es)"
  have s: "s \<in> set ?xs" using assms(3) by (simp add: v skillsOf_def elementsOf_def resolveSkills_applies)
  have merged: "mergedSkills builtins (resolveSkills (cs_skills settings) repoKey)
      = fold (\<lambda>s. AList.update (sk_name s) s) ?xs (fold (\<lambda>s. AList.update (sk_name s) s) builtins [])"
    by (simp add: mergedSkills_def assms(2) v skillsOf_def elementsOf_def resolveSkills_applies)
  have look: "map_of (mergedSkills builtins (resolveSkills (cs_skills settings) repoKey)) (sk_name s) = Some s"
    unfolding merged by (rule merged_lookup[OF s conjunct1[OF skillProblems_distinct[OF ok]]])
  have keys: "distinct (map fst (mergedSkills builtins (resolveSkills (cs_skills settings) repoKey)))"
    and named: "\<forall>(n, s) \<in> set (mergedSkills builtins (resolveSkills (cs_skills settings) repoKey)). sk_name s = n"
    unfolding mergedSkills_def
    using merged_keys[of "[]" "builtins @ resolveSkills (cs_skills settings) repoKey"] by simp_all
  have "filter (\<lambda>p. sk_name (snd p) = sk_name s) (mergedSkills builtins (resolveSkills (cs_skills settings) repoKey))
      = filter (\<lambda>p. fst p = sk_name s) (mergedSkills builtins (resolveSkills (cs_skills settings) repoKey))"
    using named by (intro filter_cong) auto
  then have one: "filter (\<lambda>p. sk_name (snd p) = sk_name s) (mergedSkills builtins (resolveSkills (cs_skills settings) repoKey))
      = [(sk_name s, s)]"
    using filter_key[OF keys look] by simp
  have "filter (\<lambda>f. fi_path f = skillPath (sk_name s)) (credentialFiles builtins instr settings repoKey)
      = [textFile (skillPath (sk_name s)) (sk_content s) Mode644]"
    unfolding skill_files using one
    by (simp add: filter_map comp_def textFile_def case_prod_unfold)
  moreover have "SKILL_NAME_PATTERN (sk_name s)"
    by (rule skillProblems_names[OF ok]) (use s in auto)
  ultimately show ?thesis by blast
qed

definition sample_skills :: json where
  "sample_skills = JArr
     [JObj [(''name'', JStr ''a''), (''repoKey'', JStr ''r''), (''content'', JStr ''c'')],
      JObj [(''name'', JStr ''a''), (''repoKey'', JStr ''q''), (''content'', JStr ''d'')]]"

section \<open>Variables\<close>

lemma envProblems_accept:
  "envProblems seen es = [] \<Longrightarrow>
     list_all (\<lambda>v. ENV_NAME_PATTERN (ev_name v) \<and> ev_value v \<noteq> []) (map envVarOf es) \<and>
     distinct (map ev_name (map envVarOf es)) \<and>
     ev_name ` set (map envVarOf es) \<inter> set seen = {}"
proof (induction es arbitrary: seen)
  case (Cons e es)
  obtain n where n: "the_str (fieldOf e ''name'') = Some n"
    using Cons.prems by (cases "the_str (fieldOf e ''name'')") auto
  with Cons.prems have h: "ENV_NAME_PATTERN n" "n \<notin> set seen" "\<not> emptyText (fieldOf e ''value'')"
      "envProblems (n # seen) es = []"
    by (auto split: if_splits)
  have name: "ev_name (envVarOf e) = n" by (simp add: envVarOf_def strOr_def n)
  have val: "ev_value (envVarOf e) \<noteq> []"
    using h(3) by (auto simp: envVarOf_def strOr_def emptyText_def split: option.splits)
  from Cons.IH[OF h(4)] h(1,2) name val show ?case by auto
qed simp

lemma fold_update_fresh:
  "distinct (map f es) \<Longrightarrow> fst ` set al \<inter> f ` set es = {} \<Longrightarrow>
     fold (\<lambda>e. AList.update (f e) (g e)) es al = al @ map (\<lambda>e. (f e, g e)) es"
proof (induction es arbitrary: al)
  case (Cons e es)
  have "AList.update (f e) (g e) al = al @ [(f e, g e)]"
    using Cons.prems(2) by (induction al) auto
  with Cons show ?case by auto
qed simp

text \<open>
  Every accepted variable reaches the container: the environment of a container is the
  accepted setting itself, name for name in its order, no variable replaced by a later one;
  every name is one a shell accepts and no value is empty.
\<close>

lemma accepted_variables_all_set:
  assumes "validateEnvVars v = []" and "cs_env settings = map envVarOf (elementsOf v)"
  shows "containerEnv settings
      = map (\<lambda>e. (strOr (fieldOf e ''name''), strOr (fieldOf e ''value''))) (elementsOf v) \<and>
    list_all (\<lambda>(n, x). ENV_NAME_PATTERN n \<and> x \<noteq> []) (containerEnv settings)"
proof -
  obtain es where v: "v = JArr es" and ok: "envProblems [] es = []"
    using assms(1) by (auto simp: validateEnvVars_def split: json.splits)
  note acc = envProblems_accept[OF ok]
  have env: "containerEnv settings = map (\<lambda>e. (ev_name e, ev_value e)) (map envVarOf es)"
    unfolding containerEnv_def assms(2) v elementsOf_def
    by (subst fold_update_fresh) (use acc in \<open>simp_all\<close>)
  show ?thesis
    unfolding env using acc by (auto simp: v elementsOf_def envVarOf_def list_all_iff)
qed

section \<open>Docker hosts\<close>

lemma trim_plain: "list_all (\<lambda>c. \<not> is_space c) s \<Longrightarrow> trim s = s"
proof -
  assume h: "list_all (\<lambda>c. \<not> is_space c) s"
  have "dropWhile is_space s = s" using h by (cases s) auto
  moreover have "dropWhile is_space (rev s) = rev s" using h by (cases "rev s") (auto simp: list_all_iff)
  ultimately show ?thesis by (simp add: trim_def)
qed

lemma host_id_plain:
  assumes "DOCKER_HOST_ID_PATTERN s"
  shows "trim s = s" "s \<noteq> []"
proof -
  have "\<not> is_space c" if "is_lower c \<or> is_digit c \<or> c = CHR ''-''" for c
    using that by (auto simp: is_lower_def is_digit_def is_space_def less_eq_char_def Let_def)
  then show "trim s = s"
    using assms by (intro trim_plain) (auto simp: DOCKER_HOST_ID_PATTERN_def list_all_iff)
  show "s \<noteq> []" using assms by (simp add: DOCKER_HOST_ID_PATTERN_def)
qed

lemma trimmedField_not_blank: "\<not> blankText (fieldOf h k) \<Longrightarrow> isRecord h \<Longrightarrow> trimmedField h k \<noteq> []"
  by (cases h) (auto simp: blankText_def trimmedField_def fieldOf_def split: option.splits)

lemma url_not_blank: "validateDockerAgentUrl parseUrl v i = [] \<Longrightarrow> \<not> blankText v"
  by (auto simp: validateDockerAgentUrl_def split: if_splits)

lemma token_not_blank: "validateDockerAgentToken v i = [] \<Longrightarrow> \<not> blankText v"
  by (auto simp: validateDockerAgentToken_def split: if_splits)

lemma hostProblems_collect:
  "hostProblems parseUrl i seen es = [] \<Longrightarrow> collectHosts es seen = map dockerHost es"
proof (induction es arbitrary: i seen)
  case (Cons h es)
  have rec: "isRecord h" using Cons.prems by (auto split: if_splits)
  obtain ps seen' where hp: "hostIdProblems seen (fieldOf h ''id'') i = (ps, seen')" by force
  from Cons.prems rec hp have none: "ps = []"
    and url: "validateDockerAgentUrl parseUrl (fieldOf h ''baseUrl'') i = []"
    and tok: "validateDockerAgentToken (fieldOf h ''token'') i = []"
    and rest: "hostProblems parseUrl (i + 1) seen' es = []" by auto
  obtain s where s: "the_str (fieldOf h ''id'') = Some s" "DOCKER_HOST_ID_PATTERN s" "s \<notin> set seen" "seen' = s # seen"
    using hp none by (auto simp: hostIdProblems_def split: option.splits if_splits)
  have i': "trimmedField h ''id'' = s"
    using s rec by (cases h) (auto simp: trimmedField_def fieldOf_def host_id_plain)
  show ?case
    using Cons.IH[OF rest] i' s host_id_plain(2)[OF s(2)]
      trimmedField_not_blank[OF url_not_blank[OF url] rec]
      trimmedField_not_blank[OF token_not_blank[OF tok] rec]
    by (simp add: Let_def)
qed simp

text \<open>
  Every host that was accepted is offered: of an accepted setting the provider catalog
  drops no entry, keeps the order of the list, and lists one provider per host before
  Cloudflare; each host is found again under the provider a session stores for it.
\<close>

lemma accepted_hosts_are_offered:
  assumes "validateDockerHosts parseUrl v = []"
  shows "listDockerHosts v = map dockerHost (elementsOf v) \<and>
    listSessionProviders v = map (dh_provider \<circ> dockerHost) (elementsOf v) @ [''cloudflare''] \<and>
    elementsOf v \<noteq> []"
proof -
  obtain es where v: "v = JArr es" and ok: "hostProblems parseUrl 1 [] es = []" and ne: "es \<noteq> []"
    using assms by (auto simp: validateDockerHosts_def split: json.splits if_splits)
  show ?thesis
    using hostProblems_collect[OF ok] ne
    by (simp add: v listDockerHosts_def elementsOf_def listSessionProviders_def)
qed

definition sample_hosts :: json where
  "sample_hosts = JArr [JObj [(''id'', JStr ''mac-mini''), (''baseUrl'', JStr ''https://m.example''),
     (''token'', JStr ''t'')]]"

section \<open>The OpenCode configuration\<close>

lemma splitAtFirst_join: "c \<in> set s \<Longrightarrow> fst (splitAtFirst c s) @ c # snd (splitAtFirst c s) = s"
  by (induction s) (auto simp: splitAtFirst_def)

lemma fieldOf_entry: "fieldOf v k \<noteq> JUndefined \<Longrightarrow> (k, fieldOf v k) \<in> set (entriesOf v)"
  by (auto simp: fieldOf_def field_def split: option.splits dest: map_of_SomeD)

lemma fieldOf_undefined [simp]: "fieldOf JUndefined k = JUndefined"
  by (simp add: fieldOf_def field_def)

lemma option_of_config:
  assumes "(p, pv) \<in> set (entriesOf (fieldOf raw ''provider''))"
    and "(m, mv) \<in> set (entriesOf (fieldOf pv ''models''))"
  shows "p @ ''/'' @ m \<in> mo_id ` set (cat_options (catalogFromConfig (configOf raw)))"
proof -
  let ?opt = "modelOption p (nullish (pv_name (providerConfigOf pv)) p) m (modelConfigOf mv)"
  have "(p, providerConfigOf pv) \<in> set (oc_provider (configOf raw))"
    using assms(1) by (force simp: configOf_def)
  moreover have "(m, modelConfigOf mv) \<in> set (pv_models (providerConfigOf pv))"
    using assms(2) by (force simp: providerConfigOf_def)
  ultimately have "?opt \<in> set (cat_options (catalogFromConfig (configOf raw)))"
    by (fastforce simp: catalogFromConfig_def)
  then show ?thesis by (force simp: modelOption_def)
qed

text \<open>
  An accepted configuration can start a session: its \<open>model\<close> is a string that the model
  catalog derived from the same configuration finds, it is the model the composer starts with
  where nothing was used before, and every permission an operator would be asked about is
  decided.
\<close>

lemma accepted_config_has_default:
  assumes "validateOpencodeConfig raw = Some ([], ws)"
  shows "\<exists>ref. fieldOf raw ''model'' = JStr ref \<and>
      findModel (catalogFromConfig (configOf raw)) ref \<noteq> None \<and>
      sel_model (resolveDefaultModelSelection (catalogFromConfig (configOf raw)) None) = ref \<and>
      list_all (\<lambda>k. fieldOf (fieldOf raw ''permission'') k \<noteq> JUndefined) REQUIRED_PERMISSION_KEYS"
proof -
  have none: "configErrors raw = []"
    using assms by (auto simp: validateOpencodeConfig_def split: if_splits option.splits)
  obtain ref where ref: "fieldOf raw ''model'' = JStr ref" and res: "resolveModelRef raw ref"
    using none by (auto simp: configErrors_def split: json.splits if_splits)
  have sep: "CHR ''/'' \<in> set ref" using res by (auto simp: resolveModelRef_def split: if_splits)
  obtain p m where pm: "splitAtFirst (CHR ''/'') ref = (p, m)" by force
  let ?ps = "fieldOf raw ''provider''"
  let ?ms = "fieldOf (fieldOf ?ps p) ''models''"
  have mdef: "fieldOf ?ms m \<noteq> JUndefined"
    using res pm by (auto simp: resolveModelRef_def Let_def split: if_splits)
  then have pdef: "fieldOf ?ps p \<noteq> JUndefined" by auto
  have "p @ ''/'' @ m \<in> mo_id ` set (cat_options (catalogFromConfig (configOf raw)))"
    by (rule option_of_config[OF fieldOf_entry[OF pdef] fieldOf_entry[OF mdef]])
  then have found: "findModel (catalogFromConfig (configOf raw)) ref \<noteq> None"
    using splitAtFirst_join[OF sep] pm by (simp add: findModel_None)
  have default: "cat_defaultModelRef (catalogFromConfig (configOf raw)) = ref"
    by (simp add: catalogFromConfig_def configOf_def ref nullish_def)
  have "sel_model (resolveDefaultModelSelection (catalogFromConfig (configOf raw)) None) = ref"
    using found by (simp add: resolveDefaultModelSelection_def Let_def isModelRef_def jopt_def default)
  moreover have "list_all (\<lambda>k. fieldOf (fieldOf raw ''permission'') k \<noteq> JUndefined) REQUIRED_PERMISSION_KEYS"
    using none by (auto simp: configErrors_def list_all_iff split: if_splits)
  ultimately show ?thesis using ref found by blast
qed

definition sample_config :: json where
  "sample_config = JObj
     [(''permission'', JObj (map (\<lambda>k. (k, JStr ''allow'')) REQUIRED_PERMISSION_KEYS)),
      (''provider'', JObj [(''ag'', JObj [(''models'', JObj [(''m/high'', JObj [])])])]),
      (''model'', JStr ''ag/m/high'')]"

text \<open>A number as \<open>model\<close> is neither accepted nor refused: the validator throws.\<close>

lemma config_number_model_throws:
  "validateOpencodeConfig (JObj [(''model'', JNum 5)]) = None"
  "validateOpencodeConfig (JObj [(''provider'', JObj [(''p'', JObj [(''models'', JObj [(''m'', JNull)])])])]) = None"
  by code_simp+

end
