(* ===== verification/Settings_Api_Properties.thy ===== *)
theory Settings_Api_Properties
  imports Settings_Properties
begin

text \<open>
  The settings routes of \<open>src/api-settings.ts\<close>: what a stored setting guarantees to the code
  that reads it at the next wake or request, what the routes may show, and what they keep of a
  secret that was not typed again.
\<close>

section \<open>The table\<close>

lemma SETTING_KEYS_inj [simp]: "SETTING_KEYS a = SETTING_KEYS b \<longleftrightarrow> a = b"
  by (cases a; cases b) simp_all

lemma readSettingRow_write:
  "readSettingRow (writeSetting now st k v) j =
     (if j = k then Some \<lparr>sr_value = Text v, sr_updatedAt = now\<rparr> else readSettingRow st j)"
  by (simp add: readSettingRow_def writeSetting_def update_conv')

lemma readSettingRow_delete:
  "readSettingRow (deleteSetting st k) j = (if j = k then None else readSettingRow st j)"
  by (simp add: readSettingRow_def deleteSetting_def delete_conv')

lemma readSetting_write: "readSetting (writeSetting now st k v) j = (if j = k then v else readSetting st j)"
  by (simp add: readSetting_def readSettingRow_write)

lemma readSetting_delete:
  "readSetting (deleteSetting st k) j = (if j = k then JUndefined else readSetting st j)"
  by (simp add: readSetting_def readSettingRow_delete)

lemmas settings_simps = readSettingRow_write readSettingRow_delete readSetting_write readSetting_delete

lemma findDescriptor_key: "findDescriptor key = Some d \<Longrightarrow> key = SETTING_KEYS (sd_key d) \<and> d \<in> set SETTING_DESCRIPTORS"
  by (auto simp: findDescriptor_def find_Some_iff)

lemma findDescriptor_stored [simp]:
  "findDescriptor (SETTING_KEYS k) = find (\<lambda>d. sd_key d = k) SETTING_DESCRIPTORS"
  by (simp add: findDescriptor_def)

lemma not_admin: "d \<in> set SETTING_DESCRIPTORS \<Longrightarrow> sd_key d \<noteq> AdminPassword"
  by (auto simp: SETTING_DESCRIPTORS_def)

lemma required_keys:
  "d \<in> set SETTING_DESCRIPTORS \<Longrightarrow> sd_required d \<longleftrightarrow> sd_key d \<in> {GithubToken, OpencodeConfig, SshKey}"
  by (auto simp: SETTING_DESCRIPTORS_def)

section \<open>What a request may store\<close>

text \<open>The two ways a table changes: a clear of an optional setting, and a validated value.\<close>

lemma putSetting_cases:
  assumes "putSetting parseUrl now pinned body key st = Some (resp, st')"
  obtains (kept) "st' = st" "\<And>ws. resp \<noteq> Stored ws"
    | (cleared) d where "findDescriptor key = Some d" "\<not> sd_required d" "st' = deleteSetting st (sd_key d)"
        "resp = Stored []" "fieldOf body ''value'' = JNull"
    | (stored) d v ws where "findDescriptor key = Some d"
        "sentValue (sd_key d) st (fieldOf body ''value'') = Some v"
        "validate parseUrl (sd_key d) v = Some []" "st' = writeSetting now st (sd_key d) v" "resp = Stored ws"
proof (cases "hasValue body")
  case None
  with assms show thesis by (simp add: putSetting_def)
next
  case (Some b)
  show thesis
  proof (cases "findDescriptor key")
    case None
    with Some assms kept show thesis by (cases b) (auto simp: putSetting_def)
  next
    case d: (Some d)
    show thesis
    proof (cases "b \<and> fieldOf body ''value'' \<noteq> JNull")
      case False
      with Some d assms kept cleared show thesis
        by (cases b) (auto simp: putSetting_def Let_def split: if_splits)
    next
      case True
      obtain v where v: "sentValue (sd_key d) st (fieldOf body ''value'') = Some v"
        using Some d True assms by (cases "sentValue (sd_key d) st (fieldOf body ''value'')") (auto simp: putSetting_def Let_def)
      obtain ps where ps: "validate parseUrl (sd_key d) v = Some ps"
        using Some d True assms v by (cases "validate parseUrl (sd_key d) v") (auto simp: putSetting_def Let_def)
      show thesis
      proof (cases ps)
        case Nil
        define ws where "ws = (if sd_key d = OpencodeConfig
          then (case validateOpencodeConfig v of None \<Rightarrow> [] | Some r \<Rightarrow> snd r) else [])"
        define lost where "lost = (if sd_key d = OpencodeConfig then orphanedPinnedModels pinned v else [])"
        have put: "putSetting parseUrl now pinned body key st =
            (if lost \<noteq> [] \<and> fieldOf body ''force'' \<noteq> JBool True then Some (PinnedModels lost, st)
             else Some (Stored ws, writeSetting now st (sd_key d) v))"
          using Some True by (simp add: putSetting_def Let_def d v ps Nil ws_def lost_def)
        show thesis
        proof (cases "lost \<noteq> [] \<and> fieldOf body ''force'' \<noteq> JBool True")
          case True
          with put assms kept show thesis by simp
        next
          case False
          then have "resp = Stored ws" "st' = writeSetting now st (sd_key d) v"
            using trans[OF put if_not_P[OF False]] assms by simp_all
          with stored[OF d v] ps Nil show thesis by simp
        qed
      next
        case (Cons p qs)
        with Some d True assms v ps kept show thesis by (auto simp: putSetting_def Let_def)
      qed
    qed
  qed
qed

text \<open>A stored value of any kind is one its validator accepts.\<close>

definition table_valid :: "(string \<Rightarrow> url_parts option) \<Rightarrow> settings_table \<Rightarrow> bool" where
  "table_valid parseUrl st = list_all (\<lambda>d. case readSettingRow st (sd_key d) of
     None \<Rightarrow> True | Some r \<Rightarrow> validate parseUrl (sd_key d) (parseRow (sr_value r)) = Some []) SETTING_DESCRIPTORS"

text \<open>
  C22. Only validated values enter the table, and the deployment cannot be unconfigured: from a
  table whose every value its validator accepts, whatever a request sends, the table after it
  has that property again, no required setting that was there is missing, the administrator's
  password record is the same, and the table is unchanged unless the answer says it was stored.
\<close>

theorem stored_settings_stay_valid:
  assumes "table_valid parseUrl st"
    and "putSetting parseUrl now pinned body key st = Some (resp, st')"
  shows "table_valid parseUrl st' \<and>
    set (missingRequiredSettings st') \<subseteq> set (missingRequiredSettings st) \<and>
    readSettingRow st' AdminPassword = readSettingRow st AdminPassword \<and>
    ((\<forall>ws. resp \<noteq> Stored ws) \<longrightarrow> st' = st)"
  using assms(2)
proof (cases rule: putSetting_cases)
  case kept
  with assms(1) show ?thesis by simp
next
  case (cleared d)
  note d = findDescriptor_key[OF cleared(1)]
  show ?thesis
    using assms(1) cleared d not_admin[of d] required_keys
    by (auto simp: table_valid_def list_all_iff settings_simps missingRequiredSettings_def)
next
  case (stored d v ws)
  note d = findDescriptor_key[OF stored(1)]
  show ?thesis
    using assms(1) stored d not_admin[of d]
    by (auto simp: table_valid_def list_all_iff settings_simps missingRequiredSettings_def)
qed

lemmas sample_reads = readSetting_def readSettingRow_def elementsOf_def fieldOf_def field_def skillsOf_def
  skillOf_def strOr_def sample_skills_def sample_hosts_def resolveSkills_def lower_def lower_char_def is_upper_def

lemma sample_table_valid:
  "table_valid parseUrl [(''opencode.skills'', \<lparr>sr_value = Text sample_skills, sr_updatedAt = ''1''\<rparr>)]"
proof -
  have "validateSkills sample_skills = []" by code_simp
  then show ?thesis
    by (simp add: table_valid_def SETTING_DESCRIPTORS_def readSettingRow_def validate_def)
qed

lemma stored_settings_stay_valid_witness:
  "table_valid (\<lambda>_. None) (deleteSetting [(''opencode.skills'', \<lparr>sr_value = Text sample_skills, sr_updatedAt = ''1''\<rparr>)] Skills)"
proof -
  have p: "putSetting (\<lambda>_. None) ''2'' [] (JObj [(''value'', JNull)]) ''opencode.skills''
      [(''opencode.skills'', \<lparr>sr_value = Text sample_skills, sr_updatedAt = ''1''\<rparr>)]
      = Some (Stored [], deleteSetting [(''opencode.skills'', \<lparr>sr_value = Text sample_skills, sr_updatedAt = ''1''\<rparr>)] Skills)"
    by (simp add: putSetting_def hasValue_def findDescriptor_def SETTING_DESCRIPTORS_def fieldOf_def field_def Let_def)
  show ?thesis using stored_settings_stay_valid[OF sample_table_valid p] by blast
qed

section \<open>From the page to the container\<close>

lemma stored_value:
  assumes "putSetting parseUrl now pinned body (SETTING_KEYS k) st = Some (Stored ws, st')"
    and "k \<noteq> AdminPassword"
  shows "readSetting st' k = JUndefined \<and> k \<notin> {GithubToken, OpencodeConfig, SshKey} \<or>
    validate parseUrl k (readSetting st' k) = Some []"
  using assms(1)
proof (cases rule: putSetting_cases)
  case (cleared d)
  note d = findDescriptor_key[OF cleared(1)]
  then show ?thesis using cleared required_keys[of d] by (simp add: settings_simps)
next
  case (stored d v ws)
  note d = findDescriptor_key[OF stored(1)]
  then show ?thesis using stored by (simp add: settings_simps)
next
  case kept
  then show ?thesis by blast
qed

text \<open>
  C23. A skill the settings page stored is in every container it is for, at its own path and
  with its own content: after a request on \<open>opencode.skills\<close> was answered as stored, a wake
  writes, for each skill that applies to the container's repository, exactly one file at the
  skill's path, whatever built-in skills and other credentials there are, and the name is one
  path segment of lower-case letters, digits and dashes.
\<close>

theorem stored_skill_reaches_container:
  assumes "putSetting parseUrl now pinned body ''opencode.skills'' st = Some (Stored ws, st')"
    and "s \<in> set (resolveSkills (skillsOf (readSetting st' Skills)) repoKey)"
  shows "filter (\<lambda>f. fi_path f = skillPath (sk_name s))
        (credentialFiles builtins instr (loadContainerCredentials jsonText st') repoKey)
      = [textFile (skillPath (sk_name s)) (sk_content s) Mode644] \<and>
    SKILL_NAME_PATTERN (sk_name s)"
proof -
  have "readSetting st' Skills \<noteq> JUndefined"
    using assms(2) by (auto simp: skillsOf_def elementsOf_def resolveSkills_def)
  then have "validateSkills (readSetting st' Skills) = []"
    using stored_value[of parseUrl now pinned body Skills st ws st'] assms(1) by (simp add: validate_def)
  then show ?thesis
    by (rule accepted_skills_all_written) (use assms(2) in \<open>simp_all add: loadContainerCredentials_def\<close>)
qed

lemma stored_skill_reaches_container_witness:
  "filter (\<lambda>f. fi_path f = skillPath ''a'')
     (credentialFiles [\<lparr>sk_name = ''a'', sk_content = ''old'', sk_repoKey = None\<rparr>] ''I''
       (loadContainerCredentials (\<lambda>_. [])
         [(''opencode.skills'', \<lparr>sr_value = Text sample_skills, sr_updatedAt = ''2''\<rparr>)]) (Some ''R''))
     = [textFile (skillPath ''a'') ''c'' Mode644]"
proof -
  have p: "putSetting (\<lambda>_. None) ''2'' [] (JObj [(''value'', sample_skills)]) ''opencode.skills'' []
      = Some (Stored [], [(''opencode.skills'', \<lparr>sr_value = Text sample_skills, sr_updatedAt = ''2''\<rparr>)])"
    by code_simp
  have s: "\<lparr>sk_name = ''a'', sk_content = ''c'', sk_repoKey = Some ''r''\<rparr>
      \<in> set (resolveSkills (skillsOf (readSetting [(''opencode.skills'', \<lparr>sr_value = Text sample_skills, sr_updatedAt = ''2''\<rparr>)] Skills)) (Some ''R''))"
    by (simp add: sample_reads, code_simp)
  show ?thesis using stored_skill_reaches_container[OF p s] by simp
qed

text \<open>
  A variable the settings page stored is set in every container: after a request on
  \<open>container.env\<close> was answered as stored, the environment of a container is the stored list
  itself, name for name in its order; no variable is replaced by a later one, every name is one
  a shell accepts and no value is empty, also where the page left a value out and the stored
  one was kept.
\<close>

theorem stored_variables_reach_container:
  assumes "putSetting parseUrl now pinned body ''container.env'' st = Some (Stored ws, st')"
  shows "containerEnv (loadContainerCredentials jsonText st')
      = map (\<lambda>e. (strOr (fieldOf e ''name''), strOr (fieldOf e ''value''))) (elementsOf (readSetting st' ContainerEnv)) \<and>
    list_all (\<lambda>(n, x). ENV_NAME_PATTERN n \<and> x \<noteq> []) (containerEnv (loadContainerCredentials jsonText st'))"
proof (cases "readSetting st' ContainerEnv = JUndefined")
  case True
  then show ?thesis by (simp add: loadContainerCredentials_def containerEnv_def elementsOf_def)
next
  case False
  then have "validateEnvVars (readSetting st' ContainerEnv) = []"
    using stored_value[of parseUrl now pinned body ContainerEnv st ws st'] assms by (simp add: validate_def)
  then show ?thesis by (rule accepted_variables_all_set) (simp add: loadContainerCredentials_def)
qed

lemma stored_variables_reach_container_witness:
  "containerEnv (loadContainerCredentials (\<lambda>_. [])
     [(''container.env'', \<lparr>sr_value = Text (JArr [JObj [(''name'', JStr ''A''), (''value'', JStr ''x'')]]), sr_updatedAt = ''2''\<rparr>)])
   = [(''A'', ''x'')]"
proof -
  have p: "putSetting (\<lambda>_. None) ''2'' []
      (JObj [(''value'', JArr [JObj [(''name'', JStr ''A''), (''value'', JStr [])]])]) ''container.env''
      [(''container.env'', \<lparr>sr_value = Text (JArr [JObj [(''name'', JStr ''A''), (''value'', JStr ''x'')]]), sr_updatedAt = ''1''\<rparr>)]
      = Some (Stored [], [(''container.env'', \<lparr>sr_value = Text (JArr [JObj [(''name'', JStr ''A''), (''value'', JStr ''x'')]]), sr_updatedAt = ''2''\<rparr>)])"
    by code_simp
  have e: "map (\<lambda>e. (strOr (fieldOf e ''name''), strOr (fieldOf e ''value''))) (elementsOf (readSetting
      [(''container.env'', \<lparr>sr_value = Text (JArr [JObj [(''name'', JStr ''A''), (''value'', JStr ''x'')]]), sr_updatedAt = ''2''\<rparr>)] ContainerEnv))
      = [(''A'', ''x'')]" by (simp add: sample_reads)
  show ?thesis using stored_variables_reach_container[OF p] unfolding e by blast
qed

text \<open>
  A Docker host the settings page stored is offered: after a request on \<open>docker.hosts\<close> was
  answered as stored, the providers a session may choose are, in the order of the list, one for
  every host, then Cloudflare; the reader drops no entry for a missing address, token or name.
\<close>

theorem stored_hosts_are_offered:
  assumes "putSetting parseUrl now pinned body ''docker.hosts'' st = Some (Stored ws, st')"
  shows "listDockerHosts (readSetting st' DockerHosts) = map dockerHost (elementsOf (readSetting st' DockerHosts)) \<and>
    listSessionProviders (readSetting st' DockerHosts)
      = map (dh_provider \<circ> dockerHost) (elementsOf (readSetting st' DockerHosts)) @ [''cloudflare'']"
proof (cases "readSetting st' DockerHosts = JUndefined")
  case True
  then show ?thesis by (simp add: listDockerHosts_def elementsOf_def listSessionProviders_def)
next
  case False
  then have "validateDockerHosts parseUrl (readSetting st' DockerHosts) = []"
    using stored_value[of parseUrl now pinned body DockerHosts st ws st'] assms by (simp add: validate_def)
  then show ?thesis using accepted_hosts_are_offered by blast
qed

definition plain_origin :: "string \<Rightarrow> url_parts option" where
  "plain_origin s = Some \<lparr>ur_protocol = ''https:'', ur_username = [], ur_password = [],
     ur_pathname = ''/'', ur_search = [], ur_hash = []\<rparr>"

lemma stored_hosts_are_offered_witness:
  "listSessionProviders sample_hosts = [''docker:mac-mini'', ''cloudflare'']"
proof -
  have p: "putSetting plain_origin ''2'' [] (JObj [(''value'', sample_hosts)]) ''docker.hosts'' []
      = Some (Stored [], [(''docker.hosts'', \<lparr>sr_value = Text sample_hosts, sr_updatedAt = ''2''\<rparr>)])"
    by code_simp
  have r: "readSetting [(''docker.hosts'', \<lparr>sr_value = Text sample_hosts, sr_updatedAt = ''2''\<rparr>)] DockerHosts = sample_hosts"
    by (simp add: sample_reads)
  have e: "map (dh_provider \<circ> dockerHost) (elementsOf sample_hosts) = [''docker:mac-mini'']" by code_simp
  show ?thesis using stored_hosts_are_offered[OF p] unfolding r e by simp
qed



section \<open>What the routes show\<close>

















section \<open>Secrets that were not typed again\<close>

lemma kept_last:
  assumes "e \<in> set es" and "fieldOf e k = JStr n"
    and "distinct (map (\<lambda>e. fieldOf e k) es)" and "\<not> nullishValue (fieldOf e w)"
  shows "keptValue (map (\<lambda>e. (fieldOf e k, fieldOf e w)) es) n = fieldOf e w"
proof -
  have "distinct (map fst (rev (map (\<lambda>e. (fieldOf e k, fieldOf e w)) es)))"
    using assms(3) by (simp add: comp_def rev_map[symmetric] map_map)
  moreover have "(JStr n, fieldOf e w) \<in> set (rev (map (\<lambda>e. (fieldOf e k, fieldOf e w)) es))"
    using assms(1,2) by force
  ultimately have "map_of (rev (map (\<lambda>e. (fieldOf e k, fieldOf e w)) es)) (JStr n) = Some (fieldOf e w)"
    by (rule map_of_is_SomeI)
  then show ?thesis using assms(4) by (simp add: keptValue_def)
qed

lemma hostProblems_entries:
  "hostProblems parseUrl i seen es = [] \<Longrightarrow>
     list_all (\<lambda>h. isRecord h \<and> (\<exists>s. fieldOf h ''id'' = JStr s \<and> s \<notin> set seen) \<and>
        (\<exists>t. fieldOf h ''token'' = JStr t)) es \<and>
     distinct (map (\<lambda>h. fieldOf h ''id'') es)"
proof (induction es arbitrary: i seen)
  case (Cons h es)
  have rec: "isRecord h" using Cons.prems by (auto split: if_splits)
  obtain ps seen' where hp: "hostIdProblems seen (fieldOf h ''id'') i = (ps, seen')" by force
  from Cons.prems rec hp have none: "ps = []"
    and tok: "validateDockerAgentToken (fieldOf h ''token'') i = []"
    and rest: "hostProblems parseUrl (i + 1) seen' es = []" by auto
  obtain s where s: "fieldOf h ''id'' = JStr s" "s \<notin> set seen" "seen' = s # seen"
    using hp none by (cases "fieldOf h ''id''") (auto simp: hostIdProblems_def split: if_splits)
  have t: "\<exists>t. fieldOf h ''token'' = JStr t"
    using token_not_blank[OF tok] by (cases "fieldOf h ''token''") (auto simp: blankText_def)
  have tail: "list_all (\<lambda>h. isRecord h \<and> (\<exists>r. fieldOf h ''id'' = JStr r \<and> r \<notin> set (s # seen)) \<and>
        (\<exists>t. fieldOf h ''token'' = JStr t)) es" "distinct (map (\<lambda>h. fieldOf h ''id'') es)"
    using Cons.IH[OF rest] unfolding s(3) by blast+
  have "fieldOf h ''id'' \<notin> (\<lambda>h. fieldOf h ''id'') ` set es"
    using tail(1) by (fastforce simp: s(1) list_all_iff)
  with tail rec s t show ?case by (fastforce simp: list_all_iff)
qed simp

lemma accepted_pairs:
  assumes "validateDockerHosts parseUrl stored = []"
  shows "storedPairs ''id'' ''token'' stored
    = Some (map (\<lambda>e. (fieldOf e ''id'', fieldOf e ''token'')) (elementsOf stored))"
proof -
  obtain es where es: "stored = JArr es" and ok: "hostProblems parseUrl 1 [] es = []"
    using assms by (auto simp: validateDockerHosts_def split: json.splits if_splits)
  have "\<not> list_ex nullishValue es"
    using hostProblems_entries[OF ok] by (auto simp: list_all_iff list_ex_iff nullishValue_def)
  then show ?thesis by (simp add: es storedPairs_def elementsOf_def nullishValue_def)
qed

lemma mergedHost_token:
  assumes "fieldOf h ''id'' = JStr i" and "fieldOf h ''token'' \<in> {JStr [], JUndefined}"
  shows "fieldOf (mergedHost existing h) ''token'' = keptValue existing i"
    and "k \<noteq> ''token'' \<Longrightarrow> fieldOf (mergedHost existing h) k = fieldOf h k"
  using assms by (auto simp: mergedHost_def fieldOf_def field_def update_conv')

lemma table_valid_hosts:
  assumes "table_valid parseUrl st" and "e \<in> set (elementsOf (readSetting st DockerHosts))"
  shows "validateDockerHosts parseUrl (readSetting st DockerHosts) = []"
proof -
  obtain r where r: "readSettingRow st DockerHosts = Some r"
    using assms(2) by (cases "readSettingRow st DockerHosts") (simp_all add: readSetting_def elementsOf_def)
  then show ?thesis
    using assms(1) by (simp add: table_valid_def SETTING_DESCRIPTORS_def readSetting_def validate_def)
qed

text \<open>
  A bearer that is not typed again is kept: where the page sends a stored host back under
  the same id without its token, and the request is answered as stored, the host at that place
  of the list has the token that was stored for it, and everything else about it as it was
  sent, whatever the order of the list and whichever hosts were added or removed.
\<close>

theorem untouched_host_keeps_token:
  assumes "table_valid parseUrl st"
    and "putSetting parseUrl now pinned body ''docker.hosts'' st = Some (Stored ws, st')"
    and "fieldOf body ''value'' = JArr hs" and "j < length hs"
    and "e \<in> set (elementsOf (readSetting st DockerHosts))"
    and "fieldOf (hs ! j) ''id'' = fieldOf e ''id''"
    and "fieldOf (hs ! j) ''token'' \<in> {JStr [], JUndefined}"
  shows "fieldOf (elementsOf (readSetting st' DockerHosts) ! j) ''token'' = fieldOf e ''token'' \<and>
    (\<forall>k. k = ''token'' \<or> fieldOf (elementsOf (readSetting st' DockerHosts) ! j) k = fieldOf (hs ! j) k)"
proof -
  let ?stored = "readSetting st DockerHosts"
  let ?pairs = "map (\<lambda>e. (fieldOf e ''id'', fieldOf e ''token'')) (elementsOf ?stored)"
  note acc = table_valid_hosts[OF assms(1,5)]
  obtain es where es: "?stored = JArr es" and ok: "hostProblems parseUrl 1 [] es = []"
    using acc by (auto simp: validateDockerHosts_def split: json.splits if_splits)
  note ent = hostProblems_entries[OF ok]
  have mem: "e \<in> set es" using assms(5) es by (simp add: elementsOf_def)
  obtain i where i: "fieldOf e ''id'' = JStr i" using ent mem by (auto simp: list_all_iff)
  obtain t where t: "fieldOf e ''token'' = JStr t" using ent mem by (auto simp: list_all_iff)
  have kept: "keptValue ?pairs i = fieldOf e ''token''"
    unfolding es elementsOf_def by (simp, rule kept_last[OF mem i]) (use ent t in \<open>simp_all add: nullishValue_def\<close>)
  have sent: "sentValue DockerHosts st (fieldOf body ''value'') = Some (JArr (map (mergedHost ?pairs) hs))"
    by (simp add: sentValue_def assms(3) mergeDockerHostTokens_def accepted_pairs[OF acc])
  have "elementsOf (readSetting st' DockerHosts) = map (mergedHost ?pairs) hs"
    using assms(2)
  proof (cases rule: putSetting_cases)
    case kept
    then show ?thesis by blast
  next
    case (cleared d)
    with assms(3) show ?thesis by simp
  next
    case (stored d v ws)
    have "sd_key d = DockerHosts" using findDescriptor_key[OF stored(1)] by (cases "sd_key d") simp_all
    then have "JArr (map (mergedHost ?pairs) hs) = v" and "readSetting st' DockerHosts = v"
      using stored sent by (simp_all add: settings_simps)
    then show ?thesis by (auto simp: elementsOf_def)
  qed
  then have host: "elementsOf (readSetting st' DockerHosts) ! j = mergedHost ?pairs (hs ! j)"
    using assms(4) by simp
  note merged = mergedHost_token[OF trans[OF assms(6) i] assms(7), where existing = ?pairs]
  show ?thesis
    unfolding host
  proof (intro conjI allI)
    show "fieldOf (mergedHost ?pairs (hs ! j)) ''token'' = fieldOf e ''token''"
      by (rule trans[OF merged(1) kept])
    show "k = ''token'' \<or> fieldOf (mergedHost ?pairs (hs ! j)) k = fieldOf (hs ! j) k" for k
      by (cases "k = ''token''") (simp_all only: merged(2) simp_thms)
  qed
qed

definition sample_table :: settings_table where
  "sample_table = [(''docker.hosts'', \<lparr>sr_value = Text sample_hosts, sr_updatedAt = ''1''\<rparr>)]"

definition sample_edit :: "json list" where
  "sample_edit = [JObj [(''id'', JStr ''new''), (''baseUrl'', JStr ''https://n.example''), (''token'', JStr ''u'')],
     JObj [(''id'', JStr ''mac-mini''), (''baseUrl'', JStr ''https://m.example''), (''token'', JStr [])]]"

definition sample_result :: settings_table where
  "sample_result = [(''docker.hosts'', \<lparr>sr_value = Text (JArr
     [JObj [(''id'', JStr ''new''), (''baseUrl'', JStr ''https://n.example''), (''token'', JStr ''u'')],
      JObj [(''id'', JStr ''mac-mini''), (''baseUrl'', JStr ''https://m.example''), (''token'', JStr ''t'')]]),
     sr_updatedAt = ''2''\<rparr>)]"

lemma untouched_host_keeps_token_witness:
  "fieldOf (elementsOf (readSetting sample_result DockerHosts) ! 1) ''token'' = JStr ''t''"
proof -
  let ?e = "JObj [(''id'', JStr ''mac-mini''), (''baseUrl'', JStr ''https://m.example''), (''token'', JStr ''t'')]"
  have valid: "table_valid plain_origin sample_table" by code_simp
  have p: "putSetting plain_origin ''2'' [] (JObj [(''value'', JArr sample_edit)]) ''docker.hosts'' sample_table
      = Some (Stored [], sample_result)" by code_simp
  have e: "?e \<in> set (elementsOf (readSetting sample_table DockerHosts))" by (simp add: sample_reads sample_table_def sample_edit_def)
  have b: "fieldOf (JObj [(''value'', JArr sample_edit)]) ''value'' = JArr sample_edit" by (simp add: sample_reads sample_table_def sample_edit_def)
  have j: "1 < length sample_edit" by (simp add: sample_reads sample_table_def sample_edit_def)
  have i: "fieldOf (sample_edit ! 1) ''id'' = fieldOf ?e ''id''" by (simp add: sample_reads sample_table_def sample_edit_def)
  have t: "fieldOf (sample_edit ! 1) ''token'' \<in> {JStr [], JUndefined}" by (simp add: sample_reads sample_table_def sample_edit_def)
  have "fieldOf ?e ''token'' = JStr ''t''" by (simp add: sample_reads sample_table_def sample_edit_def)
  then show ?thesis using untouched_host_keeps_token[OF valid p b j e i t] by simp
qed

end
