(* ===== verification/Access.thy ===== *)
theory Access
  imports Settings_Api Base64
begin

unbundle bit_operations_syntax

text \<open>
  The front door: \<open>src/password.ts\<close>, \<open>src/access.ts\<close>, the change of the password in
  \<open>src/api-settings.ts\<close> and the routing of \<open>src/index.ts\<close>. PBKDF2 and SHA-256 are arguments,
  and so are the random bytes of a salt and of a token. Bytes are characters, instants are
  milliseconds.
\<close>

section \<open>Passwords and tokens\<close>

type_synonym pbkdf2 = "string \<Rightarrow> string \<Rightarrow> int \<Rightarrow> string"

definition PBKDF2_ITERATIONS :: int where "PBKDF2_ITERATIONS = 100000"

definition toBase64 :: "string \<Rightarrow> string" where
  "toBase64 bytes = base64Of (map of_char bytes)"

definition fromBase64 :: "string \<Rightarrow> string option" where
  "fromBase64 encoded = atob encoded"

definition hashPassword :: "pbkdf2 \<Rightarrow> string \<Rightarrow> string \<Rightarrow> json" where
  "hashPassword derive salt password =
     JObj [(''algorithm'', JStr ''pbkdf2-sha256''), (''iterations'', JNum PBKDF2_ITERATIONS),
       (''salt'', JStr (toBase64 salt)),
       (''hash'', JStr (toBase64 (derive password salt PBKDF2_ITERATIONS)))]"

definition codeOf :: "char \<Rightarrow> nat" where "codeOf c = of_char c"

definition constantTimeEquals :: "string \<Rightarrow> string \<Rightarrow> bool" where
  "constantTimeEquals a b =
     (length a = length b \<and> fold (\<lambda>(x, y) difference. difference OR (codeOf x XOR codeOf y)) (zip a b) 0 = 0)"

text \<open>\<open>None\<close> where the stored salt is not base64, on which \<open>atob\<close> throws.\<close>

definition verifyPassword :: "pbkdf2 \<Rightarrow> json \<Rightarrow> string \<Rightarrow> bool option" where
  "verifyPassword derive record password =
     (case fromBase64 (strOr (fieldOf record ''salt'')) of
        None \<Rightarrow> None
      | Some salt \<Rightarrow> Some (constantTimeEquals
          (toBase64 (derive password salt (case fieldOf record ''iterations'' of JNum n \<Rightarrow> n | _ \<Rightarrow> 0)))
          (strOr (fieldOf record ''hash''))))"

definition urlSafe :: "char \<Rightarrow> char" where
  "urlSafe c = (if c = CHR ''+'' then CHR ''-'' else if c = CHR ''/'' then CHR ''_'' else c)"

definition generateSessionToken :: "string \<Rightarrow> string" where
  "generateSessionToken bytes =
     rev (dropWhile (\<lambda>c. c = CHR ''='') (rev (map urlSafe (toBase64 bytes))))"

definition hexDigit :: "nat \<Rightarrow> char" where
  "hexDigit n = ''0123456789abcdef'' ! n"

definition hashToken :: "(string \<Rightarrow> string) \<Rightarrow> string \<Rightarrow> string" where
  "hashToken digest token =
     concat (map (\<lambda>b. [hexDigit (codeOf b div 16), hexDigit (codeOf b mod 16)]) (digest token))"

section \<open>Cookies\<close>

definition SESSION_COOKIE :: string where "SESSION_COOKIE = ''hub_admin''"

definition SESSION_MAX_AGE :: int where "SESSION_MAX_AGE = 60 * 60 * 24 * 365"

definition MIN_PASSWORD_LENGTH :: nat where "MIN_PASSWORD_LENGTH = 8"

definition cookiePart :: "string \<Rightarrow> string \<Rightarrow> string option" where
  "cookiePart name part =
     (case indexOf (CHR ''='') part of
        None \<Rightarrow> None
      | Some separator \<Rightarrow>
          if separator > 0 \<and> trim (take separator part) = name
          then Some (trim (drop (separator + 1) part)) else None)"

fun firstSome :: "('a \<Rightarrow> 'b option) \<Rightarrow> 'a list \<Rightarrow> 'b option" where
  "firstSome f [] = None"
| "firstSome f (x # xs) = (case f x of None \<Rightarrow> firstSome f xs | Some y \<Rightarrow> Some y)"

definition readCookie :: "string option \<Rightarrow> string \<Rightarrow> string option" where
  "readCookie header name =
     (if \<not> truthy_str header then None else firstSome (cookiePart name) (split_on (CHR '';'') (the header)))"

definition sessionCookie :: "string \<Rightarrow> bool \<Rightarrow> int \<Rightarrow> string" where
  "sessionCookie value https maxAge =
     join_with ''; '' ([SESSION_COOKIE @ ''='' @ value, ''Path=/'', ''HttpOnly'', ''SameSite=Lax'',
       ''Max-Age='' @ decimal (nat maxAge)] @ (if https then [''Secure''] else []))"

section \<open>Browser sessions\<close>

record admin_session =
  as_tokenHash :: string
  as_createdAt :: millis
  as_expiresAt :: millis

definition sweepExpired :: "millis \<Rightarrow> admin_session list \<Rightarrow> admin_session list" where
  "sweepExpired now rows = filter (\<lambda>r. \<not> as_expiresAt r < now) rows"

text \<open>The sweep and the insertion; \<open>None\<close> where the primary key is taken.\<close>

definition createAdminSession ::
  "(string \<Rightarrow> string) \<Rightarrow> millis \<Rightarrow> string \<Rightarrow> admin_session list \<Rightarrow> admin_session list option" where
  "createAdminSession digest now token rows =
     (if hashToken digest token \<in> as_tokenHash ` set (sweepExpired now rows) then None
      else Some (sweepExpired now rows @
        [\<lparr>as_tokenHash = hashToken digest token, as_createdAt = now,
          as_expiresAt = now + SESSION_MAX_AGE * 1000\<rparr>]))"

definition isSignedIn ::
  "(string \<Rightarrow> string) \<Rightarrow> millis \<Rightarrow> string option \<Rightarrow> admin_session list \<Rightarrow> bool" where
  "isSignedIn digest now cookies rows =
     (case readCookie cookies SESSION_COOKIE of
        None \<Rightarrow> False
      | Some presented \<Rightarrow>
          presented \<noteq> [] \<and>
          list_ex (\<lambda>r. as_tokenHash r = hashToken digest presented \<and> as_expiresAt r > now) rows)"

definition signOut ::
  "(string \<Rightarrow> string) \<Rightarrow> string option \<Rightarrow> admin_session list \<Rightarrow> admin_session list" where
  "signOut digest cookies rows =
     (let presented = readCookie cookies SESSION_COOKIE in
      if truthy_str presented
      then filter (\<lambda>r. as_tokenHash r \<noteq> hashToken digest (the presented)) rows else rows)"

section \<open>Proving the password\<close>

datatype door_check = Proceed | Answer nat | Throws

definition passwordIn :: "json \<Rightarrow> string \<Rightarrow> string" where
  "passwordIn body k = strOr (fieldOf body k)"

definition signInCheck :: "pbkdf2 \<Rightarrow> settings_table \<Rightarrow> json \<Rightarrow> door_check" where
  "signInCheck derive st body =
     (let record = readSetting st AdminPassword in
      if \<not> truthyValue record then Answer 409
      else case verifyPassword derive record (passwordIn body ''password'') of
        None \<Rightarrow> Throws
      | Some ok \<Rightarrow> if ok then Proceed else Answer 401)"

definition setupCheck :: "settings_table \<Rightarrow> json \<Rightarrow> door_check" where
  "setupCheck st body =
     (if length (passwordIn body ''password'') < MIN_PASSWORD_LENGTH then Answer 400
      else if truthyValue (readSetting st AdminPassword) then Answer 409
      else Proceed)"

definition changeCheck :: "pbkdf2 \<Rightarrow> settings_table \<Rightarrow> json \<Rightarrow> door_check" where
  "changeCheck derive st body =
     (let record = readSetting st AdminPassword in
      if length (passwordIn body ''newPassword'') < MIN_PASSWORD_LENGTH then Answer 400
      else if \<not> truthyValue record then Answer 401
      else case verifyPassword derive record (passwordIn body ''currentPassword'') of
        None \<Rightarrow> Throws
      | Some ok \<Rightarrow> if ok then Proceed else Answer 401)"

section \<open>Requests\<close>

record request_view =
  rq_verb :: string
  rq_path :: string
  rq_https :: bool
  rq_selfOrigin :: string
  rq_origin :: "string option"
  rq_upgrade :: "string option"
  rq_connection :: "string option"
  rq_accept :: "string option"
  rq_cookies :: "string option"

definition isWebSocketUpgrade :: "request_view \<Rightarrow> bool" where
  "isWebSocketUpgrade rq =
     (map_option lower (rq_upgrade rq) = Some ''websocket'' \<and>
      list_ex (\<lambda>v. trim v = ''upgrade'') (split_on (CHR '','') (lower (nullish (rq_connection rq) []))))"

definition acceptsHtml :: "request_view \<Rightarrow> bool" where
  "acceptsHtml rq = contains (nullish (rq_accept rq) []) ''text/html''"

definition enforceSameOrigin :: "request_view \<Rightarrow> bool" where
  "enforceSameOrigin rq =
     (if isWebSocketUpgrade rq then rq_origin rq = Some (rq_selfOrigin rq)
      else if rq_verb rq \<noteq> ''GET'' \<and> rq_verb rq \<noteq> ''HEAD''
        then (truthy_str (rq_origin rq) \<longrightarrow> rq_origin rq = Some (rq_selfOrigin rq))
      else True)"

text \<open>Where a request goes, or the status it is answered with at once.\<close>

datatype route =
    AuthApi | SetupApi | SettingsApi | InstancesApi | SessionsApi | UploadsApi | CatalogApi
  | Assets | AppShell | Deny nat

definition underRoute :: "string \<Rightarrow> string \<Rightarrow> bool" where
  "underRoute path base = (path = base \<or> starts_with path (base @ ''/''))"

definition routeOf :: "(string \<Rightarrow> string) \<Rightarrow> millis \<Rightarrow> admin_session list \<Rightarrow> request_view \<Rightarrow> route" where
  "routeOf digest now rows rq =
     (if \<not> enforceSameOrigin rq then Deny 403
      else if rq_path rq = ''/api/auth'' then AuthApi
      else if rq_path rq = ''/api/setup'' then SetupApi
      else if starts_with (rq_path rq) ''/api/'' \<and> \<not> isSignedIn digest now (rq_cookies rq) rows then Deny 401
      else if underRoute (rq_path rq) ''/api/settings'' then SettingsApi
      else if underRoute (rq_path rq) ''/api/instances'' then InstancesApi
      else if underRoute (rq_path rq) ''/api/sessions'' then SessionsApi
      else if underRoute (rq_path rq) ''/api/uploads'' then UploadsApi
      else if rq_path rq = ''/api/catalog'' \<and> rq_verb rq = ''GET'' then CatalogApi
      else if starts_with (rq_path rq) ''/hub-assets/'' then Assets
      else if rq_verb rq = ''GET'' \<and> acceptsHtml rq then AppShell
      else Deny 404)"

section \<open>The handlers, cut at their calls\<close>

text \<open>
  A request between two of its statements: a sign-in that was proved, a first password that may
  be stored or was, a change of the password in its three statements. With each, what the
  request proved: the record and the password that verified against it. A first setup proves
  nothing but the password it stores.
\<close>

record proof_of =
  po_record :: json
  po_password :: string

datatype door_thread =
    SignIn string proof_of
  | SetUp json string string
  | SetUpStored string proof_of
  | Change json string string
  | ChangeStored string proof_of
  | ChangeCleared string proof_of

record front_door =
  fd_settings :: settings_table
  fd_sessions :: "admin_session list"
  fd_threads :: "(nat \<times> door_thread) list"
  fd_records :: "json list"
  fd_grants :: "(string \<times> proof_of) list"

definition threadAt :: "nat \<Rightarrow> front_door \<Rightarrow> door_thread option" where
  "threadAt k s = map_of (fd_threads s) k"

definition inThread :: "nat \<Rightarrow> door_thread \<Rightarrow> front_door \<Rightarrow> front_door" where
  "inThread k t s = s\<lparr>fd_threads := AList.update k t (fd_threads s)\<rparr>"

definition endThread :: "nat \<Rightarrow> front_door \<Rightarrow> front_door" where
  "endThread k s = s\<lparr>fd_threads := AList.delete k (fd_threads s)\<rparr>"

text \<open>The password record is stored; which records ever were is noted.\<close>

definition storeRecord :: "string \<Rightarrow> json \<Rightarrow> front_door \<Rightarrow> front_door" where
  "storeRecord stamp record s =
     s\<lparr>fd_settings := writeSetting stamp (fd_settings s) AdminPassword record,
       fd_records := record # fd_records s\<rparr>"

text \<open>A browser session is issued; to which proof is noted. A taken key ends the request.\<close>

definition grant :: "(string \<Rightarrow> string) \<Rightarrow> millis \<Rightarrow> string \<Rightarrow> proof_of \<Rightarrow> front_door \<Rightarrow> front_door" where
  "grant digest now token p s =
     (case createAdminSession digest now token (fd_sessions s) of
        None \<Rightarrow> s\<lparr>fd_sessions := sweepExpired now (fd_sessions s)\<rparr>
      | Some rows \<Rightarrow> s\<lparr>fd_sessions := rows, fd_grants := (hashToken digest token, p) # fd_grants s\<rparr>)"

definition startSignIn :: "pbkdf2 \<Rightarrow> nat \<Rightarrow> json \<Rightarrow> string \<Rightarrow> front_door \<Rightarrow> front_door" where
  "startSignIn derive k body token s =
     (if signInCheck derive (fd_settings s) body = Proceed
      then inThread k (SignIn token \<lparr>po_record = readSetting (fd_settings s) AdminPassword,
        po_password = passwordIn body ''password''\<rparr>) s
      else s)"

definition startSetup :: "pbkdf2 \<Rightarrow> nat \<Rightarrow> json \<Rightarrow> string \<Rightarrow> string \<Rightarrow> front_door \<Rightarrow> front_door" where
  "startSetup derive k body salt token s =
     (if setupCheck (fd_settings s) body = Proceed
      then inThread k (SetUp (hashPassword derive salt (passwordIn body ''password''))
        (passwordIn body ''password'') token) s
      else s)"

definition startChange :: "pbkdf2 \<Rightarrow> nat \<Rightarrow> json \<Rightarrow> string \<Rightarrow> string \<Rightarrow> front_door \<Rightarrow> front_door" where
  "startChange derive k body salt token s =
     (if changeCheck derive (fd_settings s) body = Proceed
      then inThread k (Change (hashPassword derive salt (passwordIn body ''newPassword''))
        (passwordIn body ''newPassword'') token) s
      else s)"

text \<open>The next statement of a request.\<close>

definition nextStatement :: "(string \<Rightarrow> string) \<Rightarrow> millis \<Rightarrow> string \<Rightarrow> nat \<Rightarrow> front_door \<Rightarrow> front_door" where
  "nextStatement digest now stamp k s =
     (case threadAt k s of
        None \<Rightarrow> s
      | Some (SignIn token p) \<Rightarrow> endThread k (grant digest now token p s)
      | Some (SetUp record password token) \<Rightarrow>
          inThread k (SetUpStored token \<lparr>po_record = record, po_password = password\<rparr>) (storeRecord stamp record s)
      | Some (SetUpStored token p) \<Rightarrow> endThread k (grant digest now token p s)
      | Some (Change record password token) \<Rightarrow>
          inThread k (ChangeStored token \<lparr>po_record = record, po_password = password\<rparr>) (storeRecord stamp record s)
      | Some (ChangeStored token p) \<Rightarrow> inThread k (ChangeCleared token p) (s\<lparr>fd_sessions := []\<rparr>)
      | Some (ChangeCleared token p) \<Rightarrow> endThread k (grant digest now token p s))"

definition leave :: "(string \<Rightarrow> string) \<Rightarrow> string option \<Rightarrow> front_door \<Rightarrow> front_door" where
  "leave digest cookies s = s\<lparr>fd_sessions := signOut digest cookies (fd_sessions s)\<rparr>"

text \<open>A settings request of a signed-in browser.\<close>

definition settingsRequest ::
  "(string \<Rightarrow> url_parts option) \<Rightarrow> string \<Rightarrow> string list \<Rightarrow> json \<Rightarrow> string \<Rightarrow> front_door \<Rightarrow> front_door" where
  "settingsRequest parseUrl stamp pinned body key s =
     (case putSetting parseUrl stamp pinned body key (fd_settings s) of
        None \<Rightarrow> s
      | Some (resp, st) \<Rightarrow> s\<lparr>fd_settings := st\<rparr>)"

inductive door_step :: "pbkdf2 \<Rightarrow> (string \<Rightarrow> string) \<Rightarrow> front_door \<Rightarrow> front_door \<Rightarrow> bool"
  for derive digest where
  signing: "threadAt k s = None \<Longrightarrow> door_step derive digest s (startSignIn derive k body token s)"
| setting_up: "threadAt k s = None \<Longrightarrow> length salt = 16 \<Longrightarrow>
    door_step derive digest s (startSetup derive k body salt token s)"
| changing: "threadAt k s = None \<Longrightarrow> length salt = 16 \<Longrightarrow>
    door_step derive digest s (startChange derive k body salt token s)"
| going_on: "door_step derive digest s (nextStatement digest now stamp k s)"
| dying: "door_step derive digest s (endThread k s)"
| leaving: "door_step derive digest s (leave digest cookies s)"
| setting: "door_step derive digest s (settingsRequest parseUrl stamp pinned body key s)"

inductive door_reachable :: "pbkdf2 \<Rightarrow> (string \<Rightarrow> string) \<Rightarrow> front_door \<Rightarrow> bool"
  for derive digest where
  start: "readSettingRow st AdminPassword = None \<Longrightarrow> door_reachable derive digest
    \<lparr>fd_settings = st, fd_sessions = [], fd_threads = [], fd_records = [], fd_grants = []\<rparr>"
| step: "door_reachable derive digest s \<Longrightarrow> door_step derive digest s s' \<Longrightarrow> door_reachable derive digest s'"

section \<open>The handlers undisturbed\<close>

definition changePassword ::
  "pbkdf2 \<Rightarrow> (string \<Rightarrow> string) \<Rightarrow> millis \<Rightarrow> string \<Rightarrow> json \<Rightarrow> string \<Rightarrow> string \<Rightarrow> settings_table \<times> admin_session list
     \<Rightarrow> nat \<times> (settings_table \<times> admin_session list)" where
  "changePassword derive digest now stamp body salt token s =
     (case changeCheck derive (fst s) body of
        Throws \<Rightarrow> (500, s)
      | Answer status \<Rightarrow> (status, s)
      | Proceed \<Rightarrow>
          (let st = writeSetting stamp (fst s) AdminPassword
                 (hashPassword derive salt (passwordIn body ''newPassword'')) in
           case createAdminSession digest now token [] of
             None \<Rightarrow> (500, (st, []))
           | Some rows \<Rightarrow> (200, (st, rows))))"

end
