(* ===== verification/Access_Properties.thy ===== *)
theory Access_Properties
  imports Access Settings_Api_Properties
begin

unbundle bit_operations_syntax

text \<open>
  Who is let in: the properties of the front door (\<open>src/access.ts\<close>, \<open>src/password.ts\<close>,
  \<open>src/index.ts\<close>), for every PBKDF2 and every digest, and under every interleaving of
  requests.
\<close>

section \<open>Passwords\<close>

lemma code_bound [simp]: "codeOf c < 256"
  by (simp add: codeOf_def)

lemma codeOf_inj [simp]: "codeOf a = codeOf b \<longleftrightarrow> a = b"
  by (simp add: codeOf_def)

lemma xor_zero: "(a::nat) XOR b = 0 \<longleftrightarrow> a = b"
proof
  assume h: "a XOR b = 0"
  have "a XOR (a XOR b) = b" by (simp add: xor.assoc [symmetric])
  then show "a = b" by (simp add: h)
qed simp

lemma or_zero: "(a::nat) OR b = 0 \<longleftrightarrow> a = 0 \<and> b = 0"
  by (simp add: or_eq_0_iff)

lemma fold_difference:
  "fold (\<lambda>(x, y) d. d OR (codeOf x XOR codeOf y)) ps d = 0 \<longleftrightarrow> d = 0 \<and> list_all (\<lambda>(x, y). x = y) ps"
proof (induction ps arbitrary: d)
  case (Cons p ps)
  then show ?case by (cases p) (simp add: or_zero xor_zero)
qed simp

lemma zip_equal: "length a = length b \<Longrightarrow> list_all (\<lambda>(x, y). x = y) (zip a b) \<longleftrightarrow> a = b"
  by (induction a b rule: list_induct2) auto

text \<open>The comparison that does not stop at the first difference is equality.\<close>

lemma constantTimeEquals_eq: "constantTimeEquals a b \<longleftrightarrow> a = b"
  by (auto simp: constantTimeEquals_def fold_difference zip_equal)

lemma fromBase64_toBase64: "fromBase64 (toBase64 bytes) = Some bytes"
  by (simp add: fromBase64_def toBase64_def atob_base64 list_all_iff comp_def)

lemma hashPassword_verifies:
  "verifyPassword derive (hashPassword derive salt password) password = Some True"
  by (simp add: verifyPassword_def hashPassword_def fieldOf_def field_def strOr_def
      fromBase64_toBase64 constantTimeEquals_eq)

lemma hashPassword_truthy: "truthyValue (hashPassword derive salt password)"
  by (simp add: hashPassword_def)

section \<open>The cookie\<close>

lemma trim_space [simp]: "trim (CHR '' '' # s) = trim s" "trim [] = []"
  by (simp_all add: trim_def is_space_def)

lemma cookiePart_space: "name \<noteq> [] \<Longrightarrow> cookiePart name (CHR '' '' # p) = cookiePart name p"
  by (cases "indexOf (CHR ''='') p") (auto simp: cookiePart_def)

lemma split_on_append: "c \<notin> set a \<Longrightarrow> split_on c (a @ c # b) = a # split_on c b"
  by (induction a) auto

lemma split_on_plain: "c \<notin> set a \<Longrightarrow> split_on c a = [a]"
  by (induction a) auto

lemma firstSome_cookies:
  assumes "list_all (\<lambda>p. CHR '';'' \<notin> set p) ps" and "name \<noteq> []"
  shows "firstSome (cookiePart name) (split_on (CHR '';'') (join_with ''; '' ps)) = firstSome (cookiePart name) ps \<and>
    firstSome (cookiePart name) (split_on (CHR '';'') (CHR '' '' # join_with ''; '' ps))
      = firstSome (cookiePart name) ps"
  using assms(1)
proof (induction ps rule: induct_list012)
  case 1
  show ?case using assms(2) by (simp add: cookiePart_def)
next
  case (2 w)
  then show ?case using assms(2) by (simp add: split_on_plain cookiePart_space)
next
  case (3 w v ws)
  then have no: "CHR '';'' \<notin> set w" and IH: "firstSome (cookiePart name) (split_on (CHR '';'') (CHR '' '' # join_with ''; '' (v # ws)))
      = firstSome (cookiePart name) (v # ws)" by simp_all
  have a: "split_on (CHR '';'') (join_with ''; '' (w # v # ws))
      = w # split_on (CHR '';'') (CHR '' '' # join_with ''; '' (v # ws))"
    using split_on_append[OF no] by simp
  have b: "split_on (CHR '';'') (CHR '' '' # join_with ''; '' (w # v # ws))
      = (CHR '' '' # w) # split_on (CHR '';'') (CHR '' '' # join_with ''; '' (v # ws))"
    using split_on_append[of "CHR '';''" "CHR '' '' # w"] no by simp
  show ?case
    unfolding a b by (simp only: firstSome.simps IH cookiePart_space[OF assms(2)] simp_thms)
qed

lemma encodeSextet_char: "n < 64 \<Longrightarrow> encodeSextet n \<in> set base64Alphabet"
  unfolding encodeSextet_def by (rule nth_mem) (simp add: base64Alphabet_def)

lemma toBase64_chars: "set (toBase64 bytes) \<subseteq> insert (CHR ''='') (set base64Alphabet)"
proof -
  have "list_all (\<lambda>n. n < 64) (sextetsOf (map of_char bytes))"
    by (rule sextetsOf_bound) (simp add: list_all_iff)
  then show ?thesis
    unfolding toBase64_def base64Of_sextets
    by (auto simp: list_all_iff padding_def dest: encodeSextet_char split: if_splits)
qed

definition tokenChar :: "char \<Rightarrow> bool" where
  "tokenChar c = (is_alnum c \<or> c = CHR ''-'' \<or> c = CHR ''_'' \<or> c = CHR ''='')"

lemma alphabet_token: "c \<in> insert (CHR ''='') (set base64Alphabet) \<Longrightarrow> tokenChar (urlSafe c)"
proof -
  have "list_all (\<lambda>c. tokenChar (urlSafe c)) (CHR ''='' # base64Alphabet)" by code_simp
  then show "c \<in> insert (CHR ''='') (set base64Alphabet) \<Longrightarrow> tokenChar (urlSafe c)"
    by (auto simp only: list_all_iff list.set)
qed

lemma token_chars:
  assumes "c \<in> set (generateSessionToken bytes)"
  shows "tokenChar c"
proof -
  have "c \<in> set (map urlSafe (toBase64 bytes))"
    using assms by (auto simp: generateSessionToken_def dest: set_dropWhileD)
  then obtain d where "c = urlSafe d" "d \<in> set (toBase64 bytes)" by auto
  with toBase64_chars[of bytes] alphabet_token show ?thesis by blast
qed

lemma tokenChar_plain:
  assumes "tokenChar c"
  shows "\<not> is_space c \<and> c \<noteq> CHR '';''"
proof -
  let ?n = "of_char c :: nat"
  have n: "45 \<le> ?n \<and> ?n \<le> 122 \<and> ?n \<noteq> 59"
    using assms unfolding tokenChar_def is_alnum_def is_lower_def is_upper_def is_digit_def less_eq_char_def
    by (elim disjE conjE) simp_all
  then have "\<not> is_space c" by (simp add: is_space_def Let_def)
  moreover have "c \<noteq> CHR '';''" using n by auto
  ultimately show ?thesis by blast
qed

lemma token_plain: "list_all (\<lambda>c. \<not> is_space c) (generateSessionToken bytes)"
  "CHR '';'' \<notin> set (generateSessionToken bytes)"
proof -
  show "list_all (\<lambda>c. \<not> is_space c) (generateSessionToken bytes)"
    unfolding list_all_iff by (intro ballI, rule conjunct1[OF tokenChar_plain[OF token_chars]])
  show "CHR '';'' \<notin> set (generateSessionToken bytes)"
  proof
    assume "CHR '';'' \<in> set (generateSessionToken bytes)"
    then show False using conjunct2[OF tokenChar_plain[OF token_chars]] by blast
  qed
qed

lemma session_part: "cookiePart SESSION_COOKIE (SESSION_COOKIE @ CHR ''='' # token) = Some (trim token)"
  by (simp add: cookiePart_def SESSION_COOKIE_def trim_def is_space_def)

lemma firstSome_skip: "list_all (\<lambda>p. f p = None) ps \<Longrightarrow> firstSome f (ps @ qs) = firstSome f qs"
  by (induction ps) auto

text \<open>
  The cookie a sign-in answers with lets its browser in: for a request with that cookie,
  anywhere among the browser's other cookies, the session is recognised until its year is over,
  and the table holds only the hash of the token, never the token.
\<close>

theorem cookie_signs_in:
  assumes "createAdminSession digest now (generateSessionToken bytes) rows = Some rows'"
    and "generateSessionToken bytes \<noteq> []"
    and "list_all (\<lambda>p. CHR '';'' \<notin> set p \<and> cookiePart SESSION_COOKIE p = None) before"
    and "list_all (\<lambda>p. CHR '';'' \<notin> set p) after"
    and "later < now + SESSION_MAX_AGE * 1000"
  shows "isSignedIn digest later (Some (join_with ''; ''
      (before @ [SESSION_COOKIE @ ''='' @ generateSessionToken bytes] @ after))) rows' \<and>
    as_tokenHash ` set rows' \<subseteq> insert (hashToken digest (generateSessionToken bytes)) (as_tokenHash ` set rows)"
proof -
  let ?token = "generateSessionToken bytes"
  let ?ps = "before @ [SESSION_COOKIE @ ''='' @ ?token] @ after"
  have ok: "list_all (\<lambda>p. CHR '';'' \<notin> set p) ?ps"
    using assms(3,4) token_plain(2)[of bytes] by (auto simp: list_all_iff SESSION_COOKIE_def)
  have ne: "join_with ''; '' ?ps \<noteq> []"
    by (cases before; cases after; cases "tl before") (auto simp: SESSION_COOKIE_def neq_Nil_conv)
  have "firstSome (cookiePart SESSION_COOKIE) ?ps = Some ?token"
    using assms(3) by (subst firstSome_skip)
      (auto simp: list_all_iff session_part trim_plain[OF token_plain(1)])
  then have "readCookie (Some (join_with ''; '' ?ps)) SESSION_COOKIE = Some ?token"
    using firstSome_cookies[OF ok, of SESSION_COOKIE] ne
    by (simp add: readCookie_def truthy_str_def SESSION_COOKIE_def)
  moreover have rows: "rows' = sweepExpired now rows @ [\<lparr>as_tokenHash = hashToken digest ?token,
      as_createdAt = now, as_expiresAt = now + SESSION_MAX_AGE * 1000\<rparr>]"
    using assms(1) by (auto simp: createAdminSession_def split: if_splits)
  ultimately show ?thesis
    using assms(2,5) by (auto simp: isSignedIn_def sweepExpired_def)
qed

definition sample_token :: string where
  "sample_token = generateSessionToken (replicate 32 (CHR 0xFB))"

lemma cookie_signs_in_witness:
  "isSignedIn (\<lambda>t. t) 5 (Some (''a=1; hub_admin='' @ sample_token @ ''; b''))
     [\<lparr>as_tokenHash = hashToken (\<lambda>t. t) sample_token, as_createdAt = 0, as_expiresAt = SESSION_MAX_AGE * 1000\<rparr>]"
proof -
  have c: "createAdminSession (\<lambda>t. t) 0 (generateSessionToken (replicate 32 (CHR 0xFB))) []
      = Some [\<lparr>as_tokenHash = hashToken (\<lambda>t. t) sample_token, as_createdAt = 0, as_expiresAt = SESSION_MAX_AGE * 1000\<rparr>]"
    by (simp add: createAdminSession_def sweepExpired_def sample_token_def)
  have n: "generateSessionToken (replicate 32 (CHR 0xFB)) \<noteq> []" by code_simp
  have b: "list_all (\<lambda>p. CHR '';'' \<notin> set p \<and> cookiePart SESSION_COOKIE p = None) [''a=1'']" by code_simp
  have a: "list_all (\<lambda>p. CHR '';'' \<notin> set p) [''b'']" by code_simp
  have l: "5 < 0 + SESSION_MAX_AGE * 1000" by (simp add: SESSION_MAX_AGE_def)
  show ?thesis
    using cookie_signs_in[OF c n b a l] by (simp add: SESSION_COOKIE_def sample_token_def)
qed

section \<open>Changing the password\<close>

lemma readSetting_record: "readSetting (writeSetting stamp st AdminPassword r) AdminPassword = r"
  by (simp add: settings_simps)

text \<open>
  A changed password is the password, and every other browser is out: when the change is
  answered with success, the request had proved the old password, the new one signs in, any
  password that signs in verifies against the record of the new one, and a browser is
  recognised only if its token has the hash of the one token this change issued.
\<close>

theorem change_revokes_every_browser:
  assumes "changePassword derive digest now stamp body salt token (st, rows) = (200, (st', rows'))"
  shows "changeCheck derive st body = Proceed \<and>
    signInCheck derive st' (JObj [(''password'', JStr (passwordIn body ''newPassword''))]) = Proceed \<and>
    (signInCheck derive st' other = Proceed \<longrightarrow>
       toBase64 (derive (passwordIn other ''password'') salt PBKDF2_ITERATIONS)
         = toBase64 (derive (passwordIn body ''newPassword'') salt PBKDF2_ITERATIONS)) \<and>
    (isSignedIn digest later cookies rows' \<longrightarrow>
       map_option (hashToken digest) (readCookie cookies SESSION_COOKIE) = Some (hashToken digest token))"
proof -
  let ?fresh = "hashPassword derive salt (passwordIn body ''newPassword'')"
  have ok: "changeCheck derive st body = Proceed"
    using assms by (auto simp: changePassword_def changeCheck_def Let_def split: door_check.splits if_splits option.splits)
  have st': "st' = writeSetting stamp st AdminPassword ?fresh"
    and rows': "rows' = [\<lparr>as_tokenHash = hashToken digest token, as_createdAt = now,
      as_expiresAt = now + SESSION_MAX_AGE * 1000\<rparr>]"
    using assms ok by (auto simp: changePassword_def Let_def createAdminSession_def sweepExpired_def)
  have new: "signInCheck derive st' (JObj [(''password'', JStr (passwordIn body ''newPassword''))]) = Proceed"
    by (simp add: signInCheck_def st' readSetting_record hashPassword_truthy passwordIn_def fieldOf_def field_def
        strOr_def hashPassword_verifies[unfolded passwordIn_def])
  have only: "toBase64 (derive (passwordIn other ''password'') salt PBKDF2_ITERATIONS)
         = toBase64 (derive (passwordIn body ''newPassword'') salt PBKDF2_ITERATIONS)"
    if "signInCheck derive st' other = Proceed"
    using that by (simp add: signInCheck_def st' readSetting_record Let_def verifyPassword_def hashPassword_def
        fieldOf_def field_def strOr_def fromBase64_toBase64 constantTimeEquals_eq split: if_splits)
  have out: "map_option (hashToken digest) (readCookie cookies SESSION_COOKIE) = Some (hashToken digest token)"
    if "isSignedIn digest later cookies rows'"
    using that by (auto simp: isSignedIn_def rows' split: option.splits)
  show ?thesis using ok new only out by blast
qed

definition plain_derive :: pbkdf2 where "plain_derive password salt n = password @ salt"

definition sample_record :: settings_table where
  "sample_record = writeSetting ''1'' [] AdminPassword (hashPassword plain_derive ''s'' ''old-secret'')"

lemma change_revokes_every_browser_witness:
  "signInCheck plain_derive (writeSetting ''2'' sample_record AdminPassword (hashPassword plain_derive ''t'' ''new-secret''))
     (JObj [(''password'', JStr ''new-secret'')]) = Proceed \<and>
   \<not> isSignedIn (\<lambda>t. t) 9 (Some ''hub_admin=before'')
     [\<lparr>as_tokenHash = hashToken (\<lambda>t. t) ''after'', as_createdAt = 7, as_expiresAt = 7 + SESSION_MAX_AGE * 1000\<rparr>]"
proof -
  let ?body = "JObj [(''currentPassword'', JStr ''old-secret''), (''newPassword'', JStr ''new-secret'')]"
  have new: "passwordIn ?body ''newPassword'' = ''new-secret''" by code_simp
  have check: "changeCheck plain_derive sample_record ?body = Proceed"
    by (simp add: changeCheck_def sample_record_def readSetting_record hashPassword_truthy passwordIn_def
        fieldOf_def field_def strOr_def MIN_PASSWORD_LENGTH_def hashPassword_verifies)
  have c: "changePassword plain_derive (\<lambda>t. t) 7 ''2'' ?body ''t'' ''after'' (sample_record, [])
      = (200, (writeSetting ''2'' sample_record AdminPassword (hashPassword plain_derive ''t'' ''new-secret''),
          [\<lparr>as_tokenHash = hashToken (\<lambda>t. t) ''after'', as_createdAt = 7, as_expiresAt = 7 + SESSION_MAX_AGE * 1000\<rparr>]))"
    by (simp add: changePassword_def check new createAdminSession_def sweepExpired_def)
  have "map_option (hashToken (\<lambda>t. t)) (readCookie (Some ''hub_admin=before'') SESSION_COOKIE)
      \<noteq> Some (hashToken (\<lambda>t. t) ''after'')" by code_simp
  then show ?thesis
    using change_revokes_every_browser[OF c, of "JNull" 9 "Some ''hub_admin=before''"] unfolding new by blast
qed

section \<open>No way in without the password\<close>






lemma inThread_simps [simp]:
  "fd_settings (inThread k t s) = fd_settings s" "fd_sessions (inThread k t s) = fd_sessions s"
  "fd_records (inThread k t s) = fd_records s" "fd_grants (inThread k t s) = fd_grants s"
  by (simp_all add: inThread_def)

lemma endThread_simps [simp]:
  "fd_settings (endThread k s) = fd_settings s" "fd_sessions (endThread k s) = fd_sessions s"
  "fd_records (endThread k s) = fd_records s" "fd_grants (endThread k s) = fd_grants s"
  by (simp_all add: endThread_def)

















section \<open>Runs\<close>

definition at_first :: front_door where
  "at_first = \<lparr>fd_settings = [], fd_sessions = [], fd_threads = [], fd_records = [], fd_grants = []\<rparr>"

definition salt_of :: "char \<Rightarrow> string" where "salt_of c = replicate 16 c"

definition sending :: "string \<Rightarrow> json" where "sending w = JObj [(''password'', JStr w)]"

definition go :: "nat \<Rightarrow> front_door \<Rightarrow> front_door" where
  "go k s = nextStatement (\<lambda>t. t) 0 ''1'' k s"


lemma salt_length [simp]: "length (salt_of c) = 16"
  by (simp add: salt_of_def)

lemma reach_first: "door_reachable derive digest at_first"
  unfolding at_first_def by (rule door_reachable.start) (simp add: readSettingRow_def)

lemma reach_go: "door_reachable derive (\<lambda>t. t) s \<Longrightarrow> door_reachable derive (\<lambda>t. t) (go k s)"
  unfolding go_def by (rule door_reachable.step[OF _ door_step.going_on])

lemmas reach_setup = door_reachable.step[OF _ door_step.setting_up]
lemmas reach_signing = door_reachable.step[OF _ door_step.signing]
lemmas reach_changing = door_reachable.step[OF _ door_step.changing]




text \<open>
  Two first setups at once: each reads that there is no password, and the second to write
  replaces the password the first was told it had set.
\<close>

definition two_setups :: front_door where
  "two_setups = go 2 (go 2 (go 1 (go 1
     (startSetup plain_derive 2 (sending ''second-secret'') (salt_of CHR ''b'') ''T2''
     (startSetup plain_derive 1 (sending ''first-secret'') (salt_of CHR ''a'') ''T1'' at_first)))))"

lemma two_setups_reachable: "door_reachable plain_derive (\<lambda>t. t) two_setups"
  unfolding two_setups_def
  by (intro reach_go reach_setup[OF reach_setup[OF reach_first]])
    (simp_all add: at_first_def threadAt_def startSetup_def inThread_def)

lemma first_setup_overwritten:
  "map fst (fd_grants two_setups) = [hashToken (\<lambda>t. t) ''T2'', hashToken (\<lambda>t. t) ''T1''] \<and>
   signInCheck plain_derive (fd_settings two_setups) (sending ''first-secret'') = Answer 401 \<and>
   signInCheck plain_derive (fd_settings two_setups) (sending ''second-secret'') = Proceed"
  by code_simp

end
