(* ===== verification/Object_Bucket.thy ===== *)
theory Object_Bucket
  imports Js_Text "HOL-Library.Word" "HOL-Library.Multiset"
begin

text \<open>
  The bucket \<open>SESSION_BUCKET\<close> as its clients use it: objects by key, each with its body, the
  metadata it was put with and the time it arrived. Listing answers the keys below a prefix in
  their order, a page at a time, with a cursor while there are more, as R2 documents it; the
  size of a page is a parameter.
\<close>

datatype object_body = Bytes "8 word list" | JsonText json_text

record r2_object =
  ob_body :: object_body
  ob_contentType :: json
  ob_filename :: json
  ob_size :: nat
  ob_uploaded :: millis

type_synonym bucket = "(string \<times> r2_object) list"

definition putObject :: "string \<Rightarrow> r2_object \<Rightarrow> bucket \<Rightarrow> bucket" where
  "putObject k ob b = AList.update k ob b"

definition getObject :: "string \<Rightarrow> bucket \<Rightarrow> r2_object option" where
  "getObject k b = map_of b k"

definition deleteObjects :: "string list \<Rightarrow> bucket \<Rightarrow> bucket" where
  "deleteObjects ks b = filter (\<lambda>(k, ob). k \<notin> set ks) b"

definition underPrefix :: "string \<Rightarrow> string option \<Rightarrow> string \<Rightarrow> bool" where
  "underPrefix p cursor k =
     (starts_with k p \<and> (case cursor of None \<Rightarrow> True | Some c \<Rightarrow> c < k))"

text \<open>A page, and the cursor where the listing was truncated.\<close>

definition listObjects ::
  "nat \<Rightarrow> string \<Rightarrow> string option \<Rightarrow> bucket \<Rightarrow> bucket \<times> string option" where
  "listObjects limit p cursor b =
     (let all = sort_key fst (filter (\<lambda>(k, ob). underPrefix p cursor k) b);
          page = take limit all
      in (page, if page = [] \<or> length all \<le> limit then None else Some (fst (last page))))"

lemma getObject_put [simp]: "getObject k (putObject k ob b) = Some ob"
  by (simp add: getObject_def putObject_def update_conv')

lemma getObject_put_other: "k' \<noteq> k \<Longrightarrow> getObject k' (putObject k ob b) = getObject k' b"
  by (simp add: getObject_def putObject_def update_conv')

lemma getObject_delete:
  "getObject k (deleteObjects ks b) = (if k \<in> set ks then None else getObject k b)"
  by (induction b) (auto simp: getObject_def deleteObjects_def)

lemma underPrefix_first [simp]: "underPrefix p None k = starts_with k p"
  by (simp add: underPrefix_def)

text \<open>A page is what the prefix and the cursor select up to its last key.\<close>

lemma listObjects_page:
  assumes "distinct (map fst b)" and "listObjects limit p cursor b = (page, next)" and "0 < limit"
  shows "mset page = mset (filter (\<lambda>(k, ob). underPrefix p cursor k \<and>
           (case next of None \<Rightarrow> True | Some c \<Rightarrow> \<not> c < k)) b)"
    and "next = Some c \<Longrightarrow> underPrefix p cursor c \<and> c \<in> set (map fst page)"
proof -
  define all where "all = sort_key fst (filter (\<lambda>(k, ob). underPrefix p cursor k) b)"
  have e: "take limit all = page \<and> (if take limit all = [] \<or> length all \<le> limit then None
      else Some (fst (last (take limit all)))) = next"
    using assms(2) unfolding listObjects_def Let_def all_def prod.inject .
  then have page: "page = take limit all" by (elim conjE) (rule sym)
  from e have nx: "next = (if page = [] \<or> length all \<le> limit then None else Some (fst (last page)))"
    unfolding page by (elim conjE) (rule sym)
  have d: "distinct (map fst all)"
  proof -
    from assms(1) have "distinct b" "inj_on fst (set b)" by (simp_all add: distinct_map)
    moreover have "set all \<subseteq> set b" by (auto simp: all_def)
    ultimately show ?thesis by (simp add: distinct_map all_def inj_on_subset)
  qed
  show "mset page = mset (filter (\<lambda>(k, ob). underPrefix p cursor k \<and>
           (case next of None \<Rightarrow> True | Some c \<Rightarrow> \<not> c < k)) b)"
  proof (cases "next")
    case None
    with nx page assms(3) have "page = all" by (auto split: if_splits)
    with None show ?thesis by (simp add: all_def)
  next
    case (Some c)
    with nx have ne: "page \<noteq> []" and c: "c = fst (last page)" by (auto split: if_splits)
    have "page = filter (\<lambda>(k, ob). \<not> c < k) all"
      using take_drop_after(2)[OF _ d, of limit] ne unfolding page c all_def by simp
    then have "mset page = filter_mset (\<lambda>(k, ob). \<not> c < k) (mset all)" by (metis mset_filter)
    also have "\<dots> = mset (filter (\<lambda>(k, ob). underPrefix p cursor k \<and> \<not> c < k) b)"
      by (simp add: all_def filter_filter_mset case_prod_beta conj_commute)
    finally show ?thesis using Some by simp
  qed
  show "underPrefix p cursor c \<and> c \<in> set (map fst page)" if n: "next = Some c"
  proof -
    from n nx have ne: "page \<noteq> []" and c: "c = fst (last page)" by (auto split: if_splits)
    from ne have l: "last page \<in> set page" by simp
    then have "last page \<in> set all" using page in_set_takeD by metis
    then have "underPrefix p cursor (fst (last page))" by (auto simp: all_def case_prod_beta)
    with c l show ?thesis by simp
  qed
qed

end
