(* ===== verification/Transcript_Mirror.thy ===== *)
theory Transcript_Mirror
  imports Session_Model Object_Bucket
begin

text \<open>
  The copy of a session's history that is readable while its container sleeps:
  \<open>src/transcript-mirror.ts\<close>, with \<open>deriveDisplayTitle\<close> of \<open>src/sessions.ts\<close>, the reader of
  its summary. A message is the JSON value OpenCode answered; costs and token counts are
  integers. \<open>toISOString\<close> is written out, with the range outside which it throws.
\<close>

section \<open>Times in ISO form\<close>

definition digit :: "nat \<Rightarrow> char" where
  "digit d = char_of (48 + d mod 10)"

fun pad :: "nat \<Rightarrow> nat \<Rightarrow> string" where
  "pad 0 k = []"
| "pad (Suc n) k = pad n (k div 10) @ [digit k]"

text \<open>Year, month and day of a day counted from 1 January 1970.\<close>

definition civil :: "int \<Rightarrow> int \<times> int \<times> int" where
  "civil days =
     (let z = days + 719468; era = z div 146097; doe = z mod 146097;
          yoe = (doe - doe div 1460 + doe div 36524 - doe div 146096) div 365;
          doy = doe - (365 * yoe + yoe div 4 - yoe div 100);
          mp = (5 * doy + 2) div 153;
          m = (if mp < 10 then mp + 3 else mp - 9)
      in (yoe + era * 400 + (if m \<le> 2 then 1 else 0), m, doy - (153 * mp + 2) div 5 + 1))"

definition year_of :: "millis \<Rightarrow> int" where
  "year_of t = fst (civil (t div 86400000))"

definition year_text :: "int \<Rightarrow> string" where
  "year_text y =
     (if 0 \<le> y \<and> y \<le> 9999 then pad 4 (nat y)
      else (if y < 0 then ''-'' else ''+'') @ pad 6 (nat \<bar>y\<bar>))"

definition MAX_TIME :: int where
  "MAX_TIME = 8640000000000000"

definition iso_text :: "millis \<Rightarrow> string" where
  "iso_text t =
     (case civil (t div 86400000) of (y, m, d) \<Rightarrow>
        let ms = t mod 86400000
        in year_text y @ ''-'' @ pad 2 (nat m) @ ''-'' @ pad 2 (nat d) @ ''T'' @
           pad 2 (nat (ms div 3600000)) @ '':'' @ pad 2 (nat (ms div 60000 mod 60)) @ '':'' @
           pad 2 (nat (ms div 1000 mod 60)) @ ''.'' @ pad 3 (nat (ms mod 1000)) @ ''Z'')"

text \<open>\<open>new Date(t).toISOString()\<close>: \<^term>\<open>None\<close> is the \<open>RangeError\<close> of a time out of range.\<close>

definition toISOString :: "int \<Rightarrow> string option" where
  "toISOString t = (if \<bar>t\<bar> \<le> MAX_TIME then Some (iso_text t) else None)"

section \<open>Keys and titles\<close>

definition TRANSCRIPT_MIRROR_SCHEMA_VERSION :: int where
  "TRANSCRIPT_MIRROR_SCHEMA_VERSION = 1"

definition mirrorPrefix :: "string \<Rightarrow> string" where
  "mirrorPrefix sessionId = ''transcripts/'' @ sessionId @ ''/''"

definition transcriptMirrorKey :: "string \<Rightarrow> string" where
  "transcriptMirrorKey sessionId = mirrorPrefix sessionId @ ''latest.json''"

datatype mirror_reason = MirrorIdleStop | MirrorForceStop | MirrorRefresh | MirrorLive

fun mirrorReasonText :: "mirror_reason \<Rightarrow> string" where
  "mirrorReasonText MirrorIdleStop = ''idle-stop''"
| "mirrorReasonText MirrorForceStop = ''force-stop''"
| "mirrorReasonText MirrorRefresh = ''refresh''"
| "mirrorReasonText MirrorLive = ''live''"

definition isTranscriptMirrorReason :: "json \<Rightarrow> mirror_reason option" where
  "isTranscriptMirrorReason v =
     find (\<lambda>r. v = JStr (mirrorReasonText r)) [MirrorIdleStop, MirrorForceStop, MirrorRefresh, MirrorLive]"

text \<open>The pattern of a time stamp; \<open>d\<close> stands for a digit.\<close>

definition stamp_pattern :: string where
  "stamp_pattern = ''dddd-dd-ddTdd:dd:dd.dddZ''"

definition matches_stamp :: "string \<Rightarrow> bool" where
  "matches_stamp s = list_all2 (\<lambda>p c. if p = CHR ''d'' then is_digit c else c = p) stamp_pattern s"

definition isOpencodePlaceholderTitle :: "string \<Rightarrow> bool" where
  "isOpencodePlaceholderTitle title =
     (\<exists>p \<in> {''New session - '', ''Child session - ''}.
        starts_with title p \<and> matches_stamp (drop (length p) title))"

section \<open>The mirror\<close>

record session_usage =
  su_inputTokens :: int
  su_outputTokens :: int
  su_reasoningTokens :: int
  su_cacheReadTokens :: int
  su_cacheWriteTokens :: int
  su_cost :: int
  su_assistantMessages :: nat

record mirror_summary =
  tm_opencodeSessionId :: string
  tm_mirroredAt :: string
  tm_reason :: mirror_reason
  tm_messageCount :: nat
  tm_lastMessageAt :: "string option"
  tm_usage :: "session_usage option"
  tm_opencodeTitle :: "string option"

record stored_mirror = mirror_summary +
  tm_schemaVersion :: int
  tm_sessionId :: string
  tm_messages :: "json list"

fun finite_number :: "json \<Rightarrow> int" where
  "finite_number (JNum n) = n"
| "finite_number _ = 0"

definition no_usage :: session_usage where
  "no_usage = \<lparr>su_inputTokens = 0, su_outputTokens = 0, su_reasoningTokens = 0,
     su_cacheReadTokens = 0, su_cacheWriteTokens = 0, su_cost = 0, su_assistantMessages = 0\<rparr>"

text \<open>One pass of the loop: only an assistant's message counts.\<close>

definition addUsage :: "session_usage \<Rightarrow> json \<Rightarrow> session_usage" where
  "addUsage u message =
     (let info = fieldOf message ''info''; tokens = fieldOf info ''tokens''; cache = fieldOf tokens ''cache''
      in if fieldOf info ''role'' \<noteq> JStr ''assistant'' then u
         else \<lparr>su_inputTokens = su_inputTokens u + finite_number (fieldOf tokens ''input''),
               su_outputTokens = su_outputTokens u + finite_number (fieldOf tokens ''output''),
               su_reasoningTokens = su_reasoningTokens u + finite_number (fieldOf tokens ''reasoning''),
               su_cacheReadTokens = su_cacheReadTokens u + finite_number (fieldOf cache ''read''),
               su_cacheWriteTokens = su_cacheWriteTokens u + finite_number (fieldOf cache ''write''),
               su_cost = su_cost u + finite_number (fieldOf info ''cost''),
               su_assistantMessages = su_assistantMessages u + 1\<rparr>)"

definition summarizeSessionUsage :: "json list \<Rightarrow> session_usage" where
  "summarizeSessionUsage messages = foldl addUsage no_usage messages"

text \<open>
  The clock of the newest message: its completion, or else its creation, where that is a
  number. \<^term>\<open>None\<close> is an exception.
\<close>

definition newestTime :: "json list \<Rightarrow> json" where
  "newestTime messages =
     (if messages = [] then JUndefined
      else let time = fieldOf (fieldOf (last messages) ''info'') ''time''
           in if nullishValue (fieldOf time ''completed'') then fieldOf time ''created''
              else fieldOf time ''completed'')"

definition lastMessageAt :: "json list \<Rightarrow> string option option" where
  "lastMessageAt messages =
     (case newestTime messages of
        JNum at \<Rightarrow> map_option Some (toISOString at)
      | _ \<Rightarrow> Some None)"

definition withSummary :: "stored_mirror \<Rightarrow> json list \<Rightarrow> stored_mirror option" where
  "withSummary m messages =
     map_option (\<lambda>at. m\<lparr>tm_messageCount := length messages, tm_lastMessageAt := at,
        tm_usage := Some (summarizeSessionUsage messages), tm_messages := messages\<rparr>)
       (lastMessageAt messages)"

definition buildTranscriptMirror ::
  "string \<Rightarrow> string \<Rightarrow> mirror_reason \<Rightarrow> string \<Rightarrow> json list \<Rightarrow> string option \<Rightarrow> stored_mirror option" where
  "buildTranscriptMirror sessionId opencodeSessionId reason mirroredAt messages opencodeTitle =
     withSummary
       \<lparr>tm_opencodeSessionId = opencodeSessionId, tm_mirroredAt = mirroredAt, tm_reason = reason,
        tm_messageCount = 0, tm_lastMessageAt = None, tm_usage = None,
        tm_opencodeTitle = (if truthy_str opencodeTitle then opencodeTitle else None),
        tm_schemaVersion = TRANSCRIPT_MIRROR_SCHEMA_VERSION, tm_sessionId = sessionId,
        tm_messages = []\<rparr> messages"

definition transcriptMirrorSummary :: "stored_mirror \<Rightarrow> mirror_summary" where
  "transcriptMirrorSummary m =
     \<lparr>tm_opencodeSessionId = tm_opencodeSessionId m, tm_mirroredAt = tm_mirroredAt m,
      tm_reason = tm_reason m, tm_messageCount = tm_messageCount m,
      tm_lastMessageAt = (if truthy_str (tm_lastMessageAt m) then tm_lastMessageAt m else None),
      tm_usage = tm_usage m,
      tm_opencodeTitle = (if truthy_str (tm_opencodeTitle m) then tm_opencodeTitle m else None)\<rparr>"

definition storedMessage :: "json \<Rightarrow> bool" where
  "storedMessage m = (isObject m \<and> the_str (fieldOf (fieldOf m ''info'') ''id'') \<noteq> None)"

text \<open>
  \<open>Inr None\<close> is no mirror; \<open>Inl ()\<close> the exception of a message whose clock is out of range.
\<close>

definition parseTranscriptMirror :: "json \<Rightarrow> unit + stored_mirror option" where
  "parseTranscriptMirror v =
     (case v of
        JObj kvs \<Rightarrow>
          (case (field kvs ''schemaVersion'', field kvs ''sessionId'', field kvs ''opencodeSessionId'',
                 field kvs ''mirroredAt'', field kvs ''messages'') of
             (JNum version, JStr sessionId, JStr opencodeSessionId, JStr mirroredAt, JArr es) \<Rightarrow>
               (if version \<noteq> TRANSCRIPT_MIRROR_SCHEMA_VERSION then Inr None
                else case withSummary
                  \<lparr>tm_opencodeSessionId = opencodeSessionId, tm_mirroredAt = mirroredAt,
                   tm_reason = nullish (isTranscriptMirrorReason (field kvs ''reason'')) MirrorRefresh,
                   tm_messageCount = 0, tm_lastMessageAt = None, tm_usage = None,
                   tm_opencodeTitle = the_str (field kvs ''opencodeTitle''),
                   tm_schemaVersion = version, tm_sessionId = sessionId, tm_messages = []\<rparr>
                  (filter storedMessage es) of
                    None \<Rightarrow> Inl ()
                  | Some m \<Rightarrow> Inr (Some m))
           | _ \<Rightarrow> Inr None)
      | _ \<Rightarrow> Inr None)"

section \<open>The bucket\<close>

text \<open>
  What a value is after \<open>JSON.stringify\<close> and \<open>JSON.parse\<close>: absent properties are gone, and
  \<open>undefined\<close> in an array has become \<open>null\<close>.
\<close>

primrec jsonCopy :: "json \<Rightarrow> json" where
  "jsonCopy JUndefined = JUndefined"
| "jsonCopy JNull = JNull"
| "jsonCopy (JBool b) = JBool b"
| "jsonCopy (JNum n) = JNum n"
| "jsonCopy (JStr s) = JStr s"
| "jsonCopy (JArr vs) = JArr (map (\<lambda>v. if v = JUndefined then JNull else v) (map jsonCopy vs))"
| "jsonCopy (JObj kvs) = JObj (filter (\<lambda>p. snd p \<noteq> JUndefined) (map (map_prod id jsonCopy) kvs))"

text \<open>A value that was read from JSON text holds no \<open>undefined\<close>.\<close>

primrec plainJson :: "json \<Rightarrow> bool" where
  "plainJson JUndefined = False"
| "plainJson JNull = True"
| "plainJson (JBool b) = True"
| "plainJson (JNum n) = True"
| "plainJson (JStr s) = True"
| "plainJson (JArr vs) = list_all id (map plainJson vs)"
| "plainJson (JObj kvs) = list_all snd (map (map_prod id plainJson) kvs)"

lemma jsonCopy_plain: "plainJson v \<Longrightarrow> jsonCopy v = v \<and> v \<noteq> JUndefined"
proof (induction v)
  case (JArr vs)
  then have "v \<in> set vs \<Longrightarrow> jsonCopy v = v \<and> v \<noteq> JUndefined" for v by (auto simp: list_all_iff)
  then show ?case by (simp add: map_idI)
next
  case (JObj kvs)
  have "map_prod id jsonCopy p = p \<and> snd p \<noteq> JUndefined" if p: "p \<in> set kvs" for p
  proof -
    have "plainJson (snd p)" using JObj.prems p by (auto simp: list_all_iff)
    with JObj.IH[OF p, of "snd p"] show ?thesis by (cases p) (simp add: prod_set_simps)
  qed
  then show ?case by (simp add: map_idI filter_id_conv)
qed auto

definition opt_field :: "string \<Rightarrow> json option \<Rightarrow> (string \<times> json) list" where
  "opt_field k v = (case v of None \<Rightarrow> [] | Some x \<Rightarrow> [(k, x)])"

definition usageJson :: "session_usage \<Rightarrow> json" where
  "usageJson u = JObj
     [(''inputTokens'', JNum (su_inputTokens u)), (''outputTokens'', JNum (su_outputTokens u)),
      (''reasoningTokens'', JNum (su_reasoningTokens u)),
      (''cacheReadTokens'', JNum (su_cacheReadTokens u)),
      (''cacheWriteTokens'', JNum (su_cacheWriteTokens u)), (''cost'', JNum (su_cost u)),
      (''assistantMessages'', JNum (int (su_assistantMessages u)))]"

definition mirrorJson :: "stored_mirror \<Rightarrow> json" where
  "mirrorJson m = JObj
     ([(''schemaVersion'', JNum (tm_schemaVersion m)), (''sessionId'', JStr (tm_sessionId m)),
       (''opencodeSessionId'', JStr (tm_opencodeSessionId m)),
       (''mirroredAt'', JStr (tm_mirroredAt m)), (''reason'', JStr (mirrorReasonText (tm_reason m))),
       (''messageCount'', JNum (int (tm_messageCount m)))] @
      opt_field ''lastMessageAt'' (map_option JStr (tm_lastMessageAt m)) @
      opt_field ''usage'' (map_option usageJson (tm_usage m)) @
      opt_field ''opencodeTitle'' (map_option JStr (tm_opencodeTitle m)) @
      [(''messages'', JArr (tm_messages m))])"

definition putTranscriptMirror :: "nat \<Rightarrow> millis \<Rightarrow> stored_mirror \<Rightarrow> bucket \<Rightarrow> bucket" where
  "putTranscriptMirror bytes now m b =
     putObject (transcriptMirrorKey (tm_sessionId m))
       \<lparr>ob_body = JsonText (Text (jsonCopy (mirrorJson m))), ob_contentType = JStr ''application/json'',
        ob_filename = JUndefined, ob_size = bytes, ob_uploaded = now\<rparr> b"

text \<open>A body that is no JSON text is caught; the exception of the parser is not.\<close>

definition getTranscriptMirror :: "bucket \<Rightarrow> string \<Rightarrow> unit + stored_mirror option" where
  "getTranscriptMirror b sessionId =
     (case getObject (transcriptMirrorKey sessionId) b of
        Some ob \<Rightarrow>
          (case ob_body ob of
             JsonText (Text v) \<Rightarrow>
               (case parseTranscriptMirror v of
                  Inr (Some m) \<Rightarrow> Inr (if tm_sessionId m = sessionId then Some m else None)
                | r \<Rightarrow> r)
           | _ \<Rightarrow> Inr None)
      | None \<Rightarrow> Inr None)"

lemma page_subset: "set (fst (listObjects limit p cursor b)) \<subseteq> {x \<in> set b. underPrefix p cursor (fst x)}"
  by (auto simp: listObjects_def Let_def dest: in_set_takeD)

text \<open>Deletion lists from the start until nothing is left.\<close>

function deleteMirrorObjects :: "nat \<Rightarrow> string \<Rightarrow> bucket \<Rightarrow> bucket" where
  "deleteMirrorObjects limit sessionId b =
     (let page = fst (listObjects limit (mirrorPrefix sessionId) None b)
      in if page = [] then b
         else deleteMirrorObjects limit sessionId (deleteObjects (map fst page) b))"
  by pat_completeness auto

termination
proof (relation "measure (\<lambda>(limit, i, b). length b)")
  fix limit sessionId b page
  assume p: "page = fst (listObjects limit (mirrorPrefix sessionId) None b)" "page \<noteq> []"
  then obtain x where "x \<in> set page" "x \<in> set b" using page_subset by (metis (no_types, lifting)
    hd_in_set mem_Collect_eq subsetD)
  then have "length (filter (\<lambda>(k, ob). k \<notin> set (map fst page)) b) < length b"
    by (intro length_filter_less[of x]) (auto simp: case_prod_beta)
  then show "((limit, sessionId, deleteObjects (map fst page) b), limit, sessionId, b)
      \<in> measure (\<lambda>(limit, i, b). length b)"
    by (simp add: deleteObjects_def)
qed simp

declare deleteMirrorObjects.simps [simp del]

section \<open>The title of a session\<close>

definition deriveDisplayTitle :: "session_record \<Rightarrow> mirror_summary option \<Rightarrow> string" where
  "deriveDisplayTitle s transcript =
     (case transcript of
        None \<Rightarrow> sr_title s
      | Some t \<Rightarrow>
          if sr_titleLocked s \<or> \<not> truthy_str (tm_opencodeTitle t) \<or>
             isOpencodePlaceholderTitle (the (tm_opencodeTitle t))
          then sr_title s else the (tm_opencodeTitle t))"

section \<open>What the copy is good for\<close>

lemma pad_length [simp]: "length (pad n k) = n"
  by (induction n arbitrary: k) auto

lemma digit_is_digit: "is_digit (digit d)"
proof -
  have "d mod 10 < 10" by simp
  then have "(48 + d mod 10) mod 256 = 48 + d mod 10" by simp
  moreover have "of_char (digit d) = (48 + d mod 10) mod 256" by (simp add: digit_def)
  ultimately show ?thesis using \<open>d mod 10 < 10\<close> by (simp add: is_digit_def less_eq_char_def)
qed

lemma pad_digits: "list_all is_digit (pad n k)"
  by (induction n arbitrary: k) (auto simp: digit_is_digit)

abbreviation stamp_char :: "char \<Rightarrow> char \<Rightarrow> bool" where
  "stamp_char p c \<equiv> (if p = CHR ''d'' then is_digit c else c = p)"

lemma stamp_pad: "list_all2 stamp_char (replicate n (CHR ''d'')) (pad n k)"
  using pad_digits[of n k] by (auto simp: list_all2_conv_all_nth list_all_length)

text \<open>A time of the years 0 to 9999 has the shape of a time stamp.\<close>

lemma iso_matches:
  assumes "0 \<le> year_of t" and "year_of t \<le> 9999"
  shows "matches_stamp (iso_text t)"
proof -
  obtain y m d where c: "civil (t div 86400000) = (y, m, d)" by (metis prod_cases3)
  let ?D = "\<lambda>n. replicate n (CHR ''d'')"
  have p: "stamp_pattern = ?D 4 @ ''-'' @ ?D 2 @ ''-'' @ ?D 2 @ ''T'' @ ?D 2 @ '':'' @ ?D 2 @ '':'' @
      ?D 2 @ ''.'' @ ?D 3 @ ''Z''"
    by (simp add: stamp_pattern_def numeral_eq_Suc)
  from assms c have y: "year_text y = pad 4 (nat y)" by (simp add: year_of_def year_text_def)
  have s: "list_all2 stamp_char [x] [x]" if "x \<noteq> CHR ''d''" for x using that by simp
  show ?thesis
    unfolding matches_stamp_def p iso_text_def c prod.case Let_def y
    by (intro list_all2_appendI stamp_pad s) simp_all
qed

text \<open>
  A title OpenCode stamped itself never replaces the label made from the user's own prompt,
  and one it chose later does, unless a human named the session.
\<close>

lemma placeholder_title_ignored:
  assumes "0 \<le> year_of t" and "year_of t \<le> 9999"
    and "tm_opencodeTitle m = Some (''New session - '' @ iso_text t)"
  shows "deriveDisplayTitle s (Some m) = sr_title s"
proof -
  have "isOpencodePlaceholderTitle (''New session - '' @ iso_text t)"
    unfolding isOpencodePlaceholderTitle_def using iso_matches[OF assms(1,2)]
    by (intro bexI[of _ "''New session - ''"]) (simp_all add: starts_with_def)
  with assms(3) show ?thesis by (simp add: deriveDisplayTitle_def)
qed

lemma chosen_title_wins:
  "tm_opencodeTitle m = Some title \<Longrightarrow> title \<noteq> [] \<Longrightarrow> \<not> isOpencodePlaceholderTitle title \<Longrightarrow>
     deriveDisplayTitle s (Some m) = (if sr_titleLocked s then sr_title s else title)"
  by (simp add: deriveDisplayTitle_def)

lemma transcriptMirrorKey_inj [simp]: "transcriptMirrorKey i = transcriptMirrorKey j \<longleftrightarrow> i = j"
  by (simp add: transcriptMirrorKey_def mirrorPrefix_def)

lemma reason_text [simp]: "isTranscriptMirrorReason (JStr (mirrorReasonText r)) = Some r"
  by (cases r) (simp_all add: isTranscriptMirrorReason_def)

lemma withSummary_messages:
  "withSummary m messages = Some m' \<Longrightarrow> tm_messages m' = messages \<and> tm_sessionId m' = tm_sessionId m \<and>
     tm_messageCount m' = length messages"
  by (auto simp: withSummary_def)

lemma parse_counts:
  "parseTranscriptMirror v = Inr (Some m) \<Longrightarrow>
     tm_messageCount m = length (tm_messages m) \<and> list_all storedMessage (tm_messages m)"
  by (auto simp: parseTranscriptMirror_def withSummary_def list_all_iff
      split: json.splits if_splits option.splits)

text \<open>Reading back what was written, as the bucket's JSON.\<close>

lemma parse_mirror:
  assumes built: "buildTranscriptMirror i oc reason at messages title = Some m"
    and plain: "list_all plainJson messages" and shape: "list_all storedMessage messages"
  shows "parseTranscriptMirror (jsonCopy (mirrorJson m)) = Inr (Some m)"
proof -
  have f: "filter storedMessage messages = messages" using shape by (simp add: list_all_iff)
  have c: "map ((\<lambda>v. if v = JUndefined then JNull else v) \<circ> jsonCopy) messages = messages"
    using plain jsonCopy_plain by (simp add: list_all_iff map_idI)
  obtain l where l: "lastMessageAt messages = Some l"
    and m: "m = \<lparr>tm_opencodeSessionId = oc, tm_mirroredAt = at, tm_reason = reason,
      tm_messageCount = length messages, tm_lastMessageAt = l,
      tm_usage = Some (summarizeSessionUsage messages),
      tm_opencodeTitle = (if truthy_str title then title else None),
      tm_schemaVersion = TRANSCRIPT_MIRROR_SCHEMA_VERSION, tm_sessionId = i, tm_messages = messages\<rparr>"
    using built by (auto simp: buildTranscriptMirror_def withSummary_def)
  let ?t = "if truthy_str title then title else None"
  show ?thesis
    unfolding m mirrorJson_def
    by (cases l; cases ?t) (simp_all add: c parseTranscriptMirror_def opt_field_def field_def usageJson_def
        withSummary_def l f)
qed

text \<open>
  A mirror reads back as it was written. The history a sleeping container's session shows
  is the one that was exported, message by message, with its count, its totals and its title,
  whatever else the bucket holds and whatever other sessions write; and whatever is stored
  under its key, by this version or another, a session is never shown a mirror that names
  another session, and the count it is listed with is that of the messages it shows.
\<close>

lemma mirror_reads_back:
  assumes "buildTranscriptMirror i oc reason at messages title = Some m"
    and "list_all plainJson messages" and "list_all storedMessage messages"
  shows "getTranscriptMirror (putTranscriptMirror bytes now m b) i = Inr (Some m) \<and>
    tm_messages m = messages \<and> tm_opencodeSessionId m = oc \<and>
    tm_usage (transcriptMirrorSummary m) = Some (summarizeSessionUsage messages) \<and>
    (\<forall>j. j \<noteq> i \<longrightarrow>
       getTranscriptMirror (putTranscriptMirror bytes now m b) j = getTranscriptMirror b j) \<and>
    (\<forall>b' k m'. getTranscriptMirror b' k = Inr (Some m') \<longrightarrow> tm_sessionId m' = k \<and>
       tm_messageCount m' = length (tm_messages m') \<and> list_all storedMessage (tm_messages m'))"
proof -
  have i: "tm_sessionId m = i" "tm_messages m = messages" "tm_opencodeSessionId m = oc"
    "tm_usage m = Some (summarizeSessionUsage messages)"
    using assms(1) by (auto simp: buildTranscriptMirror_def withSummary_def)
  have "getTranscriptMirror (putTranscriptMirror bytes now m b) i = Inr (Some m)"
    by (simp add: getTranscriptMirror_def putTranscriptMirror_def i parse_mirror[OF assms])
  moreover have "getTranscriptMirror (putTranscriptMirror bytes now m b) j = getTranscriptMirror b j"
    if "j \<noteq> i" for j
    using that by (simp add: getTranscriptMirror_def putTranscriptMirror_def i getObject_put_other)
  moreover have "tm_sessionId m' = k \<and> tm_messageCount m' = length (tm_messages m') \<and>
      list_all storedMessage (tm_messages m')" if "getTranscriptMirror b' k = Inr (Some m')" for b' k m'
    using that parse_counts[of _ m']
    by (auto simp: getTranscriptMirror_def split: option.splits object_body.splits json_text.splits
        sum.splits if_splits)
  ultimately show ?thesis by (simp add: i transcriptMirrorSummary_def)
qed

text \<open>Deletion removes the mirror and nothing else.\<close>

lemma delete_mirror:
  assumes "0 < limit"
  shows "deleteMirrorObjects limit i b =
     filter (\<lambda>(k, ob). \<not> starts_with k (mirrorPrefix i)) b"
  using assms
proof (induction limit i b rule: deleteMirrorObjects.induct)
  case (1 limit i b)
  let ?p = "mirrorPrefix i"
  let ?page = "fst (listObjects limit ?p None b)"
  show ?case
  proof (cases "?page = []")
    case True
    then have "set (sort_key fst (filter (\<lambda>(k, ob). underPrefix ?p None k) b)) = {}"
      using "1.prems" by (simp add: listObjects_def Let_def)
    then have "filter (\<lambda>(k, ob). underPrefix ?p None k) b = []" by (simp only: set_sort set_empty)
    then have "filter (\<lambda>(k, ob). \<not> starts_with k ?p) b = b"
      by (auto simp: filter_empty_conv filter_id_conv)
    with True show ?thesis
      by (subst deleteMirrorObjects.simps) (simp add: Let_def)
  next
    case False
    have "x \<in> set ?page \<Longrightarrow> starts_with (fst x) ?p" for x
      using page_subset[of limit ?p None b] by auto
    then have "filter (\<lambda>(k, ob). \<not> starts_with k ?p) (deleteObjects (map fst ?page) b) =
        filter (\<lambda>(k, ob). \<not> starts_with k ?p) b"
      unfolding deleteObjects_def filter_filter by (intro filter_cong) auto
    with "1.IH"[OF refl False "1.prems"] False show ?thesis
      by (subst deleteMirrorObjects.simps) (simp add: Let_def)
  qed
qed

end
