(* ===== verification/Uploads.thy ===== *)
theory Uploads
  imports Object_Bucket Session_Model
begin

text \<open>
  Image uploads, \<open>src/api-uploads.ts\<close>: taking one image, dropping it, turning the keys of a
  message into references, and the daily sweep of what nobody sent. Bytes are words of eight
  bits. A failure is the \<open>HttpError\<close> the router answers with, or another exception, which it
  answers with 500.
\<close>

datatype failure = HttpError nat string | OtherError string

fun failureStatus :: "failure \<Rightarrow> nat" where
  "failureStatus (HttpError status message) = status"
| "failureStatus (OtherError message) = 500"

section \<open>Limits\<close>

definition MAX_SESSION_ATTACHMENT_BYTES :: nat where
  "MAX_SESSION_ATTACHMENT_BYTES = 5 * 1024 * 1024"

definition MAX_SESSION_ATTACHMENT_TOTAL_BYTES :: nat where
  "MAX_SESSION_ATTACHMENT_TOTAL_BYTES = 10 * 1024 * 1024"

definition ORPHAN_UPLOAD_TTL_MS :: millis where
  "ORPHAN_UPLOAD_TTL_MS = CLEANUP_IDLE_DAYS * 24 * 60 * 60 * 1000"

section \<open>The first bytes\<close>

text \<open>\<open>bytes[i] === b\<close>, which is false past the end.\<close>

definition byteAt :: "8 word list \<Rightarrow> nat \<Rightarrow> 8 word \<Rightarrow> bool" where
  "byteAt bytes i w = (i < length bytes \<and> bytes ! i = w)"

definition startsBytes :: "8 word list \<Rightarrow> 8 word list \<Rightarrow> bool" where
  "startsBytes signature bytes = (\<forall>i \<in> set [0..<length signature]. byteAt bytes i (signature ! i))"

definition looksLikeImage :: "string \<Rightarrow> 8 word list \<Rightarrow> bool" where
  "looksLikeImage mime bytes =
     (if mime = ''image/png'' then startsBytes [0x89, 0x50, 0x4E, 0x47, 0x0D, 0x0A, 0x1A, 0x0A] bytes
      else if mime = ''image/jpeg'' then startsBytes [0xFF, 0xD8, 0xFF] bytes
      else if mime = ''image/gif'' then startsBytes [0x47, 0x49, 0x46, 0x38] bytes
      else if mime = ''image/webp'' then
        startsBytes [0x52, 0x49, 0x46, 0x46] bytes \<and> byteAt bytes 8 0x57 \<and> byteAt bytes 9 0x45 \<and>
        byteAt bytes 10 0x42 \<and> byteAt bytes 11 0x50
      else False)"

section \<open>One upload\<close>

text \<open>What of a request the handler reads, its body as it arrived.\<close>

record upload_request =
  ur_contentType :: "string option"
  ur_filename :: "string option"
  ur_bytes :: "8 word list"

definition uploadMime :: "upload_request \<Rightarrow> string" where
  "uploadMime rq =
     map lower_char (trim (hd (split_on (CHR '';'') (nullish (ur_contentType rq) []))))"

definition str_json :: "string option \<Rightarrow> json" where
  "str_json s = (case s of None \<Rightarrow> JUndefined | Some x \<Rightarrow> JStr x)"

definition createUpload ::
  "string \<Rightarrow> millis \<Rightarrow> upload_request \<Rightarrow> bucket \<Rightarrow> failure + (attachment_ref \<times> bucket)" where
  "createUpload uuid now rq b =
     (let mime = uploadMime rq; bytes = ur_bytes rq in
      if \<not> isSessionAttachmentMime (JStr mime)
        then Inl (HttpError 415 ''Attachments must be a png, jpeg, webp or gif image'')
      else if length bytes = 0 then Inl (HttpError 400 ''The image is empty'')
      else if length bytes > MAX_SESSION_ATTACHMENT_BYTES
        then Inl (HttpError 413 ''Each image can be up to 5MB'')
      else if \<not> looksLikeImage mime bytes
        then Inl (HttpError 400 (''The file is not a valid '' @ mime @ '' image''))
      else
        (let filename = normalizeAttachmentFilename (str_json (ur_filename rq));
             key = attachmentUploadKey uuid
         in Inr (\<lparr>at_key = key, at_mime = mime, at_filename = filename, at_size = length bytes\<rparr>,
              putObject key \<lparr>ob_body = Bytes bytes, ob_contentType = JStr mime,
                ob_filename = str_json filename, ob_size = length bytes, ob_uploaded = now\<rparr> b)))"

definition deleteUpload :: "string \<Rightarrow> bucket \<Rightarrow> failure + bucket" where
  "deleteUpload uploadId b =
     (let key = attachmentUploadKey uploadId in
      if \<not> isAttachmentUploadKey (JStr key) then Inl (HttpError 400 ''Invalid upload id'')
      else Inr (deleteObjects [key] b))"

section \<open>Claiming\<close>

text \<open>One pass of the loop: the reference and the bytes so far.\<close>

definition claimOne :: "bucket \<Rightarrow> string \<Rightarrow> nat \<Rightarrow> failure + (attachment_ref \<times> nat)" where
  "claimOne b key totalBytes =
     (if \<not> isAttachmentUploadKey (JStr key) then Inl (HttpError 400 ''Invalid attachment'')
      else case getObject key b of
        None \<Rightarrow> Inl (HttpError 400
          ''One of the attached images is no longer available; attach it again'')
      | Some ob \<Rightarrow>
          (case the_str (ob_contentType ob) of
             None \<Rightarrow> Inl (HttpError 400 ''Invalid attachment'')
           | Some mime \<Rightarrow>
               if \<not> isSessionAttachmentMime (JStr mime) then Inl (HttpError 400 ''Invalid attachment'')
               else let sofar = totalBytes + ob_size ob in
                 if ob_size ob > MAX_SESSION_ATTACHMENT_BYTES \<or>
                    sofar > MAX_SESSION_ATTACHMENT_TOTAL_BYTES
                 then Inl (HttpError 400 ''Images can total up to 10MB per message'')
                 else Inr (\<lparr>at_key = key, at_mime = mime,
                   at_filename = normalizeAttachmentFilename (ob_filename ob),
                   at_size = ob_size ob\<rparr>, sofar)))"

fun claimAll :: "bucket \<Rightarrow> string list \<Rightarrow> nat \<Rightarrow> failure + attachment_ref list" where
  "claimAll b [] totalBytes = Inr []"
| "claimAll b (key # ks) totalBytes =
     (case claimOne b key totalBytes of
        Inl e \<Rightarrow> Inl e
      | Inr (ref, sofar) \<Rightarrow>
          (case claimAll b ks sofar of Inl e \<Rightarrow> Inl e | Inr refs \<Rightarrow> Inr (ref # refs)))"

definition claimAttachmentUploads :: "bucket \<Rightarrow> string list \<Rightarrow> failure + attachment_ref list" where
  "claimAttachmentUploads b ks =
     (if length ks > MAX_SESSION_ATTACHMENTS then Inl (HttpError 400 ''Up to 4 images per message'')
      else claimAll b ks 0)"

section \<open>The sweep\<close>

definition staleUpload :: "millis \<Rightarrow> string \<times> r2_object \<Rightarrow> bool" where
  "staleUpload cutoff = (\<lambda>(k, ob). ob_uploaded ob < cutoff)"

definition remaining :: "string option \<Rightarrow> bucket \<Rightarrow> nat" where
  "remaining cursor b = length (filter (\<lambda>(k, ob). underPrefix UPLOADS_PREFIX cursor k) b)"

lemma page_in_bucket:
  "listObjects limit p cursor b = (page, nxt) \<Longrightarrow> nxt = Some c \<Longrightarrow>
     (\<exists>ob. (c, ob) \<in> set b) \<and> underPrefix p cursor c"
proof -
  assume l: "listObjects limit p cursor b = (page, nxt)" and n: "nxt = Some c"
  define all where "all = sort_key fst (filter (\<lambda>(k, ob). underPrefix p cursor k) b)"
  from l n have "page = take limit all" "page \<noteq> []" "c = fst (last page)"
    unfolding listObjects_def Let_def all_def by (auto split: if_splits)
  then have "last page \<in> set all" by (metis in_set_takeD last_in_set)
  with \<open>c = fst (last page)\<close> show ?thesis by (cases "last page") (auto simp: all_def)
qed

text \<open>The loop over the pages: how many were deleted, and the bucket after it.\<close>

function sweepFrom :: "nat \<Rightarrow> millis \<Rightarrow> string option \<Rightarrow> bucket \<Rightarrow> nat \<times> bucket" where
  "sweepFrom limit cutoff cursor b =
     (case listObjects limit UPLOADS_PREFIX cursor b of (page, nxt) \<Rightarrow>
        let stale = map fst (filter (staleUpload cutoff) page);
            b' = (if length stale > 0 then deleteObjects stale b else b)
        in case nxt of
             None \<Rightarrow> (length stale, b')
           | Some c \<Rightarrow>
               (case sweepFrom limit cutoff (Some c) b' of (n, b'') \<Rightarrow> (length stale + n, b'')))"
  by pat_completeness auto

termination
proof (relation "measure (\<lambda>(limit, cutoff, cursor, b). remaining cursor b)", goal_cases)
  case (2 limit cutoff cursor b page nxt stale b' c)
  from 2 have l: "listObjects limit UPLOADS_PREFIX cursor b = (page, Some c)" by simp
  from page_in_bucket[OF l refl] obtain ob where ob: "(c, ob) \<in> set b"
    and u: "underPrefix UPLOADS_PREFIX cursor c" by blast
  have len: "length (filter P b') \<le> length (filter P b)" for P
    unfolding 2(3) deleteObjects_def by (induction b) auto
  let ?F = "\<lambda>cu. filter (\<lambda>(k, ob). underPrefix UPLOADS_PREFIX cu k)"
  have "length (?F (Some c) b') \<le> length (?F (Some c) b)" by (rule len)
  also have "?F (Some c) b = filter (\<lambda>(k, ob). c < k) (?F cursor b)"
    using u by (auto simp: underPrefix_def split: option.splits intro!: filter_cong)
  also have "length \<dots> < length (?F cursor b)"
    using ob u by (intro length_filter_less[of "(c, ob)"]) auto
  finally show ?case by (simp add: remaining_def)
qed simp

declare sweepFrom.simps [simp del]

definition sweepOrphanUploads :: "nat \<Rightarrow> millis \<Rightarrow> bucket \<Rightarrow> nat \<times> bucket" where
  "sweepOrphanUploads limit now b = sweepFrom limit (now - ORPHAN_UPLOAD_TTL_MS) None b"

section \<open>What a claim accepts\<close>

text \<open>An upload a message may name, its size and its reference.\<close>

definition claimable :: "bucket \<Rightarrow> string \<Rightarrow> bool" where
  "claimable b k =
     (isAttachmentUploadKey (JStr k) \<and>
      (case getObject k b of
         None \<Rightarrow> False
       | Some ob \<Rightarrow> isSessionAttachmentMime (ob_contentType ob) \<and>
           ob_size ob \<le> MAX_SESSION_ATTACHMENT_BYTES))"

definition storedSize :: "bucket \<Rightarrow> string \<Rightarrow> nat" where
  "storedSize b k = (case getObject k b of None \<Rightarrow> 0 | Some ob \<Rightarrow> ob_size ob)"

definition storedRef :: "bucket \<Rightarrow> string \<Rightarrow> attachment_ref" where
  "storedRef b k =
     (let ob = the (getObject k b)
      in \<lparr>at_key = k, at_mime = the (the_str (ob_contentType ob)),
          at_filename = normalizeAttachmentFilename (ob_filename ob), at_size = ob_size ob\<rparr>)"

lemma mime_str: "isSessionAttachmentMime v \<Longrightarrow> the_str v \<noteq> None"
  by (auto simp: isSessionAttachmentMime_def)

lemma the_str_Some: "the_str v = Some s \<longleftrightarrow> v = JStr s"
  by (cases v) auto

lemma claimOne_iff:
  "claimOne b k t = Inr (r, t') \<longleftrightarrow> claimable b k \<and> t' = t + storedSize b k \<and>
     t' \<le> MAX_SESSION_ATTACHMENT_TOTAL_BYTES \<and> r = storedRef b k"
proof (cases "getObject k b")
  case None
  then show ?thesis by (simp add: claimOne_def claimable_def)
next
  case (Some ob)
  show ?thesis
  proof (cases "the_str (ob_contentType ob)")
    case None
    with Some mime_str[of "ob_contentType ob"] show ?thesis by (auto simp: claimOne_def claimable_def)
  next
    case m: (Some mime)
    then have "ob_contentType ob = JStr mime" by (simp add: the_str_Some)
    with Some show ?thesis
      by (auto simp: claimOne_def claimable_def storedSize_def storedRef_def Let_def)
  qed
qed

lemma claimAll_iff:
  "claimAll b ks t = Inr refs \<longleftrightarrow> (\<forall>k \<in> set ks. claimable b k) \<and>
     (ks \<noteq> [] \<longrightarrow> t + sum_list (map (storedSize b) ks) \<le> MAX_SESSION_ATTACHMENT_TOTAL_BYTES) \<and>
     refs = map (storedRef b) ks"
proof (induction ks arbitrary: t refs)
  case (Cons k ks)
  show ?case
  proof (cases "claimOne b k t")
    case (Inl e)
    then have "\<not> (claimable b k \<and> t + storedSize b k \<le> MAX_SESSION_ATTACHMENT_TOTAL_BYTES)"
      using claimOne_iff[of b k t "storedRef b k" "t + storedSize b k"] by auto
    with Inl show ?thesis by auto
  next
    case (Inr p)
    then obtain t' where p: "claimOne b k t = Inr (storedRef b k, t')"
      and c: "claimable b k" "t' = t + storedSize b k" "t' \<le> MAX_SESSION_ATTACHMENT_TOTAL_BYTES"
      using claimOne_iff[of b k t "fst p" "snd p"] by (cases p) auto
    show ?thesis
    proof (cases "claimAll b ks t'")
      case (Inl e)
      then have "claimAll b ks t' \<noteq> Inr (map (storedRef b) ks)" by simp
      then have "\<not> ((\<forall>k \<in> set ks. claimable b k) \<and>
          t' + sum_list (map (storedSize b) ks) \<le> MAX_SESSION_ATTACHMENT_TOTAL_BYTES)"
        using Cons.IH[of t' "map (storedRef b) ks"] by blast
      with Inl p c(2) show ?thesis by auto
    next
      case (Inr refs')
      with Cons.IH[of t' refs'] p c show ?thesis by (cases "ks = []") auto
    qed
  qed
qed auto

text \<open>
  C31. What a message may carry. A claim succeeds exactly when it names at most four uploads,
  each present as an image of at most five megabytes, of at most ten megabytes together; the
  references are those of the stored objects, in the order they were named. A message of the
  queue therefore never names anything but an upload, and never carries more than that.
\<close>

theorem claim_accepts:
  "claimAttachmentUploads b ks = Inr refs \<longleftrightarrow>
     length ks \<le> 4 \<and> (\<forall>k \<in> set ks. claimable b k) \<and>
     sum_list (map (storedSize b) ks) \<le> 10485760 \<and> refs = map (storedRef b) ks"
  by (cases "ks = []")
    (auto simp: claimAttachmentUploads_def claimAll_iff MAX_SESSION_ATTACHMENTS_def
      MAX_SESSION_ATTACHMENT_TOTAL_BYTES_def)

lemma claim_accepts_witness:
  "let b = [(''uploads/00000000-0000-0000-0000-000000000000'', \<lparr>ob_body = Bytes [0xFF, 0xD8, 0xFF],
       ob_contentType = JStr ''image/jpeg'', ob_filename = JUndefined, ob_size = 3, ob_uploaded = 5\<rparr>)];
     k = ''uploads/00000000-0000-0000-0000-000000000000''
   in claimAttachmentUploads b [k] = Inr [storedRef b k]"
proof -
  let ?k = "''uploads/00000000-0000-0000-0000-000000000000''"
  let ?b = "[(?k, \<lparr>ob_body = Bytes [0xFF, 0xD8, 0xFF],
       ob_contentType = JStr ''image/jpeg'', ob_filename = JUndefined, ob_size = 3, ob_uploaded = 5\<rparr>)]"
  have "isAttachmentUploadKey (JStr ?k)" by code_simp
  then have "claimable ?b ?k" "storedSize ?b ?k = 3"
    by (simp_all add: claimable_def storedSize_def getObject_def isSessionAttachmentMime_def
        SESSION_ATTACHMENT_MIME_TYPES_def MAX_SESSION_ATTACHMENT_BYTES_def)
  then show ?thesis
    unfolding Let_def using claim_accepts[of ?b "[?k]" "[storedRef ?b ?k]"] by simp
qed

text \<open>An accepted upload can be claimed at once, and replaces nothing where its key is new.\<close>

lemma upload_then_claim:
  assumes up: "createUpload uuid now rq b = Inr (ref, b')" and u: "is_uuid uuid"
  shows "claimAttachmentUploads b' [at_key ref] = Inr [ref\<lparr>at_filename :=
      normalizeAttachmentFilename (str_json (at_filename ref))\<rparr>]"
    and "looksLikeImage (at_mime ref) (ur_bytes rq)"
    and "k \<noteq> at_key ref \<Longrightarrow> getObject k b' = getObject k b"
proof -
  let ?key = "attachmentUploadKey uuid"
  have ref: "ref = \<lparr>at_key = ?key, at_mime = uploadMime rq,
        at_filename = normalizeAttachmentFilename (str_json (ur_filename rq)),
        at_size = length (ur_bytes rq)\<rparr>"
    and b': "b' = putObject ?key \<lparr>ob_body = Bytes (ur_bytes rq), ob_contentType = JStr (uploadMime rq),
        ob_filename = str_json (at_filename ref), ob_size = length (ur_bytes rq), ob_uploaded = now\<rparr> b"
    and ok: "isSessionAttachmentMime (JStr (uploadMime rq))"
      "length (ur_bytes rq) \<le> MAX_SESSION_ATTACHMENT_BYTES" "looksLikeImage (uploadMime rq) (ur_bytes rq)"
    using up by (auto simp: createUpload_def Let_def split: if_splits)
  have key: "isAttachmentUploadKey (JStr ?key)"
    using u by (simp add: isAttachmentUploadKey_def attachmentUploadKey_def starts_with_def)
  have g: "getObject ?key b' = Some \<lparr>ob_body = Bytes (ur_bytes rq), ob_contentType = JStr (uploadMime rq),
        ob_filename = str_json (at_filename ref), ob_size = length (ur_bytes rq), ob_uploaded = now\<rparr>"
    by (simp add: b')
  have "claimable b' ?key" "storedSize b' ?key \<le> MAX_SESSION_ATTACHMENT_TOTAL_BYTES"
    "storedRef b' ?key = ref\<lparr>at_filename := normalizeAttachmentFilename (str_json (at_filename ref))\<rparr>"
    using ok by (simp_all add: claimable_def storedSize_def storedRef_def g key Let_def ref
        MAX_SESSION_ATTACHMENT_BYTES_def MAX_SESSION_ATTACHMENT_TOTAL_BYTES_def)
  then have "claimAll b' [?key] 0 = Inr [ref\<lparr>at_filename :=
      normalizeAttachmentFilename (str_json (at_filename ref))\<rparr>]"
    unfolding claimAll_iff by simp
  then show "claimAttachmentUploads b' [at_key ref] = Inr [ref\<lparr>at_filename :=
      normalizeAttachmentFilename (str_json (at_filename ref))\<rparr>]"
    by (simp add: claimAttachmentUploads_def MAX_SESSION_ATTACHMENTS_def ref del: claimAll.simps)
  show "looksLikeImage (at_mime ref) (ur_bytes rq)" using ok ref by simp
  show "k \<noteq> at_key ref \<Longrightarrow> getObject k b' = getObject k b" by (simp add: b' ref getObject_put_other)
qed

section \<open>What the sweep removes\<close>

lemma length_filter_disjoint:
  "(\<And>x. x \<in> set xs \<Longrightarrow> \<not> (P x \<and> Q x)) \<Longrightarrow>
     length (filter P xs) + length (filter Q xs) = length (filter (\<lambda>x. P x \<or> Q x) xs)"
  by (induction xs) auto

definition orphan :: "millis \<Rightarrow> string option \<Rightarrow> string \<times> r2_object \<Rightarrow> bool" where
  "orphan cutoff cursor x = (underPrefix UPLOADS_PREFIX cursor (fst x) \<and> staleUpload cutoff x)"

lemma sweepFrom_removes:
  "distinct (map fst b) \<Longrightarrow> 0 < limit \<Longrightarrow>
     sweepFrom limit cutoff cursor b =
       (length (filter (orphan cutoff cursor) b), filter (\<lambda>x. \<not> orphan cutoff cursor x) b)"
proof (induction limit cutoff cursor b rule: sweepFrom.induct)
  case (1 limit cutoff cursor b)
  obtain page nxt where l: "listObjects limit UPLOADS_PREFIX cursor b = (page, nxt)" by fastforce
  define R :: "string \<times> r2_object \<Rightarrow> bool" where "R = (\<lambda>x. underPrefix UPLOADS_PREFIX cursor (fst x) \<and>
      (case nxt of None \<Rightarrow> True | Some c \<Rightarrow> \<not> c < fst x))"
  have page: "mset page = mset (filter R b)"
    using listObjects_page(1)[OF "1.prems"(1) l "1.prems"(2)] by (simp add: R_def case_prod_beta)
  define stale where "stale = map fst (filter (staleUpload cutoff) page)"
  define b' where "b' = (if length stale > 0 then deleteObjects stale b else b)"
  have key: "k \<in> set stale \<longleftrightarrow> R (k, ob) \<and> staleUpload cutoff (k, ob)" if "(k, ob) \<in> set b" for k ob
  proof -
    have pg: "x \<in> set page \<longleftrightarrow> x \<in> set b \<and> R x" for x
      using arg_cong[OF page, of "\<lambda>m. x \<in># m"] by simp
    have "k \<in> set stale \<longleftrightarrow> (\<exists>ob'. (k, ob') \<in> set page \<and> staleUpload cutoff (k, ob'))"
      unfolding stale_def by (simp add: image_iff Bex_def)
    moreover have "ob' = ob" if "(k, ob') \<in> set page" for ob'
      using that pg \<open>(k, ob) \<in> set b\<close> "1.prems"(1) by (meson eq_key_imp_eq_value)
    ultimately show ?thesis using pg[of "(k, ob)"] that by blast
  qed
  have b': "b' = filter (\<lambda>x. \<not> (R x \<and> staleUpload cutoff x)) b"
  proof -
    have "b' = deleteObjects stale b" by (cases stale) (simp_all add: b'_def deleteObjects_def)
    also have "\<dots> = filter (\<lambda>x. \<not> (R x \<and> staleUpload cutoff x)) b"
      unfolding deleteObjects_def
    proof (rule filter_cong[OF refl])
      fix x assume "x \<in> set b"
      with key[of "fst x" "snd x"] show "(case x of (k, ob) \<Rightarrow> k \<notin> set stale) =
          (\<not> (R x \<and> staleUpload cutoff x))" by (simp add: case_prod_beta)
    qed
    finally show ?thesis .
  qed
  have n: "length stale = length (filter (\<lambda>x. R x \<and> staleUpload cutoff x) b)"
  proof -
    have "length stale = size (filter_mset (staleUpload cutoff) (mset page))"
      by (simp add: stale_def flip: mset_filter)
    also have "\<dots> = length (filter (\<lambda>x. R x \<and> staleUpload cutoff x) b)"
      by (simp add: page conj_commute flip: mset_filter)
    finally show ?thesis .
  qed
  have eqn: "sweepFrom limit cutoff cursor b = (case nxt of None \<Rightarrow> (length stale, b')
      | Some c \<Rightarrow> (case sweepFrom limit cutoff (Some c) b' of (n, b'') \<Rightarrow> (length stale + n, b'')))"
    by (subst sweepFrom.simps) (simp only: l prod.case Let_def stale_def b'_def)
  show ?case
  proof (cases nxt)
    case None
    then have o: "R x \<and> staleUpload cutoff x \<longleftrightarrow> orphan cutoff cursor x" for x
      by (simp add: R_def orphan_def)
    show ?thesis
      unfolding eqn None option.case n b' o by simp
  next
    case (Some c)
    have c: "underPrefix UPLOADS_PREFIX cursor c" using page_in_bucket[OF l Some] by simp
    have later: "orphan cutoff (Some c) x \<longleftrightarrow> orphan cutoff cursor x \<and> \<not> R x" for x
      using c by (auto simp: orphan_def R_def Some underPrefix_def split: option.splits)
    have R: "R x \<Longrightarrow> underPrefix UPLOADS_PREFIX cursor (fst x)" for x by (simp add: R_def)
    have two: "orphan cutoff cursor x \<longleftrightarrow> (R x \<and> staleUpload cutoff x) \<or> orphan cutoff (Some c) x" for x
    proof -
      have "R x \<Longrightarrow> staleUpload cutoff x \<longleftrightarrow> orphan cutoff cursor x" using R by (simp add: orphan_def)
      then show ?thesis using later by blast
    qed
    have ih: "sweepFrom limit cutoff (Some c) b' =
        (length (filter (orphan cutoff (Some c)) b'), filter (\<lambda>x. \<not> orphan cutoff (Some c) x) b')"
      using "1.IH"[OF l[symmetric] stale_def b'_def Some] "1.prems"
      by (simp add: b' distinct_map_filter)
    have "length stale + length (filter (orphan cutoff (Some c)) b') =
        length (filter (orphan cutoff cursor) b)"
    proof -
      have "filter (orphan cutoff (Some c)) b' = filter (orphan cutoff (Some c)) b"
        unfolding b' filter_filter by (rule filter_cong) (auto simp: later)
      then have "length stale + length (filter (orphan cutoff (Some c)) b') =
          length (filter (\<lambda>x. (R x \<and> staleUpload cutoff x) \<or> orphan cutoff (Some c) x) b)"
        unfolding n by (simp add: length_filter_disjoint later)
      also have "filter (\<lambda>x. (R x \<and> staleUpload cutoff x) \<or> orphan cutoff (Some c) x) b =
          filter (orphan cutoff cursor) b"
        by (rule filter_cong[OF refl]) (simp only: two)
      finally show ?thesis .
    qed
    moreover have "filter (\<lambda>x. \<not> orphan cutoff (Some c) x) b' = filter (\<lambda>x. \<not> orphan cutoff cursor x) b"
      unfolding b' filter_filter by (rule filter_cong[OF refl]) (simp only: two de_Morgan_disj conj_commute)
    ultimately show ?thesis
      unfolding eqn Some option.case ih by simp
  qed
qed

text \<open>
  C32. The daily sweep, page by page, removes exactly the uploads older than three days and
  answers how many they were: however large the pages are, nothing else in the bucket is
  touched, none is missed because the listing moved while it deleted, and a message whose
  images are younger finds them as before.
\<close>

theorem sweep_is_one_filter:
  assumes "distinct (map fst b)" and "0 < limit"
  shows "sweepOrphanUploads limit now b =
      (length (filter (orphan (now - 259200000) None) b),
       filter (\<lambda>(k, ob). \<not> (starts_with k ''uploads/'' \<and> ob_uploaded ob < now - 259200000)) b) \<and>
    ((\<forall>k \<in> set ks. \<forall>ob. getObject k b = Some ob \<longrightarrow> now - 259200000 \<le> ob_uploaded ob) \<longrightarrow>
      claimAttachmentUploads (snd (sweepOrphanUploads limit now b)) ks = claimAttachmentUploads b ks)"
proof -
  let ?keep = "\<lambda>(k, ob). \<not> (starts_with k ''uploads/'' \<and> ob_uploaded ob < now - 259200000)"
  have s: "sweepOrphanUploads limit now b =
      (length (filter (orphan (now - 259200000) None) b), filter ?keep b)"
    using sweepFrom_removes[OF assms, of "now - 259200000" None]
    by (auto simp: sweepOrphanUploads_def ORPHAN_UPLOAD_TTL_MS_def CLEANUP_IDLE_DAYS_def orphan_def
        staleUpload_def UPLOADS_PREFIX_def case_prod_beta intro!: filter_cong)
  have "getObject k (filter ?keep b) = getObject k b"
    if "\<forall>ob. getObject k b = Some ob \<longrightarrow> now - 259200000 \<le> ob_uploaded ob" for k
    using that assms(1) unfolding getObject_def
    by (induction b) (auto simp: map_of_eq_None_iff split: if_splits intro: rev_image_eqI)
  then have "(\<forall>k \<in> set ks. \<forall>ob. getObject k b = Some ob \<longrightarrow> now - 259200000 \<le> ob_uploaded ob) \<Longrightarrow>
      k \<in> set ks \<Longrightarrow> getObject k (filter ?keep b) = getObject k b" for k by blast
  then have "(\<forall>k \<in> set ks. \<forall>ob. getObject k b = Some ob \<longrightarrow> now - 259200000 \<le> ob_uploaded ob) \<Longrightarrow>
      claimAll (filter ?keep b) ks t = claimAll b ks t" for t
    by (induction ks arbitrary: t) (simp_all add: claimOne_def split: sum.split)
  then show ?thesis by (simp add: s claimAttachmentUploads_def)
qed

lemma sweep_is_one_filter_witness:
  "let ob = (\<lambda>t. \<lparr>ob_body = Bytes [], ob_contentType = JNull, ob_filename = JNull, ob_size = 0,
       ob_uploaded = t\<rparr>)
   in sweepOrphanUploads 1 259200010 [(''uploads/b'', ob 3), (''transcripts/a'', ob 1),
        (''uploads/a'', ob 20), (''uploads/c'', ob 4)] =
      (2, [(''transcripts/a'', ob 1), (''uploads/a'', ob 20)])"
proof -
  let ?ob = "\<lambda>t. \<lparr>ob_body = Bytes [], ob_contentType = JNull, ob_filename = JNull, ob_size = 0,
       ob_uploaded = t\<rparr>"
  let ?b = "[(''uploads/b'', ?ob 3), (''transcripts/a'', ?ob 1), (''uploads/a'', ?ob 20), (''uploads/c'', ?ob 4)]"
  have "distinct (map fst ?b)" by simp
  from sweep_is_one_filter[OF this, of 1 259200010 "[]"] show ?thesis
    by (simp add: orphan_def staleUpload_def starts_with_def UPLOADS_PREFIX_def)
qed

end
