(* ===== verification/Worker_Calls.thy ===== *)
theory Worker_Calls
  imports Effects Hub_Registry Provider_Runtime Workspace_Files Session_Changes Transcript_Mirror Uploads
    Base64
begin

text \<open>
  What the Worker's handlers are made of: the registry and the bucket they read and write, the
  calls they make on other objects, and the access to one instance of
  \<open>src/instance-access.ts\<close>. A handler is a program of \<open>Effects\<close>: each awaited call takes the
  next answer, which may be an exception, and every call on another object is noted, whatever
  it answers. During one request nothing but the request and the agent it calls writes to the
  registry, and one reading of the clock stands for all.
\<close>

section \<open>Calls\<close>

datatype remote =
    StartSession start_input
  | QueuePrompt string queue_input
  | RetrySession string
  | WakeInstance string
  | EnsureRegistered string
  | MarkAgentDeleted string
  | MarkAgentLost string string
  | PokeHub
  | BeginLifecycleDelete string
  | ReadLifecycle string
  | InitializeLifecycle initialize_input
  | ReadRuntimeStatus string
  | ReadTranscriptSummary string
  | ReadPersistence string
  | CheckpointWorkspace string string
  | ForceStop string
  | BeginWork string string
  | EndWork string string string
  | RunSdkTest string string
  | ReadChanges string string changes_scope
  | ReadLineage string string string string string
  | ListQuestions string string string
  | ReplyQuestion string string string string "string list list"
  | RejectQuestion string string string string
  | AbortConversation string string string string
  | ReadMessages string string string string
  | StreamEvents string string string
  | DownloadFile string string string workspace_root
  | ReadFile string string string workspace_root
  | ListDirectory string string string workspace_root
  | WriteArtifact string string string string
  | DeleteArtifact string string string

text \<open>The four calls that start a container, or have one started.\<close>

fun starts_container :: "remote \<Rightarrow> bool" where
  "starts_container (StartSession i) = True"
| "starts_container (QueuePrompt s i) = True"
| "starts_container (RetrySession s) = True"
| "starts_container (WakeInstance i) = True"
| "starts_container _ = False"

record runtime_view = runtime_status +
  rv_idleSince :: "millis option"
  rv_idleDeadlineAt :: "millis option"
  rv_activeSessionCount :: "nat option"
  rv_lastActivityProbeAt :: "millis option"
  rv_lifecycleError :: "string option"
  rv_workspaceLost :: "(string \<times> string) option"
  rv_transcript :: "mirror_summary option"

text \<open>
  What a call answers: an exception, one after the work was done, or a value. An agent that
  registers itself answers with the session it inserted; a wake with the answers of its polls.
\<close>

datatype reply =
    Threw string
  | ThrewAfter string
  | Fine
  | IsValue json
  | IsStatus lifecycle_status
  | IsRuntime runtime_view
  | IsSummary "mirror_summary option"
  | IsHosts json
  | Registered "new_session option"
  | Polls "nat \<Rightarrow> wake_result"
  | IsMessages "json list"
  | IsStream bool bool nat
  | IsLease string
  | NoLease string string

record hub_world =
  hw_registry :: registry
  hw_bucket :: bucket
  hw_calls :: "remote list"

type_synonym 'v handler = "(hub_world, reply, failure, 'v) program"

fun failureMessage :: "failure \<Rightarrow> string" where
  "failureMessage (HttpError status message) = message"
| "failureMessage (OtherError message) = message"

section \<open>The primitive calls\<close>

definition answered :: "(reply \<Rightarrow> 'v option) \<Rightarrow> reply \<Rightarrow> failure + 'v" where
  "answered pick a =
     (case a of
        Threw m \<Rightarrow> Inl (OtherError m)
      | ThrewAfter m \<Rightarrow> Inl (OtherError m)
      | _ \<Rightarrow> (case pick a of None \<Rightarrow> Inl (OtherError ''unexpected answer'') | Some v \<Rightarrow> Inr v))"

definition ask :: "remote \<Rightarrow> (reply \<Rightarrow> 'v option) \<Rightarrow> 'v handler" where
  "ask r pick = call (\<lambda>a w. (answered pick a, w\<lparr>hw_calls := hw_calls w @ [r]\<rparr>))"

text \<open>
  A read of the settings or of the stored repository catalog, which no call is noted for: it
  fails or answers what is stored.
\<close>

definition readConfig :: "'v \<Rightarrow> 'v handler" where
  "readConfig v = call (\<lambda>a w. (answered (\<lambda>_. Some v) a, w))"

definition dbRead :: "(hub_world \<Rightarrow> 'v) \<Rightarrow> 'v handler" where
  "dbRead f = call (\<lambda>a w. (answered (\<lambda>_. Some (f w)) a, w))"

definition dbWrite :: "(registry \<Rightarrow> registry) \<Rightarrow> (registry \<Rightarrow> 'v) \<Rightarrow> 'v handler" where
  "dbWrite g f = call (\<lambda>a w.
     case a of
       Threw m \<Rightarrow> (Inl (OtherError m), w)
     | ThrewAfter m \<Rightarrow> (Inl (OtherError m), w\<lparr>hw_registry := g (hw_registry w)\<rparr>)
     | _ \<Rightarrow> (Inr (f (g (hw_registry w))), w\<lparr>hw_registry := g (hw_registry w)\<rparr>))"

definition orFail :: "failure + 'v \<Rightarrow> 'v handler" where
  "orFail r = (case r of Inl e \<Rightarrow> raise e | Inr v \<Rightarrow> return v)"

definition require :: "bool \<Rightarrow> failure \<Rightarrow> unit handler" where
  "require b e = (if b then return () else raise e)"

text \<open>\<open>.catch(() => undefined)\<close>.\<close>

definition ignoring :: "'v handler \<Rightarrow> unit handler" where
  "ignoring m = catching (andThen m (\<lambda>_. return ())) (\<lambda>_. return ())"

definition anything :: "reply \<Rightarrow> unit option" where
  "anything a = Some ()"

fun the_value :: "reply \<Rightarrow> json option" where
  "the_value (IsValue v) = Some v"
| "the_value _ = None"

fun the_status :: "reply \<Rightarrow> lifecycle_status option" where
  "the_status (IsStatus s) = Some s"
| "the_status _ = None"

fun the_runtime :: "reply \<Rightarrow> runtime_view option" where
  "the_runtime (IsRuntime r) = Some r"
| "the_runtime _ = None"

fun the_hosts :: "reply \<Rightarrow> json option" where
  "the_hosts (IsHosts v) = Some v"
| "the_hosts _ = None"

fun the_summary :: "reply \<Rightarrow> mirror_summary option option" where
  "the_summary (IsSummary s) = Some s"
| "the_summary _ = None"

fun the_messages :: "reply \<Rightarrow> json list option" where
  "the_messages (IsMessages ms) = Some ms"
| "the_messages _ = None"

fun the_stream :: "reply \<Rightarrow> (bool \<times> bool \<times> nat) option" where
  "the_stream (IsStream ok body status) = Some (ok, body, status)"
| "the_stream _ = None"

fun the_polls :: "reply \<Rightarrow> (nat \<Rightarrow> wake_result) option" where
  "the_polls (Polls f) = Some f"
| "the_polls _ = None"

fun the_lease :: "reply \<Rightarrow> (string + string \<times> string) option" where
  "the_lease (IsLease i) = Some (Inl i)"
| "the_lease (NoLease reason phase) = Some (Inr (reason, phase))"
| "the_lease _ = None"

section \<open>The registry\<close>

definition getSession :: "string \<Rightarrow> session_record option handler" where
  "getSession i = dbRead (\<lambda>w. map_option rowToSession (getRow i (hw_registry w)))"

definition getInstance :: "string \<Rightarrow> instance_record option handler" where
  "getInstance i = dbRead (\<lambda>w. map_option rowToInstance (getRow i (hw_registry w)))"

definition writeRow :: "row_write \<Rightarrow> millis \<Rightarrow> unit handler" where
  "writeRow x now = dbWrite (applyWrite x now) (\<lambda>_. ())"

text \<open>\<open>beginDelete\<close>: the claim or the operation in flight, then the Hub and the coordinator.\<close>

definition beginDeleteCall :: "string \<Rightarrow> string \<Rightarrow> millis \<Rightarrow> instance_record option handler" where
  "beginDeleteCall op i now =
     andThen (dbWrite (\<lambda>db. snd (beginDeleteClaim i op now db))
       (\<lambda>db. map_option rowToInstance (getRow i db))) (\<lambda>rec.
     case rec of
       None \<Rightarrow> return None
     | Some r \<Rightarrow>
         andThen (ask PokeHub anything) (\<lambda>_.
         andThen (ask (BeginLifecycleDelete i) anything) (\<lambda>_. return (Some r))))"

text \<open>\<open>ensureRegistered\<close>: the agent inserts the session it holds, when it holds one.\<close>

definition ensureRegisteredCall :: "string \<Rightarrow> bool handler" where
  "ensureRegisteredCall i = call (\<lambda>a w.
     let w' = w\<lparr>hw_calls := hw_calls w @ [EnsureRegistered i]\<rparr>
     in case a of
          Registered (Some ns) \<Rightarrow> (Inr True, w'\<lparr>hw_registry := insertSessionRow ns (hw_registry w')\<rparr>)
        | Registered None \<Rightarrow> (Inr False, w')
        | Threw m \<Rightarrow> (Inl (OtherError m), w')
        | ThrewAfter m \<Rightarrow> (Inl (OtherError m), w')
        | _ \<Rightarrow> (Inl (OtherError ''unexpected answer''), w'))"

section \<open>One instance\<close>

definition CLEANED_SESSION_MESSAGE :: string where
  "CLEANED_SESSION_MESSAGE = ''This session was cleaned up after 3 days of inactivity and is read-only''"

definition hostsSetting :: "json handler" where
  "hostsSetting = call (\<lambda>a w. (answered the_hosts a, w))"

definition ensureLifecycle :: "string \<Rightarrow> session_provider \<Rightarrow> lifecycle_status handler" where
  "ensureLifecycle i provider =
     andThen (ask (ReadLifecycle i) the_status) (\<lambda>st.
     if st_phase st \<noteq> Uninitialized then return st
     else andThen (if isDockerProvider provider then hostsSetting else return JUndefined) (\<lambda>stored.
       case ensureLifecycleInitialized stored provider i st of
         None \<Rightarrow> return st
       | Some inp \<Rightarrow> ask (InitializeLifecycle inp) the_status))"

definition wakeInstance :: "instance_record \<Rightarrow> (string \<times> lifecycle_status) handler" where
  "wakeInstance rec =
     andThen (ensureLifecycle (ir_id rec) (ir_provider rec)) (\<lambda>_.
     andThen (ask (WakeInstance (ir_id rec)) the_polls) (\<lambda>polls.
     case wakeInstanceRuntime polls of
       Inl WakePending \<Rightarrow> raise (HttpError 503 ''Instance wake is still pending; retry shortly'')
     | Inr r \<Rightarrow> return r))"

definition orKeep :: "'a option \<Rightarrow> 'a option \<Rightarrow> 'a option" where
  "orKeep new old = (case new of None \<Rightarrow> old | Some x \<Rightarrow> Some x)"

definition mergedStatus :: "lifecycle_status \<Rightarrow> runtime_view \<Rightarrow> runtime_view" where
  "mergedStatus ls platform = platform
     \<lparr>rs_lifecycle := st_lifecycle ls, rv_idleSince := orKeep (st_idleSince ls) (rv_idleSince platform),
      rv_idleDeadlineAt := orKeep (st_idleDeadlineAt ls) (rv_idleDeadlineAt platform),
      rv_activeSessionCount := orKeep (st_activeSessionCount ls) (rv_activeSessionCount platform),
      rv_lastActivityProbeAt := orKeep (st_lastActivityProbeAt ls) (rv_lastActivityProbeAt platform),
      rv_lifecycleError := (if truthy_str (st_lifecycleError ls) then st_lifecycleError ls
        else rv_lifecycleError platform)\<rparr>"

definition getMergedRuntimeStatus :: "string \<Rightarrow> lifecycle_status \<Rightarrow> runtime_view handler" where
  "getMergedRuntimeStatus i ls =
     andThen (ask (ReadRuntimeStatus i) the_runtime) (\<lambda>platform. return (mergedStatus ls platform))"

definition syntheticStatus ::
  "container_status \<Rightarrow> session_provider \<Rightarrow> bool \<Rightarrow> runtime_lifecycle \<Rightarrow> mirror_summary option \<Rightarrow> runtime_view" where
  "syntheticStatus c provider deleting l transcript =
     \<lparr>rs_container = c, rs_provider = provider, rs_deleting = deleting, rs_platformRunning = False,
      rs_lifecycle = l, rs_hasBackup = False, rs_trackedBackupCount = 0, rv_idleSince = None,
      rv_idleDeadlineAt = None, rv_activeSessionCount = None, rv_lastActivityProbeAt = None,
      rv_lifecycleError = None, rv_workspaceLost = None, rv_transcript = transcript\<rparr>"

definition unknownRuntimeStatus :: "bool \<Rightarrow> session_provider \<Rightarrow> runtime_view" where
  "unknownRuntimeStatus deleting provider =
     syntheticStatus CUnknown provider deleting (if deleting then RStopping else RError) None"

definition cleanedRuntimeStatus :: "instance_record \<Rightarrow> runtime_view handler" where
  "cleanedRuntimeStatus rec =
     andThen (catching (ask (ReadTranscriptSummary (ir_id rec)) the_summary) (\<lambda>_. return None))
       (\<lambda>transcript. return (syntheticStatus CStopped (ir_provider rec) False RSleeping transcript))"

text \<open>The runtime of \<open>getInstanceView\<close>; the view is the record with it.\<close>

definition instanceRuntime :: "instance_record \<Rightarrow> runtime_view handler" where
  "instanceRuntime rec =
     (if isCleanedLifecycle (ir_lifecycle rec) then cleanedRuntimeStatus rec
      else if ir_lifecycle rec \<noteq> Ready then return (unknownRuntimeStatus True (ir_provider rec))
      else catching
        (andThen (ensureLifecycle (ir_id rec) (ir_provider rec)) (\<lambda>ls. getMergedRuntimeStatus (ir_id rec) ls))
        (\<lambda>_. return (unknownRuntimeStatus False (ir_provider rec))))"

definition requireInstance :: "string \<Rightarrow> instance_record handler" where
  "requireInstance i =
     (if \<not> isSafeInstanceId i then raise (HttpError 400 ''Invalid instance id'')
      else andThen (getInstance i) (\<lambda>rec.
        case rec of None \<Rightarrow> raise (HttpError 404 ''Instance not found'') | Some r \<Rightarrow> return r))"

definition requireReadyInstance :: "string \<Rightarrow> instance_record handler" where
  "requireReadyInstance i =
     andThen (requireInstance i) (\<lambda>rec.
     if ir_lifecycle rec = Ready then return rec
     else if isCleanedLifecycle (ir_lifecycle rec) then raise (HttpError 409 CLEANED_SESSION_MESSAGE)
     else raise (HttpError 409 (if ir_lifecycle rec = RowDeleting then ''Instance is being deleted''
       else ''Instance deletion failed; retry deletion from the Hub'')))"

end
