(* ===== verification/Session_Routes.thy ===== *)
theory Session_Routes
  imports Worker_Calls
begin

text \<open>
  The session API, \<open>src/api-sessions.ts\<close>: the routing of a request below \<open>/api/sessions\<close>, the
  validation of what it carries, and the views of a session. The environment of a request holds
  what the settings and the repository catalog have stored, fresh ids, and the decoding of a
  path segment, \<open>Number\<close> and \<open>encodeURIComponent\<close>; the reading of a body is a value, as JSON
  or as bytes.
\<close>

section \<open>Requests and responses\<close>

record session_request =
  sq_method :: string
  sq_path :: string
  sq_query :: "(string \<times> string) list"
  sq_body :: json_text
  sq_bytes :: "8 word list"
  sq_filePath :: "string option"

record route_env =
  re_now :: millis
  re_uuid :: string
  re_promptUuid :: string
  re_name :: string
  re_operation :: string
  re_ellipsis :: char
  re_catalog :: model_catalog
  re_hosts :: json
  re_repo :: "string \<Rightarrow> repo_definition option"
  re_decode :: "string \<Rightarrow> string option"
  re_number :: "string \<Rightarrow> int option"
  re_encode :: "string \<Rightarrow> string"

datatype transcript_state = TLive | TSleeping | TPending | TError
datatype transcript_source = FromContainer | FromMirror | FromNone

record session_transcript =
  tr_sessionId :: string
  tr_opencodeSessionId :: "string option"
  tr_state :: transcript_state
  tr_source :: transcript_source
  tr_observedAt :: millis
  tr_mirroredAt :: "string option"
  tr_messages :: "json list"
  tr_error :: "string option"

record session_view =
  sv_session :: session_record
  sv_instance :: instance_record
  sv_runtime :: runtime_view
  sv_status :: session_status
  sv_lastActivityAt :: millis
  sv_displayTitle :: string
  sv_transcript :: "mirror_summary option"

datatype stream_state = SSLive | SSSleeping | SSPending | SSError nat

datatype response =
    RViews "session_view list"
  | RView nat session_view
  | RDeleting string "string option"
  | RTranscript session_transcript
  | RJson nat json
  | RDownload string json
  | RClosedStream stream_state "string option"
  | RLiveStream string
  | RAborted json session_view
  | RNotAllowed string

section \<open>Reading a request\<close>

definition query :: "session_request \<Rightarrow> string \<Rightarrow> string option" where
  "query rq k = map_of (sq_query rq) k"

definition sessionDirectory :: "session_record \<Rightarrow> string" where
  "sessionDirectory rec = nullish (sr_directory rec) (workspaceDirectory (sr_repoKey rec))"

definition readChildSessionId :: "session_request \<Rightarrow> failure + string option" where
  "readChildSessionId rq =
     (case query rq ''child'' of
        None \<Rightarrow> Inr None
      | Some child \<Rightarrow>
          if \<not> isSafeOpencodeSessionId (JStr child) then Inl (HttpError 400 ''Invalid subagent session id'')
          else Inr (Some child))"

definition readListLimit :: "(string \<Rightarrow> int option) \<Rightarrow> session_request \<Rightarrow> nat option" where
  "readListLimit number rq =
     (case query rq ''limit'' of
        None \<Rightarrow> None
      | Some raw \<Rightarrow> (case number raw of
            None \<Rightarrow> None
          | Some limit \<Rightarrow> if limit > 0 then Some (nat limit) else None))"

text \<open>The body as a JSON object.\<close>

definition jsonBody :: "json_text \<Rightarrow> failure + json" where
  "jsonBody body =
     (case body of
        Malformed \<Rightarrow> Inl (HttpError 400 ''Request body must be valid JSON'')
      | Text v \<Rightarrow> Inr v)"

definition objectBody :: "json_text \<Rightarrow> failure + (string \<times> json) list" where
  "objectBody body =
     (case jsonBody body of
        Inl e \<Rightarrow> Inl e
      | Inr (JObj kvs) \<Rightarrow> Inr kvs
      | Inr _ \<Rightarrow> Inl (HttpError 400 ''Request body must be a JSON object''))"

definition absentVariant :: "json \<Rightarrow> bool" where
  "absentVariant v = (v = JUndefined \<or> v = JNull \<or> v = JStr [])"

definition resolveRequestVariant :: "model_catalog \<Rightarrow> string \<Rightarrow> json \<Rightarrow> failure + string option" where
  "resolveRequestVariant cat modelRef variant =
     (if absentVariant variant then Inr (defaultVariantForModel cat modelRef)
      else if \<not> isValidVariant cat modelRef variant then Inl (HttpError 400 ''Unknown model variant'')
      else Inr (the_str variant))"

definition isSafePromptId :: "json \<Rightarrow> bool" where
  "isSafePromptId v =
     (case the_str v of None \<Rightarrow> False
      | Some s \<Rightarrow> 1 \<le> length s \<and> length s \<le> 64 \<and>
          list_all (\<lambda>c. is_alnum c \<or> c \<in> set ''_-'') s)"

definition attachmentKeys :: "(string \<times> json) list \<Rightarrow> failure + string list" where
  "attachmentKeys kvs =
     (case normalizeAttachmentKeys (field kvs ''attachments'') of
        None \<Rightarrow> Inl (HttpError 400 ''Attachments must be up to 4 uploaded images'')
      | Some ks \<Rightarrow> Inr ks)"

record create_input =
  ci_repoKey :: "string option"
  ci_provider :: session_provider
  ci_model :: string
  ci_variant :: "string option"
  ci_prompt :: string
  ci_keys :: "string list"

text \<open>Everything of the create body that needs no upload, in the order it is checked.\<close>

definition checkCreate ::
  "model_catalog \<Rightarrow> session_provider list \<Rightarrow> json_text \<Rightarrow> failure + create_input" where
  "checkCreate cat providers body =
     (case objectBody body of
        Inl e \<Rightarrow> Inl e
      | Inr kvs \<Rightarrow>
          (let repoKey = field kvs ''repoKey''; model = field kvs ''model'';
               provider = field kvs ''provider'';
               wantsRepo = \<not> absentVariant repoKey;
               modelRef = (if model = JUndefined then JStr (cat_defaultModelRef cat) else model);
               wanted = (if nullishValue provider
                 then (case providers of [] \<Rightarrow> JUndefined | p # ps \<Rightarrow> JStr p) else provider)
           in if wantsRepo \<and> \<not> isSafeRepoKey repoKey then Inl (HttpError 400 ''Unknown repository'')
              else if \<not> isModelRef cat modelRef then Inl (HttpError 400 ''Unknown model'')
              else case resolveRequestVariant cat (the (the_str modelRef)) (field kvs ''variant'') of
                Inl e \<Rightarrow> Inl e
              | Inr variant \<Rightarrow>
                (case normalizeSessionPrompt (field kvs ''prompt'') of
                   None \<Rightarrow> Inl (HttpError 400 ''A prompt of up to 32000 characters is required'')
                 | Some text \<Rightarrow>
                   if \<not> (\<exists>p \<in> set providers. wanted = JStr p) then Inl (HttpError 400 ''Unknown provider'')
                   else case attachmentKeys kvs of
                     Inl e \<Rightarrow> Inl e
                   | Inr ks \<Rightarrow> Inr
                       \<lparr>ci_repoKey = (if wantsRepo then the_str repoKey else None),
                        ci_provider = the (the_str wanted), ci_model = the (the_str modelRef),
                        ci_variant = (if truthy_str variant then variant else None),
                        ci_prompt = text, ci_keys = ks\<rparr>)))"

record send_input =
  xi_prompt :: string
  xi_model :: "string option"
  xi_variant :: "string option"
  xi_promptId :: "string option"
  xi_keys :: "string list"

definition checkSend :: "model_catalog \<Rightarrow> json_text \<Rightarrow> failure + send_input" where
  "checkSend cat body =
     (case objectBody body of
        Inl e \<Rightarrow> Inl e
      | Inr kvs \<Rightarrow>
          (let model = field kvs ''model''; variant = field kvs ''variant'';
               promptId = field kvs ''promptId''
           in case normalizeSessionPrompt (field kvs ''prompt'') of
                None \<Rightarrow> Inl (HttpError 400 ''A prompt of up to 32000 characters is required'')
              | Some text \<Rightarrow>
                  if model \<noteq> JUndefined \<and> \<not> isModelRef cat model then Inl (HttpError 400 ''Unknown model'')
                  else if (if model \<noteq> JUndefined \<and> \<not> absentVariant variant
                      then \<not> isValidVariant cat (the (the_str model)) variant
                      else model = JUndefined \<and> \<not> absentVariant variant \<and> the_str variant = None)
                    then Inl (HttpError 400 ''Unknown model variant'')
                  else if promptId \<noteq> JUndefined \<and> \<not> isSafePromptId promptId
                    then Inl (HttpError 400 ''Invalid prompt id'')
                  else case attachmentKeys kvs of
                    Inl e \<Rightarrow> Inl e
                  | Inr ks \<Rightarrow> Inr
                      \<lparr>xi_prompt = text, xi_model = the_str model,
                       xi_variant = (if truthy_str (the_str variant) then the_str variant else None),
                       xi_promptId = the_str promptId, xi_keys = ks\<rparr>))"

definition claim :: "string list \<Rightarrow> attachment_ref list handler" where
  "claim ks = andThen (dbRead (\<lambda>w. claimAttachmentUploads (hw_bucket w) ks)) orFail"

section \<open>Views\<close>

definition lossMessage :: "string \<Rightarrow> string" where
  "lossMessage at = ''The container restarted without a workspace checkpoint at '' @ at @
     '', so this conversation no longer exists.''"

definition lossPatch :: "string \<Rightarrow> state_patch" where
  "lossPatch err = \<lparr>pa_phase = Some Lost, pa_model = None, pa_title = None, pa_opencodeSessionId = None,
     pa_pendingPromptCount = None, pa_lastPromptAt = None, pa_variant = Absent, pa_lastError = SetTo err\<rparr>"

definition markSessionLost :: "route_env \<Rightarrow> session_record \<Rightarrow> string \<Rightarrow> session_record handler" where
  "markSessionLost env rec at =
     (let err = lossMessage at in
      andThen (ignoring (ask (MarkAgentLost (sr_id rec) err) anything)) (\<lambda>_.
      andThen (catching
        (dbWrite (\<lambda>db. snd (updateSession (sr_id rec) (lossPatch err) (re_now env) db))
          (\<lambda>db. map_option rowToSession (getRow (sr_id rec) db)))
        (\<lambda>_. return None)) (\<lambda>updated.
      return (nullish updated (rec\<lparr>sr_phase := Lost, sr_lastError := Some err\<rparr>)))))"

definition missingInstance :: "session_record \<Rightarrow> instance_record" where
  "missingInstance rec =
     \<lparr>ir_id = sr_instanceId rec, ir_name = sr_instanceId rec,
      ir_repoKey = (if truthy_str (sr_repoKey rec) then sr_repoKey rec else None), ir_repo = None,
      ir_provider = sr_provider rec, ir_lifecycle = RowDeleting, ir_createdAt = sr_createdAt rec,
      ir_updatedAt = sr_updatedAt rec, ir_lastError = None, ir_deleteOperationId = None\<rparr>"

definition ownTranscript :: "session_record \<Rightarrow> runtime_view \<Rightarrow> mirror_summary option" where
  "ownTranscript rec rt =
     (case rv_transcript rt of
        None \<Rightarrow> None
      | Some t \<Rightarrow> if Some (tm_opencodeSessionId t) = sr_opencodeSessionId rec then Some t else None)"

definition viewOf ::
  "session_record \<Rightarrow> instance_record \<Rightarrow> runtime_view \<Rightarrow> mirror_summary option \<Rightarrow> session_view" where
  "viewOf rec inst rt transcript =
     \<lparr>sv_session = rec, sv_instance = inst, sv_runtime = rt,
      sv_status = deriveSessionStatus (sr_phase rec) (runtime_status.truncate rt) (ir_lifecycle inst),
      sv_lastActivityAt = deriveLastActivityAt rec, sv_displayTitle = deriveDisplayTitle rec transcript,
      sv_transcript = transcript\<rparr>"

definition lostAt :: "session_record \<Rightarrow> runtime_view \<Rightarrow> string option" where
  "lostAt rec rt =
     (if sr_phase rec \<noteq> Lost \<and> truthy_str (sr_opencodeSessionId rec)
      then (case rv_workspaceLost rt of
              None \<Rightarrow> None
            | Some (oc, at) \<Rightarrow> if Some oc = sr_opencodeSessionId rec then Some at else None)
      else None)"

definition getSessionView ::
  "route_env \<Rightarrow> session_record \<Rightarrow> instance_record option \<Rightarrow> session_view handler" where
  "getSessionView env rec given =
     andThen (case given of Some i \<Rightarrow> return given | None \<Rightarrow> getInstance (sr_instanceId rec)) (\<lambda>found.
     andThen (case found of None \<Rightarrow> return (unknownRuntimeStatus True (sr_provider rec))
                | Some i \<Rightarrow> instanceRuntime i) (\<lambda>rt.
     andThen (case lostAt rec rt of None \<Rightarrow> return rec | Some at \<Rightarrow> markSessionLost env rec at) (\<lambda>rec.
     andThen (case found of
         Some i \<Rightarrow> if ir_lifecycle i = Ready
           then ignoring (writeRow (WriteRuntime (sr_id rec)
             \<lparr>rp_runtimeLifecycle = rs_lifecycle rt, rp_container = Some (rs_container rt),
              rp_statusQuery = Some (runtimeLifecycleNeedsStatusQuery (rs_lifecycle rt))\<rparr>) (re_now env))
           else return ()
       | None \<Rightarrow> return ()) (\<lambda>_.
     return (viewOf rec (nullish found (missingInstance rec)) rt (ownTranscript rec rt))))))"

definition cachedView :: "runtime_status \<Rightarrow> runtime_view" where
  "cachedView rs = runtime_status.extend rs
     (runtime_view.fields None None None None None None None)"

definition getSessionListView ::
  "route_env \<Rightarrow> session_record \<times> instance_record \<Rightarrow> session_view handler" where
  "getSessionListView env = (\<lambda>(rec, inst).
     case (if sessionNeedsLiveStatusQuery rec inst then None else runtimeStatusFromSessionCache rec inst) of
       Some runtime \<Rightarrow> return (viewOf rec inst (cachedView runtime) None)
     | None \<Rightarrow> getSessionView env rec (Some inst))"

definition requireSession :: "string \<Rightarrow> session_record handler" where
  "requireSession i =
     (if \<not> isSafeInstanceId i then raise (HttpError 400 ''Invalid session id'')
      else andThen (getSession i) (\<lambda>rec.
        case rec of
          Some r \<Rightarrow> return r
        | None \<Rightarrow>
            andThen (ensureRegisteredCall i) (\<lambda>known.
            if \<not> known then raise (HttpError 404 ''Session not found'')
            else andThen (getSession i) (\<lambda>again.
              case again of
                Some r \<Rightarrow> return r
              | None \<Rightarrow> raise (HttpError 404 ''Session not found'')))))"

definition freshView :: "route_env \<Rightarrow> string \<Rightarrow> session_view handler" where
  "freshView env i = andThen (requireSession i) (\<lambda>rec. getSessionView env rec None)"

end
