(* ===== verification/Session_Handlers.thy ===== *)
theory Session_Handlers
  imports Session_Routes
begin

text \<open>
  The handlers of \<open>src/api-sessions.ts\<close> behind each route of a session, and the routing itself.
\<close>

section \<open>The running container\<close>

fun running_phase :: "status_phase \<Rightarrow> bool" where
  "running_phase (InPhase p) = (p = RunningUnknown \<or> p = RunningBusy \<or> p = RunningIdle)"
| "running_phase Uninitialized = False"

definition resolveRunningRuntimeEpoch :: "session_record \<Rightarrow> string option handler" where
  "resolveRunningRuntimeEpoch rec =
     catching
       (andThen (ensureLifecycle (sr_instanceId rec) (sr_provider rec)) (\<lambda>status.
          return (if running_phase (st_phase status) then st_runtimeEpoch status else None)))
       (\<lambda>_. return None)"

definition isRuntimeGoneError :: "session_record \<Rightarrow> string \<Rightarrow> bool handler" where
  "isRuntimeGoneError rec epoch =
     andThen (resolveRunningRuntimeEpoch rec) (\<lambda>now. return (now \<noteq> Some epoch))"

definition requireAwakeRuntime ::
  "session_record \<Rightarrow> string \<Rightarrow> (instance_record \<times> string) handler" where
  "requireAwakeRuntime rec intent =
     andThen (getInstance (sr_instanceId rec)) (\<lambda>inst.
     case inst of
       None \<Rightarrow> raise (HttpError 409 (''This session is not ready to '' @ intent))
     | Some i \<Rightarrow>
         if isCleanedLifecycle (ir_lifecycle i) then raise (HttpError 409 CLEANED_SESSION_MESSAGE)
         else if ir_lifecycle i \<noteq> Ready then raise (HttpError 409 (''This session is not ready to '' @ intent))
         else andThen (resolveRunningRuntimeEpoch rec) (\<lambda>epoch.
           if \<not> truthy_str epoch
           then raise (HttpError 409 (''This session is sleeping; wake it before trying to '' @ intent @ '' it''))
           else return (i, the epoch)))"

definition requireRepository :: "session_record \<Rightarrow> string \<Rightarrow> unit handler" where
  "requireRepository rec intent =
     require (truthy_str (sr_repoKey rec))
       (HttpError 409 (''This session was created without a repository, so it has no '' @ intent))"

section \<open>Creating a session\<close>

definition provisionalSessionView :: "new_session \<Rightarrow> session_view" where
  "provisionalSessionView session =
     (let rec = ns_record session in
      \<lparr>sv_session = rec,
       sv_instance = \<lparr>ir_id = sr_instanceId rec, ir_name = ns_name session,
         ir_repoKey = (if truthy_str (sr_repoKey rec) then sr_repoKey rec else None),
         ir_repo = ns_repo session, ir_provider = sr_provider rec, ir_lifecycle = Ready,
         ir_createdAt = sr_createdAt rec, ir_updatedAt = sr_updatedAt rec, ir_lastError = None,
         ir_deleteOperationId = None\<rparr>,
       sv_runtime = syntheticStatus CUnknown (sr_provider rec) False RSleeping None,
       sv_status = SQueued, sv_lastActivityAt = deriveLastActivityAt rec,
       sv_displayTitle = deriveDisplayTitle rec None, sv_transcript = None\<rparr>)"

definition startInput ::
  "route_env \<Rightarrow> new_session \<Rightarrow> create_input \<Rightarrow> attachment_ref list \<Rightarrow> start_input" where
  "startInput env session inp refs =
     (let rec = ns_record session in
      \<lparr>si_sessionId = sr_id rec, si_instanceId = sr_instanceId rec, si_instanceName = ns_name session,
       si_provider = sr_provider rec,
       si_repoKey = (if truthy_str (sr_repoKey rec) then sr_repoKey rec else None),
       si_repo = ns_repo session,
       si_directory = workspaceDirectory (map_option rd_repoKey (ns_repo session)),
       si_model = sr_model rec,
       si_variant = (if truthy_str (sr_variant rec) then sr_variant rec else None),
       si_title = sr_title rec, si_createdAt = sr_createdAt rec, si_prompt = ci_prompt inp,
       si_promptId = Some (re_promptUuid env), si_attachments = refs\<rparr>)"

definition createSession :: "route_env \<Rightarrow> session_request \<Rightarrow> response handler" where
  "createSession env rq =
     andThen (readConfig (re_catalog env)) (\<lambda>cat.
     andThen (readConfig (re_hosts env)) (\<lambda>hosts.
     andThen (orFail (checkCreate cat (listSessionProviders hosts) (sq_body rq))) (\<lambda>inp.
     andThen (claim (ci_keys inp)) (\<lambda>refs.
     andThen (if truthy_str (ci_repoKey inp) then readConfig (re_repo env (the (ci_repoKey inp))) else return None) (\<lambda>repo.
     andThen (require (\<not> (truthy_str (ci_repoKey inp) \<and> repo = None))
       (HttpError 400 ''Unknown repository'')) (\<lambda>_.
     case buildNewSession (re_uuid env) (re_name env)
            \<lparr>ni_repo = repo, ni_provider = Some (ci_provider inp), ni_model = ci_model inp,
             ni_variant = ci_variant inp, ni_title = deriveSessionTitle (re_ellipsis env) (ci_prompt inp)\<rparr>
            cat (re_now env) of
       Inl m \<Rightarrow> raise (OtherError m)
     | Inr session \<Rightarrow>
         andThen (ask (StartSession (startInput env session inp refs)) anything) (\<lambda>_.
         return (RView 202 (provisionalSessionView session)))))))))"

section \<open>Sending, waking, retrying\<close>

definition requireReady :: "instance_record option \<Rightarrow> string \<Rightarrow> instance_record handler" where
  "requireReady inst message =
     (case inst of
        None \<Rightarrow> raise (HttpError 409 message)
      | Some i \<Rightarrow>
          if isCleanedLifecycle (ir_lifecycle i) then raise (HttpError 409 CLEANED_SESSION_MESSAGE)
          else if ir_lifecycle i \<noteq> Ready then raise (HttpError 409 message)
          else return i)"

definition sendSessionPrompt :: "route_env \<Rightarrow> session_request \<Rightarrow> session_record \<Rightarrow> response handler" where
  "sendSessionPrompt env rq rec =
     andThen (readConfig (re_catalog env)) (\<lambda>cat.
     andThen (orFail (checkSend cat (sq_body rq))) (\<lambda>inp.
     andThen (claim (xi_keys inp)) (\<lambda>refs.
     andThen (require (sr_phase rec \<noteq> Lost) (HttpError 409 ''This session was lost when its container restarted without a checkpoint. Start a new session to continue.'')) (\<lambda>_.
     andThen (getInstance (sr_instanceId rec)) (\<lambda>inst.
     andThen (requireReady inst ''This session is not ready to receive messages'') (\<lambda>_.
     andThen (ask (QueuePrompt (sr_id rec)
         \<lparr>qi_prompt = xi_prompt inp, qi_model = xi_model inp, qi_variant = xi_variant inp,
          qi_promptId = Some (nullish (xi_promptId inp) (re_promptUuid env)),
          qi_attachments = refs\<rparr>) anything) (\<lambda>_.
     andThen (ignoring (writeRow (WriteSeen (sr_id rec)) (re_now env))) (\<lambda>_.
     andThen (freshView env (sr_id rec)) (\<lambda>view. return (RView 202 view))))))))))"

definition wakeSession :: "route_env \<Rightarrow> session_record \<Rightarrow> response handler" where
  "wakeSession env rec =
     andThen (require (sr_phase rec \<noteq> Lost) (HttpError 409 ''This session was lost when its container restarted without a checkpoint. Starting the container would not bring it back.'')) (\<lambda>_.
     andThen (getInstance (sr_instanceId rec)) (\<lambda>inst.
     andThen (requireReady inst ''This session is not ready to wake'') (\<lambda>i.
     andThen (wakeInstance i) (\<lambda>_.
     andThen (ignoring (writeRow (WriteStatusQuery (sr_id rec)) (re_now env))) (\<lambda>_.
     andThen (freshView env (sr_id rec)) (\<lambda>view. return (RView 200 view)))))))"

definition retrySessionRoute :: "route_env \<Rightarrow> session_record \<Rightarrow> response handler" where
  "retrySessionRoute env rec =
     andThen (require (sr_phase rec \<noteq> Lost) (HttpError 409 ''This session was lost when its container restarted without a checkpoint. There is nothing left to retry into.'')) (\<lambda>_.
     andThen (getInstance (sr_instanceId rec)) (\<lambda>inst.
     andThen (require (case inst of None \<Rightarrow> True | Some i \<Rightarrow> \<not> isCleanedLifecycle (ir_lifecycle i))
       (HttpError 409 CLEANED_SESSION_MESSAGE)) (\<lambda>_.
     andThen (ask (RetrySession (sr_id rec)) anything) (\<lambda>_.
     andThen (freshView env (sr_id rec)) (\<lambda>view. return (RView 202 view))))))"

section \<open>Registry edits\<close>

definition acknowledgeSessionRead ::
  "(string \<Rightarrow> millis option) \<Rightarrow> route_env \<Rightarrow> session_request \<Rightarrow> session_record \<Rightarrow> response handler" where
  "acknowledgeSessionRead stamp env rq rec =
     andThen (orFail (jsonBody (sq_body rq))) (\<lambda>v.
     case the_str (fieldOf v ''seenAt'') of
       None \<Rightarrow> raise (HttpError 400 ''Expected { seenAt }: the unreadAt value being acknowledged'')
     | Some seenAt \<Rightarrow>
         if seenAt = [] then raise (HttpError 400 ''Expected { seenAt }: the unreadAt value being acknowledged'')
         else andThen (case stamp seenAt of
             None \<Rightarrow> dbWrite id (\<lambda>_. ())
           | Some at \<Rightarrow> writeRow (WriteRead (sr_id rec) at) (re_now env)) (\<lambda>_.
           return (RJson 200 (JObj [(''ok'', JBool True)]))))"

definition when_given :: "json \<Rightarrow> 'v handler \<Rightarrow> unit handler" where
  "when_given v m = (if v = JUndefined then return () else andThen m (\<lambda>_. return ()))"

text \<open>The fields are applied in turn; a later one that is refused leaves the earlier ones applied.\<close>

definition patchSession :: "route_env \<Rightarrow> session_request \<Rightarrow> session_record \<Rightarrow> response handler" where
  "patchSession env rq rec =
     andThen (orFail (objectBody (sq_body rq))) (\<lambda>kvs.
     let title = field kvs ''title''; pinned = field kvs ''pinned''; unread = field kvs ''unread'' in
     andThen (require (title \<noteq> JUndefined \<or> pinned \<noteq> JUndefined \<or> unread \<noteq> JUndefined)
       (HttpError 400 ''Nothing to change'')) (\<lambda>_.
     andThen (when_given title
       (let trimmed = (case the_str title of None \<Rightarrow> [] | Some s \<Rightarrow> trim s) in
        andThen (require (trimmed \<noteq> [] \<and> length trimmed \<le> MAX_SESSION_TITLE_LENGTH)
          (HttpError 400 ''A title of up to 80 characters is required'')) (\<lambda>_.
        writeRow (WriteTitle (sr_id rec) trimmed) (re_now env)))) (\<lambda>_.
     andThen (when_given pinned
       (case pinned of
          JBool b \<Rightarrow> writeRow (WritePinned (sr_id rec) b) (re_now env)
        | _ \<Rightarrow> raise (HttpError 400 ''pinned must be a boolean''))) (\<lambda>_.
     andThen (when_given unread
       (case unread of
          JBool True \<Rightarrow> writeRow (WriteUnread (sr_id rec) (re_now env)) (re_now env)
        | JBool False \<Rightarrow> writeRow (WriteSeen (sr_id rec)) (re_now env)
        | _ \<Rightarrow> raise (HttpError 400 ''unread must be a boolean''))) (\<lambda>_.
     andThen (freshView env (sr_id rec)) (\<lambda>view. return (RView 200 view)))))))"

section \<open>Reads of the container\<close>

definition readSessionChangesRoute :: "session_request \<Rightarrow> session_record \<Rightarrow> response handler" where
  "readSessionChangesRoute rq rec =
     andThen (requireRepository rec ''changes'') (\<lambda>_.
     andThen (requireAwakeRuntime rec ''read changes from'') (\<lambda>(inst, epoch).
     andThen (ask (ReadChanges (ir_id inst) epoch (parseChangesScope (query rq ''scope''))) the_value) (\<lambda>v.
     return (RJson 200 v))))"

definition readAgentSession :: "session_record \<Rightarrow> string option \<Rightarrow> response handler" where
  "readAgentSession rec child =
     (if \<not> truthy_str child then raise (HttpError 400 ''A subagent session id is required'')
      else if \<not> truthy_str (sr_opencodeSessionId rec)
        then raise (HttpError 404 ''This session has no conversation yet'')
      else andThen (requireAwakeRuntime rec ''read a subagent from'') (\<lambda>(inst, epoch).
        andThen (ask (ReadLineage (ir_id inst) epoch (the child) (the (sr_opencodeSessionId rec))
          (sessionDirectory rec)) the_value) (\<lambda>lineage.
        if nullishValue lineage then raise (HttpError 404 ''Subagent session not found in this session'')
        else return (RJson 200 lineage))))"

definition asleepQuestions :: response where
  "asleepQuestions = RJson 200 (JObj [(''state'', JStr ''sleeping''), (''questions'', JArr [])])"

definition readPendingQuestions :: "session_record \<Rightarrow> response handler" where
  "readPendingQuestions rec =
     andThen (getInstance (sr_instanceId rec)) (\<lambda>inst.
     case inst of
       None \<Rightarrow> return asleepQuestions
     | Some i \<Rightarrow>
         if ir_lifecycle i \<noteq> Ready then return asleepQuestions
         else andThen (resolveRunningRuntimeEpoch rec) (\<lambda>epoch.
           if \<not> truthy_str epoch then return asleepQuestions
           else catching
             (andThen (ask (ListQuestions (ir_id i) (the epoch) (sessionDirectory rec)) the_value) (\<lambda>qs.
                return (RJson 200 (JObj [(''state'', JStr ''live''), (''questions'', qs)]))))
             (\<lambda>e. andThen (isRuntimeGoneError rec (the epoch)) (\<lambda>gone.
                if gone then return asleepQuestions else raise e))))"

definition actOnQuestion :: "route_env \<Rightarrow> session_request \<Rightarrow> session_record \<Rightarrow> response handler" where
  "actOnQuestion env rq rec =
     andThen (orFail (jsonBody (sq_body rq))) (\<lambda>v.
     case normalizeQuestionAction v of
       None \<Rightarrow> raise (HttpError 400
         ''Expected { requestID, answers } to answer or { requestID, reject: true } to dismiss'')
     | Some action \<Rightarrow>
         andThen (requireAwakeRuntime rec (case action of
             Reject i \<Rightarrow> ''dismiss a question in'' | Reply i as \<Rightarrow> ''answer a question in'')) (\<lambda>(inst, epoch).
         andThen (catching
           (case action of
              Reject i \<Rightarrow> ask (RejectQuestion (ir_id inst) epoch i (sessionDirectory rec)) anything
            | Reply i as \<Rightarrow> ask (ReplyQuestion (ir_id inst) epoch i (sessionDirectory rec) as) anything)
           (\<lambda>e. if contains (map lower_char (failureMessage e)) ''questionnotfound''
                then raise (HttpError 409 ''This question is no longer pending'') else raise e)) (\<lambda>_.
         andThen (ignoring (writeRow (WriteSeen (sr_id rec)) (re_now env))) (\<lambda>_.
         return (RJson 200 (JObj [(''ok'', JBool True)]))))))"

definition abortSession :: "route_env \<Rightarrow> session_record \<Rightarrow> response handler" where
  "abortSession env rec =
     (if \<not> truthy_str (sr_opencodeSessionId rec)
      then raise (HttpError 409 ''This session has not started working yet'')
      else andThen (requireAwakeRuntime rec ''abort'') (\<lambda>(inst, epoch).
        andThen (ask (AbortConversation (ir_id inst) epoch (the (sr_opencodeSessionId rec))
          (sessionDirectory rec)) the_value) (\<lambda>aborted.
        andThen (ignoring (writeRow (WriteStatusQuery (sr_id rec)) (re_now env))) (\<lambda>_.
        andThen (freshView env (sr_id rec)) (\<lambda>view. return (RAborted aborted view))))))"

section \<open>Files\<close>

fun pathErrorText :: "path_error \<Rightarrow> string" where
  "pathErrorText UnknownRoot = ''Unknown workspace root''"
| "pathErrorText InvalidPath = ''Invalid path''"
| "pathErrorText EscapesWorkspace = ''Path escapes the workspace''"

definition saysAny :: "string list \<Rightarrow> string \<Rightarrow> bool" where
  "saysAny ps message = list_ex (\<lambda>p. contains (map lower_char message) p) ps"

definition fileRequestError :: "failure \<Rightarrow> failure" where
  "fileRequestError e =
     (let message = failureMessage e in
      if saysAny [''escapes the workspace'', ''invalid path'', ''file path is required'',
           ''unknown workspace root''] message then HttpError 400 message
      else if saysAny [''not found'', ''no such file'', ''enoent''] message
        then HttpError 404 ''File not found''
      else e)"

definition workspaceRoot :: "session_request \<Rightarrow> failure + workspace_root" where
  "workspaceRoot rq =
     (case parseWorkspaceRoot (jopt (query rq ''root'')) of
        Inl e \<Rightarrow> Inl (OtherError (pathErrorText e))
      | Inr root \<Rightarrow> Inr root)"

definition readSessionFiles :: "route_env \<Rightarrow> session_request \<Rightarrow> session_record \<Rightarrow> response handler" where
  "readSessionFiles env rq rec =
     andThen (requireAwakeRuntime rec ''browse files in'') (\<lambda>(inst, epoch).
     let path = nullish (query rq ''path'') [] in
     catching
       (andThen (orFail (workspaceRoot rq)) (\<lambda>root.
        if query rq ''download'' = Some ''1'' then
          andThen (ask (DownloadFile (ir_id inst) epoch path root) the_value) (\<lambda>d.
          return (RDownload (workspaceDownloadDisposition (re_encode env)
            (nullish (the_str (fieldOf d ''path'')) [])) d))
        else andThen (if query rq ''read'' = Some ''1''
            then ask (ReadFile (ir_id inst) epoch path root) the_value
            else ask (ListDirectory (ir_id inst) epoch path root) the_value) (\<lambda>v.
          return (RJson 200 v))))
       (\<lambda>e. raise (fileRequestError e)))"

definition MAX_ARTIFACT_UPLOAD_BYTES :: nat where
  "MAX_ARTIFACT_UPLOAD_BYTES = 10 * 1024 * 1024"

definition encodeBase64 :: "8 word list \<Rightarrow> string" where
  "encodeBase64 bytes = base64Of (map unat bytes)"

definition requireArtifactsRoot :: "session_request \<Rightarrow> string \<Rightarrow> unit handler" where
  "requireArtifactsRoot rq what =
     (case workspaceRoot rq of
        Inl e \<Rightarrow> raise (fileRequestError e)
      | Inr root \<Rightarrow> require (root = Artifacts) (HttpError 400
          (''Only the artifacts directory accepts '' @ what @ ''; the checkout is the agent's to change'')))"

definition writeSessionFile :: "route_env \<Rightarrow> session_request \<Rightarrow> session_record \<Rightarrow> response handler" where
  "writeSessionFile env rq rec =
     andThen (requireArtifactsRoot rq ''uploads'') (\<lambda>_.
     andThen (require (truthy_str (sq_filePath rq)) (HttpError 400 ''An x-file-path header is required'')) (\<lambda>_.
     case re_decode env (the (sq_filePath rq)) of
       None \<Rightarrow> raise (HttpError 400 ''Invalid path'')
     | Some path \<Rightarrow>
         andThen (require (length (sq_bytes rq) \<le> MAX_ARTIFACT_UPLOAD_BYTES)
           (HttpError 413 ''Files up to 10 MB can be uploaded here'')) (\<lambda>_.
         andThen (requireAwakeRuntime rec ''upload a file to'') (\<lambda>(inst, epoch).
         catching
           (andThen (ask (WriteArtifact (ir_id inst) epoch path (encodeBase64 (sq_bytes rq))) the_value)
             (\<lambda>v. return (RJson 201 v)))
           (\<lambda>e. raise (fileRequestError e))))))"

definition deleteSessionFile :: "session_request \<Rightarrow> session_record \<Rightarrow> response handler" where
  "deleteSessionFile rq rec =
     andThen (requireArtifactsRoot rq ''deletions'') (\<lambda>_.
     andThen (requireAwakeRuntime rec ''delete a file from'') (\<lambda>(inst, epoch).
     catching
       (andThen (ask (DeleteArtifact (ir_id inst) epoch (nullish (query rq ''path'') [])) the_value)
         (\<lambda>v. return (RJson 200 v)))
       (\<lambda>e. raise (fileRequestError e))))"

section \<open>Events and transcript\<close>

definition streamSessionEvents :: "session_record \<Rightarrow> string option \<Rightarrow> response handler" where
  "streamSessionEvents rec child =
     (let watched = (case child of None \<Rightarrow> sr_opencodeSessionId rec | Some c \<Rightarrow> Some c) in
      if \<not> truthy_str watched then return (RClosedStream SSPending None)
      else andThen (getInstance (sr_instanceId rec)) (\<lambda>inst.
        case inst of
          None \<Rightarrow> return (RClosedStream SSSleeping watched)
        | Some i \<Rightarrow>
            if ir_lifecycle i \<noteq> Ready then return (RClosedStream SSSleeping watched)
            else andThen (resolveRunningRuntimeEpoch rec) (\<lambda>epoch.
              if \<not> truthy_str epoch then return (RClosedStream SSSleeping watched)
              else andThen (ask (StreamEvents (ir_id i) (the epoch) (sessionDirectory rec)) the_stream)
                (\<lambda>(ok, body, status).
                if ok \<and> body then return (RLiveStream (the watched))
                else andThen (isRuntimeGoneError rec (the epoch)) (\<lambda>gone.
                  return (RClosedStream (if gone then SSSleeping else SSError status) watched))))))"

text \<open>The mirror of the session's current conversation; a failing read counts as none.\<close>

definition readTranscriptMirrorFor :: "session_record \<Rightarrow> (string \<times> json list) option handler" where
  "readTranscriptMirrorFor rec =
     catching
       (andThen (dbRead (\<lambda>w. getTranscriptMirror (hw_bucket w) (sr_id rec))) (\<lambda>r.
          case r of
            Inl _ \<Rightarrow> raise (OtherError ''Invalid time value'')
          | Inr None \<Rightarrow> return None
          | Inr (Some m) \<Rightarrow>
              return (if Some (tm_opencodeSessionId m) \<noteq> sr_opencodeSessionId rec then None
                      else Some (tm_mirroredAt m, tm_messages m))))
       (\<lambda>_. return None)"

definition withMirror ::
  "session_transcript \<Rightarrow> (string \<times> json list) option \<Rightarrow> session_transcript" where
  "withMirror t mirrored =
     (case mirrored of
        None \<Rightarrow> t
      | Some (at, messages) \<Rightarrow>
          t\<lparr>tr_source := FromMirror, tr_mirroredAt := Some at, tr_messages := messages\<rparr>)"

definition readSessionTranscript ::
  "route_env \<Rightarrow> session_record \<Rightarrow> string option \<Rightarrow> session_transcript handler" where
  "readSessionTranscript env rec child =
     (let target = (case child of None \<Rightarrow> sr_opencodeSessionId rec | Some c \<Rightarrow> Some c);
          base = \<lparr>tr_sessionId = sr_id rec,
            tr_opencodeSessionId = (if truthy_str target then target else None), tr_state = TPending,
            tr_source = FromNone, tr_observedAt = re_now env, tr_mirroredAt = None, tr_messages = [],
            tr_error = None\<rparr>;
          asleep = (if truthy_str child then return (base\<lparr>tr_state := TSleeping\<rparr>)
            else andThen (readTranscriptMirrorFor rec) (\<lambda>mirrored.
              return (withMirror (base\<lparr>tr_state := TSleeping\<rparr>) mirrored)))
      in if \<not> truthy_str target then return base
         else andThen (getInstance (sr_instanceId rec)) (\<lambda>inst.
           case inst of
             None \<Rightarrow> asleep
           | Some i \<Rightarrow>
               if ir_lifecycle i \<noteq> Ready then asleep
               else andThen (resolveRunningRuntimeEpoch rec) (\<lambda>epoch.
                 if \<not> truthy_str epoch then asleep
                 else catching
                   (andThen (ask (ReadMessages (ir_id i) (the epoch) (the target) (sessionDirectory rec))
                      the_messages) (\<lambda>messages.
                    return (base\<lparr>tr_state := TLive, tr_source := FromContainer, tr_messages := messages\<rparr>)))
                   (\<lambda>e. andThen (isRuntimeGoneError rec (the epoch)) (\<lambda>gone.
                      if gone then asleep
                      else andThen (if truthy_str child then return None else readTranscriptMirrorFor rec)
                        (\<lambda>mirrored. return (withMirror
                          (base\<lparr>tr_state := TError, tr_error := Some (failureMessage e)\<rparr>) mirrored)))))))"

section \<open>The routes\<close>

text \<open>One or two segments below a prefix, neither of them empty.\<close>

definition routeSegments :: "string \<Rightarrow> string \<Rightarrow> (string \<times> string option) option" where
  "routeSegments p path =
     (if \<not> starts_with path p then None
      else case split_on (CHR ''/'') (drop (length p) path) of
        [a] \<Rightarrow> if a = [] then None else Some (a, None)
      | [a, b] \<Rightarrow> if a = [] \<or> b = [] then None else Some (a, Some b)
      | _ \<Rightarrow> None)"

definition decodeRouteSegment :: "route_env \<Rightarrow> string \<Rightarrow> failure + string" where
  "decodeRouteSegment env s =
     (case re_decode env s of None \<Rightarrow> Inl (HttpError 400 ''Malformed route'') | Some d \<Rightarrow> Inr d)"

definition listSessions :: "route_env \<Rightarrow> session_request \<Rightarrow> response handler" where
  "listSessions env rq =
     andThen (dbRead (\<lambda>w. listRegistry (readListLimit (re_number env) rq) (hw_registry w))) (\<lambda>entries.
     andThen (forEach (getSessionListView env) entries) (\<lambda>views. return (RViews views)))"

definition deleteSession :: "route_env \<Rightarrow> session_record \<Rightarrow> response handler" where
  "deleteSession env rec =
     andThen (ask (MarkAgentDeleted (sr_id rec)) anything) (\<lambda>_.
     andThen (beginDeleteCall (re_operation env) (sr_instanceId rec) (re_now env)) (\<lambda>deleting.
     case deleting of
       None \<Rightarrow> raise (HttpError 404 ''Session instance not found'')
     | Some inst \<Rightarrow> return (RDeleting (sr_id rec) (ir_deleteOperationId inst))))"

definition sessionAction ::
  "(string \<Rightarrow> millis option) \<Rightarrow> route_env \<Rightarrow> session_request \<Rightarrow> session_record \<Rightarrow> string \<Rightarrow>
     string option \<Rightarrow> response handler" where
  "sessionAction stamp env rq rec action child =
     (let verb = sq_method rq in
      if action = ''messages'' then
        (if verb = ''GET'' then
           andThen (readSessionTranscript env rec child) (\<lambda>t. return (RTranscript t))
         else if verb = ''POST'' then
           (if truthy_str child then raise (HttpError 400 ''Subagent sessions are read-only'')
            else sendSessionPrompt env rq rec)
         else return (RNotAllowed ''GET, POST''))
      else if action = ''changes'' then
        (if verb \<noteq> ''GET'' then return (RNotAllowed ''GET'') else readSessionChangesRoute rq rec)
      else if action = ''events'' then
        (if verb \<noteq> ''GET'' then return (RNotAllowed ''GET'') else streamSessionEvents rec child)
      else if action = ''agent-session'' then
        (if verb \<noteq> ''GET'' then return (RNotAllowed ''GET'') else readAgentSession rec child)
      else if action = ''questions'' then
        (if verb = ''GET'' then readPendingQuestions rec
         else if verb = ''POST'' then actOnQuestion env rq rec
         else return (RNotAllowed ''GET, POST''))
      else if action = ''files'' then
        (if verb = ''GET'' then readSessionFiles env rq rec
         else if verb = ''POST'' then writeSessionFile env rq rec
         else if verb = ''DELETE'' then deleteSessionFile rq rec
         else return (RNotAllowed ''GET, POST, DELETE''))
      else if action = ''read'' then
        (if verb \<noteq> ''POST'' then return (RNotAllowed ''POST'') else acknowledgeSessionRead stamp env rq rec)
      else if verb \<noteq> ''POST'' then return (RNotAllowed ''POST'')
      else if action = ''abort'' then abortSession env rec
      else if action = ''wake'' then wakeSession env rec
      else if action \<noteq> ''retry'' then raise (HttpError 404 ''Session action not found'')
      else retrySessionRoute env rec)"

definition handleSessionApi ::
  "(string \<Rightarrow> millis option) \<Rightarrow> route_env \<Rightarrow> session_request \<Rightarrow> response handler" where
  "handleSessionApi stamp env rq =
     (let verb = sq_method rq in
      if sq_path rq = ''/api/sessions'' then
        (if verb = ''GET'' then listSessions env rq
         else if verb = ''POST'' then createSession env rq
         else return (RNotAllowed ''GET, POST''))
      else case routeSegments ''/api/sessions/'' (sq_path rq) of
        None \<Rightarrow> raise (HttpError 404 ''Session API route not found'')
      | Some (segment, action) \<Rightarrow>
          andThen (orFail (decodeRouteSegment env segment)) (\<lambda>i.
          andThen (requireSession i) (\<lambda>rec.
          case action of
            None \<Rightarrow>
              (if verb = ''GET'' then
                 andThen (getSessionView env rec None) (\<lambda>view. return (RView 200 view))
               else if verb = ''PATCH'' then patchSession env rq rec
               else if verb = ''DELETE'' then deleteSession env rec
               else return (RNotAllowed ''GET, PATCH, DELETE''))
          | Some action \<Rightarrow>
              andThen (orFail (readChildSessionId rq)) (\<lambda>child.
              sessionAction stamp env rq rec action child))))"

end
