(* ===== verification/Instance_Routes.thy ===== *)
theory Instance_Routes
  imports Session_Handlers
begin

text \<open>
  The instance API, \<open>src/api-instances.ts\<close>: the operator's view of one container. It is the
  other place from which a container can be started.
\<close>

datatype instance_response =
    IViews "(instance_record \<times> runtime_view) list"
  | IView "instance_record \<times> runtime_view"
  | IDeleting string "string option"
  | IRuntime runtime_view
  | IValue json
  | IUnavailable string string
  | INotAllowed string

definition listInstances :: "registry \<Rightarrow> instance_record list" where
  "listInstances db = map snd (listRegistry None db)"

definition getInstanceView :: "instance_record \<Rightarrow> (instance_record \<times> runtime_view) handler" where
  "getInstanceView rec = andThen (instanceRuntime rec) (\<lambda>rt. return (rec, rt))"

text \<open>\<open>try m finally f\<close>.\<close>

definition finallyDo :: "'v handler \<Rightarrow> 'u handler \<Rightarrow> 'v handler" where
  "finallyDo m f =
     andThen (catching (andThen m (\<lambda>v. return (Inr v))) (\<lambda>e. return (Inl e))) (\<lambda>r.
     andThen f (\<lambda>_. orFail r))"

definition instanceAction :: "route_env \<Rightarrow> instance_record \<Rightarrow> string \<Rightarrow> instance_response handler" where
  "instanceAction env rec action =
     (let i = ir_id rec; provider = ir_provider rec in
      if action = ''wake'' then
        andThen (ignoring (writeRow (WriteStatusQuery i) (re_now env))) (\<lambda>_.
        andThen (wakeInstance rec) (\<lambda>(epoch, status).
        andThen (getMergedRuntimeStatus i status) (\<lambda>rt. return (IRuntime rt))))
      else if action = ''checkpoint'' then
        andThen (ensureLifecycle i provider) (\<lambda>runtime.
        if \<not> st_admissionOpen runtime then
          andThen (ask (ReadPersistence i) the_value) (\<lambda>v. return (IValue v))
        else if \<not> truthy_str (st_runtimeEpoch runtime)
          then raise (HttpError 409 ''Running lifecycle has no runtime epoch'')
        else andThen (ask (CheckpointWorkspace i (the (st_runtimeEpoch runtime))) the_value) (\<lambda>v.
          return (IValue v)))
      else if action = ''stop'' then
        andThen (ensureLifecycle i provider) (\<lambda>_.
        andThen (ignoring (writeRow (WriteStatusQuery i) (re_now env))) (\<lambda>_.
        andThen (ask (ForceStop i) anything) (\<lambda>_.
        andThen (getInstanceView rec) (\<lambda>view. return (IView view)))))
      else if action = ''test'' then
        andThen (wakeInstance rec) (\<lambda>(epoch, status).
        andThen (ask (BeginWork i epoch) the_lease) (\<lambda>lease.
        case lease of
          Inr (reason, phase) \<Rightarrow> return (IUnavailable reason phase)
        | Inl leaseId \<Rightarrow>
            finallyDo (andThen (ask (RunSdkTest i epoch) the_value) (\<lambda>v. return (IValue v)))
              (ask (EndWork i epoch leaseId) anything)))
      else raise (HttpError 404 ''Instance action not found''))"

definition handleHubApi :: "route_env \<Rightarrow> session_request \<Rightarrow> instance_response handler" where
  "handleHubApi env rq =
     (let verb = sq_method rq in
      if sq_path rq = ''/api/instances'' then
        (if verb \<noteq> ''GET'' then return (INotAllowed ''GET'')
         else andThen (dbRead (\<lambda>w. listInstances (hw_registry w))) (\<lambda>records.
           andThen (forEach getInstanceView records) (\<lambda>views. return (IViews views))))
      else case routeSegments ''/api/instances/'' (sq_path rq) of
        None \<Rightarrow> raise (HttpError 404 ''Instance API route not found'')
      | Some (segment, action) \<Rightarrow>
          andThen (orFail (decodeRouteSegment env segment)) (\<lambda>i.
          case action of
            None \<Rightarrow>
              (if verb = ''GET'' then
                 andThen (requireInstance i) (\<lambda>rec.
                 andThen (getInstanceView rec) (\<lambda>view. return (IView view)))
               else if verb = ''DELETE'' then
                 andThen (beginDeleteCall (re_operation env) i (re_now env)) (\<lambda>deleting.
                 case deleting of
                   None \<Rightarrow> raise (HttpError 404 ''Instance not found'')
                 | Some inst \<Rightarrow> return (IDeleting i (ir_deleteOperationId inst)))
               else return (INotAllowed ''GET, DELETE''))
          | Some action \<Rightarrow>
              (if verb \<noteq> ''POST'' then return (INotAllowed ''POST'')
               else andThen (requireReadyInstance i) (\<lambda>rec. instanceAction env rec action))))"

section \<open>Uploads\<close>

datatype upload_response = UStored attachment_ref | UDeleted | UNotAllowed string

text \<open>One operation on the bucket, which may also fail after it was done.\<close>

definition bucketWrite :: "(bucket \<Rightarrow> failure + ('v \<times> bucket)) \<Rightarrow> 'v handler" where
  "bucketWrite f = call (\<lambda>a w.
     case f (hw_bucket w) of
       Inl e \<Rightarrow> (Inl e, w)
     | Inr (v, b) \<Rightarrow>
         (case a of
            Threw m \<Rightarrow> (Inl (OtherError m), w)
          | ThrewAfter m \<Rightarrow> (Inl (OtherError m), w\<lparr>hw_bucket := b\<rparr>)
          | _ \<Rightarrow> (Inr v, w\<lparr>hw_bucket := b\<rparr>)))"

definition handleUploadsApi ::
  "route_env \<Rightarrow> session_request \<Rightarrow> upload_request \<Rightarrow> upload_response handler" where
  "handleUploadsApi env rq up =
     (if sq_path rq = ''/api/uploads'' then
        (if sq_method rq = ''POST'' then
           andThen (bucketWrite (createUpload (re_uuid env) (re_now env) up)) (\<lambda>ref. return (UStored ref))
         else return (UNotAllowed ''POST''))
      else case routeSegments ''/api/uploads/'' (sq_path rq) of
        Some (uploadId, None) \<Rightarrow>
          (if sq_method rq \<noteq> ''DELETE'' then return (UNotAllowed ''DELETE'')
           else andThen (bucketWrite (\<lambda>b. map_sum id (Pair ()) (deleteUpload uploadId b)))
             (\<lambda>_. return UDeleted))
      | _ \<Rightarrow> raise (HttpError 404 ''Upload API route not found''))"

end
