(* ===== verification/Program_Rules.thy ===== *)
theory Program_Rules
  imports Effects
begin

text \<open>
  What a program of \<open>Effects\<close> keeps whatever its calls answer, by one rule for each form a program
  has, so that a fact about a handler is proved along its text.
\<close>

section \<open>What a program keeps\<close>

text \<open>Started where \<open>I\<close> holds, the program keeps it everywhere, and returns only what satisfies \<open>R\<close>.\<close>

definition yields :: "('w \<Rightarrow> bool) \<Rightarrow> ('v \<Rightarrow> bool) \<Rightarrow> ('w, 'a, 'e, 'v) program \<Rightarrow> bool" where
  "yields I R m = (\<forall>w. I w \<longrightarrow> wp m (\<lambda>v w'. I w' \<and> R v) (\<lambda>_. I) I w)"

lemma yieldsI: "(\<And>w. I w \<Longrightarrow> wp m (\<lambda>v w'. I w' \<and> R v) (\<lambda>_. I) I w) \<Longrightarrow> yields I R m"
  by (simp add: yields_def)

lemma yieldsD: "yields I R m \<Longrightarrow> I w \<Longrightarrow> wp m (\<lambda>v w'. I w' \<and> R v) (\<lambda>_. I) I w"
  by (simp add: yields_def)

lemma yields_return: "R v \<Longrightarrow> yields I R (return v)"
  by (simp add: yields_def)

lemma yields_raise: "yields I R (raise e)"
  by (simp add: yields_def)

lemma yields_andThen:
  assumes "yields I P m" and "\<And>v. P v \<Longrightarrow> yields I R (f v)"
  shows "yields I R (andThen m f)"
proof (rule yieldsI)
  fix w assume "I w"
  from yieldsD[OF assms(1) this] show "wp (andThen m f) (\<lambda>v w'. I w' \<and> R v) (\<lambda>_. I) I w"
    by (intro wp_andThen, elim wp_mono) (auto dest: yieldsD[OF assms(2)])
qed

lemma yields_catching:
  assumes "yields I R m" and "\<And>e. yields I R (h e)"
  shows "yields I R (catching m h)"
proof (rule yieldsI)
  fix w assume "I w"
  from yieldsD[OF assms(1) this] show "wp (catching m h) (\<lambda>v w'. I w' \<and> R v) (\<lambda>_. I) I w"
    by (intro wp_catching, elim wp_mono) (auto dest: yieldsD[OF assms(2)])
qed

lemma yields_call:
  assumes "\<And>a w. I w \<Longrightarrow> I (snd (f a w)) \<and> (\<forall>v. fst (f a w) = Inr v \<longrightarrow> R v)"
  shows "yields I R (call f)"
proof (rule yieldsI)
  fix w assume w: "I w"
  have "case f a w of (Inl e, w') \<Rightarrow> I w' | (Inr v, w') \<Rightarrow> I w' \<and> R v" for a
    using assms[OF w, of a] by (auto split: prod.split sum.split)
  with w show "wp (call f) (\<lambda>v w'. I w' \<and> R v) (\<lambda>_. I) I w" by simp
qed

lemma yields_mono: "yields I P m \<Longrightarrow> (\<And>v. P v \<Longrightarrow> R v) \<Longrightarrow> yields I R m"
  unfolding yields_def by (blast intro: wp_mono)

lemma yields_forEach:
  assumes "\<And>x. x \<in> set xs \<Longrightarrow> yields I (\<lambda>_. True) (f x)"
  shows "yields I (\<lambda>_. True) (forEach f xs)"
  using assms
proof (induction xs)
  case (Cons x xs)
  then show ?case by (auto intro!: yields_andThen[where P="\<lambda>_. True"] yields_return)
qed (simp add: yields_return)

text \<open>Branches, one rule for each form.\<close>

lemma yields_if:
  "(c \<Longrightarrow> yields I R m) \<Longrightarrow> (\<not> c \<Longrightarrow> yields I R n) \<Longrightarrow> yields I R (if c then m else n)"
  by simp

lemma yields_pair: "(\<And>a c. p = (a, c) \<Longrightarrow> yields I R (f a c)) \<Longrightarrow> yields I R (case p of (a, c) \<Rightarrow> f a c)"
  by (cases p) simp

lemma yields_option:
  "(x = None \<Longrightarrow> yields I R m) \<Longrightarrow> (\<And>a. x = Some a \<Longrightarrow> yields I R (f a)) \<Longrightarrow>
     yields I R (case x of None \<Rightarrow> m | Some a \<Rightarrow> f a)"
  by (cases x) auto

lemma yields_sum:
  "(\<And>a. x = Inl a \<Longrightarrow> yields I R (f a)) \<Longrightarrow> (\<And>c. x = Inr c \<Longrightarrow> yields I R (g c)) \<Longrightarrow>
     yields I R (case x of Inl a \<Rightarrow> f a | Inr c \<Rightarrow> g c)"
  by (cases x) auto

lemma yields_run:
  assumes "yields I R m" and "I w" and "m w as = (r, w', as')"
  shows "I w'" and "r = Returned v \<Longrightarrow> R v"
  using wp_run[OF yieldsD[OF assms(1,2)] assms(3)] by (cases r; simp)+

lemmas program_rules = yields_return yields_raise yields_andThen[where P="\<lambda>_. True"] yields_catching
  yields_forEach yields_if yields_pair yields_option yields_sum

end
