(* ===== verification/Session_Routes_Properties.thy ===== *)
theory Session_Routes_Properties
  imports Instance_Routes Program_Rules
begin

text \<open>
  What the session and instance routes guarantee whatever their calls answer: which requests
  can start a container, what a request must have passed before an agent is told anything, and
  whose history a reader is shown.
\<close>

section \<open>Policies on the calls a request makes\<close>

text \<open>
  Two facts followed through a request: that the bucket is what it was, and that every call it
  has made is allowed. A policy may forbid only calls that start a container.
\<close>

definition within :: "bucket \<Rightarrow> (remote \<Rightarrow> bool) \<Rightarrow> hub_world \<Rightarrow> bool" where
  "within b allowed w = (hw_bucket w = b \<and> (\<forall>r \<in> set (hw_calls w). allowed r))"

lemma built_repo: "buildNewSession uuid name inp cat now = Inr session \<Longrightarrow> ns_repo session = ni_repo inp"
  by (auto simp: buildNewSession_def Let_def split: if_splits)

locale call_policy =
  fixes allowed :: "remote \<Rightarrow> bool" and b :: bucket
  assumes passive_allowed: "\<not> starts_container r \<Longrightarrow> allowed r"
begin

abbreviation keeps :: "'v handler \<Rightarrow> bool" where
  "keeps m \<equiv> yields (within b allowed) (\<lambda>_. True) m"

lemma ask_kept: "allowed r \<Longrightarrow> keeps (ask r pick)"
  unfolding ask_def by (rule yields_call) (auto simp: within_def)

lemma passive_ask: "\<not> starts_container r \<Longrightarrow> keeps (ask r pick)"
  by (intro ask_kept passive_allowed)

lemma config_kept: "yields (within b allowed) (\<lambda>x. x = v) (readConfig v)"
  unfolding readConfig_def
  by (rule yields_call) (auto simp: answered_def split: reply.splits)

lemma hosts_kept: "keeps hostsSetting"
  unfolding hostsSetting_def by (rule yields_call) auto

lemma dbRead_value: "(\<And>w. within b allowed w \<Longrightarrow> R (f w)) \<Longrightarrow> yields (within b allowed) R (dbRead f)"
  unfolding dbRead_def
  by (rule yields_call) (auto simp: answered_def split: reply.splits)

lemma dbRead_kept: "keeps (dbRead f)"
  by (rule dbRead_value) simp

lemma dbWrite_kept: "keeps (dbWrite g f)"
  unfolding dbWrite_def by (rule yields_call) (auto simp: within_def split: reply.splits)

lemma orFail_value: "(\<And>v. r = Inr v \<Longrightarrow> R v) \<Longrightarrow> yields (within b allowed) R (orFail r)"
  by (cases r) (auto simp: orFail_def intro: yields_return yields_raise)

lemma require_value: "yields (within b allowed) (\<lambda>_. c) (require c e)"
  by (auto simp: require_def intro: yields_return yields_raise)

lemma ensureRegistered_kept: "keeps (ensureRegisteredCall i)"
  unfolding ensureRegisteredCall_def
  by (rule yields_call)
    (auto simp: within_def Let_def passive_allowed split: reply.splits option.splits)

lemma ignoring_kept: "keeps m \<Longrightarrow> keeps (ignoring m)"
  unfolding ignoring_def by (intro program_rules) auto

lemmas kept = program_rules passive_ask hosts_kept dbRead_kept dbWrite_kept
  ensureRegistered_kept ignoring_kept

lemma config_kept': "keeps (readConfig v)"
  by (rule yields_mono[OF config_kept]) simp

lemma orFail_kept: "keeps (orFail r)"
  by (rule orFail_value) simp

lemma require_kept: "keeps (require c e)"
  by (rule yields_mono[OF require_value]) simp

lemma registry_kept: "keeps (getSession i)" "keeps (getInstance i)" "keeps (writeRow x now)"
  by (simp_all add: getSession_def getInstance_def writeRow_def dbRead_kept dbWrite_kept)

lemma beginDelete_kept: "keeps (beginDeleteCall op i now)"
  unfolding beginDeleteCall_def by (intro kept) (auto split: option.split intro!: kept)

lemma ensureLifecycle_kept: "keeps (ensureLifecycle i provider)"
  unfolding ensureLifecycle_def
  by (intro kept) (auto split: option.split intro!: kept)

lemma instanceRuntime_kept: "keeps (instanceRuntime rec)"
  unfolding instanceRuntime_def cleanedRuntimeStatus_def getMergedRuntimeStatus_def
  by (auto intro!: kept ensureLifecycle_kept)

lemma markSessionLost_kept: "keeps (markSessionLost env rec at)"
  unfolding markSessionLost_def Let_def by (auto intro!: kept)

lemma getSessionView_kept: "keeps (getSessionView env rec given)"
  unfolding getSessionView_def
  by (auto intro!: kept registry_kept instanceRuntime_kept markSessionLost_kept split: option.split)

lemma getSessionListView_kept: "keeps (getSessionListView env p)"
  unfolding getSessionListView_def
  by (auto intro!: kept getSessionView_kept split: option.split prod.split)

lemma requireSession_kept: "keeps (requireSession i)"
  unfolding requireSession_def
  by (auto intro!: kept registry_kept split: option.split)

lemma freshView_kept: "keeps (freshView env i)"
  unfolding freshView_def by (auto intro!: kept requireSession_kept getSessionView_kept)

lemma requireInstance_kept: "keeps (requireInstance i)"
  unfolding requireInstance_def by (auto intro!: kept registry_kept split: option.split)

lemma requireReadyInstance_kept: "keeps (requireReadyInstance i)"
  unfolding requireReadyInstance_def by (auto intro!: kept requireInstance_kept)

lemma epoch_kept: "keeps (resolveRunningRuntimeEpoch rec)"
  unfolding resolveRunningRuntimeEpoch_def by (auto intro!: kept ensureLifecycle_kept)

lemma gone_kept: "keeps (isRuntimeGoneError rec epoch)"
  unfolding isRuntimeGoneError_def by (auto intro!: kept epoch_kept)

lemma awake_kept: "keeps (requireAwakeRuntime rec intent)"
  unfolding requireAwakeRuntime_def by (auto intro!: kept registry_kept epoch_kept split: option.split)

lemma repository_kept: "keeps (requireRepository rec intent)"
  unfolding requireRepository_def by (rule require_kept)

lemma requireReady_kept: "keeps (requireReady inst m)"
  unfolding requireReady_def by (auto intro!: kept split: option.split)

lemma artifactsRoot_kept: "keeps (requireArtifactsRoot rq what)"
  unfolding requireArtifactsRoot_def by (auto intro!: kept require_kept split: sum.split)

lemma mirror_kept: "keeps (readTranscriptMirrorFor rec)"
  unfolding readTranscriptMirrorFor_def by (auto intro!: kept split: sum.split option.split)

lemma claim_kept: "yields (within b allowed) (\<lambda>refs. claimAttachmentUploads b ks = Inr refs) (claim ks)"
  unfolding claim_def
proof (rule yields_andThen)
  show "yields (within b allowed) (\<lambda>r. r = claimAttachmentUploads b ks)
      (dbRead (\<lambda>w. claimAttachmentUploads (hw_bucket w) ks))"
    by (rule dbRead_value) (simp add: within_def)
qed (rule orFail_value, simp)

lemmas parts_kept = kept registry_kept require_kept orFail_kept config_kept' requireSession_kept freshView_kept
  getSessionView_kept awake_kept gone_kept epoch_kept repository_kept artifactsRoot_kept mirror_kept

text \<open>Every handler but the four that carry an intent.\<close>

lemma reads_kept:
  "keeps (readSessionChangesRoute rq rec)" "keeps (readAgentSession rec child)"
  "keeps (readPendingQuestions rec)" "keeps (streamSessionEvents rec child)"
  "keeps (readSessionFiles env rq rec)" "keeps (readSessionTranscript env rec child)"
  by (auto simp: readSessionChangesRoute_def readAgentSession_def readPendingQuestions_def Let_def
      streamSessionEvents_def readSessionFiles_def readSessionTranscript_def
      intro!: parts_kept split: option.split)

lemma edits_kept:
  "keeps (acknowledgeSessionRead stamp env rq rec)" "keeps (patchSession env rq rec)"
  "keeps (actOnQuestion env rq rec)" "keeps (abortSession env rec)" "keeps (writeSessionFile env rq rec)"
  "keeps (deleteSessionFile rq rec)" "keeps (deleteSession env rec)" "keeps (listSessions env rq)"
  by (auto simp: acknowledgeSessionRead_def patchSession_def actOnQuestion_def abortSession_def Let_def
      writeSessionFile_def deleteSessionFile_def deleteSession_def listSessions_def when_given_def
      intro!: parts_kept beginDelete_kept getSessionListView_kept
      split: option.split json.split bool.split question_action.split)

text \<open>The handlers that carry an intent, and what they have established before their call.\<close>

lemma choice_kept:
  "yields (within b allowed) (\<lambda>r. r = (if c then v else None)) (if c then readConfig v else return None)"
  by (auto intro: config_kept yields_return)

lemma createSession_kept:
  assumes "\<And>inp refs session.
      checkCreate (re_catalog env) (listSessionProviders (re_hosts env)) (sq_body rq) = Inr inp \<Longrightarrow>
      claimAttachmentUploads b (ci_keys inp) = Inr refs \<Longrightarrow>
      buildNewSession (re_uuid env) (re_name env)
        \<lparr>ni_repo = (if truthy_str (ci_repoKey inp) then re_repo env (the (ci_repoKey inp)) else None),
         ni_provider = Some (ci_provider inp), ni_model = ci_model inp, ni_variant = ci_variant inp,
         ni_title = deriveSessionTitle (re_ellipsis env) (ci_prompt inp)\<rparr>
        (re_catalog env) (re_now env) = Inr session \<Longrightarrow>
      (truthy_str (ci_repoKey inp) \<Longrightarrow> ns_repo session \<noteq> None) \<Longrightarrow>
      allowed (StartSession (startInput env session inp refs))"
  shows "keeps (createSession env rq)"
  unfolding createSession_def
  by (rule yields_andThen[OF config_kept], rule yields_andThen[OF config_kept],
      rule yields_andThen[OF orFail_value], assumption, rule yields_andThen[OF claim_kept],
      rule yields_andThen[OF choice_kept], rule yields_andThen[OF require_value])
    (auto split: sum.split intro!: program_rules ask_kept assms dest: built_repo)

lemma sendSessionPrompt_kept:
  assumes "\<And>inp refs. checkSend (re_catalog env) (sq_body rq) = Inr inp \<Longrightarrow>
      claimAttachmentUploads b (xi_keys inp) = Inr refs \<Longrightarrow> sr_phase rec \<noteq> Lost \<Longrightarrow>
      allowed (QueuePrompt (sr_id rec)
         \<lparr>qi_prompt = xi_prompt inp, qi_model = xi_model inp, qi_variant = xi_variant inp,
          qi_promptId = Some (nullish (xi_promptId inp) (re_promptUuid env)), qi_attachments = refs\<rparr>)"
  shows "keeps (sendSessionPrompt env rq rec)"
  unfolding sendSessionPrompt_def
  by (rule yields_andThen[OF config_kept], simp, rule yields_andThen[OF orFail_value], assumption,
      rule yields_andThen[OF claim_kept], rule yields_andThen[OF require_value])
    (intro parts_kept requireReady_kept ask_kept assms TrueI, assumption+)

lemma wakeInstance_kept: "allowed (WakeInstance (ir_id rec)) \<Longrightarrow> keeps (wakeInstance rec)"
  unfolding wakeInstance_def
  by (auto intro!: kept ensureLifecycle_kept ask_kept split: sum.split wake_error.split)

lemma wakeSession_kept: "(\<And>i. allowed (WakeInstance i)) \<Longrightarrow> keeps (wakeSession env rec)"
  unfolding wakeSession_def by (intro parts_kept requireReady_kept wakeInstance_kept TrueI) auto

lemma retrySession_kept: "allowed (RetrySession (sr_id rec)) \<Longrightarrow> keeps (retrySessionRoute env rec)"
  unfolding retrySessionRoute_def by (intro parts_kept ask_kept TrueI)

text \<open>The routes: the four handlers are all there is to check of a policy.\<close>

lemma sessionAction_kept:
  assumes "action = ''messages'' \<Longrightarrow> sq_method rq = ''POST'' \<Longrightarrow> \<not> truthy_str child \<Longrightarrow>
      keeps (sendSessionPrompt env rq rec)"
    and "action = ''wake'' \<Longrightarrow> sq_method rq = ''POST'' \<Longrightarrow> keeps (wakeSession env rec)"
    and "action = ''retry'' \<Longrightarrow> sq_method rq = ''POST'' \<Longrightarrow> keeps (retrySessionRoute env rec)"
  shows "keeps (sessionAction stamp env rq rec action child)"
  using assms unfolding sessionAction_def Let_def
  by (auto intro!: program_rules reads_kept edits_kept)

lemma handleSessionApi_kept:
  assumes create: "sq_path rq = ''/api/sessions'' \<Longrightarrow> sq_method rq = ''POST'' \<Longrightarrow> keeps (createSession env rq)"
    and act: "\<And>s a rec child. sq_path rq \<noteq> ''/api/sessions'' \<Longrightarrow>
      routeSegments ''/api/sessions/'' (sq_path rq) = Some (s, Some a) \<Longrightarrow>
      readChildSessionId rq = Inr child \<Longrightarrow> keeps (sessionAction stamp env rq rec a child)"
  shows "keeps (handleSessionApi stamp env rq)"
proof (cases "sq_path rq = ''/api/sessions''")
  case True
  with create show ?thesis
    by (auto simp: handleSessionApi_def Let_def intro!: program_rules edits_kept)
next
  case path: False
  show ?thesis
  proof (cases "routeSegments ''/api/sessions/'' (sq_path rq)")
    case None
    with path show ?thesis by (simp add: handleSessionApi_def Let_def yields_raise)
  next
    case (Some p)
    obtain s action where p: "p = (s, action)" by fastforce
    show ?thesis
    proof (cases action)
      case None
      with path Some p show ?thesis
        by (auto simp: handleSessionApi_def Let_def
            intro!: program_rules orFail_kept requireSession_kept getSessionView_kept edits_kept)
    next
      case a: (Some a)
      have "keeps (andThen (orFail (readChildSessionId rq)) (sessionAction stamp env rq rec a))" for rec
        using act[OF path] Some p a by (intro yields_andThen[OF orFail_value]) auto
      with path Some p a show ?thesis
        by (simp add: handleSessionApi_def Let_def program_rules orFail_kept requireSession_kept)
    qed
  qed
qed

lemma finallyDo_kept: "keeps m \<Longrightarrow> keeps f \<Longrightarrow> keeps (finallyDo m f)"
  unfolding finallyDo_def by (intro kept orFail_kept TrueI)

lemma merged_kept: "keeps (getMergedRuntimeStatus i ls)"
  unfolding getMergedRuntimeStatus_def by (intro kept TrueI) simp

lemma instanceView_kept: "keeps (getInstanceView rec)"
  unfolding getInstanceView_def by (intro kept instanceRuntime_kept TrueI)

lemma lease_kept:
  "keeps (case lease of
     Inl leaseId \<Rightarrow> finallyDo (andThen (ask (RunSdkTest i epoch) the_value) (\<lambda>v. return (IValue v)))
         (ask (EndWork i epoch leaseId) anything)
   | Inr (reason, phase) \<Rightarrow> return (IUnavailable reason phase))"
  by (intro program_rules finallyDo_kept passive_ask TrueI) simp_all

lemma instanceAction_kept:
  assumes "action = ''wake'' \<or> action = ''test'' \<Longrightarrow> allowed (WakeInstance (ir_id rec))"
  shows "keeps (instanceAction env rec action)"
proof -
  have wake: "keeps (wakeInstance rec)" if "action = ''wake'' \<or> action = ''test''"
    using assms[OF that] by (rule wakeInstance_kept)
  show ?thesis
    unfolding instanceAction_def Let_def
    by (intro program_rules wake ignoring_kept registry_kept ensureLifecycle_kept merged_kept
        instanceView_kept lease_kept TrueI passive_ask) simp_all
qed

lemma handleHubApi_kept:
  assumes "\<And>s a rec. routeSegments ''/api/instances/'' (sq_path rq) = Some (s, Some a) \<Longrightarrow>
      sq_method rq = ''POST'' \<Longrightarrow> keeps (instanceAction env rec a)"
  shows "keeps (handleHubApi env rq)"
  using assms unfolding handleHubApi_def Let_def
  by (auto split: option.split prod.split intro!: program_rules dbRead_kept orFail_kept beginDelete_kept
      requireInstance_kept requireReadyInstance_kept instanceView_kept)

end

section \<open>Only an intent starts a container\<close>

definition carries_intent :: "session_request \<Rightarrow> bool" where
  "carries_intent rq =
     (sq_method rq = ''POST'' \<and>
      (sq_path rq = ''/api/sessions'' \<or>
       (\<exists>s a. routeSegments ''/api/sessions/'' (sq_path rq) = Some (s, Some a) \<and>
          (a = ''wake'' \<or> a = ''retry'' \<or> a = ''messages'' \<and> query rq ''child'' = None))))"

definition operator_intent :: "session_request \<Rightarrow> bool" where
  "operator_intent rq =
     (sq_method rq = ''POST'' \<and>
      (\<exists>s a. routeSegments ''/api/instances/'' (sq_path rq) = Some (s, Some a) \<and>
         (a = ''wake'' \<or> a = ''test'')))"

interpretation quiet: call_policy "\<lambda>r. \<not> starts_container r" b for b
  by unfold_locales

lemma child_given:
  assumes "query rq ''child'' \<noteq> None" and "readChildSessionId rq = Inr child"
  shows "truthy_str child"
proof -
  from assms(1) obtain c where c: "query rq ''child'' = Some c" by blast
  from assms(2) have "isSafeOpencodeSessionId (JStr c)" "child = Some c"
    unfolding readChildSessionId_def c by (simp_all split: if_splits)
  then show ?thesis by (auto simp: isSafeOpencodeSessionId_def)
qed

lemma quiet_session_api:
  assumes "\<not> carries_intent rq"
  shows "quiet.keeps b (handleSessionApi stamp env rq)"
proof (rule quiet.handleSessionApi_kept)
  fix s a rec child
  assume r: "sq_path rq \<noteq> ''/api/sessions''"
    "routeSegments ''/api/sessions/'' (sq_path rq) = Some (s, Some a)" "readChildSessionId rq = Inr child"
  show "quiet.keeps b (sessionAction stamp env rq rec a child)"
    using assms r child_given[of rq child]
    by (intro quiet.sessionAction_kept) (auto simp: carries_intent_def)
qed (use assms in \<open>auto simp: carries_intent_def\<close>)

lemma quiet_hub_api: "\<not> operator_intent rq \<Longrightarrow> quiet.keeps b (handleHubApi env rq)"
  by (intro quiet.handleHubApi_kept quiet.instanceAction_kept) (auto simp: operator_intent_def)

text \<open>
  C28. Looking never starts a container. Whatever the registry, the containers and the agents
  answer, and wherever the request is cut off, a request to the session API has a container
  started only if it is a POST that creates a session, sends a message into it (not into a
  subagent's), wakes it or retries it; to the instance API only if it is the operator's wake or
  test. Every list, transcript, event stream, diff, file and question, every rename, stop and
  deletion leaves a sleeping container asleep.
\<close>

theorem looking_starts_nothing:
  assumes "hw_calls w = []" and "starts_container r"
  shows "(handleSessionApi stamp env rq w as = (out, w', as') \<and> r \<in> set (hw_calls w') \<longrightarrow>
      carries_intent rq) \<and>
    (handleHubApi env rq w as = (iout, w', as') \<and> r \<in> set (hw_calls w') \<longrightarrow> operator_intent rq)"
  using yields_run(1)[OF quiet_session_api, of rq "hw_bucket w" w stamp env as out w' as']
    yields_run(1)[OF quiet_hub_api, of rq "hw_bucket w" w env as iout w' as'] assms
  by (auto simp: within_def)

section \<open>What an agent is told\<close>

definition accepted_text :: "string \<Rightarrow> bool" where
  "accepted_text t = (t \<noteq> [] \<and> length t \<le> 32000)"

definition accepted_images :: "bucket \<Rightarrow> attachment_ref list \<Rightarrow> bool" where
  "accepted_images b refs =
     (length refs \<le> 4 \<and> sum_list (map at_size refs) \<le> 10485760 \<and>
      (\<forall>ref \<in> set refs. claimable b (at_key ref) \<and> ref = storedRef b (at_key ref)))"

definition accepted_model :: "model_catalog \<Rightarrow> string \<Rightarrow> string option \<Rightarrow> bool" where
  "accepted_model cat model variant =
     (isModelRef cat (JStr model) \<and> (\<forall>v. variant = Some v \<longrightarrow> isValidVariant cat model (JStr v)))"

definition accepted_start :: "route_env \<Rightarrow> bucket \<Rightarrow> start_input \<Rightarrow> bool" where
  "accepted_start env b i =
     (si_sessionId i = ''inst-'' @ re_uuid env \<and> si_instanceId i = si_sessionId i \<and>
      accepted_text (si_prompt i) \<and> accepted_images b (si_attachments i) \<and>
      accepted_model (re_catalog env) (si_model i) (si_variant i) \<and>
      si_provider i \<in> set (listSessionProviders (re_hosts env)) \<and>
      (case si_repo i of
         None \<Rightarrow> si_directory i = ''/workspace''
       | Some rd \<Rightarrow> (\<exists>k. isSafeRepoKey (JStr k) \<and> re_repo env k = Some rd) \<and>
           isSafeRepoDefinition (repoToJson rd)))"

definition accepted_prompt :: "route_env \<Rightarrow> bucket \<Rightarrow> queue_input \<Rightarrow> bool" where
  "accepted_prompt env b q =
     (accepted_text (qi_prompt q) \<and> accepted_images b (qi_attachments q) \<and>
      (\<forall>m. qi_model q = Some m \<longrightarrow> accepted_model (re_catalog env) m (qi_variant q)) \<and>
      (\<exists>i. qi_promptId q = Some i \<and> (i = re_promptUuid env \<or> isSafePromptId (JStr i))))"

fun accepted_call :: "route_env \<Rightarrow> bucket \<Rightarrow> remote \<Rightarrow> bool" where
  "accepted_call env b (StartSession i) = accepted_start env b i"
| "accepted_call env b (QueuePrompt s q) = accepted_prompt env b q"
| "accepted_call env b _ = True"

lemma accepted_passive: "\<not> starts_container r \<Longrightarrow> accepted_call env b r"
  by (cases r) simp_all

interpretation told: call_policy "accepted_call env b" b for env b
  by unfold_locales (rule accepted_passive)

lemma accepted_textI: "normalizeSessionPrompt v = Some t \<Longrightarrow> accepted_text t"
  by (auto simp: normalizeSessionPrompt_def accepted_text_def MAX_SESSION_PROMPT_LENGTH_def Let_def
      split: option.splits if_splits)

lemma storedRef_key [simp]: "at_key (storedRef b k) = k" "at_size (storedRef b k) = ob_size (the (getObject k b))"
  by (simp_all add: storedRef_def Let_def)

lemma accepted_imagesI:
  assumes "claimAttachmentUploads b ks = Inr refs"
  shows "accepted_images b refs"
proof -
  have c: "length ks \<le> 4" "\<forall>k \<in> set ks. claimable b k" "sum_list (map (storedSize b) ks) \<le> 10485760"
    and refs: "refs = map (storedRef b) ks"
    using assms by (auto simp: claimAttachmentUploads_def claimAll_iff MAX_SESSION_ATTACHMENTS_def
        MAX_SESSION_ATTACHMENT_TOTAL_BYTES_def split: if_splits)
  have e: "map at_size refs = map (storedSize b) ks"
    using c(2) by (auto simp: refs storedSize_def claimable_def split: option.splits)
  have "length refs \<le> 4" "\<forall>ref \<in> set refs. claimable b (at_key ref) \<and> ref = storedRef b (at_key ref)"
    using c(1,2) by (auto simp: refs)
  with c(3) show ?thesis unfolding accepted_images_def e by simp
qed

lemma default_variant_accepted:
  "isModelRef cat (JStr m) \<Longrightarrow> defaultVariantForModel cat m = Some v \<Longrightarrow> v \<noteq> [] \<Longrightarrow>
     isValidVariant cat m (JStr v)"
  by (auto simp: isModelRef_def isValidVariant_def defaultVariantForModel_def
      split: option.splits list.splits if_splits)

lemma requested_variant_accepted:
  "isModelRef cat (JStr m) \<Longrightarrow> resolveRequestVariant cat m v = Inr (Some x) \<Longrightarrow> x \<noteq> [] \<Longrightarrow>
     isValidVariant cat m (JStr x)"
  using default_variant_accepted[of cat m x]
  by (auto simp: resolveRequestVariant_def the_str_Some split: if_splits)

lemma checkCreateD:
  assumes "checkCreate cat providers body = Inr inp"
  shows "accepted_text (ci_prompt inp)" "accepted_model cat (ci_model inp) (ci_variant inp)"
    "ci_provider inp \<in> set providers" "\<And>k. ci_repoKey inp = Some k \<Longrightarrow> isSafeRepoKey (JStr k)"
proof -
  obtain kvs where kvs: "objectBody body = Inr kvs"
    using assms by (cases "objectBody body") (auto simp: checkCreate_def)
  let ?m = "if field kvs ''model'' = JUndefined then JStr (cat_defaultModelRef cat) else field kvs ''model''"
  have m: "isModelRef cat ?m"
    using assms by (auto simp: checkCreate_def kvs Let_def split: if_splits)
  then obtain ref where ref: "?m = JStr ref"
    by (cases "the_str ?m") (auto simp: isModelRef_def the_str_Some)
  obtain variant where v: "resolveRequestVariant cat ref (field kvs ''variant'') = Inr variant"
    and rest: "ci_model inp = ref" "ci_variant inp = (if truthy_str variant then variant else None)"
    using assms m ref by (cases "resolveRequestVariant cat ref (field kvs ''variant'')")
      (auto simp: checkCreate_def kvs Let_def split: if_splits option.splits sum.splits)
  show "accepted_model cat (ci_model inp) (ci_variant inp)"
    using requested_variant_accepted[of cat ref "field kvs ''variant''"] m ref v rest
    by (auto simp: accepted_model_def split: if_splits)
  show "accepted_text (ci_prompt inp)"
    using assms by (auto simp: checkCreate_def kvs Let_def intro: accepted_textI
        split: if_splits option.splits sum.splits)
  show "ci_provider inp \<in> set providers"
    using assms by (auto simp: checkCreate_def kvs Let_def split: if_splits option.splits sum.splits)
  show "isSafeRepoKey (JStr k)" if "ci_repoKey inp = Some k" for k
    using assms that by (auto simp: checkCreate_def kvs Let_def the_str_Some
        split: if_splits option.splits sum.splits)
qed

lemma checkSendD:
  assumes "checkSend cat body = Inr inp"
  shows "accepted_text (xi_prompt inp)"
    "\<And>m. xi_model inp = Some m \<Longrightarrow> accepted_model cat m (xi_variant inp)"
    "\<And>i. xi_promptId inp = Some i \<Longrightarrow> isSafePromptId (JStr i)"
proof -
  obtain kvs where kvs: "objectBody body = Inr kvs"
    using assms by (cases "objectBody body") (auto simp: checkSend_def)
  show "accepted_text (xi_prompt inp)"
    using assms by (auto simp: checkSend_def kvs Let_def intro: accepted_textI
        split: if_splits option.splits sum.splits)
  show "accepted_model cat m (xi_variant inp)" if "xi_model inp = Some m" for m
    using assms that by (auto simp: checkSend_def kvs Let_def accepted_model_def the_str_Some
        absentVariant_def split: if_splits option.splits sum.splits)
  show "isSafePromptId (JStr i)" if "xi_promptId inp = Some i" for i
    using assms that by (auto simp: checkSend_def kvs Let_def the_str_Some
        split: if_splits option.splits sum.splits)
qed

lemma startInput_accepted:
  assumes inp: "checkCreate (re_catalog env) (listSessionProviders (re_hosts env)) body = Inr inp"
    and refs: "claimAttachmentUploads b (ci_keys inp) = Inr refs"
    and built: "buildNewSession (re_uuid env) (re_name env)
        \<lparr>ni_repo = (if truthy_str (ci_repoKey inp) then re_repo env (the (ci_repoKey inp)) else None),
         ni_provider = Some (ci_provider inp), ni_model = ci_model inp, ni_variant = ci_variant inp,
         ni_title = title\<rparr> (re_catalog env) (re_now env) = Inr session"
  shows "accepted_start env b (startInput env session inp refs)"
proof -
  let ?repo = "if truthy_str (ci_repoKey inp) then re_repo env (the (ci_repoKey inp)) else None"
  let ?i = "startInput env session inp refs"
  note c = checkCreateD[OF inp] accepted_imagesI[OF refs]
  have s: "sr_id (ns_record session) = ''inst-'' @ re_uuid env"
    "sr_instanceId (ns_record session) = ''inst-'' @ re_uuid env"
    "sr_provider (ns_record session) = ci_provider inp" "sr_model (ns_record session) = ci_model inp"
    "sr_variant (ns_record session) = (if truthy_str (ci_variant inp) then ci_variant inp else None)"
    "ns_repo session = ?repo"
    and safe: "\<And>rd. ?repo = Some rd \<Longrightarrow> isSafeRepoDefinition (repoToJson rd)"
    using built by (auto simp: buildNewSession_def Let_def split: if_splits option.splits)
  have m: "accepted_model (re_catalog env) (ci_model inp)
      (if truthy_str (ci_variant inp) then ci_variant inp else None)"
    using c(2) by (auto simp: accepted_model_def)
  have k: "\<exists>k. isSafeRepoKey (JStr k) \<and> re_repo env k = Some rd" if "?repo = Some rd" for rd
    using that c(4) by (auto split: if_splits dest!: truthy_strD)
  have "case ns_repo session of None \<Rightarrow> workspaceDirectory (map_option rd_repoKey (ns_repo session)) = ''/workspace''
       | Some rd \<Rightarrow> (\<exists>k. isSafeRepoKey (JStr k) \<and> re_repo env k = Some rd) \<and> isSafeRepoDefinition (repoToJson rd)"
  proof (cases "ns_repo session")
    case None
    then show ?thesis by (simp add: workspaceDirectory_def REPO_WORKSPACE_ROOT_def)
  next
    case (Some rd)
    then have "?repo = Some rd" using s(6) by (simp only:)
    from k[OF this] safe[OF this] Some show ?thesis by simp
  qed
  moreover have "si_repo ?i = ns_repo session" "si_prompt ?i = ci_prompt inp" "si_attachments ?i = refs"
    "si_directory ?i = workspaceDirectory (map_option rd_repoKey (ns_repo session))"
    "si_sessionId ?i = ''inst-'' @ re_uuid env" "si_instanceId ?i = si_sessionId ?i"
    "si_model ?i = ci_model inp" "si_provider ?i = ci_provider inp"
    "si_variant ?i = (if truthy_str (ci_variant inp) then ci_variant inp else None)"
    by (simp_all add: startInput_def Let_def s(1-5))
  ultimately show ?thesis
    using c(1,3,5) m unfolding accepted_start_def by (simp only: simp_thms)
qed

text \<open>
  C29. An agent is only told what the request proved. Whatever is called and answered, a request
  that starts a session or queues a prompt has first passed every check: the text is not empty
  and within 32,000 characters, the model is of the catalog and the variant one of that model's,
  the host one on offer, the repository a safe definition the catalog lists under the requested
  key, and the images at most four stored uploads of at most ten megabytes together, described
  as they are stored. A prompt's id is the client's where that is well formed and a fresh one
  otherwise.
\<close>

theorem agents_are_told_what_was_checked:
  assumes "hw_calls w = []" and "handleSessionApi stamp env rq w as = (out, w', as')"
  shows "(StartSession i \<in> set (hw_calls w') \<longrightarrow> accepted_start env (hw_bucket w) i) \<and>
    (QueuePrompt s q \<in> set (hw_calls w') \<longrightarrow> accepted_prompt env (hw_bucket w) q)"
proof -
  let ?b = "hw_bucket w"
  have send: "told.keeps env ?b (sendSessionPrompt env rq rec)" for rec
  proof (rule told.sendSessionPrompt_kept)
    fix inp refs
    assume "checkSend (re_catalog env) (sq_body rq) = Inr inp" "claimAttachmentUploads ?b (xi_keys inp) = Inr refs"
    then show "accepted_call env ?b (QueuePrompt (sr_id rec)
         \<lparr>qi_prompt = xi_prompt inp, qi_model = xi_model inp, qi_variant = xi_variant inp,
          qi_promptId = Some (nullish (xi_promptId inp) (re_promptUuid env)), qi_attachments = refs\<rparr>)"
      using checkSendD[of "re_catalog env" "sq_body rq" inp] accepted_imagesI[of ?b _ refs]
      by (auto simp: accepted_prompt_def nullish_def split: option.split)
  qed
  have create: "told.keeps env ?b (createSession env rq)"
    by (rule told.createSession_kept) (simp add: startInput_accepted)
  have "told.keeps env ?b (handleSessionApi stamp env rq)"
    by (intro told.handleSessionApi_kept told.sessionAction_kept create send told.wakeSession_kept
        told.retrySession_kept) simp_all
  from yields_run(1)[OF this _ assms(2)] assms(1) show ?thesis by (auto simp: within_def)
qed

section \<open>Creating is one write\<close>

lemma wp_readConfig: "C w \<Longrightarrow> (\<And>m. E (OtherError m) w) \<Longrightarrow> Q v w \<Longrightarrow> wp (readConfig v) Q E C w"
  by (auto simp: readConfig_def answered_def split: reply.split)

lemma wp_dbRead: "C w \<Longrightarrow> (\<And>m. E (OtherError m) w) \<Longrightarrow> Q (f w) w \<Longrightarrow> wp (dbRead f) Q E C w"
  by (auto simp: dbRead_def answered_def split: reply.split)

lemma wp_orFail: "(\<And>e. r = Inl e \<Longrightarrow> E e w) \<Longrightarrow> (\<And>v. r = Inr v \<Longrightarrow> Q v w) \<Longrightarrow> wp (orFail r) Q E C w"
  by (cases r) (simp_all add: orFail_def)

lemma wp_require: "(\<not> c \<Longrightarrow> E e w) \<Longrightarrow> (c \<Longrightarrow> Q () w) \<Longrightarrow> wp (require c e) Q E C w"
  by (simp add: require_def)

definition told_of :: "remote \<Rightarrow> hub_world \<Rightarrow> hub_world" where
  "told_of r w = w\<lparr>hw_calls := hw_calls w @ [r]\<rparr>"

lemma wp_ask:
  assumes "C w" and "\<And>m. E (OtherError m) (told_of r w)" and "\<And>v. Q v (told_of r w)"
  shows "wp (ask r pick) Q E C w"
  using assms
  by (auto simp: ask_def told_of_def answered_def split: reply.split option.split)

text \<open>
  Creating a session is one durable write. The request answers with a view exactly when it
  has told one agent to start, and that is all it has done; a request that is refused has done
  nothing at all, so a 4xx never leaves half a session behind; and one that fails with the
  agent's own exception has told it nothing else. The registry and the bucket are never touched.
\<close>

theorem create_is_one_write:
  assumes "createSession env rq w as = (out, w', as')"
  shows "case out of
      Returned v \<Rightarrow> \<exists>i. w' = told_of (StartSession i) w
    | Raised e \<Rightarrow> w' = w \<or> failureStatus e = 500 \<and> (\<exists>i. w' = told_of (StartSession i) w)
    | CutOff \<Rightarrow> w' = w"
proof -
  let ?E = "\<lambda>e w'. w' = w \<or> failureStatus e = 500 \<and> (\<exists>i. w' = told_of (StartSession i) w)"
  have "wp (createSession env rq) (\<lambda>_ w'. \<exists>i. w' = told_of (StartSession i) w) ?E (\<lambda>w'. w' = w) w"
    unfolding createSession_def claim_def
    by (intro wp_andThen wp_readConfig wp_dbRead wp_orFail wp_require)
      (auto split: sum.split intro!: wp_andThen wp_readConfig wp_require wp_ask, blast+)
  from wp_run[OF this assms] show ?thesis by (simp split: outcome.split)
qed

section \<open>Whose history a reader is shown\<close>













text \<open>
  What a container exported before it slept is what the session page shows. When the
  exported history of a session's conversation is in the bucket and its container no longer
  runs (the row is not ready, or there is none), reading the session answers with exactly the
  exported messages and the time of the export, without asking anything of the container.
\<close>

theorem asleep_shows_the_export:
  assumes built: "buildTranscriptMirror (sr_id rec) oc reason at messages title = Some m"
    and plain: "list_all plainJson messages" and stored: "list_all storedMessage messages"
    and conv: "sr_opencodeSessionId rec = Some oc" and ne: "oc \<noteq> []"
    and bucket: "hw_bucket w = putTranscriptMirror bytes now m b"
    and down: "\<forall>r. getRow (sr_instanceId rec) (hw_registry w) = Some r \<longrightarrow> rw_lifecycle r \<noteq> Ready"
  shows "\<exists>t. readSessionTranscript env rec None w [Fine, Fine] = (Returned t, w, []) \<and>
    tr_messages t = messages \<and> tr_mirroredAt t = Some at \<and> tr_state t = TSleeping \<and>
    tr_source t = FromMirror"
proof -
  note reads = mirror_reads_back[OF built plain stored, of bytes now b]
  have at: "tm_mirroredAt m = at"
    using built by (auto simp: buildTranscriptMirror_def withSummary_def)
  have mirror: "readTranscriptMirrorFor rec w [Fine] = (Returned (Some (at, messages)), w, [])"
    using reads by (simp add: readTranscriptMirrorFor_def catching_def andThen_def dbRead_def call_def
        answered_def bucket return_def conv at)
  have inst: "getInstance (sr_instanceId rec) w [Fine, Fine] =
      (Returned (map_option rowToInstance (getRow (sr_instanceId rec) (hw_registry w))), w, [Fine])"
    by (simp add: getInstance_def dbRead_def call_def answered_def)
  show ?thesis
    using down ne
    by (cases "getRow (sr_instanceId rec) (hw_registry w)")
      (simp_all add: readSessionTranscript_def Let_def conv andThen_def inst mirror return_def
        withMirror_def rowToInstance_def)
qed

section \<open>Two answers that say less than happened\<close>

text \<open>
  A patch that is refused for its second field has already renamed the session: the caller is
  answered 400 and the new title stays.
\<close>

lemma refused_patch_renames:
  assumes "objectBody (sq_body rq) = Inr kvs" and "field kvs ''title'' = JStr title"
    and "trim title \<noteq> []" and "length (trim title) \<le> 80" and "field kvs ''pinned'' = JNum n"
  shows "patchSession env rq rec w (Fine # as) =
    (Raised (HttpError 400 ''pinned must be a boolean''),
     w\<lparr>hw_registry := snd (renameSession (sr_id rec) (trim title) (re_now env) (hw_registry w))\<rparr>, as)"
  using assms
  by (simp add: patchSession_def andThen_def orFail_def return_def require_def when_given_def writeRow_def
      dbWrite_def call_def raise_def MAX_SESSION_TITLE_LENGTH_def Let_def)

text \<open>
  A container in the phase after a failed stop runs and is admitted by its coordinator; the
  session routes read it as asleep.
\<close>

lemma failing_container_reads_asleep:
  assumes "ls_phase s = ErrorRunning"
  shows "st_admissionOpen (toStatus now (Some s))"
    and "resolveRunningRuntimeEpoch rec w (IsStatus (toStatus now (Some s)) # as) =
      (Returned None, told_of (ReadLifecycle (sr_instanceId rec)) w, as)"
  using assms
  by (simp_all add: toStatus_def resolveRunningRuntimeEpoch_def ensureLifecycle_def catching_def andThen_def
      ask_def call_def answered_def return_def told_of_def)

section \<open>Concrete requests\<close>

definition exRouteEnv :: route_env where
  "exRouteEnv = \<lparr>re_now = 0, re_uuid = ''u'', re_promptUuid = ''p'', re_name = ''n'', re_operation = ''op'',
     re_ellipsis = CHR ''.'',
     re_catalog = \<lparr>cat_options = [\<lparr>mo_id = ''a/m'', mo_providerID = ''a'', mo_modelID = ''m'',
       mo_providerName = ''a'', mo_modelName = ''m'', mo_variants = []\<rparr>], cat_defaultModelRef = ''a/m''\<rparr>,
     re_hosts = JUndefined, re_repo = (\<lambda>_. None), re_decode = Some, re_number = (\<lambda>_. None),
     re_encode = id\<rparr>"

definition exCreateRequest :: session_request where
  "exCreateRequest = \<lparr>sq_method = ''POST'', sq_path = ''/api/sessions'', sq_query = [],
     sq_body = Text (JObj [(''prompt'', JStr ''hi'')]), sq_bytes = [], sq_filePath = None\<rparr>"

definition exRouteWorld :: hub_world where
  "exRouteWorld = \<lparr>hw_registry = [], hw_bucket = [], hw_calls = []\<rparr>"

definition exRouteInput :: create_input where
  "exRouteInput = \<lparr>ci_repoKey = None, ci_provider = ''cloudflare'', ci_model = ''a/m'', ci_variant = None,
     ci_prompt = ''hi'', ci_keys = []\<rparr>"

lemma exCheck: "checkCreate (re_catalog exRouteEnv) (listSessionProviders (re_hosts exRouteEnv)) (sq_body exCreateRequest) = Inr exRouteInput"
  by (simp add: checkCreate_def exCreateRequest_def exRouteEnv_def exRouteInput_def objectBody_def jsonBody_def field_def Let_def
      absentVariant_def isModelRef_def findModel_def resolveRequestVariant_def defaultVariantForModel_def
      normalizeSessionPrompt_def MAX_SESSION_PROMPT_LENGTH_def trim_def is_space_def nullishValue_def
      listSessionProviders_def listDockerHosts_def attachmentKeys_def normalizeAttachmentKeys_def)

lemma exRun:
  "\<exists>v i. handleSessionApi stamp exRouteEnv exCreateRequest exRouteWorld [Fine, Fine, Fine, Fine] =
     (Returned v, told_of (StartSession i) exRouteWorld, [])"
proof -
  obtain session where s: "buildNewSession (re_uuid exRouteEnv) (re_name exRouteEnv)
        \<lparr>ni_repo = None, ni_provider = Some (ci_provider exRouteInput), ni_model = ci_model exRouteInput,
         ni_variant = ci_variant exRouteInput, ni_title = deriveSessionTitle (re_ellipsis exRouteEnv) (ci_prompt exRouteInput)\<rparr>
        (re_catalog exRouteEnv) (re_now exRouteEnv) = Inr session"
    by (simp add: buildNewSession_def exRouteEnv_def exRouteInput_def isModelRef_def findModel_def Let_def)
  have k: "ci_keys exRouteInput = []" "ci_repoKey exRouteInput = None" by (simp_all add: exRouteInput_def)
  have c: "claimAttachmentUploads b [] = Inr []" for b by (simp add: claimAttachmentUploads_def)
  have "handleSessionApi stamp exRouteEnv exCreateRequest = createSession exRouteEnv exCreateRequest"
    by (simp add: handleSessionApi_def exCreateRequest_def)
  moreover have "createSession exRouteEnv exCreateRequest exRouteWorld [Fine, Fine, Fine, Fine] =
      (Returned (RView 202 (provisionalSessionView session)),
       told_of (StartSession (startInput exRouteEnv session exRouteInput [])) exRouteWorld, [])"
    unfolding createSession_def
    by (simp add: andThen_def readConfig_def call_def answered_def exCheck orFail_def return_def claim_def
        dbRead_def k c require_def s ask_def anything_def told_of_def)
  ultimately show ?thesis by metis
qed

lemma looking_starts_nothing_witness: "carries_intent exCreateRequest"
proof -
  obtain v i where run: "handleSessionApi (\<lambda>_. None) exRouteEnv exCreateRequest exRouteWorld [Fine, Fine, Fine, Fine] =
     (Returned v, told_of (StartSession i) exRouteWorld, [])" using exRun by blast
  have "hw_calls exRouteWorld = []" "starts_container (StartSession i)" by (simp_all add: exRouteWorld_def)
  from looking_starts_nothing[OF this] run show ?thesis by (fastforce simp: told_of_def)
qed

lemma agents_are_told_what_was_checked_witness:
  "\<exists>v w' i. handleSessionApi (\<lambda>_. None) exRouteEnv exCreateRequest exRouteWorld [Fine, Fine, Fine, Fine] = (Returned v, w', []) \<and>
     hw_calls w' = [StartSession i] \<and> accepted_start exRouteEnv [] i"
proof -
  obtain v i where run: "handleSessionApi (\<lambda>_. None) exRouteEnv exCreateRequest exRouteWorld [Fine, Fine, Fine, Fine] =
     (Returned v, told_of (StartSession i) exRouteWorld, [])" using exRun by blast
  have "hw_calls exRouteWorld = []" by (simp add: exRouteWorld_def)
  from agents_are_told_what_was_checked[OF this run, of i] run show ?thesis
    by (auto simp: told_of_def exRouteWorld_def)
qed

lemma create_is_one_write_witness:
  "\<exists>v w' i. createSession exRouteEnv exCreateRequest exRouteWorld [Fine, Fine, Fine, Fine] = (Returned v, w', []) \<and>
     w' = told_of (StartSession i) exRouteWorld"
proof -
  have "handleSessionApi (\<lambda>_. None) exRouteEnv exCreateRequest = createSession exRouteEnv exCreateRequest"
    by (simp add: handleSessionApi_def exCreateRequest_def)
  with exRun[of "\<lambda>_. None"] obtain v w' where
    run: "createSession exRouteEnv exCreateRequest exRouteWorld [Fine, Fine, Fine, Fine] = (Returned v, w', [])" by metis
  from create_is_one_write[OF run] run show ?thesis by auto
qed

definition exRecord :: session_record where
  "exRecord = (rowToSession (newRow \<lparr>ns_record = \<lparr>sr_id = ''s'', sr_instanceId = ''s'', sr_repoKey = None,
     sr_directory = None, sr_provider = ''cloudflare'', sr_model = ''a/m'', sr_variant = None,
     sr_title = ''t'', sr_opencodeSessionId = None, sr_phase = Working, sr_pendingPromptCount = 0,
     sr_lastError = None, sr_lastPromptAt = None, sr_cleanedAt = None, sr_unreadAt = None,
     sr_pinnedAt = None, sr_titleLocked = False, sr_bootStep = None, sr_runtimeLifecycle = None,
     sr_container = None, sr_statusQuery = False, sr_statusObservedAt = None, sr_createdAt = 0,
     sr_updatedAt = 0\<rparr>, ns_name = ''n'', ns_repo = None\<rparr>))\<lparr>sr_opencodeSessionId := Some ''oc''\<rparr>"

definition exMessage :: json where
  "exMessage = JObj [(''info'', JObj [(''id'', JStr ''m1''), (''role'', JStr ''user'')])]"

lemma exMirror:
  obtains m where "buildTranscriptMirror (sr_id exRecord) ''oc'' MirrorIdleStop ''at'' [exMessage] None = Some m"
    "list_all plainJson [exMessage]" "list_all storedMessage [exMessage]"
    "sr_opencodeSessionId exRecord = Some ''oc''"
proof -
  have "lastMessageAt [exMessage] = Some None" "list_all plainJson [exMessage]"
    "list_all storedMessage [exMessage]" "sr_opencodeSessionId exRecord = Some ''oc''"
    by code_simp+
  then show ?thesis
    by (intro that) (auto simp: buildTranscriptMirror_def withSummary_def)
qed

lemma asleep_shows_the_export_witness:
  "\<exists>w t. readSessionTranscript exRouteEnv exRecord None w [Fine, Fine] = (Returned t, w, []) \<and>
     tr_messages t = [exMessage]"
proof -
  obtain m where m: "buildTranscriptMirror (sr_id exRecord) ''oc'' MirrorIdleStop ''at'' [exMessage] None = Some m"
    "list_all plainJson [exMessage]" "list_all storedMessage [exMessage]"
    "sr_opencodeSessionId exRecord = Some ''oc''" by (rule exMirror)
  let ?w = "exRouteWorld\<lparr>hw_bucket := putTranscriptMirror 1 2 m []\<rparr>"
  have "\<forall>r. getRow (sr_instanceId exRecord) (hw_registry ?w) = Some r \<longrightarrow> rw_lifecycle r \<noteq> Ready"
    by (simp add: exRouteWorld_def getRow_def)
  from asleep_shows_the_export[OF m _ _ this, of 1 2 "[]" exRouteEnv] show ?thesis by auto
qed


end
