(* ===== verification/Host_Protocol.thy ===== *)
theory Host_Protocol
  imports Effects Js_Text
begin

text \<open>
  The contract between the site and the machines that run its containers: the route table of
  \<open>protocol/routes.ts\<close>, the codes and the session ids of \<open>protocol/types.ts\<close>, and the validation
  of a request's body that both hosts share (\<open>host/support.ts\<close>, mirrored in \<open>agent/server.mjs\<close>).
\<close>

section \<open>Errors\<close>

datatype host_code =
    Unauthorized | InvalidRequest | SessionNotFound | FileNotFound | DirNotFound
  | ContainerNotRunning | ExecTimeout | OpencodeStartFailed | SnapshotUnsupported
  | SnapshotNotFound | HostFailure

fun codeText :: "host_code \<Rightarrow> string" where
  "codeText Unauthorized = ''UNAUTHORIZED''"
| "codeText InvalidRequest = ''INVALID_REQUEST''"
| "codeText SessionNotFound = ''SESSION_NOT_FOUND''"
| "codeText FileNotFound = ''FILE_NOT_FOUND''"
| "codeText DirNotFound = ''DIR_NOT_FOUND''"
| "codeText ContainerNotRunning = ''CONTAINER_NOT_RUNNING''"
| "codeText ExecTimeout = ''EXEC_TIMEOUT''"
| "codeText OpencodeStartFailed = ''OPENCODE_START_FAILED''"
| "codeText SnapshotUnsupported = ''SNAPSHOT_UNSUPPORTED''"
| "codeText SnapshotNotFound = ''SNAPSHOT_NOT_FOUND''"
| "codeText HostFailure = ''HOST_ERROR''"

fun errorStatus :: "host_code \<Rightarrow> nat" where
  "errorStatus Unauthorized = 401"
| "errorStatus InvalidRequest = 400"
| "errorStatus SessionNotFound = 404"
| "errorStatus FileNotFound = 404"
| "errorStatus DirNotFound = 404"
| "errorStatus ContainerNotRunning = 503"
| "errorStatus ExecTimeout = 408"
| "errorStatus OpencodeStartFailed = 502"
| "errorStatus SnapshotUnsupported = 501"
| "errorStatus SnapshotNotFound = 404"
| "errorStatus HostFailure = 500"

lemma codeText_inj [simp]: "codeText a = codeText b \<longleftrightarrow> a = b"
  by (cases a; cases b) simp_all

text \<open>What a route throws: a protocol error, or anything else.\<close>

datatype host_error = HostRequestError host_code string | OtherError string

section \<open>Routes\<close>

definition idChar :: "char \<Rightarrow> bool" where
  "idChar c = (is_lower c \<or> is_upper c \<or> is_digit c \<or> c = CHR ''_'' \<or> c = CHR ''-'')"

definition SESSION_ID_PATTERN :: "string \<Rightarrow> bool" where
  "SESSION_ID_PATTERN s = (1 \<le> length s \<and> length s \<le> 64 \<and> list_all idChar s)"

datatype host_route =
    StateRoute | EnsureRoute | StopRoute | RemoveRoute | ExecRoute | WriteBatchRoute | ReadRoute
  | ExistsRoute | ListRoute | OpencodeStartRoute | ProxyRoute string | SnapshotRoute
  | SnapshotRestoreRoute

text \<open>The builders. An id that is not one throws.\<close>

definition assertSessionId :: "string \<Rightarrow> host_error + string" where
  "assertSessionId sessionId =
     (if SESSION_ID_PATTERN sessionId then Inr sessionId else Inl (OtherError ''Invalid session id''))"

definition sessionBase :: "string \<Rightarrow> host_error + string" where
  "sessionBase sessionId = map_sum id (\<lambda>i. ''/sessions/'' @ i) (assertSessionId sessionId)"

fun routeSuffix :: "host_route \<Rightarrow> string" where
  "routeSuffix StateRoute = []"
| "routeSuffix EnsureRoute = ''/ensure''"
| "routeSuffix StopRoute = ''/stop''"
| "routeSuffix RemoveRoute = []"
| "routeSuffix ExecRoute = ''/exec''"
| "routeSuffix WriteBatchRoute = ''/files/write-batch''"
| "routeSuffix ReadRoute = ''/files/read''"
| "routeSuffix ExistsRoute = ''/files/exists''"
| "routeSuffix ListRoute = ''/files/list''"
| "routeSuffix OpencodeStartRoute = ''/opencode/start''"
| "routeSuffix (ProxyRoute p) = ''/proxy'' @ (if starts_with p ''/'' then [] else ''/'') @ p"
| "routeSuffix SnapshotRoute = ''/snapshot''"
| "routeSuffix SnapshotRestoreRoute = ''/snapshot/restore''"

definition sessionRoutes :: "host_route \<Rightarrow> string \<Rightarrow> host_error + string" where
  "sessionRoutes r sessionId = map_sum id (\<lambda>b. b @ routeSuffix r) (sessionBase sessionId)"

text \<open>The parser.\<close>

definition postRoutes :: "(string \<times> host_route) list" where
  "postRoutes =
     [(''ensure'', EnsureRoute), (''stop'', StopRoute), (''exec'', ExecRoute),
      (''files/write-batch'', WriteBatchRoute), (''files/read'', ReadRoute), (''files/exists'', ExistsRoute),
      (''files/list'', ListRoute), (''opencode/start'', OpencodeStartRoute), (''snapshot'', SnapshotRoute),
      (''snapshot/restore'', SnapshotRestoreRoute)]"

definition pathParts :: "string \<Rightarrow> string list" where
  "pathParts pathname = filter (\<lambda>p. p \<noteq> []) (split_on (CHR ''/'') pathname)"

definition matchSessionRoute :: "string \<Rightarrow> string \<Rightarrow> (string \<times> host_route) option" where
  "matchSessionRoute method pathname =
     (case pathParts pathname of
        first # sessionId # rest \<Rightarrow>
          (if first \<noteq> ''sessions'' \<or> \<not> SESSION_ID_PATTERN sessionId then None
           else if rest = [] then
             (if method = ''GET'' then Some (sessionId, StateRoute)
              else if method = ''DELETE'' then Some (sessionId, RemoveRoute)
              else None)
           else if hd rest = ''proxy'' then Some (sessionId, ProxyRoute (''/'' @ join_with ''/'' (tl rest)))
           else if method \<noteq> ''POST'' then None
           else map_option (Pair sessionId) (map_of postRoutes (join_with ''/'' rest)))
      | _ \<Rightarrow> None)"

section \<open>Bodies\<close>

text \<open>What arrives as the body: nothing but white space, too much, or a text and what it parses to.\<close>

datatype request_body = Blank | TooLarge | Body json_text

definition invalid :: "string \<Rightarrow> host_error + 'a" where
  "invalid message = Inl (HostRequestError InvalidRequest message)"

fun readJsonBody :: "request_body \<Rightarrow> host_error + (string \<times> json) list" where
  "readJsonBody Blank = Inr []"
| "readJsonBody TooLarge = invalid ''Body is too large''"
| "readJsonBody (Body Malformed) = invalid ''Body is not valid JSON''"
| "readJsonBody (Body (Text (JObj kvs))) = Inr kvs"
| "readJsonBody (Body (Text _)) = invalid ''Body must be a JSON object''"

abbreviation quoted :: "string \<Rightarrow> string" where
  "quoted s \<equiv> [CHR 0x22] @ s @ [CHR 0x22]"

definition requiredString :: "(string \<times> json) list \<Rightarrow> string \<Rightarrow> host_error + string" where
  "requiredString body f =
     (case field body f of
        JStr s \<Rightarrow> if s = [] then invalid (quoted f @ '' is required'') else Inr s
      | _ \<Rightarrow> invalid (quoted f @ '' is required''))"

definition optionalField ::
  "string \<Rightarrow> (json \<Rightarrow> 'v option) \<Rightarrow> (string \<times> json) list \<Rightarrow> string \<Rightarrow> host_error + 'v option" where
  "optionalField kind read body f =
     (let value = field body f in
      if nullishValue value then Inr None
      else case read value of
        None \<Rightarrow> invalid (quoted f @ '' must be '' @ kind)
      | Some v \<Rightarrow> Inr (Some v))"

fun the_num :: "json \<Rightarrow> int option" where
  "the_num (JNum n) = Some n"
| "the_num _ = None"

fun the_bool :: "json \<Rightarrow> bool option" where
  "the_bool (JBool b) = Some b"
| "the_bool _ = None"

definition optionalString :: "(string \<times> json) list \<Rightarrow> string \<Rightarrow> host_error + string option" where
  "optionalString = optionalField ''a string'' the_str"

definition optionalNumber :: "(string \<times> json) list \<Rightarrow> string \<Rightarrow> host_error + int option" where
  "optionalNumber = optionalField ''a number'' the_num"

definition optionalBoolean :: "(string \<times> json) list \<Rightarrow> string \<Rightarrow> host_error + bool option" where
  "optionalBoolean = optionalField ''a boolean'' the_bool"

fun stringEntries :: "string \<Rightarrow> (string \<times> json) list \<Rightarrow> host_error + (string \<times> string) list" where
  "stringEntries f [] = Inr []"
| "stringEntries f ((k, v) # kvs) =
     (case v of
        JStr s \<Rightarrow> map_sum id ((#) (k, s)) (stringEntries f kvs)
      | _ \<Rightarrow> invalid (quoted (f @ ''.'' @ k) @ '' must be a string''))"

definition stringMap :: "(string \<times> json) list \<Rightarrow> string \<Rightarrow> host_error + (string \<times> string) list option" where
  "stringMap body f =
     (case field body f of
        JUndefined \<Rightarrow> Inr None
      | JNull \<Rightarrow> Inr None
      | JObj kvs \<Rightarrow> map_sum id Some (stringEntries f kvs)
      | _ \<Rightarrow> invalid (quoted f @ '' must be an object of strings''))"

datatype file_encoding = Utf8File | Base64File

record file_write =
  fw_path :: string
  fw_content :: string
  fw_encoding :: file_encoding
  fw_mode :: "string option"

definition octalMode :: "string \<Rightarrow> bool" where
  "octalMode s = ((length s = 3 \<or> length s = 4) \<and> list_all (\<lambda>c. CHR ''0'' \<le> c \<and> c \<le> CHR ''7'') s)"

definition bindError :: "'e + 'a \<Rightarrow> ('a \<Rightarrow> 'e + 'b) \<Rightarrow> 'e + 'b" where
  "bindError r f = (case r of Inl e \<Rightarrow> Inl e | Inr v \<Rightarrow> f v)"

fun parseFileWrite :: "json \<Rightarrow> host_error + file_write" where
  "parseFileWrite (JObj entry) =
     bindError (requiredString entry ''path'') (\<lambda>path.
     if \<not> starts_with path ''/'' then invalid (''File path must be absolute: '' @ path)
     else case field entry ''content'' of
       JStr content \<Rightarrow>
         bindError (optionalString entry ''encoding'') (\<lambda>enc.
         if enc \<notin> {None, Some ''utf-8'', Some ''base64''}
         then invalid (''Unsupported encoding for '' @ path)
         else bindError (optionalString entry ''mode'') (\<lambda>mode.
         if (case mode of None \<Rightarrow> False | Some m \<Rightarrow> \<not> octalMode m)
         then invalid (quoted ''mode'' @ '' must be an octal string for '' @ path)
         else Inr \<lparr>fw_path = path, fw_content = content,
                fw_encoding = (if enc = Some ''base64'' then Base64File else Utf8File), fw_mode = mode\<rparr>))
     | _ \<Rightarrow> invalid (quoted ''content'' @ '' is required for '' @ path))"
| "parseFileWrite _ = invalid ''Each file must be an object''"

fun parseFileWrites :: "json list \<Rightarrow> host_error + file_write list" where
  "parseFileWrites [] = Inr []"
| "parseFileWrites (v # vs) =
     bindError (parseFileWrite v) (\<lambda>w. map_sum id ((#) w) (parseFileWrites vs))"

definition parseWriteBatch :: "(string \<times> json) list \<Rightarrow> host_error + file_write list" where
  "parseWriteBatch body =
     (case field body ''files'' of
        JArr (v # vs) \<Rightarrow> parseFileWrites (v # vs)
      | _ \<Rightarrow> invalid (quoted ''files'' @ '' must be a non-empty array''))"

section \<open>Lemmas\<close>

lemma bindError_simps [simp]:
  "bindError (Inl e) f = Inl e"
  "bindError (Inr v) f = f v"
  by (simp_all add: bindError_def)

lemma field_Cons [simp]: "field ((k, v) # kvs) j = (if j = k then v else field kvs j)"
  by (simp add: field_def)

lemma field_Nil [simp]: "field [] j = JUndefined"
  by (simp add: field_def)

lemma nullishValue_simps [simp]:
  "nullishValue JUndefined" "nullishValue JNull" "\<not> nullishValue (JStr s)" "\<not> nullishValue (JNum n)"
  "\<not> nullishValue (JBool b)" "\<not> nullishValue (JObj kvs)" "\<not> nullishValue (JArr vs)"
  by (simp_all add: nullishValue_def)

lemma optional_simps [simp]:
  "field body f = JUndefined \<Longrightarrow> optionalField k r body f = Inr None"
  "field body f = JStr s \<Longrightarrow> optionalString body f = Inr (Some s)"
  "field body f = JNum n \<Longrightarrow> optionalNumber body f = Inr (Some n)"
  "field body f = JBool b \<Longrightarrow> optionalBoolean body f = Inr (Some b)"
  "field body f = JUndefined \<Longrightarrow> optionalString body f = Inr None"
  "field body f = JUndefined \<Longrightarrow> optionalNumber body f = Inr None"
  "field body f = JUndefined \<Longrightarrow> optionalBoolean body f = Inr None"
  by (simp_all add: optionalField_def optionalString_def optionalNumber_def optionalBoolean_def Let_def)

lemma slash_not_id: "SESSION_ID_PATTERN s \<Longrightarrow> CHR ''/'' \<notin> set s"
  by (auto simp: SESSION_ID_PATTERN_def list_all_iff idChar_def is_lower_def is_upper_def is_digit_def)

lemma split_on_part:
  assumes "c \<notin> set w"
  shows "split_on c (w @ c # s) = w # split_on c s"
  using assms by (induction w) auto

lemma split_on_word: "c \<notin> set w \<Longrightarrow> split_on c w = [w]"
  by (induction w) auto

lemma pathParts_step:
  assumes "CHR ''/'' \<notin> set w"
  shows "pathParts (CHR ''/'' # w @ CHR ''/'' # s) = (if w = [] then [] else [w]) @ pathParts (CHR ''/'' # s)"
  using assms by (simp add: pathParts_def split_on_part)

lemma pathParts_last:
  "CHR ''/'' \<notin> set w \<Longrightarrow> pathParts (CHR ''/'' # w) = (if w = [] then [] else [w])"
  by (simp add: pathParts_def split_on_word)

lemma sessionRoutes_path:
  "SESSION_ID_PATTERN sid \<Longrightarrow> sessionRoutes r sid = Inr (''/sessions/'' @ sid @ routeSuffix r)"
  by (simp add: sessionRoutes_def sessionBase_def assertSessionId_def)

lemma pathParts_session:
  assumes "SESSION_ID_PATTERN sid"
  shows "pathParts (''/sessions/'' @ sid) = [''sessions'', sid]"
    and "pathParts (''/sessions/'' @ sid @ CHR ''/'' # s) = ''sessions'' # sid # pathParts (CHR ''/'' # s)"
proof -
  have "sid \<noteq> []" using assms by (auto simp: SESSION_ID_PATTERN_def)
  with slash_not_id [OF assms]
  have a: "pathParts (CHR ''/'' # sid) = [sid]"
    and b: "pathParts (CHR ''/'' # sid @ CHR ''/'' # s) = sid # pathParts (CHR ''/'' # s)"
    by (simp_all add: pathParts_last pathParts_step)
  show "pathParts (''/sessions/'' @ sid) = [''sessions'', sid]"
    using pathParts_step [of "''sessions''" sid] by (simp add: a)
  show "pathParts (''/sessions/'' @ sid @ CHR ''/'' # s) = ''sessions'' # sid # pathParts (CHR ''/'' # s)"
    using pathParts_step [of "''sessions''" "sid @ CHR ''/'' # s"] by (simp add: b)
qed

lemma pathParts_Nil: "pathParts [] = []"
  by (simp add: pathParts_def)

text \<open>The method each route is asked with; a proxied request keeps its own.\<close>

fun routeMethod :: "host_route \<Rightarrow> string" where
  "routeMethod StateRoute = ''GET''"
| "routeMethod RemoveRoute = ''DELETE''"
| "routeMethod _ = ''POST''"

lemma matched_parts:
  assumes "pathParts p = ''sessions'' # sid # rest" and "SESSION_ID_PATTERN sid"
  shows "matchSessionRoute m p =
    (if rest = [] then
       (if m = ''GET'' then Some (sid, StateRoute) else if m = ''DELETE'' then Some (sid, RemoveRoute) else None)
     else if hd rest = ''proxy'' then Some (sid, ProxyRoute (''/'' @ join_with ''/'' (tl rest)))
     else if m \<noteq> ''POST'' then None
     else map_option (Pair sid) (map_of postRoutes (join_with ''/'' rest)))"
  using assms by (simp add: matchSessionRoute_def)

fun routeParts :: "host_route \<Rightarrow> string list" where
  "routeParts (ProxyRoute p) = ''proxy'' # pathParts p"
| "routeParts r = pathParts (routeSuffix r)"

lemma pathParts_route:
  assumes "SESSION_ID_PATTERN sid"
  shows "pathParts (''/sessions/'' @ sid @ routeSuffix r) = ''sessions'' # sid # routeParts r"
proof (cases r)
  case (ProxyRoute p)
  have "routeSuffix r = CHR ''/'' # ''proxy'' @ CHR ''/'' # (if starts_with p ''/'' then tl p else p)"
    unfolding ProxyRoute by (cases p) (auto simp: starts_with_def)
  moreover have "pathParts (CHR ''/'' # (if starts_with p ''/'' then tl p else p)) = pathParts p"
    by (cases p) (auto simp: starts_with_def pathParts_def)
  moreover have "pathParts (CHR ''/'' # ''proxy'' @ CHR ''/'' # s) = ''proxy'' # pathParts (CHR ''/'' # s)" for s
    using pathParts_step [of "''proxy''" s] by simp
  ultimately show ?thesis
    unfolding ProxyRoute routeParts.simps by (metis pathParts_session(2) [OF assms])
qed (use pathParts_session [OF assms] in \<open>simp_all add: pathParts_Nil\<close>)

lemma route_reads_back:
  assumes "SESSION_ID_PATTERN sid" and "\<forall>p. r \<noteq> ProxyRoute p"
  shows "matchSessionRoute (routeMethod r) (''/sessions/'' @ sid @ routeSuffix r) = Some (sid, r)"
proof -
  have "(if routeParts r = [] then
       (if routeMethod r = ''GET'' then Some (sid, StateRoute)
        else if routeMethod r = ''DELETE'' then Some (sid, RemoveRoute) else None)
     else if hd (routeParts r) = ''proxy'' then Some (sid, ProxyRoute (''/'' @ join_with ''/'' (tl (routeParts r))))
     else if routeMethod r \<noteq> ''POST'' then None
     else map_option (Pair sid) (map_of postRoutes (join_with ''/'' (routeParts r)))) = Some (sid, r)"
    using assms(2) by (cases r) (simp_all add: pathParts_def postRoutes_def)
  then show ?thesis by (simp only: matched_parts [OF pathParts_route [OF assms(1)] assms(1)])
qed

lemma proxy_reads_back:
  assumes "SESSION_ID_PATTERN sid"
  shows "matchSessionRoute m (''/sessions/'' @ sid @ routeSuffix (ProxyRoute p)) =
    Some (sid, ProxyRoute (''/'' @ join_with ''/'' (pathParts p)))"
  by (simp only: matched_parts [OF pathParts_route [OF assms] assms] routeParts.simps) simp

lemma matched_id: "matchSessionRoute m p = Some (sid, r) \<Longrightarrow> SESSION_ID_PATTERN sid"
  by (auto simp: matchSessionRoute_def split: list.splits if_splits)

end
