(* ===== verification/Session_Lock.thy ===== *)
theory Session_Lock
  imports Host_Protocol
begin

text \<open>
  \<open>withSessionLock\<close> of \<open>agent/server.mjs\<close>: the calls that change whether a container exists are
  chained by session. A call's work begins when the call that was the tail of its session's
  chain has settled, fulfilled or rejected; when a call settles it removes the tail if that is
  still its own. Calls are numbered in the order in which they arrive, and the steps are the
  turns of the event loop in any order.
\<close>

section \<open>The machine\<close>

datatype lock_phase = LockWaits | LockWorks | LockSettled

record lock_task =
  lt_session :: string
  lt_previous :: "nat option"
  lt_phase :: lock_phase

record lock_state =
  lk_tasks :: "lock_task list"
  lk_tail :: "string \<Rightarrow> nat option"

definition noLocks :: lock_state where
  "noLocks = \<lparr>lk_tasks = [], lk_tail = (\<lambda>_. None)\<rparr>"

definition settledBefore :: "lock_state \<Rightarrow> nat option \<Rightarrow> bool" where
  "settledBefore s p = (case p of None \<Rightarrow> True | Some k \<Rightarrow> lt_phase (lk_tasks s ! k) = LockSettled)"

definition setPhase :: "nat \<Rightarrow> lock_phase \<Rightarrow> lock_state \<Rightarrow> lock_state" where
  "setPhase k ph s = s\<lparr>lk_tasks := (lk_tasks s)[k := (lk_tasks s ! k)\<lparr>lt_phase := ph\<rparr>]\<rparr>"

definition withSessionLock :: "string \<Rightarrow> lock_state \<Rightarrow> lock_state" where
  "withSessionLock sid s =
     \<lparr>lk_tasks = lk_tasks s @ [\<lparr>lt_session = sid, lt_previous = lk_tail s sid, lt_phase = LockWaits\<rparr>],
      lk_tail = (lk_tail s)(sid := Some (length (lk_tasks s)))\<rparr>"

definition dropTail :: "nat \<Rightarrow> lock_state \<Rightarrow> lock_state" where
  "dropTail k s =
     (let sid = lt_session (lk_tasks s ! k) in
      if lk_tail s sid = Some k then s\<lparr>lk_tail := (lk_tail s)(sid := None)\<rparr> else s)"

inductive lock_step :: "lock_state \<Rightarrow> lock_state \<Rightarrow> bool" where
  arrives: "SESSION_ID_PATTERN sid \<Longrightarrow> lock_step s (withSessionLock sid s)"
| begins: "k < length (lk_tasks s) \<Longrightarrow> lt_phase (lk_tasks s ! k) = LockWaits \<Longrightarrow>
    settledBefore s (lt_previous (lk_tasks s ! k)) \<Longrightarrow> lock_step s (setPhase k LockWorks s)"
| ends: "k < length (lk_tasks s) \<Longrightarrow> lt_phase (lk_tasks s ! k) = LockWorks \<Longrightarrow>
    lock_step s (setPhase k LockSettled s)"
| cleans: "k < length (lk_tasks s) \<Longrightarrow> lt_phase (lk_tasks s ! k) = LockSettled \<Longrightarrow>
    lock_step s (dropTail k s)"

inductive lock_reachable :: "lock_state \<Rightarrow> bool" where
  start: "lock_reachable noLocks"
| step: "lock_reachable s \<Longrightarrow> lock_step s s' \<Longrightarrow> lock_reachable s'"

section \<open>The invariant\<close>

abbreviation task :: "lock_state \<Rightarrow> nat \<Rightarrow> lock_task" where
  "task s k \<equiv> lk_tasks s ! k"

text \<open>Another call of the same session that arrived before.\<close>

definition earlier :: "lock_state \<Rightarrow> nat \<Rightarrow> nat \<Rightarrow> bool" where
  "earlier s j k = (j < k \<and> lt_session (task s j) = lt_session (task s k))"

text \<open>
  Whatever came before a call has settled or is not after its predecessor, and what has begun
  has nothing unsettled before it; the tail of a session is its last call, or all have settled.
\<close>

definition chain_ok :: "lock_state \<Rightarrow> bool" where
  "chain_ok s =
     (\<forall>k < length (lk_tasks s).
        (\<forall>p. lt_previous (task s k) = Some p \<longrightarrow> earlier s p k) \<and>
        (\<forall>j. earlier s j k \<longrightarrow>
           lt_phase (task s j) = LockSettled \<or> (\<exists>p. lt_previous (task s k) = Some p \<and> j \<le> p)) \<and>
        (lt_phase (task s k) \<noteq> LockWaits \<longrightarrow> (\<forall>j. earlier s j k \<longrightarrow> lt_phase (task s j) = LockSettled)))"

definition tail_ok :: "lock_state \<Rightarrow> bool" where
  "tail_ok s =
     (\<forall>sid. case lk_tail s sid of
        None \<Rightarrow> \<forall>k < length (lk_tasks s). lt_session (task s k) = sid \<longrightarrow> lt_phase (task s k) = LockSettled
      | Some t \<Rightarrow> t < length (lk_tasks s) \<and> lt_session (task s t) = sid \<and>
          (\<forall>k < length (lk_tasks s). lt_session (task s k) = sid \<longrightarrow> k \<le> t))"

lemma chain_previous: "chain_ok s \<Longrightarrow> k < length (lk_tasks s) \<Longrightarrow> lt_previous (task s k) = Some p \<Longrightarrow> earlier s p k"
  by (simp add: chain_ok_def)

lemma chain_before:
  assumes "chain_ok s" and "k < length (lk_tasks s)" and "earlier s j k"
  obtains "lt_phase (task s j) = LockSettled" | p where "lt_previous (task s k) = Some p" and "j \<le> p"
  using assms unfolding chain_ok_def by blast

lemma chain_settled:
  "chain_ok s \<Longrightarrow> k < length (lk_tasks s) \<Longrightarrow> lt_phase (task s k) \<noteq> LockWaits \<Longrightarrow> earlier s j k \<Longrightarrow>
     lt_phase (task s j) = LockSettled"
  by (simp add: chain_ok_def)

lemma tail_last:
  assumes "tail_ok s" and "lk_tail s sid = Some t" and "k < length (lk_tasks s)" and "lt_session (task s k) = sid"
  shows "k \<le> t"
proof -
  have "case lk_tail s sid of
        None \<Rightarrow> \<forall>k < length (lk_tasks s). lt_session (task s k) = sid \<longrightarrow> lt_phase (task s k) = LockSettled
      | Some t \<Rightarrow> t < length (lk_tasks s) \<and> lt_session (task s t) = sid \<and>
          (\<forall>k < length (lk_tasks s). lt_session (task s k) = sid \<longrightarrow> k \<le> t)"
    using assms(1) unfolding tail_ok_def by (rule spec)
  then show ?thesis using assms(2-4) by simp
qed

lemma task_setPhase:
  assumes "k < length (lk_tasks s)"
  shows "length (lk_tasks (setPhase k ph s)) = length (lk_tasks s)"
    and "lt_session (task (setPhase k ph s) j) = lt_session (task s j)"
    and "lt_previous (task (setPhase k ph s) j) = lt_previous (task s j)"
    and "lt_phase (task (setPhase k ph s) j) = (if j = k then ph else lt_phase (task s j))"
    and "lk_tail (setPhase k ph s) = lk_tail s"
    and "earlier (setPhase k ph s) i j = earlier s i j"
  using assms by (auto simp: setPhase_def earlier_def nth_list_update)

text \<open>A phase changes: the tail is still right unless a settled call is not.\<close>

lemma tail_setPhase:
  assumes t: "tail_ok s" and k: "k < length (lk_tasks s)"
    and "lt_phase (task s k) = LockSettled \<Longrightarrow> ph = LockSettled"
  shows "tail_ok (setPhase k ph s)"
  unfolding tail_ok_def
proof
  fix sid
  have "case lk_tail s sid of
        None \<Rightarrow> \<forall>k < length (lk_tasks s). lt_session (task s k) = sid \<longrightarrow> lt_phase (task s k) = LockSettled
      | Some t \<Rightarrow> t < length (lk_tasks s) \<and> lt_session (task s t) = sid \<and>
          (\<forall>k < length (lk_tasks s). lt_session (task s k) = sid \<longrightarrow> k \<le> t)"
    using t unfolding tail_ok_def by (rule spec)
  then show "case lk_tail (setPhase k ph s) sid of
        None \<Rightarrow> \<forall>j < length (lk_tasks (setPhase k ph s)).
          lt_session (task (setPhase k ph s) j) = sid \<longrightarrow> lt_phase (task (setPhase k ph s) j) = LockSettled
      | Some t \<Rightarrow> t < length (lk_tasks (setPhase k ph s)) \<and> lt_session (task (setPhase k ph s) t) = sid \<and>
          (\<forall>j < length (lk_tasks (setPhase k ph s)). lt_session (task (setPhase k ph s) j) = sid \<longrightarrow> j \<le> t)"
    using assms(3) k by (cases "lk_tail s sid") (auto simp: task_setPhase)
qed

lemma chain_setPhase:
  assumes c: "chain_ok s" and k: "k < length (lk_tasks s)"
    and kept: "lt_phase (task s k) = LockSettled \<Longrightarrow> ph = LockSettled"
    and before: "\<And>j. earlier s j k \<Longrightarrow> lt_phase (task s j) = LockSettled"
  shows "chain_ok (setPhase k ph s)"
proof -
  have remains: "lt_phase (task (setPhase k ph s) j) = LockSettled" if "lt_phase (task s j) = LockSettled" for j
    using that kept by (cases "j = k") (simp_all add: task_setPhase [OF k])
  show ?thesis
    unfolding chain_ok_def task_setPhase(1,3,6) [OF k]
  proof (intro allI impI conjI)
    fix i p assume "i < length (lk_tasks s)" "lt_previous (task s i) = Some p"
    then show "earlier s p i" by (rule chain_previous [OF c])
  next
    fix i j assume i: "i < length (lk_tasks s)" and "earlier s j i"
    with c show "lt_phase (task (setPhase k ph s) j) = LockSettled \<or> (\<exists>p. lt_previous (task s i) = Some p \<and> j \<le> p)"
      by (cases rule: chain_before) (use remains in auto)
  next
    fix i j assume i: "i < length (lk_tasks s)" and w: "lt_phase (task (setPhase k ph s) i) \<noteq> LockWaits"
      and e: "earlier s j i"
    show "lt_phase (task (setPhase k ph s) j) = LockSettled"
    proof (cases "i = k")
      case True
      with e show ?thesis by (intro remains before) simp
    next
      case False
      with w have "lt_phase (task s i) \<noteq> LockWaits" by (simp add: task_setPhase [OF k])
      with e show ?thesis by (intro remains chain_settled [OF c i])
    qed
  qed
qed

lemma task_arrive:
  "j < length (lk_tasks s) \<Longrightarrow> task (withSessionLock sid s) j = task s j"
  "task (withSessionLock sid s) (length (lk_tasks s)) =
     \<lparr>lt_session = sid, lt_previous = lk_tail s sid, lt_phase = LockWaits\<rparr>"
  "length (lk_tasks (withSessionLock sid s)) = Suc (length (lk_tasks s))"
  by (simp_all add: withSessionLock_def nth_append)

lemma arrive_ok:
  assumes "chain_ok s" and "tail_ok s"
  shows "chain_ok (withSessionLock sid s)" and "tail_ok (withSessionLock sid s)"
proof -
  let ?n = "length (lk_tasks s)" and ?s = "withSessionLock sid s"
  have e: "earlier ?s j k = earlier s j k" if "k < ?n" for j k
    using that by (auto simp: earlier_def task_arrive)
  have t: "case lk_tail s sid of
      None \<Rightarrow> \<forall>k < ?n. lt_session (task s k) = sid \<longrightarrow> lt_phase (task s k) = LockSettled
    | Some t \<Rightarrow> t < ?n \<and> lt_session (task s t) = sid \<and> (\<forall>k < ?n. lt_session (task s k) = sid \<longrightarrow> k \<le> t)"
    using assms(2) by (simp add: tail_ok_def)
  show "chain_ok ?s"
    unfolding chain_ok_def task_arrive(3)
  proof (intro allI impI)
    fix k assume "k < Suc ?n"
    then consider "k < ?n" | "k = ?n" by linarith
    then show "(\<forall>p. lt_previous (task ?s k) = Some p \<longrightarrow> earlier ?s p k) \<and>
        (\<forall>j. earlier ?s j k \<longrightarrow>
           lt_phase (task ?s j) = LockSettled \<or> (\<exists>p. lt_previous (task ?s k) = Some p \<and> j \<le> p)) \<and>
        (lt_phase (task ?s k) \<noteq> LockWaits \<longrightarrow> (\<forall>j. earlier ?s j k \<longrightarrow> lt_phase (task ?s j) = LockSettled))"
    proof cases
      case 1
      have "task ?s j = task s j" if "earlier s j k" for j
        using that 1 by (simp add: earlier_def task_arrive)
      with 1 assms(1) show ?thesis by (auto simp: chain_ok_def e task_arrive)
    next
      case 2
      have "earlier ?s j ?n \<longleftrightarrow> j < ?n \<and> lt_session (task s j) = sid" for j
        by (auto simp: earlier_def task_arrive)
      with t 2 show ?thesis by (auto simp: task_arrive split: option.splits)
    qed
  qed
  show "tail_ok ?s"
    unfolding tail_ok_def task_arrive(3)
  proof
    fix x
    show "case lk_tail ?s x of
        None \<Rightarrow> \<forall>k < Suc ?n. lt_session (task ?s k) = x \<longrightarrow> lt_phase (task ?s k) = LockSettled
      | Some t \<Rightarrow> t < Suc ?n \<and> lt_session (task ?s t) = x \<and>
          (\<forall>k < Suc ?n. lt_session (task ?s k) = x \<longrightarrow> k \<le> t)"
    proof (cases "x = sid")
      case True
      then have "lk_tail ?s x = Some ?n" by (simp add: withSessionLock_def)
      with True show ?thesis by (simp add: task_arrive)
    next
      case False
      then have l: "lk_tail ?s x = lk_tail s x" by (simp add: withSessionLock_def)
      have "case lk_tail s x of
          None \<Rightarrow> \<forall>k < ?n. lt_session (task s k) = x \<longrightarrow> lt_phase (task s k) = LockSettled
        | Some t \<Rightarrow> t < ?n \<and> lt_session (task s t) = x \<and> (\<forall>k < ?n. lt_session (task s k) = x \<longrightarrow> k \<le> t)"
        using assms(2) by (simp add: tail_ok_def)
      with False show ?thesis unfolding l
        by (auto simp: less_Suc_eq task_arrive split: option.splits)
    qed
  qed
qed

lemma begin_ok:
  assumes c: "chain_ok s" and "tail_ok s" and k: "k < length (lk_tasks s)"
    and "lt_phase (task s k) = LockWaits" and p: "settledBefore s (lt_previous (task s k))"
  shows "chain_ok (setPhase k LockWorks s)" and "tail_ok (setPhase k LockWorks s)"
proof -
  have "lt_phase (task s j) = LockSettled" if j: "earlier s j k" for j
    using c k j
  proof (cases rule: chain_before)
    case (2 q)
    then have q: "earlier s q k" "lt_phase (task s q) = LockSettled"
      using chain_previous [OF c k] p by (auto simp: settledBefore_def)
    then have "q < length (lk_tasks s)" using k by (simp add: earlier_def)
    moreover have "j = q \<or> earlier s j q" using 2 j q by (auto simp: earlier_def)
    ultimately show ?thesis using chain_settled [OF c, of q j] q(2) by auto
  qed
  then show "chain_ok (setPhase k LockWorks s)"
    by (intro chain_setPhase [OF c k]) (simp_all add: assms(4))
  show "tail_ok (setPhase k LockWorks s)"
    by (rule tail_setPhase [OF assms(2) k]) (simp add: assms(4))
qed

lemma end_ok:
  assumes "chain_ok s" and "tail_ok s" and "k < length (lk_tasks s)" and "lt_phase (task s k) = LockWorks"
  shows "chain_ok (setPhase k LockSettled s)" and "tail_ok (setPhase k LockSettled s)"
proof -
  show "chain_ok (setPhase k LockSettled s)"
    by (rule chain_setPhase [OF assms(1,3)]) (simp_all add: chain_settled [OF assms(1,3)] assms(4))
  show "tail_ok (setPhase k LockSettled s)"
    by (rule tail_setPhase [OF assms(2,3)]) simp
qed

lemma clean_ok:
  assumes c: "chain_ok s" and t: "tail_ok s" and k: "k < length (lk_tasks s)" "lt_phase (task s k) = LockSettled"
  shows "chain_ok (dropTail k s)" and "tail_ok (dropTail k s)"
proof -
  show "chain_ok (dropTail k s)"
    using c by (simp add: chain_ok_def dropTail_def earlier_def Let_def)
  have "lt_phase (task s j) = LockSettled"
    if "lk_tail s (lt_session (task s k)) = Some k" "j < length (lk_tasks s)"
      "lt_session (task s j) = lt_session (task s k)" for j
  proof -
    have "j \<le> k" by (rule tail_last [OF t that])
    then have "j = k \<or> earlier s j k" using that(3) by (auto simp: earlier_def)
    then show ?thesis using chain_settled [OF c k(1), of j] k(2) by auto
  qed
  note settled = this
  show "tail_ok (dropTail k s)"
  proof (cases "lk_tail s (lt_session (task s k)) = Some k")
    case True
    then have d: "dropTail k s = s\<lparr>lk_tail := (lk_tail s)(lt_session (task s k) := None)\<rparr>"
      by (simp add: dropTail_def Let_def)
    show ?thesis
      unfolding tail_ok_def
    proof
      fix sid
      have "case lk_tail s sid of
        None \<Rightarrow> \<forall>k < length (lk_tasks s). lt_session (task s k) = sid \<longrightarrow> lt_phase (task s k) = LockSettled
      | Some t \<Rightarrow> t < length (lk_tasks s) \<and> lt_session (task s t) = sid \<and>
          (\<forall>k < length (lk_tasks s). lt_session (task s k) = sid \<longrightarrow> k \<le> t)"
        using t unfolding tail_ok_def by (rule spec)
      then show "case lk_tail (dropTail k s) sid of
        None \<Rightarrow> \<forall>j < length (lk_tasks (dropTail k s)).
          lt_session (task (dropTail k s) j) = sid \<longrightarrow> lt_phase (task (dropTail k s) j) = LockSettled
      | Some t \<Rightarrow> t < length (lk_tasks (dropTail k s)) \<and> lt_session (task (dropTail k s) t) = sid \<and>
          (\<forall>j < length (lk_tasks (dropTail k s)). lt_session (task (dropTail k s) j) = sid \<longrightarrow> j \<le> t)"
        unfolding d using settled [OF True] by (auto split: option.splits)
    qed
  next
    case False
    then show ?thesis using t by (simp add: dropTail_def Let_def)
  qed
qed

lemma lock_reachable_ok: "lock_reachable s \<Longrightarrow> chain_ok s \<and> tail_ok s"
proof (induction rule: lock_reachable.induct)
  case start
  then show ?case by (simp add: noLocks_def chain_ok_def tail_ok_def)
next
  case (step s s')
  then have ok: "chain_ok s" "tail_ok s" by simp_all
  from step.hyps(2) show ?case
  proof cases
    case (arrives sid)
    then show ?thesis using arrive_ok [OF ok] by simp
  next
    case (begins k)
    then show ?thesis using begin_ok [OF ok] by simp
  next
    case (ends k)
    then show ?thesis using end_ok [OF ok] by simp
  next
    case (cleans k)
    then show ?thesis using clean_ok [OF ok] by simp
  qed
qed

section \<open>What it guarantees\<close>

text \<open>
  C38. At any moment at most one lifecycle call of a session works, everything of that session
  that arrived before it has settled, and while calls of a session are unsettled the first of
  them works or may begin: the calls of a session take their turns and none is stuck.
\<close>

theorem lifecycle_calls_take_turns:
  assumes "lock_reachable s" and "k < length (lk_tasks s)"
  shows "(lt_phase (task s k) = LockWorks \<longrightarrow> (\<forall>j < length (lk_tasks s).
       lt_session (task s j) = lt_session (task s k) \<longrightarrow>
       (lt_phase (task s j) = LockWorks \<longrightarrow> j = k) \<and> (j < k \<longrightarrow> lt_phase (task s j) = LockSettled))) \<and>
    (lt_phase (task s k) = LockWaits \<longrightarrow> (\<forall>j. earlier s j k \<longrightarrow> lt_phase (task s j) = LockSettled) \<longrightarrow>
       lock_step s (setPhase k LockWorks s))"
proof -
  have c: "chain_ok s" using lock_reachable_ok assms(1) by blast
  have turns: "j = k \<or> lt_phase (task s j) = LockSettled \<or> (k < j \<and> lt_phase (task s j) = LockWaits)"
    if "lt_phase (task s k) = LockWorks" "j < length (lk_tasks s)" "lt_session (task s j) = lt_session (task s k)" for j
  proof -
    have "j = k \<or> earlier s j k \<or> earlier s k j" using that(3) by (auto simp: earlier_def)
    then consider "j = k" | "earlier s j k" | "earlier s k j" by blast
    then show ?thesis
    proof cases
      case 2
      then show ?thesis using c assms(2) that(1) by (auto simp: chain_ok_def)
    next
      case 3
      then have "lt_phase (task s j) = LockWaits" using c that(1,2) by (auto simp: chain_ok_def)
      with 3 show ?thesis by (simp add: earlier_def)
    qed simp
  qed
  have "lock_step s (setPhase k LockWorks s)"
    if "lt_phase (task s k) = LockWaits" "\<forall>j. earlier s j k \<longrightarrow> lt_phase (task s j) = LockSettled"
  proof (rule lock_step.begins [OF assms(2) that(1)])
    show "settledBefore s (lt_previous (task s k))"
      using c assms(2) that(2) by (auto simp: chain_ok_def settledBefore_def split: option.split)
  qed
  with turns show ?thesis by (metis lock_phase.distinct(1,5) not_less_iff_gr_or_eq)
qed

theorem lifecycle_calls_take_turns_witness:
  "\<exists>s. lock_reachable s \<and> length (lk_tasks s) = 2 \<and> lt_phase (task s 0) = LockWorks \<and>
     lt_session (task s 1) = lt_session (task s 0) \<and> lt_phase (task s 1) \<noteq> LockWorks"
proof -
  let ?a = "withSessionLock ''s1'' noLocks"
  let ?b = "setPhase 0 LockWorks ?a"
  let ?c = "withSessionLock ''s1'' ?b"
  have id: "SESSION_ID_PATTERN ''s1''" by code_simp
  have "lock_reachable ?a" by (rule lock_reachable.step [OF lock_reachable.start lock_step.arrives [OF id]])
  moreover have "lock_step ?a ?b"
    by (rule lock_step.begins) (simp_all add: withSessionLock_def noLocks_def settledBefore_def)
  ultimately have "lock_reachable ?b" by (rule lock_reachable.step)
  then have r: "lock_reachable ?c" by (rule lock_reachable.step) (rule lock_step.arrives [OF id])
  have p: "length (lk_tasks ?c) = 2" "lt_phase (task ?c 0) = LockWorks" "lt_session (task ?c 1) = lt_session (task ?c 0)"
    by (simp_all add: withSessionLock_def noLocks_def setPhase_def)
  have "lt_phase (task ?c 1) \<noteq> LockWorks"
  proof
    assume "lt_phase (task ?c 1) = LockWorks"
    moreover have "0 < length (lk_tasks ?c)" "1 < length (lk_tasks ?c)" using p(1) by simp_all
    ultimately have "1 = (0 :: nat)"
      using lifecycle_calls_take_turns [OF r, of 0] p(2,3) by blast
    then show False by simp
  qed
  with r p show ?thesis by blast
qed

end
