(* ===== verification/Host_Client.thy ===== *)
theory Host_Client
  imports Host_Protocol Provider_Runtime
begin

text \<open>
  The site's client of the Sandbox Host protocol, \<open>src/host-client.ts\<close>: one typed method for
  each route, the exchange with its accounting, the errors it raises, the choice of the host
  of a session, and the environment an OpenCode server is started with. The transport is the
  environment: it delivers a status and a text with what the text parses to, or fails.
\<close>

section \<open>Errors and accounting\<close>

text \<open>An error of the host with its own code, a host that is not configured, or anything else thrown.\<close>

datatype client_error =
    HostError string string nat
  | HostUnavailableError string
  | ThrownError string

definition isContainerNotRunning :: "client_error \<Rightarrow> bool" where
  "isContainerNotRunning e =
     (case e of HostError code m s \<Rightarrow> code = ''CONTAINER_NOT_RUNNING'' | _ \<Rightarrow> False)"

record host_reply_text =
  hr_status :: nat
  hr_text :: string
  hr_parsed :: json_text

text \<open>\<open>JSON.parse\<close> of a \<open>null\<close> body throws at the first field, as a malformed text does.\<close>

definition hostErrorFrom :: "host_reply_text \<Rightarrow> string \<Rightarrow> client_error" where
  "hostErrorFrom r route =
     (let fallback = HostError (if hr_status r = 503 then ''CONTAINER_NOT_RUNNING'' else ''HOST_ERROR'')
            (''Host answered '' @ route @ '' with HTTP '' @ decimal (hr_status r) @ '': '' @ take 600 (hr_text r))
            (hr_status r)
      in case hr_parsed r of
           Malformed \<Rightarrow> fallback
         | Text parsed \<Rightarrow>
             (case fieldOf parsed ''code'' of
                JStr code \<Rightarrow> HostError code
                  (case fieldOf parsed ''message'' of JStr m \<Rightarrow> m | _ \<Rightarrow> hr_text r) (hr_status r)
              | _ \<Rightarrow> fallback))"

record call_stats =
  cs_calls :: nat
  cs_totalMs :: int
  cs_minMs :: "int option"

definition recordCall :: "int \<Rightarrow> call_stats \<Rightarrow> call_stats" where
  "recordCall durationMs s =
     \<lparr>cs_calls = cs_calls s + 1, cs_totalMs = cs_totalMs s + durationMs,
      cs_minMs = (case cs_minMs s of
          None \<Rightarrow> Some durationMs
        | Some m \<Rightarrow> if durationMs < m then Some durationMs else Some m)\<rparr>"

definition resetCallStats :: call_stats where
  "resetCallStats = \<lparr>cs_calls = 0, cs_totalMs = 0, cs_minMs = None\<rparr>"

section \<open>The exchange\<close>

record host_request =
  hq_method :: string
  hq_path :: string
  hq_body :: "json option"

text \<open>An answer takes its time; a transport that fails has spent its own.\<close>

datatype transport_answer = Delivers nat host_reply_text | TransportFails nat string

record client_world =
  cw_stats :: call_stats
  cw_sent :: "host_request list"

definition transport :: "host_request \<Rightarrow> (client_world, transport_answer, client_error, host_reply_text) program" where
  "transport q = call (\<lambda>a w.
     let sent = w\<lparr>cw_sent := cw_sent w @ [q]\<rparr> in
     case a of
       Delivers d r \<Rightarrow> (Inr r, sent\<lparr>cw_stats := recordCall (int d) (cw_stats w)\<rparr>)
     | TransportFails d m \<Rightarrow> (Inl (ThrownError m), sent\<lparr>cw_stats := recordCall (int d) (cw_stats w)\<rparr>))"

definition readReply :: "host_request \<Rightarrow> host_reply_text \<Rightarrow> client_error + json" where
  "readReply q r =
     (let route = hq_method q @ '' '' @ hq_path q in
      if hr_status r < 200 \<or> hr_status r > 299 then Inl (hostErrorFrom r route)
      else case hr_parsed r of
        Malformed \<Rightarrow> Inl (HostError ''HOST_ERROR'' (''Host answered '' @ route @ '' with a non-JSON body'') (hr_status r))
      | Text v \<Rightarrow> Inr v)"

definition exchange :: "host_request \<Rightarrow> (client_world, transport_answer, client_error, json) program" where
  "exchange q = andThen (transport q) (\<lambda>r.
     case readReply q r of Inl e \<Rightarrow> raise e | Inr v \<Rightarrow> return v)"

section \<open>The methods\<close>

datatype host_method =
    AskHealthz
  | AskEnsure "string option"
  | AskState
  | AskStop "int option"
  | AskRemove
  | AskExec string "string option" "(string \<times> string) list option" "int option"
  | AskWriteBatch "file_write list"
  | AskReadFile string
  | AskExists string
  | AskListFiles string bool
  | AskOpencodeStart int string "(string \<times> string) list"
  | AskSnapshot string "string option" "int option"
  | AskSnapshotRestore json


text \<open>Fields that are \<open>undefined\<close> are not part of the text of an object.\<close>

definition optField :: "string \<Rightarrow> json option \<Rightarrow> (string \<times> json) list" where
  "optField k v = (case v of None \<Rightarrow> [] | Some j \<Rightarrow> [(k, j)])"

definition envJson :: "(string \<times> string) list \<Rightarrow> json" where
  "envJson env = JObj (map (\<lambda>(k, v). (k, JStr v)) env)"

definition fileJson :: "file_write \<Rightarrow> json" where
  "fileJson f = JObj ([(''path'', JStr (fw_path f)), (''content'', JStr (fw_content f)),
     (''encoding'', JStr (case fw_encoding f of Utf8File \<Rightarrow> ''utf-8'' | Base64File \<Rightarrow> ''base64''))]
     @ optField ''mode'' (map_option JStr (fw_mode f)))"

text \<open>The image of the client is the default of an ensure that names none.\<close>

fun methodBody :: "string option \<Rightarrow> host_method \<Rightarrow> (string \<times> json) list option" where
  "methodBody image0 AskHealthz = None"
| "methodBody image0 (AskEnsure i) = Some
     (case i of
        Some s \<Rightarrow> [(''image'', JStr s)]
      | None \<Rightarrow> (case image0 of None \<Rightarrow> [] | Some s \<Rightarrow> if s = [] then [] else [(''image'', JStr s)]))"
| "methodBody image0 AskState = None"
| "methodBody image0 (AskStop t) = Some (optField ''timeoutSec'' (map_option JNum t))"
| "methodBody image0 AskRemove = None"
| "methodBody image0 (AskExec c d e t) = Some ((''command'', JStr c) # optField ''cwd'' (map_option JStr d) @
     optField ''env'' (map_option envJson e) @ optField ''timeoutMs'' (map_option JNum t))"
| "methodBody image0 (AskWriteBatch fs) = Some [(''files'', JArr (map fileJson fs))]"
| "methodBody image0 (AskReadFile p) = Some [(''path'', JStr p)]"
| "methodBody image0 (AskExists p) = Some [(''path'', JStr p)]"
| "methodBody image0 (AskListFiles p h) = Some [(''path'', JStr p), (''includeHidden'', JBool h)]"
| "methodBody image0 (AskOpencodeStart p d e) = Some
     [(''port'', JNum p), (''directory'', JStr d), (''env'', envJson e)]"
| "methodBody image0 (AskSnapshot d n t) = Some ((''dir'', JStr d) # optField ''name'' (map_option JStr n) @
     optField ''ttlSeconds'' (map_option JNum t))"
| "methodBody image0 (AskSnapshotRestore h) = Some [(''handle'', h)]"

record host_client =
  hc_sessionId :: string
  hc_snapshots :: bool
  hc_image :: "string option"


definition RUNTIME_EPOCH_HEADER :: string where
  "RUNTIME_EPOCH_HEADER = ''x-opencode-hub-runtime''"

text \<open>A request to the container: its path and query, and its headers without the epoch.\<close>

definition proxyFetch ::
  "host_client \<Rightarrow> string \<Rightarrow> string \<Rightarrow> (string \<times> string) list \<Rightarrow>
     host_error + (string \<times> string \<times> (string \<times> string) list \<times> bool)" where
  "proxyFetch c method pathAndQuery headers =
     map_sum id (\<lambda>path. (method, path, filter (\<lambda>(k, v). k \<noteq> RUNTIME_EPOCH_HEADER) headers,
         method \<noteq> ''GET'' \<and> method \<noteq> ''HEAD''))
       (sessionRoutes (ProxyRoute pathAndQuery) (hc_sessionId c))"

section \<open>Which host\<close>

text \<open>The service binding, or an origin and its bearer token.\<close>

datatype host_transport = ServiceBinding | RemoteTransport string string

definition remoteTransport :: "string \<Rightarrow> string \<Rightarrow> host_transport" where
  "remoteTransport baseUrl token = RemoteTransport (dropSlashes baseUrl) token"

definition remoteHeaders :: "string \<Rightarrow> (string \<times> string) list \<Rightarrow> (string \<times> string) list" where
  "remoteHeaders token headers =
     (''authorization'', ''Bearer '' @ token) # filter (\<lambda>(k, v). k \<noteq> ''authorization'') headers"

definition newHostClient ::
  "host_transport \<Rightarrow> string \<Rightarrow> bool \<Rightarrow> string option \<Rightarrow> client_error + (host_transport \<times> host_client)" where
  "newHostClient t sessionId snapshots image0 =
     (if SESSION_ID_PATTERN sessionId
      then Inr (t, \<lparr>hc_sessionId = sessionId, hc_snapshots = snapshots, hc_image = image0\<rparr>)
      else Inl (ThrownError ''Invalid session id''))"

definition resolveHostClient ::
  "json \<Rightarrow> string \<Rightarrow> session_provider \<Rightarrow> client_error + (host_transport \<times> host_client)" where
  "resolveHostClient stored sessionId provider =
     (if provider = ''cloudflare'' then newHostClient ServiceBinding sessionId True None
      else if isDockerProvider provider then
        (case resolveDockerHost stored provider of
           None \<Rightarrow> Inl (HostUnavailableError (''This session runs on Docker sandbox host '' @
             quoted (case dockerHostId provider of None \<Rightarrow> ''default'' | Some i \<Rightarrow> i) @
             '', which is not configured. Add it back on the settings page.''))
         | Some host \<Rightarrow>
             newHostClient (remoteTransport (dh_baseUrl host) (dh_token host)) sessionId False (Some (dh_image host)))
      else Inl (ThrownError (''Unsupported sandbox provider: '' @ provider)))"

section \<open>The environment of a server\<close>

definition upper_char :: "char \<Rightarrow> char" where
  "upper_char c = (if is_lower c then char_of (of_char c - 32 :: nat) else c)"

fun asRecord :: "json \<Rightarrow> json" where
  "asRecord (JObj kvs) = JObj kvs"
| "asRecord _ = JUndefined"

definition providerKey :: "json \<Rightarrow> json" where
  "providerKey value =
     (let provider = asRecord value; inner = fieldOf (asRecord (fieldOf provider ''options'')) ''apiKey''
      in if nullishValue inner then fieldOf provider ''apiKey'' else inner)"

definition GATEWAY :: string where
  "GATEWAY = ''cloudflare-ai-gateway''"

definition putKey :: "string \<times> json \<Rightarrow> (string \<Rightarrow> string option) \<Rightarrow> string \<Rightarrow> string option" where
  "putKey = (\<lambda>(i, value) env.
     if i = GATEWAY then env
     else case providerKey value of
       JStr key \<Rightarrow> env(map upper_char i @ ''_API_KEY'' \<mapsto> key)
     | _ \<Rightarrow> env)"

definition putText :: "string \<Rightarrow> json \<Rightarrow> (string \<Rightarrow> string option) \<Rightarrow> string \<Rightarrow> string option" where
  "putText name v env = (case v of JStr s \<Rightarrow> env(name \<mapsto> s) | _ \<Rightarrow> env)"

definition putGateway :: "(string \<times> json) list \<Rightarrow> (string \<Rightarrow> string option) \<Rightarrow> string \<Rightarrow> string option" where
  "putGateway providers env =
     (let options = asRecord (fieldOf (asRecord (field providers GATEWAY)) ''options'') in
      if options = JUndefined then env
      else putText ''CLOUDFLARE_API_TOKEN'' (fieldOf options ''apiToken'')
        (putText ''CLOUDFLARE_GATEWAY_ID'' (fieldOf options ''gatewayId'')
        (putText ''CLOUDFLARE_ACCOUNT_ID'' (fieldOf options ''accountId'') env)))"

text \<open>The text of the configuration is an argument.\<close>

definition opencodeServerEnv ::
  "(json \<Rightarrow> string) \<Rightarrow> (string \<times> json) list \<Rightarrow> (string \<Rightarrow> string option) \<Rightarrow> string \<Rightarrow> string option" where
  "opencodeServerEnv stringify config extra =
     (let env0 = Map.empty(''OPENCODE_CONFIG_CONTENT'' \<mapsto> stringify (JObj config));
          env = (case field config ''provider'' of
             JObj providers \<Rightarrow> putGateway providers (fold putKey providers env0)
           | _ \<Rightarrow> env0)
      in env ++ extra)"

section \<open>What the host reads of a body\<close>

lemma optField_simps [simp]:
  "optField k None = []" "optField k (Some v) = [(k, v)]"
  by (simp_all add: optField_def)

lemma field_append: "field (xs @ ys) k = (case map_of xs k of None \<Rightarrow> field ys k | Some v \<Rightarrow> v)"
  by (simp add: field_def map_of_append map_add_def split: option.split)









definition bodyText :: "host_request \<Rightarrow> request_body" where
  "bodyText q = (case hq_body q of None \<Rightarrow> Blank | Some v \<Rightarrow> Body (Text v))"


lemma body_read_back:
  "methodBody image0 m = Some body \<Longrightarrow>
     readJsonBody (bodyText \<lparr>hq_method = a, hq_path = b, hq_body = Some (JObj body)\<rparr>) = Inr body"
  by (simp add: bodyText_def)



text \<open>The operator's variables win, and the derived key of the gateway is never a provider's.\<close>

lemma operator_variables_win: "extra k = Some v \<Longrightarrow> opencodeServerEnv stringify config extra k = Some v"
  by (simp add: opencodeServerEnv_def Let_def map_add_def)

text \<open>A session is never sent to another host than the one its provider names.\<close>

lemma resolved_host:
  assumes "resolveHostClient stored sid provider = Inr (RemoteTransport base token, c)"
  shows "\<exists>h \<in> set (listDockerHosts stored). base = dropSlashes (dh_baseUrl h) \<and> token = dh_token h \<and>
    (case dockerHostId provider of None \<Rightarrow> True | Some i \<Rightarrow> dh_id h = i) \<and> \<not> hc_snapshots c"
proof -
  from assms obtain h where h: "resolveDockerHost stored provider = Some h" and
    eq: "newHostClient (remoteTransport (dh_baseUrl h) (dh_token h)) sid False (Some (dh_image h)) =
      Inr (RemoteTransport base token, c)"
    by (auto simp: resolveHostClient_def newHostClient_def split: if_splits option.splits)
  have "h \<in> set (listDockerHosts stored) \<and> (case dockerHostId provider of None \<Rightarrow> True | Some i \<Rightarrow> dh_id h = i)"
    using h by (auto simp: resolveDockerHost_def find_Some_iff split: option.splits list.splits if_splits)
  with eq show ?thesis by (auto simp: newHostClient_def remoteTransport_def split: if_splits)
qed

text \<open>The accounting of a window: its calls, their sum and the cheapest.\<close>

lemma lesser: "min (d :: int) m = (if d < m then d else m)"
  by auto

lemma stats_of_window:
  "foldl (\<lambda>s d. recordCall d s) resetCallStats ds =
     \<lparr>cs_calls = length ds, cs_totalMs = sum_list ds, cs_minMs = (if ds = [] then None else Some (Min (set ds)))\<rparr>"
proof (induction ds rule: rev_induct)
  case Nil
  show ?case by (simp add: resetCallStats_def)
next
  case (snoc d ds)
  have "cs_calls resetCallStats = 0" "cs_totalMs resetCallStats = 0" "cs_minMs resetCallStats = None"
    by (simp_all add: resetCallStats_def)
  moreover have "Min (insert d (set ds)) = (if d < Min (set ds) then d else Min (set ds))" if "ds \<noteq> []"
  proof -
    have "Min (insert d (set ds)) = min d (Min (set ds))" using that by (intro Min_insert) simp_all
    also have "\<dots> = (if d < Min (set ds) then d else Min (set ds))" by (rule lesser)
    finally show ?thesis .
  qed
  ultimately show ?case using snoc.IH
    by (cases "ds = []") (simp_all add: recordCall_def del: Min_insert)
qed

end
