(* ===== verification/Utf8.thy ===== *)
theory Utf8
  imports Js_Text
begin

text \<open>
  UTF-8 as the platform decodes and encodes it: bytes are characters, a text is the list of its
  code points. A byte that cannot continue a sequence ends it with U+FFFD and is read again as
  the first of the next, as the Encoding Standard prescribes and \<open>Buffer.toString('utf8')\<close> does.
\<close>

section \<open>Encoding\<close>

type_synonym codepoints = "nat list"

definition replacementChar :: nat where
  "replacementChar = 65533"

text \<open>A code point that is not a surrogate.\<close>

definition scalar :: "nat \<Rightarrow> bool" where
  "scalar c = (c < 55296 \<or> 57344 \<le> c \<and> c < 1114112)"

definition utf8Units :: "nat \<Rightarrow> nat list" where
  "utf8Units c =
     (if c < 128 then [c]
      else if c < 2048 then [192 + c div 64, 128 + c mod 64]
      else if c < 65536 then [224 + c div 4096, 128 + c div 64 mod 64, 128 + c mod 64]
      else [240 + c div 262144, 128 + c div 4096 mod 64, 128 + c div 64 mod 64, 128 + c mod 64])"

definition utf8Encode :: "codepoints \<Rightarrow> nat list" where
  "utf8Encode cs = concat (map utf8Units cs)"

section \<open>Decoding\<close>

text \<open>
  A sequence under way: how many bytes are missing, the range the next one has to be in, and
  the value read so far.
\<close>

datatype pending = Pending (bytesMissing: nat) (lowest: nat) (highest: nat) (bitsRead: nat)

text \<open>The first byte of a sequence: what it yields at once, and what it begins.\<close>

definition utf8Lead :: "nat \<Rightarrow> codepoints \<times> pending option" where
  "utf8Lead b =
     (if b < 128 then ([b], None)
      else if b < 194 then ([replacementChar], None)
      else if b < 224 then ([], Some (Pending 1 128 191 (b - 192)))
      else if b < 240 then ([], Some (Pending 2 (if b = 224 then 160 else 128) (if b = 237 then 159 else 191) (b - 224)))
      else if b < 245 then ([], Some (Pending 3 (if b = 240 then 144 else 128) (if b = 244 then 143 else 191) (b - 240)))
      else ([replacementChar], None))"

fun utf8Step :: "pending option \<Rightarrow> nat \<Rightarrow> codepoints \<times> pending option" where
  "utf8Step None b = utf8Lead b"
| "utf8Step (Some (Pending n lo hi v)) b =
     (if lo \<le> b \<and> b \<le> hi
      then if n \<le> 1 then ([v * 64 + (b - 128)], None) else ([], Some (Pending (n - 1) 128 191 (v * 64 + (b - 128))))
      else case utf8Lead b of (out, st) \<Rightarrow> (replacementChar # out, st))"

fun utf8From :: "pending option \<Rightarrow> nat list \<Rightarrow> codepoints" where
  "utf8From None [] = []"
| "utf8From (Some p) [] = [replacementChar]"
| "utf8From st (b # bs) = (case utf8Step st b of (out, st') \<Rightarrow> out @ utf8From st' bs)"

definition utf8Decode :: "nat list \<Rightarrow> codepoints" where
  "utf8Decode bs = utf8From None bs"

section \<open>The decoder undoes the encoder\<close>

lemma utf8Encode_simps [simp]:
  "utf8Encode [] = []"
  "utf8Encode (c # cs) = utf8Units c @ utf8Encode cs"
  "utf8Encode (cs @ ds) = utf8Encode cs @ utf8Encode ds"
  by (simp_all add: utf8Encode_def)

lemma utf8Units_bytes: "scalar c \<Longrightarrow> b \<in> set (utf8Units c) \<Longrightarrow> b < 256"
  by (auto simp: utf8Units_def scalar_def split: if_splits)

lemma utf8Units_zero: "0 \<in> set (utf8Units c) \<longleftrightarrow> c = 0"
  by (auto simp: utf8Units_def)

lemma utf8_one:
  assumes "scalar c"
  shows "utf8From None (utf8Units c @ bs) = c # utf8From None bs"
proof -
  have "c < 1114112" using assms by (auto simp: scalar_def)
  then consider "c < 128" | "128 \<le> c" "c < 2048" | "2048 \<le> c" "c < 65536" | "65536 \<le> c" "c < 1114112"
    by linarith
  then show ?thesis
  proof cases
    case 1
    then show ?thesis by (simp add: utf8Units_def utf8Lead_def)
  next
    case 2
    define q r where "q = c div 64" and "r = c mod 64"
    have c: "c = q * 64 + r" "r < 64" by (simp_all add: q_def r_def)
    then have "2 \<le> q" "q < 32" using 2 by linarith+
    then show ?thesis using 2 c(2) by (simp add: utf8Units_def utf8Lead_def q_def [symmetric] r_def [symmetric] c(1) [symmetric])
  next
    case 3
    define p q r where "p = c div 4096" and "q = c div 64 mod 64" and "r = c mod 64"
    have "c div 64 = p * 64 + q" by (simp add: p_def q_def div_mult2_eq [of c 64 64, simplified])
    then have c: "c = (p * 64 + q) * 64 + r" by (metis div_mult_mod_eq r_def)
    have b: "q < 64" "r < 64" by (simp_all add: q_def r_def)
    have l: "c = 4096 * p + 64 * q + r" using c by simp
    with b have "p < 16" using 3 by linarith
    have "32 \<le> q" if "p = 0" using that 3 l b by linarith
    moreover have "q < 32" if "p = 13"
      using that assms l b 3 unfolding scalar_def by linarith
    ultimately show ?thesis using 3 b \<open>p < 16\<close>
      by (auto simp add: utf8Units_def utf8Lead_def p_def [symmetric] q_def [symmetric] r_def [symmetric])
        (use l in linarith)+
  next
    case 4
    define o' p q r where "o' = c div 262144" and "p = c div 4096 mod 64" and "q = c div 64 mod 64" and "r = c mod 64"
    have 1: "c div 4096 = o' * 64 + p" by (simp add: o'_def p_def div_mult2_eq [of c 4096 64, simplified])
    have "c div 64 = c div 4096 * 64 + q" by (simp add: q_def div_mult2_eq [of c 64 64, simplified])
    then have c: "c = ((o' * 64 + p) * 64 + q) * 64 + r" unfolding 1 by (metis div_mult_mod_eq r_def)
    have b: "p < 64" "q < 64" "r < 64" by (simp_all add: p_def q_def r_def)
    have l: "c = 262144 * o' + 4096 * p + 64 * q + r" using c by simp
    with b have "o' < 5" using 4 by linarith
    have "16 \<le> p" if "o' = 0" using that 4 l b by linarith
    moreover have "p < 16" if "o' = 4" using that 4 l b by linarith
    ultimately show ?thesis using 4 b \<open>o' < 5\<close>
      by (auto simp add: utf8Units_def utf8Lead_def o'_def [symmetric] p_def [symmetric] q_def [symmetric] r_def [symmetric])
        (use l in linarith)+
  qed
qed

lemma utf8_decode_encode: "list_all scalar cs \<Longrightarrow> utf8Decode (utf8Encode cs) = cs"
  by (induction cs) (simp_all add: utf8Decode_def utf8_one)

section \<open>Bounds\<close>

text \<open>A replaced byte becomes three, and nothing grows more.\<close>

lemma utf8Units_length: "length (utf8Units c) \<le> 4" "length (utf8Units c) \<le> 6"
  by (simp_all add: utf8Units_def)

lemma utf8Units_replacement: "length (utf8Units replacementChar) = 3"
  by (simp add: utf8Units_def replacementChar_def)

lemma utf8Lead_length:
  "utf8Lead b = (out, st) \<Longrightarrow> length (utf8Encode out) + (if st = None then 0 else 3) \<le> 3"
  by (auto simp: utf8Lead_def utf8Units_replacement split: if_splits) (simp add: utf8Units_def)

lemma utf8Step_length:
  assumes "utf8Step st b = (out, st')"
  shows "length (utf8Encode out) + (if st' = None then 0 else 3) \<le> 3 + (if st = None then 0 else 3)"
proof (cases "(st, b)" rule: utf8Step.cases)
  case (1 c)
  then show ?thesis using assms utf8Lead_length by fastforce
next
  case (2 n lo hi v c)
  then show ?thesis
    using assms utf8Lead_length [of b "tl out" st'] utf8Units_length
    by (auto simp: utf8Units_replacement split: if_splits prod.splits intro: order_trans)
qed

lemma utf8From_length:
  "length (utf8Encode (utf8From st bs)) \<le> 3 * length bs + (if st = None then 0 else 3)"
proof (induction st bs rule: utf8From.induct)
  case (3 st b bs)
  obtain out st' where s: "utf8Step st b = (out, st')" by fastforce
  then show ?case using 3 [OF s [symmetric]] utf8Step_length [OF s] by (auto split: if_splits)
qed (simp_all add: utf8Units_replacement)

lemma utf8Decode_length: "length (utf8Encode (utf8Decode bs)) \<le> 3 * length bs"
  using utf8From_length [of None bs] by (simp add: utf8Decode_def)

end
