(* ===== verification/Docker_Cli.thy ===== *)
theory Docker_Cli
  imports Host_Protocol Utf8 Base64 Session_Changes Workspace_Files Transcript_Mirror
begin

text \<open>
  The pure half of the Docker agent, \<open>agent/docker.mjs\<close>: names, argument vectors, the scripts
  that run in a container, the parsers of what comes back, and the collection of a child's
  output. What the program \<open>docker\<close> does with its arguments is not code of the repository: it
  appears as its exit code and the chunks it writes. Messages of the daemon and the output of
  its own commands are ASCII. \<open>Date.parse\<close> of a text, the fractional seconds of \<open>find\<close> and
  \<open>localeCompare\<close> are arguments.
\<close>

section \<open>Names and paths\<close>

definition EXEC_OUTPUT_LIMIT_BYTES :: nat where
  "EXEC_OUTPUT_LIMIT_BYTES = 2 * 1024 * 1024"

definition OPENCODE_CONTAINER_PORT :: int where
  "OPENCODE_CONTAINER_PORT = 4096"

definition WORKSPACE_MOUNT :: string where
  "WORKSPACE_MOUNT = ''/workspace''"

definition DEFAULT_EXEC_TIMEOUT_MS :: int where
  "DEFAULT_EXEC_TIMEOUT_MS = 120000"

definition TIMEOUT_EXIT_CODES :: "int list" where
  "TIMEOUT_EXIT_CODES = [124, 137]"

definition SERVER_ENV_FILE :: string where
  "SERVER_ENV_FILE = ''/root/.opencode-server.env''"

definition SERVER_LOG_FILE :: string where
  "SERVER_LOG_FILE = ''/tmp/opencode-server.log''"

text \<open>The names of ids that \<open>matchSessionRoute\<close> let through; any other id throws before.\<close>

definition containerName :: "string \<Rightarrow> string" where
  "containerName sessionId = ''oc-session-'' @ sessionId"

definition volumeName :: "string \<Rightarrow> string" where
  "volumeName sessionId = ''oc-vol-'' @ sessionId"

text \<open>Everything before the last separator; \<open>None\<close> without one.\<close>

fun beforeLast :: "char \<Rightarrow> string \<Rightarrow> string option" where
  "beforeLast c [] = None"
| "beforeLast c (x # xs) =
     (case beforeLast c xs of
        Some w \<Rightarrow> Some (x # w)
      | None \<Rightarrow> if x = c then Some [] else None)"

definition parentDirectory :: "string \<Rightarrow> string" where
  "parentDirectory path =
     (case beforeLast (CHR ''/'') path of
        None \<Rightarrow> ''/''
      | Some dir \<Rightarrow> if dir = [] then ''/'' else dir)"

text \<open>\<open>String(n)\<close>.\<close>

definition showInt :: "int \<Rightarrow> string" where
  "showInt n = (if n < 0 then CHR ''-'' # decimal (nat (- n)) else decimal (nat n))"

section \<open>Argument vectors\<close>

definition runArgs :: "string \<Rightarrow> string \<Rightarrow> host_error + string list" where
  "runArgs sessionId imageRef =
     (if trim imageRef = [] then Inl (OtherError ''An image is required to create a session container'')
      else Inr
       [''run'', ''--detach'', ''--init'', ''--restart'', ''unless-stopped'',
        ''--name'', containerName sessionId,
        ''--label'', ''io.opencode.session='' @ sessionId,
        ''--volume'', volumeName sessionId @ '':'' @ WORKSPACE_MOUNT,
        ''--publish'', ''127.0.0.1:0:'' @ showInt OPENCODE_CONTAINER_PORT,
        trim imageRef, ''sleep'', ''infinity''])"

record exec_options =
  eo_cwd :: "string option"
  eo_env :: "(string \<times> string) list"
  eo_timeoutMs :: int
  eo_login :: bool
  eo_interactive :: bool

definition execArgs :: "string \<Rightarrow> string \<Rightarrow> exec_options \<Rightarrow> string list" where
  "execArgs sessionId command options =
     [''exec'']
     @ (if eo_interactive options then [''--interactive''] else [])
     @ (case filled (eo_cwd options) of None \<Rightarrow> [] | Some cwd \<Rightarrow> [''--workdir'', cwd])
     @ concat (map (\<lambda>(k, v). [''--env'', k @ ''='' @ v]) (eo_env options))
     @ [containerName sessionId]
     @ [''timeout'', ''--kill-after=5'', showInt (max 1 ((eo_timeoutMs options + 999) div 1000))]
     @ [''sh'', if eo_login options then ''-lc'' else ''-c'', command]"

definition detachedExecArgs :: "string \<Rightarrow> string \<Rightarrow> string list" where
  "detachedExecArgs sessionId command = [''exec'', ''--detach'', containerName sessionId, ''sh'', ''-c'', command]"

abbreviation tab :: char where "tab \<equiv> CHR 0x09"
abbreviation newline :: char where "newline \<equiv> CHR 0x0A"

definition INSPECT_FORMAT :: string where
  "INSPECT_FORMAT = join_with [tab]
     [''{{.State.Status}}'', ''{{.State.Running}}'', ''{{.State.StartedAt}}'', ''{{.State.FinishedAt}}'',
      ''{{.State.ExitCode}}'', ''{{.Config.Image}}'']"

definition inspectArgs :: "string \<Rightarrow> string list" where
  "inspectArgs sessionId = [''inspect'', ''--format'', INSPECT_FORMAT, containerName sessionId]"

section \<open>Scripts\<close>

abbreviation dquote :: char where "dquote \<equiv> CHR 0x22"

definition writeFileScript :: "string \<Rightarrow> string option \<Rightarrow> string" where
  "writeFileScript path mode =
     (let target = shellQuote path; dir = shellQuote (parentDirectory path); tmp = [dquote] @ ''$tmp'' @ [dquote]
      in join_with [newline]
        ([''set -e'', ''mkdir -p '' @ dir, ''tmp='' @ target @ ''.oc-write.$$'', ''cat > '' @ tmp]
         @ (case filled mode of None \<Rightarrow> [] | Some m \<Rightarrow> [''chmod '' @ m @ '' '' @ tmp])
         @ [''mv -f '' @ tmp @ '' '' @ target]))"

definition readFileScript :: "string \<Rightarrow> string" where
  "readFileScript path =
     (let target = shellQuote path
      in ''test -f '' @ target @ '' || exit 3'' @ [newline] @ ''cat -- '' @ target)"

definition existsScript :: "string \<Rightarrow> string" where
  "existsScript path = ''test -e '' @ shellQuote path"

definition backslash :: char where "backslash = CHR 0x5C"

definition listFilesScript :: "string \<Rightarrow> string" where
  "listFilesScript path =
     (let target = shellQuote path; t = [backslash] @ ''t''
      in ''test -d '' @ target @ '' || exit 3'' @ [newline] @ ''cd '' @ target
         @ '' && find . -mindepth 1 -maxdepth 1 -printf ''
         @ [CHR 0x27] @ ''%y'' @ t @ ''%s'' @ t @ ''%T@'' @ t @ ''%f'' @ [backslash] @ ''0'' @ [CHR 0x27])"

definition serverAliveScript :: "int \<Rightarrow> string" where
  "serverAliveScript port =
     ''pgrep -f '' @ [CHR 0x27] @ ''opencode s[e]rve --port '' @ showInt port @ [CHR 0x27] @ '' > /dev/null''"

definition serverEnvFileContent :: "(string \<times> string) list \<Rightarrow> string" where
  "serverEnvFileContent env =
     join_with [newline] (map (\<lambda>(k, v). k @ ''='' @ shellQuote v) env) @ [newline]"

definition SHELL_IDENTIFIER_PATTERN :: "string \<Rightarrow> bool" where
  "SHELL_IDENTIFIER_PATTERN s =
     (case s of
        [] \<Rightarrow> False
      | c # cs \<Rightarrow> (is_lower c \<or> is_upper c \<or> c = CHR ''_'') \<and>
          list_all (\<lambda>c. is_lower c \<or> is_upper c \<or> is_digit c \<or> c = CHR ''_'') cs)"

definition startServerScript :: "int \<Rightarrow> string \<Rightarrow> string" where
  "startServerScript port directory =
     join_with [newline]
       [''set -a'', ''. '' @ shellQuote SERVER_ENV_FILE, ''set +a'', ''cd '' @ shellQuote directory,
        '': > '' @ shellQuote SERVER_LOG_FILE,
        ''exec opencode serve --port '' @ showInt port @ '' --hostname 0.0.0.0 >> ''
        @ shellQuote SERVER_LOG_FILE @ '' 2>&1'']"

section \<open>Output\<close>

type_synonym bytes = "nat list"

definition capOutput :: "bytes \<Rightarrow> codepoints \<times> bool" where
  "capOutput bytes =
     (if length bytes \<le> EXEC_OUTPUT_LIMIT_BYTES then (utf8Decode bytes, False)
      else (utf8Decode (take EXEC_OUTPUT_LIMIT_BYTES bytes), True))"

datatype file_content = Utf8Content codepoints | Base64Content string

definition decodeFileContent :: "bytes \<Rightarrow> file_content" where
  "decodeFileContent bytes =
     (if 0 \<notin> set bytes \<and> length (utf8Encode (utf8Decode bytes)) = length bytes
      then Utf8Content (utf8Decode bytes)
      else Base64Content (base64Of bytes))"

text \<open>The collection of a stream: the chunks kept, how many bytes they have, whether any was dropped.\<close>

definition collectChunk :: "nat \<Rightarrow> bytes \<times> nat \<times> bool \<Rightarrow> bytes \<Rightarrow> bytes \<times> nat \<times> bool" where
  "collectChunk limit = (\<lambda>(kept, n, dropped) chunk.
     if n \<ge> limit then (kept, n, True)
     else let room = limit - n in
       if length chunk > room then (kept @ take room chunk, limit, True)
       else (kept @ chunk, n + length chunk, dropped))"

definition collect :: "nat \<Rightarrow> bytes list \<Rightarrow> bytes \<times> bool" where
  "collect limit chunks =
     (case foldl (collectChunk limit) ([], 0, False) chunks of (kept, n, dropped) \<Rightarrow> (kept, dropped))"

section \<open>Listings\<close>

text \<open>The text of bytes, for code points below 256.\<close>

definition textOf :: "bytes \<Rightarrow> string" where
  "textOf bytes = map char_of (utf8Decode bytes)"

definition findType :: "string \<Rightarrow> entry_type" where
  "findType t =
     (if t = ''f'' then EFile else if t = ''d'' then EDirectory else if t = ''l'' then ESymlink else EOther)"

text \<open>Before and after the first separator.\<close>

fun cutAt :: "char \<Rightarrow> string \<Rightarrow> (string \<times> string) option" where
  "cutAt c [] = None"
| "cutAt c (x # xs) = (if x = c then Some ([], xs) else map_option (map_prod ((#) x) id) (cutAt c xs))"

fun splitFields :: "string \<Rightarrow> nat \<Rightarrow> string list option" where
  "splitFields rest 0 = Some [rest]"
| "splitFields rest (Suc n) =
     (case cutAt tab rest of
        None \<Rightarrow> None
      | Some (f, rest') \<Rightarrow> map_option ((#) f) (splitFields rest' n))"

definition epochToIso :: "(string \<Rightarrow> int option) \<Rightarrow> string \<Rightarrow> string option" where
  "epochToIso epochMs value = (case epochMs value of None \<Rightarrow> None | Some ms \<Rightarrow> toISOString ms)"

definition listingEntry :: "(string \<Rightarrow> int option) \<Rightarrow> bool \<Rightarrow> string \<Rightarrow> file_info option" where
  "listingEntry epochMs includeHidden rec =
     (if rec = [] then None
      else case splitFields rec 3 of
        Some [type, bytes, mtime, name] \<Rightarrow>
          (if \<not> includeHidden \<and> starts_with name ''.'' then None
           else Some \<lparr>fi_name = name, fi_type = findType type,
                  fi_size = nat (case parseInt bytes of None \<Rightarrow> 0 | Some n \<Rightarrow> n),
                  fi_modifiedAt = epochToIso epochMs mtime\<rparr>)
      | _ \<Rightarrow> None)"

definition parseListing ::
  "(string \<Rightarrow> int option) \<Rightarrow> (string \<Rightarrow> string \<Rightarrow> bool) \<Rightarrow> string \<Rightarrow> bool \<Rightarrow> file_info list" where
  "parseListing epochMs le stdout includeHidden =
     sortBy (\<lambda>l r. le (fi_name l) (fi_name r))
       (List.map_filter (listingEntry epochMs includeHidden) (split_on nul stdout))"

section \<open>Inspection\<close>

record session_state =
  ss_running :: bool
  ss_startedAt :: "string option"
  ss_changedAt :: "string option"
  ss_exitCode :: "int option"

record inspection = session_state +
  ins_status :: string
  ins_image :: string

definition normalizeDockerTime :: "(string \<Rightarrow> int option) \<Rightarrow> string \<Rightarrow> string option" where
  "normalizeDockerTime parseDate value =
     (if value = [] \<or> starts_with value ''0001-01-01'' then None
      else case parseDate value of None \<Rightarrow> None | Some t \<Rightarrow> toISOString t)"

definition parseInspect :: "(string \<Rightarrow> int option) \<Rightarrow> string \<Rightarrow> inspection" where
  "parseInspect parseDate stdout =
     (let fields = split_on tab (trim stdout);
          at = (\<lambda>i. if i < length fields then fields ! i else []);
          isRunning = (at 1 = ''true'');
          started = normalizeDockerTime parseDate (at 2);
          finished = normalizeDockerTime parseDate (at 3)
      in \<lparr>ss_running = isRunning,
          ss_startedAt = (if isRunning then started else None),
          ss_changedAt = (if isRunning then started else case finished of None \<Rightarrow> started | Some t \<Rightarrow> Some t),
          ss_exitCode = (if isRunning then None else parseInt (at 4)),
          ins_status = at 0, ins_image = at 5\<rparr>)"

section \<open>Ports and messages\<close>

fun afterArrow :: "string \<Rightarrow> string option" where
  "afterArrow [] = None"
| "afterArrow (c # cs) =
     (case afterArrow cs of
        Some r \<Rightarrow> Some r
      | None \<Rightarrow> if c = CHR ''-'' \<and> starts_with cs ''>'' then Some (tl cs) else None)"

text \<open>The last word has to be an IPv4 address the port is bound to, a colon and digits.\<close>

definition portOfLine :: "string \<Rightarrow> int option" where
  "portOfLine line =
     (let address = trim (case afterArrow line of None \<Rightarrow> line | Some a \<Rightarrow> a);
          word = rev (takeWhile (\<lambda>c. \<not> is_space c) (rev address));
          port = (\<lambda>host. if starts_with word (host @ '':'') then Some (drop (length host + 1) word) else None)
      in case (case port ''127.0.0.1'' of None \<Rightarrow> port ''0.0.0.0'' | Some p \<Rightarrow> Some p) of
           None \<Rightarrow> None
         | Some digits \<Rightarrow>
             if digits \<noteq> [] \<and> list_all is_digit digits then Some (digitsValue digits) else None)"

definition parsePublishedPort :: "string \<Rightarrow> int option" where
  "parsePublishedPort stdout =
     (case List.map_filter portOfLine (split_on newline stdout) of [] \<Rightarrow> None | p # ps \<Rightarrow> Some p)"

definition noSuchLine :: "string \<Rightarrow> bool" where
  "noSuchLine line =
     (let l = map lower_char line in
      list_ex (\<lambda>p. starts_with l p \<and>
          list_ex (contains (drop (length p) l))
            [''no such container'', ''no such object'', ''no such volume'', ''is not running''])
        [''error:'', ''error response from daemon:''])"

definition isNoSuchObject :: "string \<Rightarrow> bool" where
  "isNoSuchObject stderr =
     list_ex noSuchLine (split_on newline (map (\<lambda>c. if c = CHR 0x0D then newline else c) stderr))"

section \<open>What is kept of an output\<close>

lemma collect_inv:
  assumes "n \<le> limit" and "length kept = n" and "\<forall>c \<in> set chunks. c \<noteq> []"
    and "dropped \<longrightarrow> n = limit"
  shows "\<exists>m. foldl (collectChunk limit) (kept, n, dropped) chunks =
    (kept @ take (limit - n) (concat chunks), m, dropped \<or> length (concat chunks) > limit - n)"
  using assms
proof (induction chunks arbitrary: kept n dropped)
  case (Cons c cs)
  consider "n = limit" | "n < limit" "length c > limit - n" | "n < limit" "length c \<le> limit - n"
    using Cons.prems(1) by linarith
  then show ?case
  proof cases
    case 1
    then show ?thesis
      using Cons.IH [of n kept True] Cons.prems by (auto simp: collectChunk_def)
  next
    case 2
    then show ?thesis
      using Cons.IH [of limit "kept @ take (limit - n) c" True] Cons.prems
      by (auto simp: collectChunk_def Let_def)
  next
    case 3
    then have "collectChunk limit (kept, n, dropped) c = (kept @ c, n + length c, dropped)" "\<not> dropped"
      using Cons.prems by (auto simp: collectChunk_def Let_def)
    moreover have "n + length c \<le> limit" using 3 by simp
    then obtain m where "foldl (collectChunk limit) (kept @ c, n + length c, False) cs =
        ((kept @ c) @ take (limit - (n + length c)) (concat cs), m, False \<or> length (concat cs) > limit - (n + length c))"
      using Cons.IH [of "n + length c" "kept @ c" False] Cons.prems 3 by auto
    ultimately show ?thesis using 3 by (auto simp: diff_diff_left)
  qed
qed simp

text \<open>The collection of a stream is a prefix of it, with a flag that says whether it is a proper one.\<close>

lemma collect_is_take:
  assumes "\<forall>c \<in> set chunks. c \<noteq> []"
  shows "collect limit chunks = (take limit (concat chunks), length (concat chunks) > limit)"
  using collect_inv [of 0 limit "[]" chunks False] assms by (auto simp: collect_def)

lemma capOutput_collected: "length bytes \<le> EXEC_OUTPUT_LIMIT_BYTES \<Longrightarrow> capOutput bytes = (utf8Decode bytes, False)"
  by (simp add: capOutput_def)

lemma capOutput_bound: "length (utf8Encode (fst (capOutput bytes))) \<le> 3 * EXEC_OUTPUT_LIMIT_BYTES"
  using utf8Decode_length [of bytes] utf8Decode_length [of "take EXEC_OUTPUT_LIMIT_BYTES bytes"]
  by (auto simp: capOutput_def intro: order_trans)

section \<open>What is read back of a file\<close>

text \<open>The bytes the reader of an answer has: those of the text, or those of the base64.\<close>

fun contentBytes :: "file_content \<Rightarrow> string option" where
  "contentBytes (Utf8Content t) = Some (map char_of (utf8Encode t))"
| "contentBytes (Base64Content s) = atob s"

lemma content_of_text:
  assumes "list_all scalar t" and "0 \<notin> set t"
  shows "decodeFileContent (utf8Encode t) = Utf8Content t"
proof -
  have "0 \<notin> set (utf8Encode t)" using assms(2) by (auto simp: utf8Encode_def utf8Units_zero)
  then show ?thesis using assms(1) by (simp add: decodeFileContent_def utf8_decode_encode)
qed

lemma content_base64:
  assumes "decodeFileContent bytes = Base64Content s" and "list_all (\<lambda>b. b < 256) bytes"
  shows "contentBytes (decodeFileContent bytes) = Some (map char_of bytes)"
  using assms by (auto simp: decodeFileContent_def atob_base64 split: if_splits)

text \<open>A character cut off at the end of a file has as many bytes as the sign that replaces it.\<close>

lemma cut_character_is_text:
  "decodeFileContent [240, 159, 152] = Utf8Content [replacementChar]"
  "contentBytes (decodeFileContent [240, 159, 152]) \<noteq> Some (map char_of [240, 159, 152 :: nat])"
  by (simp_all add: decodeFileContent_def utf8Decode_def utf8Lead_def replacementChar_def utf8Units_def)

section \<open>What is listed\<close>

lemma cutAt_append: "c \<notin> set w \<Longrightarrow> cutAt c (w @ c # s) = Some (w, s)"
  by (induction w) auto

lemma decimal_digits: "list_all is_digit (decimal n)"
proof (induction n rule: decimal.induct)
  case (1 n)
  have "list_all (\<lambda>k. is_digit (char_of (48 + k))) [0..<10]" by code_simp
  then have d: "is_digit (char_of (48 + k))" if "k < 10" for k :: nat using that by (simp add: list_all_iff)
  show ?case
    using 1 d [of n] d [of "n mod 10"] by (subst decimal.simps) auto
qed

lemma digitsValue_decimal: "digitsValue (decimal n) = int n"
proof (induction n rule: decimal.induct)
  case (1 n)
  have "list_all (\<lambda>k. of_char (char_of (48 + k) :: char) = (48 + k :: nat)) [0..<10]" by code_simp
  then have d: "of_char (char_of (48 + k) :: char) = 48 + k" if "k < 10" for k :: nat
    using that by (simp add: list_all_iff)
  have s: "digitsValue (w @ [char_of (48 + k)]) = digitsValue w * 10 + int k" if "k < 10" for w and k :: nat
    using d [OF that] by (simp add: digitsValue_def)
  show ?case
  proof (cases "n < 10")
    case True
    then show ?thesis using s [of n "[]"] by (subst decimal.simps) (simp add: digitsValue_def)
  next
    case False
    moreover have "int (n div 10) * 10 + int (n mod 10) = int n"
      by (metis div_mult_mod_eq of_nat_add of_nat_mult of_nat_numeral)
    ultimately show ?thesis using 1 s [of "n mod 10"] by (subst decimal.simps) simp
  qed
qed

lemma decimal_ne: "decimal n \<noteq> []"
  by (subst decimal.simps) simp

lemma takeWhile_all: "list_all P xs \<Longrightarrow> takeWhile P xs = xs"
  by (induction xs) auto

lemma dropWhile_none: "\<forall>x \<in> set xs. \<not> P x \<Longrightarrow> dropWhile P xs = xs"
  by (cases xs) auto

lemma trim_none: "\<forall>c \<in> set s. \<not> is_space c \<Longrightarrow> trim s = s"
  by (simp add: trim_def dropWhile_none)

lemma parseInt_decimal: "parseInt (decimal n) = Some (int n)"
proof -
  have d: "\<forall>c \<in> set (decimal n). is_digit c" using decimal_digits [of n] by (simp add: list_all_iff)
  then have "\<forall>c \<in> set (decimal n). \<not> is_space c \<and> c \<noteq> CHR ''-'' \<and> c \<noteq> CHR ''+''"
    by (auto simp: is_digit_def is_space_def less_eq_char_def)
  then have "trim (decimal n) = decimal n" and "hd (decimal n) \<noteq> CHR ''-''" "hd (decimal n) \<noteq> CHR ''+''"
    using decimal_ne [of n] by (auto simp: trim_none)
  then show ?thesis
    using decimal_digits [of n] decimal_ne [of n] digitsValue_decimal [of n]
    by (simp add: parseInt_def Let_def takeWhile_all)
qed

text \<open>One record as \<open>find\<close> prints it.\<close>

definition findRecord :: "string \<Rightarrow> nat \<Rightarrow> string \<Rightarrow> string \<Rightarrow> string" where
  "findRecord kind n mtime name = kind @ [tab] @ decimal n @ [tab] @ mtime @ [tab] @ name"

lemma listingEntry_record:
  assumes "tab \<notin> set kind" and "tab \<notin> set mtime"
  shows "listingEntry epochMs True (findRecord kind n mtime name) =
    Some \<lparr>fi_name = name, fi_type = findType kind, fi_size = n, fi_modifiedAt = epochToIso epochMs mtime\<rparr>"
proof -
  have "tab \<notin> set (decimal n)"
    using decimal_digits [of n] by (auto simp: list_all_iff is_digit_def less_eq_char_def)
  then have "splitFields (findRecord kind n mtime name) 3 = Some [kind, decimal n, mtime, name]"
    using assms by (simp add: findRecord_def numeral_3_eq_3 cutAt_append)
  then show ?thesis
    using decimal_ne [of n] by (simp add: listingEntry_def parseInt_decimal findRecord_def)
qed

lemma split_records:
  "\<forall>r \<in> set recs. nul \<notin> set r \<Longrightarrow> split_on nul (concat (map (\<lambda>r. r @ [nul]) recs)) = recs @ [[]]"
  by (induction recs) (simp_all add: split_on_part)

end
