(* ===== verification/Docker_Agent.thy ===== *)
theory Docker_Agent
  imports Docker_Cli
begin

text \<open>
  The agent beside a Docker daemon, \<open>agent/server.mjs\<close>: one HTTP server whose routes each run
  one or a few docker commands. A command's answer is the exit code and the chunks of output
  the child produced, or that it could not be spawned; a probe's is a status, a refusal or
  silence. The world is the cache of published ports, the clock, and the commands run so far.
\<close>

section \<open>The world\<close>

record child_exit =
  ce_code :: "int option"
  ce_stdout :: "bytes list"
  ce_stderr :: "bytes list"
  ce_killed :: bool
  ce_durationMs :: nat

datatype agent_answer =
    Exited child_exit
  | SpawnError string
  | Responds nat nat
  | Refuses nat
  | Waits nat

record cached_port =
  cp_port :: int
  cp_at :: millis

text \<open>A command and what its standard input is fed; a request passed on to a container.\<close>

record docker_command =
  dc_args :: "string list"
  dc_stdin :: "bytes option"

record forwarded_request =
  fo_port :: int
  fo_method :: string
  fo_path :: string
  fo_headers :: "(string \<times> string) list"

record agent_world =
  aw_ports :: "(string \<times> cached_port) list"
  aw_now :: millis
  aw_commands :: "docker_command list"
  aw_forwarded :: "forwarded_request list"
  aw_probes :: nat
  aw_lastStatus :: "nat option"

type_synonym 'v route_task = "(agent_world, agent_answer, host_error, 'v) program"

text \<open>What the process is configured with, and the functions of the platform it uses.\<close>

record 'd agent_config =
  ac_tokenDigest :: 'd
  ac_digest :: "string \<Rightarrow> 'd"
  ac_defaultImage :: string
  ac_parseDate :: "string \<Rightarrow> int option"
  ac_epochMs :: "string \<Rightarrow> int option"
  ac_localeLe :: "string \<Rightarrow> string \<Rightarrow> bool"

section \<open>Running docker\<close>

record docker_result =
  dr_code :: int
  dr_stdout :: bytes
  dr_stderr :: bytes
  dr_truncated :: "bool \<times> bool"
  dr_timedOut :: bool
  dr_durationMs :: int

definition dockerResult :: "nat \<Rightarrow> int \<Rightarrow> child_exit \<Rightarrow> docker_result" where
  "dockerResult limitBytes timeoutMs e =
     (let out = collect limitBytes (ce_stdout e); err = collect limitBytes (ce_stderr e)
      in \<lparr>dr_code = (case ce_code e of None \<Rightarrow> -1 | Some c \<Rightarrow> c),
          dr_stdout = fst out, dr_stderr = fst err, dr_truncated = (snd out, snd err),
          dr_timedOut = (timeoutMs > 0 \<and> ce_killed e),
          dr_durationMs = int (ce_durationMs e)\<rparr>)"

definition runDockerWith :: "bytes option \<Rightarrow> string list \<Rightarrow> int \<Rightarrow> docker_result route_task" where
  "runDockerWith stdin args timeoutMs = call (\<lambda>a w.
     let w' = w\<lparr>aw_commands := aw_commands w @ [\<lparr>dc_args = args, dc_stdin = stdin\<rparr>]\<rparr> in
     case a of
       Exited e \<Rightarrow>
         (Inr (dockerResult EXEC_OUTPUT_LIMIT_BYTES timeoutMs e), w'\<lparr>aw_now := aw_now w + int (ce_durationMs e)\<rparr>)
     | SpawnError m \<Rightarrow> (Inl (OtherError m), w')
     | _ \<Rightarrow> (Inl (OtherError ''no child''), w'))"

definition runDocker :: "string list \<Rightarrow> int \<Rightarrow> docker_result route_task" where
  "runDocker = runDockerWith None"

definition throwHost :: "host_code \<Rightarrow> string \<Rightarrow> 'v route_task" where
  "throwHost code message = raise (HostRequestError code message)"

definition orThrow :: "host_error + 'v \<Rightarrow> 'v route_task" where
  "orThrow r = (case r of Inl e \<Rightarrow> raise e | Inr v \<Rightarrow> return v)"

definition stderrText :: "docker_result \<Rightarrow> string" where
  "stderrText r = trim (textOf (dr_stderr r))"

definition mustRun :: "string list \<Rightarrow> string \<Rightarrow> int \<Rightarrow> docker_result route_task" where
  "mustRun args what timeoutMs = andThen (runDocker args timeoutMs) (\<lambda>r.
     if dr_code r \<noteq> 0
     then throwHost HostFailure (''Could not '' @ what @ '': '' @
       (if stderrText r \<noteq> [] then stderrText r else ''docker exited '' @ showInt (dr_code r)))
     else return r)"

section \<open>Published ports\<close>

definition PORT_CACHE_TTL_MS :: millis where
  "PORT_CACHE_TTL_MS = 3000"

definition portKey :: "string \<Rightarrow> int \<Rightarrow> string" where
  "portKey sessionId containerPort = sessionId @ '':'' @ showInt containerPort"

definition forgetPort :: "string \<Rightarrow> unit route_task" where
  "forgetPort key = modify (\<lambda>w. w\<lparr>aw_ports := filter (\<lambda>(k, v). k \<noteq> key) (aw_ports w)\<rparr>)"

definition forgetPorts :: "string \<Rightarrow> unit route_task" where
  "forgetPorts sessionId = modify (\<lambda>w.
     w\<lparr>aw_ports := filter (\<lambda>(k, v). \<not> starts_with k (sessionId @ '':'')) (aw_ports w)\<rparr>)"

definition rememberPort :: "string \<Rightarrow> int \<Rightarrow> unit route_task" where
  "rememberPort key port = modify (\<lambda>w.
     w\<lparr>aw_ports := (key, \<lparr>cp_port = port, cp_at = aw_now w\<rparr>) # filter (\<lambda>(k, v). k \<noteq> key) (aw_ports w)\<rparr>)"

definition askPort :: "string \<Rightarrow> int \<Rightarrow> int route_task" where
  "askPort sessionId containerPort =
     (let key = portKey sessionId containerPort in
      andThen (runDocker [''port'', containerName sessionId, showInt containerPort @ ''/tcp''] 15000) (\<lambda>r.
      if dr_code r \<noteq> 0
      then andThen (forgetPort key) (\<lambda>_. throwHost ContainerNotRunning ''The session container is not running'')
      else let port = parsePublishedPort (textOf (dr_stdout r)) in
        if port = None \<or> port = Some 0
        then throwHost HostFailure
          (''The container publishes no loopback port for '' @ showInt containerPort @ ''/tcp'')
        else andThen (rememberPort key (the port)) (\<lambda>_. return (the port))))"

definition resolvePublishedPort :: "string \<Rightarrow> int \<Rightarrow> bool \<Rightarrow> int route_task" where
  "resolvePublishedPort sessionId containerPort refresh = reading (\<lambda>w.
     case map_of (aw_ports w) (portKey sessionId containerPort) of
       None \<Rightarrow> askPort sessionId containerPort
     | Some c \<Rightarrow>
         if \<not> refresh \<and> aw_now w - cp_at c < PORT_CACHE_TTL_MS then return (cp_port c)
         else askPort sessionId containerPort)"

section \<open>Lifecycle\<close>

record exec_response =
  xr_success :: bool
  xr_exitCode :: int
  xr_stdout :: codepoints
  xr_stderr :: codepoints
  xr_truncated :: "(bool \<times> bool) option"

datatype agent_reply =
    HealthReply bool string
  | StateReply "session_state option"
  | EnsureReply bool bool
  | StopReply bool
  | RemoveReply bool
  | ExecReply exec_response
  | WriteReply nat
  | ReadReply file_content
  | ExistsReply bool
  | ListReply "file_info list"
  | StartReply bool

definition healthz :: "agent_reply route_task" where
  "healthz = andThen (runDocker [''version'', ''--format'', ''{{.Server.Version}}''] 10000) (\<lambda>version.
     let dockerVersion = trim (textOf (dr_stdout version))
     in return (HealthReply (dr_code version = 0 \<and> dockerVersion \<noteq> []) dockerVersion))"

definition inspectContainer :: "'d agent_config \<Rightarrow> string \<Rightarrow> inspection option route_task" where
  "inspectContainer cfg sessionId = andThen (runDocker (inspectArgs sessionId) 15000) (\<lambda>r.
     if dr_code r \<noteq> 0 then return None
     else return (Some (parseInspect (ac_parseDate cfg) (textOf (dr_stdout r)))))"

definition sessionState :: "'d agent_config \<Rightarrow> string \<Rightarrow> agent_reply route_task" where
  "sessionState cfg sessionId = andThen (inspectContainer cfg sessionId) (\<lambda>found.
     return (StateReply (map_option session_state.truncate found)))"

definition isUp :: "inspection option \<Rightarrow> bool" where
  "isUp found = (case found of None \<Rightarrow> False | Some i \<Rightarrow> ss_running i)"

definition ensureVolume :: "string \<Rightarrow> bool route_task" where
  "ensureVolume sessionId =
     andThen (runDocker [''volume'', ''inspect'', volumeName sessionId] 15000) (\<lambda>r.
     if dr_code r \<noteq> 0
     then andThen (mustRun [''volume'', ''create'', volumeName sessionId] ''create the workspace volume'' 30000)
       (\<lambda>_. return True)
     else return False)"

definition bootContainer :: "string \<Rightarrow> string \<Rightarrow> inspection option \<Rightarrow> unit route_task" where
  "bootContainer sessionId imageRef existing =
     (case existing of
        None \<Rightarrow> andThen (orThrow (runArgs sessionId imageRef)) (\<lambda>args.
          andThen (mustRun args ''create the session container'' 120000) (\<lambda>_. return ()))
      | Some i \<Rightarrow>
          if ss_running i then return ()
          else andThen (mustRun [''start'', containerName sessionId] ''start the container'' 60000)
            (\<lambda>_. return ()))"

definition ensureSession :: "'d agent_config \<Rightarrow> string \<Rightarrow> string option \<Rightarrow> agent_reply route_task" where
  "ensureSession cfg sessionId requestedImage =
     (let imageRef = (case requestedImage of None \<Rightarrow> ac_defaultImage cfg
        | Some s \<Rightarrow> if trim s = [] then ac_defaultImage cfg else trim s) in
      andThen (ensureVolume sessionId) (\<lambda>workspaceCreated.
      andThen (inspectContainer cfg sessionId) (\<lambda>found.
      andThen
        (case found of
           None \<Rightarrow> return None
         | Some i \<Rightarrow>
             if \<not> ss_running i \<and> ins_image i \<noteq> imageRef
             then andThen (runDocker [''rm'', ''--force'', containerName sessionId] 60000) (\<lambda>_. return None)
             else return (Some i)) (\<lambda>existing.
      andThen (bootContainer sessionId imageRef existing) (\<lambda>_.
      if isUp found then return (EnsureReply False workspaceCreated)
      else andThen (forgetPorts sessionId) (\<lambda>_.
        andThen (inspectContainer cfg sessionId) (\<lambda>after.
        if isUp after then return (EnsureReply True workspaceCreated)
        else throwHost HostFailure (''Container '' @ containerName sessionId @ '' did not stay running ('' @
          (case after of None \<Rightarrow> ''gone'' | Some i \<Rightarrow> ins_status i) @ '')''))))))))"

definition DEFAULT_STOP_GRACE_SEC :: int where
  "DEFAULT_STOP_GRACE_SEC = 5"

definition CLI_SLACK_MS :: int where
  "CLI_SLACK_MS = 15000"

definition stopSession :: "'d agent_config \<Rightarrow> string \<Rightarrow> int option \<Rightarrow> agent_reply route_task" where
  "stopSession cfg sessionId timeoutSec =
     (let grace = max 0 (case timeoutSec of None \<Rightarrow> DEFAULT_STOP_GRACE_SEC | Some s \<Rightarrow> s) in
      andThen (inspectContainer cfg sessionId) (\<lambda>existing.
      if \<not> isUp existing then andThen (forgetPorts sessionId) (\<lambda>_. return (StopReply True))
      else
        andThen (runDocker [''stop'', ''--timeout'', showInt grace, containerName sessionId]
          (grace * 1000 + CLI_SLACK_MS)) (\<lambda>stopped.
        andThen (forgetPorts sessionId) (\<lambda>_.
        if dr_code stopped = 0 \<or> isNoSuchObject (textOf (dr_stderr stopped)) then return (StopReply True)
        else andThen (inspectContainer cfg sessionId) (\<lambda>after. return (StopReply (\<not> isUp after)))))))"

definition removeSession :: "string \<Rightarrow> agent_reply route_task" where
  "removeSession sessionId =
     andThen (forgetPorts sessionId) (\<lambda>_.
     andThen (runDocker [''rm'', ''--force'', ''--volumes'', containerName sessionId] 60000) (\<lambda>removed.
     if dr_code removed \<noteq> 0 \<and> \<not> isNoSuchObject (textOf (dr_stderr removed))
     then
       if dr_timedOut removed then return (RemoveReply False)
       else throwHost HostFailure (''Could not remove the container: '' @ stderrText removed)
     else
       andThen (runDocker [''volume'', ''rm'', ''--force'', volumeName sessionId] 60000) (\<lambda>r.
       if dr_code r \<noteq> 0 \<and> \<not> isNoSuchObject (textOf (dr_stderr r))
       then throwHost HostFailure (''Could not remove the workspace volume: '' @ stderrText r)
       else return (RemoveReply True))))"

end
