(* ===== verification/Docker_Routes.thy ===== *)
theory Docker_Routes
  imports Docker_Agent
begin

text \<open>
  The other half of \<open>agent/server.mjs\<close>: the primitives that run inside a container, the start
  of the OpenCode server with its readiness loop, the proxy, and the dispatch of a request.
\<close>

section \<open>Primitives\<close>

definition mentions :: "string \<Rightarrow> string \<Rightarrow> bool" where
  "mentions s p = contains (map lower_char s) p"

definition assertContainerReached :: "docker_result \<Rightarrow> unit route_task" where
  "assertContainerReached r =
     (let stderr = textOf (dr_stderr r) in
      if (dr_code r = 1 \<or> dr_code r = 125) \<and> isNoSuchObject stderr
      then throwHost ContainerNotRunning ''The session container is not running''
      else if (dr_code r = 126 \<or> dr_code r = 127) \<and>
        list_ex (mentions stderr) [''timeout'', ''not found'', ''no such file'']
      then throwHost HostFailure (''The session image is missing a required binary: '' @ trim stderr)
      else return ())"

definition helperOptions :: "int \<Rightarrow> exec_options" where
  "helperOptions timeoutMs =
     \<lparr>eo_cwd = None, eo_env = [], eo_timeoutMs = timeoutMs, eo_login = False, eo_interactive = False\<rparr>"

text \<open>One of the agent's own helpers, run in the container.\<close>

definition inContainer :: "string \<Rightarrow> string \<Rightarrow> int \<Rightarrow> docker_result route_task" where
  "inContainer sessionId script timeoutMs =
     runDocker (execArgs sessionId script (helperOptions timeoutMs)) (timeoutMs + CLI_SLACK_MS)"

definition execTimedOut :: "int \<Rightarrow> docker_result \<Rightarrow> bool" where
  "execTimedOut timeoutMs r =
     (dr_timedOut r \<or> (dr_code r \<in> set TIMEOUT_EXIT_CODES \<and> dr_durationMs r * 10 \<ge> timeoutMs * 9))"

definition execResponse :: "docker_result \<Rightarrow> exec_response" where
  "execResponse r =
     (let out = capOutput (dr_stdout r); err = capOutput (dr_stderr r)
      in \<lparr>xr_success = (dr_code r = 0), xr_exitCode = dr_code r, xr_stdout = fst out, xr_stderr = fst err,
          xr_truncated = (if snd out \<or> snd err then Some (snd out, snd err) else None)\<rparr>)"

definition execRoute :: "string \<Rightarrow> (string \<times> json) list \<Rightarrow> agent_reply route_task" where
  "execRoute sessionId body =
     andThen (orThrow (requiredString body ''command'')) (\<lambda>command.
     andThen (orThrow (optionalString body ''cwd'')) (\<lambda>cwd.
     andThen (orThrow (stringMap body ''env'')) (\<lambda>env.
     andThen (orThrow (optionalNumber body ''timeoutMs'')) (\<lambda>limit.
     let timeoutMs = (case limit of None \<Rightarrow> DEFAULT_EXEC_TIMEOUT_MS | Some n \<Rightarrow> n) in
     andThen (runDocker
       (execArgs sessionId command
          \<lparr>eo_cwd = cwd, eo_env = (case env of None \<Rightarrow> [] | Some e \<Rightarrow> e), eo_timeoutMs = timeoutMs,
           eo_login = True, eo_interactive = False\<rparr>)
       (timeoutMs + CLI_SLACK_MS)) (\<lambda>r.
     andThen (assertContainerReached r) (\<lambda>_.
     if execTimedOut timeoutMs r
     then throwHost ExecTimeout (''Command timed out after '' @ showInt timeoutMs @ ''ms'')
     else return (ExecReply (execResponse r))))))))"

text \<open>
  \<open>Buffer.from(s, 'base64')\<close>: characters outside both alphabets are skipped, and nothing throws.
\<close>

definition lenientSextet :: "char \<Rightarrow> nat option" where
  "lenientSextet c =
     indexOf (if c = CHR ''-'' then CHR ''+'' else if c = CHR ''_'' then CHR ''/'' else c) base64Alphabet"

definition bufferFrom :: "file_encoding \<Rightarrow> string \<Rightarrow> bytes" where
  "bufferFrom enc s =
     (case enc of
        Base64File \<Rightarrow> map of_char (bytesOf (List.map_filter lenientSextet s))
      | Utf8File \<Rightarrow> utf8Encode (map of_char s))"

definition writeContainerFile :: "string \<Rightarrow> string \<Rightarrow> bytes \<Rightarrow> string option \<Rightarrow> unit route_task" where
  "writeContainerFile sessionId path content mode =
     andThen (runDockerWith (Some content)
       (execArgs sessionId (writeFileScript path mode) ((helperOptions 60000)\<lparr>eo_interactive := True\<rparr>))
       (60000 + CLI_SLACK_MS)) (\<lambda>r.
     andThen (assertContainerReached r) (\<lambda>_.
     if dr_code r \<noteq> 0 then throwHost HostFailure (''Could not write '' @ path @ '': '' @ stderrText r)
     else return ()))"

definition writeBatch :: "string \<Rightarrow> (string \<times> json) list \<Rightarrow> agent_reply route_task" where
  "writeBatch sessionId body =
     andThen (orThrow (parseWriteBatch body)) (\<lambda>files.
     andThen (forEach (\<lambda>file. writeContainerFile sessionId (fw_path file)
         (bufferFrom (fw_encoding file) (fw_content file)) (fw_mode file)) files) (\<lambda>_.
     return (WriteReply (length files))))"

definition readSessionFile :: "string \<Rightarrow> (string \<times> json) list \<Rightarrow> agent_reply route_task" where
  "readSessionFile sessionId body =
     andThen (orThrow (requiredString body ''path'')) (\<lambda>path.
     andThen (inContainer sessionId (readFileScript path) 60000) (\<lambda>r.
     andThen (assertContainerReached r) (\<lambda>_.
     if dr_code r = 3 then throwHost FileNotFound (''No such file: '' @ path)
     else if dr_code r \<noteq> 0 then throwHost HostFailure (''Could not read '' @ path @ '': '' @ stderrText r)
     else return (ReadReply (decodeFileContent (dr_stdout r))))))"

definition fileExists :: "string \<Rightarrow> (string \<times> json) list \<Rightarrow> agent_reply route_task" where
  "fileExists sessionId body =
     andThen (orThrow (requiredString body ''path'')) (\<lambda>path.
     andThen (inContainer sessionId (existsScript path) 30000) (\<lambda>r.
     andThen (assertContainerReached r) (\<lambda>_. return (ExistsReply (dr_code r = 0)))))"

definition listSessionFiles :: "'d agent_config \<Rightarrow> string \<Rightarrow> (string \<times> json) list \<Rightarrow> agent_reply route_task" where
  "listSessionFiles cfg sessionId body =
     andThen (orThrow (requiredString body ''path'')) (\<lambda>path.
     andThen (orThrow (optionalBoolean body ''includeHidden'')) (\<lambda>includeHidden.
     andThen (inContainer sessionId (listFilesScript path) 60000) (\<lambda>r.
     andThen (assertContainerReached r) (\<lambda>_.
     if dr_code r = 3 then throwHost DirNotFound (''No such directory: '' @ path)
     else if dr_code r \<noteq> 0 then throwHost HostFailure (''Could not list '' @ path @ '': '' @ stderrText r)
     else return (ListReply (parseListing (ac_epochMs cfg) (ac_localeLe cfg) (textOf (dr_stdout r))
       (case includeHidden of None \<Rightarrow> True | Some b \<Rightarrow> b)))))))"

section \<open>The readiness loop\<close>

definition OPENCODE_START_TIMEOUT_MS :: millis where
  "OPENCODE_START_TIMEOUT_MS = 180000"

definition PROBE_TIMEOUT_MIN_MS :: nat where
  "PROBE_TIMEOUT_MIN_MS = 500"

definition PROBE_TIMEOUT_MAX_MS :: nat where
  "PROBE_TIMEOUT_MAX_MS = 5000"

definition PROBE_INTERVAL_MS :: nat where
  "PROBE_INTERVAL_MS = 250"

definition LIVENESS_CHECK_INTERVAL_MS :: millis where
  "LIVENESS_CHECK_INTERVAL_MS = 1000"

text \<open>
  One probe: whether the server is ready, and whether the probe hung until its own timeout.
  Timers never fire early: a probe that hangs takes at least its timeout, a pause its interval.
\<close>

definition probeReady :: "int \<Rightarrow> nat \<Rightarrow> (bool \<times> bool) route_task" where
  "probeReady publishedPort timeoutMs = call (\<lambda>a w.
     let w' = w\<lparr>aw_probes := aw_probes w + 1, aw_lastStatus := None\<rparr> in
     case a of
       Responds status d \<Rightarrow>
         (Inr (status = 200, False), w'\<lparr>aw_lastStatus := Some status, aw_now := aw_now w + int d\<rparr>)
     | Waits d \<Rightarrow> (Inr (False, True), w'\<lparr>aw_now := aw_now w + int timeoutMs + int d\<rparr>)
     | Refuses d \<Rightarrow> (Inr (False, False), w'\<lparr>aw_now := aw_now w + int d\<rparr>)
     | _ \<Rightarrow> (Inr (False, False), w'))"

definition pause :: "nat \<Rightarrow> unit route_task" where
  "pause ms = call (\<lambda>a w.
     (Inr (), w\<lparr>aw_now := aw_now w + int ms + (case a of Waits d \<Rightarrow> int d | _ \<Rightarrow> 0)\<rparr>))"

text \<open>
  The loop, with the number of rounds it may take; \<^term>\<open>False\<close> says they are used up.
\<close>

fun awaitServerReady ::
  "nat \<Rightarrow> (nat \<Rightarrow> int route_task) \<Rightarrow> bool route_task \<Rightarrow> string route_task
     \<Rightarrow> millis \<Rightarrow> nat \<Rightarrow> nat \<Rightarrow> millis \<Rightarrow> bool route_task" where
  "awaitServerReady 0 resolvePort alive logTail deadline attempt probeTimeoutMs livenessCheckedAt = return False"
| "awaitServerReady (Suc n) resolvePort alive logTail deadline attempt probeTimeoutMs livenessCheckedAt =
     reading (\<lambda>w.
     if \<not> aw_now w < deadline
     then andThen logTail (\<lambda>tail. throwHost OpencodeStartFailed
       (''The OpenCode server did not answer within '' @ showInt OPENCODE_START_TIMEOUT_MS @ ''ms. '' @ tail))
     else andThen (resolvePort attempt) (\<lambda>published.
     andThen (probeReady published probeTimeoutMs) (\<lambda>(ready, hung).
     if ready then return True
     else reading (\<lambda>w'.
       let due = aw_now w' - livenessCheckedAt \<ge> LIVENESS_CHECK_INTERVAL_MS;
           checkedAt = (if due then aw_now w' else livenessCheckedAt)
       in andThen
         (if due
          then andThen alive (\<lambda>ok. if ok then return ()
            else andThen logTail (\<lambda>tail. throwHost OpencodeStartFailed
              (''The OpenCode server exited during startup. '' @ tail)))
          else return ()) (\<lambda>_.
         if hung
         then awaitServerReady n resolvePort alive logTail deadline (attempt + 1)
           (min (probeTimeoutMs * 2) PROBE_TIMEOUT_MAX_MS) checkedAt
         else andThen (pause PROBE_INTERVAL_MS) (\<lambda>_.
           awaitServerReady n resolvePort alive logTail deadline (attempt + 1) probeTimeoutMs checkedAt))))))"

text \<open>Rounds that are never used up.\<close>

definition READY_ROUNDS :: nat where
  "READY_ROUNDS = 721"

section \<open>Starting OpenCode\<close>

definition serverAlive :: "string \<Rightarrow> int \<Rightarrow> bool route_task" where
  "serverAlive sessionId port =
     andThen (inContainer sessionId (serverAliveScript port) 15000) (\<lambda>r.
     andThen (assertContainerReached r) (\<lambda>_. return (dr_code r = 0)))"

definition serverLogTail :: "string \<Rightarrow> string route_task" where
  "serverLogTail sessionId =
     andThen (inContainer sessionId
       (''tail -c 4000 '' @ shellQuote SERVER_LOG_FILE @ '' 2>/dev/null || true'') 15000) (\<lambda>r.
     let tail = trim (textOf (dr_stdout r))
     in return (if tail \<noteq> [] then ''Log: '' @ tail else ''The server wrote no log.''))"

definition waitForServer :: "string \<Rightarrow> int \<Rightarrow> unit route_task" where
  "waitForServer sessionId port = reading (\<lambda>w.
     andThen (awaitServerReady READY_ROUNDS
       (\<lambda>attempt. resolvePublishedPort sessionId port (attempt = 0))
       (serverAlive sessionId port) (serverLogTail sessionId)
       (aw_now w + OPENCODE_START_TIMEOUT_MS) 0 PROBE_TIMEOUT_MIN_MS (aw_now w)) (\<lambda>_. return ()))"

definition checkNames :: "(string \<times> string) list \<Rightarrow> unit route_task" where
  "checkNames env =
     (case find (\<lambda>(k, v). \<not> SHELL_IDENTIFIER_PATTERN k) env of
        None \<Rightarrow> return ()
      | Some (k, v) \<Rightarrow> throwHost InvalidRequest
          (quoted (''env.'' @ k) @ '' is not a valid environment variable name''))"

definition spawnServer :: "string \<Rightarrow> int \<Rightarrow> string \<Rightarrow> (string \<times> string) list \<Rightarrow> unit route_task" where
  "spawnServer sessionId port directory env =
     andThen (writeContainerFile sessionId SERVER_ENV_FILE
       (utf8Encode (map of_char (serverEnvFileContent env))) (Some ''600'')) (\<lambda>_.
     andThen (runDocker (detachedExecArgs sessionId (startServerScript port directory)) 30000) (\<lambda>started.
     andThen (assertContainerReached started) (\<lambda>_.
     if dr_code started \<noteq> 0
     then throwHost OpencodeStartFailed (''Could not spawn the server: '' @ stderrText started)
     else return ())))"

definition startOpencode :: "string \<Rightarrow> (string \<times> json) list \<Rightarrow> agent_reply route_task" where
  "startOpencode sessionId body =
     andThen (orThrow (optionalNumber body ''port'')) (\<lambda>portField.
     andThen (orThrow (optionalString body ''directory'')) (\<lambda>directoryField.
     andThen (orThrow (stringMap body ''env'')) (\<lambda>envField.
     let port = (case portField of None \<Rightarrow> OPENCODE_CONTAINER_PORT | Some p \<Rightarrow> p);
         directory = (case directoryField of None \<Rightarrow> WORKSPACE_MOUNT | Some d \<Rightarrow> d);
         env = (case envField of None \<Rightarrow> [] | Some e \<Rightarrow> e)
     in andThen (checkNames env) (\<lambda>_.
        andThen (serverAlive sessionId port) (\<lambda>reused.
        andThen (if reused then return () else spawnServer sessionId port directory env) (\<lambda>_.
        andThen (waitForServer sessionId port) (\<lambda>_. return (StartReply reused))))))))"

section \<open>Requests\<close>

record agent_request =
  aq_method :: string
  aq_pathname :: string
  aq_search :: string
  aq_headers :: "(string \<times> string) list"
  aq_body :: request_body

datatype agent_response =
    Answer agent_reply
  | Refusal nat string string
  | Proxied nat

definition sendError :: "host_code \<Rightarrow> string \<Rightarrow> agent_response" where
  "sendError code message = Refusal (errorStatus code) (codeText code) message"

text \<open>\<open>/^Bearer\s+(.+)$/i\<close> on the trimmed header: some white space, then at least one character, on one line.\<close>

definition bearerToken :: "string \<Rightarrow> string option" where
  "bearerToken header =
     (let h = trim header; rest = drop 6 h; token = dropWhile is_space rest in
      if map lower_char (take 6 h) = ''bearer'' \<and> rest \<noteq> [] \<and> is_space (hd rest) \<and> token \<noteq> [] \<and>
        newline \<notin> set token \<and> CHR 0x0D \<notin> set token
      then Some token else None)"

definition authorized :: "'d agent_config \<Rightarrow> agent_request \<Rightarrow> bool" where
  "authorized cfg request =
     (case map_of (aq_headers request) ''authorization'' of
        None \<Rightarrow> False
      | Some h \<Rightarrow> case bearerToken h of
          None \<Rightarrow> False
        | Some t \<Rightarrow> ac_digest cfg t = ac_tokenDigest cfg)"

definition HOP_HEADERS :: "string list" where
  "HOP_HEADERS = [''authorization'', ''host'', ''connection'', ''keep-alive'', ''proxy-authorization'',
     ''transfer-encoding'', ''upgrade'']"

definition passOn :: "forwarded_request \<Rightarrow> agent_response route_task" where
  "passOn f = call (\<lambda>a w.
     let w' = w\<lparr>aw_forwarded := aw_forwarded w @ [f]\<rparr> in
     case a of
       Responds status d \<Rightarrow> (Inr (Proxied status), w'\<lparr>aw_now := aw_now w + int d\<rparr>)
     | _ \<Rightarrow> (Inl (OtherError ''socket''), w'))"

definition errorAnswer :: "host_error \<Rightarrow> agent_response" where
  "errorAnswer e =
     (case e of
        HostRequestError code message \<Rightarrow> sendError code message
      | OtherError message \<Rightarrow> sendError HostFailure message)"

definition proxyError :: "host_error \<Rightarrow> agent_response" where
  "proxyError e =
     (case e of
        HostRequestError code message \<Rightarrow> sendError code message
      | OtherError message \<Rightarrow> sendError ContainerNotRunning message)"

definition proxyRequest :: "string \<Rightarrow> string \<Rightarrow> agent_request \<Rightarrow> agent_response route_task" where
  "proxyRequest sessionId proxyPath request =
     andThen
       (catching
         (andThen (resolvePublishedPort sessionId OPENCODE_CONTAINER_PORT False) (\<lambda>p. return (Inr p)))
         (\<lambda>e. return (Inl (proxyError e))))
       (case_sum return (\<lambda>published.
          catching
            (passOn \<lparr>fo_port = published, fo_method = aq_method request,
               fo_path = proxyPath @ aq_search request,
               fo_headers = filter (\<lambda>(k, v). k \<notin> set HOP_HEADERS) (aq_headers request)\<rparr>)
            (\<lambda>e. andThen (forgetPort (portKey sessionId OPENCODE_CONTAINER_PORT)) (\<lambda>_.
               return (sendError ContainerNotRunning ''The session container did not answer'')))))"

definition dispatchRoute ::
  "'d agent_config \<Rightarrow> string \<Rightarrow> host_route \<Rightarrow> (string \<times> json) list \<Rightarrow> agent_reply route_task" where
  "dispatchRoute cfg sessionId route body =
     (case route of
        StateRoute \<Rightarrow> sessionState cfg sessionId
      | EnsureRoute \<Rightarrow> andThen (orThrow (optionalString body ''image'')) (ensureSession cfg sessionId)
      | StopRoute \<Rightarrow> andThen (orThrow (optionalNumber body ''timeoutSec'')) (stopSession cfg sessionId)
      | RemoveRoute \<Rightarrow> removeSession sessionId
      | ExecRoute \<Rightarrow> execRoute sessionId body
      | WriteBatchRoute \<Rightarrow> writeBatch sessionId body
      | ReadRoute \<Rightarrow> readSessionFile sessionId body
      | ExistsRoute \<Rightarrow> fileExists sessionId body
      | ListRoute \<Rightarrow> listSessionFiles cfg sessionId body
      | OpencodeStartRoute \<Rightarrow> startOpencode sessionId body
      | ProxyRoute p \<Rightarrow> throwHost InvalidRequest ''Unknown route: proxy''
      | _ \<Rightarrow> throwHost SnapshotUnsupported
          ''This host persists workspaces on named volumes and takes no snapshots'')"

definition handle :: "'d agent_config \<Rightarrow> agent_request \<Rightarrow> agent_response route_task" where
  "handle cfg request =
     (if \<not> authorized cfg request then return (sendError Unauthorized ''A bearer token is required'')
      else if aq_pathname request = ''/healthz'' then
        (if aq_method request \<noteq> ''GET'' then return (sendError InvalidRequest ''healthz is GET'')
         else catching (andThen healthz (\<lambda>r. return (Answer r))) (\<lambda>e. return (errorAnswer e)))
      else case matchSessionRoute (aq_method request) (aq_pathname request) of
        None \<Rightarrow> return (sendError InvalidRequest
          (''Unknown route: '' @ aq_method request @ '' '' @ aq_pathname request))
      | Some (sessionId, ProxyRoute p) \<Rightarrow> proxyRequest sessionId p request
      | Some (sessionId, route) \<Rightarrow>
          catching
            (andThen (orThrow (readJsonBody (aq_body request))) (\<lambda>body.
             andThen (dispatchRoute cfg sessionId route body) (\<lambda>r. return (Answer r))))
            (\<lambda>e. return (errorAnswer e)))"

end
