(* ===== verification/Docker_Policy.thy ===== *)
theory Docker_Policy
  imports Docker_Routes Program_Rules
begin

text \<open>
  The commands each route of the Docker agent may give and the requests it may forward, proved
  along the text of \<open>agent/server.mjs\<close> for whatever docker answers: \<open>docker_policy\<close> is what a
  fact has to satisfy to be kept by all routes, and its interpretations are the history of a
  request and the clock.
\<close>

section \<open>The commands of a route\<close>

definition readsOf :: "string \<Rightarrow> string list \<Rightarrow> bool" where
  "readsOf sid args =
     (args = inspectArgs sid \<or> args = [''volume'', ''inspect'', volumeName sid] \<or>
      (\<exists>p. args = [''port'', containerName sid, p]))"

definition runsInside :: "string \<Rightarrow> string list \<Rightarrow> bool" where
  "runsInside sid args = ((\<exists>script opts. args = execArgs sid script opts) \<or> (\<exists>script. args = detachedExecArgs sid script))"

text \<open>All a route of a session may tell docker besides reading.\<close>

fun routeWrites :: "string \<Rightarrow> host_route \<Rightarrow> string list \<Rightarrow> bool" where
  "routeWrites sid EnsureRoute args =
     (args = [''volume'', ''create'', volumeName sid] \<or> args = [''start'', containerName sid] \<or>
      args = [''rm'', ''--force'', containerName sid] \<or> (\<exists>img. runArgs sid img = Inr args))"
| "routeWrites sid StopRoute args = (\<exists>g. args = [''stop'', ''--timeout'', g, containerName sid])"
| "routeWrites sid RemoveRoute args =
     (args = [''rm'', ''--force'', ''--volumes'', containerName sid] \<or>
      args = [''volume'', ''rm'', ''--force'', volumeName sid])"
| "routeWrites sid ExecRoute args = runsInside sid args"
| "routeWrites sid WriteBatchRoute args = runsInside sid args"
| "routeWrites sid ReadRoute args = runsInside sid args"
| "routeWrites sid ExistsRoute args = runsInside sid args"
| "routeWrites sid ListRoute args = runsInside sid args"
| "routeWrites sid OpencodeStartRoute args = runsInside sid args"
| "routeWrites sid r args = False"

definition routeCommand :: "string \<Rightarrow> host_route \<Rightarrow> string list \<Rightarrow> bool" where
  "routeCommand sid r args = (readsOf sid args \<or> routeWrites sid r args)"

section \<open>Facts kept by whatever docker answers\<close>

lemma yields_reading: "(\<And>w. yields I R (f w)) \<Longrightarrow> yields I R (reading f)"
  unfolding yields_def by simp

lemma yields_modify: "(\<And>w. I w \<Longrightarrow> I (g w)) \<Longrightarrow> R () \<Longrightarrow> yields I R (modify g)"
  unfolding yields_def by simp

lemma yields_let: "yields I R (f v) \<Longrightarrow> yields I R (let x = v in f x)"
  by simp

lemma yields_orThrow:
  "(\<And>v. r = Inr v \<Longrightarrow> yields I R (f v)) \<Longrightarrow> yields I R (andThen (orThrow r) f)"
  by (cases r) (simp_all add: orThrow_def andThen_def raise_def return_def yields_def wp_def)

lemma readsOf_intros [intro]:
  "readsOf sid (inspectArgs sid)" "readsOf sid [''volume'', ''inspect'', volumeName sid]"
  "readsOf sid [''port'', containerName sid, p]"
  by (auto simp: readsOf_def)

lemma runsInside_intros [intro]: "runsInside sid (execArgs sid script opts)" "runsInside sid (detachedExecArgs sid script)"
  by (auto simp: runsInside_def)

text \<open>
  A fact about the world that every command satisfying \<open>P\<close> keeps, and that does not depend on
  the cache: it is kept by all that runs only such commands.
\<close>

locale docker_policy =
  fixes I :: "agent_world \<Rightarrow> bool" and P :: "string list \<Rightarrow> bool"
  assumes command_kept: "I w \<Longrightarrow> P args \<Longrightarrow>
      I (w\<lparr>aw_commands := aw_commands w @ [\<lparr>dc_args = args, dc_stdin = stdin\<rparr>], aw_now := aw_now w + int n\<rparr>)"
    and ports_kept: "I w \<Longrightarrow> I (w\<lparr>aw_ports := ps\<rparr>)"
begin

abbreviation keeps :: "'v route_task \<Rightarrow> bool" where
  "keeps m \<equiv> yields I (\<lambda>_. True) m"

lemma runDockerWith_kept:
  assumes "P args"
  shows "keeps (runDockerWith stdin args t)"
  unfolding runDockerWith_def
proof (rule yields_call)
  fix a w assume w: "I w"
  have "I (w\<lparr>aw_commands := aw_commands w @ [\<lparr>dc_args = args, dc_stdin = stdin\<rparr>]\<rparr>)"
    using command_kept [where stdin = stdin and n = 0, OF w assms] by simp
  then show "I (snd (let w' = w\<lparr>aw_commands := aw_commands w @ [\<lparr>dc_args = args, dc_stdin = stdin\<rparr>]\<rparr> in
      case a of
        Exited e \<Rightarrow> (Inr (dockerResult EXEC_OUTPUT_LIMIT_BYTES t e), w'\<lparr>aw_now := aw_now w + int (ce_durationMs e)\<rparr>)
      | SpawnError m \<Rightarrow> (Inl (OtherError m), w')
      | _ \<Rightarrow> (Inl (OtherError ''no child''), w'))) \<and>
    (\<forall>v. fst (let w' = w\<lparr>aw_commands := aw_commands w @ [\<lparr>dc_args = args, dc_stdin = stdin\<rparr>]\<rparr> in
      case a of
        Exited e \<Rightarrow> (Inr (dockerResult EXEC_OUTPUT_LIMIT_BYTES t e), w'\<lparr>aw_now := aw_now w + int (ce_durationMs e)\<rparr>)
      | SpawnError m \<Rightarrow> (Inl (OtherError m), w')
      | _ \<Rightarrow> (Inl (OtherError ''no child''), w')) = Inr v \<longrightarrow> True)"
    using command_kept [OF w assms] by (cases a) (simp_all add: Let_def)
qed

lemma runDocker_kept: "P args \<Longrightarrow> keeps (runDocker args t)"
  unfolding runDocker_def by (rule runDockerWith_kept)

lemma simple_kept:
  "keeps (forgetPort k)" "keeps (forgetPorts s)" "keeps (rememberPort k p)"
  "keeps (throwHost c m)" "keeps (orThrow r)"
  by (simp_all add: forgetPort_def forgetPorts_def rememberPort_def throwHost_def orThrow_def yields_modify
      ports_kept yields_raise yields_return split: sum.split)

lemmas agent_rules = yields_return yields_raise yields_andThen [where P = "\<lambda>_. True"] yields_catching yields_forEach
  yields_if yields_pair yields_option yields_sum yields_reading yields_let simple_kept runDocker_kept
  runDockerWith_kept TrueI

lemma inContainer_kept:
  assumes "\<And>args. runsInside sid args \<Longrightarrow> P args"
  shows "keeps (inContainer sid script t)"
  unfolding inContainer_def using assms by (intro agent_rules) blast

lemma assertContainerReached_kept: "keeps (assertContainerReached r)"
  unfolding assertContainerReached_def by (intro agent_rules)

lemma askPort_kept:
  assumes "\<And>args. readsOf sid args \<Longrightarrow> P args"
  shows "keeps (askPort sid port)"
  unfolding askPort_def using assms by (intro agent_rules) blast

lemma resolvePublishedPort_kept:
  assumes "\<And>args. readsOf sid args \<Longrightarrow> P args"
  shows "keeps (resolvePublishedPort sid port refresh)"
  unfolding resolvePublishedPort_def by (intro agent_rules askPort_kept assms)

lemma inspectContainer_kept:
  assumes "\<And>args. readsOf sid args \<Longrightarrow> P args"
  shows "keeps (inspectContainer cfg sid)"
  unfolding inspectContainer_def using assms by (intro agent_rules) blast

lemma mustRun_kept: "P args \<Longrightarrow> keeps (mustRun args what t)"
  unfolding mustRun_def by (intro agent_rules)

lemma inspect_args: "readsOf sid (inspectArgs sid)"
  by auto

lemma ensureSession_kept:
  assumes "\<And>args. routeCommand sid EnsureRoute args \<Longrightarrow> P args"
  shows "keeps (ensureSession cfg sid img)"
proof -
  have r: "P args" if "readsOf sid args" for args using assms that by (simp add: routeCommand_def)
  have w: "P args" if "routeWrites sid EnsureRoute args" for args using assms that by (simp add: routeCommand_def)
  have v: "keeps (ensureVolume sid)"
    unfolding ensureVolume_def by (intro agent_rules mustRun_kept r w) auto
  have b: "keeps (bootContainer sid i e)" for i e
  proof (cases e)
    case None
    show ?thesis
      unfolding bootContainer_def None option.case
      by (rule yields_orThrow, intro agent_rules mustRun_kept w) auto
  next
    case (Some x)
    show ?thesis
      unfolding bootContainer_def Some option.case by (intro agent_rules mustRun_kept w) auto
  qed
  show ?thesis
    unfolding ensureSession_def
    by (intro agent_rules v b inspectContainer_kept r w) auto
qed

lemma stopSession_kept:
  assumes "\<And>args. routeCommand sid StopRoute args \<Longrightarrow> P args"
  shows "keeps (stopSession cfg sid s)"
proof -
  have r: "P args" if "readsOf sid args" for args using assms that by (simp add: routeCommand_def)
  have w: "P [''stop'', ''--timeout'', g, containerName sid]" for g using assms by (simp add: routeCommand_def)
  show ?thesis unfolding stopSession_def by (intro agent_rules inspectContainer_kept r w)
qed

lemma removeSession_kept:
  assumes "\<And>args. routeCommand sid RemoveRoute args \<Longrightarrow> P args"
  shows "keeps (removeSession sid)"
  unfolding removeSession_def by (intro agent_rules assms) (simp_all add: routeCommand_def)

lemma writeContainerFile_kept:
  assumes "\<And>args. runsInside sid args \<Longrightarrow> P args"
  shows "keeps (writeContainerFile sid path content mode)"
  unfolding writeContainerFile_def
  by (intro agent_rules assertContainerReached_kept assms runsInside_intros)

lemma serverAlive_kept:
  assumes "\<And>args. runsInside sid args \<Longrightarrow> P args"
  shows "keeps (serverAlive sid port)"
  unfolding serverAlive_def by (intro agent_rules assertContainerReached_kept inContainer_kept assms)

lemma serverLogTail_kept:
  assumes "\<And>args. runsInside sid args \<Longrightarrow> P args"
  shows "keeps (serverLogTail sid)"
  unfolding serverLogTail_def by (intro agent_rules inContainer_kept assms)

end

text \<open>A fact that is kept by the passing of time and by probes too.\<close>

locale timed_policy = docker_policy +
  assumes time_kept: "I w \<Longrightarrow> I (w\<lparr>aw_now := aw_now w + int n\<rparr>)"
    and probe_kept: "I w \<Longrightarrow> I (w\<lparr>aw_probes := aw_probes w + 1, aw_lastStatus := s\<rparr>)"
begin

lemma pause_kept: "keeps (pause ms)"
proof -
  have "I (w\<lparr>aw_now := aw_now w + int ms + int n\<rparr>)" if "I w" for w n
    using time_kept [OF that, of "ms + n"] by (simp add: add.assoc)
  from this [of _ 0] this show ?thesis
    unfolding pause_def by (intro yields_call) (auto split: agent_answer.split)
qed

lemma probeReady_kept: "keeps (probeReady port ms)"
proof -
  have t: "I (w\<lparr>aw_probes := aw_probes w + 1, aw_lastStatus := s, aw_now := aw_now w + int n\<rparr>)"
    if "I w" for w n s
    using time_kept [OF probe_kept [OF that]] by simp
  have "I (w\<lparr>aw_probes := aw_probes w + 1, aw_lastStatus := s, aw_now := aw_now w + int ms + int n\<rparr>)"
    if "I w" for w n s
    using time_kept [OF probe_kept [OF that, of s], of "ms + n"] by (simp add: add.assoc)
  with t probe_kept show ?thesis
    unfolding probeReady_def by (intro yields_call) (auto simp: Let_def split: agent_answer.split)
qed

lemma awaitServerReady_kept:
  assumes "\<And>k. keeps (resolvePort k)"
    and "keeps alive" and "keeps logTail"
  shows "keeps (awaitServerReady n resolvePort alive logTail d k t c)"
proof (induction n arbitrary: k t c)
  case (Suc n)
  then show ?case
    unfolding awaitServerReady.simps by (intro agent_rules pause_kept probeReady_kept assms)
qed (simp add: yields_return)

lemma startOpencode_kept:
  assumes "\<And>args. routeCommand sid OpencodeStartRoute args \<Longrightarrow> P args"
  shows "keeps (startOpencode sid body)"
proof -
  have r: "P args" if "readsOf sid args" for args using assms that by (simp add: routeCommand_def)
  have i: "P args" if "runsInside sid args" for args using assms that by (simp add: routeCommand_def)
  have n: "keeps (checkNames env)" for env
    unfolding checkNames_def by (intro agent_rules)
  have w: "keeps (waitForServer sid port)" for port
    unfolding waitForServer_def
    by (intro agent_rules awaitServerReady_kept resolvePublishedPort_kept serverAlive_kept serverLogTail_kept r i)
  have s: "keeps (spawnServer sid port dir env)" for port dir env
    unfolding spawnServer_def
    by (intro agent_rules writeContainerFile_kept assertContainerReached_kept i runsInside_intros)
  show ?thesis
    unfolding startOpencode_def by (intro agent_rules n w s serverAlive_kept i)
qed

lemma dispatch_kept:
  assumes "\<And>args. routeCommand sid r args \<Longrightarrow> P args"
  shows "keeps (dispatchRoute cfg sid r body)"
proof -
  have i: "P args" if "readsOf sid args \<or> routeWrites sid r args" for args
    using assms that by (simp add: routeCommand_def)
  show ?thesis
  proof (cases r)
    case StateRoute
    then show ?thesis using i
      by (auto simp: dispatchRoute_def sessionState_def intro!: agent_rules inspectContainer_kept)
  next
    case EnsureRoute
    then show ?thesis using assms
      by (auto simp: dispatchRoute_def intro!: agent_rules ensureSession_kept)
  next
    case StopRoute
    then show ?thesis using assms
      by (auto simp: dispatchRoute_def intro!: agent_rules stopSession_kept)
  next
    case RemoveRoute
    then show ?thesis using assms
      by (auto simp: dispatchRoute_def intro!: removeSession_kept)
  next
    case OpencodeStartRoute
    then show ?thesis using assms
      by (auto simp: dispatchRoute_def intro!: startOpencode_kept)
  next
    case ExecRoute
    then show ?thesis using i
      by (auto simp: dispatchRoute_def execRoute_def Let_def intro!: agent_rules assertContainerReached_kept)
  next
    case WriteBatchRoute
    then show ?thesis using i
      by (auto simp: dispatchRoute_def writeBatch_def intro!: agent_rules writeContainerFile_kept)
  next
    case ReadRoute
    then show ?thesis using i
      by (auto simp: dispatchRoute_def readSessionFile_def
          intro!: agent_rules inContainer_kept assertContainerReached_kept)
  next
    case ExistsRoute
    then show ?thesis using i
      by (auto simp: dispatchRoute_def fileExists_def
          intro!: agent_rules inContainer_kept assertContainerReached_kept)
  next
    case ListRoute
    then show ?thesis using i
      by (auto simp: dispatchRoute_def listSessionFiles_def
          intro!: agent_rules inContainer_kept assertContainerReached_kept)
  qed (simp_all add: dispatchRoute_def simple_kept)
qed

end

section \<open>What has happened since\<close>

text \<open>Since the world was \<open>w0\<close> only such commands were given and only such requests forwarded, and no time went back.\<close>

definition since :: "agent_world \<Rightarrow> (string list \<Rightarrow> bool) \<Rightarrow> (forwarded_request \<Rightarrow> bool) \<Rightarrow> agent_world \<Rightarrow> bool" where
  "since w0 P Q w =
     ((\<exists>cs. aw_commands w = aw_commands w0 @ cs \<and> list_all (\<lambda>c. P (dc_args c)) cs) \<and>
      (\<exists>fs. aw_forwarded w = aw_forwarded w0 @ fs \<and> list_all Q fs) \<and> aw_now w0 \<le> aw_now w)"

lemma since_refl: "since w P Q w"
  by (simp add: since_def)

interpretation history: timed_policy "since w0 P Q" P for w0 P Q
  by unfold_locales (auto simp: since_def)

text \<open>How far the clock has come, and how many probes were made.\<close>

definition noLater :: "millis \<Rightarrow> nat \<Rightarrow> agent_world \<Rightarrow> bool" where
  "noLater t p w = (t \<le> aw_now w \<and> aw_probes w \<le> p)"

interpretation clock: docker_policy "noLater t p" "\<lambda>_. True" for t p
  by unfold_locales (auto simp: noLater_def)

section \<open>Every request keeps to its route\<close>

text \<open>The commands a request may give: none unless it carries the token, those of its route otherwise.\<close>

definition requestCommand :: "'d agent_config \<Rightarrow> agent_request \<Rightarrow> string list \<Rightarrow> bool" where
  "requestCommand cfg rq args =
     (authorized cfg rq \<and>
      (if aq_pathname rq = ''/healthz'' then args = [''version'', ''--format'', ''{{.Server.Version}}'']
       else case matchSessionRoute (aq_method rq) (aq_pathname rq) of
              None \<Rightarrow> False
            | Some (sid, r) \<Rightarrow> routeCommand sid r args))"

definition requestForward :: "'d agent_config \<Rightarrow> agent_request \<Rightarrow> forwarded_request \<Rightarrow> bool" where
  "requestForward cfg rq f =
     (authorized cfg rq \<and>
      (\<exists>sid p. matchSessionRoute (aq_method rq) (aq_pathname rq) = Some (sid, ProxyRoute p) \<and>
        fo_method f = aq_method rq \<and> fo_path f = p @ aq_search rq) \<and>
      fo_headers f = filter (\<lambda>(k, v). k \<notin> set HOP_HEADERS) (aq_headers rq))"

lemma passOn_since:
  assumes "Q f"
  shows "yields (since w0 P Q) (\<lambda>_. True) (passOn f)"
  unfolding passOn_def
  by (rule yields_call) (use assms in \<open>auto simp: since_def Let_def split: agent_answer.split\<close>)

lemma proxyRequest_since:
  assumes "authorized cfg rq" and m: "matchSessionRoute (aq_method rq) (aq_pathname rq) = Some (sid, ProxyRoute p)"
    and "\<And>args. readsOf sid args \<Longrightarrow> P args"
  shows "yields (since w0 P (requestForward cfg rq)) (\<lambda>_. True) (proxyRequest sid p rq)"
proof -
  have "yields (since w0 P (requestForward cfg rq)) (\<lambda>_. True)
     (passOn \<lparr>fo_port = port, fo_method = aq_method rq, fo_path = p @ aq_search rq,
        fo_headers = filter (\<lambda>(k, v). k \<notin> set HOP_HEADERS) (aq_headers rq)\<rparr>)" for port
    by (rule passOn_since) (use assms in \<open>simp add: requestForward_def\<close>)
  then show ?thesis
    unfolding proxyRequest_def by (intro history.agent_rules history.resolvePublishedPort_kept assms(3))
qed

lemma handle_since: "yields (since w0 (requestCommand cfg rq) (requestForward cfg rq)) (\<lambda>_. True) (handle cfg rq)"
proof (cases "authorized cfg rq \<and> aq_pathname rq \<noteq> ''/healthz'' \<and>
    matchSessionRoute (aq_method rq) (aq_pathname rq) \<noteq> None")
  case True
  then obtain sid r where m: "matchSessionRoute (aq_method rq) (aq_pathname rq) = Some (sid, r)" by auto
  have c: "requestCommand cfg rq args" if "routeCommand sid r args" for args
    using True that by (simp add: requestCommand_def m)
  then have "requestCommand cfg rq args" if "readsOf sid args" for args
    using that by (simp add: routeCommand_def)
  moreover have "yields (since w0 (requestCommand cfg rq) (requestForward cfg rq)) (\<lambda>_. True)
      (dispatchRoute cfg sid r body)" for body
    by (rule history.dispatch_kept) (rule c)
  ultimately show ?thesis using True
    by (cases r) (auto simp: handle_def m intro!: history.agent_rules proxyRequest_since)
next
  case False
  then consider "\<not> authorized cfg rq" | "authorized cfg rq" "aq_pathname rq = ''/healthz''"
    | "authorized cfg rq" "matchSessionRoute (aq_method rq) (aq_pathname rq) = None" by blast
  then show ?thesis
  proof cases
    case 2
    have "yields (since w0 (requestCommand cfg rq) (requestForward cfg rq)) (\<lambda>_. True) healthz"
      unfolding healthz_def by (intro history.agent_rules) (use 2 in \<open>simp add: requestCommand_def\<close>)
    with 2 show ?thesis by (auto simp: handle_def intro!: history.agent_rules)
  next
    case 3
    then show ?thesis
      by (cases "aq_pathname rq = ''/healthz''")
        (auto simp: handle_def healthz_def requestCommand_def intro!: history.agent_rules)
  qed (simp add: handle_def yields_return)
qed

end
