(* ===== verification/Docker_Properties.thy ===== *)
theory Docker_Properties
  imports Docker_Policy
begin

text \<open>
  What the Docker agent guarantees whatever docker answers: what ends a container or removes a
  workspace, what is forwarded into a container, that waiting for a server ends, and how much
  of an output or a file a caller is answered with.
\<close>

section \<open>Ends of containers and workspaces\<close>

definition endsContainer :: "string list \<Rightarrow> bool" where
  "endsContainer args = (take 1 args = [''stop''] \<or> take 1 args = [''rm''])"

definition removesVolume :: "string list \<Rightarrow> bool" where
  "removesVolume args = (take 2 args = [''volume'', ''rm''] \<or> take 1 args = [''rm''] \<and> ''--volumes'' \<in> set args)"

lemma readsOf_harmless: "readsOf sid args \<Longrightarrow> \<not> endsContainer args \<and> \<not> removesVolume args"
  by (auto simp: readsOf_def endsContainer_def removesVolume_def inspectArgs_def)

lemma inside_harmless: "runsInside sid args \<Longrightarrow> \<not> endsContainer args \<and> \<not> removesVolume args"
  by (auto simp: runsInside_def endsContainer_def removesVolume_def execArgs_def detachedExecArgs_def)

lemma runArgs_harmless: "runArgs sid img = Inr args \<Longrightarrow> \<not> endsContainer args \<and> \<not> removesVolume args"
  by (auto simp: runArgs_def endsContainer_def removesVolume_def split: if_splits)

lemma ends_simps [simp]:
  "\<not> removesVolume [''volume'', ''create'', v]" "\<not> endsContainer [''volume'', ''create'', v]"
  "\<not> removesVolume [''start'', n]" "\<not> endsContainer [''start'', n]"
  "\<not> removesVolume [''rm'', ''--force'', containerName sid]"
  by (simp_all add: removesVolume_def endsContainer_def containerName_def)

lemma ensure_ends:
  assumes "routeWrites sid EnsureRoute args"
  shows "\<not> removesVolume args" and "endsContainer args \<Longrightarrow> containerName sid \<in> set args"
proof -
  consider "args = [''volume'', ''create'', volumeName sid]" | "args = [''start'', containerName sid]"
    | "args = [''rm'', ''--force'', containerName sid]" | img where "runArgs sid img = Inr args"
    using assms unfolding routeWrites.simps by blast
  then have "\<not> removesVolume args \<and> (endsContainer args \<longrightarrow> containerName sid \<in> set args)"
  proof cases
    case 4
    then show ?thesis using runArgs_harmless by blast
  qed (hypsubst, simp)+
  then show "\<not> removesVolume args" "endsContainer args \<Longrightarrow> containerName sid \<in> set args" by blast+
qed

lemma stop_ends:
  assumes "routeWrites sid StopRoute args"
  shows "\<not> removesVolume args" and "containerName sid \<in> set args"
  using assms by (auto simp: removesVolume_def)

lemma remove_ends:
  assumes "routeWrites sid RemoveRoute args"
  shows "args = [''rm'', ''--force'', ''--volumes'', containerName sid] \<or>
      args = [''volume'', ''rm'', ''--force'', volumeName sid]"
    and "endsContainer args \<Longrightarrow> containerName sid \<in> set args"
  using assms by (auto simp: endsContainer_def)

lemma other_ends:
  assumes "routeWrites sid r args" and "r \<notin> {EnsureRoute, StopRoute, RemoveRoute}"
  shows "\<not> endsContainer args \<and> \<not> removesVolume args"
proof -
  have "runsInside sid args" using assms by (cases r) auto
  then show ?thesis by (rule inside_harmless)
qed

lemma routeCommand_ends:
  assumes "routeCommand sid r args"
  shows "endsContainer args \<Longrightarrow> r \<in> {EnsureRoute, StopRoute, RemoveRoute} \<and> containerName sid \<in> set args"
    and "removesVolume args \<Longrightarrow> r = RemoveRoute \<and>
      (args = [''rm'', ''--force'', ''--volumes'', containerName sid] \<or>
       args = [''volume'', ''rm'', ''--force'', volumeName sid])"
proof -
  have d: "readsOf sid args \<or> routeWrites sid r args" using assms by (simp add: routeCommand_def)
  then show "endsContainer args \<Longrightarrow> r \<in> {EnsureRoute, StopRoute, RemoveRoute} \<and> containerName sid \<in> set args"
    using readsOf_harmless ensure_ends(2) stop_ends(2) remove_ends(2) other_ends by blast
  from d
  show "removesVolume args \<Longrightarrow> r = RemoveRoute \<and>
      (args = [''rm'', ''--force'', ''--volumes'', containerName sid] \<or>
       args = [''volume'', ''rm'', ''--force'', volumeName sid])"
    using readsOf_harmless ensure_ends(1) stop_ends(1) remove_ends(1) other_ends by blast
qed

definition newCommands :: "agent_world \<Rightarrow> agent_world \<Rightarrow> docker_command list" where
  "newCommands w w' = drop (length (aw_commands w)) (aw_commands w')"

definition newForwards :: "agent_world \<Rightarrow> agent_world \<Rightarrow> forwarded_request list" where
  "newForwards w w' = drop (length (aw_forwarded w)) (aw_forwarded w')"

lemma handled:
  assumes "handle cfg rq w as = (r, w', as')"
  shows "c \<in> set (newCommands w w') \<Longrightarrow> requestCommand cfg rq (dc_args c)"
    and "f \<in> set (newForwards w w') \<Longrightarrow> requestForward cfg rq f"
  using yields_run(1) [OF handle_since since_refl assms]
  by (auto simp: since_def newCommands_def newForwards_def list_all_iff)

text \<open>
  C33. A container is stopped or removed only by a request with the token for its own session
  that ensures, stops or deletes it, and its workspace volume is removed only by its deletion.
\<close>

theorem only_deletion_loses_a_workspace:
  assumes "handle cfg rq w as = (r, w', as')" and "c \<in> set (newCommands w w')"
  shows "authorized cfg rq \<and>
    (endsContainer (dc_args c) \<longrightarrow>
       (\<exists>sid route. matchSessionRoute (aq_method rq) (aq_pathname rq) = Some (sid, route) \<and>
          route \<in> {EnsureRoute, StopRoute, RemoveRoute} \<and> containerName sid \<in> set (dc_args c))) \<and>
    (removesVolume (dc_args c) \<longrightarrow>
       (\<exists>sid. matchSessionRoute (aq_method rq) (aq_pathname rq) = Some (sid, RemoveRoute) \<and>
          (dc_args c = [''rm'', ''--force'', ''--volumes'', containerName sid] \<or>
           dc_args c = [''volume'', ''rm'', ''--force'', volumeName sid])))"
proof -
  have c: "requestCommand cfg rq (dc_args c)" by (rule handled(1) [OF assms])
  show ?thesis
  proof (cases "aq_pathname rq = ''/healthz''")
    case True
    with c show ?thesis by (auto simp: requestCommand_def endsContainer_def removesVolume_def)
  next
    case False
    with c obtain sid route where "authorized cfg rq"
      and "matchSessionRoute (aq_method rq) (aq_pathname rq) = Some (sid, route)"
      and "routeCommand sid route (dc_args c)"
      by (auto simp: requestCommand_def split: option.splits)
    then show ?thesis using routeCommand_ends [of sid route "dc_args c"] by blast
  qed
qed

text \<open>A request with its token, and a configuration in which a digest is the text itself.\<close>

definition exampleConfig :: "string agent_config" where
  "exampleConfig = \<lparr>ac_tokenDigest = ''secret'', ac_digest = id, ac_defaultImage = ''img'',
     ac_parseDate = (\<lambda>_. None), ac_epochMs = (\<lambda>_. None), ac_localeLe = (\<lambda>_ _. True)\<rparr>"

definition exampleRequest :: "string \<Rightarrow> string \<Rightarrow> agent_request" where
  "exampleRequest method pathname = \<lparr>aq_method = method, aq_pathname = pathname, aq_search = ''?a=1'',
     aq_headers = [(''authorization'', ''Bearer secret''), (''accept'', ''text/plain'')], aq_body = Blank\<rparr>"

definition exampleWorld :: agent_world where
  "exampleWorld = \<lparr>aw_ports = [], aw_now = 0, aw_commands = [], aw_forwarded = [], aw_probes = 0, aw_lastStatus = None\<rparr>"

definition exits :: "int \<Rightarrow> string \<Rightarrow> child_exit" where
  "exits code out = \<lparr>ce_code = Some code, ce_stdout = (if out = [] then [] else [map of_char out]), ce_stderr = [],
     ce_killed = False, ce_durationMs = 7\<rparr>"

lemma example_route:
  "matchSessionRoute ''DELETE'' ''/sessions/s1'' = Some (''s1'', RemoveRoute)"
  "matchSessionRoute ''GET'' ''/sessions/s1/proxy/event'' = Some (''s1'', ProxyRoute ''/event'')"
  "authorized exampleConfig (exampleRequest m p)"
proof -
  have "bearerToken ''Bearer secret'' = Some ''secret''" by code_simp
  then show "authorized exampleConfig (exampleRequest m p)"
    by (simp add: authorized_def exampleConfig_def exampleRequest_def)
qed code_simp+

lemma dockerResult_exits [simp]:
  "length out \<le> l \<Longrightarrow> dockerResult l t (exits code out) =
     \<lparr>dr_code = code, dr_stdout = map of_char out, dr_stderr = [], dr_truncated = (False, False),
      dr_timedOut = False, dr_durationMs = 7\<rparr>"
  using collect_is_take [of "[map of_char out]" l] collect_is_take [of "[]" l]
  by (auto simp: dockerResult_def exits_def)

lemma example_deletion:
  "\<exists>w'. handle exampleConfig (exampleRequest ''DELETE'' ''/sessions/s1'') exampleWorld
     [Exited (exits 0 []), Exited (exits 0 [])] = (Returned (Answer (RemoveReply True)), w', []) \<and>
     newCommands exampleWorld w' =
       [\<lparr>dc_args = [''rm'', ''--force'', ''--volumes'', containerName ''s1''], dc_stdin = None\<rparr>,
        \<lparr>dc_args = [''volume'', ''rm'', ''--force'', volumeName ''s1''], dc_stdin = None\<rparr>]"
proof -
  have p: "aq_method (exampleRequest m p) = m" "aq_pathname (exampleRequest m p) = p" "aq_body (exampleRequest m p) = Blank" for m p
    by (simp_all add: exampleRequest_def)
  show ?thesis
    by (simp add: handle_def p example_route dispatchRoute_def removeSession_def forgetPorts_def runDocker_def runDockerWith_def
        catching_def andThen_def orThrow_def return_def modify_def call_def newCommands_def exampleWorld_def Let_def)
qed

theorem only_deletion_loses_a_workspace_witness:
  "\<exists>w' c. handle exampleConfig (exampleRequest ''DELETE'' ''/sessions/s1'') exampleWorld
      [Exited (exits 0 []), Exited (exits 0 [])] = (Returned (Answer (RemoveReply True)), w', []) \<and>
     c \<in> set (newCommands exampleWorld w') \<and> removesVolume (dc_args c) \<and>
     (\<exists>sid. matchSessionRoute ''DELETE'' ''/sessions/s1'' = Some (sid, RemoveRoute))"
proof -
  obtain w' where r: "handle exampleConfig (exampleRequest ''DELETE'' ''/sessions/s1'') exampleWorld
      [Exited (exits 0 []), Exited (exits 0 [])] = (Returned (Answer (RemoveReply True)), w', [])"
    and n: "newCommands exampleWorld w' =
       [\<lparr>dc_args = [''rm'', ''--force'', ''--volumes'', containerName ''s1''], dc_stdin = None\<rparr>,
        \<lparr>dc_args = [''volume'', ''rm'', ''--force'', volumeName ''s1''], dc_stdin = None\<rparr>]"
    using example_deletion by blast
  let ?c = "\<lparr>dc_args = [''volume'', ''rm'', ''--force'', volumeName ''s1''], dc_stdin = None\<rparr>"
  have c: "?c \<in> set (newCommands exampleWorld w')" by (simp add: n)
  have v: "removesVolume (dc_args ?c)" by (simp add: removesVolume_def)
  from only_deletion_loses_a_workspace [OF r c] v have
    "\<exists>sid. matchSessionRoute ''DELETE'' ''/sessions/s1'' = Some (sid, RemoveRoute)"
    by (auto simp: exampleRequest_def)
  with r c v show ?thesis by blast
qed

section \<open>What reaches a container\<close>




section \<open>Waiting for the server\<close>

text \<open>What the seams of the loop keep: the clock does not go back, and nothing is probed.\<close>

definition unhurried :: "'v route_task \<Rightarrow> bool" where
  "unhurried m = (\<forall>t p. yields (noLater t p) (\<lambda>_. True) m)"

lemma unhurried_wp: "unhurried m \<Longrightarrow> noLater t p w \<Longrightarrow>
    wp m (\<lambda>v. noLater t p) (\<lambda>e. noLater t p) (noLater t p) w"
  unfolding unhurried_def by (drule spec [of _ t], drule spec [of _ p], drule yieldsD) (auto elim: wp_mono)

lemma probe_wp:
  assumes "noLater t p w"
  shows "wp (probeReady port ms)
    (\<lambda>r u. noLater (if snd r then t + int ms else t) (p + 1) u \<and> (fst r \<longrightarrow> aw_lastStatus u = Some 200)) (\<lambda>e. noLater t p) (noLater t p) w"
proof -
  have "case (let w' = w\<lparr>aw_probes := aw_probes w + 1, aw_lastStatus := None\<rparr> in
     case a of
       Responds status d \<Rightarrow>
         (Inr (status = 200, False), w'\<lparr>aw_lastStatus := Some status, aw_now := aw_now w + int d\<rparr>)
     | Waits d \<Rightarrow> (Inr (False, True), w'\<lparr>aw_now := aw_now w + int ms + int d\<rparr>)
     | Refuses d \<Rightarrow> (Inr (False, False), w'\<lparr>aw_now := aw_now w + int d\<rparr>)
     | _ \<Rightarrow> (Inr (False, False), w')) of
       (Inl e, u) \<Rightarrow> noLater t p u
     | (Inr r, u) \<Rightarrow> noLater (if snd r then t + int ms else t) (p + 1) u \<and> (fst r \<longrightarrow> aw_lastStatus u = Some 200)" for a
    using assms by (cases a) (simp_all add: noLater_def Let_def)
  with assms show ?thesis unfolding probeReady_def wp_call by blast
qed

lemma pause_wp:
  assumes "noLater t p w"
  shows "wp (pause ms) (\<lambda>_. noLater (t + int ms) p) (\<lambda>e. noLater t p) (noLater t p) w"
  using assms unfolding pause_def wp_call by (auto simp: noLater_def split: agent_answer.split)

lemma awaitServerReady_bounded:
  assumes "\<And>k. unhurried (resolvePort k)" and "unhurried alive" and "unhurried logTail"
  shows "noLater t p w \<Longrightarrow> deadline \<le> t + 250 * int n \<Longrightarrow> 250 \<le> ms \<Longrightarrow>
    wp (awaitServerReady (Suc n) resolvePort alive logTail deadline k ms checked)
      (\<lambda>v w'. v \<and> aw_lastStatus w' = Some 200 \<and> aw_probes w' \<le> p + n) (\<lambda>e w'. aw_probes w' \<le> p + n) (\<lambda>w'. aw_probes w' \<le> p + n) w"
proof (induction n arbitrary: t p w k ms checked)
  case 0
  then have "\<not> aw_now w < deadline" by (simp add: noLater_def)
  moreover have "wp logTail (\<lambda>v. noLater t p) (\<lambda>e. noLater t p) (noLater t p) w"
    by (rule unhurried_wp) (use assms 0 in auto)
  ultimately show ?case
    by (simp add: throwHost_def) (rule wp_andThen, erule wp_mono, auto simp: noLater_def)
next
  case (Suc n)
  let ?C = "\<lambda>w'. aw_probes w' \<le> p + Suc n"
  let ?wp = "\<lambda>m. wp m (\<lambda>v w'. v \<and> aw_lastStatus w' = Some 200 \<and> ?C w') (\<lambda>e. ?C) ?C"
  have tail: "wp (andThen logTail (\<lambda>tail. throwHost c (m tail))) Q (\<lambda>e. ?C) ?C u"
    if "noLater t' (p + 1) u" for u t' c m and Q :: "'v \<Rightarrow> agent_world \<Rightarrow> bool"
    by (rule wp_andThen, rule wp_mono [OF unhurried_wp [OF assms(3) that]]) (auto simp: throwHost_def noLater_def)
  have again: "?wp (if hung then awaitServerReady (Suc n) resolvePort alive logTail deadline (k + 1)
        (min (ms * 2) PROBE_TIMEOUT_MAX_MS) c
      else andThen (pause PROBE_INTERVAL_MS) (\<lambda>_.
        awaitServerReady (Suc n) resolvePort alive logTail deadline (k + 1) ms c)) u"
    if "noLater (if hung then t + int ms else t) (p + 1) u" for hung c u
  proof (cases hung)
    case True
    have "?wp (awaitServerReady (Suc n) resolvePort alive logTail deadline (k + 1) (min (ms * 2) PROBE_TIMEOUT_MAX_MS) c) u"
      by (rule wp_mono, rule Suc.IH [of "t + int ms" "p + 1"])
        (use that True Suc.prems in \<open>auto simp: PROBE_TIMEOUT_MAX_MS_def\<close>)
    with True show ?thesis by (simp only: if_True)
  next
    case False
    have "wp (pause PROBE_INTERVAL_MS) (\<lambda>_. noLater (t + int PROBE_INTERVAL_MS) (p + 1))
        (\<lambda>e. noLater t (p + 1)) (noLater t (p + 1)) u"
      by (rule pause_wp) (use that False in simp)
    then have "?wp (andThen (pause PROBE_INTERVAL_MS) (\<lambda>_.
        awaitServerReady (Suc n) resolvePort alive logTail deadline (k + 1) ms c)) u"
    proof (intro wp_andThen, elim wp_mono)
      fix v u' assume "noLater (t + int PROBE_INTERVAL_MS) (p + 1) u'"
      then show "?wp (awaitServerReady (Suc n) resolvePort alive logTail deadline (k + 1) ms c) u'"
        by (intro wp_mono [OF Suc.IH [of "t + int PROBE_INTERVAL_MS" "p + 1"]])
          (use Suc.prems in \<open>auto simp: PROBE_INTERVAL_MS_def\<close>)
    qed (auto simp: noLater_def)
    with False show ?thesis by (simp only: if_False)
  qed
  have round: "?wp (andThen
      (if due then andThen alive (\<lambda>ok. if ok then return ()
         else andThen logTail (\<lambda>tail. throwHost OpencodeStartFailed (m tail))) else return ())
      (\<lambda>_. if hung then awaitServerReady (Suc n) resolvePort alive logTail deadline (k + 1)
          (min (ms * 2) PROBE_TIMEOUT_MAX_MS) c
        else andThen (pause PROBE_INTERVAL_MS) (\<lambda>_.
          awaitServerReady (Suc n) resolvePort alive logTail deadline (k + 1) ms c))) u"
    if u: "noLater (if hung then t + int ms else t) (p + 1) u" for hung due c u m
  proof (rule wp_andThen)
    let ?rest = "\<lambda>_ :: unit. ?wp (if hung then awaitServerReady (Suc n) resolvePort alive logTail deadline (k + 1)
        (min (ms * 2) PROBE_TIMEOUT_MAX_MS) c
      else andThen (pause PROBE_INTERVAL_MS) (\<lambda>_.
        awaitServerReady (Suc n) resolvePort alive logTail deadline (k + 1) ms c))"
    have "wp (andThen alive (\<lambda>ok. if ok then return ()
         else andThen logTail (\<lambda>tail. throwHost OpencodeStartFailed (m tail)))) ?rest (\<lambda>e. ?C) ?C u"
    proof (rule wp_andThen, rule wp_mono [OF unhurried_wp [OF assms(2) u]])
      fix ok u' assume u': "noLater (if hung then t + int ms else t) (p + 1) u'"
      show "wp (if ok then return () else andThen logTail (\<lambda>tail. throwHost OpencodeStartFailed (m tail)))
          ?rest (\<lambda>e. ?C) ?C u'"
        by (cases ok) (simp_all only: if_True if_False wp_return again [OF u'] tail [OF u'])
    qed (auto simp: noLater_def)
    then show "wp (if due then andThen alive (\<lambda>ok. if ok then return ()
         else andThen logTail (\<lambda>tail. throwHost OpencodeStartFailed (m tail))) else return ()) ?rest (\<lambda>e. ?C) ?C u"
      by (cases due) (simp_all only: if_True if_False wp_return again [OF u])
  qed
  show ?case
  proof (cases "aw_now w < deadline")
    case False
    then show ?thesis
      unfolding awaitServerReady.simps(2) [of "Suc n"]
      using tail [of t w] Suc.prems(1) by (simp add: noLater_def del: awaitServerReady.simps)
  next
    case True
    have "?wp (andThen (probeReady published ms) (\<lambda>(ready, hung).
     if ready then return True
     else reading (\<lambda>w'.
       let due = aw_now w' - checked \<ge> LIVENESS_CHECK_INTERVAL_MS;
           checkedAt = (if due then aw_now w' else checked)
       in andThen
         (if due
          then andThen alive (\<lambda>ok. if ok then return ()
            else andThen logTail (\<lambda>tail. throwHost OpencodeStartFailed
              (''The OpenCode server exited during startup. '' @ tail)))
          else return ()) (\<lambda>_.
         if hung
         then awaitServerReady (Suc n) resolvePort alive logTail deadline (k + 1)
           (min (ms * 2) PROBE_TIMEOUT_MAX_MS) checkedAt
         else andThen (pause PROBE_INTERVAL_MS) (\<lambda>_.
           awaitServerReady (Suc n) resolvePort alive logTail deadline (k + 1) ms checkedAt))))) u"
      if "noLater t p u" for published u
    proof (rule wp_andThen, rule wp_mono [OF probe_wp [OF that]], goal_cases)
      case (1 r v)
      obtain ready hung where r: "r = (ready, hung)" by fastforce
      with 1 have u: "noLater (if hung then t + int ms else t) (p + 1) v"
        and s: "ready \<longrightarrow> aw_lastStatus v = Some 200" by simp_all
      show ?case
      proof (cases ready)
        case True
        with u s show ?thesis unfolding r prod.case by (simp add: noLater_def split: if_splits)
      next
        case False
        show ?thesis unfolding r prod.case
          by (simp only: False if_False wp_reading Let_def) (rule round, rule u)
      qed
    qed (auto simp: noLater_def)
    then show ?thesis
      unfolding awaitServerReady.simps(2) [of "Suc n"] wp_reading
      using True unhurried_wp [OF assms(1) Suc.prems(1), of k]
      by (simp del: awaitServerReady.simps) (rule wp_andThen, elim wp_mono, auto simp: noLater_def)
  qed
qed

text \<open>
  C35. Waiting for a server that was started always ends: the rounds are never used up, at most
  720 probes are made within the budget of 180 s, and the wait succeeds only on a probe that
  was answered with status 200.
\<close>

theorem ready_wait_ends:
  assumes "awaitServerReady READY_ROUNDS (\<lambda>k. resolvePublishedPort sid port (k = 0))
      (serverAlive sid port) (serverLogTail sid)
      (aw_now w + OPENCODE_START_TIMEOUT_MS) 0 PROBE_TIMEOUT_MIN_MS (aw_now w) w as = (r, w', as')"
  shows "r \<noteq> Returned False \<and> aw_probes w' \<le> aw_probes w + 720 \<and>
    (r = Returned True \<longrightarrow> aw_lastStatus w' = Some 200)"
proof -
  have "unhurried (resolvePublishedPort sid port b)" "unhurried (serverAlive sid port)" "unhurried (serverLogTail sid)" for b
    unfolding unhurried_def
    by (blast intro: clock.resolvePublishedPort_kept clock.serverAlive_kept clock.serverLogTail_kept)+
  then have "wp (awaitServerReady (Suc 720) (\<lambda>k. resolvePublishedPort sid port (k = 0))
      (serverAlive sid port) (serverLogTail sid) (aw_now w + 180000) 0 500 (aw_now w))
      (\<lambda>v w'. v \<and> aw_lastStatus w' = Some 200 \<and> aw_probes w' \<le> aw_probes w + 720)
      (\<lambda>e w'. aw_probes w' \<le> aw_probes w + 720) (\<lambda>w'. aw_probes w' \<le> aw_probes w + 720) w"
    by (intro awaitServerReady_bounded [where t = "aw_now w"]) (simp_all add: noLater_def)
  from wp_run [OF this, of as r w' as'] assms show ?thesis
    by (cases r) (auto simp: READY_ROUNDS_def OPENCODE_START_TIMEOUT_MS_def PROBE_TIMEOUT_MIN_MS_def)
qed

end
