(* ===== verification/Docker_Outputs.thy ===== *)
theory Docker_Outputs
  imports Docker_Properties
begin

text \<open>
  What a caller of the Docker agent is answered with: how a command ended, the bytes of a file,
  the entries of a directory, and that a running container is left alone. A witness evaluates
  each route on the answers of one command.
\<close>

section \<open>How a command ended\<close>

lemma run_one:
  "runDocker args t w (Exited e # as) =
     (Returned (dockerResult EXEC_OUTPUT_LIMIT_BYTES t e),
      w\<lparr>aw_commands := aw_commands w @ [\<lparr>dc_args = args, dc_stdin = None\<rparr>],
        aw_now := aw_now w + int (ce_durationMs e)\<rparr>, as)"
  by (simp add: runDocker_def runDockerWith_def call_def Let_def)



definition exitCode :: "child_exit \<Rightarrow> int" where
  "exitCode e = (case ce_code e of None \<Rightarrow> -1 | Some c \<Rightarrow> c)"

definition whole :: "bytes list \<Rightarrow> bool" where
  "whole chunks = (\<forall>c \<in> set chunks. c \<noteq> [])"

text \<open>The head of a stream that is kept.\<close>

definition head :: "bytes list \<Rightarrow> bytes" where
  "head chunks = take EXEC_OUTPUT_LIMIT_BYTES (concat chunks)"

lemma dockerResult_head:
  assumes "whole (ce_stdout e)" and "whole (ce_stderr e)"
  shows "dr_code (dockerResult EXEC_OUTPUT_LIMIT_BYTES t e) = exitCode e"
    and "dr_stdout (dockerResult EXEC_OUTPUT_LIMIT_BYTES t e) = head (ce_stdout e)"
    and "dr_stderr (dockerResult EXEC_OUTPUT_LIMIT_BYTES t e) = head (ce_stderr e)"
    and "dr_timedOut (dockerResult EXEC_OUTPUT_LIMIT_BYTES t e) \<longleftrightarrow> t > 0 \<and> ce_killed e"
    and "dr_durationMs (dockerResult EXEC_OUTPUT_LIMIT_BYTES t e) = int (ce_durationMs e)"
  using assms collect_is_take [of "ce_stdout e" EXEC_OUTPUT_LIMIT_BYTES]
    collect_is_take [of "ce_stderr e" EXEC_OUTPUT_LIMIT_BYTES]
  by (simp_all add: dockerResult_def Let_def exitCode_def head_def whole_def)





section \<open>The bytes of a file\<close>

lemma inContainer_one:
  "inContainer sid script t w (Exited e # as) =
     (Returned (dockerResult EXEC_OUTPUT_LIMIT_BYTES (t + CLI_SLACK_MS) e),
      w\<lparr>aw_commands := aw_commands w @ [\<lparr>dc_args = execArgs sid script (helperOptions t), dc_stdin = None\<rparr>],
        aw_now := aw_now w + int (ce_durationMs e)\<rparr>, as)"
  by (simp add: inContainer_def run_one)

lemma read_head:
  assumes "requiredString body ''path'' = Inr path" and "ce_code e = Some 0"
    and "whole (ce_stdout e)" and "whole (ce_stderr e)"
  shows "fst (readSessionFile sid body w (Exited e # as)) = Returned (ReadReply (decodeFileContent (head (ce_stdout e))))"
proof -
  have "exitCode e = 0" using assms(2) by (simp add: exitCode_def)
  then show ?thesis
    by (simp add: readSessionFile_def assms(1) orThrow_def inContainer_one dockerResult_head [OF assms(3,4)]
        assertContainerReached_def andThen_def return_def)
qed

text \<open>
  C37. A file of at most two mebibytes that is text, or has a zero byte, is answered so that the
  caller gets back exactly its bytes.
\<close>

theorem a_file_reads_back:
  assumes "requiredString body ''path'' = Inr path" and "ce_code e = Some 0"
    and "whole (ce_stdout e)" and "whole (ce_stderr e)"
    and "concat (ce_stdout e) = file" and "length file \<le> EXEC_OUTPUT_LIMIT_BYTES" and "list_all (\<lambda>b. b < 256) file"
    and "0 \<in> set file \<or> (\<exists>t. list_all scalar t \<and> file = utf8Encode t)"
  shows "\<exists>c. fst (readSessionFile sid body w (Exited e # as)) = Returned (ReadReply c) \<and>
    contentBytes c = Some (map char_of file)"
proof -
  have "head (ce_stdout e) = file" using assms(5,6) by (simp add: head_def)
  with read_head [OF assms(1-4)]
  have "fst (readSessionFile sid body w (Exited e # as)) = Returned (ReadReply (decodeFileContent file))" by simp
  moreover have "contentBytes (decodeFileContent file) = Some (map char_of file)"
  proof (cases "decodeFileContent file")
    case (Utf8Content t)
    then have "0 \<notin> set file" "t = utf8Decode file" by (auto simp: decodeFileContent_def split: if_splits)
    with assms(8) have "utf8Encode t = file" using utf8_decode_encode by auto
    then show ?thesis using Utf8Content by simp
  next
    case (Base64Content s)
    then show ?thesis using content_base64 assms(7) by blast
  qed
  ultimately show ?thesis by blast
qed

theorem a_file_reads_back_witness:
  "\<exists>c. fst (readSessionFile ''s1'' [(''path'', JStr ''/f'')] exampleWorld
      [Exited (exits 0 ''hello'')]) = Returned (ReadReply c) \<and> contentBytes c = Some ''hello''"
proof -
  have "utf8Encode [104, 101, 108, 108, 111] = [104, 101, 108, 108, 111]"
    by (simp add: utf8Units_def)
  moreover have "list_all scalar [104, 101, 108, 108, 111]" by (simp add: scalar_def)
  ultimately have "\<exists>t. list_all scalar t \<and> [104, 101, 108, 108, 111] = utf8Encode t" by metis
  then have "\<exists>c. fst (readSessionFile ''s1'' [(''path'', JStr ''/f'')] exampleWorld [Exited (exits 0 ''hello'')]) =
      Returned (ReadReply c) \<and> contentBytes c = Some (map char_of [104, 101, 108, 108, 111 :: nat])"
    by (intro a_file_reads_back [of _ "''/f''"])
      (simp_all add: requiredString_def exits_def whole_def EXEC_OUTPUT_LIMIT_BYTES_def)
  moreover have "map char_of [104, 101, 108, 108, 111 :: nat] = ''hello''" by code_simp
  ultimately show ?thesis by (simp only:)
qed

text \<open>A longer file is answered as its first two mebibytes, with nothing that says so.\<close>

lemma a_long_file_is_cut:
  assumes "requiredString body ''path'' = Inr path" and "ce_code e = Some 0"
    and "whole (ce_stdout e)" and "whole (ce_stderr e)"
  shows "fst (readSessionFile sid body w (Exited e # as)) =
    Returned (ReadReply (decodeFileContent (take EXEC_OUTPUT_LIMIT_BYTES (concat (ce_stdout e)))))"
  using read_head [OF assms] by (simp add: head_def)

text \<open>What is written as base64 is fed to the container byte by byte.\<close>

lemma lenient_encode: "n < 64 \<Longrightarrow> lenientSextet (encodeSextet n) = Some n"
proof -
  assume "n < 64"
  moreover have "list_all (\<lambda>n. lenientSextet (encodeSextet n) = Some n) [0..<64]" by code_simp
  ultimately show ?thesis by (simp add: list_all_iff)
qed

lemma bufferFrom_base64:
  assumes "list_all (\<lambda>b. b < 256) bs"
  shows "bufferFrom Base64File (base64Of bs) = bs"
proof -
  have "lenientSextet (CHR ''='') = None" by code_simp
  then have p: "List.map_filter lenientSextet (padding n) = []" for n by (simp add: padding_def map_filter_simps)
  have m: "list_all (\<lambda>n. n < 64) ns \<Longrightarrow> List.map_filter lenientSextet (map encodeSextet ns) = ns" for ns
    by (induction ns) (simp_all add: map_filter_simps lenient_encode)
  have a: "List.map_filter lenientSextet (xs @ ys) = List.map_filter lenientSextet xs @ List.map_filter lenientSextet ys"
    for xs ys by (simp add: List.map_filter_def)
  have "map of_char (map char_of bs) = bs" using assms by (induction bs) simp_all
  then show ?thesis
    using sextetsOf_bound [OF assms] bytesOf_sextetsOf [OF assms]
    by (simp add: bufferFrom_def base64Of_sextets a m p)
qed

section \<open>The entries of a directory\<close>

record found_entry =
  fe_kind :: string
  fe_size :: nat
  fe_mtime :: string
  fe_name :: string

definition printed :: "found_entry \<Rightarrow> string" where
  "printed f = findRecord (fe_kind f) (fe_size f) (fe_mtime f) (fe_name f)"

text \<open>
  A listing is the directory: every entry that \<open>find\<close> prints, with its name as it is, tabs
  and line breaks included, its type and its size, in the order of the names; no name can add
  or hide another entry.
\<close>

theorem a_listing_reads_back:
  assumes "\<forall>f \<in> set entries. tab \<notin> set (fe_kind f) \<and> tab \<notin> set (fe_mtime f) \<and> nul \<notin> set (printed f)"
  shows "parseListing epochMs le (concat (map (\<lambda>f. printed f @ [nul]) entries)) True =
    sortBy (\<lambda>l r. le (fi_name l) (fi_name r))
      (map (\<lambda>f. \<lparr>fi_name = fe_name f, fi_type = findType (fe_kind f), fi_size = fe_size f,
          fi_modifiedAt = epochToIso epochMs (fe_mtime f)\<rparr>) entries)"
proof -
  have "split_on nul (concat (map (\<lambda>r. r @ [nul]) (map printed entries))) = map printed entries @ [[]]"
    by (rule split_records) (use assms in auto)
  then have s: "split_on nul (concat (map (\<lambda>f. printed f @ [nul]) entries)) = map printed entries @ [[]]"
    by (simp add: comp_def)
  have e: "listingEntry epochMs True [] = None" by (simp add: listingEntry_def)
  have "List.map_filter (listingEntry epochMs True) (map printed entries @ [[]]) =
      map (\<lambda>f. \<lparr>fi_name = fe_name f, fi_type = findType (fe_kind f), fi_size = fe_size f,
          fi_modifiedAt = epochToIso epochMs (fe_mtime f)\<rparr>) entries"
    using assms
    by (induction entries) (simp_all add: map_filter_simps e printed_def listingEntry_record)
  then show ?thesis by (simp add: parseListing_def s)
qed

theorem a_listing_reads_back_witness:
  "parseListing (\<lambda>_. None) (\<lambda>a b. True)
     (concat (map (\<lambda>f. printed f @ [nul])
       [\<lparr>fe_kind = ''f'', fe_size = 12, fe_mtime = ''1'', fe_name = ''a'' @ [tab, newline] @ ''b''\<rparr>])) True =
   [\<lparr>fi_name = ''a'' @ [tab, newline] @ ''b'', fi_type = EFile, fi_size = 12, fi_modifiedAt = None\<rparr>]"
proof -
  let ?f = "\<lparr>fe_kind = ''f'', fe_size = 12, fe_mtime = ''1'', fe_name = ''a'' @ [tab, newline] @ ''b''\<rparr>"
  have "decimal 12 = ''12''" by code_simp
  then have "nul \<notin> set (printed ?f)" by (simp add: printed_def findRecord_def)
  then have "\<forall>f \<in> set [?f]. tab \<notin> set (fe_kind f) \<and> tab \<notin> set (fe_mtime f) \<and> nul \<notin> set (printed f)"
    by simp
  from a_listing_reads_back [OF this, of "\<lambda>_. None" "\<lambda>a b. True"] show ?thesis
    by (simp add: sortBy_def findType_def epochToIso_def)
qed

section \<open>A running container\<close>

text \<open>
  Ensuring a session whose volume is there and whose container runs starts, stops and
  replaces nothing, whatever image is asked for: the agent looks twice and says so.
\<close>

theorem a_running_container_is_left_alone:
  assumes "ce_code v = Some 0" and "ce_code i = Some 0" and "whole (ce_stdout i)" and "whole (ce_stderr i)"
    and "ss_running (parseInspect (ac_parseDate cfg) (textOf (head (ce_stdout i))))"
  shows "\<exists>w'. ensureSession cfg sid img w (Exited v # Exited i # as) = (Returned (EnsureReply False False), w', as) \<and>
    newCommands w w' =
      [\<lparr>dc_args = [''volume'', ''inspect'', volumeName sid], dc_stdin = None\<rparr>,
       \<lparr>dc_args = inspectArgs sid, dc_stdin = None\<rparr>] \<and>
    aw_ports w' = aw_ports w"
proof -
  have v: "dr_code (dockerResult EXEC_OUTPUT_LIMIT_BYTES t v) = 0" for t
    using assms(1) by (simp add: dockerResult_def Let_def)
  note i = dockerResult_head [OF assms(3,4)]
  have c: "exitCode i = 0" using assms(2) by (simp add: exitCode_def)
  show ?thesis
    by (simp add: ensureSession_def ensureVolume_def inspectContainer_def bootContainer_def isUp_def andThen_def run_one v i c
        assms(5) return_def newCommands_def Let_def)
qed

theorem a_running_container_is_left_alone_witness:
  "\<exists>w'. ensureSession exampleConfig ''s1'' (Some ''other'') exampleWorld
      [Exited (exits 0 []), Exited (exits 0 (''running'' @ [tab] @ ''true''))] = (Returned (EnsureReply False False), w', []) \<and>
    length (newCommands exampleWorld w') = 2"
proof -
  let ?out = "[114, 117, 110, 110, 105, 110, 103, 9, 116, 114, 117, 101 :: nat]"
  have "parseInspect (\<lambda>_. None) (textOf ?out) =
     \<lparr>ss_running = True, ss_startedAt = None, ss_changedAt = None, ss_exitCode = None, ins_status = ''running'', ins_image = []\<rparr>"
    by code_simp
  moreover have "head (ce_stdout (exits 0 (''running'' @ [tab] @ ''true''))) = ?out"
    by (simp add: head_def exits_def EXEC_OUTPUT_LIMIT_BYTES_def)
  ultimately have "ss_running (parseInspect (ac_parseDate exampleConfig)
      (textOf (head (ce_stdout (exits 0 (''running'' @ [tab] @ ''true''))))))"
    by (simp add: exampleConfig_def)
  then show ?thesis
    using a_running_container_is_left_alone [of "exits 0 []" "exits 0 (''running'' @ [tab] @ ''true'')" exampleConfig
        "''s1''" "Some ''other''" exampleWorld "[]"]
    by (fastforce simp: exits_def whole_def)
qed

section \<open>A server that is ready at once\<close>

theorem ready_wait_ends_witness:
  "\<exists>w'. awaitServerReady READY_ROUNDS (\<lambda>k. resolvePublishedPort ''s1'' 4096 (k = 0))
      (serverAlive ''s1'' 4096) (serverLogTail ''s1'')
      (aw_now exampleWorld + OPENCODE_START_TIMEOUT_MS) 0 PROBE_TIMEOUT_MIN_MS (aw_now exampleWorld) exampleWorld
      [Exited (exits 0 ''127.0.0.1:49154''), Responds 200 3] = (Returned True, w', []) \<and>
     aw_probes w' \<le> aw_probes exampleWorld + 720 \<and> aw_lastStatus w' = Some 200"
proof -
  have "parsePublishedPort (textOf [49, 50, 55, 46, 48, 46, 48, 46, 49, 58, 52, 57, 49, 53, 52]) = Some 49154" by code_simp
  moreover have r: "READY_ROUNDS = Suc 720" by (simp add: READY_ROUNDS_def)
  ultimately have "\<exists>w'. awaitServerReady READY_ROUNDS (\<lambda>k. resolvePublishedPort ''s1'' 4096 (k = 0))
      (serverAlive ''s1'' 4096) (serverLogTail ''s1'')
      (aw_now exampleWorld + OPENCODE_START_TIMEOUT_MS) 0 PROBE_TIMEOUT_MIN_MS (aw_now exampleWorld) exampleWorld
      [Exited (exits 0 ''127.0.0.1:49154''), Responds 200 3] = (Returned True, w', [])"
    unfolding r awaitServerReady.simps
    by (simp add: resolvePublishedPort_def askPort_def rememberPort_def probeReady_def run_one andThen_def return_def
        modify_def call_def reading_def exampleWorld_def Let_def EXEC_OUTPUT_LIMIT_BYTES_def OPENCODE_START_TIMEOUT_MS_def)
  then obtain w' where run: "awaitServerReady READY_ROUNDS (\<lambda>k. resolvePublishedPort ''s1'' 4096 (k = 0))
      (serverAlive ''s1'' 4096) (serverLogTail ''s1'')
      (aw_now exampleWorld + OPENCODE_START_TIMEOUT_MS) 0 PROBE_TIMEOUT_MIN_MS (aw_now exampleWorld) exampleWorld
      [Exited (exits 0 ''127.0.0.1:49154''), Responds 200 3] = (Returned True, w', [])" by blast
  with ready_wait_ends [OF run] show ?thesis by blast
qed

end
