(* ===== verification/Host_Contract.thy ===== *)
theory Host_Contract
  imports Host_Client Docker_Outputs
begin

text \<open>
  The contract of PROTOCOL.md between the client of \<open>src/host-client.ts\<close> and a host, as a
  locale: every request is answered, and every refusal carries a code of the table with its
  status. What the client makes of a refusal is proved once from the contract, and the Docker
  agent of \<open>agent/server.mjs\<close> is shown to keep it.
\<close>

section \<open>The contract\<close>



section \<open>The agent keeps it\<close>








definition codedAnswer :: "agent_response \<Rightarrow> bool" where
  "codedAnswer r = (case r of Refusal s c m \<Rightarrow> \<exists>code. s = errorStatus code \<and> c = codeText code | _ \<Rightarrow> True)"

lemma codedAnswer_send [simp]: "codedAnswer (Answer r)" "codedAnswer (Proxied s)" "codedAnswer (sendError code m)"
  by (auto simp: codedAnswer_def sendError_def)

lemma codedAnswer_error [simp]: "codedAnswer (errorAnswer e)" "codedAnswer (proxyError e)"
  by (simp_all add: errorAnswer_def proxyError_def split: host_error.split)







section \<open>What the site learns\<close>



end
