(* ===== verification/Spec2Isabelle.thy ===== *)
theory Spec2Isabelle
  imports Lifecycle_Properties Session_Agent_Properties Session_Properties Hub_Properties
    Request_Validation Model_Catalog Activity_Properties Session_Events Workspace_Files
    Provider_Runtime Repo_Catalog Sandbox_Purge Sandbox_Gate_Properties
    Session_Changes_Properties Runtime_Ops_Properties Settings_Api_Properties Access_Properties
    Session_Routes_Properties Session_Lock Host_Contract
begin

text \<open>
  A verification library for the cloud agents worker: a Cloudflare Worker (\<open>src/\<close>) that runs
  coding sessions in containers. A session belongs to a container (an instance); the worker
  keeps a registry of sessions, one coordinator per container that decides when it runs, one
  agent per session that holds its prompt queue, and a Hub that deletes and cleans up.

  Parts and how they interact

  Lifecycle. \<open>src/lifecycle.ts\<close>, \<open>src/lifecycle-policy.ts\<close>. \<open>Lifecycle_State\<close> holds the state
  record of the \<open>LifecycleCoordinator\<close> and its pure transitions, \<open>Lifecycle_Coordinator\<close> the
  handlers, each cut at every awaited call into the part before it and a continuation;
  \<open>Lifecycle_Steps\<close> is the machine whose steps are those parts, in any interleaving, with
  any answer of the container and with the loss of the object's memory at any moment.
  \<open>Lifecycle_Invariant\<close> proves the invariant of reachable states, \<open>Lifecycle_Spec\<close> states the
  abstract lifecycle and \<open>Lifecycle_Refinement\<close> that every step performs only its
  transitions; \<open>Lifecycle_Properties\<close> has the consequences.

  Sessions. \<open>src/sessions.ts\<close>, \<open>src/instances.ts\<close>. \<open>Session_Model\<close> holds the records, the
  folding of a lifecycle and a queue into the badge of a session, and the validation of
  prompts and attachments; \<open>Session_Properties\<close> their properties. \<open>Js_Text\<close> holds the JSON
  values and the string functions the validators use.

  Prompt queue. \<open>src/session-agent.ts\<close>. \<open>Session_Agent\<close> holds the state of the object and its
  handlers, \<open>Session_Dispatch\<close> the dispatch loop and the machine of all interleavings. The
  object writes back whole records it read before a remote call, so a handler may hold an
  outdated copy; \<open>Session_Agent_Invariant\<close> and \<open>Session_Agent_Liveness\<close> prove what holds on
  executions in which no handler does, and \<open>Session_Agent_Properties\<close> shows runs in which
  one does.

  Registry and Hub. \<open>src/hub-store.ts\<close>, \<open>src/hub-rows.ts\<close>, \<open>src/db/schema.ts\<close>,
  \<open>src/session-runtime-cache.ts\<close> are \<open>Hub_Registry\<close>: a row of the \<open>sessions\<close> table is a
  record, the table a list of rows, each statement a function on it. \<open>src/hub.ts\<close> is
  \<open>Hub_Queue\<close>: the alarm object and the requests that fill its queue. \<open>Hub_Invariant\<close> and
  \<open>Hub_Properties\<close> prove the fencing of attempts, the order of deletion over cleaning, and that
  the queue is never stranded and drains. \<open>Repo_Catalog\<close> is \<open>src/github-catalog.ts\<close> and the
  catalog part of \<open>hub-store.ts\<close>.

  Container object. \<open>src/sandbox.ts\<close>. \<open>Effects\<close> is the language the sequential part is
  written in: a program over a world whose calls are answered by a list of answers, so that
  every call may fail before or after its work was done, or be the last one (\<open>CutOff\<close>: the
  object is gone). \<open>Sandbox_Persistence\<close> writes the checkpoints, the restore and the purge
  in it, with the host of \<open>host/host.ts\<close> and the two buckets as the world;
  \<open>Sandbox_Ledger\<close>, \<open>Sandbox_Persistence_Invariant\<close> and \<open>Sandbox_Checkpoint\<close> prove by
  weakest preconditions what every answer leaves intact, \<open>Sandbox_Persistence_Properties\<close>
  and \<open>Sandbox_Purge\<close> the consequences. Parameters of that world are the service's own key of
  an archive (\<open>archiveName\<close>) and whether it reports a failed restore by an exception
  (\<open>restoreThrows\<close>); storage operations are transactional, a bucket lists a thousand keys at
  a time. \<open>Sandbox_Gate\<close> is the concurrent part: the runtime gate, admission, the drains,
  the turns of wakes and stops and the purge barrier, cut at every awaited call;
  \<open>Sandbox_Gate_Invariant\<close> proves its invariant and \<open>Sandbox_Gate_Properties\<close> what follows.

  Settings and wakes. \<open>Settings_Schema\<close> is \<open>src/settings-schema.ts\<close>: every validator, on
  untrusted JSON, and the table of descriptors. \<open>Settings_Api\<close> is \<open>src/settings.ts\<close> and the
  routes of \<open>src/api-settings.ts\<close>, \<open>Container_Credentials\<close> what a wake derives from the
  settings (\<open>src/container-credentials.ts\<close>). \<open>Settings_Properties\<close> and
  \<open>Settings_Api_Properties\<close> follow a value from the request that stores it to the container,
  the provider catalog and the model catalog that read it, and show what the routes hide.
  \<open>Session_Changes\<close> is \<open>src/session-changes.ts\<close>, \<open>Runtime_Ops\<close> is \<open>src/runtime-ops.ts\<close> in the
  language of \<open>Effects\<close>; \<open>Session_Changes_Properties\<close> has a small reader of shell words,
  against which \<open>Runtime_Ops_Properties\<close> proves what the commands do. Arguments of these
  theories are URL parsing, the UTF-8 decoder, the texts of the built-in skills and of the
  standing instructions, and the generated key pair.

  Access. \<open>Access\<close> is \<open>src/password.ts\<close>, \<open>src/access.ts\<close>, the change of the password in
  \<open>src/api-settings.ts\<close> and the routing of \<open>src/index.ts\<close>, with the requests cut at their
  statements; \<open>Access_Properties\<close> proves who is let in, for every PBKDF2 and every digest, and
  shows a run of two first setups at once. \<open>Base64\<close> is the platform's encoding.

  Routes. \<open>Worker_Calls\<close> is the world of one request (the registry, the bucket, and every call
  it has made on another object) and \<open>src/instance-access.ts\<close> over it. \<open>Session_Routes\<close> and
  \<open>Session_Handlers\<close> are \<open>src/api-sessions.ts\<close>: what a request may carry, the views, every
  handler and the routing; \<open>Instance_Routes\<close> is \<open>src/api-instances.ts\<close> and the routing of
  \<open>src/api-uploads.ts\<close>. They are programs of \<open>Effects\<close>, so each call may answer anything, fail
  before or after its work was done, or be the last. \<open>Session_Routes_Properties\<close> has the locale
  \<open>call_policy\<close>, in which every handler but four is proved once to keep any policy on the calls
  of a request; its interpretations give which requests start a container, what an agent is
  told, and whose history a reader is shown.

  Bucket. \<open>Object_Bucket\<close> is the bucket as its clients use it, listed a page at a time;
  \<open>Transcript_Mirror\<close> is \<open>src/transcript-mirror.ts\<close> (the exported history, with ISO times
  written out) and \<open>Uploads\<close> \<open>src/api-uploads.ts\<close>: one image, the claim of a message's images,
  and the daily sweep.

  Docker hosts. \<open>Host_Protocol\<close> is the contract of \<open>protocol/\<close>: routes, their parser, codes and the
  reading of a body. \<open>Docker_Cli\<close> is \<open>agent/docker.mjs\<close>: the arguments, the scripts and the
  parsers, over bytes (\<open>Utf8\<close> is the platform's decoder). \<open>Docker_Agent\<close> (lifecycle and ports) and
  \<open>Docker_Routes\<close> (primitives, the start of OpenCode, the proxy, the dispatch) are
  \<open>agent/server.mjs\<close> as programs of \<open>Effects\<close>: a docker command is answered by any exit code and
  any output. \<open>Docker_Policy\<close> has the locale \<open>docker_policy\<close>, in which every route is proved
  once to keep any fact its own commands keep; its interpretations are the history of a
  request and the clock. \<open>Docker_Properties\<close> and \<open>Docker_Outputs\<close> have what follows. The loop that
  waits for a server has 721 rounds, proved never to be used up: every round takes 250 ms of
  its 180 s. \<open>Session_Lock\<close> is the chain of the lifecycle calls of one session, as a machine of
  its own. \<open>Host_Client\<close> is \<open>src/host-client.ts\<close>: what each method sends, what is made of a reply,
  which host a session has; it proves that what is asked arrives. \<open>Host_Contract\<close> is the locale
  of what the client needs of a host, interpreted by the agent. \<open>Program_Rules\<close> are the rules by which facts are proved along a program.

  Requests and streams. \<open>Request_Validation\<close> is \<open>src/repos.ts\<close>, \<open>src/http.ts\<close>,
  \<open>src/question-requests.ts\<close> and \<open>src/session-lineage.ts\<close>; \<open>Model_Catalog\<close> is
  \<open>src/model-catalog.ts\<close>; \<open>Activity\<close> and \<open>Activity_Properties\<close> are \<open>src/opencode-activity.ts\<close>,
  whose answer the coordinator's probes carry; \<open>Session_Events\<close> is \<open>src/session-events.ts\<close>;
  \<open>Workspace_Files\<close> is \<open>src/workspace-files.ts\<close>; \<open>Provider_Runtime\<close> is
  \<open>src/sandbox-providers.ts\<close> and \<open>src/instance-runtime.ts\<close>.

  Conventions

  Times are integers of milliseconds. A JSON value is the datatype \<open>json\<close>, its numbers are
  integers, and the text of JSON is parsed by an argument. Characters are those of
  \<open>char\<close> (codes below 256). Remote calls answer by arguments or by the choice of a step. An
  exception is \<open>None\<close>, or \<open>Inl\<close> with the error. Bounds of loops are the code's own: eleven
  hops of a lineage walk, sixty polls of a wake, five pages of a catalog; a queue of n
  sessions drains within six Hub steps for each of them, which is proved and not assumed.

  Not modelled

  The container runtime of Cloudflare, Docker, OpenCode, GitHub and the database engine are
  not part of the sources. Of the sources, the reads the container object answers through
  OpenCode's client, the Cloudflare host but for what a checkpoint needs of it, and the web
  client are left out so far.
\<close>

end
